(* ===== verification/Prelude.thy ===== *)
theory Prelude
  imports Main "HOL-Library.Word" "HOL-Library.AList" "HOL-Library.Multiset"
begin

text \<open>
  Shared vocabulary of the development: the Rust data types the components use
  (strings, hash maps, ordered sets), the error type of the application, and the
  generic lemmas on lists and maps that carry the component proofs.

  \<^item> A Rust \<open>String\<close> is the list of its code points; \<open>str::len\<close> is the UTF-8 length.
  \<^item> A \<open>std::collections::HashMap\<close> is an association list with distinct keys. Its
    list order stands for the unspecified iteration order; the interface of a hash
    map is the locale \<open>hash_map\<close>, interpreted on these operations.
  \<^item> A \<open>BTreeSet\<close> is a strictly ascending list.
\<close>

named_theorems hm_simps "lookup laws of the hash map operations"
named_theorems inv_intros "preservation of data-structure invariants"

subsection \<open>Strings and bytes\<close>

type_synonym rstring = "nat list"
type_synonym byte = "8 word"
type_synonym uuid = "128 word"

text \<open>A string literal of the source.\<close>

definition lit :: "string \<Rightarrow> rstring" where
  "lit s = map of_char s"

text \<open>\<open>char::len_utf8\<close> and \<open>str::len\<close>.\<close>

definition len_utf8 :: "nat \<Rightarrow> nat" where
  "len_utf8 c = (if c < 0x80 then 1 else if c < 0x800 then 2 else if c < 0x10000 then 3 else 4)"

definition str_len :: "rstring \<Rightarrow> nat" where
  "str_len s = sum_list (map len_utf8 s)"

lemma len_utf8_pos [simp]: "0 < len_utf8 c"
  by (simp add: len_utf8_def)

lemma len_utf8_le_4 [simp]: "len_utf8 c \<le> 4"
  by (simp add: len_utf8_def)

lemma str_len_Nil [simp]: "str_len [] = 0"
  by (simp add: str_len_def)

lemma str_len_Cons [simp]: "str_len (c # s) = len_utf8 c + str_len s"
  by (simp add: str_len_def)

lemma length_le_str_len: "length s \<le> str_len s"
proof (induction s)
  case (Cons c s)
  have "1 \<le> len_utf8 c" by (simp add: len_utf8_def)
  with Cons show ?case by simp
qed simp

lemma str_len_0_iff [simp]: "str_len s = 0 \<longleftrightarrow> s = []"
  by (cases s) auto

lemma str_len_ascii: "(\<forall>c\<in>set s. c < 128) \<Longrightarrow> str_len s = length s"
  by (induction s) (auto simp: len_utf8_def)

subsection \<open>Errors\<close>

text \<open>The variants of \<open>AppError\<close> the modelled code constructs. Time windows are
  nanoseconds.\<close>

datatype app_error =
    Unauthorised
  | InternalServerError
  | GenericNotFound
  | UserError rstring
  | NotFound rstring
  | DatabaseError
  | ServerError rstring
  | IncompleteData rstring
  | NoStorageConfigured
  | IntegrityViolation
  | TooManyPersons nat
  | TooManyCandidates nat
  | TooManyCandidateLists nat
  | TooManySubstituteSubmitters nat
  | DuplicateCandidate
  | CandidateSetChanged
  | NotDownloadable
  | Conflict
  | AmbiguousHash
  | TooManyDownloads nat int
  | TooManyEvents nat int
  | EventLimitReached nat
  | EventDecodeError rstring
  | BrpError rstring
  | EmlError rstring
  | PdfError rstring
  | UpstreamError
  | AuthError rstring

type_synonym 'a result = "app_error + 'a"

abbreviation Ok :: "'a \<Rightarrow> 'e + 'a" where "Ok \<equiv> Inr"
abbreviation Err :: "'e \<Rightarrow> 'e + 'a" where "Err \<equiv> Inl"

text \<open>\<open>Result::ok\<close>.\<close>

definition res_ok :: "'e + 'a \<Rightarrow> 'a option" where
  "res_ok r = (case r of Inl _ \<Rightarrow> None | Inr a \<Rightarrow> Some a)"

lemma res_ok_simps [simp]: "res_ok (Inr a) = Some a" "res_ok (Inl e) = None"
  by (simp_all add: res_ok_def)

lemma res_ok_Some [simp]: "res_ok r = Some a \<longleftrightarrow> r = Inr a"
  by (cases r) (auto simp: res_ok_def)

text \<open>The \<open>?\<close> operator.\<close>

definition bind_res :: "'e + 'a \<Rightarrow> ('a \<Rightarrow> 'e + 'b) \<Rightarrow> 'e + 'b" where
  "bind_res r f = (case r of Inl e \<Rightarrow> Inl e | Inr a \<Rightarrow> f a)"

lemma bind_res_simps [simp]:
  "bind_res (Inl e) f = Inl e" "bind_res (Inr a) f = f a"
  by (simp_all add: bind_res_def)

lemma bind_res_eq_Inr: "bind_res r f = Inr b \<longleftrightarrow> (\<exists>a. r = Inr a \<and> f a = Inr b)"
  by (cases r) auto

lemma bind_res_eq_Inl: "bind_res r f = Inl e \<longleftrightarrow> r = Inl e \<or> (\<exists>a. r = Inr a \<and> f a = Inl e)"
  by (cases r) auto

definition ok_or :: "'e \<Rightarrow> 'a option \<Rightarrow> 'e + 'a" where
  "ok_or e x = (case x of None \<Rightarrow> Inl e | Some a \<Rightarrow> Inr a)"

lemma ok_or_simps [simp]: "ok_or e None = Inl e" "ok_or e (Some a) = Inr a"
  by (simp_all add: ok_or_def)

lemma ok_or_eq_iff [simp]:
  "ok_or e x = Inr a \<longleftrightarrow> x = Some a" "ok_or e x = Inl e' \<longleftrightarrow> x = None \<and> e' = e"
  by (auto simp: ok_or_def split: option.splits)

definition is_ok :: "'e + 'a \<Rightarrow> bool" where
  "is_ok r = (case r of Inl _ \<Rightarrow> False | Inr _ \<Rightarrow> True)"

lemma is_ok_simps [simp]: "is_ok (Inl e) = False" "is_ok (Inr a) = True"
  by (simp_all add: is_ok_def)

text \<open>\<open>map(f).collect::<Result<Vec<_>, _>>()\<close>: the first error, or all the values.\<close>

fun collect_res :: "('a \<Rightarrow> 'e + 'b) \<Rightarrow> 'a list \<Rightarrow> 'e + 'b list" where
  "collect_res f [] = Inr []"
| "collect_res f (x # xs) = bind_res (f x) (\<lambda>y. bind_res (collect_res f xs) (\<lambda>ys. Inr (y # ys)))"

lemma collect_res_ok: "(\<And>x. x \<in> set xs \<Longrightarrow> f x = Inr (g x)) \<Longrightarrow> collect_res f xs = Inr (map g xs)"
  by (induction xs) simp_all

lemma collect_res_eq_Inr: "collect_res f xs = Inr ys \<longleftrightarrow> list_all2 (\<lambda>x y. f x = Inr y) xs ys"
  by (induction xs arbitrary: ys) (auto simp: bind_res_eq_Inr list_all2_Cons1)

subsection \<open>Hash maps\<close>

type_synonym ('k, 'v) hmap = "('k \<times> 'v) list"

definition hm_ok :: "('k, 'v) hmap \<Rightarrow> bool" where
  "hm_ok m = distinct (map fst m)"

definition hm_get :: "('k, 'v) hmap \<Rightarrow> 'k \<Rightarrow> 'v option" where
  "hm_get m k = map_of m k"

definition hm_insert :: "'k \<Rightarrow> 'v \<Rightarrow> ('k, 'v) hmap \<Rightarrow> ('k, 'v) hmap" where
  "hm_insert k v m = AList.update k v m"

definition hm_remove :: "'k \<Rightarrow> ('k, 'v) hmap \<Rightarrow> ('k, 'v) hmap" where
  "hm_remove k m = AList.delete k m"

text \<open>\<open>entry(k).and_modify(f)\<close>: the value of \<open>k\<close> is changed when there is one.\<close>

definition hm_modify :: "'k \<Rightarrow> ('v \<Rightarrow> 'v) \<Rightarrow> ('k, 'v) hmap \<Rightarrow> ('k, 'v) hmap" where
  "hm_modify k f m = map (\<lambda>(k', v). (k', if k' = k then f v else v)) m"

text \<open>\<open>values_mut().for_each(f)\<close>.\<close>

definition hm_map_values :: "('v \<Rightarrow> 'v) \<Rightarrow> ('k, 'v) hmap \<Rightarrow> ('k, 'v) hmap" where
  "hm_map_values f m = map (\<lambda>(k, v). (k, f v)) m"

definition hm_values :: "('k, 'v) hmap \<Rightarrow> 'v list" where
  "hm_values m = map snd m"

definition hm_keys :: "('k, 'v) hmap \<Rightarrow> 'k list" where
  "hm_keys m = map fst m"

definition hm_contains :: "('k, 'v) hmap \<Rightarrow> 'k \<Rightarrow> bool" where
  "hm_contains m k = (hm_get m k \<noteq> None)"

definition hm_filter :: "('k \<Rightarrow> 'v \<Rightarrow> bool) \<Rightarrow> ('k, 'v) hmap \<Rightarrow> ('k, 'v) hmap" where
  "hm_filter p m = filter (\<lambda>(k, v). p k v) m"

lemma hm_get_Nil [hm_simps, simp]: "hm_get [] k = None"
  by (simp add: hm_get_def)

lemma hm_get_insert [hm_simps, simp]:
  "hm_get (hm_insert k v m) k' = (if k' = k then Some v else hm_get m k')"
  by (simp add: hm_get_def hm_insert_def update_conv')

lemma hm_get_remove [hm_simps, simp]:
  "hm_get (hm_remove k m) k' = (if k' = k then None else hm_get m k')"
  by (simp add: hm_get_def hm_remove_def delete_conv')

lemma hm_get_modify [hm_simps, simp]:
  "hm_get (hm_modify k f m) k' = (if k' = k then map_option f (hm_get m k') else hm_get m k')"
  by (induction m) (auto simp: hm_get_def hm_modify_def)

lemma hm_get_map_values [hm_simps, simp]:
  "hm_get (hm_map_values f m) k = map_option f (hm_get m k)"
  by (induction m) (auto simp: hm_get_def hm_map_values_def)

lemma hm_ok_Nil [simp]: "hm_ok []"
  by (simp add: hm_ok_def)

lemma hm_ok_insert [inv_intros]: "hm_ok m \<Longrightarrow> hm_ok (hm_insert k v m)"
  by (simp add: hm_ok_def hm_insert_def distinct_update)

lemma hm_ok_remove [inv_intros]: "hm_ok m \<Longrightarrow> hm_ok (hm_remove k m)"
  by (simp add: hm_ok_def hm_remove_def distinct_delete)

lemma map_fst_hm_modify [simp]: "map fst (hm_modify k f m) = map fst m"
  by (induction m) (auto simp: hm_modify_def)

lemma map_fst_hm_map_values [simp]: "map fst (hm_map_values f m) = map fst m"
  by (induction m) (auto simp: hm_map_values_def)

lemma hm_ok_modify [inv_intros]: "hm_ok m \<Longrightarrow> hm_ok (hm_modify k f m)"
  by (simp add: hm_ok_def)

lemma hm_ok_map_values [inv_intros]: "hm_ok m \<Longrightarrow> hm_ok (hm_map_values f m)"
  by (simp add: hm_ok_def)

lemma hm_ok_filter [inv_intros]: "hm_ok m \<Longrightarrow> hm_ok (hm_filter p m)"
  by (induction m) (auto simp: hm_ok_def hm_filter_def)

lemma length_hm_modify [simp]: "length (hm_modify k f m) = length m"
  by (simp add: hm_modify_def)

lemma length_hm_map_values [simp]: "length (hm_map_values f m) = length m"
  by (simp add: hm_map_values_def)

lemma length_hm_insert: "length (hm_insert k v m) = (if hm_contains m k then length m else Suc (length m))"
  by (induction m) (auto simp: hm_insert_def hm_contains_def hm_get_def)

lemma length_hm_insert_le: "length (hm_insert k v m) \<le> Suc (length m)"
  by (simp add: length_hm_insert)

lemma length_hm_remove_le: "length (hm_remove k m) \<le> length m"
  by (simp add: hm_remove_def length_delete_le)

lemma hm_modify_absent: "hm_get m k = None \<Longrightarrow> hm_modify k f m = m"
  by (induction m) (auto simp: hm_get_def hm_modify_def split: if_splits)

lemma in_set_hm_iff: "hm_ok m \<Longrightarrow> (k, v) \<in> set m \<longleftrightarrow> hm_get m k = Some v"
  by (simp add: hm_ok_def hm_get_def)

lemma hm_values_iff: "hm_ok m \<Longrightarrow> v \<in> set (hm_values m) \<longleftrightarrow> (\<exists>k. hm_get m k = Some v)"
  by (force simp: hm_values_def in_set_hm_iff [symmetric])

lemma hm_get_in_values: "hm_get m k = Some v \<Longrightarrow> v \<in> set (hm_values m)"
  by (force simp: hm_get_def hm_values_def dest: map_of_SomeD)

lemma hm_contains_keys: "hm_contains m k \<longleftrightarrow> k \<in> set (hm_keys m)"
  by (auto simp: hm_contains_def hm_get_def hm_keys_def map_of_eq_None_iff)

text \<open>The interface of a hash map, as the projections use it: the laws of lookup
  after each update, and that every update keeps the representation well formed.\<close>

locale hash_map =
  fixes inv :: "'m \<Rightarrow> bool"
    and empty :: 'm
    and get :: "'m \<Rightarrow> 'k \<Rightarrow> 'v option"
    and ins :: "'k \<Rightarrow> 'v \<Rightarrow> 'm \<Rightarrow> 'm"
    and rem :: "'k \<Rightarrow> 'm \<Rightarrow> 'm"
    and modi :: "'k \<Rightarrow> ('v \<Rightarrow> 'v) \<Rightarrow> 'm \<Rightarrow> 'm"
  assumes inv_empty: "inv empty"
    and inv_ins: "inv m \<Longrightarrow> inv (ins k v m)"
    and inv_rem: "inv m \<Longrightarrow> inv (rem k m)"
    and inv_modi: "inv m \<Longrightarrow> inv (modi k f m)"
    and get_empty: "get empty k = None"
    and get_ins: "get (ins k v m) k' = (if k' = k then Some v else get m k')"
    and get_rem: "get (rem k m) k' = (if k' = k then None else get m k')"
    and get_modi: "get (modi k f m) k' = (if k' = k then map_option f (get m k') else get m k')"
begin

text \<open>A batch of inserts, as an import performs it, and a batch of conditional
  updates.\<close>

lemma inv_fold_ins: "inv m \<Longrightarrow> inv (fold (\<lambda>x. ins (key x) (val x)) xs m)"
  by (induction xs arbitrary: m) (auto intro: inv_ins)

lemma inv_fold_modi: "inv m \<Longrightarrow> inv (fold (\<lambda>x. modi (key x) (f x)) xs m)"
  by (induction xs arbitrary: m) (auto intro: inv_modi)

lemma get_fold_ins_other:
  "k \<notin> key ` set xs \<Longrightarrow> get (fold (\<lambda>x. ins (key x) (val x)) xs m) k = get m k"
  by (induction xs arbitrary: m) (auto simp: get_ins)

lemma get_fold_ins_none_iff:
  "get (fold (\<lambda>x. ins (key x) (val x)) xs m) k = None \<longleftrightarrow> k \<notin> key ` set xs \<and> get m k = None"
  by (induction xs arbitrary: m) (auto simp: get_ins)

lemma get_fold_ins_distinct:
  "x \<in> set xs \<Longrightarrow> distinct (map key xs) \<Longrightarrow>
    get (fold (\<lambda>x. ins (key x) (val x)) xs m) (key x) = Some (val x)"
  by (induction xs arbitrary: m) (auto simp: get_ins get_fold_ins_other)

lemma get_fold_modi_none_iff:
  "get (fold (\<lambda>x. modi (key x) (f x)) xs m) k = None \<longleftrightarrow> get m k = None"
  by (induction xs arbitrary: m) (auto simp: get_modi)

lemma get_fold_modi_other:
  "k \<notin> key ` set xs \<Longrightarrow> get (fold (\<lambda>x. modi (key x) (f x)) xs m) k = get m k"
  by (induction xs arbitrary: m) (auto simp: get_modi)

lemma get_fold_modi_absent:
  "get m k = None \<Longrightarrow> get (fold (\<lambda>x. modi (key x) (f x)) xs m) k = None"
  by (simp add: get_fold_modi_none_iff)

lemma rem_ins_other: "k \<noteq> k' \<Longrightarrow> get (rem k (ins k' v m)) i = get (ins k' v (rem k m)) i"
  by (auto simp: get_rem get_ins)

end

interpretation hm: hash_map hm_ok "[]" hm_get hm_insert hm_remove hm_modify
  by unfold_locales (auto intro: inv_intros)

subsection \<open>Ordered sets\<close>

text \<open>A \<open>BTreeSet\<close>: its elements in strictly ascending order.\<close>

type_synonym 'a btset = "'a list"

definition bt_ok :: "('a::linorder) btset \<Rightarrow> bool" where
  "bt_ok s = (sorted s \<and> distinct s)"

definition bt_collect :: "('a::linorder) list \<Rightarrow> 'a btset" where
  "bt_collect xs = sort (remdups xs)"

definition bt_union :: "('a::linorder) btset \<Rightarrow> 'a btset \<Rightarrow> 'a btset" where
  "bt_union s t = bt_collect (s @ t)"

lemma set_bt_collect [simp]: "set (bt_collect xs) = set xs"
  by (simp add: bt_collect_def)

lemma bt_ok_collect [simp]: "bt_ok (bt_collect xs)"
  by (simp add: bt_collect_def bt_ok_def)

lemma set_bt_union [simp]: "set (bt_union s t) = set s \<union> set t"
  by (simp add: bt_union_def)

lemma bt_ok_union [simp]: "bt_ok (bt_union s t)"
  by (simp add: bt_union_def)

lemma bt_ok_filter: "bt_ok s \<Longrightarrow> bt_ok (filter P s)"
  using sorted_filter [of "\<lambda>x. x" s P] by (simp add: bt_ok_def)

lemma bt_ok_Nil [simp]: "bt_ok []"
  by (simp add: bt_ok_def)

lemma bt_eqI: "bt_ok s \<Longrightarrow> bt_ok t \<Longrightarrow> set s = set t \<Longrightarrow> s = t"
  by (auto simp: bt_ok_def intro: sorted_distinct_set_unique)

subsection \<open>Lists\<close>

text \<open>\<open>Iterator::position\<close>.\<close>

fun list_position :: "('a \<Rightarrow> bool) \<Rightarrow> 'a list \<Rightarrow> nat option" where
  "list_position p [] = None"
| "list_position p (x # xs) = (if p x then Some 0 else map_option Suc (list_position p xs))"

lemma list_position_SomeD:
  "list_position p xs = Some i \<Longrightarrow> i < length xs \<and> p (xs ! i) \<and> (\<forall>j<i. \<not> p (xs ! j))"
proof (induction xs arbitrary: i)
  case (Cons x xs)
  show ?case
  proof (cases "p x")
    case False
    with Cons.prems obtain k where k: "i = Suc k" "list_position p xs = Some k"
      by auto
    with Cons.IH [OF k(2)] False show ?thesis
      by (auto simp: nth_Cons split: nat.splits)
  qed (use Cons.prems in auto)
qed simp

lemma list_position_None_iff: "list_position p xs = None \<longleftrightarrow> (\<forall>x\<in>set xs. \<not> p x)"
  by (induction xs) auto

text \<open>\<open>Iterator::min_by_key\<close>: the first of the elements with the least key.\<close>

fun min_by_key :: "('a \<Rightarrow> 'b::linorder) \<Rightarrow> 'a list \<Rightarrow> 'a option" where
  "min_by_key f [] = None"
| "min_by_key f (x # xs) = (case min_by_key f xs of
      None \<Rightarrow> Some x
    | Some y \<Rightarrow> Some (if f x \<le> f y then x else y))"

lemma min_by_key_None_iff [simp]: "min_by_key f xs = None \<longleftrightarrow> xs = []"
  by (cases xs) (auto split: option.splits)

lemma min_by_key_SomeD:
  "min_by_key f xs = Some y \<Longrightarrow> y \<in> set xs \<and> (\<forall>x\<in>set xs. f y \<le> f x)"
  by (induction xs arbitrary: y) (force split: option.splits if_splits)+

lemma length_filter_neq:
  "x \<in> set xs \<Longrightarrow> distinct xs \<Longrightarrow> length (filter (\<lambda>y. y \<noteq> x) xs) + 1 = length xs"
proof (induction xs)
  case (Cons y xs)
  show ?case
  proof (cases "y = x")
    case True
    with Cons.prems have "filter (\<lambda>y. y \<noteq> x) xs = xs" by (auto simp: filter_id_conv)
    with True show ?thesis by simp
  qed (use Cons in auto)
qed simp

lemma length_filter_all: "length (filter P xs) = length xs \<longleftrightarrow> (\<forall>x\<in>set xs. P x)"
proof (induction xs)
  case (Cons x xs)
  have "length (filter P xs) \<noteq> Suc (length xs)" using length_filter_le [of P xs] by linarith
  with Cons show ?case by simp
qed simp

lemma find_eq_hd_filter: "find P xs = (case filter P xs of [] \<Rightarrow> None | x # _ \<Rightarrow> Some x)"
  by (induction xs) auto

lemma takeWhile_le_filter:
  "sorted (map f xs) \<Longrightarrow> takeWhile (\<lambda>x. f x \<le> n) xs = filter (\<lambda>x. f x \<le> (n::'a::linorder)) xs"
proof (induction xs)
  case (Cons x xs)
  show ?case
  proof (cases "f x \<le> n")
    case False
    then have "\<forall>y\<in>set xs. \<not> f y \<le> n" using Cons.prems by fastforce
    with False show ?thesis by (simp add: filter_empty_conv)
  qed (use Cons in simp)
qed simp

lemma set_map_filter_iff: "x \<in> set (List.map_filter f xs) \<longleftrightarrow> (\<exists>y\<in>set xs. f y = Some x)"
  by (induction xs) (auto simp: List.map_filter_simps split: option.splits)

end
