(* ===== verification/Domain.thy ===== *)
theory Domain
  imports Prelude
begin

text \<open>
  The domain structures of \<open>src/src/structs\<close> the projections hold: identifiers,
  names, addresses, persons, candidate lists, name authorisations, list submitters
  and the political group, with the accessors the projections and the committee's
  views compute from them. Newtypes around a validated string are the string.

  \<open>ElectoralDistrict\<close> is generated by the build from the election data; a district is
  its position in the generated enum, which is the order the ordered sets use. A
  \<open>chrono\<close> date is its day number, a timestamp its nanoseconds since the epoch.
\<close>

subsection \<open>Identifiers\<close>

text \<open>\<open>id_newtype!\<close>: a UUID with the order of its bytes, which is the numeric order.\<close>

datatype person_id = PersonId (person_uuid: uuid)

instantiation person_id :: linorder
begin

definition less_eq_person_id :: "person_id \<Rightarrow> person_id \<Rightarrow> bool" where
  "less_eq_person_id a b = (person_uuid a \<le> person_uuid b)"

definition less_person_id :: "person_id \<Rightarrow> person_id \<Rightarrow> bool" where
  "less_person_id a b = (person_uuid a < person_uuid b)"

instance
  by standard (auto simp: less_eq_person_id_def less_person_id_def intro: person_id.expand)

end

datatype candidate_list_id = CandidateListId (list_uuid: uuid)

instantiation candidate_list_id :: linorder
begin

definition less_eq_candidate_list_id :: "candidate_list_id \<Rightarrow> candidate_list_id \<Rightarrow> bool" where
  "less_eq_candidate_list_id a b = (list_uuid a \<le> list_uuid b)"

definition less_candidate_list_id :: "candidate_list_id \<Rightarrow> candidate_list_id \<Rightarrow> bool" where
  "less_candidate_list_id a b = (list_uuid a < list_uuid b)"

instance
  by standard (auto simp: less_eq_candidate_list_id_def less_candidate_list_id_def intro: candidate_list_id.expand)

end

datatype stream_id = StreamId (stream_uuid: uuid)

instantiation stream_id :: linorder
begin

definition less_eq_stream_id :: "stream_id \<Rightarrow> stream_id \<Rightarrow> bool" where
  "less_eq_stream_id a b = (stream_uuid a \<le> stream_uuid b)"

definition less_stream_id :: "stream_id \<Rightarrow> stream_id \<Rightarrow> bool" where
  "less_stream_id a b = (stream_uuid a < stream_uuid b)"

instance
  by standard (auto simp: less_eq_stream_id_def less_stream_id_def intro: stream_id.expand)

end

datatype registered_group_id = RegisteredPoliticalGroupId (registered_group_uuid: uuid)

instantiation registered_group_id :: linorder
begin

definition less_eq_registered_group_id :: "registered_group_id \<Rightarrow> registered_group_id \<Rightarrow> bool" where
  "less_eq_registered_group_id a b = (registered_group_uuid a \<le> registered_group_uuid b)"

definition less_registered_group_id :: "registered_group_id \<Rightarrow> registered_group_id \<Rightarrow> bool" where
  "less_registered_group_id a b = (registered_group_uuid a < registered_group_uuid b)"

instance
  by standard (auto simp: less_eq_registered_group_id_def less_registered_group_id_def intro: registered_group_id.expand)

end

datatype omission_id = OmissionId (omission_uuid: uuid)

instantiation omission_id :: linorder
begin

definition less_eq_omission_id :: "omission_id \<Rightarrow> omission_id \<Rightarrow> bool" where
  "less_eq_omission_id a b = (omission_uuid a \<le> omission_uuid b)"

definition less_omission_id :: "omission_id \<Rightarrow> omission_id \<Rightarrow> bool" where
  "less_omission_id a b = (omission_uuid a < omission_uuid b)"

instance
  by standard (auto simp: less_eq_omission_id_def less_omission_id_def intro: omission_id.expand)

end

datatype name_authorisation_id = NameAuthorisationId uuid
datatype list_submitter_id = ListSubmitterId uuid

type_synonym electoral_district = nat
type_synonym timestamp = int
type_synonym naive_date = int
type_synonym event_hash = "byte list"

subsection \<open>Names\<close>

record full_name =
  fn_first_name :: "rstring option"
  fn_last_name :: rstring
  fn_last_name_prefix :: "rstring option"
  fn_initials :: "rstring option"

text \<open>\<open>OptionAsStrExt::is_empty_or_none\<close>.\<close>

definition as_str_or_empty :: "rstring option \<Rightarrow> rstring" where
  "as_str_or_empty s = (case s of None \<Rightarrow> [] | Some t \<Rightarrow> t)"

definition is_empty_or_none :: "rstring option \<Rightarrow> bool" where
  "is_empty_or_none s = (as_str_or_empty s = [])"

lemma is_empty_or_none_simps [simp]:
  "is_empty_or_none None" "is_empty_or_none (Some s) = (s = [])"
  by (simp_all add: is_empty_or_none_def as_str_or_empty_def)

definition last_name_with_prefix :: "full_name \<Rightarrow> rstring" where
  "last_name_with_prefix n = (case fn_last_name_prefix n of
      Some prefix \<Rightarrow> prefix @ lit '' '' @ fn_last_name n
    | None \<Rightarrow> fn_last_name n)"

definition last_name_with_prefix_appended :: "full_name \<Rightarrow> rstring" where
  "last_name_with_prefix_appended n = (case fn_last_name_prefix n of
      Some prefix \<Rightarrow> fn_last_name n @ lit '', '' @ prefix
    | None \<Rightarrow> fn_last_name n)"

definition full_name_display :: "full_name \<Rightarrow> rstring" where
  "full_name_display n = (let last_name = last_name_with_prefix n in
    case (fn_initials n, fn_first_name n) of
      (Some initials, Some first_name) \<Rightarrow>
        last_name @ lit '', '' @ initials @ lit '' ('' @ first_name @ lit '')''
    | (Some initials, None) \<Rightarrow> last_name @ lit '', '' @ initials
    | (None, Some first_name) \<Rightarrow> last_name @ lit '' ('' @ first_name @ lit '')''
    | (None, None) \<Rightarrow> last_name)"

definition initials_with_first_name :: "full_name \<Rightarrow> rstring" where
  "initials_with_first_name n = (case (fn_initials n, fn_first_name n) of
      (Some initials, Some first_name) \<Rightarrow> initials @ lit '' ('' @ first_name @ lit '')''
    | (Some initials, None) \<Rightarrow> initials
    | (None, Some first_name) \<Rightarrow> lit ''('' @ first_name @ lit '')''
    | (None, None) \<Rightarrow> [])"

definition full_name_is_empty :: "full_name \<Rightarrow> bool" where
  "full_name_is_empty n = (fn_initials n = None \<and> fn_last_name n = []
     \<and> is_empty_or_none (fn_last_name_prefix n))"

definition same_person_name :: "full_name \<Rightarrow> full_name \<Rightarrow> bool" where
  "same_person_name a b = (fn_initials a = fn_initials b
     \<and> fn_last_name_prefix a = fn_last_name_prefix b \<and> fn_last_name a = fn_last_name b)"

definition full_name_default :: full_name where
  "full_name_default = \<lparr>fn_first_name = None, fn_last_name = [], fn_last_name_prefix = None,
     fn_initials = None\<rparr>"

subsection \<open>Addresses\<close>

record dutch_address =
  da_street_name :: "rstring option"
  da_house_number :: "rstring option"
  da_house_number_addition :: "rstring option"
  da_locality :: "rstring option"
  da_postal_code :: "rstring option"
  da_known_in_bag :: "bool option"

record international_address =
  ia_street_name :: "rstring option"
  ia_house_number :: "rstring option"
  ia_house_number_addition :: "rstring option"
  ia_locality :: "rstring option"
  ia_state_or_province :: "rstring option"
  ia_postal_code :: "rstring option"
  ia_country :: "rstring option"

datatype address = Dutch dutch_address | International international_address

definition dutch_address_default :: dutch_address where
  "dutch_address_default = \<lparr>da_street_name = None, da_house_number = None,
     da_house_number_addition = None, da_locality = None, da_postal_code = None,
     da_known_in_bag = None\<rparr>"

definition dutch_address_is_empty :: "dutch_address \<Rightarrow> bool" where
  "dutch_address_is_empty a = (is_empty_or_none (da_street_name a)
     \<and> is_empty_or_none (da_house_number a)
     \<and> is_empty_or_none (da_house_number_addition a)
     \<and> is_empty_or_none (da_postal_code a)
     \<and> is_empty_or_none (da_locality a))"

definition international_address_is_empty :: "international_address \<Rightarrow> bool" where
  "international_address_is_empty a = (is_empty_or_none (ia_street_name a)
     \<and> is_empty_or_none (ia_house_number a)
     \<and> is_empty_or_none (ia_house_number_addition a)
     \<and> is_empty_or_none (ia_postal_code a)
     \<and> is_empty_or_none (ia_locality a)
     \<and> is_empty_or_none (ia_state_or_province a)
     \<and> is_empty_or_none (ia_country a))"

definition address_default :: address where
  "address_default = Dutch dutch_address_default"

definition address_is_empty :: "address \<Rightarrow> bool" where
  "address_is_empty a = (case a of
      Dutch d \<Rightarrow> dutch_address_is_empty d
    | International i \<Rightarrow> international_address_is_empty i)"

text \<open>The BAG (the national address register) is an external data set: \<open>address_exists\<close>
  is the lookup of the \<open>bagatel\<close> package, and \<open>as_number\<close> parses the house number.\<close>

definition update_is_known_in_bag ::
  "(rstring \<Rightarrow> nat \<Rightarrow> rstring \<Rightarrow> rstring \<Rightarrow> bool) \<Rightarrow> (rstring \<Rightarrow> nat) \<Rightarrow> dutch_address \<Rightarrow> dutch_address" where
  "update_is_known_in_bag address_exists as_number a =
    (case (da_postal_code a, da_house_number a, da_street_name a, da_locality a) of
      (Some postal_code, Some house_number, Some street_name, Some locality) \<Rightarrow>
        a\<lparr>da_known_in_bag := Some (address_exists postal_code (as_number house_number) street_name locality)\<rparr>
    | _ \<Rightarrow> a\<lparr>da_known_in_bag := None\<rparr>)"

definition dutch_is_unknown :: "dutch_address \<Rightarrow> bool" where
  "dutch_is_unknown a = (da_known_in_bag a = Some False)"

definition address_update_is_known_in_bag ::
  "(rstring \<Rightarrow> nat \<Rightarrow> rstring \<Rightarrow> rstring \<Rightarrow> bool) \<Rightarrow> (rstring \<Rightarrow> nat) \<Rightarrow> address \<Rightarrow> address" where
  "address_update_is_known_in_bag address_exists as_number a = (case a of
      Dutch d \<Rightarrow> Dutch (update_is_known_in_bag address_exists as_number d)
    | International i \<Rightarrow> International i)"

definition address_is_unknown :: "address \<Rightarrow> bool" where
  "address_is_unknown a = (case a of Dutch d \<Rightarrow> dutch_is_unknown d | International _ \<Rightarrow> False)"

subsection \<open>Persons\<close>

datatype gender = Female | Male

datatype bsn_or_none_confirmed = Bsn rstring | NoneConfirmed

datatype place_of_residence = Known rstring | Unknown rstring

fun place_as_str :: "place_of_residence \<Rightarrow> rstring" where
  "place_as_str (Known name) = name"
| "place_as_str (Unknown name) = name"

definition CARIBBEAN_NL_PLACES :: "rstring list" where
  "CARIBBEAN_NL_PLACES = [lit ''Kralendijk'', lit ''Rincon'', lit ''Bonaire'', lit ''Saba'',
     lit ''Sint Eustatius'']"

text \<open>\<open>char::to_ascii_lowercase\<close> and \<open>str::eq_ignore_ascii_case\<close>.\<close>

definition to_ascii_lowercase :: "nat \<Rightarrow> nat" where
  "to_ascii_lowercase c = (if 65 \<le> c \<and> c \<le> 90 then c + 32 else c)"

definition eq_ignore_ascii_case :: "rstring \<Rightarrow> rstring \<Rightarrow> bool" where
  "eq_ignore_ascii_case s t = (map to_ascii_lowercase s = map to_ascii_lowercase t)"

definition is_caribbean_nl :: "place_of_residence \<Rightarrow> bool" where
  "is_caribbean_nl p = list_ex (\<lambda>place. eq_ignore_ascii_case place (place_as_str p)) CARIBBEAN_NL_PLACES"

record personal_data =
  pd_gender :: "gender option"
  pd_bsn :: "bsn_or_none_confirmed option"
  pd_date_of_birth :: "naive_date option"
  pd_place_of_residence :: "place_of_residence option"
  pd_country :: "rstring option"

record representative =
  rep_name :: full_name
  rep_address :: dutch_address

record person =
  p_id :: person_id
  p_name :: full_name
  p_personal_data :: personal_data
  p_address :: dutch_address
  p_representative :: "representative option"
  p_updated_at :: timestamp

definition personal_data_bsn :: "personal_data \<Rightarrow> rstring option" where
  "personal_data_bsn d = (case pd_bsn d of Some (Bsn b) \<Rightarrow> Some b | _ \<Rightarrow> None)"

definition is_nl :: "rstring \<Rightarrow> bool" where
  "is_nl c = (c = lit ''NL'')"

definition lives_in_nl :: "personal_data \<Rightarrow> bool" where
  "lives_in_nl d = (case pd_country d of None \<Rightarrow> True | Some c \<Rightarrow> is_nl c)"

definition needs_representative :: "personal_data \<Rightarrow> bool" where
  "needs_representative d = (\<not> lives_in_nl d
     \<or> (case pd_place_of_residence d of None \<Rightarrow> False | Some p \<Rightarrow> is_caribbean_nl p))"

text \<open>How likely two records describe the same natural person.\<close>

datatype identity_match = Same | Possible | Different

definition identity_match_of :: "person \<Rightarrow> person \<Rightarrow> identity_match" where
  "identity_match_of a b =
    (let bsn = personal_data_bsn (p_personal_data a);
         other_bsn = personal_data_bsn (p_personal_data b)
     in case (bsn, other_bsn) of
       (Some x, Some y) \<Rightarrow> if x = y then Same else Different
     | _ \<Rightarrow>
       if \<not> same_person_name (p_name a) (p_name b) then Different
       else (case (pd_date_of_birth (p_personal_data a), pd_date_of_birth (p_personal_data b)) of
           (Some dob, Some other_dob) \<Rightarrow>
             if dob \<noteq> other_dob then Different
             else if bsn = None \<and> other_bsn = None then Same
             else Possible
         | _ \<Rightarrow> Possible))"

lemma identity_match_sym: "identity_match_of a b = identity_match_of b a"
  by (auto simp: identity_match_of_def Let_def same_person_name_def split: option.splits)

subsection \<open>Candidate lists, name authorisations and submitters\<close>

record candidate_list =
  cl_id :: candidate_list_id
  cl_electoral_districts :: "electoral_district btset"
  cl_candidates :: "person_id list"
  cl_created_at :: timestamp

definition position_of :: "candidate_list \<Rightarrow> person_id \<Rightarrow> nat option" where
  "position_of l p = map_option (\<lambda>i. i + 1) (list_position (\<lambda>c. c = p) (cl_candidates l))"

record name_authorisation =
  na_id :: name_authorisation_id
  na_name :: full_name
  na_legal_name :: rstring

record list_submitter =
  ls_id :: list_submitter_id
  ls_name :: full_name
  ls_address :: address

definition submitter_is_empty :: "list_submitter \<Rightarrow> bool" where
  "submitter_is_empty s = (full_name_is_empty (ls_name s) \<and> address_is_empty (ls_address s))"

text \<open>\<open>ListSubmitter::default()\<close>: its id is a fresh UUID.\<close>

definition list_submitter_default :: "list_submitter_id \<Rightarrow> list_submitter" where
  "list_submitter_default fresh = \<lparr>ls_id = fresh, ls_name = full_name_default,
     ls_address = address_default\<rparr>"

subsection \<open>The political group\<close>

datatype list_designation_kind = KStandalone | KBlank | KCombined

datatype list_designation =
    Standalone "registered_group_id option"
  | Combined "registered_group_id list"
  | Blank

datatype list_designation_repr = Tagged list_designation | Bare list_designation_kind

fun list_designation_of_kind :: "list_designation_kind \<Rightarrow> list_designation" where
  "list_designation_of_kind KStandalone = Standalone None"
| "list_designation_of_kind KCombined = Combined []"
| "list_designation_of_kind KBlank = Blank"

fun list_designation_of_repr :: "list_designation_repr \<Rightarrow> list_designation" where
  "list_designation_of_repr (Tagged (Standalone registration)) = Standalone registration"
| "list_designation_of_repr (Tagged (Combined registrations)) = Combined registrations"
| "list_designation_of_repr (Tagged Blank) = Blank"
| "list_designation_of_repr (Bare kind) = list_designation_of_kind kind"

fun list_designation_kind_of :: "list_designation \<Rightarrow> list_designation_kind" where
  "list_designation_kind_of (Standalone _) = KStandalone"
| "list_designation_kind_of (Combined _) = KCombined"
| "list_designation_kind_of Blank = KBlank"

fun list_designation_registrations :: "list_designation \<Rightarrow> registered_group_id list" where
  "list_designation_registrations (Standalone (Some r)) = [r]"
| "list_designation_registrations (Combined rs) = rs"
| "list_designation_registrations (Standalone None) = []"
| "list_designation_registrations Blank = []"

datatype previous_election_results = ZeroSeats | OneToFifteenSeats | SixteenOrMoreSeats

record political_group =
  pg_appellation :: "rstring option"
  pg_list_designation :: "list_designation option"
  pg_previous_election_results :: "previous_election_results option"

definition political_group_default :: political_group where
  "political_group_default = \<lparr>pg_appellation = None, pg_list_designation = None,
     pg_previous_election_results = None\<rparr>"

definition pg_list_designation_kind :: "political_group \<Rightarrow> list_designation_kind option" where
  "pg_list_designation_kind g = map_option list_designation_kind_of (pg_list_designation g)"

definition pg_is_blank :: "political_group \<Rightarrow> bool" where
  "pg_is_blank g = (pg_list_designation_kind g = Some KBlank)"

definition pg_is_combined :: "political_group \<Rightarrow> bool" where
  "pg_is_combined g = (pg_list_designation_kind g = Some KCombined)"

definition registration_id :: "political_group \<Rightarrow> registered_group_id option" where
  "registration_id g = (case pg_list_designation g of
      Some (Standalone registration) \<Rightarrow> registration
    | _ \<Rightarrow> None)"

definition bind_registration :: "registered_group_id option \<Rightarrow> political_group \<Rightarrow> political_group" where
  "bind_registration registration g = (case (pg_list_designation g, registration) of
      (Some (Standalone _), _) \<Rightarrow> g\<lparr>pg_list_designation := Some (Standalone registration)\<rparr>
    | (None, Some i) \<Rightarrow> g\<lparr>pg_list_designation := Some (Standalone (Some i))\<rparr>
    | _ \<Rightarrow> g)"

definition pg_appellation_document :: "political_group \<Rightarrow> rstring result" where
  "pg_appellation_document g = (if pg_is_blank g then Ok []
     else ok_or (IncompleteData (lit ''Missing appellation'')) (pg_appellation g))"

definition csb_appellation :: "political_group \<Rightarrow> full_name option \<Rightarrow> rstring" where
  "csb_appellation g first_candidate_name =
    (if pg_is_blank g then
       (case first_candidate_name of
         Some name \<Rightarrow> (case fn_initials name of
             Some initials \<Rightarrow>
               lit ''Blanco ('' @ last_name_with_prefix name @ lit '', '' @ initials @ lit '')''
           | None \<Rightarrow> lit ''Blanco ('' @ last_name_with_prefix name @ lit '')'')
       | None \<Rightarrow> lit ''Blanco'')
     else case pg_appellation g of Some name \<Rightarrow> name | None \<Rightarrow> [])"

definition get_max_candidates :: "political_group \<Rightarrow> nat" where
  "get_max_candidates g = (if pg_is_blank g then 50
     else case pg_previous_election_results g of Some SixteenOrMoreSeats \<Rightarrow> 80 | _ \<Rightarrow> 50)"

definition was_previously_seated :: "political_group \<Rightarrow> bool" where
  "was_previously_seated g = (if pg_is_blank g then False
     else case pg_previous_election_results g of None \<Rightarrow> False | Some r \<Rightarrow> r \<noteq> ZeroSeats)"

subsection \<open>Facts about the accessors\<close>

lemma registrations_of_bare_kind [simp]:
  "list_designation_registrations (list_designation_of_kind k) = []"
  "list_designation_kind_of (list_designation_of_kind k) = k"
  by (cases k; simp)+

lemma list_designation_of_tagged [simp]: "list_designation_of_repr (Tagged d) = d"
  by (cases d) simp_all

lemma registration_id_bind:
  "registration_id (bind_registration r g) =
    (case pg_list_designation g of Some (Standalone _) \<Rightarrow> r | None \<Rightarrow> r | _ \<Rightarrow> None)"
  by (auto simp: registration_id_def bind_registration_def split: option.splits list_designation.splits)

lemma pg_is_blank_iff: "pg_is_blank g \<longleftrightarrow> pg_list_designation g = Some Blank"
  by (cases g; cases "pg_list_designation g")
    (auto simp: pg_is_blank_def pg_list_designation_kind_def elim: list_designation_kind_of.elims)

lemma bind_registration_blank [simp]:
  "pg_is_blank (bind_registration r g) \<longleftrightarrow> pg_is_blank g"
  by (auto simp: pg_is_blank_iff bind_registration_def split: option.splits list_designation.splits)

lemma get_max_candidates_cases: "get_max_candidates g \<in> {50, 80}"
  by (auto simp: get_max_candidates_def split: option.splits previous_election_results.splits)

lemma position_of_SomeD:
  assumes "position_of l p = Some i"
  shows "1 \<le> i \<and> i \<le> length (cl_candidates l) \<and> cl_candidates l ! (i - 1) = p"
proof -
  obtain j where j: "list_position (\<lambda>c. c = p) (cl_candidates l) = Some j" "i = j + 1"
    using assms by (auto simp: position_of_def)
  from list_position_SomeD [OF j(1)] j(2) show ?thesis by simp
qed

lemma position_of_None_iff: "position_of l p = None \<longleftrightarrow> p \<notin> set (cl_candidates l)"
  by (auto simp: position_of_def list_position_None_iff)

end
