(* ===== verification/Crypto.thy ===== *)
theory Crypto
  imports Domain
begin

text \<open>
  Envelope encryption of event payloads and the byte strings the hash chain and the
  authentication tags cover (\<open>store/crypto.rs\<close>, \<open>store/encoding.rs\<close>, \<open>store/event.rs\<close>).

  AES-256-GCM, CBOR and SHA-256 are packages the code calls. They are parameters: an
  \<open>aead\<close> is one keyed cipher, a \<open>codec\<close> the CBOR form of one event type. The laws the
  code relies on are the predicates \<open>aead_ok\<close> (opening what was sealed gives the message
  back, and what opens is what sealing the message gives, as GCM recomputes the tag) and
  \<open>codec_ok\<close> (reading back what was written gives the value and leaves no bytes).
  Messages of foreign errors are not modelled; an error carries the source's own text.
\<close>

subsection \<open>Byte strings\<close>

text \<open>\<open>to_le_bytes\<close> of an \<open>n\<close>-byte integer: the two's complement, lowest byte first.\<close>

fun le_bytes :: "nat \<Rightarrow> int \<Rightarrow> byte list" where
  "le_bytes 0 x = []"
| "le_bytes (Suc n) x = word_of_int x # le_bytes n (x div 256)"

lemma length_le_bytes [simp]: "length (le_bytes n x) = n"
  by (induction n arbitrary: x) simp_all

lemma byte_of_int_eq_iff: "(word_of_int x :: byte) = word_of_int y \<longleftrightarrow> x mod 256 = y mod 256"
  by (simp add: word_of_int_eq_iff take_bit_eq_mod)

lemma le_bytes_inj_iff: "le_bytes n x = le_bytes n y \<longleftrightarrow> x mod 256 ^ n = y mod 256 ^ n"
proof (induction n arbitrary: x y)
  case (Suc n)
  have split: "z mod 256 ^ Suc n = 256 * (z div 256 mod 256 ^ n) + z mod 256" for z :: int
    by (simp add: zmod_zmult2_eq)
  have digits: "256 * a + b = 256 * a' + b' \<longleftrightarrow> a = a' \<and> b = b'"
    if "0 \<le> b" "b < 256" "0 \<le> b'" "b' < 256" for a b a' b' :: int
  proof -
    have "(256 * c + d) div 256 = c" if "0 \<le> d" "d < 256" for c d :: int
      using that by simp
    with that show ?thesis by (metis add_left_cancel)
  qed
  have "x mod 256 ^ Suc n = y mod 256 ^ Suc n \<longleftrightarrow>
      x div 256 mod 256 ^ n = y div 256 mod 256 ^ n \<and> x mod 256 = y mod 256"
    unfolding split by (rule digits) simp_all
  then show ?case
    by (simp only: le_bytes.simps list.inject byte_of_int_eq_iff Suc.IH) blast
qed simp

lemma i64_mod_inj:
  fixes a b :: int
  assumes "a mod 256 ^ 8 = b mod 256 ^ 8" "\<bar>a\<bar> < 2 ^ 63" "\<bar>b\<bar> < 2 ^ 63"
  shows "a = b"
proof -
  have "256 ^ 8 dvd a - b" using assms(1) by (simp only: mod_eq_dvd_iff)
  then obtain k where k: "a - b = 256 ^ 8 * k" by (rule dvdE)
  have "\<bar>a - b\<bar> < 256 ^ 8" using assms(2,3) by simp
  then have "\<bar>k\<bar> < 1" unfolding k by (simp add: abs_mult)
  with k show ?thesis by simp
qed

lemma le_bytes_u64_inj:
  "le_bytes 8 (int m) = le_bytes 8 (int n) \<Longrightarrow> m < 2 ^ 64 \<Longrightarrow> n < 2 ^ 64 \<Longrightarrow> m = n"
  by (simp add: le_bytes_inj_iff flip: of_nat_mod)

text \<open>\<open>DateTime::timestamp_micros\<close> of a time in nanoseconds.\<close>

definition timestamp_micros :: "timestamp \<Rightarrow> int" where
  "timestamp_micros t = t div 1000"

subsection \<open>Associated data and chain hash\<close>

definition GENESIS_HASH :: event_hash where
  "GENESIS_HASH = replicate 32 0"

definition event_aad :: "nat \<Rightarrow> timestamp \<Rightarrow> event_hash \<Rightarrow> byte list" where
  "event_aad event_id created_at prev_hash =
     le_bytes 8 (int event_id) @ le_bytes 8 (timestamp_micros created_at) @ prev_hash"

type_synonym hash_fn = "byte list \<Rightarrow> byte list"

definition chain_hash :: "hash_fn \<Rightarrow> event_hash \<Rightarrow> nat \<Rightarrow> timestamp \<Rightarrow> byte list \<Rightarrow> event_hash" where
  "chain_hash sha256 prev_hash event_id created_at body =
     sha256 (prev_hash @ le_bytes 8 (int event_id) @ le_bytes 8 (timestamp_micros created_at) @ body)"

text \<open>The associated data pins the event's number, its time to the microsecond, and its
  predecessor.\<close>

lemma event_aad_inj:
  assumes "event_aad i t h = event_aad i' t' h'" "i < 2 ^ 64" "i' < 2 ^ 64"
    "\<bar>timestamp_micros t\<bar> < 2 ^ 63" "\<bar>timestamp_micros t'\<bar> < 2 ^ 63"
  shows "i = i' \<and> timestamp_micros t = timestamp_micros t' \<and> h = h'"
proof -
  from assms(1) have "le_bytes 8 (int i) = le_bytes 8 (int i')"
    "le_bytes 8 (timestamp_micros t) = le_bytes 8 (timestamp_micros t')" "h = h'"
    by (simp_all add: event_aad_def)
  moreover from this(2) have "timestamp_micros t = timestamp_micros t'"
    unfolding le_bytes_inj_iff by (rule i64_mod_inj [OF _ assms(4,5)])
  ultimately show ?thesis
    using assms(2,3) by (blast dest: le_bytes_u64_inj)
qed

text \<open>What the chain hash covers: with equal hashes, either everything it covers is equal
  or the two byte strings are a collision of the hash function.\<close>

definition chain_input :: "event_hash \<Rightarrow> nat \<Rightarrow> timestamp \<Rightarrow> byte list \<Rightarrow> byte list" where
  "chain_input prev_hash event_id created_at body =
     prev_hash @ le_bytes 8 (int event_id) @ le_bytes 8 (timestamp_micros created_at) @ body"

lemma chain_hash_eq: "chain_hash sha256 h i t b = sha256 (chain_input h i t b)"
  by (simp add: chain_hash_def chain_input_def)

lemma chain_input_inj:
  assumes "chain_input h i t b = chain_input h' i' t' b'" "length h = length h'"
    "i < 2 ^ 64" "i' < 2 ^ 64"
  shows "h = h' \<and> i = i' \<and> b = b'"
  using assms by (auto simp: chain_input_def dest: le_bytes_u64_inj)

subsection \<open>Encoding\<close>

datatype encoding_error = Encode | Decode | TrailingBytes nat

text \<open>The CBOR form of an event type: \<open>cbor_write\<close> is \<open>ciborium::into_writer\<close>,
  \<open>cbor_read\<close> is \<open>ciborium::from_reader\<close>, which leaves the bytes it did not consume.\<close>

record 'e codec =
  cbor_write :: "'e \<Rightarrow> byte list option"
  cbor_read :: "byte list \<Rightarrow> ('e \<times> byte list) option"

definition encode :: "'e codec \<Rightarrow> 'e \<Rightarrow> encoding_error + byte list" where
  "encode cbor v = ok_or Encode (cbor_write cbor v)"

definition decode :: "'e codec \<Rightarrow> byte list \<Rightarrow> encoding_error + 'e" where
  "decode cbor bytes = (case cbor_read cbor bytes of
      None \<Rightarrow> Err Decode
    | Some (v, rest) \<Rightarrow> if rest \<noteq> [] then Err (TrailingBytes (length rest)) else Ok v)"

definition codec_ok :: "'e codec \<Rightarrow> bool" where
  "codec_ok cbor = (\<forall>v bytes. cbor_write cbor v = Some bytes \<longrightarrow> cbor_read cbor bytes = Some (v, []))"

lemma decode_encode: "codec_ok cbor \<Longrightarrow> encode cbor v = Ok bytes \<Longrightarrow> decode cbor bytes = Ok v"
  by (auto simp: codec_ok_def encode_def decode_def)

subsection \<open>Ciphers\<close>

record aead =
  seal :: "byte list \<Rightarrow> byte list \<Rightarrow> byte list \<Rightarrow> byte list option"
  unseal :: "byte list \<Rightarrow> byte list \<Rightarrow> byte list \<Rightarrow> byte list option"

definition aead_ok :: "aead \<Rightarrow> bool" where
  "aead_ok c = (\<forall>nonce aad m ct. seal c nonce aad m = Some ct \<longleftrightarrow> unseal c nonce aad ct = Some m)"

abbreviation NONCE_LEN :: nat where "NONCE_LEN \<equiv> 12"
abbreviation KEY_LEN :: nat where "KEY_LEN \<equiv> 32"

datatype event_decrypt_error = Unreadable rstring | IncompatiblePayload encoding_error

text \<open>\<open>EventCipher::encrypt\<close>; the nonce is drawn from the system's random source.\<close>

definition encrypt :: "aead \<Rightarrow> 'e codec \<Rightarrow> byte list \<Rightarrow> 'e \<Rightarrow> byte list \<Rightarrow> byte list result" where
  "encrypt cipher cbor nonce event aad =
    (case encode cbor event of
      Inl _ \<Rightarrow> Err (ServerError (lit ''invalid data''))
    | Inr plaintext \<Rightarrow> (case seal cipher nonce aad plaintext of
        None \<Rightarrow> Err (ServerError (lit ''aead''))
      | Some ciphertext \<Rightarrow> Ok (nonce @ ciphertext)))"

definition decrypt :: "aead \<Rightarrow> 'e codec \<Rightarrow> byte list \<Rightarrow> byte list \<Rightarrow> event_decrypt_error + 'e" where
  "decrypt cipher cbor data aad =
    (if length data < NONCE_LEN then Err (Unreadable (lit ''ciphertext too short for nonce''))
     else let nonce = take NONCE_LEN data; ciphertext = drop NONCE_LEN data in
       case unseal cipher nonce aad ciphertext of
         None \<Rightarrow> Err (Unreadable (lit ''AES-GCM decrypt failed''))
       | Some plaintext \<Rightarrow> (case decode cbor plaintext of
           Inl e \<Rightarrow> Err (IncompatiblePayload e)
         | Inr event \<Rightarrow> Ok event))"

lemma decrypt_encrypt:
  assumes "aead_ok cipher" "codec_ok cbor" "length nonce = NONCE_LEN"
    and "encrypt cipher cbor nonce event aad = Ok blob"
  shows "decrypt cipher cbor blob aad = Ok event"
proof -
  from assms(4) obtain plaintext ciphertext
    where enc: "encode cbor event = Ok plaintext"
      and sealed: "seal cipher nonce aad plaintext = Some ciphertext"
      and blob: "blob = nonce @ ciphertext"
    by (auto simp: encrypt_def split: sum.splits option.splits)
  from sealed assms(1) have "unseal cipher nonce aad ciphertext = Some plaintext"
    by (simp add: aead_ok_def)
  with enc assms(2,3) blob show ?thesis
    by (simp add: decrypt_def decode_encode)
qed

lemma decrypt_Ok_aad:
  assumes "aead_ok cipher" "decrypt cipher cbor blob aad = Ok event"
  shows "\<exists>plaintext. seal cipher (take NONCE_LEN blob) aad plaintext = Some (drop NONCE_LEN blob)
    \<and> decode cbor plaintext = Ok event"
  using assms by (auto simp: decrypt_def aead_ok_def Let_def split: if_splits option.splits sum.splits)

subsection \<open>Stream keys\<close>

text \<open>\<open>stable_id\<close> is the election's stable identifier as bytes; the UUID's bytes are in
  network order.\<close>

definition uuid_bytes :: "uuid \<Rightarrow> byte list" where
  "uuid_bytes u = rev (le_bytes 16 (uint u))"

definition ascii_bytes :: "string \<Rightarrow> byte list" where
  "ascii_bytes s = map (\<lambda>c. of_nat (of_char c)) s"

definition wrap_aad :: "stream_id \<Rightarrow> byte list \<Rightarrow> byte list" where
  "wrap_aad s election_id = ascii_bytes ''stream-key:'' @ uuid_bytes (stream_uuid s) @
     ascii_bytes '':'' @ election_id"

definition wrap_key :: "aead \<Rightarrow> byte list \<Rightarrow> byte list \<Rightarrow> stream_id \<Rightarrow> byte list \<Rightarrow> byte list result" where
  "wrap_key master nonce key s election_id =
    (case seal master nonce (wrap_aad s election_id) key of
      None \<Rightarrow> Err (ServerError (lit ''aead''))
    | Some buf \<Rightarrow> Ok (nonce @ buf))"

definition unwrap_key :: "aead \<Rightarrow> byte list \<Rightarrow> stream_id \<Rightarrow> byte list \<Rightarrow> byte list result" where
  "unwrap_key master wrapped s election_id =
    (if length wrapped < NONCE_LEN
     then Err (EventDecodeError (lit ''wrapped stream key too short for nonce''))
     else case unseal master (take NONCE_LEN wrapped) (wrap_aad s election_id) (drop NONCE_LEN wrapped) of
         None \<Rightarrow> Err (EventDecodeError (lit ''stream key unwrap failed''))
       | Some buf \<Rightarrow>
           if length buf \<noteq> KEY_LEN then Err (EventDecodeError (lit ''unwrapped stream key length''))
           else Ok buf)"

lemma uuid_bytes_inj: "uuid_bytes a = uuid_bytes b \<Longrightarrow> a = b"
proof -
  assume "uuid_bytes a = uuid_bytes b"
  then have "uint a mod 256 ^ 16 = uint b mod 256 ^ 16"
    by (simp add: uuid_bytes_def le_bytes_inj_iff)
  moreover have "uint x mod 256 ^ 16 = uint x" for x :: uuid
    using uint_bounded [of x] uint_nonnegative [of x] by (simp add: mod_pos_pos_trivial)
  ultimately have "uint a = uint b" by simp
  then show "a = b" by (rule word_uint_eqI)
qed

lemma wrap_aad_inj: "wrap_aad s e = wrap_aad s' e' \<Longrightarrow> s = s' \<and> e = e'"
  by (auto simp: wrap_aad_def uuid_bytes_def intro!: stream_id.expand uuid_bytes_inj)

end
