(* ===== verification/Event_Store.thy ===== *)
theory Event_Store
  imports Crypto
begin

text \<open>
  The event store of \<open>src/src/store\<close>: events and projections (\<open>mod.rs\<close>, \<open>event.rs\<close>),
  the store handle (\<open>store_handle.rs\<close>), replay of encrypted events (\<open>mod.rs\<close>), and the
  PostgreSQL backend for one stream (\<open>database.rs\<close>).

  The trait \<open>StoreData\<close> is a record of its operations, passed to the functions that are
  generic in it; its laws are the locale \<open>store_data\<close>, which each projection interprets.
  A mutation through \<open>&mut\<close> returns the changed value beside the result, also when the
  result is an error: a failed replay keeps the events it applied before it failed.
\<close>

subsection \<open>Scopes\<close>

datatype scope = PoliticalGroup | CentralElectoralCommittee | ImportedByCsb | PreSubmittedToCsb

fun scope_as_str :: "scope \<Rightarrow> rstring" where
  "scope_as_str PoliticalGroup = lit ''political_group''"
| "scope_as_str CentralElectoralCommittee = lit ''central_electoral_committee''"
| "scope_as_str ImportedByCsb = lit ''imported_by_csb''"
| "scope_as_str PreSubmittedToCsb = lit ''pre_submitted_to_csb''"

definition scope_from_str :: "rstring \<Rightarrow> rstring + scope" where
  "scope_from_str s =
    (if s = lit ''political_group'' then Ok PoliticalGroup
     else if s = lit ''central_electoral_committee'' then Ok CentralElectoralCommittee
     else if s = lit ''imported_by_csb'' then Ok ImportedByCsb
     else if s = lit ''pre_submitted_to_csb'' then Ok PreSubmittedToCsb
     else Err (lit ''invalid scope''))"

lemma scope_roundtrip: "scope_from_str (scope_as_str s) = Ok s"
  by (cases s) (simp_all add: scope_from_str_def lit_def)

subsection \<open>Events and projections\<close>

record 'e store_event =
  se_event_id :: nat
  se_payload :: 'e
  se_created_at :: timestamp
  se_hash :: event_hash

record encrypted_event =
  ee_event_id :: nat
  ee_created_at :: timestamp
  ee_hash :: event_hash
  ee_payload :: "byte list"

definition store_event_new_at :: "nat \<Rightarrow> 'e \<Rightarrow> timestamp \<Rightarrow> 'e store_event" where
  "store_event_new_at event_id payload created_at = \<lparr>se_event_id = event_id, se_payload = payload,
     se_created_at = created_at, se_hash = GENESIS_HASH\<rparr>"

text \<open>The operations of a projection type: the required methods of \<open>StoreData\<close>.\<close>

record ('d, 'e) store_data_ops =
  sd_default :: 'd
  sd_apply :: "'e store_event \<Rightarrow> 'd \<Rightarrow> 'd"
  sd_events :: "'d \<Rightarrow> 'e store_event list"
  sd_scope :: scope

definition last_event_id_of :: "'e store_event list \<Rightarrow> nat" where
  "last_event_id_of es = (if es = [] then 0 else se_event_id (last es))"

definition last_event_hash_of :: "'e store_event list \<Rightarrow> event_hash" where
  "last_event_hash_of es = (if es = [] then GENESIS_HASH else se_hash (last es))"

definition last_event_id :: "('d, 'e) store_data_ops \<Rightarrow> 'd \<Rightarrow> nat" where
  "last_event_id ops d = last_event_id_of (sd_events ops d)"

definition last_event_hash :: "('d, 'e) store_data_ops \<Rightarrow> 'd \<Rightarrow> event_hash" where
  "last_event_hash ops d = last_event_hash_of (sd_events ops d)"

definition replay_events :: "('d, 'e) store_data_ops \<Rightarrow> 'e store_event list \<Rightarrow> 'd \<Rightarrow> 'd" where
  "replay_events ops es d = fold (sd_apply ops) es d"

text \<open>The laws of a projection: it starts without events, and applying an event appends
  it to the log.\<close>

definition store_data_laws :: "('d, 'e) store_data_ops \<Rightarrow> bool" where
  "store_data_laws ops = (sd_events ops (sd_default ops) = []
     \<and> (\<forall>e d. sd_events ops (sd_apply ops e d) = sd_events ops d @ [e]))"

locale store_data =
  fixes ops :: "('d, 'e) store_data_ops"
  assumes events_default: "sd_events ops (sd_default ops) = []"
    and events_apply: "sd_events ops (sd_apply ops e d) = sd_events ops d @ [e]"
begin

lemma laws: "store_data_laws ops"
  by (simp add: store_data_laws_def events_default events_apply)

lemma events_replay: "sd_events ops (replay_events ops es d) = sd_events ops d @ es"
  by (induction es arbitrary: d) (simp_all add: replay_events_def events_apply)

lemma last_event_id_default: "last_event_id ops (sd_default ops) = 0"
  by (simp add: last_event_id_def last_event_id_of_def events_default)

lemma last_event_id_apply: "last_event_id ops (sd_apply ops e d) = se_event_id e"
  by (simp add: last_event_id_def last_event_id_of_def events_apply)

lemma last_event_hash_apply: "last_event_hash ops (sd_apply ops e d) = se_hash e"
  by (simp add: last_event_hash_def last_event_hash_of_def events_apply)

text \<open>A projection that is the replay of its own log stays one.\<close>

definition replayed :: "'d \<Rightarrow> bool" where
  "replayed d = (d = replay_events ops (sd_events ops d) (sd_default ops))"

lemma replayed_default: "replayed (sd_default ops)"
  by (simp add: replayed_def events_default replay_events_def)

lemma replayed_apply: "replayed d \<Longrightarrow> replayed (sd_apply ops e d)"
  by (simp add: replayed_def events_apply replay_events_def)

end

subsection \<open>The store handle\<close>

definition apply_event :: "('d, 'e) store_data_ops \<Rightarrow> 'e store_event \<Rightarrow> 'd \<Rightarrow> 'd" where
  "apply_event ops e d = (if last_event_id ops d \<ge> se_event_id e then d else sd_apply ops e d)"

definition apply_persisted_event ::
  "('d, 'e) store_data_ops \<Rightarrow> nat \<Rightarrow> 'e \<Rightarrow> timestamp \<Rightarrow> event_hash \<Rightarrow> 'd \<Rightarrow> 'd" where
  "apply_persisted_event ops event_id payload created_at hash d =
     apply_event ops \<lparr>se_event_id = event_id, se_payload = payload, se_created_at = created_at,
       se_hash = hash\<rparr> d"

subsection \<open>Replay of encrypted events\<close>

record replay =
  rp_chain_tip :: event_hash
  rp_truncated_at :: "nat option"

definition reject_append :: "replay \<Rightarrow> unit result" where
  "reject_append r = (case rp_truncated_at r of
      None \<Rightarrow> Ok ()
    | Some event_id \<Rightarrow> Err (EventDecodeError (lit ''refusing to append to a stream this build cannot fully read'')))"

definition check_expected_event_id :: "nat option \<Rightarrow> nat \<Rightarrow> unit result" where
  "check_expected_event_id expected last_id = (case expected of
      Some n \<Rightarrow> if n \<noteq> last_id then Err Conflict else Ok ()
    | None \<Rightarrow> Ok ())"

text \<open>The cryptographic environment of one stream: hash function, cipher, codec, what
  a timestamp becomes when the database stores it (\<open>timestamptz\<close> keeps microseconds), and
  the compile-time feature \<open>verify-event-hash-chain\<close>.\<close>

record 'e stream_env =
  env_sha256 :: hash_fn
  env_cipher :: aead
  env_cbor :: "'e codec"
  env_db_time :: "timestamp \<Rightarrow> timestamp"
  env_verify_chain :: bool

fun apply_encrypted_loop ::
  "('d, 'e) store_data_ops \<Rightarrow> 'e stream_env \<Rightarrow> 'd \<Rightarrow> event_hash \<Rightarrow> event_hash \<Rightarrow> nat option
    \<Rightarrow> encrypted_event list \<Rightarrow> 'd \<times> replay result" where
  "apply_encrypted_loop ops env data prev_hash chain_tip truncated_at [] =
     (data, Ok \<lparr>rp_chain_tip = chain_tip, rp_truncated_at = truncated_at\<rparr>)"
| "apply_encrypted_loop ops env data prev_hash chain_tip truncated_at (ev # events) =
    (if truncated_at = None \<and> last_event_id ops data \<ge> ee_event_id ev
     then apply_encrypted_loop ops env data prev_hash (ee_hash ev) truncated_at events
     else if env_verify_chain env
       \<and> chain_hash (env_sha256 env) prev_hash (ee_event_id ev) (ee_created_at ev) (ee_payload ev) \<noteq> ee_hash ev
     then (data, Err (EventDecodeError (lit ''hash chain broken'')))
     else
       let aad = event_aad (ee_event_id ev) (ee_created_at ev) prev_hash in
       if truncated_at \<noteq> None
       then apply_encrypted_loop ops env data (ee_hash ev) (ee_hash ev) truncated_at events
       else (case decrypt (env_cipher env) (env_cbor env) (ee_payload ev) aad of
           Inr payload \<Rightarrow>
             apply_encrypted_loop ops env
               (sd_apply ops \<lparr>se_event_id = ee_event_id ev, se_payload = payload,
                  se_created_at = ee_created_at ev, se_hash = ee_hash ev\<rparr> data)
               (ee_hash ev) (ee_hash ev) truncated_at events
         | Inl (Unreadable msg) \<Rightarrow> (data, Err (EventDecodeError msg))
         | Inl (IncompatiblePayload _) \<Rightarrow>
             apply_encrypted_loop ops env data (ee_hash ev) (ee_hash ev) (Some (ee_event_id ev)) events))"

definition apply_encrypted_events ::
  "('d, 'e) store_data_ops \<Rightarrow> 'e stream_env \<Rightarrow> 'd \<Rightarrow> encrypted_event list \<Rightarrow> 'd \<times> replay result" where
  "apply_encrypted_events ops env data events =
     apply_encrypted_loop ops env data (last_event_hash ops data) (last_event_hash ops data) None events"

subsection \<open>The database backend\<close>

text \<open>One stream in the database: its row in \<open>streams\<close> and its rows in \<open>events\<close>, in
  insertion order. \<open>(stream_id, election, event_id)\<close> is the primary key of \<open>events\<close>.\<close>

record db_stream =
  db_last_event_id :: nat
  db_events :: "encrypted_event list"

text \<open>\<open>catch_up\<close>, with the projection as it is when the write lock is taken.
  \<open>last_id\<close> is the number the handle had when it built the query, which an event applied
  in between may have passed.\<close>

definition catch_up ::
  "('d, 'e) store_data_ops \<Rightarrow> 'e stream_env \<Rightarrow> nat \<Rightarrow> db_stream \<Rightarrow> 'd \<Rightarrow> 'd \<times> (nat \<times> replay) result" where
  "catch_up ops env last_id db data =
    (let missing = sort_key ee_event_id (filter (\<lambda>e. ee_event_id e > last_id) (db_events db)) in
     case apply_encrypted_events ops env data missing of
       (data', Inl e) \<Rightarrow> (data', Err e)
     | (data', Inr rp) \<Rightarrow> (data', Ok (db_last_event_id db, rp)))"

definition load_from_database ::
  "('d, 'e) store_data_ops \<Rightarrow> 'e stream_env \<Rightarrow> nat \<Rightarrow> db_stream \<Rightarrow> 'd \<Rightarrow> 'd \<times> unit result" where
  "load_from_database ops env last_id db data =
    (case catch_up ops env last_id db data of
       (data', Inl e) \<Rightarrow> (data', Err e)
     | (data', Inr _) \<Rightarrow> (data', Ok ()))"

definition insert_event ::
  "'e stream_env \<Rightarrow> byte list \<Rightarrow> nat \<Rightarrow> timestamp \<Rightarrow> 'e \<Rightarrow> event_hash \<Rightarrow> db_stream \<Rightarrow> (event_hash \<times> db_stream) result" where
  "insert_event env nonce event_id created_at payload prev_hash db =
    (let aad = event_aad event_id created_at prev_hash in
     bind_res (encrypt (env_cipher env) (env_cbor env) nonce payload aad) (\<lambda>encrypted_payload.
       let hash = chain_hash (env_sha256 env) prev_hash event_id created_at encrypted_payload in
       if event_id \<in> ee_event_id ` set (db_events db) then Err DatabaseError
       else Ok (hash, db\<lparr>
         db_events := db_events db @ [\<lparr>ee_event_id = event_id,
           ee_created_at = env_db_time env created_at, ee_hash = hash, ee_payload = encrypted_payload\<rparr>],
         db_last_event_id := event_id\<rparr>)))"

text \<open>\<open>update_in_database\<close> up to its commit: the projection after \<open>catch_up\<close>, and the
  committed event with the new database.\<close>

definition commit_in_database ::
  "('d, 'e) store_data_ops \<Rightarrow> 'e stream_env \<Rightarrow> nat \<Rightarrow> byte list \<Rightarrow> timestamp \<Rightarrow> 'e \<Rightarrow> nat option
    \<Rightarrow> db_stream \<Rightarrow> 'd \<Rightarrow> 'd \<times> ('e store_event \<times> db_stream) result" where
  "commit_in_database ops env seen nonce now event expected_last_id db data =
    (case catch_up ops env seen db data of
      (data', Inl e) \<Rightarrow> (data', Err e)
    | (data', Inr (last_id, rp)) \<Rightarrow>
        (data',
         bind_res (bind_res (reject_append rp) (\<lambda>_. check_expected_event_id expected_last_id last_id)) (\<lambda>_.
         let next_id = last_id + 1; prev_hash = rp_chain_tip rp in
         bind_res (insert_event env nonce next_id now event prev_hash db) (\<lambda>(hash, db').
           Ok (\<lparr>se_event_id = next_id, se_payload = event, se_created_at = now, se_hash = hash\<rparr>, db')))))"

definition update_in_database ::
  "('d, 'e) store_data_ops \<Rightarrow> 'e stream_env \<Rightarrow> nat \<Rightarrow> byte list \<Rightarrow> timestamp \<Rightarrow> 'e \<Rightarrow> nat option
    \<Rightarrow> db_stream \<Rightarrow> 'd \<Rightarrow> 'd \<times> db_stream \<times> unit result" where
  "update_in_database ops env seen nonce now event expected_last_id db data =
    (case commit_in_database ops env seen nonce now event expected_last_id db data of
      (data', Inl e) \<Rightarrow> (data', db, Err e)
    | (data', Inr (ev, db')) \<Rightarrow>
        (apply_persisted_event ops (se_event_id ev) (se_payload ev) (se_created_at ev) (se_hash ev) data',
         db', Ok ()))"

end
