(* ===== verification/Election.thy ===== *)
theory Election
  imports Domain
begin

text \<open>
  Election configurations (\<open>core/election\<close>): their stable identifiers and the filters over
  an election's districts. The provinces and water councils are generated by the build;
  one is its position in the generated enum, and its code and the lookup of a code are
  parameters.
\<close>

datatype election_config = EK27 | PS27 nat | WS27 nat

text \<open>The generated enums of election domains.\<close>

record domains =
  province_code :: "nat \<Rightarrow> rstring"
  province_from_code :: "rstring \<Rightarrow> nat option"
  water_council_code :: "nat \<Rightarrow> rstring"
  water_council_from_code :: "rstring \<Rightarrow> nat option"

definition domains_ok :: "domains \<Rightarrow> bool" where
  "domains_ok g = ((\<forall>p. province_from_code g (province_code g p) = Some p)
     \<and> (\<forall>w. water_council_from_code g (water_council_code g w) = Some w))"

fun election_code :: "election_config \<Rightarrow> rstring" where
  "election_code EK27 = lit ''EK27''"
| "election_code (PS27 _) = lit ''PS27''"
| "election_code (WS27 _) = lit ''WS27''"

fun domain_code :: "domains \<Rightarrow> election_config \<Rightarrow> rstring option" where
  "domain_code g EK27 = None"
| "domain_code g (PS27 p) = Some (province_code g p)"
| "domain_code g (WS27 w) = Some (water_council_code g w)"

definition stable_id :: "domains \<Rightarrow> election_config \<Rightarrow> rstring" where
  "stable_id g e = (case domain_code g e of
      Some d \<Rightarrow> election_code e @ lit '':'' @ d
    | None \<Rightarrow> election_code e)"

definition from_code_and_domain :: "domains \<Rightarrow> rstring \<Rightarrow> rstring option \<Rightarrow> election_config option" where
  "from_code_and_domain g code domain =
    (if code = lit ''EK27'' then Some EK27
     else if code = lit ''PS27'' then
       map_option PS27 (Option.bind domain (province_from_code g))
     else if code = lit ''WS27'' then
       map_option WS27 (Option.bind domain (water_council_from_code g))
     else None)"

text \<open>\<open>str::split_once\<close> with a character.\<close>

definition split_once :: "nat \<Rightarrow> rstring \<Rightarrow> (rstring \<times> rstring) option" where
  "split_once c s = (if c \<in> set s
     then Some (takeWhile (\<lambda>x. x \<noteq> c) s, tl (dropWhile (\<lambda>x. x \<noteq> c) s)) else None)"

definition from_stable_id :: "domains \<Rightarrow> rstring \<Rightarrow> election_config option" where
  "from_stable_id g v = (case split_once 58 v of
      Some (code, domain) \<Rightarrow> from_code_and_domain g code (Some domain)
    | None \<Rightarrow> from_code_and_domain g v None)"

definition available_districts :: "electoral_district list \<Rightarrow> electoral_district list \<Rightarrow> electoral_district list" where
  "available_districts electoral_districts used = filter (\<lambda>d. d \<notin> set used) electoral_districts"

definition known_districts :: "electoral_district list \<Rightarrow> electoral_district btset \<Rightarrow> electoral_district btset" where
  "known_districts electoral_districts submitted = filter (\<lambda>d. d \<in> set electoral_districts) submitted"

definition contains_all_districts :: "electoral_district list \<Rightarrow> candidate_list \<Rightarrow> bool" where
  "contains_all_districts electoral_districts l =
     list_all (\<lambda>d. d \<in> set (cl_electoral_districts l)) electoral_districts"

lemma split_once_append: "c \<notin> set a \<Longrightarrow> split_once c (a @ c # b) = Some (a, b)"
  by (simp add: split_once_def takeWhile_append dropWhile_append)

lemma election_code_no_colon: "58 \<notin> set (election_code e)"
  by (cases e) (simp_all add: lit_def)

text \<open>The stable id of an election, under which its streams are stored, reads back as
  that election, whatever the codes of the election domains contain.\<close>

theorem stable_id_roundtrip:
  assumes "domains_ok g"
  shows "from_stable_id g (stable_id g e) = Some e"
proof (cases "domain_code g e")
  case None
  then have "e = EK27" by (cases e) simp_all
  then show ?thesis
    by (simp add: from_stable_id_def stable_id_def split_once_def from_code_and_domain_def lit_def)
next
  case (Some d)
  have "split_once 58 (stable_id g e) = Some (election_code e, d)"
    using Some split_once_append [OF election_code_no_colon] by (simp add: stable_id_def lit_def)
  then show ?thesis
    using Some assms by (cases e) (auto simp: from_stable_id_def from_code_and_domain_def domains_ok_def lit_def)
qed

theorem stable_id_roundtrip_witness:
  "from_stable_id \<lparr>province_code = \<lambda>n. replicate n 58, province_from_code = Some \<circ> length,
      water_council_code = \<lambda>n. replicate n 58, water_council_from_code = Some \<circ> length\<rparr>
    (stable_id \<lparr>province_code = \<lambda>n. replicate n 58, province_from_code = Some \<circ> length,
      water_council_code = \<lambda>n. replicate n 58, water_council_from_code = Some \<circ> length\<rparr> (PS27 3)) = Some (PS27 3)"
  by (rule stable_id_roundtrip) (simp add: domains_ok_def)

end
