(* ===== verification/Memory_Backend.thy ===== *)
theory Memory_Backend
  imports Event_Store Election
begin

text \<open>
  The in-memory backend (\<open>store/memory.rs\<close>), its append, and the conditional update with
  retries of \<open>store/persistence.rs\<close>. The shared index is a hash map from
  \<open>(stream, election)\<close> to the stream's scope and event hashes.
\<close>

type_synonym stream_key = "stream_id \<times> election_config"

record stream_entry =
  st_scope :: "scope option"
  st_events :: "(nat \<times> event_hash) list"

type_synonym memory_store = "(stream_key, stream_entry) hmap"

definition stream_entry_default :: stream_entry where
  "stream_entry_default = \<lparr>st_scope = None, st_events = []\<rparr>"

text \<open>\<open>entry(k).or_default()\<close>, then changed.\<close>

definition or_default :: "stream_key \<Rightarrow> memory_store \<Rightarrow> stream_entry" where
  "or_default k m = (case hm_get m k of None \<Rightarrow> stream_entry_default | Some e \<Rightarrow> e)"

definition mem_ensure_stream :: "stream_key \<Rightarrow> scope \<Rightarrow> memory_store \<Rightarrow> memory_store" where
  "mem_ensure_stream k sc m = (let e = or_default k m in
     hm_insert k (case st_scope e of None \<Rightarrow> e\<lparr>st_scope := Some sc\<rparr> | Some _ \<Rightarrow> e) m)"

definition mem_record_event :: "stream_key \<Rightarrow> nat \<Rightarrow> event_hash \<Rightarrow> memory_store \<Rightarrow> memory_store" where
  "mem_record_event k event_id hash m = (let e = or_default k m in
     hm_insert k (e\<lparr>st_events := st_events e @ [(event_id, hash)]\<rparr>) m)"

definition mem_streams_by_scope :: "memory_store \<Rightarrow> scope \<Rightarrow> stream_key list" where
  "mem_streams_by_scope m sc =
     map fst (filter (\<lambda>(_, e). st_scope e = Some sc \<and> st_events e \<noteq> []) m)"

record stream_meta =
  sm_stream_id :: stream_id
  sm_election :: election_config
  sm_event_count :: nat
  sm_created_at :: "timestamp option"
  sm_last_event_at :: "timestamp option"

definition mem_stream_metadata_by_scope :: "memory_store \<Rightarrow> scope \<Rightarrow> stream_meta list" where
  "mem_stream_metadata_by_scope m sc =
     map (\<lambda>((i, el), e). \<lparr>sm_stream_id = i, sm_election = el,
         sm_event_count = foldr max (map fst (st_events e)) 0,
         sm_created_at = None, sm_last_event_at = None\<rparr>)
       (filter (\<lambda>(_, e). st_scope e = Some sc \<and> st_events e \<noteq> []) m)"

definition mem_elections_for_stream :: "memory_store \<Rightarrow> stream_id \<Rightarrow> election_config list" where
  "mem_elections_for_stream m i =
     map (snd \<circ> fst) (filter (\<lambda>((j, _), e). j = i \<and> st_events e \<noteq> []) m)"

text \<open>\<open>find_event_by_hash_prefix\<close>: the loops stop at the second match.\<close>

definition hash_matches :: "byte list \<Rightarrow> event_hash \<Rightarrow> bool" where
  "hash_matches prefix hash = (take (length prefix) hash = prefix)"

definition prefix_candidates :: "memory_store \<Rightarrow> byte list \<Rightarrow> (stream_id \<times> election_config \<times> nat) list" where
  "prefix_candidates m prefix =
     concat (map (\<lambda>((i, el), e). if st_scope e \<noteq> Some PoliticalGroup then []
         else map (\<lambda>(n, _). (i, el, n)) (filter (\<lambda>(_, h). hash_matches prefix h) (st_events e))) m)"

fun first_unless_ambiguous :: "'a list \<Rightarrow> 'a option result" where
  "first_unless_ambiguous [] = Ok None"
| "first_unless_ambiguous [x] = Ok (Some x)"
| "first_unless_ambiguous (x # y # _) = Err AmbiguousHash"

definition mem_find_event_by_hash_prefix ::
  "memory_store \<Rightarrow> byte list \<Rightarrow> (stream_id \<times> election_config \<times> nat) option result" where
  "mem_find_event_by_hash_prefix m prefix = first_unless_ambiguous (prefix_candidates m prefix)"

subsection \<open>Append\<close>

definition mem_append ::
  "('d, 'e) store_data_ops \<Rightarrow> hash_fn \<Rightarrow> 'e codec \<Rightarrow> stream_key \<Rightarrow> timestamp \<Rightarrow> 'e \<Rightarrow> nat option
    \<Rightarrow> 'd \<times> memory_store \<Rightarrow> ('d \<times> memory_store) \<times> unit result" where
  "mem_append ops sha256 cbor k now event expected = (\<lambda>(data, m).
    case check_expected_event_id expected (last_event_id ops data) of
      Inl e \<Rightarrow> ((data, m), Err e)
    | Inr _ \<Rightarrow>
      let event_id = last_event_id ops data + 1; prev_hash = last_event_hash ops data in
      (case encode cbor event of
        Inl _ \<Rightarrow> ((data, m), Err (ServerError (lit ''invalid data'')))
      | Inr body \<Rightarrow>
        let hash = chain_hash sha256 prev_hash event_id now body in
        ((sd_apply ops \<lparr>se_event_id = event_id, se_payload = event, se_created_at = now, se_hash = hash\<rparr> data,
          mem_record_event k event_id hash m), Ok ())))"

subsection \<open>Facts\<close>

lemma or_default_insert [simp]: "or_default k' (hm_insert k e m) = (if k' = k then e else or_default k' m)"
  by (simp add: or_default_def)

lemma first_unless_ambiguous_iff:
  "first_unless_ambiguous xs = Ok None \<longleftrightarrow> xs = []"
  "first_unless_ambiguous xs = Ok (Some x) \<longleftrightarrow> xs = [x]"
  "first_unless_ambiguous xs = Err e \<longleftrightarrow> e = AmbiguousHash \<and> 2 \<le> length xs"
  by (cases xs rule: first_unless_ambiguous.cases; auto)+

lemma prefix_candidates_iff:
  "(i, el, n) \<in> set (prefix_candidates m prefix) \<longleftrightarrow>
    (\<exists>e h. ((i, el), e) \<in> set m \<and> st_scope e = Some PoliticalGroup \<and> (n, h) \<in> set (st_events e)
      \<and> hash_matches prefix h)"
  by (force simp: prefix_candidates_def split: if_splits)

end
