(* ===== verification/Event_Log.thy ===== *)
theory Event_Log
  imports Event_Store
begin

text \<open>
  What a stream's rows in the database mean: a log is well formed when its events are
  numbered from 1, every stored hash continues the chain, and every payload decrypts at
  its place in the chain; its meaning is the list of events it decrypts to. Replay and
  append are characterised over such logs, for any projection that satisfies the laws of
  \<open>store_data\<close>.
\<close>

text \<open>What the store relies on of the packages it calls.\<close>

definition env_ok :: "'e stream_env \<Rightarrow> bool" where
  "env_ok env = (aead_ok (env_cipher env) \<and> codec_ok (env_cbor env)
     \<and> (\<forall>t. timestamp_micros (env_db_time env t) = timestamp_micros t))"

fun log_ok :: "'e stream_env \<Rightarrow> event_hash \<Rightarrow> nat \<Rightarrow> encrypted_event list \<Rightarrow> bool" where
  "log_ok env h n [] = True"
| "log_ok env h n (e # es) =
    (ee_event_id e = Suc n
     \<and> ee_hash e = chain_hash (env_sha256 env) h (Suc n) (ee_created_at e) (ee_payload e)
     \<and> is_ok (decrypt (env_cipher env) (env_cbor env) (ee_payload e) (event_aad (Suc n) (ee_created_at e) h))
     \<and> log_ok env (ee_hash e) (Suc n) es)"

fun decode_log :: "'e stream_env \<Rightarrow> event_hash \<Rightarrow> encrypted_event list \<Rightarrow> 'e store_event list" where
  "decode_log env h [] = []"
| "decode_log env h (e # es) =
    (case decrypt (env_cipher env) (env_cbor env) (ee_payload e) (event_aad (ee_event_id e) (ee_created_at e) h) of
      Inl _ \<Rightarrow> []
    | Inr p \<Rightarrow> \<lparr>se_event_id = ee_event_id e, se_payload = p, se_created_at = ee_created_at e,
                 se_hash = ee_hash e\<rparr> # decode_log env (ee_hash e) es)"

fun log_tip :: "event_hash \<Rightarrow> encrypted_event list \<Rightarrow> event_hash" where
  "log_tip h [] = h"
| "log_tip h (e # es) = log_tip (ee_hash e) es"

lemma log_tip_last: "log_tip h es = (if es = [] then h else ee_hash (last es))"
  by (induction h es rule: log_tip.induct) auto

lemma log_tip_append [simp]: "log_tip h (es @ fs) = log_tip (log_tip h es) fs"
  by (induction h es rule: log_tip.induct) auto

lemma is_ok_iff: "is_ok r \<longleftrightarrow> (\<exists>a. r = Inr a)"
  by (cases r) auto

lemma log_ok_append [simp]:
  "log_ok env h n (es @ fs) \<longleftrightarrow> log_ok env h n es \<and> log_ok env (log_tip h es) (n + length es) fs"
  by (induction es arbitrary: h n) auto

lemma decode_log_append:
  "log_ok env h n es \<Longrightarrow> decode_log env h (es @ fs) = decode_log env h es @ decode_log env (log_tip h es) fs"
  by (induction es arbitrary: h n) (auto simp: is_ok_iff)

lemma length_decode_log [simp]: "log_ok env h n es \<Longrightarrow> length (decode_log env h es) = length es"
  by (induction es arbitrary: h n) (auto simp: is_ok_iff)

lemma log_ids: "log_ok env h n es \<Longrightarrow> map ee_event_id es = [Suc n..<Suc n + length es]"
  by (induction es arbitrary: h n) (auto simp: upt_conv_Cons simp del: upt_Suc)

lemma log_nth_id:
  assumes "log_ok env h n es" "i < length es"
  shows "ee_event_id (es ! i) = Suc (n + i)"
proof -
  have "map ee_event_id es ! i = [Suc n..<Suc n + length es] ! i"
    by (simp only: log_ids [OF assms(1)])
  with assms(2) show ?thesis by (simp del: upt_Suc)
qed

lemma decode_log_ids: "log_ok env h n es \<Longrightarrow> map se_event_id (decode_log env h es) = map ee_event_id es"
  by (induction es arbitrary: h n) (auto simp: is_ok_iff)

lemma decode_log_hashes: "log_ok env h n es \<Longrightarrow> map se_hash (decode_log env h es) = map ee_hash es"
  by (induction es arbitrary: h n) (auto simp: is_ok_iff)

lemma take_decode_log:
  assumes "log_ok env h n es"
  shows "take k (decode_log env h es) = decode_log env h (take k es)"
proof -
  have "log_ok env h n (take k es @ drop k es)" using assms by simp
  then have ok: "log_ok env h n (take k es)" unfolding log_ok_append ..
  have "decode_log env h es = decode_log env h (take k es) @ decode_log env (log_tip h (take k es)) (drop k es)"
    using decode_log_append [OF ok, of "drop k es"] by simp
  then show ?thesis
    using ok assms by (cases "k \<le> length es") (simp_all add: min_def)
qed

text \<open>The rows a query asks for are the tail of a well-formed log.\<close>

lemma missing_rows:
  assumes "log_ok env h 0 es"
  shows "sort_key ee_event_id (filter (\<lambda>e. ee_event_id e > k) es) = drop k es"
proof -
  have ids: "map ee_event_id es = [Suc 0..<Suc (length es)]"
    using log_ids [OF assms] by simp
  have fil: "filter (\<lambda>e. ee_event_id e > k) es = drop k es"
  proof -
    note nth = log_nth_id [OF assms]
    have "filter (\<lambda>e. ee_event_id e > k) (take k es) = []"
      by (auto simp: filter_empty_conv in_set_conv_nth nth)
    moreover have "filter (\<lambda>e. ee_event_id e > k) (drop k es) = drop k es"
      by (auto simp: filter_id_conv in_set_conv_nth nth)
    ultimately show ?thesis
      by (metis append_self_conv2 append_take_drop_id filter_append)
  qed
  moreover have "sorted (map ee_event_id (drop k es))"
    by (simp add: ids drop_map [symmetric] del: upt_Suc)
  ultimately show ?thesis by (simp add: sort_key_id_if_sorted)
qed

text \<open>A projection agrees with a log up to \<open>k\<close> events: it holds the first \<open>k\<close> of them, with
  timestamps compared at the precision the database keeps.\<close>

definition strip :: "'e store_event \<Rightarrow> 'e store_event" where
  "strip e = e\<lparr>se_created_at := timestamp_micros (se_created_at e)\<rparr>"

lemma strip_simps [simp]:
  "se_event_id (strip e) = se_event_id e" "se_hash (strip e) = se_hash e"
  "se_payload (strip e) = se_payload e"
  "se_event_id \<circ> strip = se_event_id" "se_hash \<circ> strip = se_hash"
  by (simp_all add: strip_def comp_def)

definition agrees :: "'e stream_env \<Rightarrow> 'e store_event list \<Rightarrow> encrypted_event list \<Rightarrow> bool" where
  "agrees env es log = (length es \<le> length log
     \<and> map strip es = map strip (take (length es) (decode_log env GENESIS_HASH log)))"

lemma agrees_Nil [simp]: "agrees env [] log"
  by (simp add: agrees_def)

lemma agrees_take: "log_ok env GENESIS_HASH 0 log \<Longrightarrow> agrees env es log \<Longrightarrow>
    map strip es = map strip (decode_log env GENESIS_HASH (take (length es) log))"
  by (simp add: agrees_def take_decode_log)

lemma agrees_last:
  assumes "log_ok env GENESIS_HASH 0 log" "agrees env es log"
  shows "last_event_id_of es = length es" "last_event_hash_of es = log_tip GENESIS_HASH (take (length es) log)"
proof -
  let ?pre = "take (length es) log"
  have pre: "log_ok env GENESIS_HASH 0 ?pre"
    using assms(1) by (metis append_take_drop_id log_ok_append)
  have strip_eq: "map strip es = map strip (decode_log env GENESIS_HASH ?pre)"
    using agrees_take [OF assms] .
  have len: "length ?pre = length es" using assms(2) by (simp add: agrees_def)
  have ids: "map se_event_id es = [Suc 0..<Suc (length es)]"
  proof -
    have "map se_event_id es = map se_event_id (map strip es)" by simp
    also have "\<dots> = map ee_event_id ?pre" unfolding strip_eq using decode_log_ids [OF pre] by simp
    finally show ?thesis using log_ids [OF pre] len by (simp del: upt_Suc)
  qed
  have hashes: "map se_hash es = map ee_hash ?pre"
  proof -
    have "map se_hash es = map se_hash (map strip es)" by simp
    also have "\<dots> = map ee_hash ?pre" unfolding strip_eq using decode_log_hashes [OF pre] by simp
    finally show ?thesis .
  qed
  show "last_event_id_of es = length es"
    using ids by (cases es rule: rev_cases) (simp_all add: last_event_id_of_def)
  show "last_event_hash_of es = log_tip GENESIS_HASH ?pre"
  proof (cases "es = []")
    case False
    then have "?pre \<noteq> []" using len by auto
    with False have "se_hash (last es) = ee_hash (last ?pre)"
      using hashes by (metis last_map)
    with False \<open>?pre \<noteq> []\<close> show ?thesis by (simp add: last_event_hash_of_def log_tip_last)
  qed (simp add: last_event_hash_of_def)
qed

lemma agrees_snoc:
  assumes "agrees env es log" "length es < length log"
    and "strip e = strip (decode_log env GENESIS_HASH log ! length es)" "log_ok env GENESIS_HASH 0 log"
  shows "agrees env (es @ [e]) log"
  using assms by (simp add: agrees_def take_Suc_conv_app_nth)

lemma agrees_extend: "log_ok env GENESIS_HASH 0 log \<Longrightarrow> agrees env es log \<Longrightarrow> agrees env es (log @ rest)"
  by (auto simp: agrees_def decode_log_append)

subsection \<open>Replay over a well-formed log\<close>

context store_data
begin

lemma loop_applies_log:
  assumes "log_ok env (last_event_hash ops d) (last_event_id ops d) es"
  shows "apply_encrypted_loop ops env d (last_event_hash ops d) tip None es =
    (replay_events ops (decode_log env (last_event_hash ops d) es) d,
     Ok \<lparr>rp_chain_tip = log_tip tip es, rp_truncated_at = None\<rparr>)"
  using assms
proof (induction es arbitrary: d tip)
  case (Cons e es)
  then obtain p where p: "decrypt (env_cipher env) (env_cbor env) (ee_payload e)
      (event_aad (ee_event_id e) (ee_created_at e) (last_event_hash ops d)) = Inr p"
    and id: "ee_event_id e = Suc (last_event_id ops d)"
    and h: "ee_hash e = chain_hash (env_sha256 env) (last_event_hash ops d) (ee_event_id e)
        (ee_created_at e) (ee_payload e)"
    by (auto simp: is_ok_iff)
  let ?se = "\<lparr>se_event_id = ee_event_id e, se_payload = p, se_created_at = ee_created_at e,
    se_hash = ee_hash e\<rparr>"
  have "log_ok env (last_event_hash ops (sd_apply ops ?se d)) (last_event_id ops (sd_apply ops ?se d)) es"
  proof -
    have "log_ok env (ee_hash e) (ee_event_id e) es"
      using Cons.prems unfolding id log_ok.simps by blast
    then show ?thesis by (simp only: last_event_id_apply last_event_hash_apply store_event.simps)
  qed
  from Cons.IH [OF this, of "ee_hash e"] p id h show ?case
    by (simp add: Let_def last_event_hash_apply last_event_id_apply replay_events_def)
qed (simp add: replay_events_def)

lemma loop_skips:
  assumes "\<forall>e\<in>set es. ee_event_id e \<le> last_event_id ops d"
  shows "apply_encrypted_loop ops env d prev tip None (es @ fs) =
    apply_encrypted_loop ops env d prev (log_tip tip es) None fs"
  using assms by (induction es arbitrary: tip) auto

text \<open>Catching up brings a projection that agrees with the log to the whole log.\<close>

lemma catch_up_log:
  assumes log: "log_ok env GENESIS_HASH 0 (db_events db)"
    and agr: "agrees env (sd_events ops d) (db_events db)"
    and seen: "seen \<le> length (sd_events ops d)"
  shows "catch_up ops env seen db d =
    (replay_events ops (drop (length (sd_events ops d)) (decode_log env GENESIS_HASH (db_events db))) d,
     Ok (db_last_event_id db, \<lparr>rp_chain_tip = log_tip GENESIS_HASH (db_events db), rp_truncated_at = None\<rparr>))"
proof -
  let ?k = "length (sd_events ops d)" and ?log = "db_events db"
  note last = agrees_last [OF log agr, folded last_event_id_def last_event_hash_def]
  have le: "?k \<le> length ?log" using agr by (simp add: agrees_def)
  have split: "log_ok env (log_tip GENESIS_HASH (take ?k ?log)) ?k (drop ?k ?log)"
    using log le by (metis append_take_drop_id log_ok_append add_0 length_take min.absorb2)
  have "drop seen ?log = take (?k - seen) (drop seen ?log) @ drop ?k ?log"
    using seen by (metis append_take_drop_id drop_drop le_add_diff_inverse2)
  moreover have "\<forall>e\<in>set (take (?k - seen) (drop seen ?log)). ee_event_id e \<le> last_event_id ops d"
  proof
    fix e assume "e \<in> set (take (?k - seen) (drop seen ?log))"
    then have "e \<in> set (take ?k ?log)"
      using seen by (metis in_set_takeD take_drop le_add_diff_inverse2 in_set_dropD)
    then have "ee_event_id e \<in> set (map ee_event_id (take ?k ?log))" by simp
    then have "ee_event_id e \<in> set (take ?k [Suc 0..<Suc (length ?log)])"
      using log_ids [OF log] by (simp flip: take_map)
    then show "ee_event_id e \<le> last_event_id ops d" using le last(1) by (auto simp add: take_upt simp del: upt_Suc)
  qed
  ultimately have "apply_encrypted_events ops env d (drop seen ?log) =
      apply_encrypted_loop ops env d (last_event_hash ops d)
        (log_tip (last_event_hash ops d) (take (?k - seen) (drop seen ?log))) None (drop ?k ?log)"
    by (metis apply_encrypted_events_def loop_skips)
  also have "\<dots> = (replay_events ops (decode_log env (last_event_hash ops d) (drop ?k ?log)) d,
      Ok \<lparr>rp_chain_tip = log_tip (last_event_hash ops d) (drop seen ?log), rp_truncated_at = None\<rparr>)"
    using loop_applies_log [of env d "drop ?k ?log"] split last
      \<open>drop seen ?log = take (?k - seen) (drop seen ?log) @ drop ?k ?log\<close>
    by (metis log_tip_append)
  also have "log_tip (last_event_hash ops d) (drop seen ?log) = log_tip GENESIS_HASH ?log"
  proof (cases "drop seen ?log = []")
    case True
    then have "?k = length ?log" using seen le by simp
    then show ?thesis using True last(2) by simp
  next
    case False
    then show ?thesis by (auto simp: log_tip_last)
  qed
  also have "decode_log env (last_event_hash ops d) (drop ?k ?log) =
      drop ?k (decode_log env GENESIS_HASH ?log)"
  proof -
    have pre: "log_ok env GENESIS_HASH 0 (take ?k ?log)"
      using log by (metis append_take_drop_id log_ok_append)
    show ?thesis
      using decode_log_append [OF pre, of "drop ?k ?log"] length_decode_log [OF pre] last(2) le
      by simp
  qed
  finally show ?thesis
    unfolding catch_up_def Let_def missing_rows [OF log] by simp
qed

text \<open>Appending after catching up extends the log well formed, and the committed event is
  what the new row decrypts to, up to the precision of stored timestamps.\<close>

lemma insert_event_log:
  assumes env: "env_ok env" and nonce: "length nonce = NONCE_LEN"
    and log: "log_ok env GENESIS_HASH 0 (db_events db)"
    and ins: "insert_event env nonce (Suc (length (db_events db))) now ev
      (log_tip GENESIS_HASH (db_events db)) db = Ok (hash, db')"
  shows "\<exists>row. db_events db' = db_events db @ [row] \<and> db_last_event_id db' = length (db_events db')
    \<and> log_ok env GENESIS_HASH 0 (db_events db')
    \<and> map strip (decode_log env GENESIS_HASH (db_events db')) =
      map strip (decode_log env GENESIS_HASH (db_events db)) @
        [strip \<lparr>se_event_id = Suc (length (db_events db)), se_payload = ev, se_created_at = now, se_hash = hash\<rparr>]"
proof -
  let ?n = "Suc (length (db_events db))" and ?h = "log_tip GENESIS_HASH (db_events db)"
  from ins obtain blob
    where enc: "encrypt (env_cipher env) (env_cbor env) nonce ev (event_aad ?n now ?h) = Ok blob"
      and hash: "hash = chain_hash (env_sha256 env) ?h ?n now blob"
      and db': "db' = db\<lparr>db_events := db_events db @ [\<lparr>ee_event_id = ?n,
           ee_created_at = env_db_time env now, ee_hash = hash, ee_payload = blob\<rparr>],
         db_last_event_id := ?n\<rparr>"
    by (auto simp: insert_event_def Let_def bind_res_eq_Inr split: if_splits)
  let ?row = "\<lparr>ee_event_id = ?n, ee_created_at = env_db_time env now, ee_hash = hash, ee_payload = blob\<rparr>"
  have micros: "timestamp_micros (env_db_time env now) = timestamp_micros now"
    using env by (simp add: env_ok_def)
  have aad: "event_aad ?n (env_db_time env now) ?h = event_aad ?n now ?h"
    and hash': "hash = chain_hash (env_sha256 env) ?h ?n (env_db_time env now) blob"
    by (simp_all add: event_aad_def hash chain_hash_def micros)
  have dec: "decrypt (env_cipher env) (env_cbor env) blob (event_aad ?n (env_db_time env now) ?h) = Ok ev"
    unfolding aad using decrypt_encrypt [OF _ _ nonce enc] env by (simp add: env_ok_def)
  have log': "log_ok env GENESIS_HASH 0 (db_events db @ [?row])"
    using log dec hash' by simp
  show ?thesis
    using log' db' dec micros decode_log_append [OF log, of "[?row]"]
    by (intro exI [of _ ?row]) (simp add: strip_def)
qed

end

end
