(* ===== verification/Store_Cluster.thy ===== *)
theory Store_Cluster
  imports Event_Log
begin

text \<open>
  Several store handles, in one or more instances of the application, over one stream in
  the database. A handle's \<open>update\<close> commits under the row lock and applies the committed
  event to its projection afterwards, so other handles' operations interleave between the
  two; \<open>catch_up\<close> builds its query from the number it read before it held the lock. The
  step relation has one rule per such atomic part; its invariant is what makes every
  projection a prefix of one shared history.
\<close>

record ('d, 'e) cluster =
  cl_db :: db_stream
  cl_data :: "nat \<Rightarrow> 'd"
  cl_pending :: "(nat \<times> 'e store_event) list"

definition cluster_init :: "('d, 'e) store_data_ops \<Rightarrow> ('d, 'e) cluster" where
  "cluster_init ops = \<lparr>cl_db = \<lparr>db_last_event_id = 0, db_events = []\<rparr>,
     cl_data = (\<lambda>_. sd_default ops), cl_pending = []\<rparr>"

inductive cluster_step ::
  "('d, 'e) store_data_ops \<Rightarrow> 'e stream_env \<Rightarrow> ('d, 'e) cluster \<Rightarrow> ('d, 'e) cluster \<Rightarrow> bool"
  for ops env where
  load: "seen \<le> last_event_id ops (cl_data s i) \<Longrightarrow>
    load_from_database ops env seen (cl_db s) (cl_data s i) = (d', r) \<Longrightarrow>
    cluster_step ops env s (s\<lparr>cl_data := (cl_data s)(i := d')\<rparr>)"
| commit: "seen \<le> last_event_id ops (cl_data s i) \<Longrightarrow> length nonce = NONCE_LEN \<Longrightarrow>
    commit_in_database ops env seen nonce now event expected (cl_db s) (cl_data s i) = (d', Inr (ev, db')) \<Longrightarrow>
    cluster_step ops env s (s\<lparr>cl_db := db', cl_data := (cl_data s)(i := d'),
      cl_pending := (i, ev) # cl_pending s\<rparr>)"
| refused: "seen \<le> last_event_id ops (cl_data s i) \<Longrightarrow> length nonce = NONCE_LEN \<Longrightarrow>
    commit_in_database ops env seen nonce now event expected (cl_db s) (cl_data s i) = (d', Inl e) \<Longrightarrow>
    cluster_step ops env s (s\<lparr>cl_data := (cl_data s)(i := d')\<rparr>)"
| apply_committed: "(i, ev) \<in> set (cl_pending s) \<Longrightarrow>
    cluster_step ops env s (s\<lparr>cl_data := (cl_data s)(i := apply_event ops ev (cl_data s i)),
      cl_pending := remove1 (i, ev) (cl_pending s)\<rparr>)"
| evict: "cluster_step ops env s (s\<lparr>cl_data := (cl_data s)(i := sd_default ops),
      cl_pending := filter (\<lambda>(j, _). j \<noteq> i) (cl_pending s)\<rparr>)"

inductive_cases cluster_stepE: "cluster_step ops env s s'"

inductive cluster_reachable ::
  "('d, 'e) store_data_ops \<Rightarrow> 'e stream_env \<Rightarrow> ('d, 'e) cluster \<Rightarrow> bool"
  for ops env where
  init: "cluster_reachable ops env (cluster_init ops)"
| step: "cluster_reachable ops env s \<Longrightarrow> cluster_step ops env s s' \<Longrightarrow> cluster_reachable ops env s'"

definition db_ok :: "'e stream_env \<Rightarrow> db_stream \<Rightarrow> bool" where
  "db_ok env db = (log_ok env GENESIS_HASH 0 (db_events db)
     \<and> db_last_event_id db = length (db_events db))"

text \<open>The meaning of the stream: its events in order, timestamps at stored precision.\<close>

definition history :: "'e stream_env \<Rightarrow> db_stream \<Rightarrow> 'e store_event list" where
  "history env db = map strip (decode_log env GENESIS_HASH (db_events db))"

lemma length_history: "db_ok env db \<Longrightarrow> length (history env db) = length (db_events db)"
  by (auto simp: history_def db_ok_def intro: length_decode_log)

lemma agrees_history:
  "db_ok env db \<Longrightarrow> agrees env es (db_events db) \<longleftrightarrow>
    length es \<le> length (db_events db) \<and> map strip es = take (length es) (history env db)"
  by (simp add: agrees_def history_def take_map)

context store_data
begin

definition handle_ok :: "'e stream_env \<Rightarrow> db_stream \<Rightarrow> 'd \<Rightarrow> bool" where
  "handle_ok env db d = (replayed d \<and> agrees env (sd_events ops d) (db_events db))"

text \<open>A committed event that is not applied yet is in the log, and the handle has caught
  up to just before it or further.\<close>

definition pending_ok :: "'e stream_env \<Rightarrow> db_stream \<Rightarrow> 'd \<Rightarrow> 'e store_event \<Rightarrow> bool" where
  "pending_ok env db d ev = (\<exists>k. se_event_id ev = Suc k \<and> k < length (db_events db)
     \<and> k \<le> length (sd_events ops d) \<and> strip ev = history env db ! k)"

definition cluster_inv :: "'e stream_env \<Rightarrow> ('d, 'e) cluster \<Rightarrow> bool" where
  "cluster_inv env s = (db_ok env (cl_db s) \<and> (\<forall>i. handle_ok env (cl_db s) (cl_data s i))
     \<and> (\<forall>(i, ev) \<in> set (cl_pending s). pending_ok env (cl_db s) (cl_data s i) ev))"

lemma handle_ok_default: "handle_ok env db (sd_default ops)"
  by (simp add: handle_ok_def replayed_default events_default)

lemma replayed_replay: "replayed d \<Longrightarrow> replayed (replay_events ops es d)"
  by (induction es arbitrary: d) (simp_all add: replay_events_def replayed_apply)

lemma handle_last_id:
  "db_ok env db \<Longrightarrow> handle_ok env db d \<Longrightarrow> last_event_id ops d = length (sd_events ops d)"
  by (auto simp: db_ok_def handle_ok_def last_event_id_def intro: agrees_last(1))

text \<open>Catching up reaches the whole history, from any state and with any stale number.\<close>

lemma handle_catch_up:
  assumes "db_ok env db" "handle_ok env db d" "seen \<le> last_event_id ops d"
  shows "\<exists>d'. catch_up ops env seen db d = (d', Ok (length (db_events db),
        \<lparr>rp_chain_tip = log_tip GENESIS_HASH (db_events db), rp_truncated_at = None\<rparr>))
    \<and> handle_ok env db d' \<and> map strip (sd_events ops d') = history env db
    \<and> length (sd_events ops d') = length (db_events db)"
proof -
  let ?es = "drop (length (sd_events ops d)) (decode_log env GENESIS_HASH (db_events db))"
  let ?d' = "replay_events ops ?es d"
  from assms have log: "log_ok env GENESIS_HASH 0 (db_events db)"
    and agr: "agrees env (sd_events ops d) (db_events db)"
    and last: "db_last_event_id db = length (db_events db)"
    and seen: "seen \<le> length (sd_events ops d)"
    using handle_last_id [OF assms(1,2)] by (auto simp: db_ok_def handle_ok_def)
  have "map strip (sd_events ops ?d') = history env db"
    using agr by (auto simp: events_replay history_def agrees_def) (metis append_take_drop_id map_append)
  moreover from this have "length (sd_events ops ?d') = length (db_events db)"
    using length_history [OF assms(1)] by (metis length_map)
  moreover have "handle_ok env db ?d'"
    using calculation assms(1,2) by (simp add: handle_ok_def replayed_replay agrees_history length_history)
  ultimately show ?thesis
    using catch_up_log [OF log agr seen] last by simp
qed

lemma handle_load:
  assumes "db_ok env db" "handle_ok env db d" "seen \<le> last_event_id ops d"
  shows "\<exists>d'. load_from_database ops env seen db d = (d', Ok ()) \<and> handle_ok env db d'
    \<and> map strip (sd_events ops d') = history env db
    \<and> length (sd_events ops d') = length (db_events db)"
  using handle_catch_up [OF assms] by (auto simp: load_from_database_def)

text \<open>A commit: the projection is caught up first; on success exactly one event is added
  to the history, numbered next, and the expected number was the stream's.\<close>

lemma handle_commit:
  assumes db: "db_ok env db" and d: "handle_ok env db d" and seen: "seen \<le> last_event_id ops d"
    and env: "env_ok env" and nonce: "length nonce = NONCE_LEN"
    and com: "commit_in_database ops env seen nonce now event expected db d = (d', r)"
  shows "handle_ok env db d' \<and> length (sd_events ops d') = length (db_events db)
    \<and> (\<forall>ev db'. r = Inr (ev, db') \<longrightarrow>
        db_ok env db' \<and> history env db' = history env db @ [strip ev] \<and> (\<exists>row. db_events db' = db_events db @ [row])
        \<and> se_event_id ev = Suc (length (db_events db)) \<and> se_payload ev = event
        \<and> (\<forall>n. expected = Some n \<longrightarrow> n = length (db_events db)))"
proof -
  obtain d1 where up: "catch_up ops env seen db d = (d1, Ok (length (db_events db),
        \<lparr>rp_chain_tip = log_tip GENESIS_HASH (db_events db), rp_truncated_at = None\<rparr>))"
    and d1: "handle_ok env db d1" "length (sd_events ops d1) = length (db_events db)"
    using handle_catch_up [OF db d seen] by blast
  from com up have d': "d' = d1"
    and r: "r = bind_res (check_expected_event_id expected (length (db_events db))) (\<lambda>_.
      bind_res (insert_event env nonce (Suc (length (db_events db))) now event
        (log_tip GENESIS_HASH (db_events db)) db) (\<lambda>(hash, db').
        Ok (\<lparr>se_event_id = Suc (length (db_events db)), se_payload = event, se_created_at = now, se_hash = hash\<rparr>, db')))"
    by (auto simp: commit_in_database_def reject_append_def Let_def)
  have log: "log_ok env GENESIS_HASH 0 (db_events db)" using db by (simp add: db_ok_def)
  have "db_ok env db' \<and> history env db' = history env db @ [strip ev] \<and> (\<exists>row. db_events db' = db_events db @ [row])
        \<and> se_event_id ev = Suc (length (db_events db)) \<and> se_payload ev = event
        \<and> (\<forall>n. expected = Some n \<longrightarrow> n = length (db_events db))"
    if ok: "r = Inr (ev, db')" for ev db'
  proof -
    from ok r obtain hash where
      ins: "insert_event env nonce (Suc (length (db_events db))) now event
        (log_tip GENESIS_HASH (db_events db)) db = Ok (hash, db')"
      and ev: "ev = \<lparr>se_event_id = Suc (length (db_events db)), se_payload = event,
        se_created_at = now, se_hash = hash\<rparr>"
      and chk: "check_expected_event_id expected (length (db_events db)) = Ok ()"
      by (auto simp: bind_res_eq_Inr)
    from chk have "\<forall>n. expected = Some n \<longrightarrow> n = length (db_events db)"
      by (auto simp: check_expected_event_id_def split: if_splits)
    moreover obtain row where row: "db_events db' = db_events db @ [row]"
      "db_last_event_id db' = length (db_events db')" "log_ok env GENESIS_HASH 0 (db_events db')"
      and hist: "map strip (decode_log env GENESIS_HASH (db_events db')) =
        map strip (decode_log env GENESIS_HASH (db_events db)) @ [strip ev]"
      using insert_event_log [OF env nonce log ins] ev by blast
    moreover have "db_ok env db'" using row(2,3) by (simp add: db_ok_def)
    moreover have "history env db' = history env db @ [strip ev]" using hist by (simp only: history_def)
    moreover have "se_event_id ev = Suc (length (db_events db))" "se_payload ev = event" by (simp_all add: ev)
    ultimately show ?thesis by (intro conjI exI)
  qed
  then show ?thesis using d1 unfolding d' by blast
qed

lemma handle_ok_extend:
  assumes "db_ok env db" "handle_ok env db d" "db_events db' = db_events db @ es"
  shows "handle_ok env db' d"
  using assms agrees_extend [of env "db_events db" "sd_events ops d" es]
  by (simp add: handle_ok_def db_ok_def)

lemma pending_ok_mono:
  assumes "pending_ok env db d ev" "length (sd_events ops d) \<le> length (sd_events ops d')"
  shows "pending_ok env db d' ev"
  using assms unfolding pending_ok_def by (meson order_trans)

lemma pending_ok_extend:
  assumes "pending_ok env db d ev" "db_ok env db"
    and "history env db' = history env db @ hs" "db_events db' = db_events db @ es"
  shows "pending_ok env db' d ev"
proof -
  from assms(1) obtain k where "se_event_id ev = Suc k" "k < length (db_events db)"
    "k \<le> length (sd_events ops d)" "strip ev = history env db ! k"
    by (auto simp: pending_ok_def)
  with assms(3,4) length_history [OF assms(2)] show ?thesis
    by (auto simp: pending_ok_def nth_append)
qed

text \<open>Applying a committed event: a no-op when the projection has it, and the next event of
  the history otherwise.\<close>

lemma handle_apply:
  assumes db: "db_ok env db" and d: "handle_ok env db d" and p: "pending_ok env db d ev"
  shows "handle_ok env db (apply_event ops ev d)"
    "length (sd_events ops d) \<le> length (sd_events ops (apply_event ops ev d))"
    "se_event_id ev \<le> length (sd_events ops (apply_event ops ev d))"
proof -
  from p obtain k where k: "se_event_id ev = Suc k" "k < length (db_events db)"
    "k \<le> length (sd_events ops d)" "strip ev = history env db ! k"
    by (auto simp: pending_ok_def)
  note last = handle_last_id [OF db d]
  have "handle_ok env db (apply_event ops ev d)
    \<and> length (sd_events ops d) \<le> length (sd_events ops (apply_event ops ev d))
    \<and> se_event_id ev \<le> length (sd_events ops (apply_event ops ev d))"
  proof (cases "Suc k \<le> length (sd_events ops d)")
    case True
    then show ?thesis using d k(1) last by (simp add: apply_event_def)
  next
    case False
    with k(3) have eq: "length (sd_events ops d) = k" by simp
    have "agrees env (sd_events ops d @ [ev]) (db_events db)"
      using d k eq db by (intro agrees_snoc) (auto simp: handle_ok_def db_ok_def history_def)
    with d eq k(1) last show ?thesis
      by (simp add: apply_event_def handle_ok_def events_apply replayed_apply)
  qed
  then show "handle_ok env db (apply_event ops ev d)"
    "length (sd_events ops d) \<le> length (sd_events ops (apply_event ops ev d))"
    "se_event_id ev \<le> length (sd_events ops (apply_event ops ev d))" by blast+
qed

lemma cluster_inv_init: "cluster_inv env (cluster_init ops)"
  by (simp add: cluster_inv_def cluster_init_def db_ok_def handle_ok_default)

lemma cluster_inv_handle:
  assumes "cluster_inv env s" "handle_ok env (cl_db s) d'"
    "length (sd_events ops (cl_data s i)) \<le> length (sd_events ops d')"
  shows "cluster_inv env (s\<lparr>cl_data := (cl_data s)(i := d')\<rparr>)"
  using assms by (auto simp: cluster_inv_def intro: pending_ok_mono)

lemma handle_length: "handle_ok env db d \<Longrightarrow> length (sd_events ops d) \<le> length (db_events db)"
  by (simp add: handle_ok_def agrees_def)

lemma cluster_inv_commit:
  assumes inv: "cluster_inv env s" and env: "env_ok env"
    and seen: "seen \<le> last_event_id ops (cl_data s i)" "length nonce = NONCE_LEN"
    and com: "commit_in_database ops env seen nonce now event expected (cl_db s) (cl_data s i) = (d', Inr (ev, db'))"
  shows "cluster_inv env (s\<lparr>cl_db := db', cl_data := (cl_data s)(i := d'), cl_pending := (i, ev) # cl_pending s\<rparr>)"
proof -
  from inv have db: "db_ok env (cl_db s)" and hs: "\<forall>j. handle_ok env (cl_db s) (cl_data s j)"
    and ps: "\<And>j e. (j, e) \<in> set (cl_pending s) \<Longrightarrow> pending_ok env (cl_db s) (cl_data s j) e"
    unfolding cluster_inv_def by blast+
  from handle_commit [OF db hs [rule_format] seen(1) env seen(2) com] obtain row where
    d': "handle_ok env (cl_db s) d'" "length (sd_events ops d') = length (db_events (cl_db s))"
    and db': "db_ok env db'" "history env db' = history env (cl_db s) @ [strip ev]"
      "db_events db' = db_events (cl_db s) @ [row]"
    and ev: "se_event_id ev = Suc (length (db_events (cl_db s)))"
    by blast
  have "handle_ok env db' (((cl_data s)(i := d')) j)" for j
    using handle_ok_extend [OF db _ db'(3)] hs d'(1) by simp
  moreover have "pending_ok env db' (((cl_data s)(i := d')) j) e" if "(j, e) \<in> set (cl_pending s)" for j e
  proof -
    have "pending_ok env (cl_db s) (((cl_data s)(i := d')) j) e"
      using ps [OF that] handle_length [OF hs [rule_format, of i]] d'(2)
      by (cases "j = i") (simp_all add: pending_ok_mono)
    then show ?thesis using pending_ok_extend [OF _ db db'(2,3)] by blast
  qed
  moreover have "pending_ok env db' d' ev"
    using ev d'(2) db'(2,3) length_history [OF db] by (simp add: pending_ok_def nth_append)
  ultimately have "\<forall>(j, e) \<in> set ((i, ev) # cl_pending s). pending_ok env db' (((cl_data s)(i := d')) j) e"
    "\<forall>j. handle_ok env db' (((cl_data s)(i := d')) j)" by auto
  then show ?thesis using db'(1) unfolding cluster_inv_def by simp
qed

lemma cluster_inv_step:
  assumes "cluster_step ops env s s'" "cluster_inv env s" "env_ok env"
  shows "cluster_inv env s'"
  using assms
proof (induction rule: cluster_step.induct)
  case (load seen s i d' r)
  then have db: "db_ok env (cl_db s)" and h: "handle_ok env (cl_db s) (cl_data s i)"
    by (auto simp: cluster_inv_def)
  from handle_load [OF db h load.hyps(1)] load.hyps(2)
  have "handle_ok env (cl_db s) d'" "length (sd_events ops d') = length (db_events (cl_db s))" by auto
  with load.prems handle_length [OF h] show ?case by (simp add: cluster_inv_handle)
next
  case (commit seen s i nonce now event expected d' ev db')
  then show ?case by (intro cluster_inv_commit)
next
  case (refused seen s i nonce now event expected d' e)
  then have db: "db_ok env (cl_db s)" and h: "handle_ok env (cl_db s) (cl_data s i)"
    by (auto simp: cluster_inv_def)
  from handle_commit [OF db h refused.hyps(1) refused.prems(2) refused.hyps(2,3)]
  have "handle_ok env (cl_db s) d'" "length (sd_events ops d') = length (db_events (cl_db s))" by auto
  with refused.prems handle_length [OF h] show ?case by (simp add: cluster_inv_handle)
next
  case (apply_committed i ev s)
  then have db: "db_ok env (cl_db s)" and h: "handle_ok env (cl_db s) (cl_data s i)"
    and p: "pending_ok env (cl_db s) (cl_data s i) ev" by (auto simp: cluster_inv_def)
  have "cluster_inv env (s\<lparr>cl_data := (cl_data s)(i := apply_event ops ev (cl_data s i))\<rparr>)"
    using apply_committed.prems(1) handle_apply(1,2) [OF db h p] by (rule cluster_inv_handle)
  then show ?case by (auto simp: cluster_inv_def dest: notin_set_remove1)
next
  case (evict s i)
  then show ?case by (auto simp: cluster_inv_def handle_ok_default)
qed

lemma cluster_inv_reachable: "cluster_reachable ops env s \<Longrightarrow> env_ok env \<Longrightarrow> cluster_inv env s"
  by (induction rule: cluster_reachable.induct) (auto intro: cluster_inv_init cluster_inv_step)

text \<open>The history is append-only.\<close>

lemma cluster_step_history:
  assumes "cluster_step ops env s s'" "cluster_inv env s" "env_ok env"
  shows "\<exists>es. history env (cl_db s') = history env (cl_db s) @ es"
  using assms
proof (induction rule: cluster_step.induct)
  case (commit seen s i nonce now event expected d' ev db')
  then have "db_ok env (cl_db s)" "handle_ok env (cl_db s) (cl_data s i)" by (auto simp: cluster_inv_def)
  from handle_commit [OF this commit.hyps(1) commit.prems(2) commit.hyps(2,3)] show ?case by auto
qed auto

end

end
