(* ===== verification/Conditional_Update.thy ===== *)
theory Conditional_Update
  imports Memory_Backend Store_Cluster
begin

text \<open>
  \<open>Store::update_when\<close> of \<open>store/persistence.rs\<close>: an event is derived from the projection
  and appended as one step with that decision, with up to three attempts when other
  requests move the stream. What it needs of a backend is the locale
  \<open>conditional_append\<close>; both backends satisfy it.
\<close>

abbreviation UPDATE_WHEN_ATTEMPTS :: nat where "UPDATE_WHEN_ATTEMPTS \<equiv> 3"

text \<open>\<open>snapshot\<close> reads the projection and \<open>append_ev n\<close> is the backend's append with an
  expected number, at the time of the attempt with \<open>n\<close> attempts left after it; \<open>other n\<close> is
  what other requests do between that attempt's decision and its append.\<close>

fun update_when_loop ::
  "('s \<Rightarrow> 'd) \<Rightarrow> ('d \<Rightarrow> nat) \<Rightarrow> (nat \<Rightarrow> 'e \<Rightarrow> nat option \<Rightarrow> 's \<Rightarrow> 's \<times> unit result) \<Rightarrow> (nat \<Rightarrow> 's \<Rightarrow> 's)
    \<Rightarrow> ('d \<Rightarrow> 'e option) \<Rightarrow> nat \<Rightarrow> 's \<Rightarrow> 's \<times> bool result" where
  "update_when_loop snapshot last_id append_ev other decide 0 s = (s, Ok False)"
| "update_when_loop snapshot last_id append_ev other decide (Suc n) s =
    (let data = snapshot s in
     case decide data of
       None \<Rightarrow> (s, Ok False)
     | Some event \<Rightarrow> (case append_ev n event (Some (last_id data)) (other n s) of
         (s', Inr _) \<Rightarrow> (s', Ok True)
       | (s', Inl e) \<Rightarrow> if e = Conflict
           then update_when_loop snapshot last_id append_ev other decide n s'
           else (s', Err e)))"

definition update_when ::
  "('s \<Rightarrow> 'd) \<Rightarrow> ('d \<Rightarrow> nat) \<Rightarrow> (nat \<Rightarrow> 'e \<Rightarrow> nat option \<Rightarrow> 's \<Rightarrow> 's \<times> unit result) \<Rightarrow> (nat \<Rightarrow> 's \<Rightarrow> 's)
    \<Rightarrow> ('d \<Rightarrow> 'e option) \<Rightarrow> 's \<Rightarrow> 's \<times> bool result" where
  "update_when snapshot last_id append_ev other decide s =
     update_when_loop snapshot last_id append_ev other decide UPDATE_WHEN_ATTEMPTS s"

text \<open>The contract of an append with an expected number: it succeeds only on the state the
  number names and then records exactly that event; refused or not, the state only moves
  forward, and a projection whose number did not move did not change.\<close>

locale conditional_append =
  fixes ok :: "'s \<Rightarrow> bool" and snapshot :: "'s \<Rightarrow> 'd" and last_id :: "'d \<Rightarrow> nat"
    and append_ev :: "nat \<Rightarrow> 'e \<Rightarrow> nat option \<Rightarrow> 's \<Rightarrow> 's \<times> unit result"
    and recorded :: "'d \<Rightarrow> 'e \<Rightarrow> 'd \<Rightarrow> bool" and evolves :: "'s \<Rightarrow> 's \<Rightarrow> bool"
  assumes append_ok: "ok s \<Longrightarrow> append_ev k e (Some n) s = (s', Inr u) \<Longrightarrow> n \<le> last_id (snapshot s) \<Longrightarrow>
      last_id (snapshot s) = n \<and> recorded (snapshot s) e (snapshot s')"
    and append_refused: "ok s \<Longrightarrow> append_ev k e x s = (s', Inl err) \<Longrightarrow> evolves s s'"
    and evolves_refl: "evolves s s"
    and evolves_trans: "evolves s t \<Longrightarrow> evolves t u' \<Longrightarrow> evolves s u'"
    and evolves_keeps: "ok s \<Longrightarrow> evolves s s' \<Longrightarrow> ok s'"
    and evolves_mono: "ok s \<Longrightarrow> evolves s s' \<Longrightarrow> last_id (snapshot s) \<le> last_id (snapshot s')"
    and evolves_same: "ok s \<Longrightarrow> evolves s s' \<Longrightarrow> last_id (snapshot s') = last_id (snapshot s) \<Longrightarrow>
      snapshot s' = snapshot s"
begin

text \<open>A check made on a snapshot holds of the state the event is recorded on.\<close>

lemma checked_append:
  assumes "ok s" "evolves s t" "append_ev k e (Some n) t = (s', Inr u)" "n \<le> last_id (snapshot s)"
  shows "snapshot t = snapshot s \<and> last_id (snapshot s) = n \<and> recorded (snapshot s) e (snapshot s')"
proof -
  have mono: "last_id (snapshot s) \<le> last_id (snapshot t)" and "ok t"
    using assms evolves_mono evolves_keeps by blast+
  with append_ok [OF \<open>ok t\<close> assms(3)] assms(4)
  have "last_id (snapshot t) = n" "recorded (snapshot t) e (snapshot s')" by auto
  with evolves_same [OF assms(1,2)] mono assms(4) show ?thesis by simp
qed

text \<open>So do two checks made one after the other, and a refusal only moves the state forward.\<close>

lemma checked_append_twice:
  assumes "ok s" "evolves s t" "evolves t v" "append_ev k e (Some n) v = (s', Inr u)" "n \<le> last_id (snapshot s)"
  shows "snapshot t = snapshot s \<and> last_id (snapshot s) = n \<and> recorded (snapshot s) e (snapshot s')"
proof -
  have sv: "evolves s v" using assms evolves_trans by blast
  have ok: "ok t" using assms evolves_keeps by blast
  have first: "snapshot v = snapshot s" "last_id (snapshot s) = n" "recorded (snapshot s) e (snapshot s')"
    using checked_append [OF assms(1) sv assms(4,5)] by auto
  then have "n \<le> last_id (snapshot t)" using evolves_mono [OF assms(1,2)] by simp
  from checked_append [OF ok assms(3,4) this] first show ?thesis by simp
qed

lemma refused_evolves:
  "ok s \<Longrightarrow> evolves s t \<Longrightarrow> append_ev k e x t = (s', Inl err) \<Longrightarrow> evolves s s'"
  using append_refused evolves_keeps evolves_trans by blast

text \<open>When an event is recorded, it is recorded directly on the projection its decision was
  made on; otherwise nothing of this request is recorded.\<close>

lemma update_when_loop_decided:
  assumes "ok s" "\<And>n t. ok t \<Longrightarrow> evolves t (other n t)"
    and "update_when_loop snapshot last_id append_ev other decide n s = (s', r)"
  shows "r = Inr True \<and> (\<exists>d e. decide d = Some e \<and> recorded d e (snapshot s'))
    \<or> r \<noteq> Inr True \<and> evolves s s'"
  using assms(1,3)
proof (induction n arbitrary: s)
  case 0
  then show ?case by (auto intro: evolves_refl)
next
  case (Suc n)
  show ?case
  proof (cases "decide (snapshot s)")
    case None
    with Suc.prems show ?thesis by (auto simp: Let_def intro: evolves_refl)
  next
    case (Some e)
    obtain t q where app: "append_ev n e (Some (last_id (snapshot s))) (other n s) = (t, q)" by fastforce
    have ev: "evolves s (other n s)" and ok: "ok (other n s)"
      using assms(2) Suc.prems(1) evolves_keeps by blast+
    show ?thesis
    proof (cases q)
      case (Inr u)
      with Suc.prems Some app have "s' = t" "r = Inr True" by (simp_all add: Let_def)
      moreover have "last_id (snapshot (other n s)) = last_id (snapshot s)"
        "recorded (snapshot (other n s)) e (snapshot t)"
        using append_ok [OF ok app [unfolded Inr] evolves_mono [OF Suc.prems(1) ev]] by auto
      moreover from this(1) have "snapshot (other n s) = snapshot s"
        using evolves_same [OF Suc.prems(1) ev] by blast
      ultimately show ?thesis using Some by auto
    next
      case (Inl err)
      have st: "evolves s t" using append_refused [OF ok app [unfolded Inl]] ev evolves_trans by blast
      show ?thesis
      proof (cases "err = Conflict")
        case True
        with Suc.prems Some app Inl
        have "update_when_loop snapshot last_id append_ev other decide n t = (s', r)" by (simp add: Let_def)
        with Suc.IH [of t] st evolves_keeps [OF Suc.prems(1) st] show ?thesis
          by (blast intro: evolves_trans)
      next
        case False
        with Suc.prems Some app Inl st show ?thesis by (auto simp: Let_def)
      qed
    qed
  qed
qed

end

text \<open>An event recorded on a projection: applied with the next number.\<close>

definition recorded_on :: "('d, 'e) store_data_ops \<Rightarrow> 'd \<Rightarrow> 'e \<Rightarrow> 'd \<Rightarrow> bool" where
  "recorded_on ops d e d' = (\<exists>ev. se_payload ev = e \<and> se_event_id ev = Suc (last_event_id ops d)
     \<and> d' = sd_apply ops ev d)"

text \<open>Progress of an in-memory store: further events, numbered on.\<close>

definition mem_evolves :: "('d, 'e) store_data_ops \<Rightarrow> 'd \<times> memory_store \<Rightarrow> 'd \<times> memory_store \<Rightarrow> bool" where
  "mem_evolves ops s s' = (\<exists>es. fst s' = replay_events ops es (fst s)
     \<and> map se_event_id es = [Suc (last_event_id ops (fst s))..<Suc (last_event_id ops (fst s)) + length es])"

text \<open>A handle on a database stream: the stream is well formed, and the projection is the
  replay of its own log, which is a prefix of the stream's.\<close>

definition db_handle_ok :: "('d, 'e) store_data_ops \<Rightarrow> 'e stream_env \<Rightarrow> 'd \<times> db_stream \<Rightarrow> bool" where
  "db_handle_ok ops env s = (db_ok env (snd s)
     \<and> fst s = replay_events ops (sd_events ops (fst s)) (sd_default ops)
     \<and> agrees env (sd_events ops (fst s)) (db_events (snd s)))"

text \<open>Progress of such a handle, by its own and other handles' commits.\<close>

definition db_evolves :: "('d, 'e) store_data_ops \<Rightarrow> 'e stream_env \<Rightarrow> 'd \<times> db_stream \<Rightarrow> 'd \<times> db_stream \<Rightarrow> bool" where
  "db_evolves ops env s s' = ((db_handle_ok ops env s \<longrightarrow> db_handle_ok ops env s')
     \<and> (\<exists>hs. history env (snd s') = history env (snd s) @ hs)
     \<and> (\<exists>es. fst s' = replay_events ops es (fst s)))"

text \<open>\<open>Store::append\<close> on the database backend.\<close>

definition db_append :: "('d, 'e) store_data_ops \<Rightarrow> 'e stream_env \<Rightarrow> byte list \<Rightarrow> timestamp \<Rightarrow> 'e \<Rightarrow> nat option
    \<Rightarrow> 'd \<times> db_stream \<Rightarrow> ('d \<times> db_stream) \<times> unit result" where
  "db_append ops env nonce now e x s =
    (case update_in_database ops env (last_event_id ops (fst s)) nonce now e x (snd s) (fst s) of
      (d', db', r) \<Rightarrow> ((d', db'), r))"

lemma recorded_onI:
  "se_payload ev = e \<Longrightarrow> se_event_id ev = Suc (last_event_id ops d) \<Longrightarrow> recorded_on ops d e (sd_apply ops ev d)"
  by (auto simp: recorded_on_def)

lemma replay_events_append: "replay_events ops (es @ fs) d = replay_events ops fs (replay_events ops es d)"
  by (simp add: replay_events_def)

context store_data
begin

lemma last_event_id_replay:
  "map se_event_id es = [Suc (last_event_id ops d)..<Suc (last_event_id ops d) + length es] \<Longrightarrow>
    last_event_id ops (replay_events ops es d) = last_event_id ops d + length es"
proof (cases es rule: rev_cases)
  case (snoc fs e)
  assume "map se_event_id es = [Suc (last_event_id ops d)..<Suc (last_event_id ops d) + length es]"
  then have "last (map se_event_id es) = last_event_id ops d + length es"
    using snoc by simp
  then show ?thesis
    using snoc by (simp add: last_event_id_def last_event_id_of_def events_replay)
qed (simp add: replay_events_def)

lemma mem_conditional_append:
  "conditional_append (\<lambda>_. True) fst (last_event_id ops)
     (\<lambda>n. mem_append ops sha256 cbor k (clock n)) (recorded_on ops) (mem_evolves ops)"
proof (unfold_locales, goal_cases)
  case (1 s n e m s' u)
  then show ?case
    by (cases s) (auto simp: mem_append_def Let_def check_expected_event_id_def
        split: sum.splits if_splits intro!: recorded_onI)
next
  case (2 s n e x s' err)
  then have "s' = s" by (cases s) (auto simp: mem_append_def Let_def split: sum.splits)
  then show ?case by (auto simp: mem_evolves_def replay_events_def intro: exI [of _ "[]"])
next
  case (3 s)
  then show ?case by (auto simp: mem_evolves_def replay_events_def intro: exI [of _ "[]"])
next
  case (4 s t u)
  then obtain es fs where es: "fst t = replay_events ops es (fst s)"
      "map se_event_id es = [Suc (last_event_id ops (fst s))..<Suc (last_event_id ops (fst s)) + length es]"
    and fs: "fst u = replay_events ops fs (fst t)"
      "map se_event_id fs = [Suc (last_event_id ops (fst t))..<Suc (last_event_id ops (fst t)) + length fs]"
    by (auto simp: mem_evolves_def)
  have "last_event_id ops (fst t) = last_event_id ops (fst s) + length es"
    using last_event_id_replay [OF es(2)] es(1) by simp
  with es fs have "map se_event_id (es @ fs) =
      [Suc (last_event_id ops (fst s))..<Suc (last_event_id ops (fst s)) + length (es @ fs)]"
    using upt_add_eq_append [of "Suc (last_event_id ops (fst s))"
        "Suc (last_event_id ops (fst s)) + length es" "length fs"]
    by (simp add: add.assoc del: upt_Suc)
  with es(1) fs(1) show ?case
    unfolding mem_evolves_def by (intro exI [of _ "es @ fs"]) (simp only: replay_events_append)
next
  case (6 s s')
  then show ?case by (auto simp: mem_evolves_def last_event_id_replay)
next
  case (7 s s')
  then obtain es where es: "fst s' = replay_events ops es (fst s)"
    "map se_event_id es = [Suc (last_event_id ops (fst s))..<Suc (last_event_id ops (fst s)) + length es]"
    by (auto simp: mem_evolves_def)
  from last_event_id_replay [OF es(2)] 7(3) es(1) have "es = []" by simp
  with es(1) show ?case by (simp add: replay_events_def)
qed simp_all

lemma db_handle_ok_iff: "db_handle_ok ops env s \<longleftrightarrow> db_ok env (snd s) \<and> handle_ok env (snd s) (fst s)"
  by (auto simp: db_handle_ok_def handle_ok_def replayed_def)

lemma replay_same_length: "length (sd_events ops (replay_events ops es d)) = length (sd_events ops d) \<Longrightarrow> es = []"
  by (simp add: events_replay)

text \<open>A conditional append to the database: refused, it has caught the projection up;
  accepted, it has recorded the event on the projection the number names.\<close>

lemma db_append_cases:
  assumes ok: "db_handle_ok ops env s" and env: "env_ok env" and nonce: "length nonce = NONCE_LEN"
    and app: "db_append ops env nonce now e x s = (s', r)"
  shows "(\<exists>err. r = Inl err) \<and> snd s' = snd s \<and> db_evolves ops env s s'
    \<or> r = Inr () \<and> (\<forall>n. x = Some n \<longrightarrow> n = length (db_events (snd s)))
      \<and> (\<exists>ev es. se_payload ev = e \<and> se_event_id ev = Suc (length (db_events (snd s)))
          \<and> fst s' = sd_apply ops ev (replay_events ops es (fst s))
          \<and> length (sd_events ops (fst s)) + length es = length (db_events (snd s)))"
proof -
  have db: "db_ok env (snd s)" and h: "handle_ok env (snd s) (fst s)"
    using ok by (simp_all add: db_handle_ok_iff)
  obtain d1 q where com: "commit_in_database ops env (last_event_id ops (fst s)) nonce now e x (snd s) (fst s) = (d1, q)"
    by fastforce
  note hc = handle_commit [OF db h order_refl env nonce com]
  obtain es where es: "d1 = replay_events ops es (fst s)"
  proof -
    have log: "log_ok env GENESIS_HASH 0 (db_events (snd s))" "agrees env (sd_events ops (fst s)) (db_events (snd s))"
      using db h by (simp_all add: db_ok_def handle_ok_def)
    from catch_up_log [OF this, of "last_event_id ops (fst s)"] handle_last_id [OF db h] com
    show thesis by (intro that) (auto simp: commit_in_database_def)
  qed
  have len: "length (sd_events ops (fst s)) + length es = length (db_events (snd s))"
    using hc es by (simp add: events_replay)
  show ?thesis
  proof (cases q)
    case (Inl err)
    with app com have s': "s' = (d1, snd s)" "r = Inl err"
      by (auto simp: db_append_def update_in_database_def)
    then have "db_evolves ops env s s'"
      using hc db es by (auto simp: db_evolves_def db_handle_ok_iff)
    with s' show ?thesis by simp
  next
    case (Inr p)
    obtain ev db' where p: "p = (ev, db')" by fastforce
    from hc Inr p have ev: "se_event_id ev = Suc (length (db_events (snd s)))" "se_payload ev = e"
      and x: "\<forall>n. x = Some n \<longrightarrow> n = length (db_events (snd s))" by auto
    have d1: "last_event_id ops d1 = length (db_events (snd s))"
      using handle_last_id [OF db] hc by simp
    from app com Inr p have r: "r = Inr ()"
      and "fst s' = apply_event ops ev d1"
      by (cases ev; auto simp: db_append_def update_in_database_def apply_persisted_event_def)+
    then have "fst s' = sd_apply ops ev d1" using d1 ev by (simp add: apply_event_def)
    with r x ev es len show ?thesis by blast
  qed
qed

lemma db_conditional_append:
  assumes env: "env_ok env" and nonce: "\<And>n. length (nonce n) = NONCE_LEN"
  shows "conditional_append (db_handle_ok ops env) fst (last_event_id ops)
     (\<lambda>n. db_append ops env (nonce n) (clock n)) (recorded_on ops) (db_evolves ops env)"
proof (unfold_locales, goal_cases)
  case (1 s k e n s' u)
  from db_append_cases [OF 1(1) env nonce 1(2)] obtain ev es where
    n: "n = length (db_events (snd s))" and ev: "se_payload ev = e" "se_event_id ev = Suc n"
    and s': "fst s' = sd_apply ops ev (replay_events ops es (fst s))"
    and len: "length (sd_events ops (fst s)) + length es = n" by auto
  have last: "last_event_id ops (fst s) = length (sd_events ops (fst s))"
    using 1(1) handle_last_id by (auto simp: db_handle_ok_iff)
  with 1(3) len have "length es = 0" by linarith
  then have "es = []" by simp
  with s' ev last len show ?case by (auto simp: replay_events_def intro: recorded_onI)
next
  case (2 s k e x s' err)
  from db_append_cases [OF 2(1) env nonce 2(2)] show ?case by auto
next
  case (3 s)
  show ?case by (auto simp: db_evolves_def replay_events_def intro: exI [of _ "[]"])
next
  case (4 s t u)
  then show ?case unfolding db_evolves_def by (metis append_assoc replay_events_append)
next
  case (5 s s')
  then show ?case by (simp add: db_evolves_def)
next
  case (6 s s')
  then have "db_handle_ok ops env s'" by (simp add: db_evolves_def)
  with 6 handle_last_id [of env] show ?case
    by (auto simp: db_handle_ok_iff db_evolves_def events_replay)
next
  case (7 s s')
  then have "db_handle_ok ops env s'" by (simp add: db_evolves_def)
  with 7 obtain es where "fst s' = replay_events ops es (fst s)"
    "length (sd_events ops (fst s')) = length (sd_events ops (fst s))"
    using handle_last_id [of env] by (auto simp: db_handle_ok_iff db_evolves_def)
  with replay_same_length [of es "fst s"] show ?case by (simp add: replay_events_def)
qed

end

end
