(* ===== verification/Pg_Projection.thy ===== *)
theory Pg_Projection
  imports Conditional_Update
begin

text \<open>
  The projection of a political group's stream (\<open>projection/pg_data\<close>): the events a group
  can record, how each changes the projection, snapshots for the audit log, and the reads.

  The handlers for a group of events end in \<open>unreachable!\<close>; they return an option here, and
  \<open>pg_apply_opt\<close> is the dispatcher of the source, with \<open>None\<close> a panic. Default values carry
  a fresh submitter id, which is a parameter. \<open>usize\<close> event numbers are naturals.
\<close>

record candidate_import =
  ci_list_id :: candidate_list_id
  ci_file_name :: rstring
  ci_file_size :: nat
  ci_created_persons :: "person list"
  ci_updated_persons :: "person list"
  ci_candidates :: "person_id list"

datatype pg_event =
    UpdatePoliticalGroup political_group
  | CreatePerson person
  | CreatePersonPersonalData person_id full_name personal_data
  | UpdatePerson person
  | UpdatePersonPersonalData person_id full_name personal_data
  | UpdatePersonAddress person_id dutch_address
  | UpdatePersonRepresentative person_id "representative option"
  | DeletePerson person_id
  | CreateCandidateList candidate_list
  | UpdateCandidateListDistricts candidate_list_id "electoral_district btset"
  | UpdateCandidateListOrder candidate_list_id "person_id list"
  | AddCandidateToCandidateList candidate_list_id person_id
  | RemoveCandidateFromCandidateList candidate_list_id person_id
  | DeleteCandidateList candidate_list_id
  | CreateNameAuthorisation name_authorisation
  | UpdateNameAuthorisation name_authorisation
  | DeleteNameAuthorisation name_authorisation_id
  | UpdateListSubmitter list_submitter
  | CreateSubstituteSubmitter list_submitter
  | UpdateSubstituteSubmitter list_submitter
  | DeleteSubstituteSubmitter list_submitter_id
  | DeveloperLogin stream_id
  | Login
  | Logout
  | DownloadFile rstring rstring
  | HideDownloadWarning
  | ExportCsv rstring nat candidate_list_id
  | ImportCandidates candidate_import
  | Import event_hash

definition created_person_count :: "pg_event \<Rightarrow> nat" where
  "created_person_count e = (case e of
      CreatePerson _ \<Rightarrow> 1
    | CreatePersonPersonalData _ _ _ \<Rightarrow> 1
    | ImportCandidates imp \<Rightarrow> length (ci_created_persons imp)
    | _ \<Rightarrow> 0)"

record pg_store_data =
  d_political_group :: political_group
  d_persons :: "(person_id, person) hmap"
  d_candidate_lists :: "(candidate_list_id, candidate_list) hmap"
  d_name_authorisations :: "(name_authorisation_id, name_authorisation) hmap"
  d_list_submitter :: list_submitter
  d_substitute_submitters :: "list_submitter list"
  d_events :: "pg_event store_event list"

definition pg_default :: "list_submitter_id \<Rightarrow> pg_store_data" where
  "pg_default fresh = \<lparr>d_political_group = political_group_default, d_persons = [],
     d_candidate_lists = [], d_name_authorisations = [],
     d_list_submitter = list_submitter_default fresh, d_substitute_submitters = [], d_events = []\<rparr>"

subsection \<open>Event handlers\<close>

fun apply_person_create_event :: "pg_event \<Rightarrow> timestamp \<Rightarrow> pg_store_data \<Rightarrow> pg_store_data option" where
  "apply_person_create_event (CreatePerson person) event_time d =
     (let person = person\<lparr>p_updated_at := event_time\<rparr> in
      Some (d\<lparr>d_persons := hm_insert (p_id person) person (d_persons d)\<rparr>))"
| "apply_person_create_event (CreatePersonPersonalData person_id name personal_data) event_time d =
     (let person = \<lparr>p_id = person_id, p_name = name, p_personal_data = personal_data,
        p_address = dutch_address_default, p_representative = None, p_updated_at = event_time\<rparr> in
      Some (d\<lparr>d_persons := hm_insert person_id person (d_persons d)\<rparr>))"
| "apply_person_create_event _ _ _ = None"

fun apply_person_update_event :: "pg_event \<Rightarrow> timestamp \<Rightarrow> pg_store_data \<Rightarrow> pg_store_data option" where
  "apply_person_update_event (UpdatePerson person) event_time d =
     (let person = person\<lparr>p_updated_at := event_time\<rparr> in
      Some (d\<lparr>d_persons := hm_modify (p_id person) (\<lambda>_. person) (d_persons d)\<rparr>))"
| "apply_person_update_event (UpdatePersonPersonalData person_id name personal_data) event_time d =
     Some (d\<lparr>d_persons := hm_modify person_id (\<lambda>existing. existing\<lparr>p_name := name,
       p_personal_data := personal_data, p_updated_at := event_time\<rparr>) (d_persons d)\<rparr>)"
| "apply_person_update_event (UpdatePersonAddress person_id address) event_time d =
     Some (d\<lparr>d_persons := hm_modify person_id (\<lambda>existing. existing\<lparr>p_address := address,
       p_updated_at := event_time\<rparr>) (d_persons d)\<rparr>)"
| "apply_person_update_event (UpdatePersonRepresentative person_id representative) event_time d =
     Some (d\<lparr>d_persons := hm_modify person_id (\<lambda>existing. existing\<lparr>p_representative := representative,
       p_updated_at := event_time\<rparr>) (d_persons d)\<rparr>)"
| "apply_person_update_event _ _ _ = None"

definition remove_candidate :: "person_id \<Rightarrow> candidate_list \<Rightarrow> candidate_list" where
  "remove_candidate person_id l = l\<lparr>cl_candidates := filter (\<lambda>i. i \<noteq> person_id) (cl_candidates l)\<rparr>"

fun apply_person_event :: "pg_event \<Rightarrow> timestamp \<Rightarrow> pg_store_data \<Rightarrow> pg_store_data option" where
  "apply_person_event (CreatePerson p) t d = apply_person_create_event (CreatePerson p) t d"
| "apply_person_event (CreatePersonPersonalData i n pd) t d =
     apply_person_create_event (CreatePersonPersonalData i n pd) t d"
| "apply_person_event (UpdatePerson p) t d = apply_person_update_event (UpdatePerson p) t d"
| "apply_person_event (UpdatePersonPersonalData i n pd) t d =
     apply_person_update_event (UpdatePersonPersonalData i n pd) t d"
| "apply_person_event (UpdatePersonAddress i a) t d = apply_person_update_event (UpdatePersonAddress i a) t d"
| "apply_person_event (UpdatePersonRepresentative i r) t d =
     apply_person_update_event (UpdatePersonRepresentative i r) t d"
| "apply_person_event (DeletePerson person_id) t d =
     Some (d\<lparr>d_candidate_lists := hm_map_values (remove_candidate person_id) (d_candidate_lists d),
             d_persons := hm_remove person_id (d_persons d)\<rparr>)"
| "apply_person_event _ _ _ = None"

definition add_candidate :: "person_id \<Rightarrow> candidate_list \<Rightarrow> candidate_list" where
  "add_candidate person_id l = (if person_id \<notin> set (cl_candidates l)
     then l\<lparr>cl_candidates := cl_candidates l @ [person_id]\<rparr> else l)"

fun apply_candidate_list_event :: "pg_event \<Rightarrow> timestamp \<Rightarrow> pg_store_data \<Rightarrow> pg_store_data option" where
  "apply_candidate_list_event (CreateCandidateList cl) event_time d =
     (let cl = cl\<lparr>cl_created_at := event_time\<rparr> in
      Some (d\<lparr>d_candidate_lists := hm_insert (cl_id cl) cl (d_candidate_lists d)\<rparr>))"
| "apply_candidate_list_event (UpdateCandidateListDistricts list_id districts) event_time d =
     Some (d\<lparr>d_candidate_lists := hm_modify list_id
       (\<lambda>existing. existing\<lparr>cl_electoral_districts := districts\<rparr>) (d_candidate_lists d)\<rparr>)"
| "apply_candidate_list_event (UpdateCandidateListOrder list_id candidates) event_time d =
     Some (d\<lparr>d_candidate_lists := hm_modify list_id
       (\<lambda>existing. existing\<lparr>cl_candidates := candidates\<rparr>) (d_candidate_lists d)\<rparr>)"
| "apply_candidate_list_event (AddCandidateToCandidateList list_id person_id) event_time d =
     Some (d\<lparr>d_candidate_lists := hm_modify list_id (add_candidate person_id) (d_candidate_lists d)\<rparr>)"
| "apply_candidate_list_event (RemoveCandidateFromCandidateList list_id person_id) event_time d =
     Some (d\<lparr>d_candidate_lists := hm_modify list_id (remove_candidate person_id) (d_candidate_lists d)\<rparr>)"
| "apply_candidate_list_event (DeleteCandidateList i) event_time d =
     Some (d\<lparr>d_candidate_lists := hm_remove i (d_candidate_lists d)\<rparr>)"
| "apply_candidate_list_event _ _ _ = None"

fun apply_name_authorisation_event :: "pg_event \<Rightarrow> pg_store_data \<Rightarrow> pg_store_data option" where
  "apply_name_authorisation_event (CreateNameAuthorisation aa) d =
     Some (d\<lparr>d_name_authorisations := hm_insert (na_id aa) aa (d_name_authorisations d)\<rparr>)"
| "apply_name_authorisation_event (UpdateNameAuthorisation aa) d =
     Some (d\<lparr>d_name_authorisations := hm_modify (na_id aa) (\<lambda>_. aa) (d_name_authorisations d)\<rparr>)"
| "apply_name_authorisation_event (DeleteNameAuthorisation i) d =
     Some (d\<lparr>d_name_authorisations := hm_remove i (d_name_authorisations d)\<rparr>)"
| "apply_name_authorisation_event _ _ = None"

text \<open>\<open>iter_mut().find(p)\<close>, and the element found replaced.\<close>

fun replace_first :: "('a \<Rightarrow> bool) \<Rightarrow> 'a \<Rightarrow> 'a list \<Rightarrow> 'a list" where
  "replace_first p y [] = []"
| "replace_first p y (x # xs) = (if p x then y # xs else x # replace_first p y xs)"

fun apply_submitter_event :: "pg_event \<Rightarrow> pg_store_data \<Rightarrow> pg_store_data option" where
  "apply_submitter_event (UpdateListSubmitter ls) d = Some (d\<lparr>d_list_submitter := ls\<rparr>)"
| "apply_submitter_event (CreateSubstituteSubmitter ss) d =
     Some (d\<lparr>d_substitute_submitters := d_substitute_submitters d @ [ss]\<rparr>)"
| "apply_submitter_event (UpdateSubstituteSubmitter ss) d =
     Some (d\<lparr>d_substitute_submitters :=
       replace_first (\<lambda>existing. ls_id existing = ls_id ss) ss (d_substitute_submitters d)\<rparr>)"
| "apply_submitter_event (DeleteSubstituteSubmitter i) d =
     Some (d\<lparr>d_substitute_submitters := filter (\<lambda>s. ls_id s \<noteq> i) (d_substitute_submitters d)\<rparr>)"
| "apply_submitter_event _ _ = None"

definition apply_import_candidates_event ::
  "candidate_list_id \<Rightarrow> person list \<Rightarrow> person list \<Rightarrow> person_id list \<Rightarrow> timestamp \<Rightarrow> pg_store_data \<Rightarrow> pg_store_data" where
  "apply_import_candidates_event list_id created_persons updated_persons candidates event_time d =
    (let persons = fold (\<lambda>person. hm_insert (p_id person) (person\<lparr>p_updated_at := event_time\<rparr>))
           created_persons (d_persons d);
         persons = fold (\<lambda>person. hm_modify (p_id person) (\<lambda>_. person\<lparr>p_updated_at := event_time\<rparr>))
           updated_persons persons
     in d\<lparr>d_persons := persons,
          d_candidate_lists := hm_modify list_id (\<lambda>existing. existing\<lparr>cl_candidates := candidates\<rparr>)
            (d_candidate_lists d)\<rparr>)"

definition pg_apply_opt :: "pg_event store_event \<Rightarrow> pg_store_data \<Rightarrow> pg_store_data option" where
  "pg_apply_opt e d =
    (let d = d\<lparr>d_events := d_events d @ [e]\<rparr>; event_time = se_created_at e; event = se_payload e in
     case event of
       UpdatePoliticalGroup pg \<Rightarrow> Some (d\<lparr>d_political_group := pg\<rparr>)
     | CreatePerson _ \<Rightarrow> apply_person_event event event_time d
     | CreatePersonPersonalData _ _ _ \<Rightarrow> apply_person_event event event_time d
     | UpdatePerson _ \<Rightarrow> apply_person_event event event_time d
     | UpdatePersonPersonalData _ _ _ \<Rightarrow> apply_person_event event event_time d
     | UpdatePersonAddress _ _ \<Rightarrow> apply_person_event event event_time d
     | UpdatePersonRepresentative _ _ \<Rightarrow> apply_person_event event event_time d
     | DeletePerson _ \<Rightarrow> apply_person_event event event_time d
     | CreateCandidateList _ \<Rightarrow> apply_candidate_list_event event event_time d
     | UpdateCandidateListDistricts _ _ \<Rightarrow> apply_candidate_list_event event event_time d
     | UpdateCandidateListOrder _ _ \<Rightarrow> apply_candidate_list_event event event_time d
     | AddCandidateToCandidateList _ _ \<Rightarrow> apply_candidate_list_event event event_time d
     | RemoveCandidateFromCandidateList _ _ \<Rightarrow> apply_candidate_list_event event event_time d
     | DeleteCandidateList _ \<Rightarrow> apply_candidate_list_event event event_time d
     | CreateNameAuthorisation _ \<Rightarrow> apply_name_authorisation_event event d
     | UpdateNameAuthorisation _ \<Rightarrow> apply_name_authorisation_event event d
     | DeleteNameAuthorisation _ \<Rightarrow> apply_name_authorisation_event event d
     | UpdateListSubmitter _ \<Rightarrow> apply_submitter_event event d
     | CreateSubstituteSubmitter _ \<Rightarrow> apply_submitter_event event d
     | UpdateSubstituteSubmitter _ \<Rightarrow> apply_submitter_event event d
     | DeleteSubstituteSubmitter _ \<Rightarrow> apply_submitter_event event d
     | ImportCandidates imp \<Rightarrow> Some (apply_import_candidates_event (ci_list_id imp)
         (ci_created_persons imp) (ci_updated_persons imp) (ci_candidates imp) event_time d)
     | DeveloperLogin _ \<Rightarrow> Some d
     | Login \<Rightarrow> Some d
     | Logout \<Rightarrow> Some d
     | DownloadFile _ _ \<Rightarrow> Some d
     | HideDownloadWarning \<Rightarrow> Some d
     | ExportCsv _ _ _ \<Rightarrow> Some d
     | Import _ \<Rightarrow> Some d)"

definition pg_apply :: "pg_event store_event \<Rightarrow> pg_store_data \<Rightarrow> pg_store_data" where
  "pg_apply e d = the (pg_apply_opt e d)"

definition pg_ops :: "list_submitter_id \<Rightarrow> (pg_store_data, pg_event) store_data_ops" where
  "pg_ops fresh = \<lparr>sd_default = pg_default fresh, sd_apply = pg_apply, sd_events = d_events,
     sd_scope = PoliticalGroup\<rparr>"

definition pg_replay_onto :: "pg_store_data \<Rightarrow> pg_event store_event list \<Rightarrow> nat \<Rightarrow> pg_store_data" where
  "pg_replay_onto base events target_event_id =
     fold pg_apply (takeWhile (\<lambda>e. se_event_id e \<le> target_event_id) events) base"

definition pg_snapshot_until :: "list_submitter_id \<Rightarrow> pg_event store_event list \<Rightarrow> nat \<Rightarrow> pg_store_data" where
  "pg_snapshot_until fresh events target_event_id =
     (pg_replay_onto (pg_default fresh) events target_event_id)\<lparr>d_events := []\<rparr>"

subsection \<open>Reads\<close>

definition get_persons :: "pg_store_data \<Rightarrow> person list" where
  "get_persons d = hm_values (d_persons d)"

definition get_person :: "pg_store_data \<Rightarrow> person_id \<Rightarrow> person result" where
  "get_person d i = ok_or GenericNotFound (hm_get (d_persons d) i)"

definition get_person_count :: "pg_store_data \<Rightarrow> nat" where
  "get_person_count d = length (d_persons d)"

definition get_name_authorisations :: "pg_store_data \<Rightarrow> name_authorisation list" where
  "get_name_authorisations d = hm_values (d_name_authorisations d)"

definition get_name_authorisation :: "pg_store_data \<Rightarrow> name_authorisation_id \<Rightarrow> name_authorisation result" where
  "get_name_authorisation d i = ok_or GenericNotFound (hm_get (d_name_authorisations d) i)"

definition get_substitute_submitter :: "pg_store_data \<Rightarrow> list_submitter_id \<Rightarrow> list_submitter result" where
  "get_substitute_submitter d i =
     ok_or GenericNotFound (find (\<lambda>s. ls_id s = i) (d_substitute_submitters d))"

definition get_candidate_list :: "pg_store_data \<Rightarrow> candidate_list_id \<Rightarrow> candidate_list result" where
  "get_candidate_list d i = ok_or GenericNotFound (hm_get (d_candidate_lists d) i)"

text \<open>\<open>sort_unstable_by_key\<close> over the values of a hash map: any order of lists created at
  the same time is possible; the model has the order of the association list.\<close>

definition get_candidate_lists :: "pg_store_data \<Rightarrow> candidate_list list" where
  "get_candidate_lists d = sort_key cl_created_at (hm_values (d_candidate_lists d))"

definition get_candidate_list_count :: "pg_store_data \<Rightarrow> nat" where
  "get_candidate_list_count d = length (d_candidate_lists d)"

definition get_candidate_lists_in_page_order ::
  "(electoral_district \<Rightarrow> nat) \<Rightarrow> pg_store_data \<Rightarrow> candidate_list list" where
  "get_candidate_lists_in_page_order region_number d =
     sort_key (\<lambda>l. case map region_number (cl_electoral_districts l) of
         [] \<Rightarrow> 0 | ns \<Rightarrow> Min (set ns)) (get_candidate_lists d)"

definition get_first_list :: "pg_store_data \<Rightarrow> person_id \<Rightarrow> candidate_list option" where
  "get_first_list d p = find (\<lambda>l. p \<in> set (cl_candidates l)) (get_candidate_lists d)"

definition get_candidate_position :: "pg_store_data \<Rightarrow> candidate_list_id \<Rightarrow> person_id \<Rightarrow> nat option" where
  "get_candidate_position d i p = (case hm_get (d_candidate_lists d) i of
      None \<Rightarrow> None | Some l \<Rightarrow> position_of l p)"

definition count_candidate_lists :: "pg_store_data \<Rightarrow> person_id \<Rightarrow> nat" where
  "count_candidate_lists d p =
     length (filter (\<lambda>l. p \<in> set (cl_candidates l)) (hm_values (d_candidate_lists d)))"

definition candidates_in_list_order :: "pg_store_data \<Rightarrow> (candidate_list_id \<times> person_id) list" where
  "candidates_in_list_order d =
     concat (map (\<lambda>l. map (\<lambda>p. (cl_id l, p)) (cl_candidates l)) (get_candidate_lists d))"

text \<open>\<open>find_map\<close>: the first result that is present.\<close>

fun find_map :: "('a \<Rightarrow> 'b option) \<Rightarrow> 'a list \<Rightarrow> 'b option" where
  "find_map f [] = None"
| "find_map f (x # xs) = (case f x of Some y \<Rightarrow> Some y | None \<Rightarrow> find_map f xs)"

definition get_first_candidate_name :: "pg_store_data \<Rightarrow> full_name option" where
  "get_first_candidate_name d =
     map_option p_name (find_map (\<lambda>(_, i). hm_get (d_persons d) i) (candidates_in_list_order d))"

definition get_appellation :: "pg_store_data \<Rightarrow> rstring" where
  "get_appellation d = csb_appellation (d_political_group d) (get_first_candidate_name d)"

fun is_download :: "pg_event \<Rightarrow> bool" where
  "is_download (DownloadFile _ _) = True"
| "is_download _ = False"

fun is_hide_warning :: "pg_event \<Rightarrow> bool" where
  "is_hide_warning HideDownloadWarning = True"
| "is_hide_warning _ = False"

definition should_show_download_warning :: "pg_store_data \<Rightarrow> bool" where
  "should_show_download_warning d =
    (case find (\<lambda>e. is_download (se_payload e) \<or> is_hide_warning (se_payload e)) (rev (d_events d)) of
      None \<Rightarrow> False
    | Some e \<Rightarrow> is_download (se_payload e))"

subsection \<open>Districts across lists\<close>

text \<open>A \<open>BTreeMap\<close> entry filled only when vacant: the first list in creation order wins.\<close>

definition districts_on_other_lists ::
  "pg_store_data \<Rightarrow> candidate_list_id option \<Rightarrow> (electoral_district, candidate_list) hmap" where
  "districts_on_other_lists d list_id =
    fold (\<lambda>l m. if Some (cl_id l) = list_id then m
        else fold (\<lambda>district m. if hm_contains m district then m else hm_insert district l m)
          (cl_electoral_districts l) m)
      (get_candidate_lists d) []"

definition duplicate_districts :: "pg_store_data \<Rightarrow> candidate_list \<Rightarrow> electoral_district list" where
  "duplicate_districts d l =
     filter (hm_contains (districts_on_other_lists d (Some (cl_id l)))) (cl_electoral_districts l)"

end
