(* ===== verification/Pg_Invariants.thy ===== *)
theory Pg_Invariants
  imports Pg_Projection
begin

text \<open>
  What every event keeps of a political group's projection: it never panics and always
  logs the event; the maps stay keyed by the id of their values; candidate lists stay free
  of duplicates and dangling candidates for the events the application records; and the
  reads answer accordingly.
\<close>

lemmas pg_apply_defs = pg_apply_def pg_apply_opt_def Let_def

lemma pg_apply_opt_Some: "pg_apply_opt e d \<noteq> None"
  by (cases "se_payload e") (simp_all add: pg_apply_opt_def Let_def)

lemma d_events_pg_apply [simp]: "d_events (pg_apply e d) = d_events d @ [e]"
  by (cases "se_payload e") (simp_all add: pg_apply_defs apply_import_candidates_event_def)

lemma pg_ops_simps [simp]:
  "sd_default (pg_ops fresh) = pg_default fresh" "sd_apply (pg_ops fresh) = pg_apply"
  "sd_events (pg_ops fresh) = d_events" "sd_scope (pg_ops fresh) = PoliticalGroup"
  by (simp_all add: pg_ops_def)

interpretation pg: store_data "pg_ops fresh" for fresh
  by unfold_locales (simp_all add: pg_default_def)

subsection \<open>Which event touches which part\<close>

text \<open>The persons, the lists and the other parts after an event, by kind of event.\<close>

fun persons_after :: "pg_event \<Rightarrow> timestamp \<Rightarrow> (person_id, person) hmap \<Rightarrow> (person_id, person) hmap" where
  "persons_after (CreatePerson p) t m = hm_insert (p_id p) (p\<lparr>p_updated_at := t\<rparr>) m"
| "persons_after (CreatePersonPersonalData i n pd) t m = hm_insert i \<lparr>p_id = i, p_name = n,
     p_personal_data = pd, p_address = dutch_address_default, p_representative = None, p_updated_at = t\<rparr> m"
| "persons_after (UpdatePerson p) t m = hm_modify (p_id p) (\<lambda>_. p\<lparr>p_updated_at := t\<rparr>) m"
| "persons_after (UpdatePersonPersonalData i n pd) t m =
     hm_modify i (\<lambda>p. p\<lparr>p_name := n, p_personal_data := pd, p_updated_at := t\<rparr>) m"
| "persons_after (UpdatePersonAddress i a) t m = hm_modify i (\<lambda>p. p\<lparr>p_address := a, p_updated_at := t\<rparr>) m"
| "persons_after (UpdatePersonRepresentative i r) t m =
     hm_modify i (\<lambda>p. p\<lparr>p_representative := r, p_updated_at := t\<rparr>) m"
| "persons_after (DeletePerson i) t m = hm_remove i m"
| "persons_after (ImportCandidates imp) t m =
     fold (\<lambda>p. hm_modify (p_id p) (\<lambda>_. p\<lparr>p_updated_at := t\<rparr>)) (ci_updated_persons imp)
       (fold (\<lambda>p. hm_insert (p_id p) (p\<lparr>p_updated_at := t\<rparr>)) (ci_created_persons imp) m)"
| "persons_after _ t m = m"

fun lists_after :: "pg_event \<Rightarrow> timestamp \<Rightarrow> (candidate_list_id, candidate_list) hmap \<Rightarrow> (candidate_list_id, candidate_list) hmap" where
  "lists_after (DeletePerson i) t m = hm_map_values (remove_candidate i) m"
| "lists_after (CreateCandidateList l) t m = hm_insert (cl_id l) (l\<lparr>cl_created_at := t\<rparr>) m"
| "lists_after (UpdateCandidateListDistricts i ds) t m = hm_modify i (\<lambda>l. l\<lparr>cl_electoral_districts := ds\<rparr>) m"
| "lists_after (UpdateCandidateListOrder i cs) t m = hm_modify i (\<lambda>l. l\<lparr>cl_candidates := cs\<rparr>) m"
| "lists_after (AddCandidateToCandidateList i p) t m = hm_modify i (add_candidate p) m"
| "lists_after (RemoveCandidateFromCandidateList i p) t m = hm_modify i (remove_candidate p) m"
| "lists_after (DeleteCandidateList i) t m = hm_remove i m"
| "lists_after (ImportCandidates imp) t m =
     hm_modify (ci_list_id imp) (\<lambda>l. l\<lparr>cl_candidates := ci_candidates imp\<rparr>) m"
| "lists_after _ t m = m"

lemma d_persons_pg_apply: "d_persons (pg_apply e d) = persons_after (se_payload e) (se_created_at e) (d_persons d)"
  by (cases "se_payload e") (simp_all add: pg_apply_defs apply_import_candidates_event_def)

lemma d_lists_pg_apply:
  "d_candidate_lists (pg_apply e d) = lists_after (se_payload e) (se_created_at e) (d_candidate_lists d)"
  by (cases "se_payload e") (simp_all add: pg_apply_defs apply_import_candidates_event_def)

lemma d_name_authorisations_pg_apply:
  "d_name_authorisations (pg_apply e d) = (case se_payload e of
      CreateNameAuthorisation a \<Rightarrow> hm_insert (na_id a) a (d_name_authorisations d)
    | UpdateNameAuthorisation a \<Rightarrow> hm_modify (na_id a) (\<lambda>_. a) (d_name_authorisations d)
    | DeleteNameAuthorisation i \<Rightarrow> hm_remove i (d_name_authorisations d)
    | _ \<Rightarrow> d_name_authorisations d)"
  by (cases "se_payload e") (simp_all add: pg_apply_defs apply_import_candidates_event_def)

lemmas pg_apply_parts = d_persons_pg_apply d_lists_pg_apply d_name_authorisations_pg_apply

subsection \<open>The maps are keyed by id\<close>

definition keyed :: "('v \<Rightarrow> 'k) \<Rightarrow> ('k, 'v) hmap \<Rightarrow> bool" where
  "keyed f m = (\<forall>k v. hm_get m k = Some v \<longrightarrow> f v = k)"

lemma keyed_intros [inv_intros]:
  "keyed f []"
  "keyed f m \<Longrightarrow> f v = k \<Longrightarrow> keyed f (hm_insert k v m)"
  "keyed f m \<Longrightarrow> keyed f (hm_remove k m)"
  "keyed f m \<Longrightarrow> (\<And>v. f v = k \<Longrightarrow> f (g v) = k) \<Longrightarrow> keyed f (hm_modify k g m)"
  "keyed f m \<Longrightarrow> (\<And>v. f (g v) = f v) \<Longrightarrow> keyed f (hm_map_values g m)"
  by (auto simp: keyed_def)

lemma keyed_fold_insert:
  "keyed f m \<Longrightarrow> (\<And>x. f (val x) = key x) \<Longrightarrow> keyed f (fold (\<lambda>x. hm_insert (key x) (val x)) xs m)"
  by (induction xs arbitrary: m) (simp_all add: keyed_intros)

lemma keyed_fold_modify:
  "keyed f m \<Longrightarrow> (\<And>x. f (val x) = key x) \<Longrightarrow> keyed f (fold (\<lambda>x. hm_modify (key x) (\<lambda>_. val x)) xs m)"
  by (induction xs arbitrary: m) (simp_all add: keyed_intros)

definition pg_inv :: "pg_store_data \<Rightarrow> bool" where
  "pg_inv d = (hm_ok (d_persons d) \<and> hm_ok (d_candidate_lists d) \<and> hm_ok (d_name_authorisations d)
     \<and> keyed p_id (d_persons d) \<and> keyed cl_id (d_candidate_lists d) \<and> keyed na_id (d_name_authorisations d))"

lemma remove_candidate_simps [simp]:
  "cl_id (remove_candidate p l) = cl_id l"
  "cl_candidates (remove_candidate p l) = filter (\<lambda>i. i \<noteq> p) (cl_candidates l)"
  "cl_electoral_districts (remove_candidate p l) = cl_electoral_districts l"
  "cl_created_at (remove_candidate p l) = cl_created_at l"
  by (simp_all add: remove_candidate_def)

lemma add_candidate_simps [simp]:
  "cl_id (add_candidate p l) = cl_id l"
  "set (cl_candidates (add_candidate p l)) = insert p (set (cl_candidates l))"
  "distinct (cl_candidates (add_candidate p l)) = distinct (cl_candidates l)"
  by (auto simp: add_candidate_def)

lemma hm_ok_persons_after: "hm_ok m \<Longrightarrow> hm_ok (persons_after e t m)"
  by (cases e) (simp_all add: inv_intros hm.inv_fold_ins hm.inv_fold_modi)

lemma hm_ok_lists_after: "hm_ok m \<Longrightarrow> hm_ok (lists_after e t m)"
  by (cases e) (simp_all add: inv_intros)

lemma keyed_persons_after: "keyed p_id m \<Longrightarrow> keyed p_id (persons_after e t m)"
  by (cases e) (simp_all add: inv_intros keyed_fold_insert keyed_fold_modify)

lemma keyed_lists_after: "keyed cl_id m \<Longrightarrow> keyed cl_id (lists_after e t m)"
  by (cases e) (simp_all add: inv_intros)

lemma pg_inv_default: "pg_inv (pg_default fresh)"
  by (simp add: pg_inv_def pg_default_def keyed_intros)

lemma pg_inv_apply:
  assumes "pg_inv d"
  shows "pg_inv (pg_apply e d)"
proof -
  have "hm_ok (d_name_authorisations (pg_apply e d)) \<and> keyed na_id (d_name_authorisations (pg_apply e d))"
    using assms unfolding d_name_authorisations_pg_apply pg_inv_def
    by (cases "se_payload e") (simp_all add: inv_intros)
  then show ?thesis
    using assms by (simp add: pg_inv_def pg_apply_parts(1,2) hm_ok_persons_after hm_ok_lists_after
        keyed_persons_after keyed_lists_after)
qed

lemma pg_inv_fold: "pg_inv d \<Longrightarrow> pg_inv (fold pg_apply es d)"
  by (induction es arbitrary: d) (simp_all add: pg_inv_apply)

subsection \<open>Candidates on lists\<close>

text \<open>No list names a person twice or a person the projection does not hold.\<close>

definition refs_ok :: "pg_store_data \<Rightarrow> bool" where
  "refs_ok d = (\<forall>i l. hm_get (d_candidate_lists d) i = Some l \<longrightarrow>
     distinct (cl_candidates l) \<and> (\<forall>p\<in>set (cl_candidates l). hm_contains (d_persons d) p))"

text \<open>The condition on an event's own candidates.\<close>

fun event_refs_ok :: "pg_store_data \<Rightarrow> pg_event \<Rightarrow> bool" where
  "event_refs_ok d (CreateCandidateList l) =
     (distinct (cl_candidates l) \<and> (\<forall>p\<in>set (cl_candidates l). hm_contains (d_persons d) p))"
| "event_refs_ok d (UpdateCandidateListOrder i cs) =
     (distinct cs \<and> (\<forall>p\<in>set cs. hm_contains (d_persons d) p))"
| "event_refs_ok d (AddCandidateToCandidateList i p) = hm_contains (d_persons d) p"
| "event_refs_ok d (ImportCandidates imp) = (distinct (ci_candidates imp)
     \<and> (\<forall>p\<in>set (ci_candidates imp). hm_contains (d_persons d) p \<or> p \<in> p_id ` set (ci_created_persons imp)))"
| "event_refs_ok d _ = True"

lemma hm_contains_insert [simp]: "hm_contains (hm_insert k v m) k' \<longleftrightarrow> k' = k \<or> hm_contains m k'"
  and hm_contains_remove [simp]: "hm_contains (hm_remove k m) k' \<longleftrightarrow> k' \<noteq> k \<and> hm_contains m k'"
  and hm_contains_modify [simp]: "hm_contains (hm_modify k f m) k' \<longleftrightarrow> hm_contains m k'"
  and hm_contains_map_values [simp]: "hm_contains (hm_map_values f m) k' \<longleftrightarrow> hm_contains m k'"
  and hm_contains_Nil [simp]: "\<not> hm_contains [] k'"
  by (auto simp: hm_contains_def)

lemma contains_persons_after:
  "hm_contains (persons_after e t m) p \<longleftrightarrow> (case e of
      CreatePerson q \<Rightarrow> p = p_id q \<or> hm_contains m p
    | CreatePersonPersonalData i _ _ \<Rightarrow> p = i \<or> hm_contains m p
    | DeletePerson i \<Rightarrow> p \<noteq> i \<and> hm_contains m p
    | ImportCandidates imp \<Rightarrow> p \<in> p_id ` set (ci_created_persons imp) \<or> hm_contains m p
    | _ \<Rightarrow> hm_contains m p)"
proof (cases e)
  case (ImportCandidates imp)
  then show ?thesis
    by (auto simp: hm_contains_def hm.get_fold_modi_none_iff [where f = "\<lambda>p _. p\<lparr>p_updated_at := t\<rparr>" and key = p_id]
        hm.get_fold_ins_none_iff)
qed auto

lemma refs_ok_apply:
  assumes "refs_ok d" "event_refs_ok d (se_payload e)"
  shows "refs_ok (pg_apply e d)"
proof -
  have "distinct (cl_candidates l) \<and> (\<forall>p\<in>set (cl_candidates l). hm_contains (d_persons (pg_apply e d)) p)"
    if l: "hm_get (lists_after (se_payload e) (se_created_at e) (d_candidate_lists d)) i = Some l" for i l
    using assms l unfolding refs_ok_def d_persons_pg_apply contains_persons_after
    by (cases "se_payload e"; fastforce split: if_splits)
  then show ?thesis by (simp add: refs_ok_def d_lists_pg_apply)
qed

subsection \<open>Growth\<close>

lemma length_fold_insert: "length (fold (\<lambda>x. hm_insert (key x) (val x)) xs m) \<le> length m + length xs"
proof (induction xs arbitrary: m)
  case (Cons x xs)
  have "length (hm_insert (key x) (val x) m) \<le> Suc (length m)" by (rule length_hm_insert_le)
  with Cons [of "hm_insert (key x) (val x) m"] show ?case by simp
qed simp

lemma length_fold_modify [simp]: "length (fold (\<lambda>x. hm_modify (key x) (f x)) xs m) = length m"
  by (induction xs arbitrary: m) simp_all

lemma person_count_apply:
  "get_person_count (pg_apply e d) \<le> get_person_count d + created_person_count (se_payload e)"
proof (cases "se_payload e")
  case (ImportCandidates imp)
  then show ?thesis
    by (simp add: get_person_count_def d_persons_pg_apply created_person_count_def length_fold_insert)
qed (simp_all add: get_person_count_def d_persons_pg_apply created_person_count_def length_hm_insert_le
    length_hm_remove_le length_hm_insert)

lemma list_count_apply:
  "get_candidate_list_count (pg_apply e d) \<le> get_candidate_list_count d
     + (case se_payload e of CreateCandidateList _ \<Rightarrow> 1 | _ \<Rightarrow> 0)"
  by (cases "se_payload e")
    (simp_all add: get_candidate_list_count_def d_lists_pg_apply length_hm_insert_le length_hm_remove_le length_hm_insert)

lemma d_substitute_submitters_pg_apply:
  "d_substitute_submitters (pg_apply e d) = (case se_payload e of
      CreateSubstituteSubmitter s \<Rightarrow> d_substitute_submitters d @ [s]
    | UpdateSubstituteSubmitter s \<Rightarrow> replace_first (\<lambda>x. ls_id x = ls_id s) s (d_substitute_submitters d)
    | DeleteSubstituteSubmitter i \<Rightarrow> filter (\<lambda>s. ls_id s \<noteq> i) (d_substitute_submitters d)
    | _ \<Rightarrow> d_substitute_submitters d)"
  by (cases "se_payload e") (simp_all add: pg_apply_defs apply_import_candidates_event_def)

lemma length_replace_first [simp]: "length (replace_first p y xs) = length xs"
  by (induction xs) auto

lemma submitter_count_apply:
  "length (d_substitute_submitters (pg_apply e d)) \<le> length (d_substitute_submitters d)
     + (case se_payload e of CreateSubstituteSubmitter _ \<Rightarrow> 1 | _ \<Rightarrow> 0)"
  by (cases "se_payload e") (simp_all add: d_substitute_submitters_pg_apply)

subsection \<open>Snapshots\<close>

lemma pg_replay_onto_take:
  assumes "map se_event_id es = [1..<Suc (length es)]"
  shows "pg_replay_onto base es n = fold pg_apply (take n es) base"
proof -
  have ids: "se_event_id (es ! i) = Suc i" if "i < length es" for i
  proof -
    have "map se_event_id es ! i = [1..<Suc (length es)] ! i" by (simp only: assms)
    with that show ?thesis by (simp del: upt_Suc)
  qed
  have "takeWhile (\<lambda>e. se_event_id e \<le> n) es = take n es"
  proof (rule takeWhile_eq_take_P_nth)
    fix i assume "i < n" "i < length es"
    then show "se_event_id (es ! i) \<le> n" by (simp add: ids)
  next
    assume "n < length es"
    then show "\<not> se_event_id (es ! n) \<le> n" by (simp add: ids)
  qed
  then show ?thesis by (simp add: pg_replay_onto_def)
qed

subsection \<open>Reads\<close>

lemma mset_get_candidate_lists: "mset (get_candidate_lists d) = mset (hm_values (d_candidate_lists d))"
  by (simp add: get_candidate_lists_def)

lemma get_candidate_lists_iff:
  "pg_inv d \<Longrightarrow> l \<in> set (get_candidate_lists d) \<longleftrightarrow> hm_get (d_candidate_lists d) (cl_id l) = Some l"
  by (auto simp: get_candidate_lists_def pg_inv_def keyed_def hm_values_iff)

text \<open>A district is on another list exactly when it is a key of the map.\<close>

lemma fold_vacant_contains:
  "hm_contains (fold (\<lambda>x m. if hm_contains m x then m else hm_insert x v m) xs m) y
    \<longleftrightarrow> y \<in> set xs \<or> hm_contains m y"
  by (induction xs arbitrary: m) auto

lemma districts_on_other_lists_contains:
  "hm_contains (districts_on_other_lists d i) y \<longleftrightarrow>
    (\<exists>l\<in>set (get_candidate_lists d). Some (cl_id l) \<noteq> i \<and> y \<in> set (cl_electoral_districts l))"
proof -
  have "hm_contains (fold (\<lambda>l m. if Some (cl_id l) = i then m
        else fold (\<lambda>x m. if hm_contains m x then m else hm_insert x l m) (cl_electoral_districts l) m) ls m) y
      \<longleftrightarrow> (\<exists>l\<in>set ls. Some (cl_id l) \<noteq> i \<and> y \<in> set (cl_electoral_districts l)) \<or> hm_contains m y" for ls m
    by (induction ls arbitrary: m) (auto simp: fold_vacant_contains)
  from this [of "get_candidate_lists d" "[]"] show ?thesis
    unfolding districts_on_other_lists_def by simp
qed

lemma find_map_Some_iff_nth:
  "find_map f xs = Some y \<Longrightarrow> \<exists>i<length xs. f (xs ! i) = Some y \<and> (\<forall>j<i. f (xs ! j) = None)"
proof (induction xs)
  case (Cons x xs)
  show ?case
  proof (cases "f x")
    case None
    with Cons obtain i where "i < length xs" "f (xs ! i) = Some y" "\<forall>j<i. f (xs ! j) = None" by auto
    with None show ?thesis by (intro exI [of _ "Suc i"]) (auto simp: nth_Cons split: nat.splits)
  qed (use Cons.prems in \<open>auto intro!: exI [of _ 0]\<close>)
qed simp

end
