(* ===== verification/Pg_Store.thy ===== *)
theory Pg_Store
  imports Pg_Invariants
begin

text \<open>
  The store handle of a political group (\<open>projection/pg_store.rs\<close>, \<open>core/rate_limit.rs\<close>):
  rate limits counted from the event log, caps on the collections a group may hold, and an
  append that is refused when the stream moved since the handle last saw it.

  The range of representable times is \<open>chrono\<close>'s and a parameter. \<open>partition_point\<close> is
  specified on a partitioned slice only, where it is the length of the satisfying prefix.
\<close>

record rate_limit =
  rl_max :: nat
  rl_window :: int

record rate_limits =
  rls_downloads :: rate_limit
  rls_events :: rate_limit
  rls_events_total :: nat

definition limit_is_reached :: "rate_limit \<Rightarrow> nat \<Rightarrow> bool" where
  "limit_is_reached l n = (rl_max l > 0 \<and> n \<ge> rl_max l)"

definition window_start :: "int \<Rightarrow> int \<Rightarrow> rate_limit \<Rightarrow> timestamp \<Rightarrow> timestamp" where
  "window_start min_utc max_utc l now =
    (if min_utc \<le> now - rl_window l \<and> now - rl_window l \<le> max_utc then now - rl_window l else min_utc)"

text \<open>\<open>window_from_secs\<close>: nanoseconds, saturating at \<open>TimeDelta::MAX\<close> (\<open>i64::MAX\<close> milliseconds).\<close>

definition window_from_secs :: "nat \<Rightarrow> int" where
  "window_from_secs secs = (if int secs \<le> (2 ^ 63 - 1) div 1000 then int secs * 10 ^ 9
     else (2 ^ 63 - 1) * 10 ^ 6)"

definition rate_limit_with :: "rate_limit \<Rightarrow> nat option \<Rightarrow> nat option \<Rightarrow> rate_limit" where
  "rate_limit_with l mx window_secs = \<lparr>rl_max = (case mx of None \<Rightarrow> rl_max l | Some m \<Rightarrow> m),
     rl_window = (case window_secs of None \<Rightarrow> rl_window l | Some s \<Rightarrow> window_from_secs s)\<rparr>"

definition rate_limits_default :: rate_limits where
  "rate_limits_default = \<lparr>rls_downloads = \<lparr>rl_max = 60, rl_window = window_from_secs 3600\<rparr>,
     rls_events = \<lparr>rl_max = 3000, rl_window = window_from_secs 3600\<rparr>, rls_events_total = 30000\<rparr>"

abbreviation MAX_CANDIDATES :: nat where "MAX_CANDIDATES \<equiv> 80"
abbreviation MAX_PERSONS :: nat where "MAX_PERSONS \<equiv> 1000"
abbreviation MAX_CANDIDATE_LISTS :: nat where "MAX_CANDIDATE_LISTS \<equiv> 25"
abbreviation MAX_SUBSTITUTE_SUBMITTERS :: nat where "MAX_SUBSTITUTE_SUBMITTERS \<equiv> 20"

text \<open>The tail of the log after \<open>partition_point(created_at <= start)\<close>.\<close>

definition in_window :: "int \<Rightarrow> int \<Rightarrow> timestamp \<Rightarrow> 'e store_event list \<Rightarrow> rate_limit \<Rightarrow> 'e store_event list" where
  "in_window min_utc max_utc now events l =
     dropWhile (\<lambda>e. se_created_at e \<le> window_start min_utc max_utc l now) events"

definition check_limits :: "int \<Rightarrow> int \<Rightarrow> timestamp \<Rightarrow> rate_limits option \<Rightarrow> pg_store_data \<Rightarrow> bool \<Rightarrow> unit result" where
  "check_limits min_utc max_utc now limits d is_dl =
    (case limits of
      None \<Rightarrow> Ok ()
    | Some lims \<Rightarrow>
      let events = d_events d; window = in_window min_utc max_utc now events in
      if rls_events_total lims > 0 \<and> length events \<ge> rls_events_total lims
      then Err (EventLimitReached (rls_events_total lims))
      else if limit_is_reached (rls_events lims) (length (window (rls_events lims)))
      then Err (TooManyEvents (rl_max (rls_events lims)) (rl_window (rls_events lims)))
      else if is_dl \<and> limit_is_reached (rls_downloads lims)
          (length (filter (\<lambda>e. is_download (se_payload e)) (window (rls_downloads lims))))
      then Err (TooManyDownloads (rl_max (rls_downloads lims)) (rl_window (rls_downloads lims)))
      else Ok ())"

definition check_rate_limits :: "int \<Rightarrow> int \<Rightarrow> timestamp \<Rightarrow> rate_limits option \<Rightarrow> pg_store_data \<Rightarrow> pg_event \<Rightarrow> unit result" where
  "check_rate_limits min_utc max_utc now limits d e = check_limits min_utc max_utc now limits d (is_download e)"

definition check_download_limit :: "int \<Rightarrow> int \<Rightarrow> timestamp \<Rightarrow> rate_limits option \<Rightarrow> pg_store_data \<Rightarrow> unit result" where
  "check_download_limit min_utc max_utc now limits d = check_limits min_utc max_utc now limits d True"

fun is_create_list :: "pg_event \<Rightarrow> bool" where
  "is_create_list (CreateCandidateList _) = True"
| "is_create_list _ = False"

fun is_create_substitute :: "pg_event \<Rightarrow> bool" where
  "is_create_substitute (CreateSubstituteSubmitter _) = True"
| "is_create_substitute _ = False"

definition check_collection_limits :: "pg_store_data \<Rightarrow> pg_event \<Rightarrow> unit result" where
  "check_collection_limits d e =
    (let created = created_person_count e in
     if created > 0 \<and> get_person_count d + created > MAX_PERSONS then Err (TooManyPersons MAX_PERSONS)
     else if is_create_list e \<and> length (get_candidate_lists d) \<ge> MAX_CANDIDATE_LISTS
     then Err (TooManyCandidateLists MAX_CANDIDATE_LISTS)
     else if is_create_substitute e \<and> length (d_substitute_submitters d) \<ge> MAX_SUBSTITUTE_SUBMITTERS
     then Err (TooManySubstituteSubmitters MAX_SUBSTITUTE_SUBMITTERS)
     else Ok ())"

datatype write_target = Own | PaperCorrections

fun candidate_limit :: "write_target \<Rightarrow> nat" where
  "candidate_limit Own = MAX_CANDIDATES"
| "candidate_limit PaperCorrections = 2 ^ 64 - 1"

text \<open>\<open>PgStore::update\<close> on the own stream, over a backend's snapshot and append. The handle is
  the number it last saw; \<open>other 0\<close> and \<open>other 1\<close> are what other requests do between the two
  checks, which each take their own snapshot, and between the checks and the append.\<close>

definition pg_update_own ::
  "('s \<Rightarrow> pg_store_data) \<Rightarrow> (pg_event \<Rightarrow> nat option \<Rightarrow> 's \<Rightarrow> 's \<times> unit result) \<Rightarrow> (nat \<Rightarrow> 's \<Rightarrow> 's)
    \<Rightarrow> int \<Rightarrow> int \<Rightarrow> timestamp \<Rightarrow> rate_limits option \<Rightarrow> pg_event \<Rightarrow> 's \<times> nat \<Rightarrow> ('s \<times> nat) \<times> unit result" where
  "pg_update_own snapshot append_ev other min_utc max_utc now limits event = (\<lambda>(s, seen).
    let expected = seen in
    case check_rate_limits min_utc max_utc now limits (snapshot s) event of
      Inl e \<Rightarrow> ((s, seen), Err e)
    | Inr _ \<Rightarrow> (let s = other 0 s in
        case check_collection_limits (snapshot s) event of
          Inl e \<Rightarrow> ((s, seen), Err e)
        | Inr _ \<Rightarrow> (case append_ev event (Some expected) (other 1 s) of
            (s', Inl e) \<Rightarrow> ((s', seen), Err e)
          | (s', Inr _) \<Rightarrow> ((s', expected + 1), Ok ()))))"

subsection \<open>Facts\<close>

definition within_caps :: "pg_store_data \<Rightarrow> bool" where
  "within_caps d = (get_person_count d \<le> MAX_PERSONS \<and> get_candidate_list_count d \<le> MAX_CANDIDATE_LISTS
     \<and> length (d_substitute_submitters d) \<le> MAX_SUBSTITUTE_SUBMITTERS)"

lemma length_get_candidate_lists [simp]: "length (get_candidate_lists d) = get_candidate_list_count d"
  by (simp add: get_candidate_lists_def get_candidate_list_count_def hm_values_def)

lemma within_caps_apply:
  assumes "within_caps d" "check_collection_limits d (se_payload e) = Ok ()"
  shows "within_caps (pg_apply e d)"
proof -
  have chk: "created_person_count (se_payload e) = 0 \<or> get_person_count d + created_person_count (se_payload e) \<le> MAX_PERSONS"
    "is_create_list (se_payload e) \<Longrightarrow> get_candidate_list_count d < MAX_CANDIDATE_LISTS"
    "is_create_substitute (se_payload e) \<Longrightarrow> length (d_substitute_submitters d) < MAX_SUBSTITUTE_SUBMITTERS"
    using assms(2) by (auto simp: check_collection_limits_def Let_def split: if_splits)
  have "get_person_count (pg_apply e d) \<le> MAX_PERSONS"
    using person_count_apply [of e d] chk(1) assms(1) by (auto simp: within_caps_def)
  moreover have "get_candidate_list_count (pg_apply e d) \<le> MAX_CANDIDATE_LISTS"
    using list_count_apply [of e d] chk(2) assms(1) by (cases "se_payload e") (auto simp: within_caps_def)
  moreover have "length (d_substitute_submitters (pg_apply e d)) \<le> MAX_SUBSTITUTE_SUBMITTERS"
    using submitter_count_apply [of e d] chk(3) assms(1) by (cases "se_payload e") (auto simp: within_caps_def)
  ultimately show ?thesis by (simp add: within_caps_def)
qed

text \<open>The window holds exactly the events after its start, when the log is in time order.\<close>

lemma dropWhile_le_filter:
  "sorted (map f xs) \<Longrightarrow> dropWhile (\<lambda>x. f x \<le> n) xs = filter (\<lambda>x. n < f x) (xs :: 'a list)"
  for f :: "'a \<Rightarrow> 'b::linorder"
proof (induction xs)
  case (Cons x xs)
  show ?case
  proof (cases "f x \<le> n")
    case False
    then have "\<forall>y\<in>set xs. n < f y" using Cons.prems by fastforce
    with False show ?thesis by simp
  qed (use Cons in simp)
qed simp

lemma in_window_filter:
  "sorted (map se_created_at events) \<Longrightarrow> in_window min_utc max_utc now events l =
    filter (\<lambda>e. window_start min_utc max_utc l now < se_created_at e) events"
  by (simp add: in_window_def dropWhile_le_filter)

interpretation pg_mem: conditional_append "\<lambda>_. True" fst "last_event_id (pg_ops fresh)"
  "\<lambda>n. mem_append (pg_ops fresh) sha256 cbor k (clock n)" "recorded_on (pg_ops fresh)" "mem_evolves (pg_ops fresh)"
  for fresh sha256 cbor k clock
  by (rule pg.mem_conditional_append)

lemma recorded_pg:
  "recorded_on (pg_ops fresh) d e d' \<longleftrightarrow>
    (\<exists>ev. se_payload ev = e \<and> se_event_id ev = Suc (last_event_id (pg_ops fresh) d) \<and> d' = pg_apply ev d)"
  by (simp add: recorded_on_def pg_ops_def)

end
