(* ===== verification/Text.thy ===== *)
theory Text
  imports Prelude
begin

text \<open>
  What the source uses of Rust's \<open>str\<close> and \<open>char\<close>: the UTF-8 bytes of a string, character
  classes, trimming and splitting. A string is the list of its code points.
\<close>

definition utf8_char :: "nat \<Rightarrow> byte list" where
  "utf8_char c =
    (if c < 0x80 then [of_nat c]
     else if c < 0x800 then [of_nat (0xC0 + c div 0x40), of_nat (0x80 + c mod 0x40)]
     else if c < 0x10000 then
       [of_nat (0xE0 + c div 0x1000), of_nat (0x80 + c div 0x40 mod 0x40), of_nat (0x80 + c mod 0x40)]
     else [of_nat (0xF0 + c div 0x40000), of_nat (0x80 + c div 0x1000 mod 0x40),
       of_nat (0x80 + c div 0x40 mod 0x40), of_nat (0x80 + c mod 0x40)])"

text \<open>\<open>str::as_bytes\<close>.\<close>

definition str_bytes :: "rstring \<Rightarrow> byte list" where
  "str_bytes s = concat (map utf8_char s)"

lemma length_utf8_char [simp]: "length (utf8_char c) = len_utf8 c"
  by (simp add: utf8_char_def len_utf8_def)

lemma length_str_bytes: "length (str_bytes s) = str_len s"
  by (induction s) (simp_all add: str_bytes_def)

text \<open>\<open>char::is_ascii_digit\<close> and the like.\<close>

definition is_ascii_digit :: "nat \<Rightarrow> bool" where
  "is_ascii_digit c = (48 \<le> c \<and> c \<le> 57)"

definition is_ascii_upper :: "nat \<Rightarrow> bool" where
  "is_ascii_upper c = (65 \<le> c \<and> c \<le> 90)"

definition is_ascii_lower :: "nat \<Rightarrow> bool" where
  "is_ascii_lower c = (97 \<le> c \<and> c \<le> 122)"

definition is_ascii_alphabetic :: "nat \<Rightarrow> bool" where
  "is_ascii_alphabetic c = (is_ascii_upper c \<or> is_ascii_lower c)"

definition is_ascii_alphanumeric :: "nat \<Rightarrow> bool" where
  "is_ascii_alphanumeric c = (is_ascii_alphabetic c \<or> is_ascii_digit c)"

text \<open>\<open>char::is_whitespace\<close>: the code points with the Unicode property White_Space.\<close>

definition is_whitespace :: "nat \<Rightarrow> bool" where
  "is_whitespace c = ((9 \<le> c \<and> c \<le> 13) \<or> c = 32 \<or> c = 0x85 \<or> c = 0xA0 \<or> c = 0x1680
     \<or> (0x2000 \<le> c \<and> c \<le> 0x200A) \<or> c = 0x2028 \<or> c = 0x2029 \<or> c = 0x202F \<or> c = 0x205F \<or> c = 0x3000)"

text \<open>\<open>char::is_control\<close>: the general category Cc.\<close>

definition is_control :: "nat \<Rightarrow> bool" where
  "is_control c = (c < 32 \<or> (127 \<le> c \<and> c < 160))"

lemmas char_class_defs = is_ascii_digit_def is_ascii_upper_def is_ascii_lower_def
  is_ascii_alphabetic_def is_ascii_alphanumeric_def is_whitespace_def is_control_def

definition trim_start :: "rstring \<Rightarrow> rstring" where
  "trim_start s = dropWhile is_whitespace s"

definition trim_end :: "rstring \<Rightarrow> rstring" where
  "trim_end s = rev (dropWhile is_whitespace (rev s))"

definition trim :: "rstring \<Rightarrow> rstring" where
  "trim s = trim_end (trim_start s)"

lemma dropWhile_idem: "dropWhile P (dropWhile P xs) = dropWhile P xs"
  by (induction xs) auto

lemma dropWhile_hd: "dropWhile P xs = [] \<or> \<not> P (hd (dropWhile P xs))"
  using hd_dropWhile by blast

lemma dropWhile_id: "xs = [] \<or> \<not> P (hd xs) \<Longrightarrow> dropWhile P xs = xs"
  by (cases xs) auto

lemma rev_dropWhile_hd: "xs = [] \<or> \<not> P (hd xs) \<Longrightarrow>
  rev (dropWhile P (rev xs)) = [] \<or> \<not> P (hd (rev (dropWhile P (rev xs))))"
proof (cases xs)
  case (Cons x ys)
  assume "xs = [] \<or> \<not> P (hd xs)"
  with Cons have "\<not> P x" by simp
  then have "dropWhile P (rev ys @ [x]) = dropWhile P (rev ys) @ [x]"
    by (induction "rev ys" arbitrary: ys) (auto simp: dropWhile_append)
  with Cons \<open>\<not> P x\<close> show ?thesis by simp
qed simp

text \<open>A string without whitespace at either end.\<close>

definition trimmed :: "rstring \<Rightarrow> bool" where
  "trimmed s = (s = [] \<or> (\<not> is_whitespace (hd s) \<and> \<not> is_whitespace (last s)))"

lemma trim_id: "trimmed s \<Longrightarrow> trim s = s"
  by (cases s rule: rev_cases) (auto simp: trim_def trim_start_def trim_end_def trimmed_def dropWhile_id)

lemma trimmed_trim [simp]: "trimmed (trim s)"
proof -
  let ?t = "trim_start s"
  have "?t = [] \<or> \<not> is_whitespace (hd ?t)" unfolding trim_start_def by (rule dropWhile_hd)
  then have "trim s = [] \<or> \<not> is_whitespace (hd (trim s))"
    unfolding trim_def trim_end_def by (rule rev_dropWhile_hd)
  moreover have "trim s = [] \<or> \<not> is_whitespace (last (trim s))"
    using dropWhile_hd [of is_whitespace "rev ?t"] by (auto simp: trim_def trim_end_def last_rev)
  ultimately show ?thesis by (auto simp: trimmed_def)
qed

lemma trim_idem [simp]: "trim (trim s) = trim s"
  by (simp add: trim_id)

lemma set_trim: "set (trim s) \<subseteq> set s"
  unfolding trim_def trim_end_def trim_start_def by (metis set_dropWhileD set_rev subsetI)

lemma str_len_pos [simp]: "0 < str_len s \<longleftrightarrow> s \<noteq> []"
  using str_len_0_iff [of s] by linarith

lemma str_len_append [simp]: "str_len (s @ t) = str_len s + str_len t"
  by (simp add: str_len_def)

lemma str_len_rev [simp]: "str_len (rev s) = str_len s"
  by (induction s) simp_all

lemma str_len_dropWhile: "str_len (dropWhile P s) \<le> str_len s"
  by (induction s) auto

lemma str_len_trim: "str_len (trim s) \<le> str_len s"
  unfolding trim_def trim_end_def trim_start_def
  using str_len_dropWhile [of is_whitespace s] str_len_dropWhile [of is_whitespace "rev (dropWhile is_whitespace s)"]
  by simp

text \<open>\<open>str::split\<close> on one character: at least one piece.\<close>

fun split_on :: "nat \<Rightarrow> rstring \<Rightarrow> rstring list" where
  "split_on c [] = [[]]"
| "split_on c (x # xs) = (if x = c then [] # split_on c xs
     else (case split_on c xs of [] \<Rightarrow> [[x]] | p # ps \<Rightarrow> (x # p) # ps))"

lemma split_on_not_Nil [simp]: "split_on c s \<noteq> []"
  by (induction s) (auto split: list.splits)

definition starts_with :: "rstring \<Rightarrow> rstring \<Rightarrow> bool" where
  "starts_with s p = (take (length p) s = p)"

definition ends_with :: "rstring \<Rightarrow> rstring \<Rightarrow> bool" where
  "ends_with s p = (length p \<le> length s \<and> drop (length s - length p) s = p)"

definition to_ascii_upper :: "nat \<Rightarrow> nat" where
  "to_ascii_upper c = (if is_ascii_lower c then c - 32 else c)"

text \<open>A number written out in decimal, as \<open>format!("{}")\<close> does.\<close>

fun nat_text :: "nat \<Rightarrow> rstring" where
  "nat_text n = (if n < 10 then [48 + n] else nat_text (n div 10) @ [48 + n mod 10])"

declare nat_text.simps [simp del]

lemma nat_text_digits: "c \<in> set (nat_text n) \<Longrightarrow> is_ascii_digit c"
proof (induction n rule: nat_text.induct)
  case (1 n)
  then show ?case by (subst (asm) (2) nat_text.simps) (auto simp: is_ascii_digit_def split: if_splits)
qed

lemma nat_text_not_Nil [simp]: "nat_text n \<noteq> []"
  by (subst nat_text.simps) simp

lemma nat_text_inj: "nat_text m = nat_text n \<Longrightarrow> m = n"
proof (induction m arbitrary: n rule: nat_text.induct)
  case (1 m)
  show ?case
  proof (cases "m < 10 \<or> n < 10")
    case True
    have len: "length (nat_text k) = 1 \<longleftrightarrow> k < 10" for k by (subst nat_text.simps) simp
    have "m < 10" "n < 10" using True 1(2) len by metis+
    then show ?thesis using 1(2) by (simp add: nat_text.simps)
  next
    case False
    then have "nat_text (m div 10) = nat_text (n div 10) \<and> m mod 10 = n mod 10"
      using 1(2) nat_text.simps [of m] nat_text.simps [of n] by simp
    then show ?thesis using 1(1) [of "n div 10"] False by (metis div_mult_mod_eq)
  qed
qed

text \<open>\<open>join\<close> of pieces with a separator.\<close>

fun join_with :: "rstring \<Rightarrow> rstring list \<Rightarrow> rstring" where
  "join_with sep [] = []"
| "join_with sep [x] = x"
| "join_with sep (x # y # ys) = x @ sep @ join_with sep (y # ys)"

lemma set_join_with: "set (join_with sep xs) \<subseteq> set sep \<union> (\<Union>x\<in>set xs. set x)"
  by (induction sep xs rule: join_with.induct) auto

lemma split_on_append: "c \<notin> set a \<Longrightarrow> split_on c (a @ c # b) = a # split_on c b"
  by (induction a) simp_all

lemma split_on_id: "c \<notin> set a \<Longrightarrow> split_on c a = [a]"
  by (induction a) simp_all

lemma split_on_join: "xs \<noteq> [] \<Longrightarrow> (\<And>x. x \<in> set xs \<Longrightarrow> c \<notin> set x) \<Longrightarrow> split_on c (join_with [c] xs) = xs"
  by (induction "[c]" xs rule: join_with.induct) (simp_all add: split_on_append split_on_id)

lemma set_split_on: "x \<in> set (split_on c s) \<Longrightarrow> set x \<subseteq> set s - {c}"
proof (induction s arbitrary: x)
  case (Cons a s)
  show ?case
  proof (cases "a = c")
    case False
    obtain y ys where "split_on c s = y # ys" using split_on_not_Nil [of c s] by (cases "split_on c s") auto
    with False Cons show ?thesis by fastforce
  qed (use Cons in auto)
qed simp

end
