(* ===== verification/Hash_Prefix.thy ===== *)
theory Hash_Prefix
  imports Crypto Text
begin

text \<open>
  \<open>store/event_hash_prefix.rs\<close>: the first eight bytes of an event's chain hash, written in
  hexadecimal, that bind a download link to a stream. The text form is a list of code
  points; parsing works on its bytes, so only strings of sixteen bytes are read.
\<close>

abbreviation PREFIX_LEN :: nat where "PREFIX_LEN \<equiv> 8"

datatype event_hash_prefix = EventHashPrefix "byte list"

definition prefix_of :: "event_hash \<Rightarrow> event_hash_prefix" where
  "prefix_of hash = EventHashPrefix (take PREFIX_LEN hash)"

fun prefix_matches :: "event_hash_prefix \<Rightarrow> event_hash \<Rightarrow> bool" where
  "prefix_matches (EventHashPrefix p) hash = (p = take PREFIX_LEN hash)"

fun is_genesis :: "event_hash_prefix \<Rightarrow> bool" where
  "is_genesis (EventHashPrefix p) = (p = replicate PREFIX_LEN 0)"

text \<open>The digit written for a value below 16, and \<open>hex_digit\<close>, which reads one.\<close>

definition digit_char :: "nat \<Rightarrow> nat" where
  "digit_char n = (if n < 10 then 48 + n else 87 + n)"

definition hex_digit :: "nat \<Rightarrow> nat option" where
  "hex_digit b = (if 48 \<le> b \<and> b \<le> 57 then Some (b - 48)
     else if 97 \<le> b \<and> b \<le> 102 then Some (b - 97 + 10)
     else if 65 \<le> b \<and> b \<le> 70 then Some (b - 65 + 10)
     else None)"

text \<open>\<open>Display\<close>: two lowercase digits per byte.\<close>

definition byte_hex :: "byte \<Rightarrow> rstring" where
  "byte_hex b = [digit_char (unat b div 16), digit_char (unat b mod 16)]"

fun prefix_display :: "event_hash_prefix \<Rightarrow> rstring" where
  "prefix_display (EventHashPrefix p) = concat (map byte_hex p)"

text \<open>\<open>FromStr\<close>. A string of sixteen bytes with a character outside ASCII has a byte that is
  no hexadecimal digit, so it is refused like any other.\<close>

fun parse_pairs :: "rstring \<Rightarrow> byte list option" where
  "parse_pairs [] = Some []"
| "parse_pairs (h # l # rest) = (case (hex_digit h, hex_digit l) of
      (Some hi, Some lo) \<Rightarrow> map_option (\<lambda>bs. word_of_nat (hi * 16 + lo) # bs) (parse_pairs rest)
    | _ \<Rightarrow> None)"
| "parse_pairs [_] = None"

definition prefix_from_str :: "rstring \<Rightarrow> event_hash_prefix option" where
  "prefix_from_str s = (if str_len s \<noteq> PREFIX_LEN * 2 then None
     else map_option EventHashPrefix (parse_pairs s))"

lemma hex_digit_char [simp]: "n < 16 \<Longrightarrow> hex_digit (digit_char n) = Some n"
  by (auto simp: hex_digit_def digit_char_def)

lemma digit_char_ascii: "n < 16 \<Longrightarrow> digit_char n < 128"
  by (auto simp: digit_char_def)

lemma hex_digit_lt: "hex_digit b = Some n \<Longrightarrow> n < 16 \<and> b < 128"
  by (auto simp: hex_digit_def split: if_splits)

lemma unat_byte_lt: "unat (b :: byte) < 256"
  using unsigned_less [where 'a = nat, of b] by simp

lemma parse_pairs_display: "parse_pairs (concat (map byte_hex p)) = Some p"
proof (induction p)
  case (Cons b p)
  have "unat b div 16 < 16" "unat b mod 16 < 16" using unat_byte_lt [of b] by auto
  moreover have "unat b div 16 * 16 + unat b mod 16 = unat b" by simp
  ultimately show ?case using Cons by (simp add: byte_hex_def)
qed simp

lemma str_len_display: "str_len (concat (map byte_hex p)) = 2 * length p"
proof -
  have "\<forall>c\<in>set (concat (map byte_hex p)). c < 128"
    using unat_byte_lt by (auto simp: byte_hex_def less_mult_imp_div_less intro!: digit_char_ascii)
  moreover have "length (concat (map byte_hex p)) = 2 * length p"
    by (induction p) (simp_all add: byte_hex_def)
  ultimately show ?thesis by (simp add: str_len_ascii)
qed

lemma parse_pairs_length: "parse_pairs s = Some bs \<Longrightarrow> length s = 2 * length bs \<and> (\<forall>c\<in>set s. c < 128)"
  by (induction s arbitrary: bs rule: parse_pairs.induct)
    (auto split: option.splits dest: hex_digit_lt)

section \<open>Hashes as printed and typed\<close>

text \<open>
  The hash of an event as printed on documents and typed back when a package is imported
  (\<open>utils/format_hash.rs\<close>).
\<close>

definition upper_digit_char :: "nat \<Rightarrow> nat" where
  "upper_digit_char n = (if n < 10 then 48 + n else 55 + n)"

definition byte_upper_hex :: "byte \<Rightarrow> rstring" where
  "byte_upper_hex b = [upper_digit_char (unat b div 16), upper_digit_char (unat b mod 16)]"

text \<open>The loop over the bytes with their index.\<close>

fun format_bytes :: "nat \<Rightarrow> byte list \<Rightarrow> rstring" where
  "format_bytes i [] = []"
| "format_bytes i (b # bs) = (if i > 0 \<and> i mod 2 = 0 then [32] else []) @ byte_upper_hex b @ format_bytes (i + 1) bs"

definition format_hash :: "byte list \<Rightarrow> bool \<Rightarrow> rstring" where
  "format_hash hash half = format_bytes 0 (if half then take (length hash div 2) hash else hash)"

definition parse_hash_prefix :: "rstring \<Rightarrow> byte list option" where
  "parse_hash_prefix input =
    (let digits = filter (\<lambda>c. \<not> is_whitespace c) input in
     if length digits < 8 \<or> length digits > 64 \<or> length digits mod 2 \<noteq> 0 then None else parse_pairs digits)"

lemma hex_upper_digit [simp]: "n < 16 \<Longrightarrow> hex_digit (upper_digit_char n) = Some n"
  by (auto simp: hex_digit_def upper_digit_char_def)

lemma upper_digit_visible [simp]: "n < 16 \<Longrightarrow> \<not> is_whitespace (upper_digit_char n)"
  by (auto simp: is_whitespace_def upper_digit_char_def)

lemma filter_format_bytes: "filter (\<lambda>c. \<not> is_whitespace c) (format_bytes i bs) = concat (map byte_upper_hex bs)"
proof (induction bs arbitrary: i)
  case (Cons b bs)
  have "unat b < 256" by (rule unat_byte_lt)
  then have "unat b div 16 < 16" "unat b mod 16 < 16" by auto
  with Cons show ?case by (simp add: byte_upper_hex_def is_whitespace_def [of 32])
qed simp

lemma parse_pairs_upper: "parse_pairs (concat (map byte_upper_hex bs)) = Some bs"
proof (induction bs)
  case (Cons b bs)
  have "unat b < 256" by (rule unat_byte_lt)
  then have "unat b div 16 < 16" by auto
  with Cons show ?case by (simp add: byte_upper_hex_def)
qed simp

lemma length_upper_hex: "length (concat (map byte_upper_hex bs)) = 2 * length bs"
  by (induction bs) (simp_all add: byte_upper_hex_def)

text \<open>A hash printed on a document, in full or its first half, is read back as the bytes
  that were printed.\<close>

theorem printed_hash_roundtrip:
  assumes "length hash = 32"
  shows "parse_hash_prefix (format_hash hash half) = Some (take (if half then 16 else 32) hash)"
  using assms by (simp add: parse_hash_prefix_def format_hash_def filter_format_bytes parse_pairs_upper length_upper_hex Let_def)

theorem printed_hash_roundtrip_witness:
  "parse_hash_prefix (format_hash (replicate 32 0xF3) True) = Some (replicate 16 0xF3)"
  using printed_hash_roundtrip [of "replicate 32 0xF3" True] by simp

end
