(* ===== verification/Store_Properties.thy ===== *)
theory Store_Properties
  imports Pg_Store Hash_Prefix
begin

text \<open>
  The guarantees of the event store, stated for the projection of a political group: replay
  and convergence over the database backend, conditional appends, truncated replays, the
  hash chain, lookups by hash, and the limits of a group's own stream.
\<close>

subsection \<open>A concrete environment\<close>

text \<open>A cipher, codec and clock that satisfy the laws, to evaluate the definitions on.\<close>

definition example_aead :: aead where
  "example_aead = \<lparr>seal = \<lambda>n aad m. Some (aad @ m),
     unseal = \<lambda>n aad ct. if take (length aad) ct = aad then Some (drop (length aad) ct) else None\<rparr>"

definition example_codec :: "pg_event codec" where
  "example_codec = \<lparr>cbor_write = \<lambda>e. if e = Login then Some [1] else None,
     cbor_read = \<lambda>bs. if bs = [1] then Some (Login, []) else None\<rparr>"

definition example_env :: "pg_event stream_env" where
  "example_env = \<lparr>env_sha256 = \<lambda>bs. replicate 32 7, env_cipher = example_aead, env_cbor = example_codec,
     env_db_time = \<lambda>t. t div 1000 * 1000, env_verify_chain = True\<rparr>"

lemma example_aead_ok: "aead_ok example_aead"
  by (auto simp: aead_ok_def example_aead_def) (metis append_take_drop_id)

lemma example_env_ok: "env_ok example_env"
  by (auto simp: env_ok_def example_env_def example_aead_ok codec_ok_def example_codec_def timestamp_micros_def)

abbreviation example_fresh :: list_submitter_id where "example_fresh \<equiv> ListSubmitterId 0"
abbreviation example_nonce :: "byte list" where "example_nonce \<equiv> replicate 12 0"

subsection \<open>Replay and convergence\<close>

text \<open>C1: However the operations of several handles interleave, loading a handle succeeds,
  brings its projection to the complete recorded history of the stream, and the projection
  is the replay of that history; the number the handle read before the lock may be stale.\<close>

theorem load_converges:
  assumes "env_ok env" "cluster_reachable (pg_ops fresh) env s"
    and "seen \<le> last_event_id (pg_ops fresh) (cl_data s i)"
  shows "\<exists>d'. load_from_database (pg_ops fresh) env seen (cl_db s) (cl_data s i) = (d', Ok ())
    \<and> map strip (d_events d') = history env (cl_db s)
    \<and> d' = fold pg_apply (d_events d') (pg_default fresh)"
proof -
  from pg.cluster_inv_reachable [OF assms(2,1)]
  have db: "db_ok env (cl_db s)" and h: "pg.handle_ok fresh env (cl_db s) (cl_data s i)"
    by (auto simp: pg.cluster_inv_def)
  from pg.handle_load [OF this assms(3)] obtain d' where
    "load_from_database (pg_ops fresh) env seen (cl_db s) (cl_data s i) = (d', Ok ())"
    "pg.handle_ok fresh env (cl_db s) d'" "map strip (sd_events (pg_ops fresh) d') = history env (cl_db s)"
    by blast
  then show ?thesis
    by (auto simp: pg.handle_ok_def pg.replayed_def replay_events_def)
qed

theorem load_converges_witness:
  "\<exists>d'. load_from_database (pg_ops example_fresh) example_env 0
      (cl_db (cluster_init (pg_ops example_fresh))) (cl_data (cluster_init (pg_ops example_fresh)) 0) = (d', Ok ())
    \<and> map strip (d_events d') = history example_env (cl_db (cluster_init (pg_ops example_fresh)))
    \<and> d' = fold pg_apply (d_events d') (pg_default example_fresh)"
  by (rule load_converges [OF example_env_ok cluster_reachable.init]) simp

text \<open>C2: In every reachable state each projection is the replay of a prefix of the one
  recorded history, so of any two handles one has seen everything the other has, in the
  same order.\<close>

theorem projections_are_prefixes:
  assumes "env_ok env" "cluster_reachable (pg_ops fresh) env s"
  shows "cl_data s i = fold pg_apply (d_events (cl_data s i)) (pg_default fresh)
    \<and> map strip (d_events (cl_data s i)) = take (length (d_events (cl_data s i))) (history env (cl_db s))
    \<and> (length (d_events (cl_data s i)) \<le> length (d_events (cl_data s j)) \<longrightarrow>
        map strip (d_events (cl_data s i)) = take (length (d_events (cl_data s i))) (map strip (d_events (cl_data s j))))"
proof -
  from pg.cluster_inv_reachable [OF assms(2,1)]
  have db: "db_ok env (cl_db s)" and h: "pg.handle_ok fresh env (cl_db s) (cl_data s k)" for k
    by (auto simp: pg.cluster_inv_def)
  have "map strip (d_events (cl_data s k)) = take (length (d_events (cl_data s k))) (history env (cl_db s))" for k
    using h [of k] agrees_history [OF db] by (simp add: pg.handle_ok_def)
  moreover from this have "map strip (d_events (cl_data s i)) =
      take (length (d_events (cl_data s i))) (map strip (d_events (cl_data s j)))"
    if "length (d_events (cl_data s i)) \<le> length (d_events (cl_data s j))"
    using that by (metis min.absorb1 take_take)
  ultimately show ?thesis
    using h [of i] by (auto simp: pg.handle_ok_def pg.replayed_def replay_events_def)
qed

theorem projections_are_prefixes_witness:
  "cl_data (cluster_init (pg_ops example_fresh)) 0 = pg_default example_fresh"
  using projections_are_prefixes [OF example_env_ok cluster_reachable.init, where i = 0 and j = 1]
  by (simp add: cluster_init_def pg_default_def)

text \<open>C3: The recorded history is append-only: an operation of any handle keeps it or adds to
  its end. A committed event is added as the next number with its payload, and when the
  caller named the number it expected, that was the stream's last; a refused one leaves the
  database as it was.\<close>

theorem commit_extends_history:
  assumes "env_ok env" "cluster_reachable (pg_ops fresh) env s" "length nonce = NONCE_LEN"
    and "seen \<le> last_event_id (pg_ops fresh) (cl_data s i)"
    and "update_in_database (pg_ops fresh) env seen nonce now event expected (cl_db s) (cl_data s i) = (d', db', r)"
  shows "case r of
      Inr _ \<Rightarrow> (\<exists>ev. history env db' = history env (cl_db s) @ [ev] \<and> se_payload ev = event
        \<and> se_event_id ev = Suc (length (history env (cl_db s)))
        \<and> map strip (d_events d') = history env db'
        \<and> (\<forall>n. expected = Some n \<longrightarrow> n = length (history env (cl_db s))))
    | Inl _ \<Rightarrow> db' = cl_db s \<and> map strip (d_events d') = history env db'"
proof -
  from pg.cluster_inv_reachable [OF assms(2,1)]
  have db: "db_ok env (cl_db s)" and h: "pg.handle_ok fresh env (cl_db s) (cl_data s i)"
    by (auto simp: pg.cluster_inv_def)
  obtain d1 q where com: "commit_in_database (pg_ops fresh) env seen nonce now event expected (cl_db s) (cl_data s i) = (d1, q)"
    by fastforce
  note hc = pg.handle_commit [OF db h assms(4,1,3) com]
  have d1: "map strip (d_events d1) = history env (cl_db s)" "last_event_id (pg_ops fresh) d1 = length (db_events (cl_db s))"
    using hc pg.handle_last_id [OF db] agrees_history [OF db] length_history [OF db]
    by (simp_all add: pg.handle_ok_def)
  show ?thesis
  proof (cases q)
    case (Inl e)
    with assms(5) com d1 show ?thesis by (auto simp: update_in_database_def)
  next
    case (Inr p)
    obtain ev db1 where p: "p = (ev, db1)" by fastforce
    from hc Inr p have ev: "history env db1 = history env (cl_db s) @ [strip ev]" "se_payload ev = event"
      "se_event_id ev = Suc (length (db_events (cl_db s)))"
      "\<forall>n. expected = Some n \<longrightarrow> n = length (db_events (cl_db s))" by auto
    have "d' = apply_event (pg_ops fresh) ev d1" "db' = db1" "r = Inr ()"
      using assms(5) com Inr p by (cases ev; auto simp: update_in_database_def apply_persisted_event_def)+
    moreover from this(1) have "d_events d' = d_events d1 @ [ev]"
      using ev(3) d1(2) by (simp add: apply_event_def)
    ultimately show ?thesis
      using ev d1(1) length_history [OF db] by (auto intro: exI [of _ "strip ev"])
  qed
qed

definition example_update :: "pg_store_data \<times> db_stream \<times> unit result" where
  "example_update = update_in_database (pg_ops example_fresh) example_env 0 example_nonce 5 Login (Some 0)
     (cl_db (cluster_init (pg_ops example_fresh))) (cl_data (cluster_init (pg_ops example_fresh)) 0)"

lemma example_update_ok: "snd (snd example_update) = Ok ()"
  by code_simp

theorem commit_extends_history_witness:
  "\<exists>ev. history example_env (fst (snd example_update)) = [ev] \<and> se_payload ev = Login \<and> se_event_id ev = 1"
proof -
  obtain d' db' where eq: "example_update = (d', db', Inr ())"
    using example_update_ok by (metis prod.collapse)
  have "history example_env (cl_db (cluster_init (pg_ops example_fresh))) = []"
    by (simp add: cluster_init_def history_def)
  with commit_extends_history [OF example_env_ok cluster_reachable.init _ _ eq [unfolded example_update_def]]
  show ?thesis by (auto simp: eq)
qed

subsection \<open>The hash chain\<close>

text \<open>Everything of a row the chain covers.\<close>

definition covered :: "encrypted_event \<Rightarrow> nat \<times> int \<times> byte list \<times> event_hash" where
  "covered e = (ee_event_id e, timestamp_micros (ee_created_at e), ee_payload e, ee_hash e)"

text \<open>The byte strings that were hashed to build a log.\<close>

fun hashed :: "event_hash \<Rightarrow> encrypted_event list \<Rightarrow> byte list list" where
  "hashed h [] = []"
| "hashed h (e # es) = chain_input h (ee_event_id e) (ee_created_at e) (ee_payload e) # hashed (ee_hash e) es"

lemma hashed_snoc: "hashed h (es @ [e]) =
    hashed h es @ [chain_input (log_tip h es) (ee_event_id e) (ee_created_at e) (ee_payload e)]"
  by (induction h es rule: hashed.induct) simp_all

text \<open>The numbers and times are in the range of their machine types, and hashes have 32
  bytes.\<close>

definition in_range :: "encrypted_event list \<Rightarrow> bool" where
  "in_range es = (\<forall>e\<in>set es. ee_event_id e < 2 ^ 64 \<and> \<bar>timestamp_micros (ee_created_at e)\<bar> < 2 ^ 63
     \<and> length (ee_hash e) = 32)"

lemma chain_input_covers:
  assumes "chain_input h i t b = chain_input h' i' t' b'" "length h = length h'"
    "i < 2 ^ 64" "i' < 2 ^ 64" "\<bar>timestamp_micros t\<bar> < 2 ^ 63" "\<bar>timestamp_micros t'\<bar> < 2 ^ 63"
  shows "h = h' \<and> i = i' \<and> timestamp_micros t = timestamp_micros t' \<and> b = b'"
proof -
  from assms(1,2) have "le_bytes 8 (timestamp_micros t) = le_bytes 8 (timestamp_micros t')"
    by (simp add: chain_input_def)
  then have "timestamp_micros t = timestamp_micros t'"
    unfolding le_bytes_inj_iff by (rule i64_mod_inj [OF _ assms(5,6)])
  with chain_input_inj [OF assms(1-4)] show ?thesis by blast
qed

lemma in_range_snoc: "in_range (es @ [e]) \<longleftrightarrow> in_range es \<and> ee_event_id e < 2 ^ 64
    \<and> \<bar>timestamp_micros (ee_created_at e)\<bar> < 2 ^ 63 \<and> length (ee_hash e) = 32"
  by (auto simp: in_range_def)

lemma log_tip_length: "in_range es \<Longrightarrow> length (log_tip GENESIS_HASH es) = 32"
  by (auto simp: log_tip_last GENESIS_HASH_def in_range_def)

text \<open>C4: The hash of the last event pins the complete log: two well-formed logs that end in
  the same hash agree in every number, time, payload and hash of every event, as long as the
  hash function maps no two of the byte strings hashed along them to one value. So a
  truncated, reordered or altered log has another last hash.\<close>

theorem last_hash_pins_log:
  assumes "log_ok env GENESIS_HASH 0 xs" "log_ok env GENESIS_HASH 0 ys" "in_range xs" "in_range ys"
    and "xs \<noteq> []" "ys \<noteq> []" "ee_hash (last xs) = ee_hash (last ys)"
    and "inj_on (env_sha256 env) (set (hashed GENESIS_HASH xs) \<union> set (hashed GENESIS_HASH ys))"
  shows "map covered xs = map covered ys"
  using assms
proof (induction xs arbitrary: ys rule: rev_induct)
  case (snoc x xs)
  from snoc.prems(6) obtain ys' y where ys: "ys = ys' @ [y]" by (cases ys rule: rev_cases) auto
  let ?ix = "chain_input (log_tip GENESIS_HASH xs) (ee_event_id x) (ee_created_at x) (ee_payload x)"
  let ?iy = "chain_input (log_tip GENESIS_HASH ys') (ee_event_id y) (ee_created_at y) (ee_payload y)"
  have ids: "ee_event_id x = Suc (length xs)" "ee_event_id y = Suc (length ys')"
    and oks: "log_ok env GENESIS_HASH 0 xs" "log_ok env GENESIS_HASH 0 ys'"
    and hash: "env_sha256 env ?ix = ee_hash x" "env_sha256 env ?iy = ee_hash y"
    using snoc.prems(1,2) ys by (auto simp: chain_hash_eq)
  have ranges: "in_range xs" "in_range ys'" using snoc.prems(3,4) ys by (auto simp: in_range_snoc)
  have inj: "inj_on (env_sha256 env) (set (hashed GENESIS_HASH xs) \<union> set (hashed GENESIS_HASH ys'))"
    using snoc.prems(8) ys by (auto simp: hashed_snoc inj_on_def)
  have "?ix = ?iy"
    by (rule inj_onD [OF snoc.prems(8)]) (use snoc.prems(7) ys hash in \<open>simp_all add: hashed_snoc\<close>)
  from chain_input_covers [OF this] snoc.prems(3,4) ys log_tip_length ranges
  have same: "log_tip GENESIS_HASH xs = log_tip GENESIS_HASH ys'" "covered x = covered y"
    using snoc.prems(7) by (auto simp: in_range_snoc covered_def)
  then have len: "length xs = length ys'" using ids by (simp add: covered_def)
  show ?case
  proof (cases "xs = []")
    case False
    with len have "ys' \<noteq> []" by auto
    with False same(1) snoc.IH [OF oks ranges _ _ _ inj] have "map covered xs = map covered ys'"
      by (simp add: log_tip_last)
    with same(2) ys show ?thesis by simp
  qed (use len same(2) ys in simp)
qed simp

definition example_row :: encrypted_event where
  "example_row = hd (db_events (fst (snd example_update)))"

lemma example_row_fields:
  "ee_event_id example_row = 1 \<and> ee_created_at example_row = 0 \<and> length (ee_hash example_row) = 32"
  by code_simp

lemma example_row_log: "log_ok example_env GENESIS_HASH 0 [example_row]"
  by code_simp

lemma example_row_time: "log_ok example_env GENESIS_HASH 0 [example_row\<lparr>ee_created_at := 5\<rparr>]"
  by code_simp

text \<open>The same row read back with a time below the microsecond.\<close>

theorem last_hash_pins_log_witness: "map covered [example_row] = map covered [example_row\<lparr>ee_created_at := 5\<rparr>]"
proof (rule last_hash_pins_log [OF example_row_log example_row_time])
  have "chain_input h i 0 b = chain_input h i 5 b" for h i b
    by (simp add: chain_input_def timestamp_micros_def)
  then show "inj_on (env_sha256 example_env)
      (set (hashed GENESIS_HASH [example_row]) \<union> set (hashed GENESIS_HASH [example_row\<lparr>ee_created_at := 5\<rparr>]))"
    using example_row_fields by simp
  show "in_range [example_row]" "in_range [example_row\<lparr>ee_created_at := 5\<rparr>]"
    using example_row_fields by (simp_all add: in_range_def timestamp_micros_def)
qed simp_all

subsection \<open>Lookups by hash\<close>

text \<open>The text of a hash prefix reads back as the prefix, and only text of that exact
  length is read at all.\<close>

theorem hash_prefix_roundtrip:
  "(length p = PREFIX_LEN \<longrightarrow> prefix_from_str (prefix_display (EventHashPrefix p)) = Some (EventHashPrefix p))
   \<and> (prefix_from_str s = Some (EventHashPrefix q) \<longrightarrow> length q = PREFIX_LEN \<and> length s = 16)"
  using parse_pairs_length [of s]
  by (auto simp: prefix_from_str_def parse_pairs_display str_len_display str_len_ascii split: if_splits)

theorem hash_prefix_roundtrip_witness:
  "prefix_from_str (prefix_display (prefix_of GENESIS_HASH)) = Some (EventHashPrefix (replicate 8 0))"
  using hash_prefix_roundtrip [of "replicate 8 0" "[]" "[]"] by (simp add: prefix_of_def GENESIS_HASH_def)

text \<open>A lookup by hash prefix finds an event only on a stream of a political group, only
  when no other such event has that prefix, and reports an ambiguous prefix otherwise.\<close>

theorem find_by_prefix_unique:
  "(case mem_find_event_by_hash_prefix m prefix of
      Inr None \<Rightarrow> prefix_candidates m prefix = []
    | Inr (Some (i, el, n)) \<Rightarrow> prefix_candidates m prefix = [(i, el, n)]
        \<and> (\<exists>e h. ((i, el), e) \<in> set m \<and> st_scope e = Some PoliticalGroup \<and> (n, h) \<in> set (st_events e)
            \<and> hash_matches prefix h)
    | Inl err \<Rightarrow> err = AmbiguousHash \<and> 2 \<le> length (prefix_candidates m prefix))"
proof (cases "prefix_candidates m prefix" rule: first_unless_ambiguous.cases)
  case (2 x)
  obtain i el n where x: "x = (i, el, n)" by (cases x)
  with 2 have "(i, el, n) \<in> set (prefix_candidates m prefix)" by simp
  with 2 x show ?thesis
    unfolding prefix_candidates_iff by (simp add: mem_find_event_by_hash_prefix_def)
qed (simp_all add: mem_find_event_by_hash_prefix_def)

end
