(* ===== verification/Pg_Properties.thy ===== *)
theory Pg_Properties
  imports Store_Properties
begin

text \<open>
  The guarantees of a political group's own stream and its projection: limits hold under
  concurrent requests, candidate lists stay consistent, snapshots are historical states, and
  the reads answer what the log says.
\<close>

subsection \<open>Appends under limits\<close>

text \<open>C5: On a database stream shared with any number of other requests, a group's own update
  that succeeds was recorded directly on the projection its checks saw: the collection
  limits and the rate limits held there, so a stream within its caps stays within them. A
  refused update records nothing of its own.\<close>

theorem update_within_limits:
  assumes "env_ok env" "length nonce = NONCE_LEN" "db_handle_ok (pg_ops fresh) env s"
    and "\<And>n t. db_handle_ok (pg_ops fresh) env t \<Longrightarrow> db_evolves (pg_ops fresh) env t (other n t)"
    and "seen \<le> last_event_id (pg_ops fresh) (fst s)"
    and "pg_update_own fst (db_append (pg_ops fresh) env nonce now) other min_utc max_utc now limits event (s, seen) = ((s', seen'), r)"
  shows "case r of
      Inr _ \<Rightarrow> (\<exists>ev. se_payload ev = event \<and> se_event_id ev = Suc seen \<and> fst s' = pg_apply ev (fst s)
        \<and> seen = last_event_id (pg_ops fresh) (fst s) \<and> seen' = last_event_id (pg_ops fresh) (fst s')
        \<and> check_rate_limits min_utc max_utc now limits (fst s) event = Ok ()
        \<and> check_collection_limits (fst s) event = Ok ()
        \<and> (within_caps (fst s) \<longrightarrow> within_caps (fst s')))
    | Inl _ \<Rightarrow> db_evolves (pg_ops fresh) env s s' \<and> seen' = seen"
proof -
  have nonces: "length ((\<lambda>_. nonce) n) = NONCE_LEN" for n :: nat using assms(2) .
  note ca = pg.db_conditional_append [OF assms(1) nonces, of fresh "\<lambda>_. now"]
  let ?s1 = "other 0 s" and ?s2 = "other 1 (other 0 s)"
  have ev1: "db_evolves (pg_ops fresh) env s ?s1" and ok1: "db_handle_ok (pg_ops fresh) env ?s1"
    using assms(3,4) conditional_append.evolves_keeps [OF ca] by blast+
  have ev2: "db_evolves (pg_ops fresh) env ?s1 ?s2" and ok2: "db_handle_ok (pg_ops fresh) env ?s2"
    using ok1 assms(4) conditional_append.evolves_keeps [OF ca] by blast+
  note ev = conditional_append.evolves_trans [OF ca ev1 ev2]
  obtain t q where app: "db_append (pg_ops fresh) env nonce now event (Some seen) ?s2 = (t, q)" by fastforce
  show ?thesis
  proof (cases r)
    case (Inl e)
    then have "(s' = s \<or> s' = ?s1 \<or> s' = t \<and> (\<exists>e. q = Inl e)) \<and> seen' = seen"
      using assms(6) app by (auto simp: pg_update_own_def Let_def split: sum.splits)
    moreover have "db_evolves (pg_ops fresh) env s t" if "q = Inl e" for e
      using conditional_append.refused_evolves [OF ca assms(3) ev app [unfolded that]] .
    ultimately show ?thesis
      using Inl ev1 conditional_append.evolves_refl [OF ca, of s] by auto
  next
    case (Inr u)
    then have res: "s' = t" "seen' = Suc seen" "q = Inr ()" and rate: "check_rate_limits min_utc max_utc now limits (fst s) event = Ok ()"
      and coll: "check_collection_limits (fst ?s1) event = Ok ()"
      using assms(6) app by (auto simp: pg_update_own_def Let_def split: sum.splits)
    from conditional_append.checked_append_twice [OF ca assms(3) ev1 ev2 app [unfolded res(3)] assms(5)]
    have same: "fst ?s1 = fst s" and last: "last_event_id (pg_ops fresh) (fst s) = seen"
      and rec: "recorded_on (pg_ops fresh) (fst s) event (fst t)" by auto
    from rec obtain e' where e': "se_payload e' = event" "se_event_id e' = Suc seen" "fst t = pg_apply e' (fst s)"
      using last by (auto simp: recorded_pg)
    have "within_caps (fst s) \<longrightarrow> within_caps (fst t)"
      using within_caps_apply [of "fst s" e'] coll same e' by simp
    moreover have "last_event_id (pg_ops fresh) (fst t) = Suc seen"
      using e' pg.last_event_id_apply [of fresh e' "fst s"] by simp
    ultimately show ?thesis using Inr res e' last rate coll same by auto
  qed
qed

text \<open>A group logs in on an empty stream.\<close>

definition example_own_update :: "((pg_store_data \<times> db_stream) \<times> nat) \<times> unit result" where
  "example_own_update = pg_update_own fst (db_append (pg_ops example_fresh) example_env example_nonce 5) (\<lambda>_ s. s)
     (- 1000) 1000 5 (Some \<lparr>rls_downloads = \<lparr>rl_max = 2, rl_window = 3\<rparr>, rls_events = \<lparr>rl_max = 4, rl_window = 3\<rparr>,
       rls_events_total = 5\<rparr>) Login
     ((pg_default example_fresh, \<lparr>db_last_event_id = 0, db_events = []\<rparr>), 0)"

lemma example_own_update_ok: "snd example_own_update = Ok ()"
  by code_simp

theorem update_within_limits_witness:
  "\<exists>ev. se_payload ev = Login \<and> fst (fst (fst example_own_update)) = pg_apply ev (pg_default example_fresh)
    \<and> within_caps (fst (fst (fst example_own_update)))"
proof -
  obtain s' seen' where eq: "example_own_update = ((s', seen'), Inr ())"
    using example_own_update_ok by (metis prod.collapse)
  have ok: "db_handle_ok (pg_ops example_fresh) example_env (pg_default example_fresh, \<lparr>db_last_event_id = 0, db_events = []\<rparr>)"
    by (simp add: db_handle_ok_def db_ok_def replay_events_def pg_default_def)
  have refl: "db_evolves (pg_ops example_fresh) example_env t t" for t
    by (auto simp: db_evolves_def replay_events_def intro: exI [of _ "[]"])
  have "within_caps (pg_default example_fresh)"
    by (simp add: within_caps_def pg_default_def get_person_count_def get_candidate_list_count_def)
  with update_within_limits [OF example_env_ok _ ok refl _ eq [unfolded example_own_update_def]] show ?thesis
    by (auto simp: eq)
qed

subsection \<open>Candidate lists\<close>

text \<open>The log of a projection, each event admissible where it was recorded.\<close>

fun log_refs_ok :: "pg_store_data \<Rightarrow> pg_event store_event list \<Rightarrow> bool" where
  "log_refs_ok d [] = True"
| "log_refs_ok d (e # es) = (event_refs_ok d (se_payload e) \<and> log_refs_ok (pg_apply e d) es)"

lemma refs_ok_fold: "refs_ok d \<Longrightarrow> log_refs_ok d es \<Longrightarrow> refs_ok (fold pg_apply es d)"
  by (induction es arbitrary: d) (simp_all add: refs_ok_apply)

lemma refs_ok_default: "refs_ok (pg_default fresh)"
  by (simp add: refs_ok_def pg_default_def)

text \<open>After any log whose events name each candidate once and only persons the group holds
  at that point, no list names a person twice or a person the group does not hold; the maps
  stay keyed by id whatever the events are.\<close>

theorem lists_consistent:
  assumes "log_refs_ok (pg_default fresh) es" "d = fold pg_apply es (pg_default fresh)"
    and "get_candidate_list d i = Ok l"
  shows "cl_id l = i \<and> distinct (cl_candidates l) \<and> (\<forall>p\<in>set (cl_candidates l). \<exists>q. get_person d p = Ok q \<and> p_id q = p)"
proof -
  have "refs_ok d" using refs_ok_fold [OF refs_ok_default assms(1)] assms(2) by simp
  moreover have "pg_inv d" using pg_inv_fold [OF pg_inv_default] assms(2) by blast
  moreover have l: "hm_get (d_candidate_lists d) i = Some l" using assms(3) by (simp add: get_candidate_list_def)
  ultimately have "cl_id l = i" "distinct (cl_candidates l)"
    and held: "p \<in> set (cl_candidates l) \<Longrightarrow> \<exists>q. hm_get (d_persons d) p = Some q" 
    and keyed: "hm_get (d_persons d) p = Some q \<Longrightarrow> p_id q = p" for p q
    unfolding refs_ok_def pg_inv_def keyed_def hm_contains_def by blast+
  then show ?thesis by (simp add: get_person_def) blast
qed

definition pg_example_event :: "nat \<Rightarrow> pg_event \<Rightarrow> pg_event store_event" where
  "pg_example_event n e = \<lparr>se_event_id = n, se_payload = e, se_created_at = int n, se_hash = GENESIS_HASH\<rparr>"

abbreviation example_pid :: person_id where "example_pid \<equiv> PersonId 7"
abbreviation example_lid :: candidate_list_id where "example_lid \<equiv> CandidateListId 8"

definition example_personal_data :: personal_data where
  "example_personal_data = \<lparr>pd_gender = None, pd_bsn = None, pd_date_of_birth = None, pd_place_of_residence = None,
     pd_country = None\<rparr>"

definition example_log :: "pg_event store_event list" where
  "example_log = [pg_example_event 1 (CreatePersonPersonalData example_pid full_name_default example_personal_data),
     pg_example_event 2 (CreateCandidateList \<lparr>cl_id = example_lid, cl_electoral_districts = [11, 12],
       cl_candidates = [], cl_created_at = 0\<rparr>),
     pg_example_event 3 (AddCandidateToCandidateList example_lid example_pid)]"

definition example_data :: pg_store_data where
  "example_data = fold pg_apply example_log (pg_default example_fresh)"

lemmas example_log_defs = example_log_def pg_example_event_def pg_apply_defs pg_default_def hm_contains_def
  hm_insert_def hm_get_def hm_modify_def add_candidate_def

lemma example_log_ok: "log_refs_ok (pg_default example_fresh) example_log"
  by (simp add: example_log_defs)

lemma example_data_lists: "d_candidate_lists example_data = [(example_lid, \<lparr>cl_id = example_lid,
    cl_electoral_districts = [11, 12], cl_candidates = [example_pid], cl_created_at = 2\<rparr>)]"
  by (simp add: example_data_def example_log_defs)

theorem lists_consistent_witness:
  "distinct [example_pid] \<and> (\<exists>q. get_person example_data example_pid = Ok q \<and> p_id q = example_pid)"
  using lists_consistent [OF example_log_ok example_data_def, of example_lid]
  by (simp add: get_candidate_list_def example_data_lists hm_get_def)

text \<open>Deleting a person takes the person out of the projection and off every list, and keeps
  every other person, every list with its districts, and the order of the other candidates.\<close>

theorem delete_person_everywhere:
  assumes "se_payload e = DeletePerson p"
  shows "get_person (pg_apply e d) p = Err GenericNotFound
    \<and> (\<forall>q. q \<noteq> p \<longrightarrow> get_person (pg_apply e d) q = get_person d q)
    \<and> get_candidate_list (pg_apply e d) i = map_sum id (\<lambda>l. l\<lparr>cl_candidates := filter (\<lambda>c. c \<noteq> p) (cl_candidates l)\<rparr>)
        (get_candidate_list d i)"
  using assms
  by (auto simp: get_person_def get_candidate_list_def d_persons_pg_apply d_lists_pg_apply remove_candidate_def
      ok_or_def split: option.split)

theorem delete_person_everywhere_witness:
  "get_candidate_list (pg_apply (pg_example_event 4 (DeletePerson example_pid)) example_data) example_lid
   = Ok \<lparr>cl_id = example_lid, cl_electoral_districts = [11, 12], cl_candidates = [], cl_created_at = 2\<rparr>"
  using delete_person_everywhere [of "pg_example_event 4 (DeletePerson example_pid)" example_pid example_data example_lid]
  by (simp add: pg_example_event_def get_candidate_list_def example_data_lists hm_get_def)

text \<open>A snapshot for the committee is the projection as it was when the event was recorded,
  without its log: later events do not reach it.\<close>

theorem snapshot_is_historical:
  assumes "map se_event_id (es @ later) = [1..<Suc (length (es @ later))]"
  shows "pg_snapshot_until fresh (es @ later) (length es) = (fold pg_apply es (pg_default fresh))\<lparr>d_events := []\<rparr>"
  using pg_replay_onto_take [OF assms, of "pg_default fresh" "length es"] by (simp add: pg_snapshot_until_def)

theorem snapshot_is_historical_witness:
  "d_candidate_lists (pg_snapshot_until example_fresh (example_log @ [pg_example_event 4 (DeleteCandidateList example_lid)]) 3)
   = d_candidate_lists example_data"
proof -
  have "map se_event_id (example_log @ [pg_example_event 4 (DeleteCandidateList example_lid)])
      = [1..<Suc (length (example_log @ [pg_example_event 4 (DeleteCandidateList example_lid)]))]"
    by (simp add: example_log_def pg_example_event_def)
  moreover have "length example_log = 3" by (simp add: example_log_def)
  ultimately show ?thesis
    using snapshot_is_historical [of example_log "[pg_example_event 4 (DeleteCandidateList example_lid)]" example_fresh]
    by (simp add: example_data_def)
qed

text \<open>A district of a list is reported as a duplicate exactly when another list of the group
  has it too.\<close>

theorem duplicate_districts_exact:
  assumes "d = fold pg_apply es (pg_default fresh)"
  shows "ed \<in> set (duplicate_districts d l) \<longleftrightarrow> ed \<in> set (cl_electoral_districts l)
    \<and> (\<exists>i l'. get_candidate_list d i = Ok l' \<and> i \<noteq> cl_id l \<and> ed \<in> set (cl_electoral_districts l'))"
proof -
  have inv: "pg_inv d" using pg_inv_fold [OF pg_inv_default] assms by blast
  then have keyed: "hm_get (d_candidate_lists d) i = Some l' \<Longrightarrow> cl_id l' = i" for i l'
    by (simp add: pg_inv_def keyed_def)
  have "(\<exists>l'\<in>set (get_candidate_lists d). cl_id l' \<noteq> cl_id l \<and> ed \<in> set (cl_electoral_districts l')) \<longleftrightarrow>
      (\<exists>i l'. hm_get (d_candidate_lists d) i = Some l' \<and> i \<noteq> cl_id l \<and> ed \<in> set (cl_electoral_districts l'))"
    using get_candidate_lists_iff [OF inv] keyed by metis
  then show ?thesis
    by (auto simp: duplicate_districts_def districts_on_other_lists_contains get_candidate_list_def)
qed

theorem duplicate_districts_exact_witness:
  "11 \<notin> set (duplicate_districts example_data \<lparr>cl_id = example_lid, cl_electoral_districts = [11, 12],
     cl_candidates = [], cl_created_at = 2\<rparr>)"
  using duplicate_districts_exact [OF example_data_def, of 11]
  by (auto simp: get_candidate_list_def example_data_lists hm_get_def split: if_splits)

subsection \<open>Downloads\<close>

lemma find_rev_append: "find P (rev (xs @ [x])) = (if P x then Some x else find P (rev xs))"
  by simp

lemma last_or_before:
  "(\<exists>before e after. es @ [x] = before @ e # after \<and> P e \<and> list_all Q after) \<longleftrightarrow>
    P x \<or> Q x \<and> (\<exists>before e after. es = before @ e # after \<and> P e \<and> list_all Q after)" (is "?l \<longleftrightarrow> ?r")
proof
  assume ?l
  then obtain before e after where eq: "es @ [x] = before @ e # after" "P e" "list_all Q after" by blast
  then show ?r by (cases after rule: rev_cases) auto
next
  assume ?r
  then consider "P x" | before e after where "Q x" "es = before @ e # after" "P e" "list_all Q after" by blast
  then show ?l
  proof cases
    case 2
    then show ?thesis by (intro exI [of _ before] exI [of _ e] exI [of _ "after @ [x]"]) simp
  qed (intro exI [of _ es] exI [of _ x] exI [of _ "[]"], simp)
qed

text \<open>The warning about changed documents shows exactly when documents were downloaded
  and the warning was not hidden since: some download in the log has no later hide.\<close>

theorem download_warning_exact:
  "should_show_download_warning d \<longleftrightarrow>
    (\<exists>before e after. d_events d = before @ e # after \<and> is_download (se_payload e)
      \<and> list_all (\<lambda>e'. \<not> is_hide_warning (se_payload e')) after)"
proof -
  have "(case find (\<lambda>e. is_download (se_payload e) \<or> is_hide_warning (se_payload e)) (rev es) of
      None \<Rightarrow> False | Some e \<Rightarrow> is_download (se_payload e)) \<longleftrightarrow>
    (\<exists>before e after. es = before @ e # after \<and> is_download (se_payload e)
      \<and> list_all (\<lambda>e'. \<not> is_hide_warning (se_payload e')) after)" for es
  proof (induction es rule: rev_induct)
    case (snoc x es)
    have excl: "\<not> (is_download p \<and> is_hide_warning p)" for p by (cases p) simp_all
    show ?case unfolding find_rev_append last_or_before using snoc excl by auto
  qed simp
  then show ?thesis by (simp add: should_show_download_warning_def)
qed

end
