(* ===== verification/Brp.thy ===== *)
theory Brp
  imports Domain
begin

text \<open>
  What a check against the national person register (BRP) records on a committee stream:
  the request that was sent (\<open>structs/brp/lookup.rs\<close>), the findings per candidate
  (\<open>structs/brp/finding.rs\<close>) and how far a sweep got (\<open>structs/brp/status.rs\<close>).
\<close>

datatype brp_field =
    FieldBsn | FieldFirstNames | FieldInitials | FieldTitleOfNobility | FieldLastNamePrefix
  | FieldLastName | FieldDateOfBirth | FieldGender | FieldDesignatedNameUsage | FieldDateOfDeath
  | FieldNationality | FieldSuffrageExclusion | FieldPlaceOfResidence | FieldRegisteredMunicipality
  | FieldDateMunicipalRegistration | FieldPartnerLastNamePrefix | FieldPartnerLastName
  | FieldDateOfMarriage | FieldDateOfDissolutionMarriage

datatype brp_query =
    ConsultWithBsn "rstring list" "brp_field list"
  | SearchByLastNameAndDateOfBirth rstring rstring "rstring option" "rstring option" bool "brp_field list"

datatype brp_lookup_outcome = Returned "rstring list" | Failed rstring

record brp_lookup =
  bl_persons :: "person_id list"
  bl_query :: brp_query
  bl_outcome :: brp_lookup_outcome

datatype brp_status = NotStarted | InProgress timestamp | Aborted rstring | Finished

datatype brp_checked_field =
    CheckedBsn | CheckedInitials | CheckedLastNamePrefix | CheckedLastName | CheckedGender
  | CheckedDateOfBirth | CheckedPlaceOfResidence

definition IN_TABLE_ORDER :: "brp_checked_field list" where
  "IN_TABLE_ORDER = [CheckedInitials, CheckedLastNamePrefix, CheckedLastName, CheckedGender,
     CheckedDateOfBirth, CheckedBsn, CheckedPlaceOfResidence]"

datatype brp_value =
    ValInitials rstring
  | ValLastNamePrefix rstring
  | ValLastName rstring
  | ValGender gender
  | ValDateOfBirth naive_date
  | ValPlaceOfResidence place_of_residence

fun brp_value_field :: "brp_value \<Rightarrow> brp_checked_field" where
  "brp_value_field (ValInitials _) = CheckedInitials"
| "brp_value_field (ValLastNamePrefix _) = CheckedLastNamePrefix"
| "brp_value_field (ValLastName _) = CheckedLastName"
| "brp_value_field (ValGender _) = CheckedGender"
| "brp_value_field (ValDateOfBirth _) = CheckedDateOfBirth"
| "brp_value_field (ValPlaceOfResidence _) = CheckedPlaceOfResidence"

record brp_last_name =
  bn_last_name_prefix :: "rstring option"
  bn_last_name :: rstring

definition brp_last_name_display :: "brp_last_name \<Rightarrow> rstring" where
  "brp_last_name_display n = (case bn_last_name_prefix n of
      Some prefix \<Rightarrow> prefix @ lit '' '' @ bn_last_name n
    | None \<Rightarrow> bn_last_name n)"

text \<open>\<open>hyphenated_with\<close>; \<open>parse_last_name\<close> is \<open>LastName::from_str\<close>, with \<open>None\<close> an error.\<close>

definition hyphenated_with :: "(rstring \<Rightarrow> rstring option) \<Rightarrow> brp_last_name \<Rightarrow> brp_last_name \<Rightarrow> brp_last_name option" where
  "hyphenated_with parse_last_name n other =
     (case parse_last_name (bn_last_name n @ lit ''-'' @ brp_last_name_display other) of
        None \<Rightarrow> None
      | Some l \<Rightarrow> Some \<lparr>bn_last_name_prefix = bn_last_name_prefix n, bn_last_name = l\<rparr>)"

datatype brp_finding_kind =
    Mismatch brp_value
  | Unparsable brp_checked_field rstring
  | MissingInBrp brp_checked_field
  | LastNameNotAllowed "brp_last_name list"
  | BsnUnknown
  | BsnNotUnique
  | BsnMissing
  | BsnNoneConfirmed
  | BsnMatchedByPersonalDetails rstring
  | PersonalDetailsNotUnique
  | Deceased "naive_date option"
  | NotDutch
  | ExcludedFromSuffrage
  | ResidenceAbroad
  | ResidenceWithoutAddress
  | ResidenceUnknown

record brp_finding =
  bf_kind :: brp_finding_kind
  bf_handled :: bool

datatype brp_finding_repr = Flagged brp_finding_kind bool | Bare brp_finding_kind

definition brp_finding_of_kind :: "brp_finding_kind \<Rightarrow> brp_finding" where
  "brp_finding_of_kind kind = \<lparr>bf_kind = kind, bf_handled = False\<rparr>"

fun brp_finding_of_repr :: "brp_finding_repr \<Rightarrow> brp_finding" where
  "brp_finding_of_repr (Flagged kind handled) = \<lparr>bf_kind = kind, bf_handled = handled\<rparr>"
| "brp_finding_of_repr (Bare kind) = brp_finding_of_kind kind"

definition brp_finding_field :: "brp_finding_kind \<Rightarrow> brp_checked_field option" where
  "brp_finding_field kind = (case kind of
      Mismatch v \<Rightarrow> Some (brp_value_field v)
    | Unparsable f _ \<Rightarrow> Some f
    | MissingInBrp f \<Rightarrow> Some f
    | LastNameNotAllowed _ \<Rightarrow> Some CheckedLastName
    | ResidenceAbroad \<Rightarrow> Some CheckedPlaceOfResidence
    | ResidenceWithoutAddress \<Rightarrow> Some CheckedPlaceOfResidence
    | ResidenceUnknown \<Rightarrow> Some CheckedPlaceOfResidence
    | BsnUnknown \<Rightarrow> Some CheckedBsn
    | BsnNotUnique \<Rightarrow> Some CheckedBsn
    | BsnMissing \<Rightarrow> Some CheckedBsn
    | BsnNoneConfirmed \<Rightarrow> Some CheckedBsn
    | BsnMatchedByPersonalDetails _ \<Rightarrow> Some CheckedBsn
    | PersonalDetailsNotUnique \<Rightarrow> Some CheckedBsn
    | Deceased _ \<Rightarrow> Some CheckedDateOfBirth
    | NotDutch \<Rightarrow> None
    | ExcludedFromSuffrage \<Rightarrow> None)"

definition finding_brp_value :: "brp_finding_kind \<Rightarrow> brp_value option" where
  "finding_brp_value kind = (case kind of Mismatch v \<Rightarrow> Some v | _ \<Rightarrow> None)"

lemma finding_brp_value_field:
  "finding_brp_value kind = Some v \<Longrightarrow> brp_finding_field kind = Some (brp_value_field v)"
  by (cases kind) (simp_all add: finding_brp_value_def brp_finding_field_def)

end
