(* ===== verification/Correction.thy ===== *)
theory Correction
  imports Domain
begin

text \<open>
  The committee's own corrections (\<open>structs/csb/correction.rs\<close>): per candidate at most one
  correction of each kind, held in a hash map by kind and applied in any order.
\<close>

datatype person_correction =
    CorrInitials "rstring option"
  | CorrLastNamePrefix "rstring option"
  | CorrLastName rstring
  | CorrDateOfBirth naive_date
  | CorrPlaceOfResidence place_of_residence

datatype person_correction_kind =
    KInitials | KLastNamePrefix | KLastName | KDateOfBirth | KPlaceOfResidence

fun correction_kind :: "person_correction \<Rightarrow> person_correction_kind" where
  "correction_kind (CorrInitials _) = KInitials"
| "correction_kind (CorrLastNamePrefix _) = KLastNamePrefix"
| "correction_kind (CorrLastName _) = KLastName"
| "correction_kind (CorrDateOfBirth _) = KDateOfBirth"
| "correction_kind (CorrPlaceOfResidence _) = KPlaceOfResidence"

fun correction_apply :: "person_correction \<Rightarrow> person \<Rightarrow> person" where
  "correction_apply (CorrInitials x) p = p\<lparr>p_name := (p_name p)\<lparr>fn_initials := x\<rparr>\<rparr>"
| "correction_apply (CorrLastNamePrefix x) p = p\<lparr>p_name := (p_name p)\<lparr>fn_last_name_prefix := x\<rparr>\<rparr>"
| "correction_apply (CorrLastName x) p = p\<lparr>p_name := (p_name p)\<lparr>fn_last_name := x\<rparr>\<rparr>"
| "correction_apply (CorrDateOfBirth x) p =
     p\<lparr>p_personal_data := (p_personal_data p)\<lparr>pd_date_of_birth := Some x\<rparr>\<rparr>"
| "correction_apply (CorrPlaceOfResidence x) p =
     p\<lparr>p_personal_data := (p_personal_data p)\<lparr>pd_place_of_residence := Some x\<rparr>\<rparr>"

fun correction_changes :: "person_correction \<Rightarrow> person \<Rightarrow> bool" where
  "correction_changes (CorrInitials x) p = (fn_initials (p_name p) \<noteq> x)"
| "correction_changes (CorrLastNamePrefix x) p = (fn_last_name_prefix (p_name p) \<noteq> x)"
| "correction_changes (CorrLastName x) p = (fn_last_name (p_name p) \<noteq> x)"
| "correction_changes (CorrDateOfBirth x) p = (pd_date_of_birth (p_personal_data p) \<noteq> Some x)"
| "correction_changes (CorrPlaceOfResidence x) p = (pd_place_of_residence (p_personal_data p) \<noteq> Some x)"

type_synonym person_correction_delta = "(person_correction_kind, person_correction) hmap"

definition add_correction :: "person_correction \<Rightarrow> person_correction_delta \<Rightarrow> person_correction_delta" where
  "add_correction c d = hm_insert (correction_kind c) c d"

definition remove_correction :: "person_correction \<Rightarrow> person_correction_delta \<Rightarrow> person_correction_delta" where
  "remove_correction c d = hm_remove (correction_kind c) d"

definition delta_apply :: "person_correction_delta \<Rightarrow> person \<Rightarrow> person" where
  "delta_apply d p = fold correction_apply (hm_values d) p"

definition get_corrections :: "person_correction_delta \<Rightarrow> person_correction set" where
  "get_corrections d = set (hm_values d)"

datatype correction = CorrAppellation rstring | CorrPerson person_id person_correction

subsection \<open>Facts\<close>

definition delta_ok :: "person_correction_delta \<Rightarrow> bool" where
  "delta_ok d = (hm_ok d \<and> (\<forall>k c. hm_get d k = Some c \<longrightarrow> correction_kind c = k))"

lemma delta_ok_intros [inv_intros]:
  "delta_ok []" "delta_ok d \<Longrightarrow> delta_ok (add_correction c d)" "delta_ok d \<Longrightarrow> delta_ok (remove_correction c d)"
  by (auto simp: delta_ok_def add_correction_def remove_correction_def intro: inv_intros)

text \<open>A correction changes a person exactly when \<open>changes\<close> says so, and corrections of
  different kinds commute.\<close>

lemma correction_changes_iff: "correction_changes c p \<longleftrightarrow> correction_apply c p \<noteq> p"
proof
  show "correction_apply c p \<noteq> p" if "correction_changes c p"
  proof
    assume eq: "correction_apply c p = p"
    from that show False
      using arg_cong [OF eq, of "\<lambda>p. fn_initials (p_name p)"]
        arg_cong [OF eq, of "\<lambda>p. fn_last_name_prefix (p_name p)"]
        arg_cong [OF eq, of "\<lambda>p. fn_last_name (p_name p)"]
        arg_cong [OF eq, of "\<lambda>p. pd_date_of_birth (p_personal_data p)"]
        arg_cong [OF eq, of "\<lambda>p. pd_place_of_residence (p_personal_data p)"]
      by (cases c) auto
  qed
  show "correction_changes c p" if "correction_apply c p \<noteq> p"
    using that by (cases c; cases p) auto
qed

lemma correction_apply_commute:
  "correction_kind a \<noteq> correction_kind b \<Longrightarrow>
    correction_apply a (correction_apply b p) = correction_apply b (correction_apply a p)"
  by (cases a; cases b) auto

lemma correction_apply_idem: "correction_kind a = correction_kind b \<Longrightarrow>
    correction_apply a (correction_apply b p) = correction_apply a p"
  by (cases a; cases b) auto

lemma correction_apply_id [simp]: "p_id (correction_apply c p) = p_id p" "p_address (correction_apply c p) = p_address p"
  by (cases c; simp)+

lemma fold_correction_id [simp]: "p_id (fold correction_apply cs p) = p_id p"
  by (induction cs arbitrary: p) simp_all

text \<open>The order in which the hash map yields the corrections does not matter.\<close>

lemma fold_correction_perm:
  assumes "mset cs = mset cs'" "distinct (map correction_kind cs)"
  shows "fold correction_apply cs = fold correction_apply cs'"
proof (rule fold_multiset_equiv [OF _ assms(1)])
  fix a b assume "a \<in> set cs" "b \<in> set cs"
  then have "a = b \<or> correction_kind a \<noteq> correction_kind b"
    using assms(2) by (auto simp: distinct_map dest: inj_onD)
  then show "correction_apply a \<circ> correction_apply b = correction_apply b \<circ> correction_apply a"
    by (auto simp: fun_eq_iff correction_apply_commute)
qed

lemma delta_kinds_distinct: "delta_ok d \<Longrightarrow> distinct (map correction_kind (hm_values d))"
proof -
  assume ok: "delta_ok d"
  then have "map correction_kind (hm_values d) = map fst d"
    by (auto simp: hm_values_def delta_ok_def in_set_hm_iff)
  with ok show ?thesis by (simp add: delta_ok_def hm_ok_def)
qed

text \<open>The value of a field after a delta: the delta's, when it has a correction of that
  kind, and the person's own otherwise.\<close>

lemma fold_correction_fields:
  assumes "distinct (map correction_kind cs)" "c \<in> set cs"
  shows "\<not> correction_changes c (fold correction_apply cs p)"
proof -
  from split_list [OF assms(2)] obtain as bs where cs: "cs = as @ c # bs" by blast
  have "mset cs = mset ((as @ bs) @ [c])" by (simp add: cs)
  from fold_correction_perm [OF this assms(1)]
  have "fold correction_apply cs p = correction_apply c (fold correction_apply (as @ bs) p)" by simp
  then show ?thesis by (simp add: correction_changes_iff correction_apply_idem)
qed

lemma delta_applied: "delta_ok d \<Longrightarrow> hm_get d k = Some c \<Longrightarrow> \<not> correction_changes c (delta_apply d p)"
  unfolding delta_apply_def
  by (intro fold_correction_fields delta_kinds_distinct hm_get_in_values)

lemma delta_apply_Nil [simp]: "delta_apply [] p = p"
  by (simp add: delta_apply_def hm_values_def)

lemma delta_apply_id [simp]: "p_id (delta_apply d p) = p_id p"
  by (simp add: delta_apply_def)

end
