(* ===== verification/Omission.thy ===== *)
theory Omission
  imports Domain
begin

text \<open>
  Omissions (\<open>structs/csb/omission/mod.rs\<close>): what they are about, how a decision on one part
  of an omission is placed, and how two omissions are read as one. The districts of the
  election and the region number of a district are generated by the build and parameters.
\<close>

datatype omission_type =
    OtPoliticalGroup | OtAppellation | OtCandidateList | OtDeclarationsOfSupport | OtCandidate

fun omission_type_as_str :: "omission_type \<Rightarrow> rstring" where
  "omission_type_as_str OtPoliticalGroup = lit ''political-group''"
| "omission_type_as_str OtCandidateList = lit ''candidate-list''"
| "omission_type_as_str OtDeclarationsOfSupport = lit ''declarations-of-support''"
| "omission_type_as_str OtCandidate = lit ''candidate''"
| "omission_type_as_str OtAppellation = lit ''appellation''"

definition omission_type_from_str :: "rstring \<Rightarrow> omission_type option" where
  "omission_type_from_str s =
    (if s = lit ''political-group'' then Some OtPoliticalGroup
     else if s = lit ''appellation'' then Some OtAppellation
     else if s = lit ''candidate-list'' then Some OtCandidateList
     else if s = lit ''declarations-of-support'' then Some OtDeclarationsOfSupport
     else if s = lit ''candidate'' then Some OtCandidate
     else None)"

lemma omission_type_roundtrip: "omission_type_from_str (omission_type_as_str t) = Some t"
  by (cases t) (simp_all add: omission_type_from_str_def lit_def)

datatype omission_category =
    CatPoliticalGroup
  | CatAppellation
  | CatCandidateList "candidate_list_id list"
  | CatDeclarationsOfSupport "electoral_district list"
  | CatCandidate person_id "candidate_list_id list"

datatype omission_part = PartDistrict electoral_district | PartList candidate_list_id

datatype omission_decision = Whole | Split omission_category omission_category

datatype omission_status = Pending | Recovered | NotRecovered

subsection \<open>Categories\<close>

fun is_for_candidate :: "omission_category \<Rightarrow> person_id \<Rightarrow> candidate_list_id option \<Rightarrow> bool" where
  "is_for_candidate (CatCandidate person ls) person_id list_id =
    (person = person_id \<and> (case list_id of None \<Rightarrow> True | Some l \<Rightarrow> l \<in> set ls))"
| "is_for_candidate _ _ _ = False"

fun category_districts :: "electoral_district list \<Rightarrow> omission_category \<Rightarrow> electoral_district list" where
  "category_districts eds (CatDeclarationsOfSupport districts) = (if districts = [] then eds else districts)"
| "category_districts eds _ = []"

fun category_lists :: "omission_category \<Rightarrow> candidate_list_id list" where
  "category_lists (CatCandidateList ls) = ls"
| "category_lists (CatCandidate _ ls) = ls"
| "category_lists _ = []"

fun has_same_scope :: "omission_category \<Rightarrow> omission_category \<Rightarrow> bool" where
  "has_same_scope (CatDeclarationsOfSupport _) (CatDeclarationsOfSupport _) = True"
| "has_same_scope (CatCandidateList _) (CatCandidateList _) = True"
| "has_same_scope (CatCandidate person _) (CatCandidate other _) = (person = other)"
| "has_same_scope _ _ = False"

fun with_candidate_lists :: "omission_category \<Rightarrow> candidate_list_id list \<Rightarrow> omission_category option" where
  "with_candidate_lists (CatCandidateList _) ls = Some (CatCandidateList ls)"
| "with_candidate_lists (CatCandidate person _) ls = Some (CatCandidate person ls)"
| "with_candidate_lists _ _ = None"

definition merged_with ::
  "(electoral_district \<Rightarrow> nat) \<Rightarrow> omission_category \<Rightarrow> omission_category \<Rightarrow> omission_category option" where
  "merged_with region_number a b =
    (if \<not> has_same_scope a b then None
     else case (a, b) of
       (CatDeclarationsOfSupport mine, CatDeclarationsOfSupport theirs) \<Rightarrow>
         if mine = [] \<or> theirs = [] then Some (CatDeclarationsOfSupport [])
         else Some (CatDeclarationsOfSupport
           (sort_key region_number (mine @ filter (\<lambda>d. d \<notin> set mine) theirs)))
     | _ \<Rightarrow> with_candidate_lists a
         (category_lists a @ filter (\<lambda>l. l \<notin> set (category_lists a)) (category_lists b)))"

fun decide :: "omission_category \<Rightarrow> omission_part \<Rightarrow> omission_decision option" where
  "decide c (PartDistrict district) =
    (case c of
      CatDeclarationsOfSupport districts \<Rightarrow>
        if district \<notin> set districts then None
        else if length districts = 1 then Some Whole
        else Some (Split (CatDeclarationsOfSupport (filter (\<lambda>d. d \<noteq> district) districts))
                         (CatDeclarationsOfSupport [district]))
    | _ \<Rightarrow> None)"
| "decide c (PartList list_id) =
    (let ls = category_lists c in
     if list_id \<notin> set ls then None
     else if length ls = 1 then Some Whole
     else (case with_candidate_lists c (filter (\<lambda>l. l \<noteq> list_id) ls) of
         None \<Rightarrow> None
       | Some remaining \<Rightarrow> (case with_candidate_lists c [list_id] of
           None \<Rightarrow> None
         | Some split \<Rightarrow> Some (Split remaining split))))"

definition from_type_and_reference ::
  "omission_type \<Rightarrow> uuid \<Rightarrow> candidate_list_id list \<Rightarrow> omission_category option" where
  "from_type_and_reference t reference ls = (case t of
      OtPoliticalGroup \<Rightarrow> Some CatPoliticalGroup
    | OtAppellation \<Rightarrow> Some CatAppellation
    | OtCandidateList \<Rightarrow> Some (CatCandidateList ls)
    | OtDeclarationsOfSupport \<Rightarrow> None
    | OtCandidate \<Rightarrow> Some (CatCandidate (PersonId reference) ls))"

subsection \<open>Omissions\<close>

record omission =
  om_id :: omission_id
  om_category :: omission_category
  om_title :: rstring
  om_description :: rstring
  om_help_text :: "rstring option"
  om_recoverable :: bool
  om_status :: omission_status
  om_updated_at :: timestamp

definition omission_new ::
  "omission_id \<Rightarrow> timestamp \<Rightarrow> omission_category \<Rightarrow> rstring \<Rightarrow> rstring \<Rightarrow> rstring option \<Rightarrow> omission" where
  "omission_new fresh now category title description help_text =
     \<lparr>om_id = fresh, om_category = category, om_title = title, om_description = description,
      om_help_text = help_text, om_recoverable = True, om_status = Pending, om_updated_at = now\<rparr>"

definition help_text_of :: "omission \<Rightarrow> rstring option" where
  "help_text_of o' = (case om_help_text o' of Some t \<Rightarrow> if t \<noteq> [] then Some t else None | None \<Rightarrow> None)"

definition has_same_details :: "omission \<Rightarrow> omission \<Rightarrow> bool" where
  "has_same_details a b = (om_title a = om_title b \<and> om_description a = om_description b
     \<and> help_text_of a = help_text_of b \<and> om_recoverable a = om_recoverable b
     \<and> has_same_scope (om_category a) (om_category b))"

definition is_actionable :: "omission \<Rightarrow> bool" where
  "is_actionable o' = om_recoverable o'"

definition is_pending :: "omission \<Rightarrow> bool" where
  "is_pending o' = (om_recoverable o' \<and> om_status o' = Pending)"

definition is_unresolved :: "omission \<Rightarrow> bool" where
  "is_unresolved o' = (\<not> om_recoverable o' \<or> om_status o' = NotRecovered)"

definition decision_count :: "electoral_district list \<Rightarrow> omission \<Rightarrow> nat" where
  "decision_count eds o' = (if \<not> is_actionable o' then 1
     else max (max (length (category_districts eds (om_category o'))) (length (category_lists (om_category o')))) 1)"

definition is_assessed_per_part :: "electoral_district list \<Rightarrow> omission \<Rightarrow> bool" where
  "is_assessed_per_part eds o' = (is_actionable o' \<and> decision_count eds o' > 1)"

fun covers :: "electoral_district list \<Rightarrow> omission \<Rightarrow> omission_part \<Rightarrow> bool" where
  "covers eds o' (PartDistrict d) = (d \<in> set (category_districts eds (om_category o')))"
| "covers eds o' (PartList l) = (l \<in> set (category_lists (om_category o')))"

definition with_explicit_districts :: "electoral_district list \<Rightarrow> omission \<Rightarrow> omission option" where
  "with_explicit_districts eds o' = (case om_category o' of
      CatDeclarationsOfSupport [] \<Rightarrow> Some (o'\<lparr>om_category := CatDeclarationsOfSupport eds\<rparr>)
    | _ \<Rightarrow> None)"

record recovery_progress =
  rp_pending :: nat
  rp_total :: nat

definition progress_decided :: "recovery_progress \<Rightarrow> nat" where
  "progress_decided p = rp_total p - rp_pending p"

definition progress_is_complete :: "recovery_progress \<Rightarrow> bool" where
  "progress_is_complete p = (rp_pending p = 0)"

subsection \<open>Parts\<close>

text \<open>The parts a category covers, with its districts spelled out, and its shape: whether
  districts and lists are named at most once.\<close>

fun category_parts :: "omission_category \<Rightarrow> omission_part set" where
  "category_parts (CatDeclarationsOfSupport ds) = PartDistrict ` set ds"
| "category_parts c = PartList ` set (category_lists c)"

fun category_ok :: "omission_category \<Rightarrow> bool" where
  "category_ok (CatDeclarationsOfSupport ds) = distinct ds"
| "category_ok c = distinct (category_lists c)"

definition part_count :: "omission_category \<Rightarrow> nat" where
  "part_count c = (case c of CatDeclarationsOfSupport ds \<Rightarrow> length ds | _ \<Rightarrow> length (category_lists c))"

lemma decide_None_iff: "decide c part = None \<longleftrightarrow> part \<notin> category_parts c"
  by (cases part; cases c) (auto simp: Let_def)

lemma decide_Whole: "decide c part = Some Whole \<Longrightarrow> category_parts c = {part}"
  by (cases part; cases c) (auto simp: Let_def length_Suc_conv split: if_splits)

lemma part_count_0_iff: "part_count c = 0 \<longleftrightarrow> category_parts c = {}"
  by (cases c) (simp_all add: part_count_def)

lemma decide_Split_counts:
  "decide c part = Some (Split remaining split) \<Longrightarrow> part_count split = 1 \<and> part_count c \<noteq> 1"
  by (cases part; cases c) (auto simp: Let_def part_count_def split: if_splits)

lemma decide_Split_sum:
  "decide c part = Some (Split remaining split) \<Longrightarrow> category_ok c \<Longrightarrow>
    part_count remaining + part_count split = part_count c"
  using length_filter_neq
  by (cases part; cases c) (auto simp: Let_def part_count_def split: if_splits)

text \<open>A split separates exactly the part, keeps the rest, and stays in the same scope.\<close>

lemma decide_Split:
  assumes "decide c part = Some (Split remaining split)"
  shows "category_parts split = {part}" "category_parts remaining = category_parts c - {part}"
    "has_same_scope c split" "has_same_scope c remaining"
    "category_ok c \<Longrightarrow> category_ok remaining" "category_ok split"
    "category_ok c \<Longrightarrow> category_parts remaining \<noteq> {}"
proof -
  show "category_parts split = {part}" "category_parts remaining = category_parts c - {part}"
    "has_same_scope c split" "has_same_scope c remaining" "category_ok split"
    "category_ok c \<Longrightarrow> category_ok remaining"
    using assms by (cases part; cases c; auto simp: Let_def split: if_splits)+
  show "category_parts remaining \<noteq> {}" if "category_ok c"
    using decide_Split_counts [OF assms] decide_Split_sum [OF assms that] part_count_0_iff [of remaining]
    by auto
qed

lemma has_same_scope_sym: "has_same_scope a b = has_same_scope b a"
  by (cases a; cases b) auto

lemma has_same_scope_trans: "has_same_scope a b \<Longrightarrow> has_same_scope b c \<Longrightarrow> has_same_scope a c"
  by (cases a; cases b; cases c) auto

text \<open>Merging covers what either covers; without districts spelled out, all of them.\<close>

lemma merged_with_parts:
  assumes "merged_with rn a b = Some c" "category_parts a \<noteq> {}" "category_parts b \<noteq> {}"
  shows "category_parts c = category_parts a \<union> category_parts b" "has_same_scope a c"
    "category_ok a \<Longrightarrow> category_ok b \<Longrightarrow> category_ok c"
  using assms by (cases a; cases b; auto simp: merged_with_def split: if_splits)+

lemma merged_with_Some_iff: "(\<exists>c. merged_with rn a b = Some c) \<longleftrightarrow> has_same_scope a b"
  by (cases a; cases b) (auto simp: merged_with_def)

lemma merged_with_all_districts:
  "ds = [] \<or> es = [] \<Longrightarrow> merged_with rn (CatDeclarationsOfSupport ds) (CatDeclarationsOfSupport es)
    = Some (CatDeclarationsOfSupport [])"
  by (auto simp: merged_with_def)

lemma covers_parts:
  "om_category o' \<noteq> CatDeclarationsOfSupport [] \<Longrightarrow> covers eds o' part \<longleftrightarrow> part \<in> category_parts (om_category o')"
  by (cases part; cases "om_category o'") auto

lemma with_explicit_districts_covers:
  "with_explicit_districts eds o' = Some o'' \<Longrightarrow> covers eds o'' part \<longleftrightarrow> covers eds o' part"
  by (cases part) (auto simp: with_explicit_districts_def split: omission_category.splits list.splits)

end
