(* ===== verification/Scrapped.thy ===== *)
theory Scrapped
  imports Omission Pg_Invariants
begin

text \<open>
  What the unresolved omissions scrap (\<open>projection/csb_data/scrapped.rs\<close>). The ordered sets are
  built by inserting in the order the hash map of omissions yields them; the reads below do
  not depend on that order.
\<close>

record scrapped_list =
  sl_whole :: bool
  sl_districts :: "electoral_district list"
  sl_all_districts :: bool

record scrapped =
  sc_omissions :: "omission_id btset"
  sc_appellation :: "omission_id btset"
  sc_districts :: "electoral_district btset"
  sc_all_districts :: bool
  sc_lists :: "(candidate_list_id, scrapped_list) hmap"
  sc_candidates :: "(candidate_list_id \<times> person_id) list"

definition scrapped_list_default :: scrapped_list where
  "scrapped_list_default = \<lparr>sl_whole = False, sl_districts = [], sl_all_districts = False\<rparr>"

definition scrapped_default :: scrapped where
  "scrapped_default = \<lparr>sc_omissions = [], sc_appellation = [], sc_districts = [],
     sc_all_districts = False, sc_lists = [], sc_candidates = []\<rparr>"

text \<open>\<open>entry(k).or_default()\<close>, then changed.\<close>

definition sl_entry :: "candidate_list_id \<Rightarrow> (scrapped_list \<Rightarrow> scrapped_list)
    \<Rightarrow> (candidate_list_id, scrapped_list) hmap \<Rightarrow> (candidate_list_id, scrapped_list) hmap" where
  "sl_entry k f m = hm_insert k (f (case hm_get m k of None \<Rightarrow> scrapped_list_default | Some e \<Rightarrow> e)) m"

definition scrap_omission :: "bool \<Rightarrow> omission \<Rightarrow> scrapped \<Rightarrow> scrapped" where
  "scrap_omission is_blank om s =
    (let noted = (\<lambda>s. s\<lparr>sc_omissions := insort_insert (om_id om) (sc_omissions s)\<rparr>) in
     case om_category om of
       CatAppellation \<Rightarrow> if is_blank then s
         else noted (s\<lparr>sc_appellation := insort_insert (om_id om) (sc_appellation s)\<rparr>)
     | CatPoliticalGroup \<Rightarrow> s
     | CatDeclarationsOfSupport districts \<Rightarrow>
         if districts = [] then noted (s\<lparr>sc_all_districts := True\<rparr>)
         else noted (s\<lparr>sc_districts := fold insort_insert districts (sc_districts s)\<rparr>)
     | CatCandidateList ls \<Rightarrow>
         noted (s\<lparr>sc_lists := fold (\<lambda>l. sl_entry l (\<lambda>e. e\<lparr>sl_whole := True\<rparr>)) ls (sc_lists s)\<rparr>)
     | CatCandidate person ls \<Rightarrow>
         noted (s\<lparr>sc_candidates := sc_candidates s @ map (\<lambda>l. (l, person)) ls\<rparr>))"

definition is_district_scrapped :: "scrapped \<Rightarrow> electoral_district \<Rightarrow> bool" where
  "is_district_scrapped s d = (sc_all_districts s \<or> d \<in> set (sc_districts s))"

definition scrap_list :: "candidate_list \<Rightarrow> scrapped \<Rightarrow> scrapped" where
  "scrap_list l s =
    (let districts = filter (is_district_scrapped s) (cl_electoral_districts l) in
     s\<lparr>sc_lists := sl_entry (cl_id l) (\<lambda>e. e\<lparr>sl_all_districts := districts \<noteq> []
         \<and> length districts = length (cl_electoral_districts l), sl_districts := districts\<rparr>) (sc_lists s)\<rparr>)"

definition scrapped_derive :: "pg_store_data \<Rightarrow> (omission_id, omission) hmap \<Rightarrow> scrapped" where
  "scrapped_derive d omissions =
    (let is_blank = (pg_list_designation (d_political_group d) = Some Blank) in
     fold scrap_list (hm_values (d_candidate_lists d))
       (fold (scrap_omission is_blank) (filter is_unresolved (hm_values omissions)) scrapped_default))"

definition is_caused_by :: "scrapped \<Rightarrow> omission_id \<Rightarrow> bool" where
  "is_caused_by s i = (i \<in> set (sc_omissions s))"

definition is_appellation_scrapped :: "scrapped \<Rightarrow> bool" where
  "is_appellation_scrapped s = (sc_appellation s \<noteq> [])"

definition scrapped_districts :: "electoral_district list \<Rightarrow> scrapped \<Rightarrow> electoral_district list" where
  "scrapped_districts eds s = filter (is_district_scrapped s) eds"

definition is_list_scrapped :: "scrapped \<Rightarrow> candidate_list_id \<Rightarrow> bool" where
  "is_list_scrapped s l = (case hm_get (sc_lists s) l of
      None \<Rightarrow> False | Some e \<Rightarrow> sl_whole e \<or> sl_all_districts e)"

definition scrapped_list_districts :: "scrapped \<Rightarrow> candidate_list_id \<Rightarrow> electoral_district list" where
  "scrapped_list_districts s l = (case hm_get (sc_lists s) l of None \<Rightarrow> [] | Some e \<Rightarrow> sl_districts e)"

definition all_list_districts_scrapped :: "scrapped \<Rightarrow> candidate_list_id \<Rightarrow> bool" where
  "all_list_districts_scrapped s l = (case hm_get (sc_lists s) l of None \<Rightarrow> False | Some e \<Rightarrow> sl_all_districts e)"

definition is_candidate_scrapped :: "scrapped \<Rightarrow> candidate_list_id \<Rightarrow> person_id \<Rightarrow> bool" where
  "is_candidate_scrapped s l p = ((l, p) \<in> set (sc_candidates s))"

subsection \<open>What the first loop records\<close>

declare set_insort_insert [simp]

lemma set_fold_insort_insert [simp]: "set (fold insort_insert xs ys) = set xs \<union> set (ys :: 'a::linorder list)"
  by (induction xs arbitrary: ys) auto

lemma whole_sl_entry:
  "(\<exists>e. hm_get (sl_entry k (\<lambda>e. e\<lparr>sl_whole := True\<rparr>) m) l = Some e \<and> sl_whole e) \<longleftrightarrow>
    l = k \<or> (\<exists>e. hm_get m l = Some e \<and> sl_whole e)"
  by (auto simp: sl_entry_def)

lemma whole_fold_sl_entry:
  "(\<exists>e. hm_get (fold (\<lambda>k. sl_entry k (\<lambda>e. e\<lparr>sl_whole := True\<rparr>)) ks m) l = Some e \<and> sl_whole e) \<longleftrightarrow>
    l \<in> set ks \<or> (\<exists>e. hm_get m l = Some e \<and> sl_whole e)"
  by (induction ks arbitrary: m) (auto simp: whole_sl_entry)

text \<open>No list is marked for its districts before the second loop.\<close>

definition no_districts :: "(candidate_list_id, scrapped_list) hmap \<Rightarrow> bool" where
  "no_districts m = (\<forall>l e. hm_get m l = Some e \<longrightarrow> sl_districts e = [] \<and> \<not> sl_all_districts e)"

lemma no_districts_entry: "no_districts m \<Longrightarrow> no_districts (sl_entry k (\<lambda>e. e\<lparr>sl_whole := True\<rparr>) m)"
  by (cases "hm_get m k") (auto simp: no_districts_def sl_entry_def scrapped_list_default_def)

lemma no_districts_fold: "no_districts m \<Longrightarrow> no_districts (fold (\<lambda>k. sl_entry k (\<lambda>e. e\<lparr>sl_whole := True\<rparr>)) ks m)"
  by (induction ks arbitrary: m) (simp_all add: no_districts_entry)

lemma no_districts_scrap: "no_districts (sc_lists s) \<Longrightarrow> no_districts (sc_lists (scrap_omission b om s))"
  by (cases "om_category om") (simp_all add: scrap_omission_def Let_def no_districts_fold)

lemma no_districts_scraps: "no_districts (sc_lists s) \<Longrightarrow> no_districts (sc_lists (fold (scrap_omission b) oms s))"
  by (induction oms arbitrary: s) (simp_all add: no_districts_scrap)

locale scrapped_read =
  fixes read :: "scrapped \<Rightarrow> bool" and causes :: "bool \<Rightarrow> omission \<Rightarrow> bool"
  assumes read_default: "\<not> read scrapped_default"
    and read_scrap: "read (scrap_omission is_blank om s) \<longleftrightarrow> read s \<or> causes is_blank om"
begin

lemma read_fold: "read (fold (scrap_omission is_blank) oms s) \<longleftrightarrow> read s \<or> (\<exists>om\<in>set oms. causes is_blank om)"
  by (induction oms arbitrary: s) (auto simp: read_scrap)

lemma read_derived:
  "read (fold (scrap_omission is_blank) (filter is_unresolved (hm_values oms)) scrapped_default) \<longleftrightarrow>
    (\<exists>om\<in>set (hm_values oms). is_unresolved om \<and> causes is_blank om)"
  by (auto simp: read_fold read_default)

end

lemmas scrap_omission_defs = scrap_omission_def Let_def scrapped_default_def

interpretation read_omission: scrapped_read "\<lambda>s. is_caused_by s i"
  "\<lambda>is_blank om. om_id om = i \<and> om_category om \<noteq> CatPoliticalGroup \<and> (om_category om = CatAppellation \<longrightarrow> \<not> is_blank)"
  for i
  by unfold_locales (auto simp: scrap_omission_defs is_caused_by_def split: omission_category.splits)

interpretation read_appellation: scrapped_read is_appellation_scrapped
  "\<lambda>is_blank om. om_category om = CatAppellation \<and> \<not> is_blank"
  by unfold_locales (auto simp: scrap_omission_defs is_appellation_scrapped_def split: omission_category.splits
      simp flip: set_empty)

interpretation read_district: scrapped_read "\<lambda>s. is_district_scrapped s d"
  "\<lambda>_ om. \<exists>ds. om_category om = CatDeclarationsOfSupport ds \<and> (ds = [] \<or> d \<in> set ds)" for d
  by unfold_locales (auto simp: scrap_omission_defs is_district_scrapped_def split: omission_category.splits)

interpretation read_candidate: scrapped_read "\<lambda>s. is_candidate_scrapped s l p"
  "\<lambda>_ om. \<exists>ls. om_category om = CatCandidate p ls \<and> l \<in> set ls" for l p
  by unfold_locales (auto simp: scrap_omission_defs is_candidate_scrapped_def split: omission_category.splits)

interpretation read_whole: scrapped_read "\<lambda>s. \<exists>e. hm_get (sc_lists s) l = Some e \<and> sl_whole e"
  "\<lambda>_ om. \<exists>ls. om_category om = CatCandidateList ls \<and> l \<in> set ls" for l
  by unfold_locales (auto simp: scrap_omission_defs whole_fold_sl_entry split: omission_category.splits)

subsection \<open>What the second loop records\<close>

lemma scrap_list_other [simp]:
  "sc_omissions (scrap_list l s) = sc_omissions s" "sc_appellation (scrap_list l s) = sc_appellation s"
  "sc_districts (scrap_list l s) = sc_districts s" "sc_all_districts (scrap_list l s) = sc_all_districts s"
  "sc_candidates (scrap_list l s) = sc_candidates s"
  by (simp_all add: scrap_list_def Let_def)

lemma fold_scrap_list_other [simp]:
  "sc_omissions (fold scrap_list ls s) = sc_omissions s" "sc_appellation (fold scrap_list ls s) = sc_appellation s"
  "sc_districts (fold scrap_list ls s) = sc_districts s" "sc_all_districts (fold scrap_list ls s) = sc_all_districts s"
  "sc_candidates (fold scrap_list ls s) = sc_candidates s"
  by (induction ls arbitrary: s) simp_all

lemma is_district_scrapped_lists [simp]: "is_district_scrapped (fold scrap_list ls s) = is_district_scrapped s"
  by (simp add: is_district_scrapped_def fun_eq_iff)

lemma is_district_scrapped_list [simp]: "is_district_scrapped (scrap_list l s) = is_district_scrapped s"
  by (simp add: is_district_scrapped_def fun_eq_iff)

definition sl_of :: "scrapped \<Rightarrow> candidate_list_id \<Rightarrow> scrapped_list" where
  "sl_of s i = (case hm_get (sc_lists s) i of None \<Rightarrow> scrapped_list_default | Some e \<Rightarrow> e)"

lemma sl_of_scrap_list:
  "sl_of (scrap_list l s) i = (if i = cl_id l then (sl_of s i)\<lparr>
     sl_all_districts := filter (is_district_scrapped s) (cl_electoral_districts l) \<noteq> []
       \<and> length (filter (is_district_scrapped s) (cl_electoral_districts l)) = length (cl_electoral_districts l),
     sl_districts := filter (is_district_scrapped s) (cl_electoral_districts l)\<rparr> else sl_of s i)"
  by (simp add: sl_of_def scrap_list_def sl_entry_def Let_def)

lemma sl_of_fold_other: "i \<notin> cl_id ` set ls \<Longrightarrow> sl_of (fold scrap_list ls s) i = sl_of s i"
  by (induction ls arbitrary: s) (auto simp: sl_of_scrap_list)

lemma sl_of_fold:
  assumes "distinct (map cl_id ls)" "l \<in> set ls"
  shows "sl_of (fold scrap_list ls s) (cl_id l) = (sl_of s (cl_id l))\<lparr>
     sl_all_districts := filter (is_district_scrapped s) (cl_electoral_districts l) \<noteq> []
       \<and> length (filter (is_district_scrapped s) (cl_electoral_districts l)) = length (cl_electoral_districts l),
     sl_districts := filter (is_district_scrapped s) (cl_electoral_districts l)\<rparr>"
  using assms
proof (induction ls arbitrary: s)
  case (Cons k ls)
  show ?case
  proof (cases "l = k")
    case True
    with Cons.prems have "cl_id l \<notin> cl_id ` set ls" by auto
    with True show ?thesis by (simp add: sl_of_fold_other sl_of_scrap_list)
  next
    case False
    with Cons.prems have l: "l \<in> set ls" by simp
    then have "cl_id l \<in> cl_id ` set ls" by simp
    with Cons.prems have "cl_id l \<noteq> cl_id k" by auto
    with l Cons show ?thesis by (simp add: sl_of_scrap_list)
  qed
qed simp

lemma is_list_scrapped_sl_of: "is_list_scrapped s i \<longleftrightarrow> sl_whole (sl_of s i) \<or> sl_all_districts (sl_of s i)"
  by (auto simp: is_list_scrapped_def sl_of_def scrapped_list_default_def split: option.splits)

lemma sl_whole_sl_of: "sl_whole (sl_of s i) \<longleftrightarrow> (\<exists>e. hm_get (sc_lists s) i = Some e \<and> sl_whole e)"
  by (auto simp: sl_of_def scrapped_list_default_def split: option.splits)

lemma all_districts_before:
  "\<not> sl_all_districts (sl_of (fold (scrap_omission b) oms scrapped_default) i)"
proof -
  have "no_districts (sc_lists scrapped_default)" by (simp add: no_districts_def scrapped_default_def)
  from no_districts_scraps [OF this, of b oms] show ?thesis
    by (auto simp: sl_of_def no_districts_def scrapped_list_default_def split: option.splits)
qed

subsection \<open>What is scrapped\<close>

text \<open>An unresolved omission about declarations of support reaches a district.\<close>

definition district_unsupported :: "(omission_id, omission) hmap \<Rightarrow> electoral_district \<Rightarrow> bool" where
  "district_unsupported omissions ed = (\<exists>om\<in>set (hm_values omissions). is_unresolved om
     \<and> (\<exists>ds. om_category om = CatDeclarationsOfSupport ds \<and> (ds = [] \<or> ed \<in> set ds)))"

lemma derive_district: "is_district_scrapped (scrapped_derive d omissions) ed \<longleftrightarrow> district_unsupported omissions ed"
  by (simp add: scrapped_derive_def Let_def read_district.read_derived district_unsupported_def)

lemma derive_candidate: "is_candidate_scrapped (scrapped_derive d omissions) l p \<longleftrightarrow>
    (\<exists>om\<in>set (hm_values omissions). is_unresolved om \<and> (\<exists>ls. om_category om = CatCandidate p ls \<and> l \<in> set ls))"
proof -
  have "is_candidate_scrapped (fold scrap_list ls s) l p = is_candidate_scrapped s l p" for ls s
    by (simp add: is_candidate_scrapped_def)
  then show ?thesis by (simp add: scrapped_derive_def Let_def read_candidate.read_derived)
qed

lemma derive_appellation: "is_appellation_scrapped (scrapped_derive d omissions) \<longleftrightarrow>
    pg_list_designation (d_political_group d) \<noteq> Some Blank
    \<and> (\<exists>om\<in>set (hm_values omissions). is_unresolved om \<and> om_category om = CatAppellation)"
proof -
  have "is_appellation_scrapped (fold scrap_list ls s) = is_appellation_scrapped s" for ls s
    by (simp add: is_appellation_scrapped_def)
  then show ?thesis by (auto simp: scrapped_derive_def Let_def read_appellation.read_derived)
qed

lemma derive_caused_by: "is_caused_by (scrapped_derive d omissions) i \<longleftrightarrow>
    (\<exists>om\<in>set (hm_values omissions). is_unresolved om \<and> om_id om = i \<and> om_category om \<noteq> CatPoliticalGroup
      \<and> (om_category om = CatAppellation \<longrightarrow> pg_list_designation (d_political_group d) \<noteq> Some Blank))"
proof -
  have "is_caused_by (fold scrap_list ls s) = is_caused_by s" for ls s
    by (simp add: is_caused_by_def fun_eq_iff)
  then show ?thesis by (simp add: scrapped_derive_def Let_def read_omission.read_derived)
qed

text \<open>A list is scrapped by an omission about it, or when declarations of support are missing
  in every one of its districts; an unknown list only by an omission about it.\<close>

lemma derive_list:
  assumes "pg_inv d"
  shows "is_list_scrapped (scrapped_derive d omissions) i \<longleftrightarrow>
    (\<exists>om\<in>set (hm_values omissions). is_unresolved om \<and> (\<exists>ls. om_category om = CatCandidateList ls \<and> i \<in> set ls))
    \<or> (\<exists>l. hm_get (d_candidate_lists d) i = Some l \<and> cl_electoral_districts l \<noteq> []
        \<and> (\<forall>ed\<in>set (cl_electoral_districts l). district_unsupported omissions ed))"
proof -
  define s where "s = fold (scrap_omission (pg_list_designation (d_political_group d) = Some Blank))
    (filter is_unresolved (hm_values omissions)) scrapped_default"
  have derive: "scrapped_derive d omissions = fold scrap_list (hm_values (d_candidate_lists d)) s"
    by (simp add: scrapped_derive_def s_def Let_def)
  have district: "is_district_scrapped s ed \<longleftrightarrow> district_unsupported omissions ed" for ed
    using derive_district [of d omissions ed] by (simp add: derive)
  have whole: "sl_whole (sl_of s i) \<longleftrightarrow> (\<exists>om\<in>set (hm_values omissions). is_unresolved om
      \<and> (\<exists>ls. om_category om = CatCandidateList ls \<and> i \<in> set ls))"
    by (simp add: sl_whole_sl_of s_def read_whole.read_derived)
  have before: "\<not> sl_all_districts (sl_of s i)" unfolding s_def by (rule all_districts_before)
  have ok: "hm_ok (d_candidate_lists d)" and keyed: "keyed cl_id (d_candidate_lists d)"
    using assms by (auto simp: pg_inv_def)
  have ids: "map cl_id (hm_values (d_candidate_lists d)) = map fst (d_candidate_lists d)"
    using ok keyed by (auto simp: hm_values_def keyed_def in_set_hm_iff [symmetric])
  show ?thesis
  proof (cases "hm_get (d_candidate_lists d) i")
    case None
    then have "i \<notin> cl_id ` set (hm_values (d_candidate_lists d))"
      using arg_cong [OF ids, of set] by (simp add: hm_get_def map_of_eq_None_iff)
    with None show ?thesis by (simp add: is_list_scrapped_sl_of derive sl_of_fold_other whole before)
  next
    case (Some l)
    then have "l \<in> set (hm_values (d_candidate_lists d))" by (rule hm_get_in_values)
    moreover have "distinct (map cl_id (hm_values (d_candidate_lists d)))" using ok ids by (simp add: hm_ok_def)
    moreover have "cl_id l = i" using Some keyed by (simp add: keyed_def)
    ultimately have "is_list_scrapped (scrapped_derive d omissions) i \<longleftrightarrow> sl_whole (sl_of s i)
        \<or> filter (is_district_scrapped s) (cl_electoral_districts l) \<noteq> []
          \<and> length (filter (is_district_scrapped s) (cl_electoral_districts l)) = length (cl_electoral_districts l)"
      using sl_of_fold [of "hm_values (d_candidate_lists d)" l s] by (simp add: is_list_scrapped_sl_of derive)
    with Some show ?thesis
      by (auto simp: whole length_filter_all district filter_empty_conv)
  qed
qed

end
