(* ===== verification/Csb_Projection.thy ===== *)
theory Csb_Projection
  imports Brp Correction Scrapped
begin

text \<open>
  The projection of a committee stream (\<open>projection/csb_data\<close>): the imported group, the group
  as corrected on paper, the group with the committee's own corrections on top, the
  omissions with the decisions on them, and what the register said about the candidates.

  Parameters, for code outside the repository: \<open>region_number\<close> of a district, generated by
  the build, and \<open>uuid_v5\<close>, the name-based identifiers of the \<open>uuid\<close> package. The three
  default projections each carry a fresh submitter id. An event number is a \<open>usize\<close>, whose
  eight big-endian bytes are hashed; numbers below two to the 64th are told apart by them.
\<close>

datatype csb_user = Developer | SecurityKey rstring

datatype csb_action =
    CsbImport event_hash stream_id pg_store_data
  | CreateEmpty
  | CsbDelete
  | PaperCorrectedUpdate pg_event
  | SetFinished bool
  | CreateOmission omission
  | UpdateOmission omission
  | DeleteOmission omission_id
  | SetOmissionStatus omission_id omission_status
  | SetOmissionPartStatus omission_id omission_part omission_status
  | UpdateCorrection correction
  | BrpLookup brp_lookup
  | BrpPersonChecked person_id "brp_finding list"
  | SetBrpFindingHandled person_id brp_finding_kind bool
  | SetBrpStatus brp_status

record csb_event =
  ce_user :: csb_user
  ce_action :: csb_action

definition csb_action_by :: "csb_action \<Rightarrow> csb_user \<Rightarrow> csb_event" where
  "csb_action_by action user = \<lparr>ce_user = user, ce_action = action\<rparr>"

record csb_store_data =
  c_imported_data :: pg_store_data
  c_paper_corrected_data :: pg_store_data
  c_csb_corrected_data :: pg_store_data
  c_events :: "csb_event store_event list"
  c_is_examination_finished :: bool
  c_is_deleted :: bool
  c_omissions :: "(omission_id, omission) hmap"
  c_brp_findings :: "(person_id, brp_finding list) hmap"
  c_brp_validation_status :: brp_status
  c_csb_corrected_persons :: "(person_id, person_correction_delta) hmap"
  c_csb_corrected_appellation :: "rstring option"
  c_scrapped :: scrapped

datatype with_corrections = CorrNone | CorrPaper | CorrAll

record csb_env =
  ce_region_number :: "electoral_district \<Rightarrow> nat"
  ce_uuid_v5 :: "uuid \<Rightarrow> byte list \<Rightarrow> uuid"
  ce_fresh :: "list_submitter_id \<times> list_submitter_id \<times> list_submitter_id"

definition csb_default :: "csb_env \<Rightarrow> csb_store_data" where
  "csb_default env = (case ce_fresh env of (a, b, c) \<Rightarrow>
     \<lparr>c_imported_data = pg_default a, c_paper_corrected_data = pg_default b,
      c_csb_corrected_data = pg_default c, c_events = [], c_is_examination_finished = False,
      c_is_deleted = False, c_omissions = [], c_brp_findings = [],
      c_brp_validation_status = NotStarted, c_csb_corrected_persons = [],
      c_csb_corrected_appellation = None, c_scrapped = scrapped_default\<rparr>)"

fun csb_pg :: "csb_store_data \<Rightarrow> with_corrections \<Rightarrow> pg_store_data" where
  "csb_pg d CorrNone = c_imported_data d"
| "csb_pg d CorrPaper = c_paper_corrected_data d"
| "csb_pg d CorrAll = c_csb_corrected_data d"

subsection \<open>Derived parts\<close>

definition refresh_scrapped :: "csb_store_data \<Rightarrow> csb_store_data" where
  "refresh_scrapped d = d\<lparr>c_scrapped := scrapped_derive (c_paper_corrected_data d) (c_omissions d)\<rparr>"

text \<open>The projection the corrections give, from the paper corrected one: the value
  \<open>refresh_corrected\<close> stores.\<close>

definition corrected_data ::
  "pg_store_data \<Rightarrow> rstring option \<Rightarrow> (person_id, person_correction_delta) hmap \<Rightarrow> pg_store_data" where
  "corrected_data paper appellation deltas =
    (let data = (case appellation of
          None \<Rightarrow> paper
        | Some a \<Rightarrow> paper\<lparr>d_political_group := (d_political_group paper)\<lparr>pg_appellation := Some a\<rparr>\<rparr>)
     in data\<lparr>d_persons := fold (\<lambda>(person_id, delta). hm_modify person_id (delta_apply delta)) deltas
          (d_persons data)\<rparr>)"

definition refresh_corrected :: "csb_store_data \<Rightarrow> csb_store_data" where
  "refresh_corrected d = d\<lparr>c_csb_corrected_data :=
     corrected_data (c_paper_corrected_data d) (c_csb_corrected_appellation d) (c_csb_corrected_persons d)\<rparr>"

subsection \<open>Import and paper corrections\<close>

definition apply_import :: "pg_store_data \<Rightarrow> pg_event store_event \<Rightarrow> csb_store_data \<Rightarrow> csb_store_data" where
  "apply_import snapshot import_event d =
     refresh_corrected (d\<lparr>c_imported_data := snapshot,
       c_paper_corrected_data := pg_apply import_event snapshot\<rparr>)"

definition forget_brp_check :: "person_id \<Rightarrow> csb_store_data \<Rightarrow> csb_store_data" where
  "forget_brp_check person_id d = d\<lparr>c_brp_findings := hm_remove person_id (c_brp_findings d)\<rparr>"

definition candidates_changed_by :: "pg_event \<Rightarrow> person_id list" where
  "candidates_changed_by e = (case e of
      CreatePerson person \<Rightarrow> [p_id person]
    | UpdatePerson person \<Rightarrow> [p_id person]
    | CreatePersonPersonalData person_id _ _ \<Rightarrow> [person_id]
    | UpdatePersonPersonalData person_id _ _ \<Rightarrow> [person_id]
    | DeletePerson person_id \<Rightarrow> [person_id]
    | ImportCandidates imp \<Rightarrow> map p_id (ci_created_persons imp @ ci_updated_persons imp)
    | _ \<Rightarrow> [])"

definition apply_paper_correction :: "pg_event store_event \<Rightarrow> csb_store_data \<Rightarrow> csb_store_data" where
  "apply_paper_correction e d =
    (let d = fold forget_brp_check (candidates_changed_by (se_payload e)) d in
     refresh_corrected (d\<lparr>c_paper_corrected_data := pg_apply e (c_paper_corrected_data d)\<rparr>))"

subsection \<open>Register findings\<close>

definition set_brp_finding_handled :: "person_id \<Rightarrow> brp_finding_kind \<Rightarrow> bool \<Rightarrow> csb_store_data \<Rightarrow> csb_store_data" where
  "set_brp_finding_handled person_id finding handled d =
    (case hm_get (c_brp_findings d) person_id of
      None \<Rightarrow> d
    | Some recorded \<Rightarrow> d\<lparr>c_brp_findings := hm_modify person_id
        (map (\<lambda>r. if bf_kind r = finding then r\<lparr>bf_handled := handled\<rparr> else r)) (c_brp_findings d)\<rparr>)"

subsection \<open>Omissions\<close>

definition create_omission :: "omission \<Rightarrow> timestamp \<Rightarrow> csb_store_data \<Rightarrow> csb_store_data" where
  "create_omission om event_time d =
    (let om = om\<lparr>om_updated_at := event_time\<rparr> in
     d\<lparr>c_omissions := hm_insert (om_id om) om (c_omissions d)\<rparr>)"

definition update_omission :: "omission \<Rightarrow> timestamp \<Rightarrow> csb_store_data \<Rightarrow> csb_store_data" where
  "update_omission om event_time d =
    (let om = om\<lparr>om_updated_at := event_time\<rparr> in
     d\<lparr>c_omissions := hm_modify (om_id om) (\<lambda>_. om) (c_omissions d)\<rparr>)"

definition list_district_key :: "(electoral_district \<Rightarrow> nat) \<Rightarrow> pg_store_data \<Rightarrow> candidate_list_id \<Rightarrow> nat" where
  "list_district_key region_number data list_id =
    (case hm_get (d_candidate_lists data) list_id of
      None \<Rightarrow> 65535
    | Some l \<Rightarrow> (case cl_electoral_districts l of [] \<Rightarrow> 65535 | district # _ \<Rightarrow> region_number district))"

fun sort_candidate_lists ::
  "(electoral_district \<Rightarrow> nat) \<Rightarrow> pg_store_data \<Rightarrow> omission_category \<Rightarrow> omission_category" where
  "sort_candidate_lists rn data (CatCandidateList ls) = CatCandidateList (sort_key (list_district_key rn data) ls)"
| "sort_candidate_lists rn data (CatCandidate p ls) = CatCandidate p (sort_key (list_district_key rn data) ls)"
| "sort_candidate_lists rn data c = c"

definition merge_holder :: "omission_id \<Rightarrow> omission \<Rightarrow> (omission_id, omission) hmap \<Rightarrow> omission option" where
  "merge_holder i om omissions = min_by_key om_id
     (filter (\<lambda>h. om_id h \<noteq> i \<and> om_status h = om_status om \<and> has_same_details h om) (hm_values omissions))"

definition merge_omission :: "csb_env \<Rightarrow> omission_id \<Rightarrow> timestamp \<Rightarrow> csb_store_data \<Rightarrow> csb_store_data" where
  "merge_omission env i event_time d =
    (case hm_get (c_omissions d) i of
      None \<Rightarrow> d
    | Some om \<Rightarrow>
        if om_status om = Pending then d
        else (case merge_holder i om (c_omissions d) of
          None \<Rightarrow> d
        | Some holder \<Rightarrow>
          (case merged_with (ce_region_number env) (om_category holder) (om_category om) of
            None \<Rightarrow> d
          | Some category \<Rightarrow>
              let category = sort_candidate_lists (ce_region_number env) (c_paper_corrected_data d) category in
              d\<lparr>c_omissions := hm_modify (om_id holder)
                  (\<lambda>h. h\<lparr>om_category := category, om_updated_at := event_time\<rparr>)
                  (hm_remove i (c_omissions d))\<rparr>)))"

definition set_omission_status ::
  "csb_env \<Rightarrow> omission_id \<Rightarrow> omission_status \<Rightarrow> timestamp \<Rightarrow> csb_store_data \<Rightarrow> csb_store_data" where
  "set_omission_status env i status event_time d =
     merge_omission env i event_time (d\<lparr>c_omissions := hm_modify i
       (\<lambda>om. om\<lparr>om_status := status, om_updated_at := event_time\<rparr>) (c_omissions d)\<rparr>)"

definition be_bytes8 :: "nat \<Rightarrow> byte list" where
  "be_bytes8 n = rev (le_bytes 8 (int n))"

definition split_off_id :: "csb_env \<Rightarrow> omission_id \<Rightarrow> nat \<Rightarrow> omission_id" where
  "split_off_id env i event_id = OmissionId (ce_uuid_v5 env (omission_uuid i) (be_bytes8 event_id))"

definition split_omission ::
  "omission_id \<Rightarrow> omission_id \<Rightarrow> omission_category \<Rightarrow> omission_category \<Rightarrow> timestamp \<Rightarrow> omission
    \<Rightarrow> (omission_id, omission) hmap \<Rightarrow> (omission_id, omission) hmap" where
  "split_omission i split_id remaining split event_time om m =
     hm_modify i (\<lambda>om. om\<lparr>om_category := remaining, om_updated_at := event_time\<rparr>)
       (hm_insert split_id (om\<lparr>om_id := split_id, om_category := split, om_updated_at := event_time\<rparr>) m)"

definition set_omission_part_status ::
  "csb_env \<Rightarrow> omission_id \<Rightarrow> omission_part \<Rightarrow> omission_status \<Rightarrow> nat \<Rightarrow> timestamp \<Rightarrow> csb_store_data \<Rightarrow> csb_store_data" where
  "set_omission_part_status env i part status event_id event_time d =
    (case hm_get (c_omissions d) i of
      None \<Rightarrow> d
    | Some om \<Rightarrow>
      (case decide (om_category om) part of
        None \<Rightarrow> d
      | Some Whole \<Rightarrow> set_omission_status env i status event_time d
      | Some (Split remaining split) \<Rightarrow>
          let split_id = split_off_id env i event_id in
          set_omission_status env split_id status event_time
            (d\<lparr>c_omissions := split_omission i split_id remaining split event_time om (c_omissions d)\<rparr>)))"

subsection \<open>The committee's corrections\<close>

definition apply_person_correction :: "person_id \<Rightarrow> person_correction \<Rightarrow> csb_store_data \<Rightarrow> csb_store_data" where
  "apply_person_correction person_id c d =
    (let changes = (case hm_get (d_persons (c_paper_corrected_data d)) person_id of
          None \<Rightarrow> False | Some person \<Rightarrow> correction_changes c person);
         deltas = c_csb_corrected_persons d
     in if changes then
          let delta = (case hm_get deltas person_id of None \<Rightarrow> [] | Some delta \<Rightarrow> delta) in
          d\<lparr>c_csb_corrected_persons := hm_insert person_id (add_correction c delta) deltas\<rparr>
        else (case hm_get deltas person_id of
          None \<Rightarrow> d
        | Some delta \<Rightarrow>
            let delta = remove_correction c delta in
            if hm_values delta = [] then d\<lparr>c_csb_corrected_persons := hm_remove person_id deltas\<rparr>
            else d\<lparr>c_csb_corrected_persons := hm_insert person_id delta deltas\<rparr>))"

fun apply_correction :: "correction \<Rightarrow> csb_store_data \<Rightarrow> csb_store_data" where
  "apply_correction (CorrAppellation appellation) d =
     refresh_corrected (d\<lparr>c_csb_corrected_appellation :=
       if pg_appellation (d_political_group (c_paper_corrected_data d)) = Some appellation
       then None else Some appellation\<rparr>)"
| "apply_correction (CorrPerson person_id c) d =
     refresh_corrected (apply_person_correction person_id c (forget_brp_check person_id d))"

subsection \<open>Applying an event\<close>

definition csb_apply :: "csb_env \<Rightarrow> csb_event store_event \<Rightarrow> csb_store_data \<Rightarrow> csb_store_data" where
  "csb_apply env e d =
    (let d = d\<lparr>c_events := c_events d @ [e]\<rparr>;
         event_time = se_created_at e;
         pg_event = (\<lambda>payload. \<lparr>se_event_id = se_event_id e, se_payload = payload,
           se_created_at = se_created_at e, se_hash = se_hash e\<rparr>)
     in refresh_scrapped (case ce_action (se_payload e) of
         CsbImport source_hash _ snapshot \<Rightarrow> apply_import snapshot (pg_event (Import source_hash)) d
       | CreateEmpty \<Rightarrow> d
       | CsbDelete \<Rightarrow> d\<lparr>c_is_deleted := True\<rparr>
       | PaperCorrectedUpdate payload \<Rightarrow> apply_paper_correction (pg_event payload) d
       | SetFinished b \<Rightarrow> d\<lparr>c_is_examination_finished := b\<rparr>
       | CreateOmission om \<Rightarrow> create_omission om event_time d
       | UpdateOmission om \<Rightarrow> update_omission om event_time d
       | DeleteOmission i \<Rightarrow> d\<lparr>c_omissions := hm_remove i (c_omissions d)\<rparr>
       | SetOmissionStatus i status \<Rightarrow> set_omission_status env i status event_time d
       | SetOmissionPartStatus i part status \<Rightarrow>
           set_omission_part_status env i part status (se_event_id e) event_time d
       | UpdateCorrection c \<Rightarrow> apply_correction c d
       | BrpLookup _ \<Rightarrow> d
       | BrpPersonChecked person findings \<Rightarrow>
           d\<lparr>c_brp_findings := hm_insert person findings (c_brp_findings d)\<rparr>
       | SetBrpFindingHandled person finding handled \<Rightarrow> set_brp_finding_handled person finding handled d
       | SetBrpStatus status \<Rightarrow> d\<lparr>c_brp_validation_status := status\<rparr>))"

definition csb_ops :: "csb_env \<Rightarrow> (csb_store_data, csb_event) store_data_ops" where
  "csb_ops env = \<lparr>sd_default = csb_default env, sd_apply = csb_apply env, sd_events = c_events,
     sd_scope = ImportedByCsb\<rparr>"

end
