(* ===== verification/Csb_Invariants.thy ===== *)
theory Csb_Invariants
  imports Csb_Projection
begin

text \<open>
  What every event keeps of a committee stream's projection: the derived parts are what they
  are derived from, the maps are keyed by id, and which event touches which part.
\<close>

lemma refresh_scrapped_simps [simp]:
  "c_imported_data (refresh_scrapped d) = c_imported_data d"
  "c_paper_corrected_data (refresh_scrapped d) = c_paper_corrected_data d"
  "c_csb_corrected_data (refresh_scrapped d) = c_csb_corrected_data d"
  "c_events (refresh_scrapped d) = c_events d"
  "c_is_examination_finished (refresh_scrapped d) = c_is_examination_finished d"
  "c_is_deleted (refresh_scrapped d) = c_is_deleted d"
  "c_omissions (refresh_scrapped d) = c_omissions d"
  "c_brp_findings (refresh_scrapped d) = c_brp_findings d"
  "c_brp_validation_status (refresh_scrapped d) = c_brp_validation_status d"
  "c_csb_corrected_persons (refresh_scrapped d) = c_csb_corrected_persons d"
  "c_csb_corrected_appellation (refresh_scrapped d) = c_csb_corrected_appellation d"
  "c_scrapped (refresh_scrapped d) = scrapped_derive (c_paper_corrected_data d) (c_omissions d)"
  by (simp_all add: refresh_scrapped_def)

lemma refresh_corrected_simps [simp]:
  "c_imported_data (refresh_corrected d) = c_imported_data d"
  "c_paper_corrected_data (refresh_corrected d) = c_paper_corrected_data d"
  "c_csb_corrected_data (refresh_corrected d) =
     corrected_data (c_paper_corrected_data d) (c_csb_corrected_appellation d) (c_csb_corrected_persons d)"
  "c_events (refresh_corrected d) = c_events d"
  "c_is_examination_finished (refresh_corrected d) = c_is_examination_finished d"
  "c_is_deleted (refresh_corrected d) = c_is_deleted d"
  "c_omissions (refresh_corrected d) = c_omissions d"
  "c_brp_findings (refresh_corrected d) = c_brp_findings d"
  "c_brp_validation_status (refresh_corrected d) = c_brp_validation_status d"
  "c_csb_corrected_persons (refresh_corrected d) = c_csb_corrected_persons d"
  "c_csb_corrected_appellation (refresh_corrected d) = c_csb_corrected_appellation d"
  by (simp_all add: refresh_corrected_def)

text \<open>The operations that change only one part of the projection.\<close>

lemma forget_brp_check_frame:
  "\<exists>m. fold forget_brp_check ps d = d\<lparr>c_brp_findings := m\<rparr>"
proof (induction ps arbitrary: d)
  case Nil
  have "d = d\<lparr>c_brp_findings := c_brp_findings d\<rparr>" by simp
  then show ?case by (metis fold_simps(1))
next
  case (Cons p ps)
  from Cons [of "forget_brp_check p d"] show ?case by (auto simp: forget_brp_check_def)
qed

lemma fold_forget_brp_check [simp]:
  "c_imported_data (fold forget_brp_check ps d) = c_imported_data d"
  "c_paper_corrected_data (fold forget_brp_check ps d) = c_paper_corrected_data d"
  "c_csb_corrected_data (fold forget_brp_check ps d) = c_csb_corrected_data d"
  "c_events (fold forget_brp_check ps d) = c_events d"
  "c_omissions (fold forget_brp_check ps d) = c_omissions d"
  "c_csb_corrected_persons (fold forget_brp_check ps d) = c_csb_corrected_persons d"
  "c_csb_corrected_appellation (fold forget_brp_check ps d) = c_csb_corrected_appellation d"
  using forget_brp_check_frame [of ps d] by auto

lemma forget_brp_check_simps [simp]:
  "c_imported_data (forget_brp_check p d) = c_imported_data d"
  "c_paper_corrected_data (forget_brp_check p d) = c_paper_corrected_data d"
  "c_csb_corrected_data (forget_brp_check p d) = c_csb_corrected_data d"
  "c_events (forget_brp_check p d) = c_events d"
  "c_omissions (forget_brp_check p d) = c_omissions d"
  "c_csb_corrected_persons (forget_brp_check p d) = c_csb_corrected_persons d"
  "c_csb_corrected_appellation (forget_brp_check p d) = c_csb_corrected_appellation d"
  "c_brp_findings (forget_brp_check p d) = hm_remove p (c_brp_findings d)"
  by (simp_all add: forget_brp_check_def)

lemma brp_findings_fold_forget:
  "hm_get (c_brp_findings (fold forget_brp_check ps d)) p =
    (if p \<in> set ps then None else hm_get (c_brp_findings d) p)"
  by (induction ps arbitrary: d) auto

lemma merge_omission_frame:
  "merge_omission env i t d = d\<lparr>c_omissions := c_omissions (merge_omission env i t d)\<rparr>"
  by (simp add: merge_omission_def Let_def split: option.split)

lemma set_omission_status_frame:
  "set_omission_status env i s t d = d\<lparr>c_omissions := c_omissions (set_omission_status env i s t d)\<rparr>"
  unfolding set_omission_status_def by (subst merge_omission_frame) simp

lemma set_omission_part_status_frame:
  "set_omission_part_status env i part s n t d =
    d\<lparr>c_omissions := c_omissions (set_omission_part_status env i part s n t d)\<rparr>"
proof -
  have "set_omission_status env j s t (d\<lparr>c_omissions := m\<rparr>) =
      d\<lparr>c_omissions := c_omissions (set_omission_status env j s t (d\<lparr>c_omissions := m\<rparr>))\<rparr>" for j m
    by (subst set_omission_status_frame) simp
  then show ?thesis
    using set_omission_status_frame [of env i s t d]
    by (simp add: set_omission_part_status_def Let_def split: option.split omission_decision.split)
qed

text \<open>The parts of the projection after an event.\<close>

definition omissions_after :: "csb_env \<Rightarrow> csb_event store_event \<Rightarrow> csb_store_data \<Rightarrow> (omission_id, omission) hmap" where
  "omissions_after env e d = (case ce_action (se_payload e) of
      CreateOmission om \<Rightarrow> hm_insert (om_id om) (om\<lparr>om_updated_at := se_created_at e\<rparr>) (c_omissions d)
    | UpdateOmission om \<Rightarrow> hm_modify (om_id om) (\<lambda>_. om\<lparr>om_updated_at := se_created_at e\<rparr>) (c_omissions d)
    | DeleteOmission i \<Rightarrow> hm_remove i (c_omissions d)
    | SetOmissionStatus i s \<Rightarrow> c_omissions (set_omission_status env i s (se_created_at e) d)
    | SetOmissionPartStatus i part s \<Rightarrow>
        c_omissions (set_omission_part_status env i part s (se_event_id e) (se_created_at e) d)
    | _ \<Rightarrow> c_omissions d)"

fun paper_event :: "csb_event store_event \<Rightarrow> pg_event \<Rightarrow> pg_event store_event" where
  "paper_event e payload = \<lparr>se_event_id = se_event_id e, se_payload = payload,
     se_created_at = se_created_at e, se_hash = se_hash e\<rparr>"

definition paper_after :: "csb_event store_event \<Rightarrow> pg_store_data \<Rightarrow> pg_store_data" where
  "paper_after e p = (case ce_action (se_payload e) of
      CsbImport h _ snapshot \<Rightarrow> pg_apply (paper_event e (Import h)) snapshot
    | PaperCorrectedUpdate payload \<Rightarrow> pg_apply (paper_event e payload) p
    | _ \<Rightarrow> p)"

definition imported_after :: "csb_event store_event \<Rightarrow> pg_store_data \<Rightarrow> pg_store_data" where
  "imported_after e p = (case ce_action (se_payload e) of CsbImport _ _ snapshot \<Rightarrow> snapshot | _ \<Rightarrow> p)"

text \<open>The events after which the corrected projection is derived again.\<close>

fun refreshes :: "csb_action \<Rightarrow> bool" where
  "refreshes (CsbImport _ _ _) = True"
| "refreshes (PaperCorrectedUpdate _) = True"
| "refreshes (UpdateCorrection _) = True"
| "refreshes _ = False"

text \<open>Setting a status reads the omissions and the paper corrected lists only, so it does
  not depend on the log.\<close>

lemma merge_omission_events:
  "c_omissions (merge_omission env i t (d\<lparr>c_events := es, c_omissions := m\<rparr>)) =
    c_omissions (merge_omission env i t (d\<lparr>c_omissions := m\<rparr>))"
  by (simp add: merge_omission_def Let_def split: option.split)

lemma set_status_events:
  "c_omissions (set_omission_status env i s t (d\<lparr>c_events := es, c_omissions := m\<rparr>)) =
    c_omissions (set_omission_status env i s t (d\<lparr>c_omissions := m\<rparr>))"
  by (simp add: set_omission_status_def merge_omission_events)

lemma omission_ops_events [simp]:
  "c_omissions (set_omission_status env i s t (d\<lparr>c_events := es\<rparr>)) = c_omissions (set_omission_status env i s t d)"
  "c_omissions (set_omission_part_status env i part s n t (d\<lparr>c_events := es\<rparr>)) =
    c_omissions (set_omission_part_status env i part s n t d)"
  by (simp_all add: set_omission_status_def merge_omission_events set_omission_part_status_def Let_def
      split: option.split omission_decision.split)

text \<open>Other fields are untouched.\<close>

lemma omission_ops_other [simp]:
  "c_imported_data (set_omission_status env i s t d) = c_imported_data d"
  "c_paper_corrected_data (set_omission_status env i s t d) = c_paper_corrected_data d"
  "c_csb_corrected_data (set_omission_status env i s t d) = c_csb_corrected_data d"
  "c_events (set_omission_status env i s t d) = c_events d"
  "c_brp_findings (set_omission_status env i s t d) = c_brp_findings d"
  "c_csb_corrected_persons (set_omission_status env i s t d) = c_csb_corrected_persons d"
  "c_csb_corrected_appellation (set_omission_status env i s t d) = c_csb_corrected_appellation d"
  by (subst set_omission_status_frame; simp)+

lemma part_status_other [simp]:
  "c_imported_data (set_omission_part_status env i part s n t d) = c_imported_data d"
  "c_paper_corrected_data (set_omission_part_status env i part s n t d) = c_paper_corrected_data d"
  "c_csb_corrected_data (set_omission_part_status env i part s n t d) = c_csb_corrected_data d"
  "c_events (set_omission_part_status env i part s n t d) = c_events d"
  "c_brp_findings (set_omission_part_status env i part s n t d) = c_brp_findings d"
  "c_csb_corrected_persons (set_omission_part_status env i part s n t d) = c_csb_corrected_persons d"
  "c_csb_corrected_appellation (set_omission_part_status env i part s n t d) = c_csb_corrected_appellation d"
  by (subst set_omission_part_status_frame; simp)+

lemma apply_person_correction_other [simp]:
  "c_imported_data (apply_person_correction p c d) = c_imported_data d"
  "c_paper_corrected_data (apply_person_correction p c d) = c_paper_corrected_data d"
  "c_csb_corrected_data (apply_person_correction p c d) = c_csb_corrected_data d"
  "c_events (apply_person_correction p c d) = c_events d"
  "c_omissions (apply_person_correction p c d) = c_omissions d"
  "c_brp_findings (apply_person_correction p c d) = c_brp_findings d"
  "c_csb_corrected_appellation (apply_person_correction p c d) = c_csb_corrected_appellation d"
  by (simp_all add: apply_person_correction_def Let_def split: option.split)

lemma apply_correction_other [simp]:
  "c_imported_data (apply_correction c d) = c_imported_data d"
  "c_paper_corrected_data (apply_correction c d) = c_paper_corrected_data d"
  "c_events (apply_correction c d) = c_events d"
  "c_omissions (apply_correction c d) = c_omissions d"
  by (cases c; simp)+

lemma set_brp_finding_handled_other [simp]:
  "c_imported_data (set_brp_finding_handled p k h d) = c_imported_data d"
  "c_paper_corrected_data (set_brp_finding_handled p k h d) = c_paper_corrected_data d"
  "c_csb_corrected_data (set_brp_finding_handled p k h d) = c_csb_corrected_data d"
  "c_events (set_brp_finding_handled p k h d) = c_events d"
  "c_omissions (set_brp_finding_handled p k h d) = c_omissions d"
  "c_csb_corrected_persons (set_brp_finding_handled p k h d) = c_csb_corrected_persons d"
  "c_csb_corrected_appellation (set_brp_finding_handled p k h d) = c_csb_corrected_appellation d"
  by (simp_all add: set_brp_finding_handled_def split: option.split)

lemmas csb_apply_defs = csb_apply_def Let_def apply_import_def apply_paper_correction_def
  create_omission_def update_omission_def

lemma c_events_csb_apply [simp]: "c_events (csb_apply env e d) = c_events d @ [e]"
  by (cases "ce_action (se_payload e)") (simp_all add: csb_apply_defs)

lemma c_omissions_csb_apply: "c_omissions (csb_apply env e d) = omissions_after env e d"
  by (cases "ce_action (se_payload e)") (simp_all add: csb_apply_defs omissions_after_def)

lemma c_paper_csb_apply: "c_paper_corrected_data (csb_apply env e d) = paper_after e (c_paper_corrected_data d)"
  by (cases "ce_action (se_payload e)") (simp_all add: csb_apply_defs paper_after_def)

lemma c_imported_csb_apply: "c_imported_data (csb_apply env e d) = imported_after e (c_imported_data d)"
  by (cases "ce_action (se_payload e)") (simp_all add: csb_apply_defs imported_after_def)

lemma c_scrapped_csb_apply: "c_scrapped (csb_apply env e d) =
    scrapped_derive (c_paper_corrected_data (csb_apply env e d)) (c_omissions (csb_apply env e d))"
  by (simp add: csb_apply_def Let_def)

lemma c_corrected_csb_apply:
  "c_csb_corrected_data (csb_apply env e d) = (if refreshes (ce_action (se_payload e))
     then corrected_data (c_paper_corrected_data (csb_apply env e d))
       (c_csb_corrected_appellation (csb_apply env e d)) (c_csb_corrected_persons (csb_apply env e d))
     else c_csb_corrected_data d)"
proof (cases "ce_action (se_payload e)")
  case (UpdateCorrection c)
  then show ?thesis by (cases c) (simp_all add: csb_apply_defs)
qed (simp_all add: csb_apply_defs)

lemma c_deltas_csb_apply:
  "c_csb_corrected_persons (csb_apply env e d) = (case ce_action (se_payload e) of
      UpdateCorrection (CorrPerson p c) \<Rightarrow> c_csb_corrected_persons (apply_person_correction p c d)
    | _ \<Rightarrow> c_csb_corrected_persons d)"
proof (cases "ce_action (se_payload e)")
  case (UpdateCorrection c)
  then show ?thesis
    by (cases c) (simp_all add: csb_apply_defs apply_person_correction_def split: option.split)
qed (simp_all add: csb_apply_defs)

lemma c_appellation_csb_apply:
  "c_csb_corrected_appellation (csb_apply env e d) = (case ce_action (se_payload e) of
      UpdateCorrection (CorrAppellation a) \<Rightarrow>
        if pg_appellation (d_political_group (c_paper_corrected_data d)) = Some a then None else Some a
    | _ \<Rightarrow> c_csb_corrected_appellation d)"
proof (cases "ce_action (se_payload e)")
  case (UpdateCorrection c)
  then show ?thesis by (cases c) (simp_all add: csb_apply_defs)
qed (simp_all add: csb_apply_defs)

lemma c_brp_csb_apply:
  "hm_get (c_brp_findings (csb_apply env e d)) p = (case ce_action (se_payload e) of
      PaperCorrectedUpdate payload \<Rightarrow>
        if p \<in> set (candidates_changed_by payload) then None else hm_get (c_brp_findings d) p
    | UpdateCorrection (CorrPerson q c) \<Rightarrow> if p = q then None else hm_get (c_brp_findings d) p
    | BrpPersonChecked q findings \<Rightarrow> if p = q then Some findings else hm_get (c_brp_findings d) p
    | SetBrpFindingHandled q k handled \<Rightarrow> if p = q then map_option
        (map (\<lambda>r. if bf_kind r = k then r\<lparr>bf_handled := handled\<rparr> else r)) (hm_get (c_brp_findings d) p)
        else hm_get (c_brp_findings d) p
    | _ \<Rightarrow> hm_get (c_brp_findings d) p)"
proof (cases "ce_action (se_payload e)")
  case (UpdateCorrection c)
  then show ?thesis by (cases c) (simp_all add: csb_apply_defs)
qed (simp_all add: csb_apply_defs brp_findings_fold_forget set_brp_finding_handled_def split: option.split)

lemma csb_ops_simps [simp]:
  "sd_default (csb_ops env) = csb_default env" "sd_apply (csb_ops env) = csb_apply env"
  "sd_events (csb_ops env) = c_events" "sd_scope (csb_ops env) = ImportedByCsb"
  by (simp_all add: csb_ops_def)

interpretation csb: store_data "csb_ops env" for env
  by unfold_locales (simp_all add: csb_default_def split: prod.split)

subsection \<open>Corrections on top of the paper corrected projection\<close>

lemma corrected_data_other [simp]:
  "d_candidate_lists (corrected_data paper a deltas) = d_candidate_lists paper"
  "d_name_authorisations (corrected_data paper a deltas) = d_name_authorisations paper"
  "d_list_submitter (corrected_data paper a deltas) = d_list_submitter paper"
  "d_substitute_submitters (corrected_data paper a deltas) = d_substitute_submitters paper"
  "d_events (corrected_data paper a deltas) = d_events paper"
  "d_political_group (corrected_data paper a deltas) = (case a of None \<Rightarrow> d_political_group paper
     | Some name \<Rightarrow> (d_political_group paper)\<lparr>pg_appellation := Some name\<rparr>)"
  by (simp_all add: corrected_data_def Let_def split: option.split)

lemma hm_get_Cons: "hm_get ((i, v) # m) p = (if p = i then Some v else hm_get m p)"
  by (simp add: hm_get_def)

lemma fold_deltas_other:
  "p \<notin> fst ` set deltas \<Longrightarrow> hm_get (fold (\<lambda>(i, delta). hm_modify i (delta_apply delta)) deltas m) p = hm_get m p"
  by (induction deltas arbitrary: m) auto

lemma fold_deltas:
  "hm_ok deltas \<Longrightarrow> hm_get (fold (\<lambda>(i, delta). hm_modify i (delta_apply delta)) deltas m) p =
    (case hm_get deltas p of None \<Rightarrow> hm_get m p | Some delta \<Rightarrow> map_option (delta_apply delta) (hm_get m p))"
proof (induction deltas arbitrary: m)
  case (Cons x deltas)
  obtain i delta where x: "x = (i, delta)" by (cases x)
  have ok: "hm_ok deltas" and i: "i \<notin> fst ` set deltas"
    using Cons.prems x by (auto simp: hm_ok_def)
  show ?case
  proof (cases "p = i")
    case True
    with x i show ?thesis by (simp add: fold_deltas_other hm_get_Cons)
  next
    case False
    with x Cons.IH [OF ok] show ?thesis by (simp add: hm_get_Cons split: option.split)
  qed
qed simp

lemma corrected_persons:
  "hm_ok deltas \<Longrightarrow> hm_get (d_persons (corrected_data paper a deltas)) p =
    (case hm_get deltas p of None \<Rightarrow> hm_get (d_persons paper) p
     | Some delta \<Rightarrow> map_option (delta_apply delta) (hm_get (d_persons paper) p))"
  by (simp add: corrected_data_def Let_def fold_deltas split: option.split)

lemma hm_values_insert: "hm_ok m \<Longrightarrow> mset (hm_values (hm_insert k v m)) = add_mset v (mset (hm_values (hm_remove k m)))"
proof (induction m)
  case (Cons x m)
  then have ok: "hm_ok m" and fresh: "fst x \<notin> fst ` set m" by (auto simp: hm_ok_def)
  show ?case
  proof (cases "fst x = k")
    case True
    then have "AList.delete k m = m" using fresh by (simp add: delete_idem)
    with True show ?thesis by (cases x) (simp add: hm_values_def hm_insert_def hm_remove_def)
  next
    case False
    with Cons.IH [OF ok] show ?thesis by (cases x) (simp add: hm_values_def hm_insert_def hm_remove_def)
  qed
qed (simp add: hm_values_def hm_insert_def hm_remove_def)

lemma hm_insert_same: "hm_get m k = Some v \<Longrightarrow> hm_insert k v m = m"
  by (induction m) (auto simp: hm_get_def hm_insert_def split: if_splits)

lemma hm_remove_absent: "hm_get m k = None \<Longrightarrow> hm_remove k m = m"
  by (auto simp: hm_get_def hm_remove_def map_of_eq_None_iff intro: delete_idem)

lemma delta_apply_add_removed:
  assumes "delta_ok delta"
  shows "delta_apply (add_correction c delta) p = correction_apply c (delta_apply (remove_correction c delta) p)"
proof -
  have "mset (hm_values (add_correction c delta)) = mset (hm_values (remove_correction c delta) @ [c])"
    using assms by (simp add: add_correction_def remove_correction_def hm_values_insert delta_ok_def)
  moreover have "distinct (map correction_kind (hm_values (add_correction c delta)))"
    using assms by (intro delta_kinds_distinct delta_ok_intros)
  ultimately have "fold correction_apply (hm_values (add_correction c delta))
      = fold correction_apply (hm_values (remove_correction c delta) @ [c])"
    by (rule fold_correction_perm)
  then show ?thesis by (simp add: delta_apply_def)
qed

text \<open>Adding a correction overrides an earlier one of its kind.\<close>

lemma delta_apply_add:
  assumes ok: "delta_ok delta"
  shows "delta_apply (add_correction c delta) p = correction_apply c (delta_apply delta p)"
proof (cases "hm_get delta (correction_kind c)")
  case None
  then show ?thesis using delta_apply_add_removed [OF ok, of c p] by (simp add: remove_correction_def hm_remove_absent)
next
  case (Some c0)
  with ok have k: "correction_kind c0 = correction_kind c" by (simp add: delta_ok_def)
  with Some have "add_correction c0 delta = delta" "remove_correction c0 delta = remove_correction c delta"
    by (simp_all add: add_correction_def remove_correction_def hm_insert_same)
  then have "delta_apply delta p = correction_apply c0 (delta_apply (remove_correction c delta) p)"
    using delta_apply_add_removed [OF ok, of c0 p] by simp
  with k show ?thesis using delta_apply_add_removed [OF ok, of c p] by (simp add: correction_apply_idem)
qed

lemma fold_correction_other:
  "\<forall>c'\<in>set cs. correction_kind c' \<noteq> correction_kind c \<Longrightarrow>
    correction_apply c (fold correction_apply cs p) = fold correction_apply cs (correction_apply c p)"
  by (induction cs arbitrary: p) (simp_all add: correction_apply_commute [of _ c])

text \<open>Dropping a correction is as good as applying one that agrees with the paper.\<close>

lemma delta_apply_remove:
  assumes ok: "delta_ok delta" and same: "\<not> correction_changes c p"
  shows "delta_apply (remove_correction c delta) p = correction_apply c (delta_apply delta p)"
proof -
  have rok: "delta_ok (remove_correction c delta)" using ok by (rule delta_ok_intros)
  have "\<forall>c'\<in>set (hm_values (remove_correction c delta)). correction_kind c' \<noteq> correction_kind c"
  proof
    fix c' assume "c' \<in> set (hm_values (remove_correction c delta))"
    then obtain k where "hm_get (remove_correction c delta) k = Some c'"
      using rok by (auto simp: delta_ok_def hm_values_iff)
    with ok show "correction_kind c' \<noteq> correction_kind c"
      by (auto simp: remove_correction_def delta_ok_def split: if_splits)
  qed
  then have "correction_apply c (delta_apply (remove_correction c delta) p) = delta_apply (remove_correction c delta) p"
    using same by (simp add: delta_apply_def fold_correction_other correction_changes_iff)
  then show ?thesis using delta_apply_add [OF ok, of c p] delta_apply_add_removed [OF ok, of c p] by simp
qed

subsection \<open>The invariant\<close>

definition deltas_ok :: "(person_id, person_correction_delta) hmap \<Rightarrow> bool" where
  "deltas_ok m = (hm_ok m \<and> (\<forall>p delta. hm_get m p = Some delta \<longrightarrow> delta_ok delta \<and> delta \<noteq> []))"

definition omissions_ok :: "(omission_id, omission) hmap \<Rightarrow> bool" where
  "omissions_ok m = (hm_ok m \<and> keyed om_id m)"

definition csb_inv :: "csb_store_data \<Rightarrow> bool" where
  "csb_inv d = (pg_inv (c_imported_data d) \<and> pg_inv (c_paper_corrected_data d)
     \<and> omissions_ok (c_omissions d) \<and> deltas_ok (c_csb_corrected_persons d))"

fun csb_event_ok :: "csb_event store_event \<Rightarrow> bool" where
  "csb_event_ok e = (case ce_action (se_payload e) of CsbImport _ _ snapshot \<Rightarrow> pg_inv snapshot | _ \<Rightarrow> True)"

lemma omissions_ok_intros:
  "omissions_ok m \<Longrightarrow> om_id om = i \<Longrightarrow> omissions_ok (hm_insert i om m)"
  "omissions_ok m \<Longrightarrow> omissions_ok (hm_remove i m)"
  "omissions_ok m \<Longrightarrow> (\<And>om. om_id om = i \<Longrightarrow> om_id (f om) = i) \<Longrightarrow> omissions_ok (hm_modify i f m)"
  by (simp_all add: omissions_ok_def inv_intros)

lemma omissions_ok_merge: "omissions_ok (c_omissions d) \<Longrightarrow> omissions_ok (c_omissions (merge_omission env i t d))"
  by (simp add: merge_omission_def Let_def omissions_ok_intros split: option.split)

lemma omissions_ok_status:
  "omissions_ok (c_omissions d) \<Longrightarrow> omissions_ok (c_omissions (set_omission_status env i s t d))"
  unfolding set_omission_status_def by (rule omissions_ok_merge) (simp add: omissions_ok_intros)

lemma omissions_ok_part_status:
  "omissions_ok (c_omissions d) \<Longrightarrow> omissions_ok (c_omissions (set_omission_part_status env i part s n t d))"
  by (simp add: set_omission_part_status_def Let_def split_omission_def omissions_ok_status omissions_ok_intros
      split: option.split omission_decision.split)

lemma omissions_ok_after: "omissions_ok (c_omissions d) \<Longrightarrow> omissions_ok (omissions_after env e d)"
  by (simp add: omissions_after_def omissions_ok_intros omissions_ok_status omissions_ok_part_status
      split: csb_action.split)

lemma delta_ok_values: "delta_ok delta \<Longrightarrow> hm_values delta = [] \<longleftrightarrow> delta = []"
  by (simp add: hm_values_def)

lemma deltas_ok_apply: "deltas_ok (c_csb_corrected_persons d) \<Longrightarrow> deltas_ok (c_csb_corrected_persons (apply_person_correction p c d))"
proof -
  assume ok: "deltas_ok (c_csb_corrected_persons d)"
  have nonempty: "add_correction c delta \<noteq> []" for delta
    by (cases delta) (auto simp: add_correction_def hm_insert_def split: if_splits)
  from ok show ?thesis
    by (auto simp: apply_person_correction_def Let_def deltas_ok_def nonempty hm_values_def
        intro!: delta_ok_intros hm_ok_insert hm_ok_remove split: option.splits if_splits)
qed

lemma pg_inv_paper_after:
  "pg_inv p \<Longrightarrow> csb_event_ok e \<Longrightarrow> pg_inv (paper_after e p)"
  by (simp add: paper_after_def pg_inv_apply split: csb_action.splits)

lemma csb_inv_default: "csb_inv (csb_default env)"
  by (simp add: csb_inv_def csb_default_def omissions_ok_def deltas_ok_def pg_inv_default keyed_intros split: prod.split)

lemma csb_inv_apply:
  assumes "csb_inv d" "csb_event_ok e"
  shows "csb_inv (csb_apply env e d)"
proof -
  have "deltas_ok (c_csb_corrected_persons (csb_apply env e d))"
    using assms by (simp add: c_deltas_csb_apply csb_inv_def deltas_ok_apply split: csb_action.split correction.split)
  moreover have "pg_inv (c_imported_data (csb_apply env e d))"
    using assms by (simp add: c_imported_csb_apply imported_after_def csb_inv_def split: csb_action.splits)
  ultimately show ?thesis
    using assms by (simp add: csb_inv_def c_paper_csb_apply c_omissions_csb_apply pg_inv_paper_after omissions_ok_after)
qed

lemma csb_inv_fold: "csb_inv d \<Longrightarrow> \<forall>e\<in>set es. csb_event_ok e \<Longrightarrow> csb_inv (fold (csb_apply env) es d)"
  by (induction es arbitrary: d) (simp_all add: csb_inv_apply)

end
