(* ===== verification/Csb_Decisions.thy ===== *)
theory Csb_Decisions
  imports Csb_Invariants
begin

text \<open>
  What deciding on an omission does, seen through what is decided about which part. However
  omissions are split and read as one, a decision changes the part it is about and no other:
  splitting and merging are representation only.
\<close>

text \<open>What an omission is about, apart from the parts it covers.\<close>

fun scope_of :: "omission_category \<Rightarrow> omission_category" where
  "scope_of (CatDeclarationsOfSupport _) = CatDeclarationsOfSupport []"
| "scope_of (CatCandidateList _) = CatCandidateList []"
| "scope_of (CatCandidate p _) = CatCandidate p []"
| "scope_of c = c"

type_synonym details = "rstring \<times> rstring \<times> rstring option \<times> bool \<times> omission_category"

definition om_details :: "omission \<Rightarrow> details" where
  "om_details om = (om_title om, om_description om, help_text_of om, om_recoverable om, scope_of (om_category om))"

text \<open>The decisions an omission stands for, one per part, and those of all omissions.\<close>

definition om_decisions :: "electoral_district list \<Rightarrow> omission \<Rightarrow> (details \<times> omission_status \<times> omission_part) set" where
  "om_decisions eds om = {(om_details om, om_status om, part) |part. covers eds om part}"

definition decided :: "electoral_district list \<Rightarrow> (omission_id, omission) hmap
    \<Rightarrow> (details \<times> omission_status \<times> omission_part) set" where
  "decided eds m = (\<Union>om\<in>set (hm_values m). om_decisions eds om)"

text \<open>Every district an omission names is one of the election's.\<close>

fun category_known :: "electoral_district list \<Rightarrow> omission_category \<Rightarrow> bool" where
  "category_known eds (CatDeclarationsOfSupport ds) = (set ds \<subseteq> set eds)"
| "category_known eds _ = True"

definition omissions_known :: "electoral_district list \<Rightarrow> (omission_id, omission) hmap \<Rightarrow> bool" where
  "omissions_known eds m = (\<forall>om\<in>set (hm_values m). category_known eds (om_category om))"

subsection \<open>Decisions and maps\<close>

lemma decided_get:
  "hm_ok m \<Longrightarrow> x \<in> decided eds m \<longleftrightarrow> (\<exists>i om. hm_get m i = Some om \<and> x \<in> om_decisions eds om)"
  unfolding decided_def by (simp add: hm_values_iff Bex_def) blast

lemma omissions_known_get:
  "hm_ok m \<Longrightarrow> omissions_known eds m \<longleftrightarrow> (\<forall>i om. hm_get m i = Some om \<longrightarrow> category_known eds (om_category om))"
  unfolding omissions_known_def by (simp add: hm_values_iff Ball_def) blast

lemma decided_cong: "hm_ok m \<Longrightarrow> hm_ok m' \<Longrightarrow> (\<And>i. hm_get m i = hm_get m' i) \<Longrightarrow> decided eds m = decided eds m'"
  by (auto simp: decided_get)

lemma decided_insert:
  "hm_ok m \<Longrightarrow> decided eds (hm_insert i om m) = om_decisions eds om \<union> decided eds (hm_remove i m)"
  by (rule set_eqI) (simp add: decided_get hm_ok_insert hm_ok_remove, metis option.inject option.distinct(1))

lemma decided_remove:
  "hm_ok m \<Longrightarrow> hm_get m i = Some om \<Longrightarrow> decided eds m = om_decisions eds om \<union> decided eds (hm_remove i m)"
  using decided_insert [of m eds i om] by (simp add: hm_insert_same)

lemma decided_modify:
  "hm_ok m \<Longrightarrow> hm_get m i = Some om \<Longrightarrow>
    decided eds (hm_modify i f m) = om_decisions eds (f om) \<union> decided eds (hm_remove i m)"
proof -
  assume ok: "hm_ok m" and om: "hm_get m i = Some om"
  have "decided eds (hm_modify i f m) = decided eds (hm_insert i (f om) m)"
    using ok om by (intro decided_cong) (auto intro: inv_intros)
  then show ?thesis using ok by (simp add: decided_insert)
qed

subsection \<open>Reading two omissions as one\<close>

lemma om_decisions_cong:
  "om_details a = om_details b \<Longrightarrow> om_status a = om_status b \<Longrightarrow> (\<And>p. covers eds a p = covers eds b p)
    \<Longrightarrow> om_decisions eds a = om_decisions eds b"
  by (simp add: om_decisions_def)

lemma covers_category: "om_category a = om_category b \<Longrightarrow> covers eds a p = covers eds b p"
  by (cases p) simp_all

lemma covers_sorted: "covers eds (om\<lparr>om_category := sort_candidate_lists rn data c\<rparr>) p = covers eds (om\<lparr>om_category := c\<rparr>) p"
  by (cases p; cases c) simp_all

lemma sort_key_eq_Nil [simp]: "sort_key f xs = [] \<longleftrightarrow> xs = []"
  by (metis length_0_conv length_sort)

lemma covers_merged:
  assumes "merged_with rn (om_category a) (om_category b) = Some c"
    "category_known eds (om_category a)" "category_known eds (om_category b)"
  shows "covers eds (a\<lparr>om_category := c\<rparr>) p \<longleftrightarrow> covers eds a p \<or> covers eds b p"
  using assms
  by (cases p; cases "om_category a"; cases "om_category b") (auto simp: merged_with_def split: if_splits)

lemma same_scope_scope_of: "has_same_scope a b \<Longrightarrow> scope_of a = scope_of b"
  by (cases a; cases b) auto

lemma scope_of_merged: "merged_with rn a b = Some c \<Longrightarrow> scope_of (sort_candidate_lists rn' data c) = scope_of a"
  by (cases a; cases b) (auto simp: merged_with_def split: if_splits)

lemma same_details: "has_same_details a b \<Longrightarrow> om_details a = om_details b"
  by (simp add: has_same_details_def om_details_def same_scope_scope_of)

lemma om_decisions_merged:
  assumes merged: "merged_with rn (om_category h) (om_category om) = Some c"
    and known: "category_known eds (om_category h)" "category_known eds (om_category om)"
    and same: "has_same_details h om" "om_status h = om_status om"
  shows "om_decisions eds (h\<lparr>om_category := sort_candidate_lists rn' data c, om_updated_at := t\<rparr>)
    = om_decisions eds h \<union> om_decisions eds om"
proof -
  let ?h = "h\<lparr>om_category := sort_candidate_lists rn' data c, om_updated_at := t\<rparr>"
  have "om_details ?h = om_details h"
    using scope_of_merged [OF merged] by (simp add: om_details_def help_text_of_def)
  moreover have "covers eds ?h p \<longleftrightarrow> covers eds h p \<or> covers eds om p" for p
  proof -
    have "covers eds ?h p = covers eds (h\<lparr>om_category := sort_candidate_lists rn' data c\<rparr>) p"
      by (rule covers_category) simp
    then show ?thesis using covers_merged [OF merged known, of p] by (simp add: covers_sorted)
  qed
  ultimately show ?thesis
    using same_details [OF same(1)] same(2) by (auto simp: om_decisions_def)
qed

lemma merge_holderD:
  assumes "omissions_ok m" "merge_holder i om m = Some h"
  shows "hm_get m (om_id h) = Some h" "om_id h \<noteq> i" "om_status h = om_status om" "has_same_details h om"
proof -
  from min_by_key_SomeD [OF assms(2) [unfolded merge_holder_def]]
  have h: "h \<in> set (hm_values m)" and rest: "om_id h \<noteq> i" "om_status h = om_status om" "has_same_details h om"
    by auto
  from h assms(1) obtain j where "hm_get m j = Some h" by (auto simp: omissions_ok_def hm_values_iff)
  with assms(1) show "hm_get m (om_id h) = Some h" by (auto simp: omissions_ok_def keyed_def)
  from rest show "om_id h \<noteq> i" "om_status h = om_status om" "has_same_details h om" by auto
qed

lemma decided_merge:
  assumes ok: "omissions_ok (c_omissions d)" and known: "omissions_known eds (c_omissions d)"
  shows "decided eds (c_omissions (merge_omission env i t d)) = decided eds (c_omissions d)"
proof (cases "c_omissions (merge_omission env i t d) = c_omissions d")
  case False
  let ?m = "c_omissions d"
  obtain om h c where om: "hm_get ?m i = Some om" and holder: "merge_holder i om ?m = Some h"
    and merged: "merged_with (ce_region_number env) (om_category h) (om_category om) = Some c"
    and result: "c_omissions (merge_omission env i t d) = hm_modify (om_id h)
      (\<lambda>h. h\<lparr>om_category := sort_candidate_lists (ce_region_number env) (c_paper_corrected_data d) c,
        om_updated_at := t\<rparr>) (hm_remove i ?m)"
    using False by (auto simp: merge_omission_def Let_def split: option.splits if_splits)
  note h = merge_holderD [OF ok holder]
  have hmok: "hm_ok ?m" using ok by (simp add: omissions_ok_def)
  have k: "category_known eds (om_category h)" "category_known eds (om_category om)"
    using known om h(1) by (auto simp: omissions_known_def dest: hm_get_in_values)
  have "decided eds ?m = om_decisions eds om \<union> (om_decisions eds h \<union> decided eds (hm_remove (om_id h) (hm_remove i ?m)))"
    using decided_remove [OF hmok om, of eds] decided_remove [of "hm_remove i ?m" "om_id h" h eds] hmok h
    by (simp add: hm_ok_remove)
  then show ?thesis
    using om_decisions_merged [OF merged k h(4,3)] hmok h
    by (simp add: result decided_modify hm_ok_remove Un_ac)
qed simp

subsection \<open>Deciding\<close>

lemma omissions_known_modify:
  assumes "hm_ok m" "omissions_known eds m" "\<And>om. om_category (f om) = om_category om"
  shows "omissions_known eds (hm_modify i f m)"
  using assms by (auto simp: omissions_known_get inv_intros split: if_splits)

lemma decided_status:
  assumes ok: "omissions_ok (c_omissions d)" and known: "omissions_known eds (c_omissions d)"
    and om: "hm_get (c_omissions d) i = Some om"
  shows "decided eds (c_omissions (set_omission_status env i s t d)) =
    {(om_details om, s, part) |part. covers eds om part} \<union> decided eds (hm_remove i (c_omissions d))"
proof -
  let ?f = "\<lambda>om. om\<lparr>om_status := s, om_updated_at := t\<rparr>"
  have "decided eds (c_omissions (set_omission_status env i s t d)) = decided eds (hm_modify i ?f (c_omissions d))"
    using ok known unfolding set_omission_status_def
    by (subst decided_merge) (simp_all add: omissions_ok_intros omissions_known_modify omissions_ok_def inv_intros)
  moreover have "om_decisions eds (?f om) = {(om_details om, s, part) |part. covers eds om part}"
    using covers_category [of "?f om" om eds] by (simp add: om_decisions_def om_details_def help_text_of_def)
  ultimately show ?thesis using ok om by (simp add: decided_modify omissions_ok_def)
qed

lemma scope_of_same: "has_same_scope c c' \<Longrightarrow> scope_of c' = scope_of c"
  by (simp add: same_scope_scope_of)

lemma covers_split: "category_parts c \<noteq> {} \<Longrightarrow> om_category om = c \<Longrightarrow> covers eds om p \<longleftrightarrow> p \<in> category_parts c"
  by (rule covers_parts [of om, THEN trans]) auto

text \<open>A decision on one part, the omission covering others as well.\<close>

lemma decided_split:
  assumes ok: "omissions_ok (c_omissions d)" and known: "omissions_known eds (c_omissions d)"
    and om: "hm_get (c_omissions d) i = Some om" and cok: "category_ok (om_category om)"
    and split: "decide (om_category om) part = Some (Split remaining single)"
    and fresh: "hm_get (c_omissions d) sid = None"
  shows "decided eds (c_omissions (set_omission_status env sid s t
      (d\<lparr>c_omissions := split_omission i sid remaining single t om (c_omissions d)\<rparr>))) =
    {(om_details om, s, part)} \<union> {(om_details om, om_status om, p) |p. p \<in> category_parts (om_category om) \<and> p \<noteq> part}
      \<union> decided eds (hm_remove i (c_omissions d))"
proof -
  let ?m = "c_omissions d" and ?m' = "split_omission i sid remaining single t om (c_omissions d)"
  let ?single = "om\<lparr>om_id := sid, om_category := single, om_updated_at := t\<rparr>"
  let ?rest = "om\<lparr>om_category := remaining, om_updated_at := t\<rparr>"
  note parts = decide_Split [OF split]
  have neq: "sid \<noteq> i" using om fresh by auto
  have hmok: "hm_ok ?m" and key: "om_id om = i" using ok om by (auto simp: omissions_ok_def keyed_def)
  have ok': "omissions_ok ?m'" unfolding split_omission_def using ok by (simp add: omissions_ok_intros)
  have hmok': "hm_ok ?m'" using ok' by (simp add: omissions_ok_def)
  have cats: "category_known eds (om_category om)" using known om by (auto simp: omissions_known_def dest: hm_get_in_values)
  have catr: "category_known eds remaining \<and> category_known eds single"
    using cats split by (cases part; cases "om_category om") (auto simp: Let_def split: if_splits)
  have get: "hm_get ?m' j = (if j = i then Some ?rest else if j = sid then Some ?single else hm_get ?m j)" for j
    using neq om by (simp add: split_omission_def)
  have known': "omissions_known eds ?m'"
    using known catr hmok hmok' by (auto simp: omissions_known_get get split: if_splits)
  have "decided eds (hm_remove sid ?m') = decided eds (hm_modify i (\<lambda>_. ?rest) ?m)"
    using neq fresh om hmok hmok' by (intro decided_cong) (auto simp: get intro: inv_intros)
  also have "\<dots> = om_decisions eds ?rest \<union> decided eds (hm_remove i ?m)" using hmok om by (simp add: decided_modify)
  also have "om_decisions eds ?rest = {(om_details om, om_status om, p) |p. p \<in> category_parts (om_category om) \<and> p \<noteq> part}"
    using covers_split [OF parts(7) [OF cok], of ?rest eds] parts(2) scope_of_same [OF parts(4)]
    by (simp add: om_decisions_def om_details_def help_text_of_def)
  finally have rest: "decided eds (hm_remove sid ?m') = {(om_details om, om_status om, p) |p.
      p \<in> category_parts (om_category om) \<and> p \<noteq> part} \<union> decided eds (hm_remove i ?m)" .
  have "{(om_details ?single, s, p) |p. covers eds ?single p} = {(om_details om, s, part)}"
    using covers_split [of single ?single eds] parts(1) scope_of_same [OF parts(3)]
    by (simp add: om_details_def help_text_of_def)
  moreover have "hm_get ?m' sid = Some ?single" using neq by (simp add: get)
  ultimately show ?thesis
    using decided_status [of "d\<lparr>c_omissions := ?m'\<rparr>" eds sid ?single env s t] ok' known' rest by simp
qed

text \<open>A decision on one part, whether or not the omission covers others.\<close>

lemma decided_part:
  assumes ok: "omissions_ok (c_omissions d)" and known: "omissions_known eds (c_omissions d)"
    and om: "hm_get (c_omissions d) i = Some om" and cok: "category_ok (om_category om)"
    and part: "part \<in> category_parts (om_category om)"
    and fresh: "hm_get (c_omissions d) (split_off_id env i n) = None"
  shows "decided eds (c_omissions (set_omission_part_status env i part s n t d)) =
    {(om_details om, s, part)} \<union> {(om_details om, om_status om, p) |p. p \<in> category_parts (om_category om) \<and> p \<noteq> part}
      \<union> decided eds (hm_remove i (c_omissions d))"
proof -
  obtain dec where dec: "decide (om_category om) part = Some dec"
    using part decide_None_iff [of "om_category om" part] by (cases "decide (om_category om) part") auto
  show ?thesis
  proof (cases dec)
    case Whole
    then have parts: "category_parts (om_category om) = {part}" using dec by (simp add: decide_Whole)
    then have "covers eds om p \<longleftrightarrow> p = part" for p using covers_split [of "om_category om" om eds p] by simp
    with Whole dec om parts show ?thesis
      using decided_status [OF ok known om, of env s t] by (simp add: set_omission_part_status_def)
  next
    case (Split remaining single)
    with dec have "decide (om_category om) part = Some (Split remaining single)" by simp
    from decided_split [OF ok known om cok this fresh, of env s t] Split dec om show ?thesis
      by (simp add: set_omission_part_status_def Let_def)
  qed
qed

end
