(* ===== verification/Csb_Getters.thy ===== *)
theory Csb_Getters
  imports Csb_Decisions "HOL-Library.List_Lexorder" "HOL-Library.Product_Lexorder"
begin

text \<open>
  The reads on a committee stream's projection (\<open>projection/csb_data/getters.rs\<close>). \<open>eds\<close> are
  the districts of the election, in order. A Rust string is ordered by its UTF-8 bytes, which
  is the order of its code points.
\<close>

record person_versions =
  pv_imported :: "person option"
  pv_paper :: "person option"
  pv_csb :: "person option"

definition get_person_versions :: "csb_store_data \<Rightarrow> person_id \<Rightarrow> person_versions" where
  "get_person_versions d p =
     \<lparr>pv_imported = res_ok (get_person (csb_pg d CorrNone) p),
      pv_paper = res_ok (get_person (csb_pg d CorrPaper) p),
      pv_csb = res_ok (get_person (csb_pg d CorrAll) p)\<rparr>"

fun paper_correction_of :: "csb_action \<Rightarrow> pg_event option" where
  "paper_correction_of (PaperCorrectedUpdate payload) = Some payload"
| "paper_correction_of _ = None"

definition paper_corrections :: "csb_store_data \<Rightarrow> pg_event list" where
  "paper_corrections d = List.map_filter (\<lambda>e. paper_correction_of (ce_action (se_payload e))) (c_events d)"

definition has_paper_corrections :: "csb_store_data \<Rightarrow> bool" where
  "has_paper_corrections d = (paper_corrections d \<noteq> [])"

definition only_adds_or_removes :: "pg_event \<Rightarrow> bool" where
  "only_adds_or_removes e = (case e of
      CreateCandidateList _ \<Rightarrow> True
    | DeleteCandidateList _ \<Rightarrow> True
    | UpdateCandidateListDistricts _ _ \<Rightarrow> True
    | AddCandidateToCandidateList _ _ \<Rightarrow> True
    | RemoveCandidateFromCandidateList _ _ \<Rightarrow> True
    | CreatePerson _ \<Rightarrow> True
    | CreatePersonPersonalData _ _ _ \<Rightarrow> True
    | DeletePerson _ \<Rightarrow> True
    | ImportCandidates imp \<Rightarrow> ci_updated_persons imp = []
    | _ \<Rightarrow> False)"

definition has_paper_corrected_values :: "csb_store_data \<Rightarrow> bool" where
  "has_paper_corrected_values d = list_ex (\<lambda>e. \<not> only_adds_or_removes e) (paper_corrections d)"

definition get_omission :: "csb_store_data \<Rightarrow> omission_id \<Rightarrow> omission result" where
  "get_omission d i = ok_or GenericNotFound (hm_get (c_omissions d) i)"

definition get_omission_count :: "csb_store_data \<Rightarrow> nat" where
  "get_omission_count d = length (c_omissions d)"

definition get_political_group_csb_corrections_count :: "csb_store_data \<Rightarrow> nat" where
  "get_political_group_csb_corrections_count d = (if c_csb_corrected_appellation d \<noteq> None then 1 else 0)"

definition get_correction_count :: "csb_store_data \<Rightarrow> nat" where
  "get_correction_count d = sum_list (map (\<lambda>delta. card (get_corrections delta)) (hm_values (c_csb_corrected_persons d)))
     + get_political_group_csb_corrections_count d"

definition get_restoration_count :: "csb_store_data \<Rightarrow> nat" where
  "get_restoration_count d = get_omission_count d + get_correction_count d"

definition progress_step :: "electoral_district list \<Rightarrow> omission \<Rightarrow> recovery_progress \<Rightarrow> recovery_progress" where
  "progress_step eds om p =
    (let decisions = decision_count eds om; p = p\<lparr>rp_total := rp_total p + decisions\<rparr> in
     if is_pending om then p\<lparr>rp_pending := rp_pending p + decisions\<rparr> else p)"

definition get_recovery_progress :: "electoral_district list \<Rightarrow> csb_store_data \<Rightarrow> recovery_progress" where
  "get_recovery_progress eds d =
     fold (progress_step eds) (filter is_actionable (hm_values (c_omissions d))) \<lparr>rp_pending = 0, rp_total = 0\<rparr>"

fun recovery_position_loop :: "(person_id \<Rightarrow> bool) \<Rightarrow> person_id \<Rightarrow> nat \<Rightarrow> person_id list \<Rightarrow> nat option" where
  "recovery_position_loop is_scrapped person_id position [] = None"
| "recovery_position_loop is_scrapped person_id position (candidate # candidates) =
    (if is_scrapped candidate then
       if candidate = person_id then None
       else recovery_position_loop is_scrapped person_id position candidates
     else if candidate = person_id then Some (position + 1)
     else recovery_position_loop is_scrapped person_id (position + 1) candidates)"

definition get_recovery_position :: "csb_store_data \<Rightarrow> candidate_list_id \<Rightarrow> person_id \<Rightarrow> nat option" where
  "get_recovery_position d list_id person_id =
    (case get_candidate_list (c_csb_corrected_data d) list_id of
      Inl _ \<Rightarrow> None
    | Inr l \<Rightarrow> recovery_position_loop (is_candidate_scrapped (c_scrapped d) list_id) person_id 0 (cl_candidates l))"

definition omissions_where :: "csb_store_data \<Rightarrow> (omission \<Rightarrow> bool) \<Rightarrow> omission list" where
  "omissions_where d matches = filter matches (hm_values (c_omissions d))"

definition get_political_group_omissions :: "csb_store_data \<Rightarrow> omission list" where
  "get_political_group_omissions d = omissions_where d (\<lambda>om. om_category om = CatPoliticalGroup)"

definition get_appellation_omissions :: "csb_store_data \<Rightarrow> omission list" where
  "get_appellation_omissions d = omissions_where d (\<lambda>om. om_category om = CatAppellation)"

definition omission_districts :: "electoral_district list \<Rightarrow> csb_store_data \<Rightarrow> omission \<Rightarrow> electoral_district list" where
  "omission_districts eds d om =
    (let districts = category_districts eds (om_category om) in
     if districts \<noteq> [] then districts
     else concat (map cl_electoral_districts
       (List.map_filter (\<lambda>i. res_ok (get_candidate_list (c_csb_corrected_data d) i)) (category_lists (om_category om)))))"

definition title_order :: "electoral_district list \<Rightarrow> csb_store_data \<Rightarrow> omission \<Rightarrow> rstring \<times> nat" where
  "title_order eds d om =
    (let first_district = (case omission_districts eds d om of
          [] \<Rightarrow> None
        | district # _ \<Rightarrow> list_position (\<lambda>x. x = district) eds)
     in (om_title om, case first_district of None \<Rightarrow> 2 ^ 64 - 1 | Some i \<Rightarrow> i))"

definition get_candidate_omissions ::
  "electoral_district list \<Rightarrow> csb_store_data \<Rightarrow> person_id \<Rightarrow> candidate_list_id option \<Rightarrow> omission list" where
  "get_candidate_omissions eds d person_id list_id =
     sort_key (title_order eds d) (omissions_where d (\<lambda>om. is_for_candidate (om_category om) person_id list_id))"

definition has_candidate_omissions :: "csb_store_data \<Rightarrow> person_id \<Rightarrow> candidate_list_id \<Rightarrow> bool" where
  "has_candidate_omissions d person_id list_id =
     list_ex (\<lambda>om. is_for_candidate (om_category om) person_id (Some list_id)) (hm_values (c_omissions d))"

definition has_candidate_csb_corrections :: "csb_store_data \<Rightarrow> person_id \<Rightarrow> bool" where
  "has_candidate_csb_corrections d person_id = hm_contains (c_csb_corrected_persons d) person_id"

definition is_person_paper_corrected :: "csb_store_data \<Rightarrow> person_id \<Rightarrow> bool" where
  "is_person_paper_corrected d person_id =
    (let versions = get_person_versions d person_id in pv_imported versions \<noteq> pv_paper versions)"

definition candidate_list_omissions :: "csb_store_data \<Rightarrow> candidate_list_id \<Rightarrow> omission list" where
  "candidate_list_omissions d list_id = omissions_where d (\<lambda>om. case om_category om of
      CatCandidateList ls \<Rightarrow> list_id \<in> set ls | _ \<Rightarrow> False)"

definition get_candidate_list_omissions ::
  "electoral_district list \<Rightarrow> csb_store_data \<Rightarrow> candidate_list_id \<Rightarrow> omission list result" where
  "get_candidate_list_omissions eds d list_id =
     bind_res (get_candidate_list (c_csb_corrected_data d) list_id) (\<lambda>_.
       Ok (sort_key (title_order eds d) (candidate_list_omissions d list_id)))"

definition has_candidate_list_omissions :: "csb_store_data \<Rightarrow> candidate_list_id \<Rightarrow> bool result" where
  "has_candidate_list_omissions d list_id =
     bind_res (get_candidate_list (c_csb_corrected_data d) list_id) (\<lambda>l.
       Ok (candidate_list_omissions d list_id \<noteq> []
         \<or> list_ex (\<lambda>candidate. has_candidate_omissions d candidate list_id) (cl_candidates l)))"

definition has_candidate_list_csb_corrections :: "csb_store_data \<Rightarrow> candidate_list_id \<Rightarrow> bool result" where
  "has_candidate_list_csb_corrections d list_id =
     bind_res (get_candidate_list (c_csb_corrected_data d) list_id) (\<lambda>l.
       Ok (list_ex (has_candidate_csb_corrections d) (cl_candidates l)))"

definition get_all_declarations_of_support_omissions ::
  "electoral_district list \<Rightarrow> csb_store_data \<Rightarrow> omission list" where
  "get_all_declarations_of_support_omissions eds d = sort_key (title_order eds d)
     (omissions_where d (\<lambda>om. case om_category om of CatDeclarationsOfSupport _ \<Rightarrow> True | _ \<Rightarrow> False))"

definition get_person_corrections :: "csb_store_data \<Rightarrow> person_id \<Rightarrow> person_correction set" where
  "get_person_corrections d person_id = (case hm_get (c_csb_corrected_persons d) person_id of
      None \<Rightarrow> {} | Some delta \<Rightarrow> get_corrections delta)"

definition csb_first_candidate_name :: "csb_store_data \<Rightarrow> with_corrections \<Rightarrow> scrapped \<Rightarrow> full_name option" where
  "csb_first_candidate_name d corrections s =
    (let data = csb_pg d corrections in
     map_option p_name (find_map (\<lambda>(_, person). res_ok (get_person data person))
       (filter (\<lambda>(l, person). \<not> is_list_scrapped s l \<and> \<not> is_candidate_scrapped s l person)
         (candidates_in_list_order data))))"

definition get_appellation_with_scrapped :: "csb_store_data \<Rightarrow> with_corrections \<Rightarrow> scrapped \<Rightarrow> rstring" where
  "get_appellation_with_scrapped d corrections s =
    (let group = d_political_group (csb_pg d corrections);
         group = (if is_appellation_scrapped s then group\<lparr>pg_list_designation := Some Blank\<rparr> else group)
     in csb_appellation group (csb_first_candidate_name d corrections s))"

definition get_brp_findings_for_person :: "csb_store_data \<Rightarrow> person_id \<Rightarrow> brp_finding list" where
  "get_brp_findings_for_person d person_id = (case hm_get (c_brp_findings d) person_id of
      None \<Rightarrow> [] | Some fs \<Rightarrow> fs)"

definition is_brp_checked :: "csb_store_data \<Rightarrow> person_id \<Rightarrow> bool" where
  "is_brp_checked d person_id = hm_contains (c_brp_findings d) person_id"

subsection \<open>Facts\<close>

lemma fold_progress:
  "fold (progress_step eds) oms p = \<lparr>
     rp_pending = rp_pending p + sum_list (map (decision_count eds) (filter is_pending oms)),
     rp_total = rp_total p + sum_list (map (decision_count eds) oms)\<rparr>"
  by (induction oms arbitrary: p) (simp_all add: progress_step_def Let_def)

lemma decision_count_pos: "0 < decision_count eds om"
  by (simp add: decision_count_def less_max_iff_disj)

lemma is_pending_actionable: "is_pending om \<Longrightarrow> is_actionable om"
  by (simp add: is_pending_def is_actionable_def)

lemma get_recovery_progress_eq:
  "get_recovery_progress eds d = \<lparr>
     rp_pending = sum_list (map (decision_count eds) (filter is_pending (hm_values (c_omissions d)))),
     rp_total = sum_list (map (decision_count eds) (filter is_actionable (hm_values (c_omissions d))))\<rparr>"
proof -
  have "filter is_pending (filter is_actionable oms) = filter is_pending oms" for oms
    by (auto simp: filter_filter is_pending_actionable intro: filter_cong)
  then show ?thesis by (simp add: get_recovery_progress_def fold_progress)
qed

lemma recovery_position_loop_scrapped:
  "is_scrapped p \<Longrightarrow> recovery_position_loop is_scrapped p n cs = None"
  by (induction cs arbitrary: n) auto

lemma recovery_position_loop_nth:
  "p \<in> set cs \<Longrightarrow> \<not> is_scrapped p \<Longrightarrow>
    \<exists>k. list_position (\<lambda>c. c = p) (filter (\<lambda>c. \<not> is_scrapped c) cs) = Some k
      \<and> recovery_position_loop is_scrapped p n cs = Some (n + k + 1)"
proof (induction cs arbitrary: n)
  case (Cons c cs)
  show ?case
  proof (cases "c = p")
    case False
    with Cons.prems have "p \<in> set cs" by simp
    from Cons.IH [OF this Cons.prems(2), of n] Cons.IH [OF this Cons.prems(2), of "n + 1"] False
    show ?thesis by auto
  qed (use Cons.prems in simp)
qed simp

lemma list_position_nth_distinct:
  "distinct xs \<Longrightarrow> k < length xs \<Longrightarrow> list_position (\<lambda>x. x = xs ! k) xs = Some k"
proof (induction xs arbitrary: k)
  case (Cons x xs)
  then show ?case by (cases k) (auto simp: nth_mem)
qed simp

text \<open>The numbers given out on a list are \<open>1, 2, \<dots>\<close> over the candidates that remain.\<close>

lemma recovery_positions_contiguous:
  assumes "distinct cs"
  shows "map (\<lambda>p. recovery_position_loop is_scrapped p 0 cs) (filter (\<lambda>c. \<not> is_scrapped c) cs)
    = map Some [1..<Suc (length (filter (\<lambda>c. \<not> is_scrapped c) cs))]"
proof (rule nth_equalityI)
  let ?rest = "filter (\<lambda>c. \<not> is_scrapped c) cs"
  fix i assume "i < length (map (\<lambda>p. recovery_position_loop is_scrapped p 0 cs) ?rest)"
  then have i: "i < length ?rest" by simp
  then have "?rest ! i \<in> set ?rest" by (rule nth_mem)
  then have p: "?rest ! i \<in> set cs" "\<not> is_scrapped (?rest ! i)" by auto
  have "list_position (\<lambda>c. c = ?rest ! i) ?rest = Some i"
    using assms i by (intro list_position_nth_distinct) auto
  with recovery_position_loop_nth [where is_scrapped = is_scrapped and n = 0, OF p]
  show "map (\<lambda>p. recovery_position_loop is_scrapped p 0 cs) ?rest ! i = map Some [1..<Suc (length ?rest)] ! i"
    using i by (auto simp del: upt_Suc)
qed (simp del: upt_Suc)

lemma find_map_SomeD: "find_map f xs = Some y \<Longrightarrow> \<exists>x\<in>set xs. f x = Some y"
  by (induction xs) (auto split: option.splits)

end
