(* ===== verification/Csb_Properties.thy ===== *)
theory Csb_Properties
  imports Csb_Getters
begin

text \<open>
  The guarantees of a committee stream, for the projection any log of events gives: derived
  parts are current, corrections and decisions do exactly what they say, findings of the
  register stand only while the values they are about do, and recovery numbers are
  contiguous.
\<close>

definition csb_of :: "csb_env \<Rightarrow> csb_event store_event list \<Rightarrow> csb_store_data" where
  "csb_of env es = fold (csb_apply env) es (csb_default env)"

lemma csb_of_snoc: "csb_of env (es @ [e]) = csb_apply env e (csb_of env es)"
  by (simp add: csb_of_def)

lemma csb_inv_of: "\<forall>e\<in>set es. csb_event_ok e \<Longrightarrow> csb_inv (csb_of env es)"
  unfolding csb_of_def by (rule csb_inv_fold [OF csb_inv_default])

lemma scrapped_derive_default [simp]: "scrapped_derive (pg_default fresh) [] = scrapped_default"
  by (simp add: scrapped_derive_def pg_default_def hm_values_def Let_def)

lemma csb_of_scrapped: "c_scrapped (csb_of env es) =
    scrapped_derive (c_paper_corrected_data (csb_of env es)) (c_omissions (csb_of env es))"
proof (cases es rule: rev_cases)
  case Nil
  then show ?thesis by (simp add: csb_of_def csb_default_def split: prod.split)
next
  case (snoc es' e)
  then show ?thesis by (simp add: csb_of_snoc c_scrapped_csb_apply)
qed

text \<open>Before the first event that corrects anything there is nothing to correct.\<close>

lemma csb_of_unrefreshed:
  assumes "\<not> list_ex (\<lambda>e. refreshes (ce_action (se_payload e))) es"
  shows "c_csb_corrected_data (csb_of env es) = pg_default (snd (snd (ce_fresh env)))
    \<and> c_paper_corrected_data (csb_of env es) = pg_default (fst (snd (ce_fresh env)))
    \<and> c_csb_corrected_persons (csb_of env es) = [] \<and> c_csb_corrected_appellation (csb_of env es) = None"
  using assms
proof (induction es rule: rev_induct)
  case Nil
  show ?case by (simp add: csb_of_def csb_default_def split: prod.split)
next
  case (snoc e es)
  then show ?case
    by (cases "ce_action (se_payload e)")
      (simp_all add: csb_of_snoc c_corrected_csb_apply c_paper_csb_apply paper_after_def c_deltas_csb_apply
        c_appellation_csb_apply)
qed

lemma csb_of_corrected: "c_csb_corrected_data (csb_of env es) =
    (if list_ex (\<lambda>e. refreshes (ce_action (se_payload e))) es
     then corrected_data (c_paper_corrected_data (csb_of env es)) (c_csb_corrected_appellation (csb_of env es))
       (c_csb_corrected_persons (csb_of env es))
     else pg_default (snd (snd (ce_fresh env))))"
proof (induction es rule: rev_induct)
  case Nil
  show ?case by (simp add: csb_of_def csb_default_def split: prod.split)
next
  case (snoc e es)
  then show ?case
    by (cases "ce_action (se_payload e)")
      (simp_all add: csb_of_snoc c_corrected_csb_apply c_paper_csb_apply paper_after_def c_deltas_csb_apply
        c_appellation_csb_apply)
qed

text \<open>C27: After any log of events, the scrapped parts of a committee stream are the ones derived
  from its omissions and paper corrected data, and its corrected projection is the paper
  corrected one with the recorded corrections on top: no event leaves a derived part behind.
  Until a first import or correction the corrected projection is the initial one.\<close>

theorem csb_derived_current:
  "c_scrapped (csb_of env es) = scrapped_derive (c_paper_corrected_data (csb_of env es)) (c_omissions (csb_of env es))
   \<and> c_csb_corrected_data (csb_of env es) = (if list_ex (\<lambda>e. refreshes (ce_action (se_payload e))) es
       then corrected_data (c_paper_corrected_data (csb_of env es)) (c_csb_corrected_appellation (csb_of env es))
         (c_csb_corrected_persons (csb_of env es))
       else pg_default (snd (snd (ce_fresh env))))"
  using csb_of_scrapped csb_of_corrected by blast

subsection \<open>Corrections\<close>

text \<open>The corrections recorded for a candidate, none when there is no entry.\<close>

definition delta_of :: "csb_store_data \<Rightarrow> person_id \<Rightarrow> person_correction_delta" where
  "delta_of d p = (case hm_get (c_csb_corrected_persons d) p of None \<Rightarrow> [] | Some delta \<Rightarrow> delta)"

lemma delta_of_ok: "csb_inv d \<Longrightarrow> delta_ok (delta_of d p)"
  by (auto simp: csb_inv_def deltas_ok_def delta_of_def delta_ok_intros split: option.split)

lemma get_person_corrections_delta: "get_person_corrections d p = get_corrections (delta_of d p)"
  by (auto simp: get_person_corrections_def get_corrections_def delta_of_def hm_values_def split: option.split)

lemma apply_person_correction_others:
  "p' \<noteq> p \<Longrightarrow> hm_get (c_csb_corrected_persons (apply_person_correction p c d)) p' = hm_get (c_csb_corrected_persons d) p'"
  by (simp add: apply_person_correction_def Let_def split: option.split)

text \<open>A candidate as corrected: the paper version with the recorded delta.\<close>

lemma csb_of_person:
  assumes "\<forall>e\<in>set es. csb_event_ok e"
  shows "hm_get (d_persons (c_csb_corrected_data (csb_of env es))) p =
    map_option (delta_apply (delta_of (csb_of env es) p)) (hm_get (d_persons (c_paper_corrected_data (csb_of env es))) p)"
proof (cases "list_ex (\<lambda>e. refreshes (ce_action (se_payload e))) es")
  case True
  have "hm_ok (c_csb_corrected_persons (csb_of env es))"
    using csb_inv_of [OF assms, of env] by (simp add: csb_inv_def deltas_ok_def)
  moreover have "delta_apply [] = id" by (simp add: fun_eq_iff)
  ultimately show ?thesis
    using True by (simp add: csb_of_corrected corrected_persons delta_of_def option.map_id split: option.split)
next
  case False
  from csb_of_unrefreshed [OF this, of env] show ?thesis by (simp add: pg_default_def)
qed

lemma delta_of_correction:
  assumes "hm_get (d_persons (c_paper_corrected_data d)) p = Some q"
  shows "delta_of (apply_person_correction p c d) p' = (if p' = p then
      if correction_changes c q then add_correction c (delta_of d p) else remove_correction c (delta_of d p)
      else delta_of d p')"
proof -
  have "remove_correction c [] = []" by (simp add: remove_correction_def hm_remove_def)
  moreover have "hm_values x = [] \<longleftrightarrow> x = []" for x :: person_correction_delta by (simp add: hm_values_def)
  ultimately show ?thesis
    using assms by (auto simp: delta_of_def apply_person_correction_def Let_def split: option.split)
qed

lemma delta_of_csb_apply:
  "delta_of (csb_apply env e d) p' = (case ce_action (se_payload e) of
      UpdateCorrection (CorrPerson p c) \<Rightarrow> delta_of (apply_person_correction p c d) p'
    | _ \<Rightarrow> delta_of d p')"
  by (simp add: delta_of_def c_deltas_csb_apply split: csb_action.split correction.split)

lemma delta_apply_corrected:
  "delta_ok delta \<Longrightarrow> delta_apply (if correction_changes c q then add_correction c delta else remove_correction c delta) q
    = correction_apply c (delta_apply delta q)"
  by (simp add: delta_apply_add delta_apply_remove)

lemma in_corrections:
  assumes "delta_ok delta"
  shows "c \<in> get_corrections (add_correction c delta)" "c \<notin> get_corrections (remove_correction c delta)"
proof -
  show "c \<in> get_corrections (add_correction c delta)"
    by (auto simp: get_corrections_def add_correction_def intro: hm_get_in_values [of _ "correction_kind c"])
  have ok: "delta_ok (remove_correction c delta)" using assms by (rule delta_ok_intros)
  show "c \<notin> get_corrections (remove_correction c delta)"
  proof
    assume "c \<in> get_corrections (remove_correction c delta)"
    then obtain k where k: "hm_get (remove_correction c delta) k = Some c"
      using ok by (auto simp: get_corrections_def delta_ok_def hm_values_iff)
    with ok have "k = correction_kind c" by (simp add: delta_ok_def)
    with k show False by (simp add: remove_correction_def)
  qed
qed

text \<open>C26: A correction by the committee gives the candidate exactly the corrected value on top of
  what the committee sees, leaves every other candidate, the imported and the paper corrected
  data as they are, and is kept only while it differs from the paper: correcting back to the
  paper value removes it.\<close>

theorem correction_applied:
  assumes "\<forall>e\<in>set es. csb_event_ok e" "ce_action (se_payload e) = UpdateCorrection (CorrPerson p c)"
    and "d = csb_of env es" "d' = csb_of env (es @ [e])"
    and "hm_get (d_persons (c_paper_corrected_data d)) p = Some q"
  shows "hm_get (d_persons (c_csb_corrected_data d')) p' = (if p' = p
      then map_option (correction_apply c) (hm_get (d_persons (c_csb_corrected_data d)) p)
      else hm_get (d_persons (c_csb_corrected_data d)) p')
    \<and> c_imported_data d' = c_imported_data d \<and> c_paper_corrected_data d' = c_paper_corrected_data d
    \<and> (c \<in> get_person_corrections d' p \<longleftrightarrow> correction_changes c q)"
proof -
  have d': "d' = csb_apply env e d" using assms(3,4) by (simp add: csb_of_snoc)
  have inv: "csb_inv d" using csb_inv_of assms(1,3) by blast
  note ok = delta_of_ok [OF inv, of p]
  have same: "c_paper_corrected_data d' = c_paper_corrected_data d" "c_imported_data d' = c_imported_data d"
    using assms(2) by (simp_all add: d' c_paper_csb_apply paper_after_def c_imported_csb_apply imported_after_def)
  have delta: "delta_of d' p' = (if p' = p then if correction_changes c q then add_correction c (delta_of d p)
      else remove_correction c (delta_of d p) else delta_of d p')" for p'
    using assms(2) delta_of_correction [OF assms(5)] by (simp add: d' delta_of_csb_apply)
  have "\<forall>e'\<in>set (es @ [e]). csb_event_ok e'" using assms(1,2) by simp
  note read = csb_of_person [OF this, of env] csb_of_person [OF assms(1), of env]
  show ?thesis
    using read assms(3-5) same delta [of p] delta [of p'] delta_apply_corrected [OF ok, of c q] in_corrections [OF ok, of c]
    by (auto simp: get_person_corrections_delta)
qed

subsection \<open>A concrete committee stream\<close>

definition example_csb_env :: csb_env where
  "example_csb_env = \<lparr>ce_region_number = \<lambda>d. d, ce_uuid_v5 = \<lambda>u bs. u + 1,
     ce_fresh = (ListSubmitterId 1, ListSubmitterId 2, ListSubmitterId 3)\<rparr>"

lemma example_uuid_v5: "ce_uuid_v5 example_csb_env u bs = u + 1"
  by (simp add: example_csb_env_def)

abbreviation example_person_id :: person_id where "example_person_id \<equiv> PersonId 7"
abbreviation example_list_id :: candidate_list_id where "example_list_id \<equiv> CandidateListId 8"

definition example_person :: person where
  "example_person = \<lparr>p_id = example_person_id, p_name = full_name_default\<lparr>fn_last_name := lit ''Jansen''\<rparr>,
     p_personal_data = \<lparr>pd_gender = None, pd_bsn = None, pd_date_of_birth = None, pd_place_of_residence = None,
       pd_country = None\<rparr>,
     p_address = dutch_address_default, p_representative = None, p_updated_at = 0\<rparr>"

definition example_list :: candidate_list where
  "example_list = \<lparr>cl_id = example_list_id, cl_electoral_districts = [11, 12], cl_candidates = [example_person_id],
     cl_created_at = 0\<rparr>"

definition example_snapshot :: pg_store_data where
  "example_snapshot = (pg_default (ListSubmitterId 4))\<lparr>d_persons := [(example_person_id, example_person)],
     d_candidate_lists := [(example_list_id, example_list)]\<rparr>"

definition csb_example_event :: "nat \<Rightarrow> csb_action \<Rightarrow> csb_event store_event" where
  "csb_example_event n a = \<lparr>se_event_id = n, se_payload = csb_action_by a Developer, se_created_at = int n,
     se_hash = GENESIS_HASH\<rparr>"

definition example_import :: "csb_event store_event" where
  "example_import = csb_example_event 1 (CsbImport GENESIS_HASH (StreamId 5) example_snapshot)"

lemma example_snapshot_inv: "pg_inv example_snapshot"
  by (simp add: pg_inv_def example_snapshot_def pg_default_def hm_ok_def keyed_def hm_get_Cons
      example_person_def example_list_def)

lemmas csb_example_simps = csb_of_def csb_default_def example_csb_env_def csb_example_event_def csb_action_by_def
  csb_apply_def Let_def apply_import_def refresh_corrected_def refresh_scrapped_def pg_apply_defs
  corrected_data_def example_snapshot_def pg_default_def example_import_def

lemma example_paper [simp]:
  "c_paper_corrected_data (csb_of example_csb_env [example_import])
    = example_snapshot\<lparr>d_events := [\<lparr>se_event_id = 1, se_payload = Import GENESIS_HASH, se_created_at = 1, se_hash = GENESIS_HASH\<rparr>]\<rparr>"
  "c_csb_corrected_data (csb_of example_csb_env [example_import])
    = c_paper_corrected_data (csb_of example_csb_env [example_import])"
  "c_omissions (csb_of example_csb_env [example_import]) = []"
  "c_brp_findings (csb_of example_csb_env [example_import]) = []"
  by (simp_all add: csb_example_simps)

lemma example_import_ok: "csb_event_ok example_import"
  by (simp add: example_import_def csb_example_event_def csb_action_by_def example_snapshot_inv)

text \<open>The last name of the imported candidate is corrected.\<close>

theorem correction_applied_witness:
  "hm_get (d_persons (c_csb_corrected_data (csb_of example_csb_env
      [example_import, csb_example_event 2 (UpdateCorrection (CorrPerson example_person_id (CorrLastName (lit ''Janssen''))))])))
     example_person_id
   = Some (example_person\<lparr>p_name := full_name_default\<lparr>fn_last_name := lit ''Janssen''\<rparr>\<rparr>)"
  using correction_applied [of "[example_import]"
      "csb_example_event 2 (UpdateCorrection (CorrPerson example_person_id (CorrLastName (lit ''Janssen''))))"
      example_person_id "CorrLastName (lit ''Janssen'')" "csb_of example_csb_env [example_import]" example_csb_env
      "csb_of example_csb_env [example_import, csb_example_event 2 (UpdateCorrection (CorrPerson example_person_id
         (CorrLastName (lit ''Janssen''))))]" example_person example_person_id]
    example_import_ok
  by (simp add: csb_example_event_def [of 2] csb_action_by_def example_snapshot_def hm_get_Cons example_person_def)

subsection \<open>Decisions on omissions\<close>

text \<open>C25: A decision on one part of an omission decides that part and nothing else: every
  other part of the omission keeps the decision it had, and so does everything the other
  omissions decide, although the part is split off and read as one with an omission of the
  same details.\<close>

theorem part_decision_exact:
  assumes "\<forall>e\<in>set es. csb_event_ok e" "d = csb_of env es" "d' = csb_of env (es @ [e])"
    and "ce_action (se_payload e) = SetOmissionPartStatus i part s"
    and "hm_get (c_omissions d) i = Some om" "part \<in> category_parts (om_category om)"
    and "category_ok (om_category om)" "omissions_known eds (c_omissions d)"
    and "hm_get (c_omissions d) (split_off_id env i (se_event_id e)) = None"
  shows "decided eds (c_omissions d') = {(om_details om, s, part)}
    \<union> {(om_details om, om_status om, p) |p. p \<in> category_parts (om_category om) \<and> p \<noteq> part}
    \<union> decided eds (hm_remove i (c_omissions d))"
proof -
  have "omissions_ok (c_omissions d)" using csb_inv_of [OF assms(1), of env] assms(2) by (simp add: csb_inv_def)
  from decided_part [OF this assms(8,5,7,6,9), of s "se_created_at e"] assms(2-4) show ?thesis
    by (simp add: csb_of_snoc c_omissions_csb_apply omissions_after_def)
qed

definition example_omission :: omission where
  "example_omission = omission_new (OmissionId 20) 0 (CatDeclarationsOfSupport [11, 12, 13]) (lit ''title'') (lit ''text'') None"

definition example_omitted :: "csb_event store_event list" where
  "example_omitted = [example_import, csb_example_event 2 (CreateOmission example_omission)]"

lemma example_omitted_omissions: "c_omissions (csb_of example_csb_env example_omitted)
    = [(OmissionId 20, example_omission\<lparr>om_updated_at := 2\<rparr>)]"
proof -
  have "c_omissions (csb_of example_csb_env example_omitted)
      = omissions_after example_csb_env (csb_example_event 2 (CreateOmission example_omission)) (csb_of example_csb_env [example_import])"
    using csb_of_snoc [of example_csb_env "[example_import]"] by (simp add: example_omitted_def c_omissions_csb_apply)
  then show ?thesis
    by (simp add: omissions_after_def csb_example_event_def [of 2] csb_action_by_def hm_insert_def example_omission_def omission_new_def)
qed

lemma example_omitted_ok: "\<forall>e\<in>set example_omitted. csb_event_ok e"
  using example_import_ok by (simp add: example_omitted_def csb_example_event_def [of 2] csb_action_by_def)

lemma pairs_image: "{(a, b, p) |p. p \<in> S \<and> p \<noteq> q} = (\<lambda>p. (a, b, p)) ` (S - {q})"
  by auto

text \<open>District 12 of an omission about three districts is recovered.\<close>

theorem part_decision_exact_witness:
  "decided [11, 12, 13] (c_omissions (csb_of example_csb_env (example_omitted @
      [csb_example_event 3 (SetOmissionPartStatus (OmissionId 20) (PartDistrict 12) Recovered)])))
   = {(om_details example_omission, Recovered, PartDistrict 12), (om_details example_omission, Pending, PartDistrict 11),
      (om_details example_omission, Pending, PartDistrict 13)}"
proof -
  define om where "om = example_omission\<lparr>om_updated_at := 2\<rparr>"
  have om: "om_category om = CatDeclarationsOfSupport [11, 12, 13]" "om_status om = Pending"
    by (simp_all add: om_def example_omission_def omission_new_def)
  have details: "om_details om = om_details example_omission"
    by (simp add: om_def om_details_def help_text_of_def)
  have omissions: "c_omissions (csb_of example_csb_env example_omitted) = [(OmissionId 20, om)]"
    by (simp add: om_def example_omitted_omissions)
  have "decided [11, 12, 13] (c_omissions (csb_of example_csb_env (example_omitted @
      [csb_example_event 3 (SetOmissionPartStatus (OmissionId 20) (PartDistrict 12) Recovered)])))
    = {(om_details om, Recovered, PartDistrict 12)}
      \<union> {(om_details om, om_status om, p) |p. p \<in> category_parts (om_category om) \<and> p \<noteq> PartDistrict 12}
      \<union> decided [11, 12, 13] (hm_remove (OmissionId 20) (c_omissions (csb_of example_csb_env example_omitted)))"
    by (rule part_decision_exact [OF example_omitted_ok refl refl])
      (simp_all add: csb_example_event_def csb_action_by_def omissions om hm_get_Cons omissions_known_def
        hm_values_def split_off_id_def example_uuid_v5)
  moreover have "{(om_details om, om_status om, p) |p. p \<in> category_parts (om_category om) \<and> p \<noteq> PartDistrict 12}
      = {(om_details om, Pending, PartDistrict 11), (om_details om, Pending, PartDistrict 13)}"
    unfolding pairs_image om by (auto simp: insert_Diff_if)
  moreover have "decided [11, 12, 13] (hm_remove (OmissionId 20) (c_omissions (csb_of example_csb_env example_omitted))) = {}"
    by (simp add: omissions hm_remove_def decided_def hm_values_def)
  ultimately show ?thesis unfolding details by (simp add: insert_commute)
qed

text \<open>A decision on a whole omission decides every part it covers, and nothing the other
  omissions decide changes, whether or not the omission is read as one with another.\<close>

theorem whole_decision_exact:
  assumes "\<forall>e\<in>set es. csb_event_ok e" "d = csb_of env es" "d' = csb_of env (es @ [e])"
    and "ce_action (se_payload e) = SetOmissionStatus i s"
    and "hm_get (c_omissions d) i = Some om" "omissions_known eds (c_omissions d)"
  shows "decided eds (c_omissions d') = {(om_details om, s, part) |part. covers eds om part}
    \<union> decided eds (hm_remove i (c_omissions d))"
proof -
  have "omissions_ok (c_omissions d)" using csb_inv_of [OF assms(1), of env] assms(2) by (simp add: csb_inv_def)
  from decided_status [OF this assms(6,5), of env s "se_created_at e"] assms(2-4) show ?thesis
    by (simp add: csb_of_snoc c_omissions_csb_apply omissions_after_def)
qed

text \<open>All three districts of the omission are decided at once.\<close>

theorem whole_decision_exact_witness:
  "decided [11, 12, 13] (c_omissions (csb_of example_csb_env (example_omitted @
      [csb_example_event 3 (SetOmissionStatus (OmissionId 20) NotRecovered)])))
   = {(om_details example_omission, NotRecovered, PartDistrict 11), (om_details example_omission, NotRecovered, PartDistrict 12),
      (om_details example_omission, NotRecovered, PartDistrict 13)}"
proof -
  define om where "om = example_omission\<lparr>om_updated_at := 2\<rparr>"
  have om: "om_category om = CatDeclarationsOfSupport [11, 12, 13]"
    by (simp add: om_def example_omission_def omission_new_def)
  have details: "om_details om = om_details example_omission"
    by (simp add: om_def om_details_def help_text_of_def)
  have omissions: "c_omissions (csb_of example_csb_env example_omitted) = [(OmissionId 20, om)]"
    by (simp add: om_def example_omitted_omissions)
  have "decided [11, 12, 13] (c_omissions (csb_of example_csb_env (example_omitted @
      [csb_example_event 3 (SetOmissionStatus (OmissionId 20) NotRecovered)])))
    = {(om_details om, NotRecovered, part) |part. covers [11, 12, 13] om part}
      \<union> decided [11, 12, 13] (hm_remove (OmissionId 20) (c_omissions (csb_of example_csb_env example_omitted)))"
    by (rule whole_decision_exact [OF example_omitted_ok refl refl])
      (simp_all add: csb_example_event_def csb_action_by_def omissions om hm_get_Cons omissions_known_def hm_values_def)
  moreover have "covers [11, 12, 13] om part \<longleftrightarrow> part \<in> {PartDistrict 11, PartDistrict 12, PartDistrict 13}" for part
    by (cases part) (auto simp: om)
  moreover have "decided [11, 12, 13] (hm_remove (OmissionId 20) (c_omissions (csb_of example_csb_env example_omitted))) = {}"
    by (simp add: omissions hm_remove_def decided_def hm_values_def)
  ultimately show ?thesis unfolding details by auto
qed

subsection \<open>Findings of the register\<close>

text \<open>The values of a candidate the register is asked about.\<close>

definition checked_values :: "pg_store_data \<Rightarrow> person_id \<Rightarrow> (full_name \<times> personal_data) option" where
  "checked_values data p = map_option (\<lambda>q. (p_name q, p_personal_data q)) (hm_get (d_persons data) p)"

lemma checked_values_unchanged:
  "p \<notin> set (candidates_changed_by (se_payload e)) \<Longrightarrow> checked_values (pg_apply e d) p = checked_values d p"
proof (cases "se_payload e")
  case (ImportCandidates imp)
  moreover assume "p \<notin> set (candidates_changed_by (se_payload e))"
  ultimately show ?thesis
    by (auto simp: checked_values_def d_persons_pg_apply candidates_changed_by_def
        hm.get_fold_ins_other hm.get_fold_modi_other [where f = "\<lambda>p _. p\<lparr>p_updated_at := se_created_at e\<rparr>" and key = p_id])
qed (auto simp: checked_values_def d_persons_pg_apply candidates_changed_by_def option.map_comp comp_def)

lemma fold_correction_checked:
  "p_name a = p_name b \<Longrightarrow> p_personal_data a = p_personal_data b \<Longrightarrow>
    p_name (fold correction_apply cs a) = p_name (fold correction_apply cs b)
    \<and> p_personal_data (fold correction_apply cs a) = p_personal_data (fold correction_apply cs b)"
proof (induction cs arbitrary: a b)
  case (Cons c cs)
  then show ?case by (cases c) simp_all
qed simp

lemma checked_values_delta:
  assumes "checked_values data p = checked_values data' p"
  shows "map_option (\<lambda>q. (p_name q, p_personal_data q)) (map_option (delta_apply delta) (hm_get (d_persons data) p))
    = map_option (\<lambda>q. (p_name q, p_personal_data q)) (map_option (delta_apply delta) (hm_get (d_persons data') p))"
proof (cases "hm_get (d_persons data) p")
  case (Some a)
  with assms obtain b where b: "hm_get (d_persons data') p = Some b"
    and ab: "p_name a = p_name b" "p_personal_data a = p_personal_data b"
    by (cases "hm_get (d_persons data') p") (auto simp: checked_values_def)
  from fold_correction_checked [OF ab, of "hm_values delta"] Some b show ?thesis
    by (simp add: delta_apply_def)
qed (use assms in \<open>simp add: checked_values_def\<close>)

text \<open>C28: What the register said about a candidate stands only while the values it is about
  do: an event other than an import that leaves the candidate checked, and is not a new check
  of that candidate, leaves the candidate's name and personal data as the committee sees them
  unchanged.\<close>

theorem findings_about_current_values:
  assumes "\<forall>e\<in>set es. csb_event_ok e" "d = csb_of env es" "d' = csb_of env (es @ [e])"
    and "is_brp_checked d' p" "\<forall>h i s. ce_action (se_payload e) \<noteq> CsbImport h i s"
    and "\<forall>fs. ce_action (se_payload e) \<noteq> BrpPersonChecked p fs"
  shows "is_brp_checked d p \<and> checked_values (c_csb_corrected_data d') p = checked_values (c_csb_corrected_data d) p"
proof -
  have d': "d' = csb_apply env e d" using assms(2,3) by (simp add: csb_of_snoc)
  have brp: "hm_get (c_brp_findings (csb_apply env e d)) p \<noteq> None"
    using assms(4) d' by (simp add: is_brp_checked_def hm_contains_def)
  have paper: "checked_values (c_paper_corrected_data d') p = checked_values (c_paper_corrected_data d) p"
    using brp assms(5) checked_values_unchanged [of p "paper_event e _"]
    by (auto simp: d' c_paper_csb_apply paper_after_def c_brp_csb_apply split: csb_action.splits if_splits)
  have delta: "delta_of d' p = delta_of d p"
    using brp apply_person_correction_others
    by (auto simp: d' c_deltas_csb_apply c_brp_csb_apply delta_of_def split: csb_action.splits correction.splits if_splits)
  have checked: "is_brp_checked d p"
    using brp assms(5,6) by (auto simp: c_brp_csb_apply is_brp_checked_def hm_contains_def
        split: csb_action.splits correction.splits if_splits)
  have "\<forall>e'\<in>set (es @ [e]). csb_event_ok e'"
    using assms(1,5) by (auto split: csb_action.split)
  note read = csb_of_person [OF this, of env] csb_of_person [OF assms(1), of env]
  from checked_values_delta [OF paper, of "delta_of d p"] read [of p] delta checked assms(2,3) show ?thesis
    by (simp add: checked_values_def)
qed

text \<open>The committee corrects the correspondence address of a checked candidate on paper.\<close>

definition example_address_change :: "csb_event store_event" where
  "example_address_change = csb_example_event 3 (PaperCorrectedUpdate (UpdatePersonAddress example_person_id
     (dutch_address_default\<lparr>da_locality := Some (lit ''Utrecht'')\<rparr>)))"

theorem findings_about_current_values_witness:
  "checked_values (c_csb_corrected_data (csb_of example_csb_env
      ([example_import, csb_example_event 2 (BrpPersonChecked example_person_id [])] @ [example_address_change]))) example_person_id
   = checked_values (c_csb_corrected_data (csb_of example_csb_env
      [example_import, csb_example_event 2 (BrpPersonChecked example_person_id [])])) example_person_id"
proof -
  let ?es = "[example_import, csb_example_event 2 (BrpPersonChecked example_person_id [])]"
  have "csb_of example_csb_env ?es = csb_apply example_csb_env
      (csb_example_event 2 (BrpPersonChecked example_person_id [])) (csb_of example_csb_env [example_import])"
    using csb_of_snoc [of example_csb_env "[example_import]"] by simp
  then have "is_brp_checked (csb_of example_csb_env (?es @ [example_address_change])) example_person_id"
    unfolding csb_of_snoc
    by (simp add: is_brp_checked_def hm_contains_def c_brp_csb_apply example_address_change_def
        csb_example_event_def csb_action_by_def candidates_changed_by_def)
  moreover have "\<forall>e\<in>set ?es. csb_event_ok e"
    using example_import_ok by (simp add: csb_example_event_def [of 2] csb_action_by_def)
  ultimately show ?thesis
    using findings_about_current_values [of ?es "csb_of example_csb_env ?es" example_csb_env
        "csb_of example_csb_env (?es @ [example_address_change])" example_address_change example_person_id]
    by (simp add: example_address_change_def csb_example_event_def [of 3] csb_action_by_def)
qed

subsection \<open>Scrapped parts\<close>

text \<open>C29: What a committee stream scraps is exactly what its unresolved omissions reach: a
  candidate on a list by an omission about the candidate on that list; a list by an omission
  about it, or because declarations of support are missing in all of its districts; the
  appellation by an omission about it, unless the list is blank.\<close>

theorem scrapped_exactly:
  assumes "\<forall>e\<in>set es. csb_event_ok e" "d = csb_of env es"
  shows "(is_candidate_scrapped (c_scrapped d) i p \<longleftrightarrow> (\<exists>om\<in>set (hm_values (c_omissions d)). is_unresolved om
      \<and> (\<exists>ls. om_category om = CatCandidate p ls \<and> i \<in> set ls)))
    \<and> (is_list_scrapped (c_scrapped d) i \<longleftrightarrow> (\<exists>om\<in>set (hm_values (c_omissions d)). is_unresolved om
        \<and> (\<exists>ls. om_category om = CatCandidateList ls \<and> i \<in> set ls))
      \<or> (\<exists>l. hm_get (d_candidate_lists (c_paper_corrected_data d)) i = Some l \<and> cl_electoral_districts l \<noteq> []
        \<and> (\<forall>ed\<in>set (cl_electoral_districts l). district_unsupported (c_omissions d) ed)))
    \<and> (is_appellation_scrapped (c_scrapped d) \<longleftrightarrow>
      pg_list_designation (d_political_group (c_paper_corrected_data d)) \<noteq> Some Blank
      \<and> (\<exists>om\<in>set (hm_values (c_omissions d)). is_unresolved om \<and> om_category om = CatAppellation))"
proof -
  have "pg_inv (c_paper_corrected_data d)" using csb_inv_of [OF assms(1), of env] assms(2) by (simp add: csb_inv_def)
  note derived = derive_candidate derive_list [OF this] derive_appellation
  have "c_scrapped d = scrapped_derive (c_paper_corrected_data d) (c_omissions d)"
    using assms(2) by (simp add: csb_of_scrapped)
  then show ?thesis by (simp only: derived simp_thms)
qed

text \<open>An omission about three districts that is not recovered scraps the list standing in two
  of them.\<close>

theorem scrapped_exactly_witness:
  "is_list_scrapped (c_scrapped (csb_of example_csb_env (example_omitted @
     [csb_example_event 3 (SetOmissionStatus (OmissionId 20) NotRecovered)]))) example_list_id"
proof -
  let ?e = "csb_example_event 3 (SetOmissionStatus (OmissionId 20) NotRecovered)"
  let ?d = "csb_of example_csb_env (example_omitted @ [?e])"
  define om where "om = example_omission\<lparr>om_updated_at := 3, om_status := NotRecovered\<rparr>"
  have om: "om_category om = CatDeclarationsOfSupport [11, 12, 13]" "is_unresolved om"
    by (simp_all add: om_def example_omission_def omission_new_def is_unresolved_def)
  have ok: "\<forall>e\<in>set (example_omitted @ [?e]). csb_event_ok e"
    using example_omitted_ok by (simp add: csb_example_event_def [of 3] csb_action_by_def)
  have omissions: "c_omissions ?d = [(OmissionId 20, om)]"
    by (simp add: csb_of_snoc c_omissions_csb_apply omissions_after_def csb_example_event_def csb_action_by_def
        set_omission_status_def merge_omission_def example_omitted_omissions hm_modify_def hm_get_Cons merge_holder_def
        hm_values_def om_def example_omission_def omission_new_def)
  have "c_paper_corrected_data ?d = c_paper_corrected_data (csb_of example_csb_env example_omitted)"
    by (simp add: csb_of_snoc c_paper_csb_apply paper_after_def csb_example_event_def csb_action_by_def)
  also have "\<dots> = c_paper_corrected_data (csb_of example_csb_env [example_import])"
    using csb_of_snoc [of example_csb_env "[example_import]"]
    by (simp add: example_omitted_def c_paper_csb_apply paper_after_def csb_example_event_def [of 2] csb_action_by_def)
  finally have "c_paper_corrected_data ?d = c_paper_corrected_data (csb_of example_csb_env [example_import])" .
  then have "hm_get (d_candidate_lists (c_paper_corrected_data ?d)) example_list_id = Some example_list"
    by (simp add: example_snapshot_def hm_get_Cons)
  moreover have "district_unsupported (c_omissions ?d) ed" if "ed \<in> {11, 12}" for ed
    using that om by (auto simp: district_unsupported_def omissions hm_values_def)
  ultimately have "\<exists>l. hm_get (d_candidate_lists (c_paper_corrected_data ?d)) example_list_id = Some l
      \<and> cl_electoral_districts l \<noteq> [] \<and> (\<forall>ed\<in>set (cl_electoral_districts l). district_unsupported (c_omissions ?d) ed)"
    by (simp add: example_list_def)
  with scrapped_exactly [OF ok refl, of example_csb_env example_list_id example_person_id] show ?thesis by blast
qed

subsection \<open>The recovery phase\<close>

text \<open>C30: In the recovery phase the candidates of a list that are not scrapped are numbered
  \<open>1, 2, \<dots>\<close> in list order without gaps, and a scrapped candidate or one that is not on the
  list has no number.\<close>

theorem recovery_numbering:
  assumes "get_candidate_list (c_csb_corrected_data d) i = Ok l" "distinct (cl_candidates l)"
  shows "map (get_recovery_position d i) (filter (\<lambda>p. \<not> is_candidate_scrapped (c_scrapped d) i p) (cl_candidates l))
      = map Some [1..<Suc (length (filter (\<lambda>p. \<not> is_candidate_scrapped (c_scrapped d) i p) (cl_candidates l)))]
    \<and> (is_candidate_scrapped (c_scrapped d) i p \<or> p \<notin> set (cl_candidates l) \<longrightarrow> get_recovery_position d i p = None)"
proof -
  have eq: "get_recovery_position d i = (\<lambda>p. recovery_position_loop (is_candidate_scrapped (c_scrapped d) i) p 0 (cl_candidates l))"
    using assms(1) by (simp add: get_recovery_position_def fun_eq_iff)
  have "recovery_position_loop f p n cs = None" if "p \<notin> set cs" for f n and cs :: "person_id list"
    using that by (induction cs arbitrary: n) auto
  with recovery_positions_contiguous [OF assms(2), of "is_candidate_scrapped (c_scrapped d) i"] show ?thesis
    unfolding eq by (auto simp: recovery_position_loop_scrapped simp del: upt_Suc)
qed

theorem recovery_numbering_witness:
  "get_recovery_position (csb_of example_csb_env [example_import]) example_list_id example_person_id = Some 1"
proof -
  let ?d = "csb_of example_csb_env [example_import]"
  have "get_candidate_list (c_csb_corrected_data ?d) example_list_id = Ok example_list"
    by (simp add: get_candidate_list_def example_snapshot_def hm_get_Cons)
  moreover have "\<not> is_candidate_scrapped (c_scrapped ?d) example_list_id p" for p
    by (simp add: csb_of_scrapped derive_candidate hm_values_def)
  ultimately show ?thesis
    using recovery_numbering [of ?d example_list_id example_list example_person_id]
    by (simp add: example_list_def)
qed

text \<open>The progress of the recovery phase counts every decision of the omissions that can be
  recovered; what is pending never exceeds the total, and the phase is complete exactly when no
  omission is pending.\<close>

theorem recovery_progress_exact:
  "rp_total (get_recovery_progress eds d) = sum_list (map (decision_count eds) (filter is_actionable (hm_values (c_omissions d))))
   \<and> rp_pending (get_recovery_progress eds d) \<le> rp_total (get_recovery_progress eds d)
   \<and> (progress_is_complete (get_recovery_progress eds d) \<longleftrightarrow> filter is_pending (hm_values (c_omissions d)) = [])"
proof -
  have le: "sum_list (map f (filter is_pending oms)) \<le> sum_list (map f (filter is_actionable oms))"
    for f :: "omission \<Rightarrow> nat" and oms
    by (induction oms) (auto simp: is_pending_actionable)
  have "decision_count eds om \<noteq> 0" for om using decision_count_pos [of eds om] by simp
  then show ?thesis
    by (simp add: get_recovery_progress_eq progress_is_complete_def le filter_empty_conv del: neq0_conv) blast
qed

end
