(* ===== verification/Csb_Main.thy ===== *)
theory Csb_Main
  imports Csb_Projection
begin

text \<open>
  The committee's main stream (\<open>projection/csb_main\<close>): registered groups with their previous
  results, the recorded list order, objections and hearings, and the signature counters of
  the members' security keys. Logins and removals from the list order are conditional
  updates: decided on the projection they are recorded on.

  Registered results are \<open>u64\<close> votes and \<open>u32\<close> seats; sums wrap, as in a release build.
  \<open>str::to_lowercase\<close> is the Unicode mapping and a parameter.
\<close>

type_synonym credential_id = "byte list"

record registered_political_group =
  rg_id :: registered_group_id
  rg_appellation :: rstring
  rg_legal_name :: rstring
  rg_previous_votes :: "64 word"
  rg_previous_seats :: "32 word"

definition rg_was_previously_seated :: "registered_political_group \<Rightarrow> bool" where
  "rg_was_previously_seated g = (rg_previous_seats g > 0)"

definition is_numbered_on_votes :: "registered_political_group \<Rightarrow> bool" where
  "is_numbered_on_votes g = rg_was_previously_seated g"

definition rg_previous_election_results :: "registered_political_group \<Rightarrow> previous_election_results" where
  "rg_previous_election_results g = (let seats = unat (rg_previous_seats g) in
     if seats = 0 then ZeroSeats else if seats \<le> 15 then OneToFifteenSeats else SixteenOrMoreSeats)"

definition has_appellation :: "(rstring \<Rightarrow> rstring) \<Rightarrow> registered_political_group \<Rightarrow> rstring \<Rightarrow> bool" where
  "has_appellation to_lowercase g a = (to_lowercase (rg_appellation g) = to_lowercase a)"

definition has_legal_name :: "(rstring \<Rightarrow> rstring) \<Rightarrow> registered_political_group \<Rightarrow> rstring \<Rightarrow> bool" where
  "has_legal_name to_lowercase g n = (rg_legal_name g \<noteq> [] \<and> to_lowercase (rg_legal_name g) = to_lowercase n)"

record previous_result =
  pr_votes :: "64 word"
  pr_seats :: "32 word"

definition combined :: "registered_political_group list \<Rightarrow> previous_result option" where
  "combined registrations = (if registrations = [] then None
     else let seats = sum_list (map rg_previous_seats registrations);
              votes = sum_list (map rg_previous_votes
                (filter (\<lambda>r. seats = 0 \<or> rg_was_previously_seated r) registrations))
          in Some \<lparr>pr_votes = votes, pr_seats = seats\<rparr>)"

definition is_seated :: "previous_result \<Rightarrow> bool" where
  "is_seated r = (pr_seats r > 0)"

datatype hearing_model = HearingI1 | HearingI4

definition hearing_model_as_str :: "hearing_model \<Rightarrow> rstring" where
  "hearing_model_as_str m = (case m of HearingI1 \<Rightarrow> lit ''i1'' | HearingI4 \<Rightarrow> lit ''i4'')"

definition hearing_model_from_str :: "rstring \<Rightarrow> hearing_model option" where
  "hearing_model_from_str s = (if s = lit ''i1'' then Some HearingI1 else if s = lit ''i4'' then Some HearingI4 else None)"

record hearing_details =
  hd_date_time :: timestamp
  hd_chair :: rstring
  hd_members :: "rstring list"

datatype objection_id = ObjectionId uuid

record objection =
  ob_id :: objection_id
  ob_text :: rstring

datatype csb_main_action =
    CsbLogin
  | SecurityKeyLogin credential_id "32 word"
  | CsbLogout
  | CreateRegisteredPoliticalGroup registered_political_group
  | UpdateRegisteredPoliticalGroup registered_political_group
  | DeleteRegisteredPoliticalGroup registered_group_id
  | UpdateHearingDetails hearing_model hearing_details
  | UpdateListOrder "stream_id list"
  | AddObjection objection
  | UpdateObjection objection
  | DeleteObjection objection_id

record csb_main_event =
  cm_user :: csb_user
  cm_action :: csb_main_action

definition csb_main_by :: "csb_main_action \<Rightarrow> csb_user \<Rightarrow> csb_main_event" where
  "csb_main_by action user = \<lparr>cm_user = user, cm_action = action\<rparr>"

record csb_main_data =
  m_events :: "csb_main_event store_event list"
  m_registered_political_groups :: "registered_political_group list"
  m_hearing_details :: "(hearing_model, hearing_details) hmap"
  m_list_order :: "stream_id list"
  m_objections :: "objection list"
  m_sign_counts :: "(credential_id, 32 word) hmap"

definition csb_main_default :: csb_main_data where
  "csb_main_default = \<lparr>m_events = [], m_registered_political_groups = [], m_hearing_details = [],
     m_list_order = [], m_objections = [], m_sign_counts = []\<rparr>"

definition CSB_MAIN_STREAM_ID :: stream_id where
  "CSB_MAIN_STREAM_ID = StreamId 0xC5B00000000080008000000000000001"

definition last_sign_count :: "csb_main_data \<Rightarrow> credential_id \<Rightarrow> 32 word" where
  "last_sign_count d c = (case hm_get (m_sign_counts d) c of None \<Rightarrow> 0 | Some n \<Rightarrow> n)"

definition csb_main_apply :: "csb_main_event store_event \<Rightarrow> csb_main_data \<Rightarrow> csb_main_data" where
  "csb_main_apply e d =
    (let d = d\<lparr>m_events := m_events d @ [e]\<rparr> in
     case cm_action (se_payload e) of
       CsbLogin \<Rightarrow> d
     | CsbLogout \<Rightarrow> d
     | SecurityKeyLogin credential_id sign_count \<Rightarrow>
         d\<lparr>m_sign_counts := hm_insert credential_id (max (last_sign_count d credential_id) sign_count) (m_sign_counts d)\<rparr>
     | CreateRegisteredPoliticalGroup g \<Rightarrow>
         d\<lparr>m_registered_political_groups := m_registered_political_groups d @ [g]\<rparr>
     | UpdateRegisteredPoliticalGroup g \<Rightarrow>
         d\<lparr>m_registered_political_groups :=
           replace_first (\<lambda>existing. rg_id existing = rg_id g) g (m_registered_political_groups d)\<rparr>
     | DeleteRegisteredPoliticalGroup i \<Rightarrow>
         d\<lparr>m_registered_political_groups := filter (\<lambda>g. rg_id g \<noteq> i) (m_registered_political_groups d)\<rparr>
     | UpdateHearingDetails m details \<Rightarrow> d\<lparr>m_hearing_details := hm_insert m details (m_hearing_details d)\<rparr>
     | UpdateListOrder order \<Rightarrow> d\<lparr>m_list_order := order\<rparr>
     | AddObjection ob \<Rightarrow> d\<lparr>m_objections := m_objections d @ [ob]\<rparr>
     | UpdateObjection ob \<Rightarrow> d\<lparr>m_objections := replace_first (\<lambda>existing. ob_id existing = ob_id ob) ob (m_objections d)\<rparr>
     | DeleteObjection i \<Rightarrow> d\<lparr>m_objections := filter (\<lambda>ob. ob_id ob \<noteq> i) (m_objections d)\<rparr>)"

definition csb_main_ops :: "(csb_main_data, csb_main_event) store_data_ops" where
  "csb_main_ops = \<lparr>sd_default = csb_main_default, sd_apply = csb_main_apply, sd_events = m_events,
     sd_scope = CentralElectoralCommittee\<rparr>"

subsection \<open>Conditional updates\<close>

definition sign_count_advanced :: "32 word \<Rightarrow> 32 word \<Rightarrow> bool" where
  "sign_count_advanced stored reported = (reported = 0 \<and> stored = 0 \<or> reported > stored)"

definition login_event :: "csb_user \<Rightarrow> credential_id \<Rightarrow> 32 word \<Rightarrow> csb_main_data \<Rightarrow> csb_main_event option" where
  "login_event user credential_id sign_count d =
    (let stored = (case hm_get (m_sign_counts d) credential_id of None \<Rightarrow> 0 | Some n \<Rightarrow> n) in
     if sign_count_advanced stored sign_count then Some (csb_main_by (SecurityKeyLogin credential_id sign_count) user)
     else None)"

text \<open>Over a backend's snapshot and append, with what other requests do in between.\<close>

definition record_security_key_login ::
  "('s \<Rightarrow> csb_main_data) \<Rightarrow> (nat \<Rightarrow> csb_main_event \<Rightarrow> nat option \<Rightarrow> 's \<Rightarrow> 's \<times> unit result) \<Rightarrow> (nat \<Rightarrow> 's \<Rightarrow> 's)
    \<Rightarrow> csb_user \<Rightarrow> credential_id \<Rightarrow> 32 word \<Rightarrow> 's \<Rightarrow> 's \<times> bool result" where
  "record_security_key_login snapshot append_ev other user credential_id sign_count =
     update_when snapshot (last_event_id csb_main_ops) append_ev other (login_event user credential_id sign_count)"

definition removal_event :: "csb_user \<Rightarrow> stream_id \<Rightarrow> csb_main_data \<Rightarrow> csb_main_event option" where
  "removal_event user i d =
    (if i \<in> set (m_list_order d)
     then Some (csb_main_by (UpdateListOrder (filter (\<lambda>j. j \<noteq> i) (m_list_order d))) user)
     else None)"

definition remove_from_list_order ::
  "('s \<Rightarrow> csb_main_data) \<Rightarrow> (nat \<Rightarrow> csb_main_event \<Rightarrow> nat option \<Rightarrow> 's \<Rightarrow> 's \<times> unit result) \<Rightarrow> (nat \<Rightarrow> 's \<Rightarrow> 's)
    \<Rightarrow> csb_user \<Rightarrow> stream_id \<Rightarrow> 's \<Rightarrow> 's \<times> bool result" where
  "remove_from_list_order snapshot append_ev other user i =
     update_when snapshot (last_event_id csb_main_ops) append_ev other (removal_event user i)"

subsection \<open>Reads\<close>

text \<open>\<open>numbering_order\<close>: most votes first, ties by appellation; the key of the stable sort.\<close>

definition numbering_key :: "registered_political_group \<Rightarrow> int \<times> rstring" where
  "numbering_key g = (- uint (rg_previous_votes g), rg_appellation g)"

definition get_registered_political_group :: "csb_main_data \<Rightarrow> registered_group_id \<Rightarrow> registered_political_group result" where
  "get_registered_political_group d i =
     ok_or GenericNotFound (find (\<lambda>g. rg_id g = i) (m_registered_political_groups d))"

definition get_hearing_details :: "csb_main_data \<Rightarrow> hearing_model \<Rightarrow> hearing_details option" where
  "get_hearing_details d m = hm_get (m_hearing_details d) m"

definition has_registered_appellation ::
  "(rstring \<Rightarrow> rstring) \<Rightarrow> csb_main_data \<Rightarrow> rstring \<Rightarrow> registered_group_id option \<Rightarrow> bool" where
  "has_registered_appellation to_lowercase d a except_id =
     list_ex (\<lambda>g. has_appellation to_lowercase g a)
       (filter (\<lambda>g. Some (rg_id g) \<noteq> except_id) (m_registered_political_groups d))"

definition get_objection :: "csb_main_data \<Rightarrow> objection_id \<Rightarrow> objection result" where
  "get_objection d i = ok_or GenericNotFound (find (\<lambda>ob. ob_id ob = i) (m_objections d))"

subsection \<open>Facts\<close>

lemma csb_main_ops_simps [simp]:
  "sd_default csb_main_ops = csb_main_default" "sd_apply csb_main_ops = csb_main_apply"
  "sd_events csb_main_ops = m_events" "sd_scope csb_main_ops = CentralElectoralCommittee"
  by (simp_all add: csb_main_ops_def)

lemma m_events_apply [simp]: "m_events (csb_main_apply e d) = m_events d @ [e]"
  by (simp add: csb_main_apply_def Let_def split: csb_main_action.split)

interpretation csb_main: store_data csb_main_ops
  by unfold_locales (simp_all add: csb_main_default_def)

lemma last_sign_count_apply:
  "last_sign_count (csb_main_apply e d) c = (case cm_action (se_payload e) of
      SecurityKeyLogin c' n \<Rightarrow> if c = c' then max (last_sign_count d c) n else last_sign_count d c
    | _ \<Rightarrow> last_sign_count d c)"
  by (simp add: csb_main_apply_def Let_def last_sign_count_def split: csb_main_action.split)

lemma last_sign_count_mono: "last_sign_count d c \<le> last_sign_count (csb_main_apply e d) c"
  by (simp add: last_sign_count_apply split: csb_main_action.split)

lemma last_sign_count_replay: "last_sign_count d c \<le> last_sign_count (fold csb_main_apply es d) c"
  by (induction es arbitrary: d) (auto intro: order_trans last_sign_count_mono)

lemma m_list_order_apply:
  "m_list_order (csb_main_apply e d) = (case cm_action (se_payload e) of UpdateListOrder order \<Rightarrow> order | _ \<Rightarrow> m_list_order d)"
  by (simp add: csb_main_apply_def Let_def split: csb_main_action.split)

lemma login_event_Some:
  "login_event user c n d = Some e \<longleftrightarrow> sign_count_advanced (last_sign_count d c) n
    \<and> e = csb_main_by (SecurityKeyLogin c n) user"
  by (auto simp: login_event_def last_sign_count_def Let_def)

lemma combined_None_iff: "combined rs = None \<longleftrightarrow> rs = []"
  by (simp add: combined_def Let_def)

end
