(* ===== verification/Numbering.thy ===== *)
theory Numbering
  imports Csb_Main Csb_Getters
begin

text \<open>
  The numbering of the candidate lists (\<open>csb/finalise/numbering.rs\<close>), over what the
  committee's pages know of each group (\<open>csb/examination/extractors/political_groups.rs\<close>).
  The state of a register check, which only the pages render, is left out of the group, and
  its election is the districts \<open>eds\<close>.
\<close>

datatype csb_phase = Examination | Recovery

record csb_political_group =
  cg_political_group :: political_group
  cg_stream_id :: stream_id
  cg_mode :: csb_phase
  cg_is_examination_finished :: bool
  cg_is_deleted :: bool
  cg_scrapped :: scrapped
  cg_restoration_count :: nat
  cg_omission_count :: nat
  cg_recovery :: recovery_progress
  cg_first_candidate_name :: "full_name option"
  cg_first_non_scrapped_candidate_name :: "full_name option"
  cg_legal_names :: "rstring list"
  cg_previously_seated :: bool
  cg_is_registered :: bool
  cg_unregistered_legal_names :: "rstring list"
  cg_candidate_list_districts :: "(candidate_list_id, electoral_district btset) hmap"

definition csb_political_group_new ::
  "electoral_district list \<Rightarrow> stream_id \<Rightarrow> csb_store_data \<Rightarrow> csb_political_group" where
  "csb_political_group_new eds i data =
    (let s = c_scrapped data; corrected = csb_pg data CorrAll in
     \<lparr>cg_political_group = d_political_group corrected, cg_stream_id = i, cg_mode = Examination,
      cg_is_examination_finished = c_is_examination_finished data, cg_is_deleted = c_is_deleted data,
      cg_scrapped = s, cg_restoration_count = get_restoration_count data,
      cg_omission_count = get_omission_count data, cg_recovery = get_recovery_progress eds data,
      cg_first_candidate_name = get_first_candidate_name corrected,
      cg_first_non_scrapped_candidate_name = csb_first_candidate_name data CorrAll s,
      cg_legal_names = filter (\<lambda>n. n \<noteq> []) (map na_legal_name (get_name_authorisations corrected)),
      cg_previously_seated = False, cg_is_registered = False, cg_unregistered_legal_names = [],
      cg_candidate_list_districts =
        fold (\<lambda>l. hm_insert (cl_id l) (cl_electoral_districts l)) (get_candidate_lists corrected) []\<rparr>)"

definition cg_blank_appellation :: "csb_political_group \<Rightarrow> rstring" where
  "cg_blank_appellation g = csb_appellation ((cg_political_group g)\<lparr>pg_list_designation := Some Blank\<rparr>)
     (cg_first_non_scrapped_candidate_name g)"

definition numbering_appellation :: "csb_political_group \<Rightarrow> rstring" where
  "numbering_appellation g = (if is_appellation_scrapped (cg_scrapped g) then cg_blank_appellation g
     else csb_appellation (cg_political_group g) (cg_first_non_scrapped_candidate_name g))"

definition cg_csb_appellation :: "csb_political_group \<Rightarrow> rstring" where
  "cg_csb_appellation g = (case cg_mode g of
      Examination \<Rightarrow> csb_appellation (cg_political_group g) (cg_first_candidate_name g)
    | Recovery \<Rightarrow> numbering_appellation g)"

definition registered_appellation :: "csb_political_group \<Rightarrow> rstring option" where
  "registered_appellation g = (if is_appellation_scrapped (cg_scrapped g) \<or> pg_is_blank (cg_political_group g)
     then None else pg_appellation (cg_political_group g))"

definition registrations ::
  "(rstring \<Rightarrow> rstring) \<Rightarrow> registered_political_group list \<Rightarrow> csb_political_group \<Rightarrow> registered_political_group list" where
  "registrations to_lowercase registered g = (case registered_appellation g of
      None \<Rightarrow> []
    | Some appellation \<Rightarrow>
      if pg_is_combined (cg_political_group g)
      then filter (\<lambda>r. list_ex (has_legal_name to_lowercase r) (cg_legal_names g)) registered
      else
        let bound = registration_id (cg_political_group g) in
        (case find (\<lambda>r. Some (rg_id r) = bound) registered of
          Some r \<Rightarrow> [r]
        | None \<Rightarrow> (case find (\<lambda>r. has_appellation to_lowercase r appellation) registered of
            Some r \<Rightarrow> [r] | None \<Rightarrow> [])))"

definition group_previous_result ::
  "(rstring \<Rightarrow> rstring) \<Rightarrow> registered_political_group list \<Rightarrow> csb_political_group \<Rightarrow> previous_result option" where
  "group_previous_result to_lowercase registered g = combined (registrations to_lowercase registered g)"

definition with_registrations ::
  "(rstring \<Rightarrow> rstring) \<Rightarrow> registered_political_group list \<Rightarrow> csb_political_group \<Rightarrow> csb_political_group" where
  "with_registrations to_lowercase registered g =
    (let result = group_previous_result to_lowercase registered g;
         g = g\<lparr>cg_previously_seated := (case result of None \<Rightarrow> False | Some r \<Rightarrow> is_seated r)\<rparr>;
         g = (if registered_appellation g \<noteq> None \<and> pg_is_combined (cg_political_group g)
              then g\<lparr>cg_unregistered_legal_names := filter (\<lambda>n. \<not> list_ex (\<lambda>r. has_legal_name to_lowercase r n) registered)
                (cg_legal_names g)\<rparr>
              else g)
     in g\<lparr>cg_is_registered := (result \<noteq> None \<and> cg_unregistered_legal_names g = [])\<rparr>)"

definition valid_districts :: "csb_political_group \<Rightarrow> electoral_district list" where
  "valid_districts g = fold (\<lambda>(l, list_districts) districts.
      if is_list_scrapped (cg_scrapped g) l then districts
      else fold (\<lambda>district districts.
          if \<not> is_district_scrapped (cg_scrapped g) district \<and> district \<notin> set districts then districts @ [district]
          else districts) list_districts districts)
    (cg_candidate_list_districts g) []"

subsection \<open>The numbering\<close>

record numbered_group =
  ng_stream_id :: stream_id
  ng_appellation :: rstring
  ng_position :: "nat option"
  ng_numbered_on_votes :: bool
  ng_previous_votes :: "64 word option"
  ng_previous_seats :: "32 word option"
  ng_district_count :: nat

definition number_group ::
  "(rstring \<Rightarrow> rstring) \<Rightarrow> registered_political_group list \<Rightarrow> csb_political_group \<Rightarrow> numbered_group option" where
  "number_group to_lowercase registered g =
    (let district_count = length (valid_districts g) in
     if district_count = 0 then None
     else let result = group_previous_result to_lowercase registered g in
       Some \<lparr>ng_stream_id = cg_stream_id g, ng_appellation = numbering_appellation g, ng_position = None,
         ng_numbered_on_votes = (case result of None \<Rightarrow> False | Some r \<Rightarrow> is_seated r),
         ng_previous_votes = map_option pr_votes result, ng_previous_seats = map_option pr_seats result,
         ng_district_count = district_count\<rparr>)"

text \<open>The comparison the groups are sorted with, as it is written, with \<open>Option\<close>'s order
  (\<open>None\<close> first) on votes.\<close>

datatype ordering = Less | Equal | Greater

definition cmp_of :: "'a::linorder \<Rightarrow> 'a \<Rightarrow> ordering" where
  "cmp_of a b = (if a < b then Less else if a = b then Equal else Greater)"

fun then_with :: "ordering \<Rightarrow> ordering \<Rightarrow> ordering" where
  "then_with Equal b = b"
| "then_with a b = a"

definition option_rank :: "64 word option \<Rightarrow> int" where
  "option_rank v = (case v of None \<Rightarrow> - 1 | Some n \<Rightarrow> uint n)"

definition starting_cmp :: "numbered_group \<Rightarrow> numbered_group \<Rightarrow> ordering" where
  "starting_cmp a b = then_with (then_with (cmp_of (ng_numbered_on_votes b) (ng_numbered_on_votes a))
     (if ng_numbered_on_votes a then cmp_of (option_rank (ng_previous_votes b)) (option_rank (ng_previous_votes a))
      else cmp_of (ng_district_count b) (ng_district_count a)))
     (cmp_of (ng_appellation a) (ng_appellation b))"

text \<open>The key that gives the same order; \<open>sort_by\<close> is stable, as \<open>sort_key\<close> is.\<close>

definition starting_key :: "numbered_group \<Rightarrow> bool \<times> int \<times> rstring" where
  "starting_key g = (\<not> ng_numbered_on_votes g,
     if ng_numbered_on_votes g then - option_rank (ng_previous_votes g) else - int (ng_district_count g),
     ng_appellation g)"

definition starting_order ::
  "(rstring \<Rightarrow> rstring) \<Rightarrow> csb_political_group list \<Rightarrow> registered_political_group list \<Rightarrow> numbered_group list" where
  "starting_order to_lowercase groups registered = sort_key starting_key
     (List.map_filter (number_group to_lowercase registered) (filter (\<lambda>g. \<not> cg_is_deleted g) groups))"

fun take_recorded :: "stream_id list \<Rightarrow> numbered_group list \<Rightarrow> numbered_group list \<times> numbered_group list" where
  "take_recorded [] remaining = ([], remaining)"
| "take_recorded (i # order) remaining =
    (case list_position (\<lambda>g. ng_stream_id g = i) remaining of
      None \<Rightarrow> take_recorded order remaining
    | Some k \<Rightarrow> (let (ordered, rest) = take_recorded order (take k remaining @ drop (Suc k) remaining)
        in (remaining ! k # ordered, rest)))"

definition assign_positions :: "bool \<Rightarrow> numbered_group list \<Rightarrow> numbered_group list" where
  "assign_positions recorded ordered = map (\<lambda>(index, g).
     if recorded \<or> ng_numbered_on_votes g then g\<lparr>ng_position := Some (index + 1)\<rparr> else g) (enumerate 0 ordered)"

definition list_numbering ::
  "(rstring \<Rightarrow> rstring) \<Rightarrow> csb_political_group list \<Rightarrow> registered_political_group list \<Rightarrow> stream_id list
    \<Rightarrow> numbered_group list" where
  "list_numbering to_lowercase groups registered list_order =
    (let remaining = starting_order to_lowercase groups registered;
         (ordered, rest) = take_recorded list_order remaining
     in assign_positions (list_order \<noteq> []) (ordered @ rest))"

definition on_votes :: "numbered_group list \<Rightarrow> numbered_group list" where
  "on_votes gs = filter ng_numbered_on_votes gs"

definition by_lot :: "numbered_group list \<Rightarrow> numbered_group list" where
  "by_lot gs = filter (\<lambda>g. \<not> ng_numbered_on_votes g) gs"

definition numbering_stream_ids :: "numbered_group list \<Rightarrow> stream_id list" where
  "numbering_stream_ids gs = map ng_stream_id gs"

definition numbering_is_complete :: "numbered_group list \<Rightarrow> bool" where
  "numbering_is_complete gs = list_all (\<lambda>g. ng_position g \<noteq> None) gs"

text \<open>\<open>record_if_incomplete\<close>: the event to record on the main stream, if any, and the
  numbering after it.\<close>

definition record_if_incomplete :: "csb_user \<Rightarrow> numbered_group list \<Rightarrow> csb_main_event option \<times> numbered_group list" where
  "record_if_incomplete user gs = (if numbering_is_complete gs then (None, gs)
     else (Some (csb_main_by (UpdateListOrder (numbering_stream_ids gs)) user),
       map (\<lambda>(g, position). g\<lparr>ng_position := Some position\<rparr>) (zip gs [1..<Suc (length gs)])))"

subsection \<open>Facts\<close>

lemma starting_cmp_key: "starting_cmp a b = cmp_of (starting_key a) (starting_key b)"
  by (cases "ng_numbered_on_votes a"; cases "ng_numbered_on_votes b")
    (auto simp: starting_cmp_def starting_key_def cmp_of_def)

lemma remove_nth_mset: "k < length xs \<Longrightarrow> add_mset (xs ! k) (mset (take k xs @ drop (Suc k) xs)) = mset xs"
  by (metis Cons_nth_drop_Suc append_take_drop_id mset.simps(2) mset_append union_mset_add_mset_right)

lemma take_recorded_mset:
  "take_recorded order remaining = (ordered, rest) \<Longrightarrow> mset (ordered @ rest) = mset remaining"
proof (induction order remaining arbitrary: ordered rest rule: take_recorded.induct)
  case (2 i order remaining)
  show ?case
  proof (cases "list_position (\<lambda>g. ng_stream_id g = i) remaining")
    case None
    with 2 show ?thesis by simp
  next
    case (Some k)
    with 2(3) obtain ord where *: "take_recorded order (take k remaining @ drop (Suc k) remaining) = (ord, rest)"
      "ordered = remaining ! k # ord"
      by (auto split: prod.splits)
    from 2(2) [OF Some *(1)] *(2) remove_nth_mset [of k remaining] list_position_SomeD [OF Some] show ?thesis
      by simp
  qed
qed simp

lemma assign_positions_ids [simp]: "map ng_stream_id (assign_positions r gs) = map ng_stream_id gs"
  by (rule nth_equalityI) (auto simp: assign_positions_def nth_enumerate_eq)

lemma length_assign_positions [simp]: "length (assign_positions r gs) = length gs"
  by (simp add: assign_positions_def)

lemma nth_assign_positions:
  "k < length gs \<Longrightarrow> assign_positions r gs ! k =
    (if r \<or> ng_numbered_on_votes (gs ! k) then (gs ! k)\<lparr>ng_position := Some (k + 1)\<rparr> else gs ! k)"
  by (simp add: assign_positions_def nth_enumerate_eq)

text \<open>Taking the group of a stream out leaves the others in order.\<close>

lemma remove_position_filter:
  "distinct (map ng_stream_id gs) \<Longrightarrow> list_position (\<lambda>g. ng_stream_id g = i) gs = Some k \<Longrightarrow>
    take k gs @ drop (Suc k) gs = filter (\<lambda>g. ng_stream_id g \<noteq> i) gs"
proof (induction gs arbitrary: k)
  case (Cons g gs)
  show ?case
  proof (cases "ng_stream_id g = i")
    case True
    with Cons.prems have "i \<notin> ng_stream_id ` set gs" by simp
    then have "\<forall>h\<in>set gs. ng_stream_id h \<noteq> i" by blast
    with True Cons.prems(2) show ?thesis by (simp add: filter_id_conv)
  qed (use Cons in auto)
qed simp

lemma take_recorded_exact:
  assumes "distinct (map ng_stream_id remaining)" "distinct order" "take_recorded order remaining = (ordered, rest)"
  shows "map ng_stream_id ordered = filter (\<lambda>i. i \<in> ng_stream_id ` set remaining) order
    \<and> rest = filter (\<lambda>g. ng_stream_id g \<notin> set order) remaining"
  using assms
proof (induction order remaining arbitrary: ordered rest rule: take_recorded.induct)
  case (2 i order remaining)
  show ?case
  proof (cases "list_position (\<lambda>g. ng_stream_id g = i) remaining")
    case None
    then have absent: "\<forall>g\<in>set remaining. ng_stream_id g \<noteq> i" by (simp add: list_position_None_iff)
    with None 2 show ?thesis by (auto intro!: filter_cong)
  next
    case (Some k)
    let ?rem = "filter (\<lambda>g. ng_stream_id g \<noteq> i) remaining"
    note rem = remove_position_filter [OF 2(3) Some]
    from 2(5) Some rem obtain ord where *: "take_recorded order ?rem = (ord, rest)" "ordered = remaining ! k # ord"
      by (auto split: prod.splits)
    have k: "k < length remaining" "ng_stream_id (remaining ! k) = i" using list_position_SomeD [OF Some] by auto
    have "distinct (map ng_stream_id ?rem)" using 2(3) by (simp add: distinct_map_filter)
    with 2(2) [OF Some] * rem 2(4)
    have ih: "map ng_stream_id ord = filter (\<lambda>j. j \<in> ng_stream_id ` set ?rem) order"
      "rest = filter (\<lambda>g. ng_stream_id g \<notin> set order) ?rem" by simp_all
    have "i \<in> ng_stream_id ` set remaining" using k by (auto intro: image_eqI [OF _ nth_mem])
    moreover have "filter (\<lambda>j. j \<in> ng_stream_id ` set ?rem) order = filter (\<lambda>j. j \<in> ng_stream_id ` set remaining) order"
      using 2(4) by (intro filter_cong) auto
    ultimately show ?thesis using ih *(2) k(2) by (simp add: conj_commute)
  qed
qed simp

text \<open>In the starting order the groups numbered on votes come first.\<close>

lemma sorted_on_votes_first:
  "sorted (map starting_key gs) \<Longrightarrow> gs = on_votes gs @ by_lot gs"
proof (induction gs)
  case (Cons g gs)
  then have IH: "gs = on_votes gs @ by_lot gs" by simp
  show ?case
  proof (cases "ng_numbered_on_votes g")
    case False
    then have "\<forall>h\<in>set gs. \<not> ng_numbered_on_votes h"
      using Cons.prems by (auto simp: starting_key_def)
    then have "on_votes gs = []" by (simp add: on_votes_def filter_empty_conv)
    with False IH show ?thesis by (simp add: on_votes_def by_lot_def)
  qed (use IH in \<open>simp add: on_votes_def by_lot_def\<close>)
qed (simp add: on_votes_def by_lot_def)

lemma starting_order_sorted: "sorted (map starting_key (starting_order f groups registered))"
  by (simp add: starting_order_def)

lemma starting_order_ids:
  "mset (map ng_stream_id (starting_order f groups registered)) =
    mset (map cg_stream_id (filter (\<lambda>g. \<not> cg_is_deleted g \<and> valid_districts g \<noteq> []) groups))"
proof -
  have "map ng_stream_id (List.map_filter (number_group f registered) (filter (\<lambda>g. \<not> cg_is_deleted g) groups))
      = map cg_stream_id (filter (\<lambda>g. \<not> cg_is_deleted g \<and> valid_districts g \<noteq> []) groups)"
    by (induction groups) (simp_all add: number_group_def Let_def List.map_filter_def)
  moreover have "mset (map ng_stream_id (sort_key starting_key xs)) = mset (map ng_stream_id xs)" for xs
    by simp
  ultimately show ?thesis by (simp only: starting_order_def)
qed

lemma list_numbering_ids:
  assumes "take_recorded list_order (starting_order f groups registered) = (ordered, rest)"
  shows "map ng_stream_id (list_numbering f groups registered list_order) = map ng_stream_id (ordered @ rest)"
  using assms by (simp add: list_numbering_def Let_def)

lemma starting_order_unnumbered: "g \<in> set (starting_order f groups registered) \<Longrightarrow> ng_position g = None"
  by (auto simp: starting_order_def List.map_filter_def number_group_def Let_def split: if_splits)

lemma positions_on_votes:
  assumes "\<forall>g\<in>set vs. ng_numbered_on_votes g" "\<forall>g\<in>set ls. \<not> ng_numbered_on_votes g \<and> ng_position g = None"
  shows "map ng_position (assign_positions False (vs @ ls)) = map Some [1..<Suc (length vs)] @ replicate (length ls) None"
proof (rule nth_equalityI)
  fix k assume "k < length (map ng_position (assign_positions False (vs @ ls)))"
  then have k: "k < length vs + length ls" by simp
  show "map ng_position (assign_positions False (vs @ ls)) ! k
      = (map Some [1..<Suc (length vs)] @ replicate (length ls) None) ! k"
  proof (cases "k < length vs")
    case True
    then have "ng_numbered_on_votes (vs ! k)" using assms(1) by simp
    with True k show ?thesis by (simp add: nth_assign_positions nth_append del: upt_Suc)
  next
    case False
    with k have "ls ! (k - length vs) \<in> set ls" by (intro nth_mem) simp
    with assms(2) False k show ?thesis by (simp add: nth_assign_positions nth_append del: upt_Suc)
  qed
qed (simp del: upt_Suc)

lemma starting_positions:
  "map ng_position (assign_positions False (starting_order f groups registered)) =
    map Some [1..<Suc (length (on_votes (starting_order f groups registered)))]
      @ replicate (length (by_lot (starting_order f groups registered))) None"
proof -
  let ?start = "starting_order f groups registered"
  have "map ng_position (assign_positions False (on_votes ?start @ by_lot ?start)) =
      map Some [1..<Suc (length (on_votes ?start))] @ replicate (length (by_lot ?start)) None"
    by (rule positions_on_votes) (auto simp: on_votes_def by_lot_def starting_order_unnumbered)
  then show ?thesis by (simp only: sorted_on_votes_first [OF starting_order_sorted, symmetric])
qed

lemma starting_order_distinct:
  assumes "distinct (map cg_stream_id groups)"
  shows "distinct (map ng_stream_id (starting_order f groups registered))"
proof -
  have "distinct (map cg_stream_id (filter (\<lambda>g. \<not> cg_is_deleted g \<and> valid_districts g \<noteq> []) groups))"
    using assms by (simp add: distinct_map_filter)
  then show ?thesis using starting_order_ids by (metis mset_eq_imp_distinct_iff)
qed

lemma numbering_ids:
  assumes "distinct (map cg_stream_id groups)" "distinct list_order"
  shows "numbering_stream_ids (list_numbering f groups registered list_order) =
    filter (\<lambda>i. i \<in> ng_stream_id ` set (starting_order f groups registered)) list_order
      @ filter (\<lambda>i. i \<notin> set list_order) (map ng_stream_id (starting_order f groups registered))"
proof -
  let ?start = "starting_order f groups registered"
  obtain ordered rest where tr: "take_recorded list_order ?start = (ordered, rest)" by fastforce
  have "map ng_stream_id (filter (\<lambda>g. ng_stream_id g \<notin> set list_order) ?start)
      = filter (\<lambda>i. i \<notin> set list_order) (map ng_stream_id ?start)"
    by (simp add: filter_map comp_def)
  then show ?thesis
    using take_recorded_exact [OF starting_order_distinct [OF assms(1)] assms(2) tr] list_numbering_ids [OF tr]
    by (simp add: numbering_stream_ids_def)
qed

lemma recorded_positions:
  assumes "list_order \<noteq> []"
  shows "map ng_position (list_numbering f groups registered list_order) =
    map Some [1..<Suc (length (list_numbering f groups registered list_order))]"
proof -
  obtain ordered rest where tr: "take_recorded list_order (starting_order f groups registered) = (ordered, rest)"
    by fastforce
  have gs: "list_numbering f groups registered list_order = assign_positions True (ordered @ rest)"
    using tr assms by (simp add: list_numbering_def)
  show ?thesis unfolding gs
    by (rule nth_equalityI) (simp_all add: nth_assign_positions del: upt_Suc)
qed

lemma record_if_incomplete_Some:
  assumes "record_if_incomplete user gs = (Some ev, gs')"
  shows "gs \<noteq> [] \<and> ev = csb_main_by (UpdateListOrder (numbering_stream_ids gs)) user
    \<and> numbering_stream_ids gs' = numbering_stream_ids gs \<and> map ng_position gs' = map Some [1..<Suc (length gs)]"
proof -
  have eq: "\<not> numbering_is_complete gs" "ev = csb_main_by (UpdateListOrder (numbering_stream_ids gs)) user"
    "gs' = map (\<lambda>(g, position). g\<lparr>ng_position := Some position\<rparr>) (zip gs [1..<Suc (length gs)])"
    using assms by (auto simp: record_if_incomplete_def split: if_splits)
  have "numbering_stream_ids gs' = numbering_stream_ids gs"
    unfolding eq(3) numbering_stream_ids_def by (rule nth_equalityI) (simp_all del: upt_Suc)
  moreover have "map ng_position gs' = map Some [1..<Suc (length gs)]"
    unfolding eq(3) by (rule nth_equalityI) (simp_all del: upt_Suc)
  ultimately show ?thesis using eq(1,2) by (auto simp: numbering_is_complete_def)
qed

end
