(* ===== verification/Committee_Properties.thy ===== *)
theory Committee_Properties
  imports Numbering Store_Properties
begin

text \<open>
  The guarantees of the committee's main stream and of the numbering of the candidate lists.
\<close>

subsection \<open>Security keys\<close>


text \<open>The first login with a key, on an empty stream.\<close>

definition example_main_env :: "csb_main_event stream_env" where
  "example_main_env = \<lparr>env_sha256 = \<lambda>bs. replicate 32 7, env_cipher = example_aead,
     env_cbor = \<lparr>cbor_write = \<lambda>e. if e = csb_main_by (SecurityKeyLogin [1] 5) Developer then Some [1]
         else if e = csb_main_by (UpdateListOrder []) Developer then Some [2] else None,
       cbor_read = \<lambda>bs. if bs = [1] then Some (csb_main_by (SecurityKeyLogin [1] 5) Developer, [])
         else if bs = [2] then Some (csb_main_by (UpdateListOrder []) Developer, []) else None\<rparr>,
     env_db_time = \<lambda>t. t div 1000 * 1000, env_verify_chain = True\<rparr>"

lemma example_main_env_ok: "env_ok example_main_env"
  by (auto simp: env_ok_def example_main_env_def example_aead_ok codec_ok_def timestamp_micros_def split: if_splits)

abbreviation empty_db :: db_stream where "empty_db \<equiv> \<lparr>db_last_event_id = 0, db_events = []\<rparr>"

lemma example_main_handle: "db_handle_ok csb_main_ops example_main_env (csb_main_default, empty_db)"
  by (simp add: db_handle_ok_def db_ok_def replay_events_def csb_main_default_def)

lemma db_evolves_same: "db_evolves ops env t t"
  by (auto simp: db_evolves_def replay_events_def intro: exI [of _ "[]"])




text \<open>A stream taken out of the recorded list order is no longer in it, and the other
  streams keep their order; when nothing was recorded the stream was not in the order or
  another request kept moving the stream.\<close>

theorem removed_from_list_order:
  assumes "env_ok env" "\<And>n. length (nonce n) = NONCE_LEN" "db_handle_ok csb_main_ops env s"
    and "\<And>n t. db_handle_ok csb_main_ops env t \<Longrightarrow> db_evolves csb_main_ops env t (other n t)"
    and "remove_from_list_order fst (\<lambda>n. db_append csb_main_ops env (nonce n) (clock n)) other user i s = (s', r)"
  shows "(r = Ok True \<longrightarrow> (\<exists>d ev. fst s' = csb_main_apply ev d \<and> i \<in> set (m_list_order d)
        \<and> m_list_order (fst s') = filter (\<lambda>j. j \<noteq> i) (m_list_order d)))
    \<and> (r \<noteq> Ok True \<longrightarrow> db_evolves csb_main_ops env s s')"
proof -
  note ca = csb_main.db_conditional_append [OF assms(1,2), where clock = clock]
  from conditional_append.update_when_loop_decided [OF ca assms(3,4)
      assms(5) [unfolded remove_from_list_order_def update_when_def]]
  show ?thesis
    by (auto simp: removal_event_def recorded_on_def m_list_order_apply csb_main_by_def split: if_splits)
qed

text \<open>Nothing is recorded for a stream that is not in the order.\<close>

theorem removed_from_list_order_witness:
  "db_evolves csb_main_ops example_main_env (csb_main_default, empty_db)
     (fst (remove_from_list_order fst (\<lambda>n. db_append csb_main_ops example_main_env example_nonce 5)
       (\<lambda>_ s. s) Developer (StreamId 4) (csb_main_default, empty_db)))"
proof -
  let ?r = "remove_from_list_order fst (\<lambda>n. db_append csb_main_ops example_main_env example_nonce 5)
     (\<lambda>_ s. s) Developer (StreamId 4) (csb_main_default, empty_db)"
  have nonces: "length ((\<lambda>_. example_nonce) n) = NONCE_LEN" for n :: nat by simp
  obtain s' r where eq: "?r = (s', r)" by fastforce
  then have "r = Ok False"
    by (simp add: remove_from_list_order_def update_when_def numeral_3_eq_3 removal_event_def csb_main_default_def)
  with removed_from_list_order [OF example_main_env_ok nonces example_main_handle db_evolves_same eq] show ?thesis
    by (simp add: eq)
qed

subsection \<open>Numbering\<close>

lemma numbering_complete_ids:
  "mset (numbering_stream_ids (list_numbering to_lowercase groups registered list_order)) =
    mset (map ng_stream_id (starting_order to_lowercase groups registered))"
proof -
  obtain ordered rest where tr: "take_recorded list_order (starting_order to_lowercase groups registered) = (ordered, rest)"
    by fastforce
  have "mset (map ng_stream_id (ordered @ rest)) = mset (map ng_stream_id (starting_order to_lowercase groups registered))"
    using take_recorded_mset [OF tr] by (metis mset_map)
  then show ?thesis unfolding numbering_stream_ids_def list_numbering_ids [OF tr] .
qed

text \<open>The numbering holds every group that is not deleted and still has a valid list in some
  district exactly once, and no other.\<close>

theorem numbering_complete:
  "mset (numbering_stream_ids (list_numbering to_lowercase groups registered list_order)) =
    mset (map cg_stream_id (filter (\<lambda>g. \<not> cg_is_deleted g \<and> valid_districts g \<noteq> []) groups))"
  by (simp only: numbering_complete_ids starting_order_ids)


definition example_group :: "stream_id \<Rightarrow> csb_political_group" where
  "example_group i = \<lparr>cg_political_group = political_group_default, cg_stream_id = i, cg_mode = Examination,
     cg_is_examination_finished = True, cg_is_deleted = False, cg_scrapped = scrapped_default,
     cg_restoration_count = 0, cg_omission_count = 0, cg_recovery = \<lparr>rp_pending = 0, rp_total = 0\<rparr>,
     cg_first_candidate_name = None, cg_first_non_scrapped_candidate_name = None, cg_legal_names = [],
     cg_previously_seated = False, cg_is_registered = False, cg_unregistered_legal_names = [],
     cg_candidate_list_districts = [(CandidateListId 1, [11])]\<rparr>"

abbreviation example_groups :: "csb_political_group list" where
  "example_groups \<equiv> [example_group (StreamId 1), example_group (StreamId 2)]"



text \<open>Recording the order completes the numbering and changes nothing else about it: the
  numbering computed again from the recorded order lists the same groups in the same order,
  everyone numbered from 1 up.\<close>

theorem recorded_order_stable:
  assumes "distinct (map cg_stream_id groups)" "distinct list_order"
    and "gs = list_numbering to_lowercase groups registered list_order"
    and "record_if_incomplete user gs = (Some ev, gs')"
    and "gs'' = list_numbering to_lowercase groups registered (m_list_order (csb_main_apply e d))" "se_payload e = ev"
  shows "numbering_is_complete gs' \<and> numbering_stream_ids gs' = numbering_stream_ids gs
    \<and> numbering_stream_ids gs'' = numbering_stream_ids gs \<and> map ng_position gs'' = map ng_position gs'"
proof -
  note rec = record_if_incomplete_Some [OF assms(4)]
  let ?start = "starting_order to_lowercase groups registered"
  have order: "m_list_order (csb_main_apply e d) = numbering_stream_ids gs"
    using rec assms(6) by (simp add: m_list_order_apply csb_main_by_def)
  have ids: "mset (numbering_stream_ids gs) = mset (map ng_stream_id ?start)"
    using assms(3) numbering_complete_ids by simp
  then have dist: "distinct (numbering_stream_ids gs)" and set: "set (numbering_stream_ids gs) = ng_stream_id ` set ?start"
    using starting_order_distinct [OF assms(1), of to_lowercase registered] by (metis mset_eq_imp_distinct_iff, metis set_mset_mset set_map)
  have "numbering_stream_ids gs'' = filter (\<lambda>i. i \<in> ng_stream_id ` set ?start) (numbering_stream_ids gs)
      @ filter (\<lambda>i. i \<notin> set (numbering_stream_ids gs)) (map ng_stream_id ?start)"
    using assms(5) numbering_ids [OF assms(1) dist] by (simp add: order)
  then have same: "numbering_stream_ids gs'' = numbering_stream_ids gs"
    by (simp add: set [symmetric] filter_id_conv)
  then have "length gs'' = length gs" unfolding numbering_stream_ids_def by (metis length_map)
  moreover have "numbering_stream_ids gs \<noteq> []" using rec by (simp add: numbering_stream_ids_def)
  then have "map ng_position gs'' = map Some [1..<Suc (length gs'')]"
    using recorded_positions assms(5) order by simp
  moreover have "numbering_is_complete gs'"
  proof -
    have "ng_position g \<in> set (map Some [1..<Suc (length gs)])" if "g \<in> set gs'" for g
      using rec that by (metis image_eqI set_map)
    then show ?thesis by (auto simp: numbering_is_complete_def list_all_iff)
  qed
  ultimately show ?thesis using rec same by simp
qed

text \<open>The starting order of the two groups is recorded.\<close>

theorem recorded_order_stable_witness:
  "numbering_stream_ids (list_numbering (\<lambda>s. s) example_groups [] [StreamId 1, StreamId 2]) = [StreamId 1, StreamId 2]"
proof -
  let ?gs = "list_numbering (\<lambda>s. s) example_groups [] []"
  have ids: "numbering_stream_ids ?gs = [StreamId 1, StreamId 2]" by code_simp
  have "\<not> numbering_is_complete ?gs" by code_simp
  then obtain gs' where rec: "record_if_incomplete Developer ?gs
      = (Some (csb_main_by (UpdateListOrder [StreamId 1, StreamId 2]) Developer), gs')"
    by (simp add: record_if_incomplete_def ids)
  let ?e = "\<lparr>se_event_id = 4, se_payload = csb_main_by (UpdateListOrder [StreamId 1, StreamId 2]) Developer,
    se_created_at = 0, se_hash = GENESIS_HASH\<rparr>"
  have order: "m_list_order (csb_main_apply ?e csb_main_default) = [StreamId 1, StreamId 2]"
    by (simp add: m_list_order_apply csb_main_by_def)
  have "distinct (map cg_stream_id example_groups)" by (simp add: example_group_def)
  from recorded_order_stable [OF this _ refl rec refl, of ?e csb_main_default] show ?thesis
    by (simp add: ids order)
qed

end
