(* ===== verification/Session.thy ===== *)
theory Session
  imports Text Hash_Prefix Csb_Main
begin

text \<open>
  Sessions (\<open>auth/session.rs\<close>, \<open>auth/session_user.rs\<close>): the identity behind a session, its
  lifetime and its tokens. The clock and the random generators are arguments of the
  operations that read them; SHA-256 is a parameter. Times are nanoseconds, and the sums
  \<open>last_activity + timeout\<close> are taken to stay within \<open>chrono\<close>'s range.
\<close>

subsection \<open>The identity\<close>

datatype session_user =
    PoliticalGroupUser stream_id rstring "election_config option"
  | CommitteeUser csb_user election_config "stream_id option"

fun user_scope :: "session_user \<Rightarrow> scope" where
  "user_scope (PoliticalGroupUser _ _ _) = PoliticalGroup"
| "user_scope (CommitteeUser _ _ _) = CentralElectoralCommittee"

fun user_election :: "session_user \<Rightarrow> election_config option" where
  "user_election (PoliticalGroupUser _ _ election) = election"
| "user_election (CommitteeUser _ election _) = Some election"

text \<open>The configured users of the security-key login. A public key is not looked at here.\<close>

record csb_webauthn_user =
  wu_username :: rstring
  wu_credential_id :: credential_id

definition is_authorized :: "csb_webauthn_user list option \<Rightarrow> session_user \<Rightarrow> bool" where
  "is_authorized config user = (case user of
      CommitteeUser (SecurityKey username) _ _ \<Rightarrow>
        (case config of None \<Rightarrow> False | Some users \<Rightarrow> list_ex (\<lambda>u. wu_username u = username) users)
    | _ \<Rightarrow> True)"

subsection \<open>Lifetime\<close>

definition SESSION_IDLE_TIMEOUT_SECS :: int where "SESSION_IDLE_TIMEOUT_SECS = 15 * 60"
definition SESSION_ABSOLUTE_TIMEOUT_SECS :: int where "SESSION_ABSOLUTE_TIMEOUT_SECS = 8 * 60 * 60"
definition SESSION_EXPIRY_WARNING_LEAD_SECS :: int where "SESSION_EXPIRY_WARNING_LEAD_SECS = 60"

text \<open>\<open>Duration::seconds\<close> and \<open>num_seconds\<close>, which truncates towards zero.\<close>

definition duration_seconds :: "int \<Rightarrow> int" where
  "duration_seconds s = s * 1000000000"

definition num_seconds :: "int \<Rightarrow> int" where
  "num_seconds d = (if d < 0 then - ((- d) div 1000000000) else d div 1000000000)"

text \<open>\<open>u64::try_from(x).unwrap_or_default()\<close> of an \<open>i64\<close>.\<close>

definition u64_or_default :: "int \<Rightarrow> nat" where
  "u64_or_default x = (if x < 0 then 0 else nat x)"

definition session_idle_timeout :: int where
  "session_idle_timeout = duration_seconds SESSION_IDLE_TIMEOUT_SECS"

definition session_absolute_timeout :: int where
  "session_absolute_timeout = duration_seconds SESSION_ABSOLUTE_TIMEOUT_SECS"

definition session_expiry_warning_lead :: int where
  "session_expiry_warning_lead = duration_seconds SESSION_EXPIRY_WARNING_LEAD_SECS"

record session_expiry =
  sx_expires_in_secs :: nat
  sx_warning_lead_secs :: nat
  sx_extendable :: bool

definition warning_lead_secs :: nat where
  "warning_lead_secs = u64_or_default (num_seconds session_expiry_warning_lead)"

definition session_expiry_expired :: session_expiry where
  "session_expiry_expired = \<lparr>sx_expires_in_secs = 0, sx_warning_lead_secs = warning_lead_secs, sx_extendable = False\<rparr>"

definition is_due_for_warning :: "session_expiry \<Rightarrow> bool" where
  "is_due_for_warning x = (sx_expires_in_secs x \<le> sx_warning_lead_secs x)"

subsection \<open>Sessions\<close>

datatype app_locale = En | Nl

record session =
  ss_token_hash :: rstring
  ss_raw_token :: "rstring option"
  ss_csrf_token :: rstring
  ss_created_at :: timestamp
  ss_last_activity :: timestamp
  ss_user_agent_hash :: "rstring option"
  ss_user :: session_user
  ss_locale :: app_locale

definition sha256_hex :: "hash_fn \<Rightarrow> byte list \<Rightarrow> rstring" where
  "sha256_hex sha bytes = concat (map byte_hex (sha bytes))"

definition hash_token :: "hash_fn \<Rightarrow> rstring \<Rightarrow> rstring" where
  "hash_token sha raw = sha256_hex sha (str_bytes raw)"

definition session_new :: "hash_fn \<Rightarrow> rstring \<Rightarrow> rstring \<Rightarrow> timestamp \<Rightarrow> session_user \<Rightarrow> app_locale \<Rightarrow> session" where
  "session_new sha raw_token csrf now user loc = \<lparr>ss_token_hash = hash_token sha raw_token,
     ss_raw_token = Some raw_token, ss_csrf_token = csrf, ss_created_at = now, ss_last_activity = now,
     ss_user_agent_hash = None, ss_user = user, ss_locale = loc\<rparr>"

definition for_political_group ::
  "hash_fn \<Rightarrow> rstring \<Rightarrow> rstring \<Rightarrow> timestamp \<Rightarrow> stream_id \<Rightarrow> rstring \<Rightarrow> election_config option \<Rightarrow> app_locale \<Rightarrow> session" where
  "for_political_group sha raw csrf now stream saml_name_id election loc =
     session_new sha raw csrf now (PoliticalGroupUser stream saml_name_id election) loc"

definition for_committee ::
  "hash_fn \<Rightarrow> rstring \<Rightarrow> rstring \<Rightarrow> timestamp \<Rightarrow> csb_user \<Rightarrow> election_config \<Rightarrow> app_locale \<Rightarrow> session" where
  "for_committee sha raw csrf now user election loc =
     session_new sha raw csrf now (CommitteeUser user election None) loc"

definition require_current_election :: "session \<Rightarrow> election_config result" where
  "require_current_election s = ok_or InternalServerError (user_election (ss_user s))"

definition require_csb_user :: "session \<Rightarrow> csb_user result" where
  "require_csb_user s = (case ss_user s of
      CommitteeUser user _ _ \<Rightarrow> Ok user
    | PoliticalGroupUser _ _ _ \<Rightarrow> Err Unauthorised)"

definition set_paper_correction_stream_id :: "stream_id option \<Rightarrow> session \<Rightarrow> session \<times> unit result" where
  "set_paper_correction_stream_id stream s = (case ss_user s of
      CommitteeUser user election _ \<Rightarrow> (s\<lparr>ss_user := CommitteeUser user election stream\<rparr>, Ok ())
    | PoliticalGroupUser _ _ _ \<Rightarrow> (s, Err Unauthorised))"

definition set_user_agent_hash :: "rstring \<Rightarrow> session \<Rightarrow> session" where
  "set_user_agent_hash h s = s\<lparr>ss_user_agent_hash := Some h\<rparr>"

definition expiry_at :: "timestamp \<Rightarrow> session \<Rightarrow> session_expiry" where
  "expiry_at now s =
    (let idle_deadline = ss_last_activity s + session_idle_timeout;
         absolute_deadline = ss_created_at s + session_absolute_timeout;
         deadline = min idle_deadline absolute_deadline;
         expires_in_secs = u64_or_default (num_seconds (deadline - now))
     in \<lparr>sx_expires_in_secs = expires_in_secs, sx_warning_lead_secs = warning_lead_secs,
         sx_extendable = expires_in_secs > 0 \<and> idle_deadline < absolute_deadline\<rparr>)"

definition is_expired :: "timestamp \<Rightarrow> session \<Rightarrow> bool" where
  "is_expired now s = (sx_expires_in_secs (expiry_at now s) = 0)"

definition is_unused :: "session \<Rightarrow> bool" where
  "is_unused s = (ss_last_activity s = ss_created_at s)"

text \<open>The comparison takes constant time; two strings are equal when their bytes are.\<close>

definition csrf_token_matches :: "rstring \<Rightarrow> rstring \<Rightarrow> bool" where
  "csrf_token_matches submitted expected = (submitted = expected)"

definition csrf_matches :: "rstring \<Rightarrow> session \<Rightarrow> bool" where
  "csrf_matches submitted s = csrf_token_matches submitted (ss_csrf_token s)"

definition rotate_csrf_token :: "rstring \<Rightarrow> session \<Rightarrow> session" where
  "rotate_csrf_token csrf s = s\<lparr>ss_csrf_token := csrf\<rparr>"

subsection \<open>Facts\<close>

lemmas timeout_defs = session_idle_timeout_def session_absolute_timeout_def
  session_expiry_warning_lead_def duration_seconds_def SESSION_IDLE_TIMEOUT_SECS_def
  SESSION_ABSOLUTE_TIMEOUT_SECS_def SESSION_EXPIRY_WARNING_LEAD_SECS_def

lemma u64_num_seconds: "u64_or_default (num_seconds d) = nat (d div 1000000000)"
proof (cases "d < 0")
  case True
  then have "0 \<le> (- d) div 1000000000" "d div 1000000000 < 0"
    by (auto simp: pos_imp_zdiv_nonneg_iff neg_imp_zdiv_neg_iff)
  with True show ?thesis by (auto simp: u64_or_default_def num_seconds_def)
qed (auto simp: u64_or_default_def num_seconds_def pos_imp_zdiv_nonneg_iff)

lemma warning_lead_secs_eq: "warning_lead_secs = 60"
  by (simp add: warning_lead_secs_def u64_num_seconds timeout_defs)

definition session_deadline :: "session \<Rightarrow> timestamp" where
  "session_deadline s = min (ss_last_activity s + session_idle_timeout) (ss_created_at s + session_absolute_timeout)"

lemma expires_in: "sx_expires_in_secs (expiry_at now s) = nat ((session_deadline s - now) div 1000000000)"
  by (simp add: expiry_at_def session_deadline_def u64_num_seconds Let_def)

lemma is_expired_iff: "is_expired now s \<longleftrightarrow> session_deadline s < now + 1000000000"
proof -
  have "(session_deadline s - now) div 1000000000 \<le> 0 \<longleftrightarrow> session_deadline s - now < 1000000000"
    by linarith
  then show ?thesis by (auto simp: is_expired_def expires_in)
qed

lemma is_expired_mono: "is_expired now s \<Longrightarrow> now \<le> now' \<Longrightarrow> is_expired now' s"
  by (simp add: is_expired_iff)

text \<open>What two versions of one stored session share: the token, the times that bound it and
  who it belongs to. Only the election a group picked and the stream a committee member
  corrects may differ, and activity only advances.\<close>

fun same_identity :: "session_user \<Rightarrow> session_user \<Rightarrow> bool" where
  "same_identity (PoliticalGroupUser i n _) (PoliticalGroupUser i' n' _) = (i = i' \<and> n = n')"
| "same_identity (CommitteeUser u e _) (CommitteeUser u' e' _) = (u = u' \<and> e = e')"
| "same_identity _ _ = False"

definition session_evolves :: "session \<Rightarrow> session \<Rightarrow> bool" where
  "session_evolves s s' = (ss_token_hash s' = ss_token_hash s \<and> ss_created_at s' = ss_created_at s
     \<and> ss_user_agent_hash s' = ss_user_agent_hash s \<and> same_identity (ss_user s) (ss_user s')
     \<and> ss_last_activity s \<le> ss_last_activity s')"

lemma same_identity_refl [simp]: "same_identity u u"
  by (cases u) auto

lemma same_identity_trans: "same_identity u v \<Longrightarrow> same_identity v w \<Longrightarrow> same_identity u w"
  by (cases u; cases v; cases w) auto

lemma session_evolves_refl [simp]: "session_evolves s s"
  by (simp add: session_evolves_def)

lemma session_evolves_trans: "session_evolves a b \<Longrightarrow> session_evolves b c \<Longrightarrow> session_evolves a c"
  by (auto simp: session_evolves_def intro: same_identity_trans)

text \<open>Whatever happens to a session, it does not outlive its absolute cap.\<close>

lemma evolved_expires:
  "session_evolves s s' \<Longrightarrow> ss_created_at s + session_absolute_timeout \<le> now \<Longrightarrow> is_expired now s'"
  by (simp add: session_evolves_def is_expired_iff session_deadline_def)

end
