(* ===== verification/Session_Store.thy ===== *)
theory Session_Store
  imports Session
begin

text \<open>
  The session store (\<open>auth/session_store.rs\<close>) over memory and over PostgreSQL
  (\<open>auth/session_db.rs\<close>), and the start of a session (\<open>auth/session_extractor.rs\<close>).

  A row keeps the identity as JSON. Its form is \<open>serde\<close>'s and the operators on it are
  PostgreSQL's, so JSON values and these operations are a parameter, with the laws
  \<open>json_ok\<close>. A statement that fails may have been executed before the failure was noticed:
  \<open>io\<close> says which. Statements are numbered within an operation.
\<close>

subsection \<open>Statements\<close>

datatype io = Done | FailedBefore | FailedAfter

fun run_stmt :: "io \<Rightarrow> 't \<Rightarrow> 't \<times> 'r \<Rightarrow> 't \<times> 'r result" where
  "run_stmt Done t (t', r) = (t', Ok r)"
| "run_stmt FailedBefore t (t', r) = (t, Err DatabaseError)"
| "run_stmt FailedAfter t (t', r) = (t', Err DatabaseError)"

subsection \<open>Rows\<close>

record 'j json_env =
  js_write :: "session_user \<Rightarrow> 'j"
  js_read :: "'j \<Rightarrow> session_user option"
  js_has_political_group :: "'j \<Rightarrow> bool"
  js_has_committee :: "'j \<Rightarrow> bool"
  js_set_election :: "election_config \<Rightarrow> 'j \<Rightarrow> 'j"
  js_set_correction :: "stream_id option \<Rightarrow> 'j \<Rightarrow> 'j"
  js_same_person :: "session_user \<Rightarrow> 'j \<Rightarrow> bool"

record 'j session_row =
  sr_token :: rstring
  sr_identity :: 'j
  sr_locale :: rstring
  sr_last_activity :: timestamp
  sr_created_at :: timestamp
  sr_user_agent_hash :: "rstring option"
  sr_csrf_token :: rstring

text \<open>The table \<open>sessions\<close>, by its primary key. \<open>se_db_time\<close> is what storing makes of a time.\<close>

type_synonym 'j sessions_table = "(rstring, 'j session_row) hmap"

record 'j session_env =
  sv_sha256 :: hash_fn
  sv_json :: "'j json_env"
  sv_db_time :: "timestamp \<Rightarrow> timestamp"

fun locale_as_str :: "app_locale \<Rightarrow> rstring" where
  "locale_as_str En = lit ''en''"
| "locale_as_str Nl = lit ''nl''"

definition locale_from_str :: "rstring \<Rightarrow> rstring + app_locale" where
  "locale_from_str s = (if s = lit ''en'' then Ok En else if s = lit ''nl'' then Ok Nl else Err (lit ''invalid locale''))"

definition session_from_row :: "'j session_env \<Rightarrow> 'j session_row \<Rightarrow> session option" where
  "session_from_row env row = (case js_read (sv_json env) (sr_identity row) of
      None \<Rightarrow> None
    | Some user \<Rightarrow> Some \<lparr>ss_token_hash = sr_token row, ss_raw_token = None,
        ss_csrf_token = sr_csrf_token row, ss_created_at = sr_created_at row,
        ss_last_activity = sr_last_activity row, ss_user_agent_hash = sr_user_agent_hash row,
        ss_user = user, ss_locale = (case locale_from_str (sr_locale row) of Inl _ \<Rightarrow> Nl | Inr l \<Rightarrow> l)\<rparr>)"

definition session_row_of :: "'j session_env \<Rightarrow> session \<Rightarrow> 'j session_row" where
  "session_row_of env s = \<lparr>sr_token = ss_token_hash s, sr_identity = js_write (sv_json env) (ss_user s),
     sr_locale = locale_as_str (ss_locale s), sr_last_activity = sv_db_time env (ss_last_activity s),
     sr_created_at = sv_db_time env (ss_created_at s), sr_user_agent_hash = ss_user_agent_hash s,
     sr_csrf_token = ss_csrf_token s\<rparr>"

subsection \<open>Statements of the database backend\<close>

definition db_upsert :: "'j session_env \<Rightarrow> session \<Rightarrow> 'j sessions_table \<Rightarrow> 'j sessions_table \<times> unit" where
  "db_upsert env s t = (case hm_get t (ss_token_hash s) of
      None \<Rightarrow> (hm_insert (ss_token_hash s) (session_row_of env s) t, ())
    | Some _ \<Rightarrow> (hm_modify (ss_token_hash s) (\<lambda>row. row\<lparr>sr_identity := js_write (sv_json env) (ss_user s),
        sr_locale := locale_as_str (ss_locale s), sr_last_activity := sv_db_time env (ss_last_activity s),
        sr_csrf_token := ss_csrf_token s\<rparr>) t, ()))"

definition db_delete :: "rstring \<Rightarrow> 'j sessions_table \<Rightarrow> 'j sessions_table \<times> unit" where
  "db_delete h t = (hm_remove h t, ())"

text \<open>An \<open>UPDATE ... WHERE token = $1 AND ...\<close>: the changed table and whether a row was.\<close>

definition db_update :: "rstring \<Rightarrow> ('j session_row \<Rightarrow> bool) \<Rightarrow> ('j session_row \<Rightarrow> 'j session_row)
    \<Rightarrow> 'j sessions_table \<Rightarrow> 'j sessions_table \<times> bool" where
  "db_update h cond f t = (case hm_get t h of
      None \<Rightarrow> (t, False)
    | Some row \<Rightarrow> if cond row then (hm_modify h f t, True) else (t, False))"

fun require_updated :: "'t \<times> bool result \<Rightarrow> 't \<times> unit result" where
  "require_updated (t, Inl e) = (t, Err e)"
| "require_updated (t, Inr updated) = (t, if updated then Ok () else Err Conflict)"

definition db_load :: "'j session_env \<Rightarrow> (nat \<Rightarrow> io) \<Rightarrow> rstring \<Rightarrow> 'j sessions_table
    \<Rightarrow> 'j sessions_table \<times> session option result" where
  "db_load env ios h t = (case run_stmt (ios 0) t (t, hm_get t h) of
      (t, Inl e) \<Rightarrow> (t, Err e)
    | (t, Inr None) \<Rightarrow> (t, Ok None)
    | (t, Inr (Some row)) \<Rightarrow> (case session_from_row env row of
        Some s \<Rightarrow> (t, Ok (Some s))
      | None \<Rightarrow> (case run_stmt (ios 1) t (db_delete h t) of
          (t, Inl e) \<Rightarrow> (t, Err e)
        | (t, Inr _) \<Rightarrow> (t, Ok None))))"

definition db_set_locale :: "io \<Rightarrow> session \<Rightarrow> app_locale \<Rightarrow> 'j sessions_table \<Rightarrow> 'j sessions_table \<times> unit result" where
  "db_set_locale i s loc t = require_updated (run_stmt i t
     (db_update (ss_token_hash s) (\<lambda>_. True) (\<lambda>row. row\<lparr>sr_locale := locale_as_str loc\<rparr>) t))"

definition db_set_election :: "'j session_env \<Rightarrow> io \<Rightarrow> session \<Rightarrow> election_config \<Rightarrow> rstring
    \<Rightarrow> 'j sessions_table \<Rightarrow> 'j sessions_table \<times> unit result" where
  "db_set_election env i s election csrf t = require_updated (run_stmt i t
     (db_update (ss_token_hash s)
       (\<lambda>row. sr_csrf_token row = ss_csrf_token s \<and> js_has_political_group (sv_json env) (sr_identity row))
       (\<lambda>row. row\<lparr>sr_identity := js_set_election (sv_json env) election (sr_identity row), sr_csrf_token := csrf\<rparr>) t))"

definition db_set_paper_correction_stream_id :: "'j session_env \<Rightarrow> io \<Rightarrow> session \<Rightarrow> stream_id option \<Rightarrow> rstring
    \<Rightarrow> 'j sessions_table \<Rightarrow> 'j sessions_table \<times> unit result" where
  "db_set_paper_correction_stream_id env i s stream csrf t = require_updated (run_stmt i t
     (db_update (ss_token_hash s)
       (\<lambda>row. sr_csrf_token row = ss_csrf_token s \<and> js_has_committee (sv_json env) (sr_identity row))
       (\<lambda>row. row\<lparr>sr_identity := js_set_correction (sv_json env) stream (sr_identity row), sr_csrf_token := csrf\<rparr>) t))"

definition db_touch :: "'j session_env \<Rightarrow> io \<Rightarrow> rstring \<Rightarrow> timestamp \<Rightarrow> 'j sessions_table \<Rightarrow> 'j sessions_table \<times> unit result" where
  "db_touch env i h last_activity t = (case run_stmt i t
     (db_update h (\<lambda>_. True)
       (\<lambda>row. row\<lparr>sr_last_activity := max (sr_last_activity row) (sv_db_time env last_activity)\<rparr>) t) of
      (t, Inl e) \<Rightarrow> (t, Err e)
    | (t, Inr _) \<Rightarrow> (t, Ok ()))"

definition db_remove :: "'j session_env \<Rightarrow> io \<Rightarrow> rstring \<Rightarrow> 'j sessions_table \<Rightarrow> 'j sessions_table \<times> session option result" where
  "db_remove env i h t = (case run_stmt i t (hm_remove h t, hm_get t h) of
      (t, Inl e) \<Rightarrow> (t, Err e)
    | (t, Inr row) \<Rightarrow> (t, Ok (Option.bind row (session_from_row env))))"

definition db_delete_other_sessions_of :: "'j session_env \<Rightarrow> io \<Rightarrow> session_user \<Rightarrow> rstring
    \<Rightarrow> 'j sessions_table \<Rightarrow> 'j sessions_table \<times> nat result" where
  "db_delete_other_sessions_of env i user keep t =
    (let doomed = (\<lambda>h row. h \<noteq> keep \<and> js_same_person (sv_json env) user (sr_identity row));
         delete = run_stmt i t (hm_filter (\<lambda>h row. \<not> doomed h row) t, length (hm_filter doomed t))
     in case user of CommitteeUser Developer _ _ \<Rightarrow> (t, Ok 0) | _ \<Rightarrow> delete)"

definition db_cleanup_expired :: "'j session_env \<Rightarrow> io \<Rightarrow> timestamp \<Rightarrow> 'j sessions_table \<Rightarrow> 'j sessions_table \<times> unit result" where
  "db_cleanup_expired env i now t =
    (let idle_cutoff = sv_db_time env (now - session_idle_timeout);
         absolute_cutoff = sv_db_time env (now - session_absolute_timeout)
     in run_stmt i t (hm_filter (\<lambda>_ row. \<not> (sr_last_activity row < idle_cutoff \<or> sr_created_at row < absolute_cutoff)) t, ()))"

subsection \<open>The store\<close>

datatype 'j session_store = InMemory "(rstring, session) hmap" | Database "'j sessions_table"

text \<open>A result of the database backend, with a failure only logged.\<close>

definition on_db :: "'t \<times> 'r \<Rightarrow> ('t \<Rightarrow> 's) \<Rightarrow> 's \<times> 'r" where
  "on_db x c = (c (fst x), snd x)"

fun store_load :: "'j session_env \<Rightarrow> (nat \<Rightarrow> io) \<Rightarrow> rstring \<Rightarrow> 'j session_store \<Rightarrow> 'j session_store \<times> session option result" where
  "store_load env ios h (InMemory m) = (InMemory m, Ok (hm_get m h))"
| "store_load env ios h (Database t) = on_db (db_load env ios h t) Database"

fun drop_token :: "io \<Rightarrow> rstring \<Rightarrow> 'j session_store \<Rightarrow> 'j session_store" where
  "drop_token i h (InMemory m) = InMemory (hm_remove h m)"
| "drop_token i h (Database t) = Database (fst (run_stmt i t (db_delete h t)))"

definition store_get :: "'j session_env \<Rightarrow> (nat \<Rightarrow> io) \<Rightarrow> timestamp \<Rightarrow> rstring \<Rightarrow> 'j session_store
    \<Rightarrow> 'j session_store \<times> session option result" where
  "store_get env ios now token st =
    (let h = hash_token (sv_sha256 env) token in
     case store_load env ios h st of
       (st, Inl e) \<Rightarrow> (st, Err e)
     | (st, Inr None) \<Rightarrow> (st, Ok None)
     | (st, Inr (Some s)) \<Rightarrow> if is_expired now s then (drop_token (ios 2) h st, Ok None) else (st, Ok (Some s)))"

definition get_existing :: "'j session_env \<Rightarrow> (nat \<Rightarrow> io) \<Rightarrow> timestamp \<Rightarrow> rstring option \<Rightarrow> 'j session_store
    \<Rightarrow> 'j session_store \<times> session option result" where
  "get_existing env ios now token st = (case token of
      Some token \<Rightarrow> store_get env ios now token st
    | None \<Rightarrow> (st, Ok None))"

fun store_insert :: "'j session_env \<Rightarrow> io \<Rightarrow> session \<Rightarrow> 'j session_store \<Rightarrow> 'j session_store" where
  "store_insert env i s (InMemory m) = InMemory (hm_insert (ss_token_hash s) s m)"
| "store_insert env i s (Database t) = Database (fst (run_stmt i t (db_upsert env s t)))"

fun store_set_locale :: "io \<Rightarrow> session \<Rightarrow> app_locale \<Rightarrow> 'j session_store \<Rightarrow> 'j session_store \<times> unit result" where
  "store_set_locale i s loc (InMemory m) = (case hm_get m (ss_token_hash s) of
      None \<Rightarrow> (InMemory m, Err Conflict)
    | Some _ \<Rightarrow> (InMemory (hm_modify (ss_token_hash s) (\<lambda>x. x\<lparr>ss_locale := loc\<rparr>) m), Ok ()))"
| "store_set_locale i s loc (Database t) = on_db (db_set_locale i s loc t) Database"

fun store_set_election :: "'j session_env \<Rightarrow> io \<Rightarrow> rstring \<Rightarrow> session \<Rightarrow> election_config \<Rightarrow> 'j session_store
    \<Rightarrow> 'j session_store \<times> unit result" where
  "store_set_election env i csrf s election (InMemory m) = (case hm_get m (ss_token_hash s) of
      None \<Rightarrow> (InMemory m, Err Conflict)
    | Some stored \<Rightarrow> if \<not> csrf_matches (ss_csrf_token s) stored then (InMemory m, Err Conflict)
        else (case ss_user stored of
          PoliticalGroupUser stream name _ \<Rightarrow> (InMemory (hm_modify (ss_token_hash s)
            (\<lambda>x. x\<lparr>ss_user := PoliticalGroupUser stream name (Some election), ss_csrf_token := csrf\<rparr>) m), Ok ())
        | CommitteeUser _ _ _ \<Rightarrow> (InMemory m, Err Unauthorised)))"
| "store_set_election env i csrf s election (Database t) = on_db (db_set_election env i s election csrf t) Database"

fun store_set_paper_correction_stream_id :: "'j session_env \<Rightarrow> io \<Rightarrow> rstring \<Rightarrow> session \<Rightarrow> stream_id option
    \<Rightarrow> 'j session_store \<Rightarrow> 'j session_store \<times> unit result" where
  "store_set_paper_correction_stream_id env i csrf s stream (InMemory m) = (case hm_get m (ss_token_hash s) of
      None \<Rightarrow> (InMemory m, Err Conflict)
    | Some stored \<Rightarrow> if \<not> csrf_matches (ss_csrf_token s) stored then (InMemory m, Err Conflict)
        else (case ss_user stored of
          CommitteeUser user election _ \<Rightarrow> (InMemory (hm_modify (ss_token_hash s)
            (\<lambda>x. x\<lparr>ss_user := CommitteeUser user election stream, ss_csrf_token := csrf\<rparr>) m), Ok ())
        | PoliticalGroupUser _ _ _ \<Rightarrow> (InMemory m, Err Unauthorised)))"
| "store_set_paper_correction_stream_id env i csrf s stream (Database t) =
     on_db (db_set_paper_correction_stream_id env i s stream csrf t) Database"

fun store_touch :: "'j session_env \<Rightarrow> io \<Rightarrow> session \<Rightarrow> 'j session_store \<Rightarrow> 'j session_store" where
  "store_touch env i s (InMemory m) = InMemory (hm_modify (ss_token_hash s)
     (\<lambda>x. x\<lparr>ss_last_activity := max (ss_last_activity x) (ss_last_activity s)\<rparr>) m)"
| "store_touch env i s (Database t) = Database (fst (db_touch env i (ss_token_hash s) (ss_last_activity s) t))"

fun store_remove :: "'j session_env \<Rightarrow> io \<Rightarrow> rstring \<Rightarrow> 'j session_store \<Rightarrow> 'j session_store \<times> session option result" where
  "store_remove env i token (InMemory m) = (let h = hash_token (sv_sha256 env) token in
     (InMemory (hm_remove h m), Ok (hm_get m h)))"
| "store_remove env i token (Database t) = on_db (db_remove env i (hash_token (sv_sha256 env) token) t) Database"

fun store_remove_other_sessions_of :: "'j session_env \<Rightarrow> io \<Rightarrow> session \<Rightarrow> 'j session_store \<Rightarrow> 'j session_store \<times> nat result" where
  "store_remove_other_sessions_of env i s (InMemory m) = (InMemory m, Ok 0)"
| "store_remove_other_sessions_of env i s (Database t) =
     on_db (db_delete_other_sessions_of env i (ss_user s) (ss_token_hash s) t) Database"

fun store_cleanup_expired :: "'j session_env \<Rightarrow> io \<Rightarrow> timestamp \<Rightarrow> 'j session_store \<Rightarrow> 'j session_store" where
  "store_cleanup_expired env i now (InMemory m) = InMemory (hm_filter (\<lambda>_ s. \<not> is_expired now s) m)"
| "store_cleanup_expired env i now (Database t) = Database (fst (db_cleanup_expired env i now t))"

text \<open>\<open>establish_session\<close>: the old cookie's token, when the browser sent one, and the result
  with the cookie value it sets. It panics for a session without its raw token.\<close>

definition establish_session :: "'j session_env \<Rightarrow> (nat \<Rightarrow> io) \<Rightarrow> timestamp \<Rightarrow> rstring option \<Rightarrow> session
    \<Rightarrow> 'j session_store \<Rightarrow> ('j session_store \<times> rstring result) option" where
  "establish_session env ios now old_token s st =
    (case (case old_token of None \<Rightarrow> (st, Ok None) | Some token \<Rightarrow> store_remove env (ios 0) token st) of
      (st, Inl e) \<Rightarrow> Some (st, Err e)
    | (st, Inr _) \<Rightarrow>
       (let st = store_cleanup_expired env (ios 1) now st in
        case store_remove_other_sessions_of env (ios 2) s st of
          (st, Inl e) \<Rightarrow> Some (st, Err e)
        | (st, Inr _) \<Rightarrow> (case ss_raw_token s of
            None \<Rightarrow> None
          | Some token \<Rightarrow> Some (store_insert env (ios 3) s st, Ok token))))"

end
