(* ===== verification/Session_Facts.thy ===== *)
theory Session_Facts
  imports Session_Store
begin

text \<open>
  What the operations on a session store keep, for either backend: a stored session only
  evolves, nothing but a login creates one, and its CSRF token changes only to a freshly
  generated one. The contract is the locale \<open>session_backend\<close>; \<open>session_switch\<close> adds the
  context switches that are conditional on the CSRF token.
\<close>

subsection \<open>The laws of the JSON operations\<close>

fun same_person :: "session_user \<Rightarrow> session_user \<Rightarrow> bool" where
  "same_person (PoliticalGroupUser i _ _) (PoliticalGroupUser i' _ _) = (i = i')"
| "same_person (CommitteeUser u _ _) (CommitteeUser u' _ _) = (u = u')"
| "same_person _ _ = False"

definition json_ok :: "'j json_env \<Rightarrow> bool" where
  "json_ok js = ((\<forall>u. js_read js (js_write js u) = Some u)
     \<and> (\<forall>j u. js_read js j = Some u \<longrightarrow>
          js_has_political_group js j = (user_scope u = PoliticalGroup)
        \<and> js_has_committee js j = (user_scope u = CentralElectoralCommittee)
        \<and> (\<forall>v. js_same_person js v j = same_person v u))
     \<and> (\<forall>j i n e e'. js_read js j = Some (PoliticalGroupUser i n e) \<longrightarrow>
          js_read js (js_set_election js e' j) = Some (PoliticalGroupUser i n (Some e')))
     \<and> (\<forall>j u e c c'. js_read js j = Some (CommitteeUser u e c) \<longrightarrow>
          js_read js (js_set_correction js c' j) = Some (CommitteeUser u e c')))"

definition session_env_ok :: "'j session_env \<Rightarrow> bool" where
  "session_env_ok env = (json_ok (sv_json env) \<and> mono (sv_db_time env))"

subsection \<open>What a store holds\<close>

fun session_view :: "'j session_env \<Rightarrow> 'j session_store \<Rightarrow> rstring \<Rightarrow> session option" where
  "session_view env (InMemory m) h = hm_get m h"
| "session_view env (Database t) h = Option.bind (hm_get t h) (session_from_row env)"

text \<open>Sessions are stored under their token's hash, and every row's identity is readable.\<close>

fun store_ok :: "'j session_env \<Rightarrow> 'j session_store \<Rightarrow> bool" where
  "store_ok env (InMemory m) = (hm_ok m \<and> (\<forall>h s. hm_get m h = Some s \<longrightarrow> ss_token_hash s = h))"
| "store_ok env (Database t) = (hm_ok t \<and> (\<forall>h row. hm_get t h = Some row \<longrightarrow>
     sr_token row = h \<and> js_read (sv_json env) (sr_identity row) \<noteq> None))"

lemma hm_get_filter: "hm_ok m \<Longrightarrow> hm_get (hm_filter p m) k = (case hm_get m k of None \<Rightarrow> None | Some v \<Rightarrow> if p k v then Some v else None)"
  by (induction m) (auto simp: hm_ok_def hm_get_def hm_filter_def map_of_eq_None_iff split: option.splits)

lemma session_from_row_None_iff: "session_from_row env row = None \<longleftrightarrow> js_read (sv_json env) (sr_identity row) = None"
  by (simp add: session_from_row_def split: option.splits)

text \<open>A statement either took effect or did not.\<close>

lemma run_stmt_cases: "fst (run_stmt i t (t', r)) = t \<or> fst (run_stmt i t (t', r)) = t'"
  by (cases i) auto

lemma run_stmt_ok: "run_stmt i t (t', r) = (t'', Inr r') \<longleftrightarrow> i = Done \<and> t'' = t' \<and> r' = r"
  by (cases i) auto

subsection \<open>Operations as steps\<close>

datatype session_op =
    OpGet "nat \<Rightarrow> io" timestamp rstring
  | OpInsert io session
  | OpSetLocale io session app_locale
  | OpSetElection io rstring session election_config
  | OpSetPaperCorrection io rstring session "stream_id option"
  | OpTouch io session
  | OpRemove io rstring
  | OpRemoveOthers io session
  | OpCleanup io timestamp

fun session_step :: "'j session_env \<Rightarrow> session_op \<Rightarrow> 'j session_store \<Rightarrow> 'j session_store" where
  "session_step env (OpGet ios now token) st = fst (store_get env ios now token st)"
| "session_step env (OpInsert i s) st = store_insert env i s st"
| "session_step env (OpSetLocale i s loc) st = fst (store_set_locale i s loc st)"
| "session_step env (OpSetElection i csrf s e) st = fst (store_set_election env i csrf s e st)"
| "session_step env (OpSetPaperCorrection i csrf s c) st = fst (store_set_paper_correction_stream_id env i csrf s c st)"
| "session_step env (OpTouch i s) st = store_touch env i s st"
| "session_step env (OpRemove i token) st = fst (store_remove env i token st)"
| "session_step env (OpRemoveOthers i s) st = fst (store_remove_other_sessions_of env i s st)"
| "session_step env (OpCleanup i now) st = store_cleanup_expired env i now st"

fun op_creates :: "session_op \<Rightarrow> rstring option" where
  "op_creates (OpInsert i s) = Some (ss_token_hash s)"
| "op_creates _ = None"

fun op_csrf :: "session_op \<Rightarrow> rstring option" where
  "op_csrf (OpSetElection i csrf s e) = Some csrf"
| "op_csrf (OpSetPaperCorrection i csrf s c) = Some csrf"
| "op_csrf _ = None"

subsection \<open>The contract\<close>

locale session_backend =
  fixes ok :: "'s \<Rightarrow> bool"
    and view :: "'s \<Rightarrow> rstring \<Rightarrow> session option"
    and step :: "'op \<Rightarrow> 's \<Rightarrow> 's"
    and creates :: "'op \<Rightarrow> rstring option"
    and csrf_of :: "'op \<Rightarrow> rstring option"
  assumes ok_step: "ok s \<Longrightarrow> ok (step op s)"
    and step_evolves: "ok s \<Longrightarrow> creates op \<noteq> Some h \<Longrightarrow> view (step op s) h = Some x' \<Longrightarrow>
      \<exists>x. view s h = Some x \<and> session_evolves x x'
        \<and> (ss_csrf_token x' = ss_csrf_token x \<or> csrf_of op = Some (ss_csrf_token x'))"
begin

lemma ok_run: "ok s \<Longrightarrow> ok (fold step ops s)"
  by (induction ops arbitrary: s) (auto intro: ok_step)

lemma run_evolves:
  "ok s \<Longrightarrow> \<forall>op\<in>set ops. creates op \<noteq> Some h \<Longrightarrow> view (fold step ops s) h = Some x' \<Longrightarrow>
    \<exists>x. view s h = Some x \<and> session_evolves x x'
      \<and> (ss_csrf_token x' = ss_csrf_token x \<or> (\<exists>op\<in>set ops. csrf_of op = Some (ss_csrf_token x')))"
proof (induction ops arbitrary: s)
  case (Cons op ops)
  from Cons.IH [of "step op s"] Cons.prems obtain y where y: "view (step op s) h = Some y"
    "session_evolves y x'" "ss_csrf_token x' = ss_csrf_token y \<or> (\<exists>op\<in>set ops. csrf_of op = Some (ss_csrf_token x'))"
    by (auto intro: ok_step)
  from step_evolves [OF Cons.prems(1) _ y(1)] Cons.prems(2) obtain x where
    "view s h = Some x" "session_evolves x y" "ss_csrf_token y = ss_csrf_token x \<or> csrf_of op = Some (ss_csrf_token y)"
    by auto
  with y show ?case by (auto intro: session_evolves_trans)
qed auto

lemma removed_stays_removed:
  "ok s \<Longrightarrow> view s h = None \<Longrightarrow> \<forall>op\<in>set ops. creates op \<noteq> Some h \<Longrightarrow> view (fold step ops s) h = None"
  using run_evolves by fastforce

end

text \<open>A switch of context succeeds only for the stored CSRF token, and replaces it.\<close>

locale session_switch = session_backend +
  fixes switch :: "'c \<Rightarrow> rstring \<Rightarrow> session \<Rightarrow> 'a \<Rightarrow> 'a \<times> unit result"
  assumes switch_ok: "ok s \<Longrightarrow> switch c csrf x s = (s', Ok ()) \<Longrightarrow>
      ok s' \<and> (\<exists>y y'. view s (ss_token_hash x) = Some y \<and> ss_csrf_token y = ss_csrf_token x
        \<and> view s' (ss_token_hash x) = Some y' \<and> ss_csrf_token y' = csrf)"
begin

text \<open>Of two switches on the same view of a session, one fails.\<close>

lemma one_switch:
  assumes "ok s" "switch c csrf x s = (s', Ok ())" "csrf \<noteq> ss_csrf_token x"
    and "\<forall>op\<in>set ops. creates op \<noteq> Some (ss_token_hash x) \<and> csrf_of op \<noteq> Some (ss_csrf_token x)"
  shows "snd (switch c' csrf' x (fold step ops s')) \<noteq> Ok ()"
proof
  let ?t = "fold step ops s'"
  assume "snd (switch c' csrf' x ?t) = Ok ()"
  then obtain t' where t': "switch c' csrf' x ?t = (t', Ok ())" by (cases "switch c' csrf' x ?t") auto
  from switch_ok [OF assms(1,2)] obtain y' where s': "ok s'" "view s' (ss_token_hash x) = Some y'"
    "ss_csrf_token y' = csrf" by blast
  from switch_ok [OF ok_run [OF s'(1)] t'] obtain z where z: "view ?t (ss_token_hash x) = Some z"
    "ss_csrf_token z = ss_csrf_token x" by blast
  from run_evolves [OF s'(1) _ z(1)] assms(4) s'(2,3) z(2) assms(3) show False by auto
qed

end

subsection \<open>Both backends keep it\<close>

text \<open>From one store to the next without a login: what is visible was visible and evolved.\<close>

definition store_evolves :: "'j session_env \<Rightarrow> rstring option \<Rightarrow> 'j session_store \<Rightarrow> 'j session_store \<Rightarrow> bool" where
  "store_evolves env c st st' = (store_ok env st' \<and> (\<forall>h x'. session_view env st' h = Some x' \<longrightarrow>
     (\<exists>x. session_view env st h = Some x \<and> session_evolves x x'
        \<and> (ss_csrf_token x' = ss_csrf_token x \<or> c = Some (ss_csrf_token x')))))"

lemma store_evolves_refl [simp]: "store_ok env st \<Longrightarrow> store_evolves env c st st"
  by (auto simp: store_evolves_def)

text \<open>Operations that only delete.\<close>

definition store_shrinks :: "'j session_env \<Rightarrow> 'j session_store \<Rightarrow> 'j session_store \<Rightarrow> bool" where
  "store_shrinks env st st' = (store_ok env st' \<and>
     (\<forall>h x'. session_view env st' h = Some x' \<longrightarrow> session_view env st h = Some x'))"

lemma store_shrinks_refl [simp]: "store_ok env st \<Longrightarrow> store_shrinks env st st"
  by (simp add: store_shrinks_def)

lemma store_shrinks_trans: "store_shrinks env a b \<Longrightarrow> store_shrinks env b c \<Longrightarrow> store_shrinks env a c"
  by (simp add: store_shrinks_def)

lemma store_shrinks_None: "store_shrinks env a b \<Longrightarrow> session_view env a h = None \<Longrightarrow> session_view env b h = None"
  unfolding store_shrinks_def by (metis not_None_eq)

lemma shrinks_evolves: "store_shrinks env st st' \<Longrightarrow> store_evolves env c st st'"
  unfolding store_evolves_def store_shrinks_def using session_evolves_refl by blast

lemma remove_shrinks:
  "store_ok env (InMemory m) \<Longrightarrow> store_shrinks env (InMemory m) (InMemory (hm_remove h m))"
  "store_ok env (Database t) \<Longrightarrow> store_shrinks env (Database t) (Database (hm_remove h t))"
  by (auto simp: store_shrinks_def intro: inv_intros split: if_splits)

lemma filter_shrinks:
  "store_ok env (InMemory m) \<Longrightarrow> store_shrinks env (InMemory m) (InMemory (hm_filter p m))"
  "store_ok env (Database t) \<Longrightarrow> store_shrinks env (Database t) (Database (hm_filter q t))"
  by (auto simp: store_shrinks_def hm_get_filter intro: inv_intros split: if_splits option.splits)

lemma modify_evolves:
  assumes "store_ok env (InMemory m)"
    and "\<And>x. hm_get m h = Some x \<Longrightarrow> session_evolves x (f x) \<and> (ss_csrf_token (f x) = ss_csrf_token x \<or> c = Some (ss_csrf_token (f x)))"
  shows "store_evolves env c (InMemory m) (InMemory (hm_modify h f m))"
  using assms(1) assms(2) by (auto simp: store_evolves_def session_evolves_def intro: inv_intros)

lemma db_update_evolves:
  assumes ok: "store_ok env (Database t)"
    and f: "\<And>row x. cond row \<Longrightarrow> session_from_row env row = Some x \<Longrightarrow> sr_token (f row) = sr_token row \<and>
      (\<exists>x'. session_from_row env (f row) = Some x' \<and> session_evolves x x'
        \<and> (ss_csrf_token x' = ss_csrf_token x \<or> c = Some (ss_csrf_token x')))"
  shows "store_evolves env c (Database t) (Database (fst (run_stmt i t (db_update h cond f t))))"
proof (cases "\<exists>row. hm_get t h = Some row \<and> cond row \<and> i \<noteq> FailedBefore")
  case True
  then obtain row where row: "hm_get t h = Some row" "cond row" "i \<noteq> FailedBefore" by blast
  from ok row(1) have "session_from_row env row \<noteq> None" by (auto simp: session_from_row_None_iff)
  then obtain x where x: "session_from_row env row = Some x" by blast
  from f [OF row(2) x] obtain x' where x': "sr_token (f row) = sr_token row" "session_from_row env (f row) = Some x'"
    "session_evolves x x'" "ss_csrf_token x' = ss_csrf_token x \<or> c = Some (ss_csrf_token x')" by blast
  from x'(2) have "js_read (sv_json env) (sr_identity (f row)) \<noteq> None"
    by (auto simp: session_from_row_def split: option.splits)
  with row x x' ok show ?thesis
    by (cases i) (auto simp: store_evolves_def db_update_def intro: inv_intros)
next
  case False
  then have "fst (run_stmt i t (db_update h cond f t)) = t"
    by (cases i) (auto simp: db_update_def split: option.splits)
  with ok show ?thesis by simp
qed

lemma db_stmt_shrinks:
  assumes "store_ok env (Database t)" "store_shrinks env (Database t) (Database t')"
  shows "store_shrinks env (Database t) (Database (fst (run_stmt i t (t', r))))"
  using run_stmt_cases [of i t t' r] assms by (elim disjE) simp_all

lemma db_get_evolves:
  assumes "store_ok env (Database t)"
  shows "store_evolves env c (Database t) (Database (fst (db_load env ios h t))) \<and> store_ok env (Database (fst (db_load env ios h t)))
    \<and> fst (db_load env ios h t) = t"
proof -
  have "hm_get t h = Some row \<Longrightarrow> session_from_row env row \<noteq> None" for row
    using assms by (auto simp: session_from_row_None_iff)
  then have "fst (db_load env ios h t) = t"
    by (cases "ios 0"; cases "hm_get t h") (auto simp: db_load_def split: option.splits)
  with assms show ?thesis by simp
qed

lemma drop_token_shrinks: "store_ok env st \<Longrightarrow> store_shrinks env st (drop_token i h st)"
  by (cases st) (simp_all add: db_delete_def remove_shrinks db_stmt_shrinks del: store_ok.simps)

lemma store_load_same: "store_ok env st \<Longrightarrow> fst (store_load env ios h st) = st"
  by (cases st) (auto simp: on_db_def db_get_evolves)

lemma store_get_evolves: "store_ok env st \<Longrightarrow> store_evolves env c st (fst (store_get env ios now token st))"
  using store_load_same [of env st ios "hash_token (sv_sha256 env) token"]
  by (cases "store_load env ios (hash_token (sv_sha256 env) token) st")
    (auto simp: store_get_def drop_token_shrinks shrinks_evolves split: sum.splits option.splits)

lemma require_updated_fst [simp]: "fst (require_updated x) = fst x"
  by (cases x rule: require_updated.cases) auto

lemma set_locale_evolves: "store_ok env st \<Longrightarrow> store_evolves env c st (fst (store_set_locale i s loc st))"
proof (cases st)
  case (Database t)
  assume "store_ok env st"
  with Database show ?thesis
    by (auto simp: on_db_def db_set_locale_def session_from_row_def session_evolves_def
        split: option.splits intro!: db_update_evolves)
qed (auto simp: session_evolves_def split: option.split intro!: modify_evolves)

lemma touch_evolves: "store_ok env st \<Longrightarrow> store_evolves env c st (store_touch env i s st)"
proof (cases st)
  case (Database t)
  assume ok: "store_ok env st"
  have "fst (db_touch env i (ss_token_hash s) (ss_last_activity s) t) = fst (run_stmt i t
     (db_update (ss_token_hash s) (\<lambda>_. True)
       (\<lambda>row. row\<lparr>sr_last_activity := max (sr_last_activity row) (sv_db_time env (ss_last_activity s))\<rparr>) t))"
    by (auto simp: db_touch_def split: prod.splits sum.splits)
  with Database ok show ?thesis
    by (auto simp: session_from_row_def session_evolves_def split: option.splits intro!: db_update_evolves)
qed (auto simp: session_evolves_def intro!: modify_evolves)

text \<open>The two switches, on the identity that is stored.\<close>

lemma json_okD:
  assumes "json_ok js"
  shows "js_read js (js_write js u) = Some u"
    and "js_read js j = Some u \<Longrightarrow> js_has_political_group js j = (user_scope u = PoliticalGroup)"
    and "js_read js j = Some u \<Longrightarrow> js_has_committee js j = (user_scope u = CentralElectoralCommittee)"
    and "js_read js j = Some u \<Longrightarrow> js_same_person js v j = same_person v u"
    and "js_read js j = Some (PoliticalGroupUser i n e) \<Longrightarrow> js_read js (js_set_election js e' j) = Some (PoliticalGroupUser i n (Some e'))"
    and "js_read js j = Some (CommitteeUser w e'' c) \<Longrightarrow> js_read js (js_set_correction js c' j) = Some (CommitteeUser w e'' c')"
  using assms unfolding json_ok_def by blast+

lemma scope_userE:
  "user_scope u = PoliticalGroup \<longleftrightarrow> (\<exists>i n e. u = PoliticalGroupUser i n e)"
  "user_scope u = CentralElectoralCommittee \<longleftrightarrow> (\<exists>v e c. u = CommitteeUser v e c)"
  by (cases u; simp)+

lemma set_election_evolves:
  assumes "json_ok (sv_json env)" "store_ok env st"
  shows "store_evolves env (Some csrf) st (fst (store_set_election env i csrf s e st))"
proof (cases st)
  case (Database t)
  with assms show ?thesis
    by (auto simp: on_db_def db_set_election_def session_from_row_def session_evolves_def json_okD scope_userE
        split: option.splits intro!: db_update_evolves)
next
  case (InMemory m)
  with assms(2) show ?thesis
    by (auto simp: session_evolves_def split: option.split session_user.split intro!: modify_evolves)
qed

lemma set_paper_correction_evolves:
  assumes "json_ok (sv_json env)" "store_ok env st"
  shows "store_evolves env (Some csrf) st (fst (store_set_paper_correction_stream_id env i csrf s c st))"
proof (cases st)
  case (Database t)
  with assms show ?thesis
    by (auto simp: on_db_def db_set_paper_correction_stream_id_def session_from_row_def session_evolves_def json_okD scope_userE
        split: option.splits intro!: db_update_evolves)
next
  case (InMemory m)
  with assms(2) show ?thesis
    by (auto simp: session_evolves_def split: option.split session_user.split intro!: modify_evolves)
qed

lemma insert_evolves:
  assumes "session_env_ok env" "store_ok env st"
  shows "store_ok env (store_insert env i s st)
    \<and> (h \<noteq> ss_token_hash s \<longrightarrow> session_view env (store_insert env i s st) h = session_view env st h)"
proof (cases st)
  case (Database t)
  from assms(1) have "js_read (sv_json env) (js_write (sv_json env) u) = Some u" for u
    by (simp add: session_env_ok_def json_okD)
  with Database assms(2) show ?thesis
    by (cases i) (auto simp: db_upsert_def session_row_of_def intro: inv_intros split: option.splits if_splits)
qed (use assms in \<open>auto intro: inv_intros\<close>)

lemma store_remove_shrinks: "store_ok env st \<Longrightarrow> store_shrinks env st (fst (store_remove env i token st))"
proof (cases st)
  case (Database t)
  assume ok: "store_ok env st"
  have "fst (db_remove env i h t) = fst (run_stmt i t (hm_remove h t, hm_get t h))" for h
    by (cases i) (auto simp: db_remove_def)
  with ok Database show ?thesis by (simp add: on_db_def remove_shrinks db_stmt_shrinks del: store_ok.simps)
qed (simp add: remove_shrinks Let_def del: store_ok.simps)

lemma remove_others_shrinks: "store_ok env st \<Longrightarrow> store_shrinks env st (fst (store_remove_other_sessions_of env i s st))"
  by (cases st) (auto simp: on_db_def db_delete_other_sessions_of_def Let_def filter_shrinks db_stmt_shrinks
      simp del: store_ok.simps split: session_user.split csb_user.split)

lemma cleanup_shrinks: "store_ok env st \<Longrightarrow> store_shrinks env st (store_cleanup_expired env i now st)"
  by (cases st) (simp_all add: db_cleanup_expired_def Let_def filter_shrinks db_stmt_shrinks del: store_ok.simps)

lemma step_evolves_store:
  assumes "session_env_ok env" "store_ok env st" "op_creates op = None"
  shows "store_evolves env (op_csrf op) st (session_step env op st)"
  using assms by (cases op) (simp_all add: store_get_evolves set_locale_evolves touch_evolves store_remove_shrinks
      remove_others_shrinks cleanup_shrinks shrinks_evolves set_election_evolves set_paper_correction_evolves session_env_ok_def)

interpretation sess: session_backend "\<lambda>st. session_env_ok env \<and> store_ok env st" "session_view env" "session_step env" op_creates op_csrf
proof
  fix st op
  assume ok: "session_env_ok env \<and> store_ok env st"
  show "session_env_ok env \<and> store_ok env (session_step env op st)"
    using ok step_evolves_store [of env st op] insert_evolves [of env st]
    by (cases op) (auto simp: store_evolves_def)
  fix h x'
  assume "op_creates op \<noteq> Some h" "session_view env (session_step env op st) h = Some x'"
  then show "\<exists>x. session_view env st h = Some x \<and> session_evolves x x'
        \<and> (ss_csrf_token x' = ss_csrf_token x \<or> op_csrf op = Some (ss_csrf_token x'))"
    using ok step_evolves_store [of env st op] insert_evolves [of env st]
    by (cases op) (auto simp: store_evolves_def)
qed

lemma db_switch_view:
  assumes "store_ok env (Database t)"
    and "require_updated (run_stmt i t (db_update h (\<lambda>row. sr_csrf_token row = c \<and> P (sr_identity row))
      (\<lambda>row. row\<lparr>sr_identity := g (sr_identity row), sr_csrf_token := csrf\<rparr>) t)) = (t', Inr ())"
    and "\<And>j u. P j \<Longrightarrow> js_read (sv_json env) j = Some u \<Longrightarrow> js_read (sv_json env) (g j) \<noteq> None"
  shows "\<exists>y y'. session_view env (Database t) h = Some y \<and> ss_csrf_token y = c
      \<and> session_view env (Database t') h = Some y' \<and> ss_csrf_token y' = csrf"
proof -
  from assms(2) obtain row where row: "hm_get t h = Some row" "sr_csrf_token row = c" "P (sr_identity row)"
    "hm_get t' h = Some (row\<lparr>sr_identity := g (sr_identity row), sr_csrf_token := csrf\<rparr>)"
    by (cases i; cases "hm_get t h") (auto simp: db_update_def split: if_splits)
  from assms(1) row(1) obtain u where u: "js_read (sv_json env) (sr_identity row) = Some u" by auto
  from assms(3) [OF row(3) u] obtain u' where "js_read (sv_json env) (g (sr_identity row)) = Some u'" by blast
  with u row show ?thesis by (simp add: session_from_row_def)
qed

lemma json_ok_settable:
  assumes "session_env_ok env" "js_read (sv_json env) j = Some u"
  shows "js_has_political_group (sv_json env) j \<Longrightarrow> js_read (sv_json env) (js_set_election (sv_json env) e j) \<noteq> None"
    and "js_has_committee (sv_json env) j \<Longrightarrow> js_read (sv_json env) (js_set_correction (sv_json env) c j) \<noteq> None"
  using assms by (auto simp: session_env_ok_def json_okD scope_userE)

lemma set_election_switch:
  assumes "session_env_ok env" "store_ok env st" "store_set_election env i csrf x e st = (st', Inr ())"
  shows "\<exists>y y'. session_view env st (ss_token_hash x) = Some y \<and> ss_csrf_token y = ss_csrf_token x
      \<and> session_view env st' (ss_token_hash x) = Some y' \<and> ss_csrf_token y' = csrf"
proof (cases st)
  case (InMemory m)
  with assms show ?thesis
    by (auto simp: csrf_matches_def csrf_token_matches_def split: option.splits if_splits session_user.splits)
next
  case (Database t)
  with assms(3) obtain t' where t': "st' = Database t'" "db_set_election env i x e csrf t = (t', Inr ())"
    by (cases "db_set_election env i x e csrf t") (auto simp: on_db_def)
  with db_switch_view [OF _ t'(2) [unfolded db_set_election_def] json_ok_settable(1)] assms Database
  show ?thesis by simp
qed

lemma set_paper_correction_switch:
  assumes "session_env_ok env" "store_ok env st"
    and "store_set_paper_correction_stream_id env i csrf x p st = (st', Inr ())"
  shows "\<exists>y y'. session_view env st (ss_token_hash x) = Some y \<and> ss_csrf_token y = ss_csrf_token x
      \<and> session_view env st' (ss_token_hash x) = Some y' \<and> ss_csrf_token y' = csrf"
proof (cases st)
  case (InMemory m)
  with assms show ?thesis
    by (auto simp: csrf_matches_def csrf_token_matches_def split: option.splits if_splits session_user.splits)
next
  case (Database t)
  with assms(3) obtain t' where t': "st' = Database t'" "db_set_paper_correction_stream_id env i x p csrf t = (t', Inr ())"
    by (cases "db_set_paper_correction_stream_id env i x p csrf t") (auto simp: on_db_def)
  with db_switch_view [OF _ t'(2) [unfolded db_set_paper_correction_stream_id_def] json_ok_settable(2)] assms Database
  show ?thesis by simp
qed

text \<open>Choosing an election, and entering or leaving paper corrections, are such switches.\<close>

lemma switch_store_ok:
  assumes "session_env_ok env" "store_ok env st"
  shows "store_set_election env i csrf x e st = (st', r) \<Longrightarrow> store_ok env st'"
    and "store_set_paper_correction_stream_id env i csrf x p st = (st', r) \<Longrightarrow> store_ok env st'"
  using set_election_evolves [of env st csrf i x e] set_paper_correction_evolves [of env st csrf i x p] assms
  by (auto simp: store_evolves_def session_env_ok_def)

interpretation choose: session_switch "\<lambda>st. session_env_ok env \<and> store_ok env st" "session_view env" "session_step env" op_creates op_csrf
  "\<lambda>c csrf x st. store_set_election env (fst c) csrf x (snd c) st"
  by unfold_locales (blast intro: set_election_switch switch_store_ok(1))

interpretation correct: session_switch "\<lambda>st. session_env_ok env \<and> store_ok env st" "session_view env" "session_step env" op_creates op_csrf
  "\<lambda>c csrf x st. store_set_paper_correction_stream_id env (fst c) csrf x (snd c) st"
  by unfold_locales (blast intro: set_paper_correction_switch switch_store_ok(2))

end
