(* ===== verification/Request_Gate.thy ===== *)
theory Request_Gate
  imports Session_Facts
begin

text \<open>
  What a request passes before a handler sees it: the CSRF check (\<open>auth/csrf_guard.rs\<close>), the
  session middleware and the choice of the store (\<open>app/middleware/session.rs\<close>), as built
  without the development features. Parsing of cookies, headers, forms and bodies is the
  packages'; a header is its name with the text \<open>to_str\<close> reads from it, if any. The clock
  and the statements of one request are numbered in the order they are used.
\<close>

subsection \<open>Requests\<close>

datatype http_method = GET | HEAD | OPTIONS | OtherMethod rstring

record 'b request =
  rq_method :: http_method
  rq_path :: rstring
  rq_query :: "rstring option"
  rq_headers :: "(rstring \<times> rstring option) list"
  rq_cookie :: "rstring option"
  rq_body :: 'b

datatype body_error = LengthLimit | Transport

record 'b http_env =
  he_form_parse :: "byte list \<Rightarrow> (rstring \<times> rstring) list"
  he_to_bytes :: "'b \<Rightarrow> nat \<Rightarrow> body_error + byte list"
  he_from_bytes :: "byte list \<Rightarrow> 'b"

definition header_str :: "rstring \<Rightarrow> (rstring \<times> rstring option) list \<Rightarrow> rstring option" where
  "header_str name headers = Option.bind (map_of headers name) (\<lambda>v. v)"

subsection \<open>The CSRF guard\<close>

definition CSRF_FORM_FIELD :: rstring where "CSRF_FORM_FIELD = lit ''csrf_token''"
definition CSRF_HEADER :: rstring where "CSRF_HEADER = lit ''x-csrf-token''"
definition URLENCODED_BODY_CAP :: nat where "URLENCODED_BODY_CAP = 2 * 1024 * 1024"

definition is_safe_method :: "http_method \<Rightarrow> bool" where
  "is_safe_method m = (m = GET \<or> m = HEAD \<or> m = OPTIONS)"

datatype csrf_rejection = InvalidToken | BodyTooLarge | UnreadableBody

definition content_type :: "(rstring \<times> rstring option) list \<Rightarrow> rstring option" where
  "content_type headers = header_str (lit ''content-type'') headers"

definition is_urlencoded :: "(rstring \<times> rstring option) list \<Rightarrow> bool" where
  "is_urlencoded headers = (case content_type headers of None \<Rightarrow> False
    | Some ct \<Rightarrow> starts_with ct (lit ''application/x-www-form-urlencoded''))"

definition is_multipart :: "(rstring \<times> rstring option) list \<Rightarrow> bool" where
  "is_multipart headers = (case content_type headers of None \<Rightarrow> False
    | Some ct \<Rightarrow> starts_with ct (lit ''multipart/form-data''))"

definition header_token :: "(rstring \<times> rstring option) list \<Rightarrow> rstring option" where
  "header_token headers = header_str CSRF_HEADER headers"

definition urlencoded_token :: "'b http_env \<Rightarrow> byte list \<Rightarrow> rstring option" where
  "urlencoded_token henv bytes = map_option snd (find (\<lambda>(name, _). name = CSRF_FORM_FIELD) (he_form_parse henv bytes))"

definition query_token :: "'b http_env \<Rightarrow> 'b request \<Rightarrow> rstring option" where
  "query_token henv rq = Option.bind (rq_query rq) (\<lambda>q. urlencoded_token henv (str_bytes q))"

definition matches_opt :: "rstring option \<Rightarrow> session \<Rightarrow> bool" where
  "matches_opt token s = (case token of None \<Rightarrow> False | Some t \<Rightarrow> csrf_matches t s)"

definition enforce_csrf :: "'b http_env \<Rightarrow> 'b request \<Rightarrow> session \<Rightarrow> csrf_rejection + 'b request" where
  "enforce_csrf henv rq s =
    (if is_safe_method (rq_method rq) then Ok rq
     else case header_token (rq_headers rq) of
       Some token \<Rightarrow> if csrf_matches token s then Ok rq else Err InvalidToken
     | None \<Rightarrow>
        if is_multipart (rq_headers rq) then
          (if matches_opt (query_token henv rq) s then Ok rq else Err InvalidToken)
        else if \<not> is_urlencoded (rq_headers rq) then Err InvalidToken
        else (case he_to_bytes henv (rq_body rq) URLENCODED_BODY_CAP of
            Inl LengthLimit \<Rightarrow> Err BodyTooLarge
          | Inl Transport \<Rightarrow> Err UnreadableBody
          | Inr bytes \<Rightarrow> if matches_opt (urlencoded_token henv bytes) s
              then Ok (rq\<lparr>rq_body := he_from_bytes henv bytes\<rparr>) else Err InvalidToken))"

subsection \<open>The session middleware\<close>

definition user_agent_hash :: "hash_fn \<Rightarrow> (rstring \<times> rstring option) list \<Rightarrow> rstring" where
  "user_agent_hash sha headers =
    (let ua = (case header_str (lit ''user-agent'') headers of None \<Rightarrow> [] | Some ua \<Rightarrow> ua)
     in take 16 (sha256_hex sha (str_bytes ua)))"

definition is_activity_free :: "'b request \<Rightarrow> bool" where
  "is_activity_free rq = (rq_method rq = GET \<and> rq_path rq = lit ''/session'')"

definition is_brp_status_poll :: "'b request \<Rightarrow> bool" where
  "is_brp_status_poll rq = (rq_method rq = GET \<and> ends_with (rq_path rq) (lit ''/brp-check/status''))"

datatype 'b gate_outcome =
    RedirectTo rstring
  | RedirectClearingCookie rstring
  | CsrfRejected csrf_rejection app_locale
  | DbFailure app_error
  | Serve "'b request" session bool

record gate_config =
  gc_csb_webauthn :: "csb_webauthn_user list option"
  gc_has_csb_listener :: bool

definition LoginStartPath :: rstring where "LoginStartPath = lit ''/login''"
definition CsbLoginPath :: rstring where "CsbLoginPath = lit ''/csb/login''"
definition CsbIndexPath :: rstring where "CsbIndexPath = lit ''/csb''"
definition PgIndexPath :: rstring where "PgIndexPath = lit ''/''"
definition SelectElectionPath :: rstring where "SelectElectionPath = lit ''/select-election''"

definition remove_if_some :: "'j session_env \<Rightarrow> io \<Rightarrow> rstring option \<Rightarrow> 'j session_store \<Rightarrow> 'j session_store \<times> unit result" where
  "remove_if_some env i token st = (case token of
      None \<Rightarrow> (st, Ok ())
    | Some t \<Rightarrow> (case store_remove env i t st of (st, Inl e) \<Rightarrow> (st, Err e) | (st, Inr _) \<Rightarrow> (st, Ok ())))"

definition reject_on_user_agent_mismatch ::
  "'j session_env \<Rightarrow> io \<Rightarrow> session \<Rightarrow> 'b request \<Rightarrow> 'j session_store \<Rightarrow> 'j session_store \<times> 'b gate_outcome option result" where
  "reject_on_user_agent_mismatch env i s rq st = (case ss_user_agent_hash s of
      None \<Rightarrow> (st, Ok None)
    | Some expected \<Rightarrow>
        if user_agent_hash (sv_sha256 env) (rq_headers rq) = expected then (st, Ok None)
        else (case remove_if_some env i (rq_cookie rq) st of
          (st, Inl e) \<Rightarrow> (st, Err e)
        | (st, Inr _) \<Rightarrow> (st, Ok (Some (RedirectTo LoginStartPath)))))"

definition is_committee :: "session \<Rightarrow> bool" where
  "is_committee s = (case ss_user s of CommitteeUser _ _ _ \<Rightarrow> True | _ \<Rightarrow> False)"

definition reject_session ::
  "'j session_env \<Rightarrow> gate_config \<Rightarrow> io \<Rightarrow> bool \<Rightarrow> session \<Rightarrow> 'b request \<Rightarrow> 'j session_store
    \<Rightarrow> 'j session_store \<times> 'b gate_outcome option result" where
  "reject_session env cfg i public_listener s rq st =
    (if public_listener \<and> is_committee s then (st, Ok (Some (RedirectTo LoginStartPath)))
     else if \<not> is_authorized (gc_csb_webauthn cfg) (ss_user s) then
       (case remove_if_some env i (rq_cookie rq) st of
          (st, Inl e) \<Rightarrow> (st, Err e)
        | (st, Inr _) \<Rightarrow> (st, Ok (Some (RedirectClearingCookie CsbLoginPath))))
     else reject_on_user_agent_mismatch env i s rq st)"

text \<open>\<open>Serve\<close> is the call of the next layer, with whether the session cookie is replaced by
  its strict twin afterwards.\<close>

definition session_middleware ::
  "'j session_env \<Rightarrow> 'b http_env \<Rightarrow> gate_config \<Rightarrow> (nat \<Rightarrow> io) \<Rightarrow> (nat \<Rightarrow> timestamp) \<Rightarrow> bool \<Rightarrow> 'b request
    \<Rightarrow> 'j session_store \<Rightarrow> 'j session_store \<times> 'b gate_outcome" where
  "session_middleware env henv cfg ios clock public_listener rq st =
    (case get_existing env ios (clock 0) (rq_cookie rq) st of
      (st, Inl e) \<Rightarrow> (st, DbFailure e)
    | (st, Inr None) \<Rightarrow>
        (st, RedirectTo (if \<not> public_listener \<and> gc_has_csb_listener cfg
            \<and> (rq_path rq = PgIndexPath \<or> rq_path rq = CsbIndexPath) then CsbLoginPath else LoginStartPath))
    | (st, Inr (Some s)) \<Rightarrow>
        (case reject_session env cfg (ios 3) public_listener s rq st of
          (st, Inl e) \<Rightarrow> (st, DbFailure e)
        | (st, Inr (Some rejection)) \<Rightarrow> (st, rejection)
        | (st, Inr None) \<Rightarrow>
            (case enforce_csrf henv rq s of
              Inl rejection \<Rightarrow> (st, CsrfRejected rejection (ss_locale s))
            | Inr rq \<Rightarrow>
                let harden_cookie = is_unused s in
                if \<not> is_activity_free rq \<and> \<not> is_brp_status_poll rq then
                  let s = s\<lparr>ss_last_activity := clock 1\<rparr> in
                  (store_touch env (ios 4) s st, Serve rq s harden_cookie)
                else (st, Serve rq s harden_cookie))))"

subsection \<open>The store of a request\<close>

datatype store_choice =
    StoreRedirect rstring
  | PaperCorrectionsStore stream_id election_config csb_user
  | OwnStore stream_id election_config

definition store_middleware :: "rstring \<Rightarrow> session \<Rightarrow> store_choice" where
  "store_middleware path s = (case ss_user s of
      CommitteeUser user election correcting \<Rightarrow> (case correcting of
          None \<Rightarrow> StoreRedirect CsbIndexPath
        | Some stream \<Rightarrow>
            if starts_with path (lit ''/finalise'') \<or> starts_with path (lit ''/generate/'')
            then StoreRedirect PgIndexPath
            else PaperCorrectionsStore stream election user)
    | PoliticalGroupUser stream _ election \<Rightarrow> (case election of
          None \<Rightarrow> StoreRedirect SelectElectionPath
        | Some election \<Rightarrow> OwnStore stream election))"

definition csb_store_middleware :: "session \<Rightarrow> election_config result" where
  "csb_store_middleware s = (case ss_user s of
      CommitteeUser _ election _ \<Rightarrow> Ok election
    | PoliticalGroupUser _ _ _ \<Rightarrow> Err Unauthorised)"

subsection \<open>Facts\<close>

text \<open>The token a mutating request presents: in the header, else in the query of an upload,
  else in the form.\<close>

definition presents_csrf :: "'b http_env \<Rightarrow> 'b request \<Rightarrow> session \<Rightarrow> bool" where
  "presents_csrf henv rq s = (case header_token (rq_headers rq) of
      Some t \<Rightarrow> t = ss_csrf_token s
    | None \<Rightarrow> if is_multipart (rq_headers rq) then query_token henv rq = Some (ss_csrf_token s)
        else is_urlencoded (rq_headers rq) \<and> (\<exists>bytes. he_to_bytes henv (rq_body rq) URLENCODED_BODY_CAP = Inr bytes
          \<and> urlencoded_token henv bytes = Some (ss_csrf_token s)))"

lemma matches_opt_iff: "matches_opt t s \<longleftrightarrow> t = Some (ss_csrf_token s)"
  by (auto simp: matches_opt_def csrf_matches_def csrf_token_matches_def split: option.splits)

lemma enforce_csrf_ok_iff:
  "is_ok (enforce_csrf henv rq s) \<longleftrightarrow> is_safe_method (rq_method rq) \<or> presents_csrf henv rq s"
  by (auto simp: enforce_csrf_def presents_csrf_def matches_opt_iff csrf_matches_def csrf_token_matches_def is_ok_def
      split: option.splits sum.splits body_error.splits)

lemma enforce_csrf_same:
  "enforce_csrf henv rq s = Inr rq' \<Longrightarrow> rq_method rq' = rq_method rq \<and> rq_path rq' = rq_path rq \<and> rq_cookie rq' = rq_cookie rq"
  by (auto simp: enforce_csrf_def split: if_splits option.splits sum.splits body_error.splits)

lemma fst_remove_if_some:
  "fst (remove_if_some env i token st) = (case token of None \<Rightarrow> st | Some t \<Rightarrow> fst (store_remove env i t st))"
  by (simp add: remove_if_some_def split: option.split prod.split sum.split)

lemma remove_if_some_evolves: "store_ok env st \<Longrightarrow> store_evolves env c st (fst (remove_if_some env i token st))"
  by (simp add: fst_remove_if_some store_remove_shrinks shrinks_evolves split: option.split)

lemma store_evolves_trans:
  assumes "store_evolves env None a b" "store_evolves env None b c"
  shows "store_evolves env None a c"
  unfolding store_evolves_def
proof (intro conjI allI impI)
  fix h x'
  assume "session_view env c h = Some x'"
  with assms(2) obtain y where y: "session_view env b h = Some y" "session_evolves y x'" "ss_csrf_token x' = ss_csrf_token y"
    unfolding store_evolves_def by blast
  with assms(1) obtain x where "session_view env a h = Some x" "session_evolves x y" "ss_csrf_token y = ss_csrf_token x"
    unfolding store_evolves_def by blast
  with y show "\<exists>x. session_view env a h = Some x \<and> session_evolves x x'
      \<and> (ss_csrf_token x' = ss_csrf_token x \<or> None = Some (ss_csrf_token x'))"
    by (auto intro: session_evolves_trans)
qed (use assms(2) in \<open>simp add: store_evolves_def\<close>)

lemma reject_session_evolves:
  assumes "store_ok env st"
  shows "store_evolves env None st (fst (reject_session env cfg i pl s rq st))"
  using remove_if_some_evolves [OF assms, of None i "rq_cookie rq"] assms
  by (auto simp: reject_session_def reject_on_user_agent_mismatch_def split: option.split prod.split sum.split)

lemma reject_session_None_iff:
  "snd (reject_session env cfg i pl s rq st) = Inr None \<longleftrightarrow>
     \<not> (pl \<and> is_committee s) \<and> is_authorized (gc_csb_webauthn cfg) (ss_user s)
     \<and> (\<forall>h. ss_user_agent_hash s = Some h \<longrightarrow> user_agent_hash (sv_sha256 env) (rq_headers rq) = h)"
  by (cases "remove_if_some env i (rq_cookie rq) st")
    (auto simp: reject_session_def reject_on_user_agent_mismatch_def split: option.splits sum.splits)

lemma reject_session_None_same:
  "reject_session env cfg i pl s rq st = (st', Inr None) \<Longrightarrow> st' = st"
  by (cases "remove_if_some env i (rq_cookie rq) st")
    (auto simp: reject_session_def reject_on_user_agent_mismatch_def split: option.splits sum.splits if_splits)

lemma reject_session_no_serve:
  "reject_session env cfg i pl s rq st = (st', Inr (Some rejection)) \<Longrightarrow> rejection \<noteq> Serve rq' s' harden"
  by (cases "remove_if_some env i (rq_cookie rq) st")
    (auto simp: reject_session_def reject_on_user_agent_mismatch_def split: option.splits sum.splits if_splits)

end
