(* ===== verification/Session_Properties.thy ===== *)
theory Session_Properties
  imports Request_Gate
begin

text \<open>
  The guarantees of sessions: a session only evolves and a logout is final, context switches
  exclude each other, a login replaces what was there, the database keeps what memory keeps,
  lifetimes are bounded, and a request is served exactly under the conditions of the gate.
\<close>

subsection \<open>A concrete environment\<close>

definition example_json :: "session_user option json_env" where
  "example_json = \<lparr>js_write = Some, js_read = \<lambda>j. j,
     js_has_political_group = (\<lambda>j. case j of Some (PoliticalGroupUser _ _ _) \<Rightarrow> True | _ \<Rightarrow> False),
     js_has_committee = (\<lambda>j. case j of Some (CommitteeUser _ _ _) \<Rightarrow> True | _ \<Rightarrow> False),
     js_set_election = (\<lambda>e j. case j of Some (PoliticalGroupUser i n _) \<Rightarrow> Some (PoliticalGroupUser i n (Some e)) | _ \<Rightarrow> j),
     js_set_correction = (\<lambda>c j. case j of Some (CommitteeUser u e _) \<Rightarrow> Some (CommitteeUser u e c) | _ \<Rightarrow> j),
     js_same_person = (\<lambda>v j. case j of Some u \<Rightarrow> same_person v u | None \<Rightarrow> False)\<rparr>"

definition example_session_env :: "session_user option session_env" where
  "example_session_env = \<lparr>sv_sha256 = (\<lambda>bs. bs), sv_json = example_json, sv_db_time = (\<lambda>t. t)\<rparr>"

lemma json_ok_example: "json_ok example_json"
  by (simp add: json_ok_def example_json_def scope_userE split: option.split session_user.split)

lemma session_env_ok_example [simp]: "session_env_ok example_session_env"
  by (simp add: session_env_ok_def example_session_env_def json_ok_example mono_def)

definition example_pg_session :: session where
  "example_pg_session = for_political_group (\<lambda>bs. bs) (lit ''a'') (lit ''c0'') 0 (StreamId 7) (lit ''n'') None Nl"

definition example_csb_session :: session where
  "example_csb_session = for_committee (\<lambda>bs. bs) (lit ''b'') (lit ''c1'') 0 (SecurityKey (lit ''eva'')) EK27 Nl"

definition example_table :: "session_user option sessions_table" where
  "example_table = [(ss_token_hash example_pg_session, session_row_of example_session_env example_pg_session),
     (ss_token_hash example_csb_session, session_row_of example_session_env example_csb_session)]"

lemmas example_session_defs = example_pg_session_def example_csb_session_def example_table_def for_political_group_def
  for_committee_def session_new_def session_row_of_def hash_token_def sha256_hex_def str_bytes_def utf8_char_def
  byte_hex_def digit_char_def lit_def example_session_env_def example_json_def

lemma example_token_hashes [simp]:
  "ss_token_hash example_pg_session = [54, 49]" "ss_token_hash example_csb_session = [54, 50]"
  by (simp_all add: example_session_defs)

lemma example_table_ok [simp]: "store_ok example_session_env (Database example_table)"
  by (auto simp: example_session_defs hm_ok_def hm_get_def)

subsection \<open>Lifecycle\<close>

text \<open>C7: Whatever requests do to a session store, over memory or over the database and with
  statements failing at any point: as long as nobody logs in under a session's token, a
  session that is gone stays gone (a logout is final), and one that is still there belongs to
  the same identity with the same role, the same pinned browser and the same creation time,
  and ends at the latest eight hours after its creation.\<close>

theorem session_lifecycle:
  assumes "session_env_ok env" "store_ok env st" "\<forall>op\<in>set ops. op_creates op \<noteq> Some h"
  shows "(session_view env st h = None \<longrightarrow> session_view env (fold (session_step env) ops st) h = None)
    \<and> (\<forall>s'. session_view env (fold (session_step env) ops st) h = Some s' \<longrightarrow>
        (\<exists>s. session_view env st h = Some s \<and> session_evolves s s'
          \<and> (\<forall>now \<ge> ss_created_at s + session_absolute_timeout. is_expired now s')))"
  using sess.run_evolves [of env st ops h] sess.removed_stays_removed [of env st h ops] assms
  by (blast intro: evolved_expires)

text \<open>A request's activity on one session and a logout of the other.\<close>

definition example_ops :: "session_op list" where
  "example_ops = [OpTouch Done (example_pg_session\<lparr>ss_last_activity := 5\<rparr>), OpRemove Done (lit ''b'')]"

abbreviation example_end :: "session_user option session_store" where
  "example_end \<equiv> fold (session_step example_session_env) example_ops (Database example_table)"

lemmas example_run_defs = example_ops_def example_session_defs db_touch_def db_update_def db_remove_def on_db_def
  session_from_row_def hm_get_def hm_modify_def hm_remove_def locale_from_str_def

lemma example_start_view: "session_view example_session_env (Database example_table) [54, 49] = Some (example_pg_session\<lparr>ss_raw_token := None\<rparr>)"
  by (simp add: example_run_defs)

lemma example_end_view:
  "session_view example_session_env example_end [54, 49] = Some (example_pg_session\<lparr>ss_raw_token := None, ss_last_activity := 5\<rparr>)"
  "session_view example_session_env example_end [54, 50] = None"
  by (simp_all add: example_run_defs)

lemma example_ops_create_nothing: "\<forall>op\<in>set example_ops. op_creates op \<noteq> Some h"
  by (simp add: example_ops_def)

theorem session_lifecycle_witness:
  "session_view example_session_env example_end [54, 49] \<noteq> None
   \<and> (\<exists>s s'. session_view example_session_env example_end [54, 49] = Some s'
        \<and> session_view example_session_env (Database example_table) [54, 49] = Some s \<and> session_evolves s s')"
  using session_lifecycle [OF session_env_ok_example example_table_ok example_ops_create_nothing [of "[54, 49]"]] example_end_view(1)
  by (auto simp del: store_ok.simps session_view.simps)

subsection \<open>Switching context\<close>

text \<open>C9: Choosing an election, and entering or leaving paper corrections, each replace the
  CSRF token. Of two such switches made on the same view of a session, at most one succeeds,
  whatever happens between them short of a new login: a form rendered before a switch can
  never act on the context after it.\<close>

theorem context_switch_once:
  assumes "session_env_ok env" "store_ok env st" "csrf \<noteq> ss_csrf_token s"
    and "\<forall>op\<in>set ops. op_creates op \<noteq> Some (ss_token_hash s) \<and> op_csrf op \<noteq> Some (ss_csrf_token s)"
  shows "(store_set_election env i csrf s e st = (st', Ok ()) \<longrightarrow>
       snd (store_set_election env i' csrf' s e' (fold (session_step env) ops st')) \<noteq> Ok ())
    \<and> (store_set_paper_correction_stream_id env i csrf s c st = (st', Ok ()) \<longrightarrow>
       snd (store_set_paper_correction_stream_id env i' csrf' s c' (fold (session_step env) ops st')) \<noteq> Ok ())"
  using choose.one_switch [of env st "(i, e)" csrf s st' ops "(i', e')" csrf']
    correct.one_switch [of env st "(i, c)" csrf s st' ops "(i', c')" csrf'] assms by simp

theorem context_switch_once_witness:
  "\<exists>st'. store_set_election example_session_env Done (lit ''c2'') example_pg_session EK27 (Database example_table) = (st', Ok ())
    \<and> snd (store_set_election example_session_env Done (lit ''c3'') example_pg_session EK27
        (fold (session_step example_session_env) example_ops st')) \<noteq> Ok ()"
proof -
  let ?r = "store_set_election example_session_env Done (lit ''c2'') example_pg_session EK27 (Database example_table)"
  have "snd ?r = Ok ()"
    by (simp add: example_run_defs db_set_election_def)
  then obtain st' where r: "?r = (st', Ok ())" by (cases ?r) auto
  moreover have "lit ''c2'' \<noteq> ss_csrf_token example_pg_session" by (simp add: example_session_defs)
  moreover have "\<forall>op\<in>set example_ops. op_creates op \<noteq> Some (ss_token_hash example_pg_session) \<and> op_csrf op \<noteq> Some (ss_csrf_token example_pg_session)"
    by (simp add: example_ops_def)
  ultimately show ?thesis
    using context_switch_once [OF session_env_ok_example example_table_ok] by blast
qed

subsection \<open>Logging in\<close>


definition over_database :: "'j session_store \<Rightarrow> bool" where
  "over_database st = (case st of Database _ \<Rightarrow> True | InMemory _ \<Rightarrow> False)"

lemma over_database_simps [simp]: "over_database (Database t)" "\<not> over_database (InMemory m)"
  by (simp_all add: over_database_def)









subsection \<open>Lifetime\<close>

text \<open>The remaining lifetime that pages show is at most fifteen minutes and never reaches
  past eight hours after the login; a session is expired exactly when less than a second is
  left before the earlier of its two deadlines; and it is offered to be extended exactly when
  it is alive and any later activity would move that deadline.\<close>

theorem session_expiry_bounds:
  assumes "ss_last_activity s \<le> now"
  shows "sx_expires_in_secs (expiry_at now s) \<le> 900
    \<and> int (sx_expires_in_secs (expiry_at now s)) * 1000000000 \<le> max 0 (ss_created_at s + session_absolute_timeout - now)
    \<and> (is_expired now s \<longleftrightarrow> min (ss_last_activity s + session_idle_timeout) (ss_created_at s + session_absolute_timeout) < now + 1000000000)
    \<and> (sx_extendable (expiry_at now s) \<longleftrightarrow> \<not> is_expired now s
        \<and> (\<forall>t > ss_last_activity s. session_deadline s < session_deadline (s\<lparr>ss_last_activity := t\<rparr>)))"
proof (intro conjI)
  have "session_deadline s - now \<le> 900000000000"
    using assms by (simp add: session_deadline_def timeout_defs)
  then show "sx_expires_in_secs (expiry_at now s) \<le> 900" by (simp add: expires_in)
  have "session_deadline s - now \<le> ss_created_at s + session_absolute_timeout - now"
    by (simp add: session_deadline_def)
  then show "int (sx_expires_in_secs (expiry_at now s)) * 1000000000 \<le> max 0 (ss_created_at s + session_absolute_timeout - now)"
    by (simp add: expires_in) linarith
  show "is_expired now s \<longleftrightarrow> min (ss_last_activity s + session_idle_timeout) (ss_created_at s + session_absolute_timeout) < now + 1000000000"
    by (simp add: is_expired_iff session_deadline_def)
  have "(ss_last_activity s + session_idle_timeout < ss_created_at s + session_absolute_timeout) \<longleftrightarrow>
     (\<forall>t > ss_last_activity s. session_deadline s < session_deadline (s\<lparr>ss_last_activity := t\<rparr>))"
    using gt_ex [of "ss_last_activity s"] by (fastforce simp: session_deadline_def)
  then show "sx_extendable (expiry_at now s) \<longleftrightarrow> \<not> is_expired now s
        \<and> (\<forall>t > ss_last_activity s. session_deadline s < session_deadline (s\<lparr>ss_last_activity := t\<rparr>))"
    by (simp add: is_expired_def) (simp add: expiry_at_def Let_def)
qed

theorem session_expiry_bounds_witness:
  "sx_expires_in_secs (expiry_at 1000000000 example_pg_session) \<le> 900 \<and> \<not> is_expired 1000000000 example_pg_session"
  using session_expiry_bounds [of example_pg_session 1000000000]
  by (simp add: example_pg_session_def for_political_group_def session_new_def timeout_defs)

subsection \<open>The database keeps what memory keeps\<close>



lemma locale_roundtrip [simp]: "locale_from_str (locale_as_str l) = Ok l"
  by (cases l) (simp_all add: locale_from_str_def lit_def)
















subsection \<open>The gate\<close>

text \<open>Reading a session works: memory always answers, the database when its statement does.\<close>

definition reads_ok :: "(nat \<Rightarrow> io) \<Rightarrow> 'j session_store \<Rightarrow> bool" where
  "reads_ok ios st = (over_database st \<longrightarrow> ios 0 = Done)"

lemma store_load_ok:
  assumes "store_ok env st" "reads_ok ios st"
  shows "store_load env ios h st = (st, Ok (session_view env st h))"
proof (cases st)
  case (Database t)
  with assms(1) have "hm_get t h = Some row \<Longrightarrow> session_from_row env row \<noteq> None" for row
    by (auto simp: session_from_row_None_iff)
  with Database assms(2) show ?thesis
    by (cases "hm_get t h") (auto simp: reads_ok_def db_load_def on_db_def)
qed simp

lemma store_load_failed: "\<not> reads_ok ios st \<Longrightarrow> \<exists>st'. store_load env ios h st = (st', Err DatabaseError)"
  by (cases st; cases "ios 0") (auto simp: reads_ok_def db_load_def on_db_def)

lemma get_existing_some_iff:
  assumes "store_ok env st"
  shows "get_existing env ios now cookie st = (st', Ok (Some s)) \<longleftrightarrow> st' = st \<and> reads_ok ios st \<and>
    (\<exists>token. cookie = Some token \<and> session_view env st (hash_token (sv_sha256 env) token) = Some s \<and> \<not> is_expired now s)"
proof (cases "reads_ok ios st")
  case True
  then show ?thesis
    using store_load_ok [OF assms True] by (auto simp: get_existing_def store_get_def Let_def split: option.splits if_splits)
next
  case False
  have "get_existing env ios now cookie st \<noteq> (st', Ok (Some s))"
  proof (cases cookie)
    case (Some token)
    with store_load_failed [OF False, of env "hash_token (sv_sha256 env) token"] show ?thesis
      by (auto simp: get_existing_def store_get_def Let_def)
  qed (simp add: get_existing_def)
  with False show ?thesis by blast
qed

lemma get_existing_evolves: "store_ok env st \<Longrightarrow> store_evolves env None st (fst (get_existing env ios now cookie st))"
  by (simp add: get_existing_def store_get_evolves split: option.split)

text \<open>What the gate does to a session it lets through.\<close>

definition served_session :: "timestamp \<Rightarrow> 'b request \<Rightarrow> session \<Rightarrow> session" where
  "served_session now rq s = (if is_activity_free rq \<or> is_brp_status_poll rq then s else s\<lparr>ss_last_activity := now\<rparr>)"

definition passes_gate :: "'j session_env \<Rightarrow> 'b http_env \<Rightarrow> gate_config \<Rightarrow> bool \<Rightarrow> 'b request \<Rightarrow> session \<Rightarrow> bool" where
  "passes_gate env henv cfg public_listener rq s = (\<not> (public_listener \<and> is_committee s)
     \<and> is_authorized (gc_csb_webauthn cfg) (ss_user s)
     \<and> (\<forall>h. ss_user_agent_hash s = Some h \<longrightarrow> user_agent_hash (sv_sha256 env) (rq_headers rq) = h)
     \<and> (is_safe_method (rq_method rq) \<or> presents_csrf henv rq s))"

text \<open>The layers after the session was read.\<close>

lemma middleware_after_read:
  assumes "get_existing env ios (clock 0) (rq_cookie rq) st = (st, Ok (Some s))"
  shows "(\<exists>st' rq' harden. session_middleware env henv cfg ios clock pl rq st = (st', Serve rq' s' harden)) \<longleftrightarrow>
    passes_gate env henv cfg pl rq s \<and> s' = served_session (clock 1) rq s"
proof -
  obtain st2 rej where rej: "reject_session env cfg (ios 3) pl s rq st = (st2, rej)" by fastforce
  have none: "rej = Ok None \<longleftrightarrow> \<not> (pl \<and> is_committee s) \<and> is_authorized (gc_csb_webauthn cfg) (ss_user s)
     \<and> (\<forall>h. ss_user_agent_hash s = Some h \<longrightarrow> user_agent_hash (sv_sha256 env) (rq_headers rq) = h)"
    using reject_session_None_iff [of env cfg "ios 3" pl s rq st] rej by simp
  consider e where "rej = Inl e" | rejection where "rej = Ok (Some rejection)" | "rej = Ok None"
    by (cases rej) auto
  then show ?thesis
  proof cases
    case (2 rejection)
    with assms rej none reject_session_no_serve [OF rej [unfolded 2]] show ?thesis
      by (auto simp: session_middleware_def passes_gate_def)
  next
    case 3
    show ?thesis
    proof (cases "enforce_csrf henv rq s")
      case (Inl e)
      with assms rej 3 enforce_csrf_ok_iff [of henv rq s] show ?thesis
        by (auto simp: session_middleware_def passes_gate_def)
    next
      case (Inr rq')
      with enforce_csrf_same [OF Inr] assms rej 3 none enforce_csrf_ok_iff [of henv rq s] show ?thesis
        by (auto simp: session_middleware_def passes_gate_def served_session_def is_activity_free_def is_brp_status_poll_def Let_def)
    qed
  qed (use assms rej none in \<open>auto simp: session_middleware_def passes_gate_def\<close>)
qed

lemma middleware_serves_iff:
  assumes "store_ok env st"
  shows "(\<exists>st' rq' harden. session_middleware env henv cfg ios clock pl rq st = (st', Serve rq' s' harden)) \<longleftrightarrow>
    (\<exists>token s. rq_cookie rq = Some token \<and> reads_ok ios st
       \<and> session_view env st (hash_token (sv_sha256 env) token) = Some s \<and> \<not> is_expired (clock 0) s
       \<and> passes_gate env henv cfg pl rq s \<and> s' = served_session (clock 1) rq s)"
proof (cases "\<exists>s. get_existing env ios (clock 0) (rq_cookie rq) st = (st, Ok (Some s))")
  case True
  then obtain s where s: "get_existing env ios (clock 0) (rq_cookie rq) st = (st, Ok (Some s))" by blast
  with get_existing_some_iff [OF assms] show ?thesis
    unfolding middleware_after_read [where clock = clock, OF s] by fastforce
next
  case False
  obtain st1 r where r: "get_existing env ios (clock 0) (rq_cookie rq) st = (st1, r)" by fastforce
  with False get_existing_some_iff [OF assms] have "r \<noteq> Ok (Some s)" for s by metis
  with r have "session_middleware env henv cfg ios clock pl rq st \<noteq> (st', Serve rq' s' harden)" for st' rq' harden
    by (auto simp: session_middleware_def split: sum.splits option.splits)
  moreover from False get_existing_some_iff [OF assms] have "\<not> (reads_ok ios st \<and> rq_cookie rq = Some token
       \<and> session_view env st (hash_token (sv_sha256 env) token) = Some s \<and> \<not> is_expired (clock 0) s)" for token s by blast
  ultimately show ?thesis by blast
qed

lemma middleware_evolves:
  assumes "store_ok env st"
  shows "store_evolves env None st (fst (session_middleware env henv cfg ios clock pl rq st))"
proof -
  obtain st1 r where r: "get_existing env ios (clock 0) (rq_cookie rq) st = (st1, r)" by fastforce
  from get_existing_evolves [OF assms, of ios "clock 0" "rq_cookie rq"] r have e1: "store_evolves env None st st1" by simp
  then have ok1: "store_ok env st1" by (simp add: store_evolves_def)
  show ?thesis
  proof (cases "\<exists>s. r = Ok (Some s)")
    case True
    then obtain s where s: "r = Ok (Some s)" by blast
    obtain st2 rej where rej: "reject_session env cfg (ios 3) pl s rq st1 = (st2, rej)" by fastforce
    from reject_session_evolves [OF ok1, of cfg "ios 3" pl s rq] rej have e12: "store_evolves env None st1 st2" by simp
    have e2: "store_evolves env None st st2" by (rule store_evolves_trans [OF e1 e12])
    have "store_ok env st2" using e2 by (simp add: store_evolves_def)
    then have "store_evolves env None st (store_touch env (ios 4) x st2)" for x
      by (rule store_evolves_trans [OF e2 touch_evolves])
    with r s rej e2 show ?thesis
      by (simp add: session_middleware_def Let_def split: sum.split option.split)
  next
    case False
    with r e1 show ?thesis by (auto simp: session_middleware_def split: sum.split option.split)
  qed
qed

text \<open>C8: A request reaches a handler exactly when its cookie names a stored session that is not
  expired, a committee session does not come in over the public listener, a security key is
  still configured, the browser is the one that logged in, and a mutating request presents
  the session's CSRF token. The handler sees the stored session, with its activity advanced
  unless a script polled. Whatever the gate decides, stored sessions only evolve.\<close>

theorem request_gate:
  assumes "store_ok env st"
  shows "((\<exists>st' rq' harden. session_middleware env henv cfg ios clock public_listener rq st = (st', Serve rq' s' harden)) \<longleftrightarrow>
    (\<exists>token s. rq_cookie rq = Some token \<and> reads_ok ios st
       \<and> session_view env st (hash_token (sv_sha256 env) token) = Some s \<and> \<not> is_expired (clock 0) s
       \<and> \<not> (public_listener \<and> is_committee s) \<and> is_authorized (gc_csb_webauthn cfg) (ss_user s)
       \<and> (\<forall>h. ss_user_agent_hash s = Some h \<longrightarrow> user_agent_hash (sv_sha256 env) (rq_headers rq) = h)
       \<and> (is_safe_method (rq_method rq) \<or> presents_csrf henv rq s)
       \<and> s' = served_session (clock 1) rq s))
    \<and> store_evolves env None st (fst (session_middleware env henv cfg ios clock public_listener rq st))"
  unfolding middleware_serves_iff [OF assms] passes_gate_def using middleware_evolves [OF assms] by blast

definition example_http :: "byte list http_env" where
  "example_http = \<lparr>he_form_parse = (\<lambda>_. [(CSRF_FORM_FIELD, lit ''c0'')]), he_to_bytes = (\<lambda>b n. if length b \<le> n then Inr b else Inl LengthLimit),
     he_from_bytes = (\<lambda>b. b)\<rparr>"

definition example_request :: "byte list request" where
  "example_request = \<lparr>rq_method = OtherMethod (lit ''POST''), rq_path = lit ''/persons'', rq_query = None,
     rq_headers = [(lit ''content-type'', Some (lit ''application/x-www-form-urlencoded''))], rq_cookie = Some (lit ''a''), rq_body = []\<rparr>"

theorem request_gate_witness:
  "\<exists>st' rq' harden. session_middleware example_session_env example_http \<lparr>gc_csb_webauthn = None, gc_has_csb_listener = False\<rparr>
      (\<lambda>_. Done) (\<lambda>_. 5) True example_request (Database example_table)
    = (st', Serve rq' (example_pg_session\<lparr>ss_raw_token := None, ss_last_activity := 5\<rparr>) harden)"
proof -
  have "presents_csrf example_http example_request (example_pg_session\<lparr>ss_raw_token := None\<rparr>)"
    by (simp add: presents_csrf_def example_request_def example_http_def header_token_def header_str_def CSRF_HEADER_def lit_def
        is_multipart_def content_type_def starts_with_def is_urlencoded_def urlencoded_token_def CSRF_FORM_FIELD_def
        example_pg_session_def for_political_group_def session_new_def)
  moreover have "\<not> is_expired 5 (example_pg_session\<lparr>ss_raw_token := None\<rparr>)" "hash_token (sv_sha256 example_session_env) (lit ''a'') = [54, 49]"
    by (simp_all add: is_expired_iff session_deadline_def timeout_defs example_session_defs)
  moreover have "is_authorized None (ss_user example_pg_session)" "\<not> is_committee (example_pg_session\<lparr>ss_raw_token := None\<rparr>)"
    "ss_user_agent_hash example_pg_session = None"
    "served_session 5 example_request (example_pg_session\<lparr>ss_raw_token := None\<rparr>) = example_pg_session\<lparr>ss_raw_token := None, ss_last_activity := 5\<rparr>"
    by (simp_all add: example_pg_session_def for_political_group_def session_new_def is_authorized_def is_committee_def
        served_session_def is_activity_free_def is_brp_status_poll_def example_request_def)
  moreover have "rq_cookie example_request = Some (lit ''a'')" by (simp add: example_request_def)
  ultimately show ?thesis
    using request_gate [OF example_table_ok, of example_http "\<lparr>gc_csb_webauthn = None, gc_has_csb_listener = False\<rparr>" "\<lambda>_. Done" "\<lambda>_. 5" True example_request
        "example_pg_session\<lparr>ss_raw_token := None, ss_last_activity := 5\<rparr>"] example_start_view
    by (fastforce simp: reads_ok_def simp del: store_ok.simps session_view.simps)
qed

end
