(* ===== verification/Name_Tables.thy ===== *)
theory Name_Tables
  imports Prelude
begin

text \<open>
  The tables of the source: the prefixes of last names (\<open>structs/common/last_name_prefix.rs\<close>),
  the country codes (\<open>structs/common/countries.rs\<close>) and the spellings of localities
  (\<open>utils/locality_aliases.rs\<close>).
\<close>

definition LAST_NAME_PREFIXES :: "rstring list" where
  "LAST_NAME_PREFIXES =
    [lit ''A'', lit ''a'', lit ''aan'', lit ''Aan'', lit ''aan de'', lit ''Aan de'', lit ''aan den'',
     lit ''Aan den'', lit ''aan der'', lit ''Aan der'', lit ''Aan het'', lit ''aan het'', lit ''Aan t'',
     lit ''aan t'', lit ''aan '' @ [39] @ lit ''t'', lit ''Aan '' @ [39] @ lit ''t'', lit ''Af'', lit ''af'',
     lit ''al'', lit ''Al'', lit ''am'', lit ''Am'', lit ''am de'', lit ''Am de'', lit ''auf'', lit ''Auf'',
     lit ''auf dem'', lit ''Auf dem'', lit ''auf den'', lit ''Auf den'', lit ''auf der'', lit ''Auf der'',
     lit ''auf ter'', lit ''Auf ter'', lit ''Aus'', lit ''aus'', lit ''aus dem'', lit ''Aus dem'',
     lit ''Aus den'', lit ''aus den'', lit ''Aus der'', lit ''aus der'', lit ''aus m'', lit ''Aus m'',
     lit ''Aus '' @ [39] @ lit ''m'', lit ''aus '' @ [39] @ lit ''m'', lit ''Ben'', lit ''ben'', lit ''bij'',
     lit ''Bij'', lit ''Bij de'', lit ''bij de'', lit ''bij den'', lit ''Bij den'', lit ''Bij het'',
     lit ''bij het'', lit ''bij t'', lit ''Bij t'', lit ''bij '' @ [39] @ lit ''t'',
     lit ''Bij '' @ [39] @ lit ''t'', lit ''bin'', lit ''Bin'', lit ''boven d'', lit ''Boven d'',
     lit ''boven d'' @ [39], lit ''Boven d'' @ [39], lit ''d'', lit ''D'', lit ''D'' @ [39],
     lit ''d'' @ [39], lit ''Da'', lit ''da'', lit ''Dal'', lit ''dal'', lit ''dal'' @ [39],
     lit ''Dal'' @ [39], lit ''Dalla'', lit ''dalla'', lit ''das'', lit ''Das'', lit ''de'', lit ''De'',
     lit ''de die'', lit ''De die'', lit ''de die le'', lit ''De die le'', lit ''de l'', lit ''De l'',
     lit ''de l'' @ [39], lit ''De l'' @ [39], lit ''de la'', lit ''De la'', lit ''de las'', lit ''De las'',
     lit ''De le'', lit ''de le'', lit ''de van der'', lit ''De van der'', lit ''deca'', lit ''Deca'',
     lit ''Degli'', lit ''degli'', lit ''Dei'', lit ''dei'', lit ''del'', lit ''Del'', lit ''Della'',
     lit ''della'', lit ''den'', lit ''Den'', lit ''Der'', lit ''der'', lit ''des'', lit ''Des'', lit ''di'',
     lit ''Di'', lit ''die le'', lit ''Die le'', lit ''do'', lit ''Do'', lit ''don'', lit ''Don'',
     lit ''dos'', lit ''Dos'', lit ''du'', lit ''Du'', lit ''el'', lit ''El'', lit ''Het'', lit ''het'',
     lit ''i'', lit ''I'', lit ''im'', lit ''Im'', lit ''In'', lit ''in'', lit ''In de'', lit ''in de'',
     lit ''In den'', lit ''in den'', lit ''in der'', lit ''In der'', lit ''in het'', lit ''In het'',
     lit ''in t'', lit ''In t'', lit ''In '' @ [39] @ lit ''t'', lit ''in '' @ [39] @ lit ''t'', lit ''L'',
     lit ''l'', lit ''L'' @ [39], lit ''l'' @ [39], lit ''la'', lit ''La'', lit ''Las'', lit ''las'',
     lit ''le'', lit ''Le'', lit ''les'', lit ''Les'', lit ''lo'', lit ''Lo'', lit ''Los'', lit ''los'',
     lit ''Of'', lit ''of'', lit ''Onder'', lit ''onder'', lit ''onder de'', lit ''Onder de'',
     lit ''onder den'', lit ''Onder den'', lit ''onder het'', lit ''Onder het'', lit ''onder t'',
     lit ''Onder t'', lit ''onder '' @ [39] @ lit ''t'', lit ''Onder '' @ [39] @ lit ''t'', lit ''op'',
     lit ''Op'', lit ''op de'', lit ''Op de'', lit ''Op den'', lit ''op den'', lit ''op der'',
     lit ''Op der'', lit ''Op gen'', lit ''op gen'', lit ''op het'', lit ''Op het'', lit ''op t'',
     lit ''Op t'', lit ''op '' @ [39] @ lit ''t'', lit ''Op '' @ [39] @ lit ''t'', lit ''op ten'',
     lit ''Op ten'', lit ''Over'', lit ''over'', lit ''over de'', lit ''Over de'', lit ''over den'',
     lit ''Over den'', lit ''over het'', lit ''Over het'', lit ''over t'', lit ''Over t'',
     lit ''over '' @ [39] @ lit ''t'', lit ''Over '' @ [39] @ lit ''t'', lit ''s'', lit ''S'',
     [39] @ lit ''s'', [39] @ lit ''S'', lit ''s'' @ [39], lit ''S'' @ [39], lit ''t'', lit ''T'',
     [39] @ lit ''t'', [39] @ lit ''T'', lit ''Te'', lit ''te'', lit ''ten'', lit ''Ten'', lit ''ter'',
     lit ''Ter'', lit ''Tho'', lit ''tho'', lit ''Thoe'', lit ''thoe'', lit ''thor'', lit ''Thor'',
     lit ''to'', lit ''To'', lit ''Toe'', lit ''toe'', lit ''Tot'', lit ''tot'', lit ''uijt'', lit ''Uijt'',
     lit ''Uijt de'', lit ''uijt de'', lit ''Uijt den'', lit ''uijt den'', lit ''Uijt '' @ [39] @ lit ''t'',
     lit ''uijt '' @ [39] @ lit ''t'', lit ''uijt te de'', lit ''Uijt te de'', lit ''uijt ten'',
     lit ''Uijt ten'', lit ''uit'', lit ''Uit'', lit ''Uit de'', lit ''uit de'', lit ''uit den'',
     lit ''Uit den'', lit ''uit het'', lit ''Uit het'', lit ''uit t'', lit ''Uit t'',
     lit ''uit '' @ [39] @ lit ''t'', lit ''Uit '' @ [39] @ lit ''t'', lit ''Uit te de'', lit ''uit te de'',
     lit ''Uit ten'', lit ''uit ten'', lit ''Unter'', lit ''unter'', lit ''van'', lit ''Van'',
     lit ''Van de'', lit ''van De'', lit ''van de'', lit ''van de l'', lit ''Van de l'',
     lit ''Van de l'' @ [39], lit ''van de l'' @ [39], lit ''van den'', lit ''Van Den'', lit ''Van den'',
     lit ''van der'', lit ''Van der'', lit ''Van Der'', lit ''van gen'', lit ''Van gen'', lit ''van het'',
     lit ''Van het'', lit ''van la'', lit ''Van la'', lit ''van t'', lit ''Van t'',
     lit ''Van '' @ [39] @ lit ''t'', lit ''van '' @ [39] @ lit ''t'', lit ''Van ter'', lit ''van ter'',
     lit ''Van van de'', lit ''van van de'', lit ''ver'', lit ''Ver'', lit ''Vom'', lit ''vom'', lit ''von'',
     lit ''Von'', lit ''von dem'', lit ''Von dem'', lit ''von den'', lit ''Von den'', lit ''Von der'',
     lit ''von der'', lit ''Von t'', lit ''von t'', lit ''Von '' @ [39] @ lit ''t'',
     lit ''von '' @ [39] @ lit ''t'', lit ''voor'', lit ''Voor'', lit ''Voor de'', lit ''voor de'',
     lit ''Voor den'', lit ''voor den'', lit ''voor in t'', lit ''Voor in t'',
     lit ''voor in '' @ [39] @ lit ''t'', lit ''Voor in '' @ [39] @ lit ''t'',
     lit ''Voor '' @ [39] @ lit ''t'', lit ''voor '' @ [39] @ lit ''t'', lit ''vor'', lit ''Vor'',
     lit ''vor der'', lit ''Vor der'', lit ''Zu'', lit ''zu'', lit ''zum'', lit ''Zum'', lit ''zur'',
     lit ''Zur'']"

definition COUNTRY_CODES :: "rstring list" where
  "COUNTRY_CODES =
    map lit [''AD'', ''AE'', ''AF'', ''AG'', ''AI'', ''AL'', ''AM'', ''AO'', ''AR'', ''AS'', ''AT'', ''AU'', ''AW'',
     ''AX'', ''AZ'', ''BA'', ''BB'', ''BD'', ''BE'', ''BF'', ''BG'', ''BH'', ''BI'', ''BJ'', ''BL'', ''BM'',
     ''BN'', ''BO'', ''BR'', ''BS'', ''BT'', ''BW'', ''BY'', ''BZ'', ''CA'', ''CC'', ''CD'', ''CF'', ''CG'',
     ''CH'', ''CI'', ''CK'', ''CL'', ''CM'', ''CN'', ''CO'', ''CR'', ''CU'', ''CV'', ''CW'', ''CX'', ''CY'',
     ''CZ'', ''DE'', ''DJ'', ''DK'', ''DM'', ''DO'', ''DZ'', ''EC'', ''EE'', ''EG'', ''EH'', ''ER'', ''ES'',
     ''ET'', ''FI'', ''FJ'', ''FK'', ''FM'', ''FO'', ''FR'', ''GA'', ''GB'', ''GD'', ''GE'', ''GF'', ''GG'',
     ''GH'', ''GI'', ''GL'', ''GM'', ''GN'', ''GP'', ''GQ'', ''GR'', ''GS'', ''GT'', ''GU'', ''GW'', ''GY'',
     ''HN'', ''HR'', ''HT'', ''HU'', ''ID'', ''IE'', ''IL'', ''IM'', ''IN'', ''IO'', ''IQ'', ''IR'', ''IS'',
     ''IT'', ''JE'', ''JM'', ''JO'', ''JP'', ''KE'', ''KG'', ''KH'', ''KI'', ''KM'', ''KN'', ''KP'', ''KR'',
     ''KW'', ''KY'', ''KZ'', ''LA'', ''LB'', ''LC'', ''LI'', ''LK'', ''LR'', ''LS'', ''LT'', ''LU'', ''LV'',
     ''LY'', ''MA'', ''MC'', ''MD'', ''ME'', ''MF'', ''MG'', ''MH'', ''MK'', ''ML'', ''MM'', ''MN'', ''MP'',
     ''MQ'', ''MR'', ''MS'', ''MT'', ''MU'', ''MV'', ''MW'', ''MX'', ''MY'', ''MZ'', ''NA'', ''NC'', ''NE'',
     ''NF'', ''NG'', ''NI'', ''NL'', ''NO'', ''NP'', ''NR'', ''NU'', ''NZ'', ''OM'', ''PA'', ''PE'', ''PF'',
     ''PG'', ''PH'', ''PK'', ''PL'', ''PM'', ''PN'', ''PR'', ''PS'', ''PT'', ''PW'', ''PY'', ''QA'', ''RE'',
     ''RO'', ''RS'', ''RU'', ''RW'', ''SA'', ''SB'', ''SC'', ''SD'', ''SE'', ''SG'', ''SH'', ''SI'', ''SJ'',
     ''SK'', ''SL'', ''SM'', ''SN'', ''SO'', ''SR'', ''SS'', ''ST'', ''SV'', ''SX'', ''SY'', ''SZ'', ''TC'',
     ''TD'', ''TG'', ''TH'', ''TJ'', ''TK'', ''TL'', ''TM'', ''TN'', ''TO'', ''TR'', ''TT'', ''TV'', ''TW'',
     ''TZ'', ''UA'', ''UG'', ''UM'', ''US'', ''UY'', ''UZ'', ''VA'', ''VC'', ''VE'', ''VG'', ''VI'', ''VN'',
     ''VU'', ''WF'', ''WS'', ''YE'', ''YT'', ''ZA'', ''ZM'', ''ZW'']"

definition LOCALITY_MISSPELLINGS :: "(rstring \<times> rstring) list" where
  "LOCALITY_MISSPELLINGS =
    [(lit ''Den Haag'', [39] @ lit ''s-Gravenhage''), (lit ''Den Bosch'', [39] @ lit ''s-Hertogenbosch''),
     (lit ''Gorkum'', lit ''Gorinchem''), (lit ''Gorcum'', lit ''Gorinchem''),
     (lit ''Gravendeel'', [39] @ lit ''s-Gravendeel''), (lit ''Graveland'', [39] @ lit ''s-Graveland''),
     (lit ''Gravenzande'', [39] @ lit ''s-Gravenzande''),
     (lit ''Heer Abtskerke'', [39] @ lit ''s-Heer Abtskerke''),
     (lit ''Heer Arendskerke'', [39] @ lit ''s-Heer Arendskerke''),
     (lit ''Heer Hendrikskinderen'', [39] @ lit ''s-Heer Hendrikskinderen''),
     (lit ''Heerenberg'', [39] @ lit ''s-Heerenberg''), (lit ''Heerenbroek'', [39] @ lit ''s-Heerenbroek''),
     (lit ''Heerenhoek'', [39] @ lit ''s-Heerenhoek''), (lit ''St. Agatha'', lit ''Sint Agatha''),
     (lit ''St. Annaland'', lit ''Sint-Annaland''), (lit ''St. Anthonis'', lit ''Sint Anthonis''),
     (lit ''St. Geertruid'', lit ''Sint Geertruid''), (lit ''St. Hubert'', lit ''Sint Hubert''),
     (lit ''St. Jansklooster'', lit ''Sint Jansklooster''), (lit ''St. Joost'', lit ''Sint Joost''),
     (lit ''St. Kruis'', lit ''Sint Kruis''), (lit ''St. Maarten'', lit ''Sint Maarten''),
     (lit ''St. Maartensdijk'', lit ''Sint-Maartensdijk''),
     (lit ''St. Michielsgestel'', lit ''Sint-Michielsgestel''),
     (lit ''St. Nicolaasga'', lit ''Sint Nicolaasga''),
     (lit ''St. Odili'' @ [235] @ lit ''nberg'', lit ''Sint Odili'' @ [235] @ lit ''nberg''),
     (lit ''St. Oedenrode'', lit ''Sint-Oedenrode''), (lit ''St. Pancras'', lit ''Sint Pancras''),
     (lit ''St. Philipsland'', lit ''Sint Philipsland''), (lit ''Sint Willebrord'', lit ''St. Willebrord''),
     (lit ''Cuyk'', lit ''Cuijk'')]"

definition FRISIAN_ALIASES :: "(rstring \<times> rstring) list" where
  "FRISIAN_ALIASES =
    [(lit ''Oude Leije'', lit ''Alde Leie''), (lit ''Oldeboorn'', lit ''Aldeboarn''),
     (lit ''Oudkerk'', lit ''Aldtsjerk''), (lit ''Oudwoude'', lit ''Aldw'' @ [226] @ lit ''ld''),
     (lit ''Augsbuurt'', lit ''Augsbuert-Lytsew'' @ [226] @ lit ''ld''), (lit ''Baijum'', lit ''Baaium''),
     (lit ''Beers'', lit ''Bears''), (lit ''Berlikum'', lit ''Berltsum''), (lit ''Beetgum'', lit ''Bitgum''),
     (lit ''Beetgumermolen'', lit ''Bitgummole''), (lit ''Blija'', lit ''Blije''),
     (lit ''Bornwird'', lit ''Boarnwert''), (lit ''Bozum'', lit ''Boazum''),
     (lit ''Britswerd'', lit ''Britswert''),
     (lit ''Broeksterwoude'', lit ''Broeksterw'' @ [226] @ lit ''ld''), (lit ''Birdaard'', lit ''Burdaard''),
     (lit ''Bergum'', lit ''Burgum''), (lit ''Damwoude'', lit ''Damw'' @ [226] @ lit ''ld''),
     (lit ''De Valom'', lit ''De Falom''), (lit ''Triemen'', lit ''De Trieme''),
     (lit ''Zwaagwesteinde'', lit ''De Westereen''), (lit ''Deersum'', lit ''Dearsum''),
     (lit ''Driesum'', lit ''Driezum''), (lit ''Dronrijp'', lit ''Dronryp''), (lit ''Aegum'', lit ''Eagum''),
     (lit ''Anjum'', lit ''Eanjum''), (lit ''Eernewoude'', lit ''Earnew'' @ [226] @ lit ''ld''),
     (lit ''Oosterend'', lit ''Easterein''), (lit ''Oosterlittens'', lit ''Easterlittens''),
     (lit ''Oostermeer'', lit ''Eastermar''), (lit ''Oosternijkerk'', lit ''Easternijtsjerk''),
     (lit ''Oosterwierum'', lit ''Easterwierrum''), (lit ''Oostrum'', lit ''Eastrum''),
     (lit ''Veenklooster'', lit ''Feankleaster''),
     (lit ''Veenwouden'', lit ''Feanw'' @ [226] @ lit ''lden''),
     (lit ''Veenwoudsterwal'', lit ''Feanw'' @ [226] @ lit ''ldsterw'' @ [226] @ lit ''l''),
     (lit ''Finkum'', lit ''Feinsum''), (lit ''Ferwerd'', lit ''Ferwert''), (lit ''Garijp'', lit ''Garyp''),
     (lit ''Genum'', lit ''Ginnum''), (lit ''Grouw'', lit ''Grou''), (lit ''Giekerk'', lit ''Gytsjerk''),
     (lit ''Hantumeruitburen'', lit ''Hantumer'' @ [250] @ lit ''tbuorren''),
     (lit ''Hantumhuizen'', lit ''Hantumhuzen''), (lit ''Hogebeintum'', lit ''Hegebeintum''),
     (lit ''Hijlaard'', lit ''Hilaard''), (lit ''Hennaard'', lit ''Hinnaard''),
     (lit ''Holwerd'', lit ''Holwert''), (lit ''Huins'', lit ''H'' @ [250] @ lit ''ns''),
     (lit ''Hardegarijp'', lit ''Hurdegaryp''), (lit ''Idaard'', lit ''Idaerd''), (lit ''Ee'', lit ''Ie''),
     (lit ''Edens'', lit ''Iens''), (lit ''Engelum'', lit ''Ingelum''),
     (lit ''Engwierum'', lit ''Ingwierrum''), (lit ''Het Heidenschap'', lit ''It Heidenskip''),
     (lit ''Janum'', lit ''Jannum''), (lit ''Irnsum'', lit ''Jirnsum''), (lit ''Eestrum'', lit ''Jistrum''),
     (lit ''Jonkersland'', lit ''Jonkersl'' @ [226] @ lit ''n''), (lit ''Jorwerd'', lit ''Jorwert''),
     (lit ''Cornjum'', lit ''Koarnjum''), (lit ''Kollumerzwaag'', lit ''Kollumersweach''),
     (lit ''Kubaard'', lit ''K'' @ [251] @ lit ''baard''), (lit ''Lions'', lit ''Leons''),
     (lit ''Lioessens'', lit ''Ljussens''), (lit ''Lutkewierum'', lit ''Lytsewierrum''),
     (lit ''Marssum'', lit ''Marsum''), (lit ''Menaldum'', lit ''Menaam''),
     (lit ''Metslawier'', lit ''Mitselwier''), (lit ''Morra'', lit ''Moarre''),
     (lit ''Molenend'', lit ''M'' @ [251] @ lit ''nein''), (lit ''Niawier'', lit ''Nijewier''),
     (lit ''Noordbergum'', lit ''Noardburgum''), (lit ''Oenkerk'', lit ''Oentsjerk''),
     (lit ''Paesens'', lit ''Peazens''), (lit ''Poppingawier'', lit ''Poppenwier''),
     (lit ''Rauwerd'', lit ''Raerd''), (lit ''Roodkerk'', lit ''Readtsjerk''),
     (lit ''Roodhuis'', lit ''Reah'' @ [251] @ lit ''s''), (lit ''Roordahuizum'', lit ''Reduzum''),
     (lit ''Rinsumageest'', lit ''Rinsumageast''), (lit ''Rijperkerk'', lit ''Ryptsjerk''),
     (lit ''Sijbrandaburen'', lit ''Sibrandabuorren''),
     (lit ''Sijbrandahuis'', lit ''Sibrandah'' @ [251] @ lit ''s''), (lit ''Schingen'', lit ''Skingen''),
     (lit ''Suameer'', lit ''Sumar''), (lit ''Suawoude'', lit ''Suw'' @ [226] @ lit ''ld''),
     (lit ''Zwagerbosch'', lit ''Sweagerbosk''), (lit ''Terhorne'', lit ''Terherne''),
     (lit ''Terzool'', lit ''Tersoal''), (lit ''Tietjerk'', lit ''Tytsjerk''),
     (lit ''Waaxens'', lit ''Waaksens''),
     (lit ''Wouterswoude'', lit ''W'' @ [226] @ lit ''ltersw'' @ [226] @ lit ''ld''),
     (lit ''Wanswerd'', lit ''W'' @ [226] @ lit ''nswert''), (lit ''Wartena'', lit ''Warten''),
     (lit ''Warga'', lit ''Wergea''), (lit ''Westergeest'', lit ''Westergeast''),
     (lit ''Wieuwerd'', lit ''Wiuwert''), (lit ''Welsrijp'', lit ''Wjelsryp''),
     (lit ''Wijns'', lit ''Wyns''), (lit ''Wijtgaard'', lit ''Wytgaard''),
     (lit ''IJsbrechtum'', lit ''Ysbrechtum'')]"

end
