(* ===== verification/Values.thy ===== *)
theory Values
  imports Text Domain Name_Tables
begin

text \<open>
  Validation of what is typed into a form (\<open>form/string_validators.rs\<close> and the \<open>FromStr\<close>
  implementations of \<open>structs/common\<close>): a value is normalised, or refused with the reason.
  A value's type is its text. The Unicode case mapping, \<open>chrono\<close>'s parser, the regular
  expression's digits, today's date and the address database are parameters.
\<close>

datatype validation_error =
    InvalidValue
  | InvalidEmail
  | ValueShouldNotBeEmpty
  | ChooseAtLeastOneOption
  | ValueTooLong nat nat
  | ValueTooShort nat nat
  | InvalidChecksum
  | InvalidPlaceOfResidence
  | StartsWithLastNamePrefix
  | TooManyInitials nat nat
  | InvalidPostalCode
  | NameAlreadyExists
  | AppellationAlreadyExists
  | BsnAlreadyExists
  | DateInFuture
  | InvalidDateFormat
  | ContainsPlaceholder

type_synonym 'a validated = "validation_error + 'a"

subsection \<open>Strings\<close>

definition validate_length :: "rstring \<Rightarrow> nat \<Rightarrow> nat \<Rightarrow> rstring validated" where
  "validate_length v min_length max_length =
    (let t = trim v in
     if t = [] then Err ValueShouldNotBeEmpty
     else if str_len t < min_length then Err (ValueTooShort (str_len t) min_length)
     else if str_len t > max_length then Err (ValueTooLong (str_len t) max_length)
     else Ok t)"

definition is_teletex_char :: "nat \<Rightarrow> bool" where
  "is_teletex_char c = ((32 \<le> c \<and> c < 127) \<or> (161 \<le> c \<and> c < 383))"

definition validate_teletex_chars :: "rstring \<Rightarrow> unit validated" where
  "validate_teletex_chars v = (if list_all is_teletex_char v then Ok () else Err InvalidValue)"

definition validate_multi_line_teletex_chars :: "rstring \<Rightarrow> unit validated" where
  "validate_multi_line_teletex_chars v = (if list_all (\<lambda>c. c = 10 \<or> is_teletex_char c) v then Ok () else Err InvalidValue)"

text \<open>\<open>replace("\r\n", "\n")\<close>.\<close>

fun replace_crlf :: "rstring \<Rightarrow> rstring" where
  "replace_crlf (c # d # s) = (if c = 13 \<and> d = 10 then 10 # replace_crlf s else c # replace_crlf (d # s))"
| "replace_crlf [c] = [c]"
| "replace_crlf [] = []"

text \<open>\<open>constrained_strings!\<close>, with and without line breaks, and the types it defines.\<close>

definition constrained_from_str :: "nat \<Rightarrow> rstring \<Rightarrow> rstring validated" where
  "constrained_from_str mx v = bind_res (validate_length v 1 mx) (\<lambda>t. bind_res (validate_teletex_chars t) (\<lambda>_. Ok t))"

definition multiline_from_str :: "nat \<Rightarrow> rstring \<Rightarrow> rstring validated" where
  "multiline_from_str mx v = bind_res (validate_length (replace_crlf v) 1 mx)
     (\<lambda>t. bind_res (validate_multi_line_teletex_chars t) (\<lambda>_. Ok t))"

definition first_name_from_str :: "rstring \<Rightarrow> rstring validated" where "first_name_from_str = constrained_from_str 200"
definition legal_name_from_str :: "rstring \<Rightarrow> rstring validated" where "legal_name_from_str = constrained_from_str 200"
definition street_name_from_str :: "rstring \<Rightarrow> rstring validated" where "street_name_from_str = constrained_from_str 200"
definition state_or_province_from_str :: "rstring \<Rightarrow> rstring validated" where "state_or_province_from_str = constrained_from_str 200"
definition omission_title_from_str :: "rstring \<Rightarrow> rstring validated" where "omission_title_from_str = constrained_from_str 100"
definition objection_text_from_str :: "rstring \<Rightarrow> rstring validated" where "objection_text_from_str = multiline_from_str 8000"

text \<open>Texts of an omission, which may not keep a placeholder of a preset.\<close>

definition omission_text_from_str :: "rstring \<Rightarrow> rstring validated" where
  "omission_text_from_str v = bind_res (validate_length (replace_crlf v) 1 2000) (\<lambda>t.
     bind_res (validate_multi_line_teletex_chars t) (\<lambda>_.
       if list_ex (\<lambda>c. c = 123 \<or> c = 125) t then Err ContainsPlaceholder else Ok t))"

subsection \<open>Citizen service numbers\<close>

definition to_digit :: "nat \<Rightarrow> nat option" where
  "to_digit c = (if is_ascii_digit c then Some (c - 48) else None)"

text \<open>The loop over the characters from the right; \<open>i\<close> is the position from the right.\<close>

fun bsn_checksum :: "nat \<Rightarrow> int \<Rightarrow> rstring \<Rightarrow> int validated" where
  "bsn_checksum i checksum [] = Ok checksum"
| "bsn_checksum i checksum (c # cs) = (case to_digit c of
      None \<Rightarrow> Err InvalidValue
    | Some d \<Rightarrow> bsn_checksum (Suc i) (checksum + (if i = 0 then - 1 else int i + 1) * int d) cs)"

definition bsn_from_str :: "rstring \<Rightarrow> rstring validated" where
  "bsn_from_str v =
    (let t = trim v in
     if t = [] then Err ValueShouldNotBeEmpty
     else if str_len t < 9 then Err (ValueTooShort (str_len t) 9)
     else if str_len t > 9 then Err (ValueTooLong (str_len t) 9)
     else bind_res (bsn_checksum 0 0 (rev t)) (\<lambda>checksum.
       if checksum mod 11 \<noteq> 0 then Err InvalidChecksum else Ok t))"

definition BSN_NONE_CONFIRMATION :: rstring where "BSN_NONE_CONFIRMATION = lit ''none-confirmed''"

definition bsn_or_none_from_str :: "rstring \<Rightarrow> bsn_or_none_confirmed validated" where
  "bsn_or_none_from_str v = (if trim v = BSN_NONE_CONFIRMATION then Ok NoneConfirmed
     else bind_res (bsn_from_str v) (\<lambda>b. Ok (Bsn b)))"

fun bsn_or_none_to_exposed_string :: "bsn_or_none_confirmed \<Rightarrow> rstring" where
  "bsn_or_none_to_exposed_string NoneConfirmed = BSN_NONE_CONFIRMATION"
| "bsn_or_none_to_exposed_string (Bsn b) = b"

subsection \<open>Postal codes\<close>

text \<open>\<open>str::split_whitespace\<close>: the runs of other characters.\<close>

fun split_ws :: "rstring \<Rightarrow> rstring \<Rightarrow> rstring list" where
  "split_ws word [] = (if word = [] then [] else [rev word])"
| "split_ws word (c # cs) = (if is_whitespace c
     then (if word = [] then split_ws [] cs else rev word # split_ws [] cs)
     else split_ws (c # word) cs)"

definition split_whitespace :: "rstring \<Rightarrow> rstring list" where
  "split_whitespace s = split_ws [] s"

definition postal_code_from_str :: "rstring \<Rightarrow> rstring validated" where
  "postal_code_from_str v =
    (let postal_code = concat (split_whitespace v); bytes = str_bytes postal_code in
     if str_len postal_code \<noteq> 6 then Err InvalidPostalCode
     else if \<not> list_all (\<lambda>b. is_ascii_digit (unat b)) (take 4 bytes) then Err InvalidPostalCode
     else if \<not> list_all (\<lambda>b. is_ascii_alphabetic (unat b)) (drop 4 bytes) then Err InvalidPostalCode
     else Ok (map to_ascii_upper postal_code))"

definition international_postal_code_from_str :: "rstring \<Rightarrow> rstring validated" where
  "international_postal_code_from_str v =
     bind_res (validate_length v 1 20) (\<lambda>t. bind_res (validate_teletex_chars t) (\<lambda>_. Ok t))"

subsection \<open>Initials\<close>

definition MAX_INITIALS :: nat where "MAX_INITIALS = 100"

text \<open>\<open>char::is_alphanumeric\<close> on the teletex characters: ASCII letters and digits, the
  letters of Latin-1 and Latin Extended-A, the ordinal indicators and the micro sign, and the
  superscript digits and fractions, which have a numeric type.\<close>

definition is_initial_char :: "nat \<Rightarrow> bool" where
  "is_initial_char c = (is_teletex_char c \<and> (is_ascii_alphanumeric c
     \<or> c = 0xAA \<or> c = 0xB5 \<or> c = 0xBA \<or> c = 0xB2 \<or> c = 0xB3 \<or> c = 0xB9 \<or> (0xBC \<le> c \<and> c \<le> 0xBE)
     \<or> (0xC0 \<le> c \<and> c \<noteq> 0xD7 \<and> c \<noteq> 0xF7)))"

fun initials_loop :: "bool \<Rightarrow> (nat \<times> bool) list \<Rightarrow> rstring \<Rightarrow> (nat \<times> bool) list validated" where
  "initials_loop separated initials [] = Ok initials"
| "initials_loop separated initials (c # cs) =
    (if is_whitespace c then initials_loop True initials cs
     else if \<not> separated \<or> \<not> is_initial_char c then Err InvalidValue
     else (case cs of
         dot # cs' \<Rightarrow> if dot = 46 then initials_loop True (initials @ [(c, True)]) cs'
           else initials_loop False (initials @ [(c, False)]) cs
       | [] \<Rightarrow> initials_loop False (initials @ [(c, False)]) cs))"

fun initials_text :: "bool \<Rightarrow> (nat \<times> bool) list \<Rightarrow> rstring" where
  "initials_text previous_has_dot [] = []"
| "initials_text previous_has_dot ((initial, has_dot) # rest) =
     (if previous_has_dot then [] else [32]) @ [initial] @ (if has_dot then [46] else []) @ initials_text has_dot rest"

definition initials_from_str :: "rstring \<Rightarrow> rstring validated" where
  "initials_from_str v = bind_res (initials_loop True [] v) (\<lambda>initials.
     if initials = [] then Err ValueShouldNotBeEmpty
     else if length initials > MAX_INITIALS then Err (TooManyInitials (length initials) MAX_INITIALS)
     else Ok (initials_text True initials))"

subsection \<open>Names\<close>

definition APPELLATION_MAX_CHAR_COUNT :: nat where "APPELLATION_MAX_CHAR_COUNT = 35"

text \<open>\<open>join(" ")\<close>.\<close>

fun join_space :: "rstring list \<Rightarrow> rstring" where
  "join_space [] = []"
| "join_space [w] = w"
| "join_space (w # ws) = w @ [32] @ join_space ws"

definition appellation_from_str :: "rstring \<Rightarrow> rstring validated" where
  "appellation_from_str v =
    (let words = split_whitespace v; trimmed_value = join_space words; char_count = sum_list (map length words) in
     if char_count < 1 then Err (ValueTooShort char_count 1)
     else if char_count > APPELLATION_MAX_CHAR_COUNT then Err (ValueTooLong char_count APPELLATION_MAX_CHAR_COUNT)
     else bind_res (validate_teletex_chars trimmed_value) (\<lambda>_. Ok trimmed_value))"

definition is_last_name_prefix :: "rstring \<Rightarrow> bool" where
  "is_last_name_prefix v = (v \<in> set LAST_NAME_PREFIXES)"

definition last_name_prefix_from_str :: "rstring \<Rightarrow> rstring validated" where
  "last_name_prefix_from_str v = (let t = trim v in
     if t \<notin> set LAST_NAME_PREFIXES then Err InvalidValue else Ok t)"

text \<open>\<open>split_once(' ')\<close>.\<close>

definition split_once_space :: "rstring \<Rightarrow> (rstring \<times> rstring) option" where
  "split_once_space s = (case list_position (\<lambda>c. c = 32) s of
      None \<Rightarrow> None | Some i \<Rightarrow> Some (take i s, drop (Suc i) s))"

definition last_name_from_str :: "rstring \<Rightarrow> rstring validated" where
  "last_name_from_str v = bind_res (validate_length v 1 255) (\<lambda>t.
     bind_res (validate_teletex_chars t) (\<lambda>_.
       case split_once_space t of
         Some (prefix, _) \<Rightarrow> if is_last_name_prefix prefix then Err StartsWithLastNamePrefix else Ok t
       | None \<Rightarrow> Ok t))"

subsection \<open>House numbers\<close>

definition MAX_HOUSE_NUMBER_LENGTH :: nat where "MAX_HOUSE_NUMBER_LENGTH = 7"
definition MAX_HOUSE_NUMBER_ADDITION_LENGTH :: nat where "MAX_HOUSE_NUMBER_ADDITION_LENGTH = 4"

definition house_number_from_str :: "rstring \<Rightarrow> rstring validated" where
  "house_number_from_str v = (let t = trim v in
     if t = [] then Err ValueShouldNotBeEmpty
     else if str_len t > MAX_HOUSE_NUMBER_LENGTH then Err (ValueTooLong (str_len t) MAX_HOUSE_NUMBER_LENGTH)
     else if \<not> list_all is_ascii_digit t then Err InvalidValue
     else Ok t)"

text \<open>\<open>str::parse::<u32>\<close> of a string of digits: \<open>None\<close> when empty or out of range.\<close>

definition parse_u32 :: "rstring \<Rightarrow> nat option" where
  "parse_u32 s = (if s \<noteq> [] \<and> list_all is_ascii_digit s
     then let n = foldl (\<lambda>n c. 10 * n + (c - 48)) 0 s in if n < 2 ^ 32 then Some n else None
     else None)"

definition house_number_as_number :: "rstring \<Rightarrow> nat" where
  "house_number_as_number s = (case parse_u32 s of None \<Rightarrow> 0 | Some n \<Rightarrow> n)"

definition house_number_addition_from_str :: "rstring \<Rightarrow> rstring validated" where
  "house_number_addition_from_str v = (let t = trim v in
     if t = [] then Err ValueShouldNotBeEmpty
     else if str_len t > MAX_HOUSE_NUMBER_ADDITION_LENGTH then Err (ValueTooLong (str_len t) MAX_HOUSE_NUMBER_ADDITION_LENGTH)
     else if \<not> list_all (\<lambda>c. is_ascii_alphanumeric c \<or> c = 45) t then Err InvalidValue
     else Ok t)"

subsection \<open>Places\<close>

record value_env =
  ve_lowercase :: "rstring \<Rightarrow> rstring"
  ve_uppercase :: "rstring \<Rightarrow> rstring"
  ve_bag_localities :: "rstring list"
  ve_bag_suggest :: "rstring \<Rightarrow> nat \<Rightarrow> bool \<Rightarrow> bool \<Rightarrow> rstring list"
  ve_parse_date :: "rstring \<Rightarrow> rstring \<Rightarrow> naive_date option"
  ve_regex_digit :: "nat \<Rightarrow> bool"
  ve_today :: naive_date

definition MAX_LOCALITY_CHARS :: nat where "MAX_LOCALITY_CHARS = 200"

definition find_spelling :: "value_env \<Rightarrow> (rstring \<times> rstring) list \<Rightarrow> rstring \<Rightarrow> rstring option" where
  "find_spelling env table input =
     map_option snd (find (\<lambda>(name, _). ve_lowercase env name = ve_lowercase env input) table)"

definition correct_locality_name :: "value_env \<Rightarrow> rstring \<Rightarrow> rstring option" where
  "correct_locality_name env input = find_spelling env LOCALITY_MISSPELLINGS input"

definition frisian_locality_name :: "value_env \<Rightarrow> rstring \<Rightarrow> rstring option" where
  "frisian_locality_name env input =
     find (\<lambda>name. ve_lowercase env name = ve_lowercase env input) (concat (map (\<lambda>(dutch, frisian). [dutch, frisian]) FRISIAN_ALIASES))"

definition same_locality :: "value_env \<Rightarrow> rstring \<Rightarrow> rstring \<Rightarrow> bool" where
  "same_locality env a b =
    (let one = ve_lowercase env a; other = ve_lowercase env b;
         frisian_name = (\<lambda>name. map_option (ve_lowercase env) (find_spelling env FRISIAN_ALIASES name))
     in one = other \<or> frisian_name one = Some other \<or> frisian_name other = Some one)"

text \<open>The official names are collected into a hash map by their lower case.\<close>

definition official_locality_name :: "value_env \<Rightarrow> rstring \<Rightarrow> rstring option" where
  "official_locality_name env locality =
     map_of (rev (map (\<lambda>name. (ve_lowercase env name, name)) (ve_bag_localities env))) (ve_lowercase env locality)"

definition locality_exists :: "value_env \<Rightarrow> rstring \<Rightarrow> bool \<Rightarrow> bool \<Rightarrow> bool" where
  "locality_exists env locality with_municipalities with_aliases =
    (if official_locality_name env locality \<noteq> None \<or> (with_aliases \<and> frisian_locality_name env locality \<noteq> None) then True
     else list_ex (\<lambda>name. name = locality) (ve_bag_suggest env locality 1 with_municipalities with_aliases))"

definition locality_from_str :: "value_env \<Rightarrow> rstring \<Rightarrow> rstring validated" where
  "locality_from_str env v = bind_res (validate_length v 1 MAX_LOCALITY_CHARS) (\<lambda>t.
     bind_res (validate_teletex_chars t) (\<lambda>_.
       Ok (case correct_locality_name env t of None \<Rightarrow> t | Some official \<Rightarrow> official)))"

definition place_of_residence_from_str :: "value_env \<Rightarrow> rstring \<Rightarrow> place_of_residence validated" where
  "place_of_residence_from_str env v = bind_res (validate_length v 1 MAX_LOCALITY_CHARS) (\<lambda>t.
     bind_res (validate_teletex_chars t) (\<lambda>_.
       let normalized = (case correct_locality_name env t of None \<Rightarrow> t | Some official \<Rightarrow> official) in
       if locality_exists env normalized True True then Ok (Known normalized) else Ok (Unknown normalized)))"

subsection \<open>Gender, country and date of birth\<close>

definition gender_from_str :: "value_env \<Rightarrow> rstring \<Rightarrow> gender validated" where
  "gender_from_str env s = (let l = ve_lowercase env s in
     if l \<in> set (map lit [''female'', ''frou'', ''vrouw'', ''f'', ''v'']) then Ok Female
     else if l \<in> set (map lit [''male'', ''man'', ''m'']) then Ok Male
     else Err InvalidValue)"

fun gender_display :: "gender \<Rightarrow> rstring" where
  "gender_display Female = lit ''female''"
| "gender_display Male = lit ''male''"

definition country_code_from_str :: "value_env \<Rightarrow> rstring \<Rightarrow> rstring validated" where
  "country_code_from_str env v = (let t = ve_uppercase env (trim v) in
     if t \<notin> set COUNTRY_CODES then Err InvalidValue else Ok t)"

text \<open>Whether a string is runs of digits of the given lengths, separated by one character.\<close>

fun digit_groups :: "(nat \<Rightarrow> bool) \<Rightarrow> nat \<Rightarrow> (nat \<times> nat) list \<Rightarrow> rstring \<Rightarrow> bool" where
  "digit_groups digit sep [] s = False"
| "digit_groups digit sep [(lo, hi)] s = (list_all digit s \<and> lo \<le> length s \<and> length s \<le> hi)"
| "digit_groups digit sep ((lo, hi) # g # gs) s =
    (let run = takeWhile (\<lambda>c. c \<noteq> sep) s; rest = dropWhile (\<lambda>c. c \<noteq> sep) s in
     list_all digit run \<and> lo \<le> length run \<and> length run \<le> hi
     \<and> (case rest of [] \<Rightarrow> False | _ # rest' \<Rightarrow> digit_groups digit sep (g # gs) rest'))"

definition date_format :: "value_env \<Rightarrow> rstring \<Rightarrow> rstring option" where
  "date_format env v =
    (if digit_groups (ve_regex_digit env) 45 [(1, 2), (1, 2), (4, 4)] v then Some (lit ''%d-%m-%Y'')
     else if digit_groups (ve_regex_digit env) 45 [(4, 4), (2, 2), (2, 2)] v then Some (lit ''%Y-%m-%d'')
     else if digit_groups (ve_regex_digit env) 47 [(1, 2), (1, 2), (4, 4)] v then Some (lit ''%m/%d/%Y'')
     else None)"

definition date_of_birth_from_str :: "value_env \<Rightarrow> rstring \<Rightarrow> naive_date validated" where
  "date_of_birth_from_str env v = (let t = trim v in
     case date_format env t of
       None \<Rightarrow> Err InvalidDateFormat
     | Some fmt \<Rightarrow> (case ve_parse_date env t fmt of
         None \<Rightarrow> Err InvalidValue
       | Some d \<Rightarrow> if d > ve_today env then Err DateInFuture else Ok d))"

text \<open>For evaluating the parsers on a concrete text.\<close>

lemmas text_eval = lit_def trim_def trim_start_def trim_end_def char_class_defs len_utf8_def is_teletex_char_def

end
