(* ===== verification/Value_Properties.thy ===== *)
theory Value_Properties
  imports Values
begin

text \<open>
  The guarantees of form values: what is accepted has the documented form, an accepted value is
  accepted unchanged when it is submitted again, and a citizen service number is accepted
  exactly when it passes the eleven test, which no single typing error survives.
\<close>

subsection \<open>Strings\<close>

lemma validate_length_ok:
  "validate_length v mn mx = Inr t \<longleftrightarrow> t = trim v \<and> t \<noteq> [] \<and> mn \<le> str_len t \<and> str_len t \<le> mx"
  by (auto simp: validate_length_def Let_def)

lemma validate_teletex_ok [simp]: "validate_teletex_chars v = Inr u \<longleftrightarrow> list_all is_teletex_char v"
  by (simp add: validate_teletex_chars_def)

lemma validate_multi_line_ok [simp]:
  "validate_multi_line_teletex_chars v = Inr u \<longleftrightarrow> list_all (\<lambda>c. c = 10 \<or> is_teletex_char c) v"
  by (simp add: validate_multi_line_teletex_chars_def)

lemma constrained_ok:
  "constrained_from_str mx v = Inr t \<longleftrightarrow> t = trim v \<and> t \<noteq> [] \<and> str_len t \<le> mx \<and> list_all is_teletex_char t"
  by (auto simp: constrained_from_str_def bind_res_eq_Inr validate_length_ok Suc_le_eq)

lemma multiline_ok:
  "multiline_from_str mx v = Inr t \<longleftrightarrow> t = trim (replace_crlf v) \<and> t \<noteq> [] \<and> str_len t \<le> mx
     \<and> list_all (\<lambda>c. c = 10 \<or> is_teletex_char c) t"
  by (auto simp: multiline_from_str_def bind_res_eq_Inr validate_length_ok Suc_le_eq)

lemma replace_crlf_id: "13 \<notin> set s \<Longrightarrow> replace_crlf s = s"
  by (induction s rule: replace_crlf.induct) auto

subsection \<open>Whitespace\<close>

lemma concat_split_ws: "concat (split_ws w s) = rev w @ filter (\<lambda>c. \<not> is_whitespace c) s"
  by (induction s arbitrary: w) auto

lemma concat_split_whitespace: "concat (split_whitespace s) = filter (\<lambda>c. \<not> is_whitespace c) s"
  by (simp add: split_whitespace_def concat_split_ws)

lemma split_ws_word:
  "list_all (\<lambda>c. \<not> is_whitespace c) x \<Longrightarrow> split_ws w (x @ s) = split_ws (rev x @ w) s"
  by (induction x arbitrary: w) auto

lemma split_ws_words: "list_all (\<lambda>c. \<not> is_whitespace c) w \<Longrightarrow> x \<in> set (split_ws w s) \<Longrightarrow> x \<noteq> [] \<and> list_all (\<lambda>c. \<not> is_whitespace c) x"
proof (induction s arbitrary: w)
  case (Cons a s)
  then show ?case
    using Cons.IH [of "[]"] Cons.IH [of "a # w"] by (cases "is_whitespace a"; cases "w = []") auto
qed (auto split: if_splits)

lemma split_whitespace_words: "x \<in> set (split_whitespace s) \<Longrightarrow> x \<noteq> [] \<and> list_all (\<lambda>c. \<not> is_whitespace c) x"
  using split_ws_words [of "[]"] by (simp add: split_whitespace_def)

lemma space_is_whitespace [simp]: "is_whitespace 32"
  by (simp add: is_whitespace_def)

lemma split_join: "\<forall>x\<in>set ws. x \<noteq> [] \<and> list_all (\<lambda>c. \<not> is_whitespace c) x \<Longrightarrow> split_whitespace (join_space ws) = ws"
proof (induction ws rule: join_space.induct)
  case (2 w)
  then show ?case using split_ws_word [of w "[]" "[]"] by (simp add: split_whitespace_def)
next
  case (3 w w' ws)
  then show ?case using split_ws_word [of w "[]" "32 # join_space (w' # ws)"] by (simp add: split_whitespace_def)
qed (simp add: split_whitespace_def)

subsection \<open>Citizen service numbers\<close>

text \<open>The reference: nine digits, weighed 9, 8, ..., 2 and minus 1 from the left.\<close>

definition digit_value :: "nat \<Rightarrow> int" where
  "digit_value c = int (c - 48)"

definition bsn_weight :: "nat \<Rightarrow> int" where
  "bsn_weight k = (if k = 8 then - 1 else 9 - int k)"

definition eleven_test :: "rstring \<Rightarrow> bool" where
  "eleven_test b = (length b = 9 \<and> list_all is_ascii_digit b \<and> 11 dvd (\<Sum>k<9. bsn_weight k * digit_value (b ! k)))"

text \<open>The weight of a position from the right, as the loop computes it.\<close>

definition rev_weight :: "nat \<Rightarrow> int" where
  "rev_weight i = (if i = 0 then - 1 else int i + 1)"

lemma bsn_checksum_Cons:
  "bsn_checksum i acc (c # cs) = (if is_ascii_digit c then bsn_checksum (Suc i) (acc + rev_weight i * digit_value c) cs else Err InvalidValue)"
  by (simp add: to_digit_def rev_weight_def digit_value_def)

lemma bsn_checksum_ok:
  "bsn_checksum i acc cs = Inr r \<longleftrightarrow> list_all is_ascii_digit cs \<and>
     r = acc + (\<Sum>k<length cs. rev_weight (i + k) * digit_value (cs ! k))"
proof (induction cs arbitrary: i acc)
  case (Cons c cs)
  have "(\<Sum>k<length (c # cs). rev_weight (i + k) * digit_value ((c # cs) ! k)) =
      rev_weight i * digit_value c + (\<Sum>k<length cs. rev_weight (Suc i + k) * digit_value (cs ! k))"
    by (simp add: sum.lessThan_Suc_shift del: sum.lessThan_Suc)
  with Cons [of "Suc i"] show ?case
    unfolding bsn_checksum_Cons by (auto simp: add.assoc)
qed auto

lemma length_9_cases: "length b = 9 \<Longrightarrow> \<exists>a0 a1 a2 a3 a4 a5 a6 a7 a8. b = [a0, a1, a2, a3, a4, a5, a6, a7, a8]"
  by (auto simp: numeral_eq_Suc length_Suc_conv)

lemma bsn_checksum_rev:
  assumes "length b = 9"
  shows "bsn_checksum 0 0 (rev b) = Inr r \<longleftrightarrow> list_all is_ascii_digit b \<and> r = (\<Sum>k<9. bsn_weight k * digit_value (b ! k))"
proof -
  obtain a0 a1 a2 a3 a4 a5 a6 a7 a8 where b: "b = [a0, a1, a2, a3, a4, a5, a6, a7, a8]"
    using length_9_cases [OF assms] by blast
  have "(\<Sum>k<9. rev_weight k * digit_value (rev b ! k)) = (\<Sum>k<9. bsn_weight k * digit_value (b ! k))"
    by (simp add: b bsn_weight_def rev_weight_def lessThan_nat_numeral)
  then show ?thesis using assms by (simp add: bsn_checksum_ok)
qed

lemma digits_trimmed: "list_all is_ascii_digit b \<Longrightarrow> trimmed b \<and> str_len b = length b"
proof -
  assume "list_all is_ascii_digit b"
  then have d: "\<forall>c\<in>set b. 48 \<le> c \<and> c \<le> 57" by (simp add: list_all_iff is_ascii_digit_def)
  then have "c \<in> set b \<Longrightarrow> \<not> is_whitespace c" for c by (fastforce simp: is_whitespace_def)
  then have "trimmed b" by (cases "b = []") (simp_all add: trimmed_def)
  moreover have "str_len b = length b" using d by (intro str_len_ascii) fastforce
  ultimately show ?thesis by simp
qed

lemma eleven_test_len: "eleven_test b \<Longrightarrow> length b = 9 \<and> str_len b = 9 \<and> trimmed b"
  using digits_trimmed [of b] by (simp add: eleven_test_def)

lemma bsn_from_str_ok: "bsn_from_str v = Inr b \<longleftrightarrow> b = trim v \<and> eleven_test b"
proof -
  have len: "length (trim v) = 9" if "str_len (trim v) = 9" "bsn_checksum 0 0 (rev (trim v)) = Inr r" for r
    using that digits_trimmed [of "trim v"] by (simp add: bsn_checksum_ok)
  show ?thesis
  proof
    assume "bsn_from_str v = Inr b"
    then obtain r where r: "b = trim v" "str_len (trim v) = 9" "bsn_checksum 0 0 (rev (trim v)) = Inr r" "r mod 11 = 0"
      by (auto simp: bsn_from_str_def Let_def bind_res_eq_Inr split: if_splits)
    with len bsn_checksum_rev [OF len [OF r(2,3)], of r] show "b = trim v \<and> eleven_test b"
      by (auto simp: eleven_test_def mod_0_imp_dvd)
  next
    assume "b = trim v \<and> eleven_test b"
    with eleven_test_len [of b] bsn_checksum_rev [of b "\<Sum>k<9. bsn_weight k * digit_value (b ! k)"] show "bsn_from_str v = Inr b"
      by (auto simp: bsn_from_str_def Let_def eleven_test_def)
  qed
qed

text \<open>C18: A citizen service number is accepted exactly when, trimmed, it is nine digits whose
  weighted sum (9, 8, ..., 2 and minus 1 from the left) is divisible by eleven; the accepted
  value is the trimmed text.\<close>

theorem bsn_eleven_test:
  "bsn_from_str v = Ok b \<longleftrightarrow> b = trim v \<and> length b = 9 \<and> list_all is_ascii_digit b
     \<and> 11 dvd (\<Sum>k<9. (if k = 8 then - 1 else 9 - int k) * (int (b ! k) - 48))"
proof -
  have "list_all is_ascii_digit b \<Longrightarrow> length b = 9 \<Longrightarrow>
      (\<Sum>k<9. bsn_weight k * digit_value (b ! k)) = (\<Sum>k<9. (if k = 8 then - 1 else 9 - int k) * (int (b ! k) - 48))"
    by (intro sum.cong) (auto simp: bsn_weight_def digit_value_def list_all_length is_ascii_digit_def)
  then show ?thesis by (auto simp: bsn_from_str_ok eleven_test_def)
qed

text \<open>No weight, and no difference of two weights, has a factor eleven.\<close>

lemma weight_times_digit:
  assumes "i < 9" "\<bar>x\<bar> \<le> 9" "11 dvd bsn_weight i * x"
  shows "x = 0"
proof -
  from assms(1) have "bsn_weight i \<in> {9, 8, 7, 6, 5, 4, 3, 2, - 1}"
    by (auto simp: bsn_weight_def numeral_eq_Suc less_Suc_eq)
  moreover from assms(2) have "- 9 \<le> x" "x \<le> 9" by linarith+
  ultimately show ?thesis using assms(3) by (elim insertE emptyE; simp only:; presburger)
qed

lemma weight_difference:
  assumes "i < 9" "j < 9" "i \<noteq> j" "\<bar>x\<bar> \<le> 9" "11 dvd (bsn_weight i - bsn_weight j) * x"
  shows "x = 0"
proof -
  define w where "w = bsn_weight i - bsn_weight j"
  have "w \<noteq> 0" "\<bar>w\<bar> \<le> 10" using assms(1-3) by (auto simp: w_def bsn_weight_def)
  then have "w \<in> {-10, -9, -8, -7, -6, -5, -4, -3, -2, -1, 1, 2, 3, 4, 5, 6, 7, 8, 9, 10}" by (simp, arith)
  moreover from assms(4) have "- 9 \<le> x" "x \<le> 9" by linarith+
  ultimately show ?thesis using assms(5) unfolding w_def [symmetric] by (elim insertE emptyE; simp only:; presburger)
qed

lemma digit_value_bounds: "is_ascii_digit c \<Longrightarrow> 0 \<le> digit_value c \<and> digit_value c \<le> 9"
  by (auto simp: is_ascii_digit_def digit_value_def)

lemma digit_value_inj: "is_ascii_digit c \<Longrightarrow> is_ascii_digit d \<Longrightarrow> digit_value c = digit_value d \<Longrightarrow> c = d"
  by (auto simp: is_ascii_digit_def digit_value_def)

lemma eleven_difference:
  assumes "eleven_test b" "eleven_test b'"
  shows "11 dvd (\<Sum>k<9. bsn_weight k * (digit_value (b ! k) - digit_value (b' ! k)))"
proof -
  have "(\<Sum>k<9. bsn_weight k * (digit_value (b ! k) - digit_value (b' ! k))) =
      (\<Sum>k<9. bsn_weight k * digit_value (b ! k)) - (\<Sum>k<9. bsn_weight k * digit_value (b' ! k))"
    by (simp add: right_diff_distrib sum_subtractf)
  with assms show ?thesis by (simp add: eleven_test_def dvd_diff)
qed

lemma bsn_digits: "eleven_test b \<Longrightarrow> k < 9 \<Longrightarrow> is_ascii_digit (b ! k)"
  by (simp add: eleven_test_def list_all_length)

lemma digits_apart: "eleven_test b \<Longrightarrow> eleven_test b' \<Longrightarrow> i < 9 \<Longrightarrow> j < 9 \<Longrightarrow> \<bar>digit_value (b ! i) - digit_value (b' ! j)\<bar> \<le> 9"
  using digit_value_bounds [OF bsn_digits [of b i]] digit_value_bounds [OF bsn_digits [of b' j]] by fastforce

lemma bsn_slip:
  assumes b: "eleven_test b" and e: "eleven_test (b[i := c])" and i: "i < 9"
  shows "b[i := c] = b"
proof -
  have len: "length b = 9" using b by (simp add: eleven_test_def)
  have "bsn_weight k * (digit_value (b ! k) - digit_value (b[i := c] ! k)) =
      (if k = i then bsn_weight i * (digit_value (b ! i) - digit_value c) else 0)" if "k < 9" for k
    using that len by (simp add: nth_list_update)
  then have "(\<Sum>k<9. bsn_weight k * (digit_value (b ! k) - digit_value (b[i := c] ! k))) = bsn_weight i * (digit_value (b ! i) - digit_value c)"
    using i by (simp add: sum.delta)
  with eleven_difference [OF b e] have "11 dvd bsn_weight i * (digit_value (b ! i) - digit_value c)" by simp
  with weight_times_digit [OF i] digits_apart [OF b e i i] len i have "digit_value (b ! i) = digit_value c" by fastforce
  then have "b ! i = c" using digit_value_inj bsn_digits [OF b i] bsn_digits [OF e i] len i by simp
  then show ?thesis by auto
qed

lemma bsn_swap:
  assumes b: "eleven_test b" and e: "eleven_test (b[i := b ! j, j := b ! i])" and ij: "i < 9" "j < 9"
  shows "b ! i = b ! j"
proof (rule ccontr)
  let ?b = "b[i := b ! j, j := b ! i]" let ?d = "digit_value (b ! i) - digit_value (b ! j)"
  assume "b ! i \<noteq> b ! j"
  then have ne: "i \<noteq> j" "?d \<noteq> 0" using digit_value_inj [OF bsn_digits [OF b ij(1)] bsn_digits [OF b ij(2)]] by auto
  have "bsn_weight k * (digit_value (b ! k) - digit_value (?b ! k)) =
      (if k = i then bsn_weight i * ?d else 0) + (if k = j then - bsn_weight j * ?d else 0)" if "k < 9" for k
    using that b ne(1) ij by (auto simp: eleven_test_def nth_list_update algebra_simps)
  then have "(\<Sum>k<9. bsn_weight k * (digit_value (b ! k) - digit_value (?b ! k))) = bsn_weight i * ?d - bsn_weight j * ?d"
    using ij by (simp add: sum.distrib sum.delta)
  with eleven_difference [OF b e] have "11 dvd (bsn_weight i - bsn_weight j) * ?d"
    unfolding left_diff_distrib by simp
  with weight_difference [OF ij ne(1) digits_apart [OF b b ij]] ne(2) show False by blast
qed

text \<open>No typing slip turns one citizen service number into another: accepted numbers that
  differ in at most one place are equal, and exchanging two digits of an accepted number gives
  a refused one unless the digits are equal.\<close>

theorem bsn_slips_refused:
  assumes "bsn_from_str v = Ok b"
  shows "(\<forall>i<9. \<forall>c. bsn_from_str (b[i := c]) = Ok (b[i := c]) \<longrightarrow> b[i := c] = b)
    \<and> (\<forall>i<9. \<forall>j<9. bsn_from_str (b[i := b ! j, j := b ! i]) = Ok (b[i := b ! j, j := b ! i]) \<longrightarrow> b ! i = b ! j)"
  using assms unfolding bsn_from_str_ok by (blast intro: bsn_slip bsn_swap)

theorem bsn_slips_refused_witness:
  "bsn_from_str (lit '' 999994669 '') = Ok (lit ''999994669'')
   \<and> bsn_from_str ((lit ''999994669'')[0 := 56]) \<noteq> Ok ((lit ''999994669'')[0 := 56])"
proof -
  have ok: "bsn_from_str (lit '' 999994669 '') = Ok (lit ''999994669'')"
    by (simp add: bsn_from_str_def text_eval to_digit_def)
  have "(lit ''999994669'')[0 := 56] \<noteq> lit ''999994669''" by (simp add: lit_def)
  with bsn_slips_refused [OF ok] have "bsn_from_str ((lit ''999994669'')[0 := 56]) \<noteq> Ok ((lit ''999994669'')[0 := 56])"
    by (metis zero_less_numeral)
  with ok show ?thesis by blast
qed

subsection \<open>Postal codes\<close>

lemma ascii_bytes:
  "list_all (\<lambda>b. unat b < 128) (str_bytes s) \<Longrightarrow> list_all (\<lambda>c. c < 128) s"
proof (induction s)
  case (Cons c s)
  have "unat (of_nat n :: byte) = n mod 256" for n
    by (simp add: unsigned_of_nat take_bit_eq_mod)
  from this [of "128 + c mod 64"] have "unat (of_nat (128 + c mod 64) :: byte) = 128 + c mod 64"
    by (simp del: of_nat_add)
  then have "c < 128" if "list_all (\<lambda>b. unat b < 128) (utf8_char c)"
    using that by (auto simp: utf8_char_def split: if_splits)
  with Cons show ?case by (simp add: str_bytes_def)
qed simp

lemma str_bytes_ascii: "list_all (\<lambda>c. c < 128) s \<Longrightarrow> str_bytes s = map of_nat s"
  by (induction s) (auto simp: str_bytes_def utf8_char_def)

definition postal_code_form :: "rstring \<Rightarrow> bool" where
  "postal_code_form p = (length p = 6 \<and> list_all is_ascii_digit (take 4 p) \<and> list_all is_ascii_upper (drop 4 p))"

text \<open>The check on the bytes is a check on the characters.\<close>

lemma postal_code_ok:
  "postal_code_from_str v = Inr p \<longleftrightarrow> (let q = filter (\<lambda>c. \<not> is_whitespace c) v in
     p = map to_ascii_upper q \<and> length q = 6 \<and> list_all is_ascii_digit (take 4 q) \<and> list_all is_ascii_alphabetic (drop 4 q))"
proof -
  define q where "q = filter (\<lambda>c. \<not> is_whitespace c) v"
  have cls: "is_ascii_digit c \<Longrightarrow> c < 128" "is_ascii_alphabetic c \<Longrightarrow> c < 128" for c
    by (auto simp: char_class_defs)
  have un: "c < 128 \<Longrightarrow> unat (of_nat c :: byte) = c" for c :: nat
    by (simp add: unsigned_of_nat take_bit_eq_mod)
  have bytes: "list_all P (map of_nat xs) = list_all (\<lambda>c. P (of_nat c)) xs" for P :: "byte \<Rightarrow> bool" and xs
    by (simp add: list_all_iff)
  show ?thesis
  proof (cases "list_all (\<lambda>c. c < 128) q")
    case True
    then have t: "list_all (\<lambda>c. c < 128) (take 4 q)" "list_all (\<lambda>c. c < 128) (drop 4 q)"
      by (auto simp: list_all_iff dest: in_set_takeD in_set_dropD)
    have "list_all (\<lambda>b. is_ascii_digit (unat b)) (take 4 (str_bytes q)) = list_all is_ascii_digit (take 4 q)"
      "list_all (\<lambda>b. is_ascii_alphabetic (unat b)) (drop 4 (str_bytes q)) = list_all is_ascii_alphabetic (drop 4 q)"
      using t un by (auto simp: str_bytes_ascii [OF True] take_map drop_map bytes list_all_iff)
    moreover have "str_len q = length q" using True by (simp add: str_len_ascii list_all_iff)
    ultimately show ?thesis
      by (auto simp: postal_code_from_str_def concat_split_whitespace q_def [symmetric] Let_def split: if_splits)
  next
    case False
    then have "\<not> list_all (\<lambda>b. unat b < 128) (str_bytes q)" using ascii_bytes by blast
    then have "\<not> (list_all (\<lambda>b. is_ascii_digit (unat b)) (take 4 (str_bytes q)) \<and> list_all (\<lambda>b. is_ascii_alphabetic (unat b)) (drop 4 (str_bytes q)))"
      using cls by (metis (mono_tags, lifting) append_take_drop_id list_all_append list_all_iff)
    moreover have "\<not> (list_all is_ascii_digit (take 4 q) \<and> list_all is_ascii_alphabetic (drop 4 q))"
      using False cls by (metis (mono_tags, lifting) append_take_drop_id list_all_append list_all_iff)
    ultimately show ?thesis
      by (auto simp: postal_code_from_str_def concat_split_whitespace q_def [symmetric] Let_def split: if_splits)
  qed
qed

lemma postal_code_result: "postal_code_from_str v = Inr p \<Longrightarrow> postal_code_form p"
proof -
  have up: "is_ascii_digit c \<Longrightarrow> to_ascii_upper c = c" "is_ascii_alphabetic c \<Longrightarrow> is_ascii_upper (to_ascii_upper c)" for c
    by (auto simp: char_class_defs to_ascii_upper_def)
  assume "postal_code_from_str v = Inr p"
  with up show ?thesis by (auto simp: postal_code_ok postal_code_form_def Let_def take_map drop_map list_all_iff)
qed

lemma postal_code_again:
  assumes "postal_code_form p"
  shows "postal_code_from_str p = Inr p"
proof -
  have cls: "is_ascii_digit c \<or> is_ascii_upper c \<Longrightarrow> \<not> is_whitespace c \<and> to_ascii_upper c = c" for c
    by (auto simp: char_class_defs to_ascii_upper_def)
  have "set p = set (take 4 p) \<union> set (drop 4 p)" by (metis append_take_drop_id set_append)
  with assms have "\<forall>c\<in>set p. is_ascii_digit c \<or> is_ascii_upper c"
    by (auto simp: postal_code_form_def list_all_iff)
  with cls have "filter (\<lambda>c. \<not> is_whitespace c) p = p" "map to_ascii_upper p = p"
    by (simp_all add: filter_id_conv map_idI)
  with assms show ?thesis
    by (simp add: postal_code_ok postal_code_form_def is_ascii_alphabetic_def list_all_iff)
qed

subsection \<open>Initials and appellations\<close>

lemma is_initial_char_plain: "is_initial_char c \<Longrightarrow> \<not> is_whitespace c \<and> c \<noteq> 46 \<and> c \<noteq> 32"
  by (auto simp: is_initial_char_def is_teletex_char_def char_class_defs)

lemma initials_loop_ok:
  "initials_loop sep acc v = Inr ins \<Longrightarrow> list_all (\<lambda>(c, _). is_initial_char c) acc \<Longrightarrow> list_all (\<lambda>(c, _). is_initial_char c) ins"
proof (induction sep acc v rule: initials_loop.induct)
  case (2 sep acc c cs)
  show ?case
    by (cases "is_whitespace c"; cases cs) (use 2 in \<open>auto split: if_splits\<close>)
qed simp

lemma initials_loop_text:
  "list_all (\<lambda>(c, _). is_initial_char c) ins \<Longrightarrow> initials_loop prev acc (initials_text prev ins) = Inr (acc @ ins)"
proof (induction ins arbitrary: prev acc)
  case (Cons x ins)
  obtain c dot where x: "x = (c, dot)" by (cases x)
  with Cons.prems is_initial_char_plain have c: "is_initial_char c" "\<not> is_whitespace c" "c \<noteq> 46" by auto
  have no_dot: "initials_text False ins = [] \<or> (\<exists>t. initials_text False ins = 32 # t)" by (cases ins) auto
  have "initials_loop prev acc (initials_text prev (x # ins)) = initials_loop dot (acc @ [x]) (initials_text dot ins)"
    using x c no_dot by (cases dot) auto
  with Cons show ?case by simp
qed simp

lemma initials_ok:
  "initials_from_str v = Inr t \<longleftrightarrow> (\<exists>ins. initials_loop True [] v = Inr ins \<and> ins \<noteq> [] \<and> length ins \<le> MAX_INITIALS \<and> t = initials_text True ins)"
  by (cases "initials_loop True [] v") (auto simp: initials_from_str_def split: if_splits)

lemma initials_again: "initials_from_str v = Inr t \<Longrightarrow> initials_from_str t = Inr t"
  using initials_loop_ok [of True "[]" v] initials_loop_text [of _ True "[]"] by (fastforce simp: initials_ok)

lemma appellation_ok:
  "appellation_from_str v = Inr t \<longleftrightarrow> (let ws = split_whitespace v in t = join_space ws \<and> ws \<noteq> []
     \<and> sum_list (map length ws) \<le> APPELLATION_MAX_CHAR_COUNT \<and> list_all is_teletex_char t)"
proof -
  have "sum_list (map length (split_whitespace v)) = 0 \<longleftrightarrow> split_whitespace v = []"
    using split_whitespace_words [of _ v] by (cases "split_whitespace v") auto
  then show ?thesis
    by (auto simp: appellation_from_str_def Let_def validate_teletex_chars_def simp del: sum_list_eq_0_iff split: if_splits)
qed

lemma appellation_again: "appellation_from_str v = Inr t \<Longrightarrow> appellation_from_str t = Inr t"
  using split_join [of "split_whitespace v"] split_whitespace_words [of _ v] by (auto simp: appellation_ok Let_def)

subsection \<open>What is accepted\<close>

lemma last_name_ok:
  "last_name_from_str v = Inr t \<longleftrightarrow> t = trim v \<and> t \<noteq> [] \<and> str_len t \<le> 255 \<and> list_all is_teletex_char t
     \<and> (\<forall>p r. split_once_space t = Some (p, r) \<longrightarrow> \<not> is_last_name_prefix p)"
  by (auto simp: last_name_from_str_def bind_res_eq_Inr validate_length_ok Suc_le_eq split: option.splits if_splits)

lemma last_name_prefix_ok: "last_name_prefix_from_str v = Inr t \<longleftrightarrow> t = trim v \<and> t \<in> set LAST_NAME_PREFIXES"
  by (auto simp: last_name_prefix_from_str_def Let_def)

lemma house_number_ok:
  "house_number_from_str v = Inr t \<longleftrightarrow> t = trim v \<and> t \<noteq> [] \<and> length t \<le> 7 \<and> list_all is_ascii_digit t"
  using digits_trimmed [of "trim v"] by (auto simp: house_number_from_str_def Let_def MAX_HOUSE_NUMBER_LENGTH_def)

lemma house_number_addition_ok:
  "house_number_addition_from_str v = Inr t \<longleftrightarrow> t = trim v \<and> t \<noteq> [] \<and> str_len t \<le> 4 \<and> list_all (\<lambda>c. is_ascii_alphanumeric c \<or> c = 45) t"
  by (auto simp: house_number_addition_from_str_def Let_def MAX_HOUSE_NUMBER_ADDITION_LENGTH_def)

lemma international_postal_code_ok:
  "international_postal_code_from_str v = Inr t \<longleftrightarrow> t = trim v \<and> t \<noteq> [] \<and> str_len t \<le> 20 \<and> list_all is_teletex_char t"
  by (auto simp: international_postal_code_from_str_def bind_res_eq_Inr validate_length_ok Suc_le_eq)

lemma omission_text_ok:
  "omission_text_from_str v = Inr t \<longleftrightarrow> multiline_from_str 2000 v = Inr t \<and> 123 \<notin> set t \<and> 125 \<notin> set t"
proof (cases "validate_length (replace_crlf v) 1 2000")
  case (Inr u)
  then show ?thesis
    unfolding omission_text_from_str_def multiline_from_str_def Inr bind_res_simps
    by (cases "validate_multi_line_teletex_chars u") (auto simp: list_ex_iff simp del: validate_multi_line_ok)
qed (simp add: omission_text_from_str_def multiline_from_str_def)






lemma bsn_or_none_again:
  assumes "bsn_or_none_from_str v = Inr b"
  shows "bsn_or_none_from_str (bsn_or_none_to_exposed_string b) = Inr b"
proof (cases "trim v = BSN_NONE_CONFIRMATION")
  case True
  have "trim BSN_NONE_CONFIRMATION = BSN_NONE_CONFIRMATION" by (simp add: BSN_NONE_CONFIRMATION_def text_eval)
  with True assms show ?thesis by (simp add: bsn_or_none_from_str_def)
next
  case False
  with assms obtain t where "b = Bsn t" "bsn_from_str v = Inr t" by (auto simp: bsn_or_none_from_str_def bind_res_eq_Inr)
  moreover from this have "bsn_from_str t = Inr t" "trim t = trim v" by (auto simp: bsn_from_str_ok)
  ultimately show ?thesis using False by (simp add: bsn_or_none_from_str_def)
qed

lemma multiline_chars: "multiline_from_str mx v = Inr t \<Longrightarrow> trimmed t \<and> t \<noteq> [] \<and> str_len t \<le> mx \<and> 13 \<notin> set t"
  by (auto simp: multiline_ok list_all_iff is_teletex_char_def)




text \<open>A value that was accepted, submitted again, is accepted as it stands: reading a stored
  value loses nothing and changes nothing.\<close>

theorem accepted_values_stable:
  "(constrained_from_str mx v = Ok t \<longrightarrow> constrained_from_str mx t = Ok t)
   \<and> (multiline_from_str mx v = Ok t \<longrightarrow> multiline_from_str mx t = Ok t)
   \<and> (omission_text_from_str v = Ok t \<longrightarrow> omission_text_from_str t = Ok t)
   \<and> (bsn_from_str v = Ok t \<longrightarrow> bsn_from_str t = Ok t)
   \<and> (bsn_or_none_from_str v = Ok b \<longrightarrow> bsn_or_none_from_str (bsn_or_none_to_exposed_string b) = Ok b)
   \<and> (postal_code_from_str v = Ok t \<longrightarrow> postal_code_from_str t = Ok t)
   \<and> (international_postal_code_from_str v = Ok t \<longrightarrow> international_postal_code_from_str t = Ok t)
   \<and> (initials_from_str v = Ok t \<longrightarrow> initials_from_str t = Ok t)
   \<and> (appellation_from_str v = Ok t \<longrightarrow> appellation_from_str t = Ok t)
   \<and> (last_name_from_str v = Ok t \<longrightarrow> last_name_from_str t = Ok t)
   \<and> (last_name_prefix_from_str v = Ok t \<longrightarrow> last_name_prefix_from_str t = Ok t)
   \<and> (house_number_from_str v = Ok t \<longrightarrow> house_number_from_str t = Ok t)
   \<and> (house_number_addition_from_str v = Ok t \<longrightarrow> house_number_addition_from_str t = Ok t)"
proof -
  have crlf: "multiline_from_str n v = Inr t \<Longrightarrow> multiline_from_str n t = Inr t" for n
    using multiline_chars [of n v t] unfolding multiline_ok by (auto simp: replace_crlf_id)
  note crlf
  moreover have "omission_text_from_str v = Inr t \<Longrightarrow> omission_text_from_str t = Inr t"
    using crlf [of 2000] by (simp add: omission_text_ok)
  moreover have "bsn_or_none_from_str v = Inr b \<Longrightarrow> bsn_or_none_from_str (bsn_or_none_to_exposed_string b) = Inr b"
    by (rule bsn_or_none_again)
  moreover have "postal_code_from_str v = Inr t \<Longrightarrow> postal_code_from_str t = Inr t"
    by (rule postal_code_again [OF postal_code_result])
  moreover note initials_again [of v t] appellation_again [of v t]
  moreover have "constrained_from_str mx v = Inr t \<Longrightarrow> constrained_from_str mx t = Inr t" by (auto simp: constrained_ok)
  moreover have "bsn_from_str v = Inr t \<Longrightarrow> bsn_from_str t = Inr t" by (auto simp: bsn_from_str_ok)
  moreover have "international_postal_code_from_str v = Inr t \<Longrightarrow> international_postal_code_from_str t = Inr t"
    by (auto simp: international_postal_code_ok)
  moreover have "last_name_from_str v = Inr t \<Longrightarrow> last_name_from_str t = Inr t" unfolding last_name_ok by (metis trim_idem)
  moreover have "last_name_prefix_from_str v = Inr t \<Longrightarrow> last_name_prefix_from_str t = Inr t" by (auto simp: last_name_prefix_ok)
  moreover have "house_number_from_str v = Inr t \<Longrightarrow> house_number_from_str t = Inr t" by (auto simp: house_number_ok)
  moreover have "house_number_addition_from_str v = Inr t \<Longrightarrow> house_number_addition_from_str t = Inr t"
    by (auto simp: house_number_addition_ok)
  ultimately show ?thesis by (intro conjI impI)
qed

theorem accepted_values_stable_witness:
  "initials_from_str [97, 46, 32, 98, 32, 99, 46] = Ok [97, 46, 98, 32, 99, 46]
   \<and> initials_from_str [97, 46, 98, 32, 99, 46] = Ok [97, 46, 98, 32, 99, 46]"
proof -
  have *: "initials_from_str [97, 46, 32, 98, 32, 99, 46] = Ok [97, 46, 98, 32, 99, 46]"
    by (simp add: initials_from_str_def text_eval is_initial_char_def MAX_INITIALS_def)
  show ?thesis using accepted_values_stable [of _ "[97, 46, 32, 98, 32, 99, 46]" "[97, 46, 98, 32, 99, 46]"] * by blast
qed

end
