(* ===== verification/Brp_Client.thy ===== *)
theory Brp_Client
  imports Values Brp
begin

text \<open>
  The check of candidates against the national person register: what the register returns
  (\<open>structs/brp/person.rs\<close>), the comparison of one candidate with one record, and the
  requests made for a batch of candidates (\<open>structs/brp/client.rs\<close>). What the register
  answers is a parameter: a function of the number of the request within the batch and of the
  query, with an error for a request that failed.
\<close>

subsection \<open>What the register returns\<close>

record brp_code_value =
  bcv_code :: "rstring option"

record brp_name =
  brn_last_name :: "rstring option"
  brn_last_name_prefix :: "rstring option"
  brn_initials :: "rstring option"

record brp_partner =
  bpt_name :: "brp_name option"

record brp_date =
  bd_date :: "rstring option"

record brp_birth =
  bb_date :: "brp_date option"

record brp_death =
  bde_date :: "brp_date option"

record brp_nationality =
  bna_nationality :: "brp_code_value option"

record brp_suffrage_exclusion =
  bse_excluded :: "bool option"

record brp_address =
  ba_place_of_residence :: "rstring option"

datatype brp_residence =
    ResidenceAddress "brp_address option"
  | ResidenceLocation
  | ResidenceForeign
  | ResidenceNotKnown
  | ResidenceOther

record brp_person =
  bp_bsn :: "rstring option"
  bp_name :: "brp_name option"
  bp_gender :: "brp_code_value option"
  bp_birth :: "brp_birth option"
  bp_death :: "brp_death option"
  bp_nationalities :: "brp_nationality list"
  bp_suffrage_exclusion :: "brp_suffrage_exclusion option"
  bp_residence :: "brp_residence option"
  bp_partners :: "brp_partner list"

definition DUTCH_NATIONALITY_CODE :: rstring where "DUTCH_NATIONALITY_CODE = lit ''0001''"

definition brp_date_of_birth :: "brp_person \<Rightarrow> rstring option" where
  "brp_date_of_birth b = Option.bind (Option.bind (bp_birth b) bb_date) bd_date"

definition brp_date_of_death :: "brp_person \<Rightarrow> rstring option" where
  "brp_date_of_death b = Option.bind (Option.bind (bp_death b) bde_date) bd_date"

definition is_deceased :: "brp_person \<Rightarrow> bool" where
  "is_deceased b = (bp_death b \<noteq> None)"

definition gender_code :: "brp_person \<Rightarrow> rstring option" where
  "gender_code b = Option.bind (bp_gender b) bcv_code"

definition is_dutch :: "brp_person \<Rightarrow> bool" where
  "is_dutch b = list_ex (\<lambda>entry. Option.bind (bna_nationality entry) bcv_code = Some DUTCH_NATIONALITY_CODE) (bp_nationalities b)"

definition is_excluded_from_suffrage :: "brp_person \<Rightarrow> bool" where
  "is_excluded_from_suffrage b = (case Option.bind (bp_suffrage_exclusion b) bse_excluded of None \<Rightarrow> False | Some x \<Rightarrow> x)"

subsection \<open>Comparing one candidate\<close>

definition GENDER_UNKNOWN_CODE :: rstring where "GENDER_UNKNOWN_CODE = lit ''O''"

fun brp_gender_code :: "gender \<Rightarrow> rstring" where
  "brp_gender_code Male = lit ''M''"
| "brp_gender_code Female = lit ''V''"

definition BRP_DATE_FORMAT :: rstring where "BRP_DATE_FORMAT = lit ''%Y-%m-%d''"

definition parse_brp_date :: "value_env \<Rightarrow> rstring \<Rightarrow> naive_date option" where
  "parse_brp_date env raw = ve_parse_date env (trim raw) BRP_DATE_FORMAT"

text \<open>\<open>parse\<close> is the \<open>FromStr\<close> of the type compared.\<close>

definition brp_compare :: "brp_checked_field \<Rightarrow> (rstring \<Rightarrow> 'a validated) \<Rightarrow> 'a option \<Rightarrow> rstring option
    \<Rightarrow> ('a \<Rightarrow> brp_value) \<Rightarrow> brp_finding_kind option" where
  "brp_compare field parse ours theirs into_value =
    (let raw = (case theirs of None \<Rightarrow> [] | Some s \<Rightarrow> trim s) in
     if raw = [] then Some (MissingInBrp field)
     else (case parse raw of
         Inl _ \<Rightarrow> Some (Unparsable field raw)
       | Inr parsed \<Rightarrow> if ours = Some parsed then None else Some (Mismatch (into_value parsed))))"

text \<open>A value of the register that is there and not blank, trimmed.\<close>

definition non_blank :: "rstring option \<Rightarrow> rstring option" where
  "non_blank v = (case v of None \<Rightarrow> None | Some s \<Rightarrow> if trim s = [] then None else Some (trim s))"

definition parse_brp_name :: "brp_name \<Rightarrow> brp_last_name option" where
  "parse_brp_name name =
    (case Option.bind (non_blank (brn_last_name name)) (\<lambda>s. res_ok (last_name_from_str s)) of
       None \<Rightarrow> None
     | Some last_name \<Rightarrow> Some \<lparr>
         bn_last_name_prefix = Option.bind (non_blank (brn_last_name_prefix name)) (\<lambda>s. res_ok (last_name_prefix_from_str s)),
         bn_last_name = last_name\<rparr>)"

abbreviation hyphenated :: "brp_last_name \<Rightarrow> brp_last_name \<Rightarrow> brp_last_name option" where
  "hyphenated \<equiv> hyphenated_with (\<lambda>s. res_ok (last_name_from_str s))"

definition push_new :: "'a \<Rightarrow> 'a list \<Rightarrow> 'a list" where
  "push_new name allowed = (if name \<in> set allowed then allowed else allowed @ [name])"

definition name_variants :: "brp_last_name \<Rightarrow> brp_last_name \<Rightarrow> brp_last_name list" where
  "name_variants own partner = List.map_filter (\<lambda>v. v) [Some partner, hyphenated own partner, hyphenated partner own]"

definition allowed_names :: "brp_last_name \<Rightarrow> brp_person \<Rightarrow> brp_last_name list" where
  "allowed_names own b =
    (let partners = List.map_filter (\<lambda>partner. Option.bind (bpt_name partner) parse_brp_name) (bp_partners b)
     in fold (\<lambda>partner. fold push_new (name_variants own partner)) partners [own])"

definition last_name_finding :: "person \<Rightarrow> brp_person \<Rightarrow> brp_finding_kind option" where
  "last_name_finding p b = brp_compare CheckedLastName last_name_from_str (Some (fn_last_name (p_name p)))
     (Option.bind (bp_name b) brn_last_name) ValLastName"

definition last_name_prefix_finding :: "person \<Rightarrow> brp_person \<Rightarrow> brp_finding_kind option" where
  "last_name_prefix_finding p b =
    (let field = CheckedLastNamePrefix; ours = fn_last_name_prefix (p_name p);
         theirs = non_blank (Option.bind (bp_name b) brn_last_name_prefix) in
     case theirs of
       None \<Rightarrow> map_option (\<lambda>_. MissingInBrp field) ours
     | Some raw \<Rightarrow> (case last_name_prefix_from_str raw of
         Inl _ \<Rightarrow> Some (Unparsable field raw)
       | Inr brp_prefix \<Rightarrow> if ours \<noteq> Some brp_prefix then Some (Mismatch (ValLastNamePrefix brp_prefix)) else None))"

definition own_name :: "person \<Rightarrow> brp_last_name" where
  "own_name p = \<lparr>bn_last_name_prefix = fn_last_name_prefix (p_name p), bn_last_name = fn_last_name (p_name p)\<rparr>"

definition option_list :: "'a option \<Rightarrow> 'a list" where
  "option_list v = (case v of None \<Rightarrow> [] | Some x \<Rightarrow> [x])"

definition name_findings :: "person \<Rightarrow> brp_person \<Rightarrow> brp_finding_kind list" where
  "name_findings p b =
    (let separate = option_list (last_name_prefix_finding p b) @ option_list (last_name_finding p b) in
     case Option.bind (bp_name b) parse_brp_name of
       None \<Rightarrow> separate
     | Some own \<Rightarrow>
        (let allowed = allowed_names own b in
         if own_name p \<in> set allowed then []
         else if length allowed = 1 then separate
         else [LastNameNotAllowed allowed]))"

definition initials_finding :: "person \<Rightarrow> brp_person \<Rightarrow> brp_finding_kind option" where
  "initials_finding p b =
    (let field = CheckedInitials; ours = fn_initials (p_name p) in
     case non_blank (Option.bind (bp_name b) brn_initials) of
       None \<Rightarrow> map_option (\<lambda>_. MissingInBrp field) ours
     | Some theirs \<Rightarrow> brp_compare field initials_from_str ours (Some theirs) ValInitials)"

definition gender_finding :: "value_env \<Rightarrow> person \<Rightarrow> brp_person \<Rightarrow> brp_finding_kind option" where
  "gender_finding env p b =
    (case pd_gender (p_personal_data p) of
       None \<Rightarrow> None
     | Some ours \<Rightarrow>
        if (case gender_code b of None \<Rightarrow> False | Some code \<Rightarrow> eq_ignore_ascii_case code GENDER_UNKNOWN_CODE)
        then Some (MissingInBrp CheckedGender)
        else brp_compare CheckedGender (gender_from_str env) (Some ours) (gender_code b) ValGender)"

definition date_of_birth_finding :: "value_env \<Rightarrow> person \<Rightarrow> brp_person \<Rightarrow> brp_finding_kind option" where
  "date_of_birth_finding env p b =
    (let field = CheckedDateOfBirth in
     case brp_date_of_birth b of
       None \<Rightarrow> Some (MissingInBrp field)
     | Some raw \<Rightarrow> (case parse_brp_date env raw of
         None \<Rightarrow> Some (Unparsable field raw)
       | Some date \<Rightarrow> if pd_date_of_birth (p_personal_data p) = Some date then None
           else Some (Mismatch (ValDateOfBirth date))))"

definition place_of_residence_finding :: "value_env \<Rightarrow> person \<Rightarrow> brp_person \<Rightarrow> brp_finding_kind option" where
  "place_of_residence_finding env p b =
    (case bp_residence b of
       Some (ResidenceAddress address) \<Rightarrow>
         brp_compare CheckedPlaceOfResidence (place_of_residence_from_str env) (pd_place_of_residence (p_personal_data p))
           (Option.bind address ba_place_of_residence) ValPlaceOfResidence
     | Some ResidenceForeign \<Rightarrow> Some ResidenceAbroad
     | Some ResidenceLocation \<Rightarrow> Some ResidenceWithoutAddress
     | _ \<Rightarrow> Some ResidenceUnknown)"

definition eligibility_findings :: "value_env \<Rightarrow> brp_person \<Rightarrow> brp_finding_kind list" where
  "eligibility_findings env b =
     (if is_deceased b then [Deceased (Option.bind (brp_date_of_death b) (parse_brp_date env))] else [])
     @ (if \<not> is_dutch b then [NotDutch] else [])
     @ (if is_excluded_from_suffrage b then [ExcludedFromSuffrage] else [])"

definition findings_for :: "value_env \<Rightarrow> person \<Rightarrow> brp_person \<Rightarrow> brp_finding_kind list" where
  "findings_for env p b =
     name_findings p b @ option_list (initials_finding p b) @ option_list (gender_finding env p b)
     @ option_list (date_of_birth_finding env p b) @ option_list (place_of_residence_finding env p b)
     @ eligibility_findings env b"

subsection \<open>Requests\<close>

definition BRP_BSN_BATCH_SIZE :: nat where "BRP_BSN_BATCH_SIZE = 10"

definition CANDIDATE_FIELDS :: "brp_field list" where
  "CANDIDATE_FIELDS = [FieldBsn, FieldInitials, FieldLastNamePrefix, FieldLastName, FieldGender, FieldDateOfBirth,
     FieldPlaceOfResidence, FieldDateOfDeath, FieldNationality, FieldSuffrageExclusion,
     FieldPartnerLastNamePrefix, FieldPartnerLastName]"

text \<open>What lies outside: the parsing of values, the form of a date in a query and the text of an
  error. A step that sends requests adds them to the list of lookups, also when it fails.\<close>

record brp_env =
  be_values :: value_env
  be_format_date :: "naive_date \<Rightarrow> rstring"
  be_error_text :: "app_error \<Rightarrow> rstring"

type_synonym brp_answers = "nat \<Rightarrow> brp_query \<Rightarrow> brp_person list result"
type_synonym 'a consulting = "brp_lookup list \<Rightarrow> 'a result \<times> brp_lookup list"

definition return_c :: "'a \<Rightarrow> 'a consulting" where
  "return_c a lookups = (Ok a, lookups)"

definition bind_c :: "'a consulting \<Rightarrow> ('a \<Rightarrow> 'b consulting) \<Rightarrow> 'b consulting" where
  "bind_c m f lookups = (case m lookups of (Inl e, lookups') \<Rightarrow> (Err e, lookups') | (Inr a, lookups') \<Rightarrow> f a lookups')"

definition lookup_outcome :: "brp_env \<Rightarrow> brp_person list result \<Rightarrow> brp_lookup_outcome" where
  "lookup_outcome env result = (case result of
      Inr found \<Rightarrow> Returned (map (\<lambda>b. as_str_or_empty (bp_bsn b)) found)
    | Inl err \<Rightarrow> Failed (be_error_text env err))"

definition consult :: "brp_env \<Rightarrow> brp_answers \<Rightarrow> brp_query \<Rightarrow> person_id list \<Rightarrow> brp_person list consulting" where
  "consult env ask query persons lookups =
    (let result = ask (length lookups) query in
     (result, lookups @ [\<lparr>bl_persons = persons, bl_query = query, bl_outcome = lookup_outcome env result\<rparr>]))"

definition bsn_of :: "person \<Rightarrow> rstring option" where
  "bsn_of p = (case pd_bsn (p_personal_data p) of Some (Bsn bsn) \<Rightarrow> Some bsn | _ \<Rightarrow> None)"

definition get_person_by_bsn :: "brp_env \<Rightarrow> brp_answers \<Rightarrow> rstring \<Rightarrow> person_id \<Rightarrow> brp_person option consulting" where
  "get_person_by_bsn env ask bsn person =
     bind_c (consult env ask (ConsultWithBsn [bsn] CANDIDATE_FIELDS) [person])
       (\<lambda>found. return_c (case found of [] \<Rightarrow> None | b # _ \<Rightarrow> Some b))"

text \<open>The combinations searched on, broadest first.\<close>

definition narrowings :: "rstring option \<Rightarrow> rstring option \<Rightarrow> (rstring option \<times> rstring option) list" where
  "narrowings prefix gender =
     [(None, None)]
     @ (if gender \<noteq> None then [(None, gender)] else [])
     @ (if prefix \<noteq> None then [(prefix, None)] @ (if gender \<noteq> None then [(prefix, gender)] else []) else [])"

fun search_loop :: "brp_env \<Rightarrow> brp_answers \<Rightarrow> person_id \<Rightarrow> rstring \<Rightarrow> rstring
    \<Rightarrow> (rstring option \<times> rstring option) list \<Rightarrow> rstring list \<Rightarrow> rstring list consulting" where
  "search_loop env ask person last_name date_of_birth [] found = return_c found"
| "search_loop env ask person last_name date_of_birth ((prefix, gender) # rest) found =
     bind_c (consult env ask
         (SearchByLastNameAndDateOfBirth last_name date_of_birth prefix gender True [FieldBsn]) [person])
       (\<lambda>persons. let found = List.map_filter (\<lambda>b. Option.bind (bp_bsn b) (\<lambda>s. res_ok (bsn_from_str s))) persons in
         if length found \<le> 1 then return_c found
         else search_loop env ask person last_name date_of_birth rest found)"

definition search_by_personal_details :: "brp_env \<Rightarrow> brp_answers \<Rightarrow> person \<Rightarrow> rstring list option consulting" where
  "search_by_personal_details env ask p =
    (case pd_date_of_birth (p_personal_data p) of
       None \<Rightarrow> return_c None
     | Some date \<Rightarrow>
        if trim (fn_last_name (p_name p)) = [] then return_c None
        else bind_c (search_loop env ask (p_id p) (fn_last_name (p_name p)) (be_format_date env date)
            (narrowings (fn_last_name_prefix (p_name p)) (map_option brp_gender_code (pd_gender (p_personal_data p)))) [])
          (\<lambda>found. return_c (Some found)))"

definition no_match_reason :: "person \<Rightarrow> brp_finding_kind" where
  "no_match_reason p = (case pd_bsn (p_personal_data p) of
      Some (Bsn _) \<Rightarrow> BsnUnknown | Some NoneConfirmed \<Rightarrow> BsnNoneConfirmed | None \<Rightarrow> BsnMissing)"

definition findings_without_a_bsn_match :: "brp_env \<Rightarrow> brp_answers \<Rightarrow> person \<Rightarrow> brp_finding_kind list consulting" where
  "findings_without_a_bsn_match env ask p =
    (let findings = [no_match_reason p] in
     bind_c (search_by_personal_details env ask p) (\<lambda>found.
       case found of
         None \<Rightarrow> return_c findings
       | Some [] \<Rightarrow> return_c findings
       | Some [bsn] \<Rightarrow> bind_c (get_person_by_bsn env ask bsn (p_id p)) (\<lambda>b.
           return_c (findings @ [BsnMatchedByPersonalDetails bsn]
             @ (case b of None \<Rightarrow> [] | Some brp_person \<Rightarrow> findings_for (be_values env) p brp_person)))
       | Some (_ # _ # _) \<Rightarrow> return_c (findings @ [PersonalDetailsNotUnique])))"

definition matched_by_bsn :: "brp_person list \<Rightarrow> person \<Rightarrow> brp_person list" where
  "matched_by_bsn brp_persons p = (case bsn_of p of
      Some bsn \<Rightarrow> filter (\<lambda>b. bp_bsn b = Some bsn) brp_persons
    | None \<Rightarrow> [])"

definition person_findings :: "brp_env \<Rightarrow> brp_answers \<Rightarrow> brp_person list \<Rightarrow> person \<Rightarrow> brp_finding_kind list consulting" where
  "person_findings env ask brp_persons p = (case matched_by_bsn brp_persons p of
      [] \<Rightarrow> findings_without_a_bsn_match env ask p
    | [b] \<Rightarrow> return_c (findings_for (be_values env) p b)
    | _ \<Rightarrow> return_c [BsnNotUnique])"

fun verify_persons :: "brp_env \<Rightarrow> brp_answers \<Rightarrow> brp_person list \<Rightarrow> person list
    \<Rightarrow> (person_id \<times> brp_finding list) list \<Rightarrow> (person_id \<times> brp_finding list) list consulting" where
  "verify_persons env ask brp_persons [] results = return_c results"
| "verify_persons env ask brp_persons (p # ps) results =
     bind_c (person_findings env ask brp_persons p) (\<lambda>findings.
       verify_persons env ask brp_persons ps (results @ [(p_id p, map brp_finding_of_kind findings)]))"

definition batch_query :: "person list \<Rightarrow> brp_query" where
  "batch_query with_bsn = ConsultWithBsn (List.map_filter bsn_of with_bsn) CANDIDATE_FIELDS"

definition verify_batch_recording :: "brp_env \<Rightarrow> brp_answers \<Rightarrow> person list \<Rightarrow> (person_id \<times> brp_finding list) list consulting" where
  "verify_batch_recording env ask persons lookups =
    (if length persons > BRP_BSN_BATCH_SIZE then
       (Err (BrpError (lit ''a batch of '' @ nat_text (length persons) @ lit '' candidates exceeds the batch size of ''
          @ nat_text BRP_BSN_BATCH_SIZE)), lookups)
     else
       let with_bsn = filter (\<lambda>p. bsn_of p \<noteq> None) persons in
       bind_c (if with_bsn = [] then return_c [] else consult env ask (batch_query with_bsn) (map p_id with_bsn))
         (\<lambda>brp_persons. verify_persons env ask brp_persons persons []) lookups)"

record brp_batch =
  bb_lookups :: "brp_lookup list"
  bb_outcome :: "(person_id \<times> brp_finding list) list result"

definition verify_batch :: "brp_env \<Rightarrow> brp_answers \<Rightarrow> person list \<Rightarrow> brp_batch" where
  "verify_batch env ask persons = (case verify_batch_recording env ask persons [] of
      (outcome, lookups) \<Rightarrow> \<lparr>bb_lookups = lookups, bb_outcome = outcome\<rparr>)"

end
