(* ===== verification/Brp_Sweep.thy ===== *)
theory Brp_Sweep
  imports Brp_Client Csb_Getters Conditional_Update
begin

text \<open>
  The check of a whole committee stream against the person register
  (\<open>csb/import/pages/import.rs\<close>) and of one candidate
  (\<open>csb/examination/pages/candidate.rs\<close>), with the write handle they use
  (\<open>projection/csb_store.rs\<close>).
\<close>

subsection \<open>The write handle of a committee member\<close>

text \<open>A stream as the handle sees it: its projection, the backend's append, and what other
  requests do in between. Each operation of a request has a number; an append within it has the
  number of attempts left after it.\<close>

record 's csb_stream =
  cs_snapshot :: "'s \<Rightarrow> csb_store_data"
  cs_last_id :: "csb_store_data \<Rightarrow> nat"
  cs_append :: "nat \<Rightarrow> nat \<Rightarrow> csb_event \<Rightarrow> nat option \<Rightarrow> 's \<Rightarrow> 's \<times> unit result"
  cs_other :: "nat \<Rightarrow> nat \<Rightarrow> 's \<Rightarrow> 's"

record 's csb_store =
  st_stream :: "'s csb_stream"
  st_user :: csb_user

definition acting_as :: "'s csb_stream \<Rightarrow> csb_user \<Rightarrow> 's csb_store" where
  "acting_as stream user = \<lparr>st_stream = stream, st_user = user\<rparr>"

definition csb_store_update :: "'s csb_store \<Rightarrow> nat \<Rightarrow> csb_action \<Rightarrow> 's \<Rightarrow> 's \<times> unit result" where
  "csb_store_update store k action s =
    (let h = st_stream store in cs_append h k 0 (csb_action_by action (st_user store)) None (cs_other h k 0 s))"

definition csb_store_update_when :: "'s csb_store \<Rightarrow> nat \<Rightarrow> (csb_store_data \<Rightarrow> csb_action option) \<Rightarrow> 's \<Rightarrow> 's \<times> bool result" where
  "csb_store_update_when store k decision s =
    (let h = st_stream store in
     update_when (cs_snapshot h) (cs_last_id h) (cs_append h k) (cs_other h k)
       (\<lambda>data. map_option (\<lambda>action. csb_action_by action (st_user store)) (decision data)) s)"

subsection \<open>The sweep\<close>

text \<open>\<open>slice::chunks\<close>; the size is positive.\<close>

function chunks :: "nat \<Rightarrow> 'a list \<Rightarrow> 'a list list" where
  "chunks n xs = (if xs = [] \<or> n = 0 then [] else take n xs # chunks n (drop n xs))"
  by pat_completeness auto

termination
  by (relation "measure (length o snd)") auto

declare chunks.simps [simp del]

definition brp_result_event :: "person \<Rightarrow> brp_finding list \<Rightarrow> csb_store_data \<Rightarrow> csb_action option" where
  "brp_result_event checked findings data =
    (if res_ok (get_person (csb_pg data CorrAll) (p_id checked)) = Some checked
     then Some (BrpPersonChecked (p_id checked) findings) else None)"

definition record_brp_result :: "'s csb_store \<Rightarrow> nat \<Rightarrow> person \<Rightarrow> brp_finding list \<Rightarrow> 's \<Rightarrow> 's \<times> bool result" where
  "record_brp_result store k checked findings s = csb_store_update_when store k (brp_result_event checked findings) s"

text \<open>The warnings written before a batch is sent: for each candidate, whether and how it was
  corrected, and whether it has no citizen service number.\<close>

datatype lookup_warning = CorrectedCandidate person_id rstring | LookupWithoutBsn person_id

definition report_sensitive_lookups :: "csb_store_data \<Rightarrow> person list \<Rightarrow> lookup_warning list" where
  "report_sensitive_lookups data batch = concat (map (\<lambda>p.
     (case (is_person_paper_corrected data (p_id p), has_candidate_csb_corrections data (p_id p)) of
        (True, True) \<Rightarrow> [CorrectedCandidate (p_id p) (lit ''paper_and_csb'')]
      | (True, False) \<Rightarrow> [CorrectedCandidate (p_id p) (lit ''paper'')]
      | (False, True) \<Rightarrow> [CorrectedCandidate (p_id p) (lit ''csb'')]
      | (False, False) \<Rightarrow> [])
     @ (case pd_bsn (p_personal_data p) of Some (Bsn _) \<Rightarrow> [] | _ \<Rightarrow> [LookupWithoutBsn (p_id p)])) batch)"

text \<open>The loops of a request thread the number of its next operation and the stream.\<close>

fun record_lookups :: "'s csb_store \<Rightarrow> brp_lookup list \<Rightarrow> nat \<times> 's \<Rightarrow> (nat \<times> 's) \<times> unit result" where
  "record_lookups store [] (k, s) = ((k, s), Ok ())"
| "record_lookups store (l # ls) (k, s) = (case csb_store_update store k (BrpLookup l) s of
      (s', Inl e) \<Rightarrow> ((Suc k, s'), Err e)
    | (s', Inr _) \<Rightarrow> record_lookups store ls (Suc k, s'))"

fun record_results :: "'s csb_store \<Rightarrow> person list \<Rightarrow> (person_id \<times> brp_finding list) list \<Rightarrow> nat \<times> 's \<Rightarrow> (nat \<times> 's) \<times> unit result" where
  "record_results store batch [] (k, s) = ((k, s), Ok ())"
| "record_results store batch ((i, findings) # rs) (k, s) = (case find (\<lambda>p. p_id p = i) batch of
      None \<Rightarrow> record_results store batch rs (k, s)
    | Some checked \<Rightarrow> (case record_brp_result store k checked findings s of
        (s', Inl e) \<Rightarrow> ((Suc k, s'), Err e)
      | (s', Inr _) \<Rightarrow> record_results store batch rs (Suc k, s')))"

text \<open>What the register answers is a parameter per batch.\<close>

fun sweep_batches :: "'s csb_store \<Rightarrow> brp_env \<Rightarrow> (nat \<Rightarrow> brp_answers) \<Rightarrow> nat \<Rightarrow> person list list \<Rightarrow> nat \<times> 's \<Rightarrow> (nat \<times> 's) \<times> unit result" where
  "sweep_batches store env ask n [] ks = (ks, Ok ())"
| "sweep_batches store env ask n (batch # rest) ks =
    (let checked = verify_batch env (ask n) batch in
     case record_lookups store (bb_lookups checked) ks of
       (ks, Inl e) \<Rightarrow> (ks, Err e)
     | (ks, Inr _) \<Rightarrow> (case bb_outcome checked of
         Inl e \<Rightarrow> (ks, Err e)
       | Inr results \<Rightarrow> (case record_results store batch results ks of
           (ks, Inl e) \<Rightarrow> (ks, Err e)
         | (ks, Inr _) \<Rightarrow> sweep_batches store env ask (Suc n) rest ks)))"

definition unchecked_candidates :: "csb_store_data \<Rightarrow> person list" where
  "unchecked_candidates data = filter (\<lambda>p. \<not> is_brp_checked data (p_id p)) (get_persons (csb_pg data CorrAll))"

definition verify_candidates :: "'s csb_store \<Rightarrow> brp_env \<Rightarrow> (nat \<Rightarrow> brp_answers) \<Rightarrow> nat \<times> 's \<Rightarrow> (nat \<times> 's) \<times> unit result" where
  "verify_candidates store env ask = (\<lambda>(k, s).
    let data = cs_snapshot (st_stream store) s in
    case sweep_batches store env ask 0 (chunks BRP_BSN_BATCH_SIZE (unchecked_candidates data)) (k, s) of
      (ks, Inl e) \<Rightarrow> (ks, Err e)
    | ((k, s), Inr _) \<Rightarrow> (case csb_store_update store k (SetBrpStatus Finished) s of (s', r) \<Rightarrow> ((Suc k, s'), r)))"

text \<open>The streams being swept by this process; a claim is released when it is dropped.\<close>

definition claim_sweep :: "stream_id \<Rightarrow> stream_id set \<Rightarrow> stream_id set \<times> bool" where
  "claim_sweep stream_id running = (insert stream_id running, stream_id \<notin> running)"

definition drop_claim :: "stream_id \<Rightarrow> stream_id set \<Rightarrow> stream_id set" where
  "drop_claim stream_id running = running - {stream_id}"

definition brp_sweep_running :: "stream_id \<Rightarrow> stream_id set \<Rightarrow> bool" where
  "brp_sweep_running stream_id running = (stream_id \<in> running)"

text \<open>The task that runs the sweep; a failure to record the aborted status is only logged. A panic
  of the sweep, which the code reports like an error, is not modelled.\<close>

definition monitor_verification :: "'s csb_store \<Rightarrow> brp_env \<Rightarrow> (nat \<Rightarrow> brp_answers) \<Rightarrow> nat \<times> 's \<Rightarrow> nat \<times> 's" where
  "monitor_verification store env ask ks =
    (case verify_candidates store env ask ks of
       (ks, Inr _) \<Rightarrow> ks
     | ((k, s), Inl e) \<Rightarrow> (Suc k, fst (csb_store_update store k (SetBrpStatus (Aborted (be_error_text env e))) s)))"

text \<open>Starting a sweep: the result says whether a task was started, which then holds the claim.\<close>

definition do_brp_verification :: "'s csb_store \<Rightarrow> stream_id \<Rightarrow> timestamp \<Rightarrow> nat \<Rightarrow> stream_id set \<times> 's
    \<Rightarrow> (stream_id set \<times> 's) \<times> bool result" where
  "do_brp_verification store stream_id now k = (\<lambda>(running, s).
    case claim_sweep stream_id running of
      (_, False) \<Rightarrow> ((running, s), Ok False)
    | (running', True) \<Rightarrow> (case csb_store_update store k (SetBrpStatus (InProgress now)) s of
        (s', Inl e) \<Rightarrow> ((drop_claim stream_id running', s'), Err e)
      | (s', Inr _) \<Rightarrow> ((running', s'), Ok True)))"

text \<open>The end of the task: the claim is dropped after the outcome is recorded.\<close>

definition sweep_task :: "'s csb_store \<Rightarrow> stream_id \<Rightarrow> brp_env \<Rightarrow> (nat \<Rightarrow> brp_answers) \<Rightarrow> nat \<Rightarrow> stream_id set \<times> 's \<Rightarrow> stream_id set \<times> 's" where
  "sweep_task store stream_id env ask k = (\<lambda>(running, s).
     (drop_claim stream_id running, snd (monitor_verification store env ask (k, s))))"

subsection \<open>Checking one candidate\<close>

fun record_checks :: "'s csb_store \<Rightarrow> (person_id \<times> brp_finding list) list \<Rightarrow> nat \<times> 's \<Rightarrow> (nat \<times> 's) \<times> unit result" where
  "record_checks store [] (k, s) = ((k, s), Ok ())"
| "record_checks store ((person, findings) # rs) (k, s) = (case csb_store_update store k (BrpPersonChecked person findings) s of
      (s', Inl e) \<Rightarrow> ((Suc k, s'), Err e)
    | (s', Inr _) \<Rightarrow> record_checks store rs (Suc k, s'))"

definition check_against_brp :: "'s csb_store \<Rightarrow> brp_env \<Rightarrow> brp_answers \<Rightarrow> person_id \<Rightarrow> nat \<times> 's \<Rightarrow> (nat \<times> 's) \<times> unit result" where
  "check_against_brp store env ask person_id = (\<lambda>(k, s).
    case get_person (csb_pg (cs_snapshot (st_stream store) s) CorrAll) person_id of
      Inl e \<Rightarrow> ((k, s), Err e)
    | Inr candidate \<Rightarrow>
       (let checked = verify_batch env ask [candidate] in
        case record_lookups store (bb_lookups checked) (k, s) of
          (ks, Inl e) \<Rightarrow> (ks, Err e)
        | (ks, Inr _) \<Rightarrow> (case bb_outcome checked of
            Inl e \<Rightarrow> (ks, Err e)
          | Inr results \<Rightarrow> record_checks store results ks)))"

definition brp_finding_handled_page :: "'s csb_store \<Rightarrow> person_id \<Rightarrow> nat \<Rightarrow> bool \<Rightarrow> nat \<Rightarrow> 's \<Rightarrow> 's \<times> unit result" where
  "brp_finding_handled_page store person_id index handled k s =
    (let findings = get_brp_findings_for_person (cs_snapshot (st_stream store) s) person_id in
     if index < length findings
     then csb_store_update store k (SetBrpFindingHandled person_id (bf_kind (findings ! index)) handled) s
     else (s, Err GenericNotFound))"

end
