(* ===== verification/Brp_Properties.thy ===== *)
theory Brp_Properties
  imports Brp_Client
begin

text \<open>
  What the check against the person register guarantees: a candidate without findings agrees
  with the register in every value that is checked, every request is on record with what came
  back, and a check that could not be completed is an error rather than a clean result.
\<close>

subsection \<open>Comparing one candidate\<close>

lemma non_blank_simps [simp]: "non_blank None = None" "non_blank (Some s) = (if trim s = [] then None else Some (trim s))"
  by (simp_all add: non_blank_def)

lemma option_list_Nil [simp]: "option_list v = [] \<longleftrightarrow> v = None"
  by (cases v) (auto simp: option_list_def)

lemma set_option_list [simp]: "set (option_list v) = set_option v"
  by (cases v) (auto simp: option_list_def)

lemma set_push_new [simp]: "set (push_new a as) = insert a (set as)"
  by (auto simp: push_new_def)

lemma set_fold_push_new [simp]: "set (fold push_new xs as) = set xs \<union> set as"
  by (induction xs arbitrary: as) auto

lemma set_allowed_fold:
  "set (fold (\<lambda>partner. fold push_new (name_variants own partner)) ps as) = (\<Union>p\<in>set ps. set (name_variants own p)) \<union> set as"
  by (induction ps arbitrary: as) auto

text \<open>Who the register lets a candidate stand as: under their own name, that of a partner, or
  the two joined in either order.\<close>

definition may_stand_as :: "brp_last_name \<Rightarrow> brp_person \<Rightarrow> brp_last_name \<Rightarrow> bool" where
  "may_stand_as own b name \<longleftrightarrow> name = own
     \<or> (\<exists>pt n partner. pt \<in> set (bp_partners b) \<and> bpt_name pt = Some n \<and> parse_brp_name n = Some partner
         \<and> (name = partner \<or> hyphenated own partner = Some name \<or> hyphenated partner own = Some name))"

lemma set_name_variants:
  "n \<in> set (name_variants own partner) \<longleftrightarrow> n = partner \<or> hyphenated own partner = Some n \<or> hyphenated partner own = Some n"
  by (auto simp: name_variants_def set_map_filter_iff simp del: List.map_filter_simps)

lemma set_allowed_names: "n \<in> set (allowed_names own b) \<longleftrightarrow> may_stand_as own b n"
proof -
  have "n \<in> set (allowed_names own b) \<longleftrightarrow> n = own \<or> (\<exists>partner\<in>set (List.map_filter (\<lambda>pt. Option.bind (bpt_name pt) parse_brp_name) (bp_partners b)).
      n = partner \<or> hyphenated own partner = Some n \<or> hyphenated partner own = Some n)"
    by (auto simp: allowed_names_def Let_def set_allowed_fold set_name_variants)
  then show ?thesis unfolding may_stand_as_def Bex_def set_map_filter_iff bind_eq_Some_conv by blast
qed

lemma allowed_single: "length (allowed_names own b) = 1 \<Longrightarrow> allowed_names own b = [own]"
proof -
  have "own \<in> set (allowed_names own b)" by (simp add: set_allowed_names may_stand_as_def)
  then show "length (allowed_names own b) = 1 \<Longrightarrow> ?thesis" by (cases "allowed_names own b") auto
qed

lemma brp_compare_None:
  "brp_compare field parse ours theirs into_value = None \<longleftrightarrow>
     (\<exists>s x. theirs = Some s \<and> trim s \<noteq> [] \<and> parse (trim s) = Inr x \<and> ours = Some x)"
  by (auto simp: brp_compare_def Let_def split: option.splits sum.splits)

lemma non_blank_Some: "non_blank v = Some t \<longleftrightarrow> (\<exists>s. v = Some s \<and> t = trim s \<and> t \<noteq> [])"
  by (auto simp: non_blank_def split: option.splits)

lemma parse_brp_name_Some:
  "parse_brp_name n = Some own \<longleftrightarrow> (\<exists>s. brn_last_name n = Some s \<and> trim s \<noteq> [] \<and> last_name_from_str (trim s) = Inr (bn_last_name own))
     \<and> bn_last_name_prefix own = Option.bind (non_blank (brn_last_name_prefix n)) (\<lambda>s. res_ok (last_name_prefix_from_str s))"
  by (cases own; cases "brn_last_name n") (auto simp: parse_brp_name_def split: option.splits)

lemma unread_name_reported:
  "Option.bind (bp_name b) parse_brp_name = None \<Longrightarrow> last_name_finding p b \<noteq> None"
  by (auto simp: last_name_finding_def brp_compare_None bind_eq_Some_conv parse_brp_name_def split: option.splits)

lemma differing_name_reported:
  assumes "Option.bind (bp_name b) parse_brp_name = Some own" "own_name p \<noteq> own"
  shows "last_name_prefix_finding p b \<noteq> None \<or> last_name_finding p b \<noteq> None"
proof (rule ccontr)
  assume none: "\<not> ?thesis"
  from assms(1) obtain n where n: "bp_name b = Some n" "parse_brp_name n = Some own" by (auto simp: bind_eq_Some_conv)
  from none n have "fn_last_name (p_name p) = bn_last_name own"
    by (auto simp: last_name_finding_def brp_compare_None parse_brp_name_Some)
  moreover from none n have "fn_last_name_prefix (p_name p) = bn_last_name_prefix own"
    by (auto simp: last_name_prefix_finding_def Let_def parse_brp_name_Some res_ok_def split: option.splits sum.splits if_splits)
  ultimately show False using assms(2) by (simp add: own_name_def)
qed

lemma name_findings_Nil:
  "name_findings p b = [] \<longleftrightarrow> (\<exists>n own. bp_name b = Some n \<and> parse_brp_name n = Some own \<and> may_stand_as own b (own_name p))"
proof (cases "Option.bind (bp_name b) parse_brp_name")
  case None
  with unread_name_reported [OF None, of p] show ?thesis by (auto simp: name_findings_def Let_def)
next
  case (Some own)
  then obtain n where n: "bp_name b = Some n" "parse_brp_name n = Some own" by (auto simp: bind_eq_Some_conv)
  show ?thesis
  proof (cases "own_name p \<in> set (allowed_names own b)")
    case False
    then have "own_name p \<noteq> own" by (auto simp: set_allowed_names may_stand_as_def)
    with differing_name_reported [OF Some] False n show ?thesis
      by (auto simp: name_findings_def Let_def set_allowed_names)
  qed (use n in \<open>auto simp: name_findings_def Let_def set_allowed_names\<close>)
qed

text \<open>Agreement of a candidate with a record, value by value.\<close>

definition brp_agrees :: "value_env \<Rightarrow> person \<Rightarrow> brp_person \<Rightarrow> bool" where
  "brp_agrees env p b \<longleftrightarrow>
     (\<exists>n own. bp_name b = Some n \<and> parse_brp_name n = Some own \<and> may_stand_as own b (own_name p))
   \<and> (case non_blank (Option.bind (bp_name b) brn_initials) of
        None \<Rightarrow> fn_initials (p_name p) = None
      | Some s \<Rightarrow> \<exists>i. initials_from_str s = Ok i \<and> fn_initials (p_name p) = Some i)
   \<and> (\<forall>g. pd_gender (p_personal_data p) = Some g \<longrightarrow>
        (\<exists>code. gender_code b = Some code \<and> \<not> eq_ignore_ascii_case code GENDER_UNKNOWN_CODE
           \<and> trim code \<noteq> [] \<and> gender_from_str env (trim code) = Ok g))
   \<and> (\<exists>raw date. brp_date_of_birth b = Some raw \<and> parse_brp_date env raw = Some date
        \<and> pd_date_of_birth (p_personal_data p) = Some date)
   \<and> (\<exists>a raw place. bp_residence b = Some (ResidenceAddress (Some a)) \<and> ba_place_of_residence a = Some raw \<and> trim raw \<noteq> []
        \<and> place_of_residence_from_str env (trim raw) = Ok place \<and> pd_place_of_residence (p_personal_data p) = Some place)
   \<and> \<not> is_deceased b \<and> is_dutch b \<and> \<not> is_excluded_from_suffrage b"

lemma initials_finding_None:
  "initials_finding p b = None \<longleftrightarrow> (case non_blank (Option.bind (bp_name b) brn_initials) of
      None \<Rightarrow> fn_initials (p_name p) = None
    | Some s \<Rightarrow> \<exists>i. initials_from_str s = Ok i \<and> fn_initials (p_name p) = Some i)"
  by (cases "Option.bind (bp_name b) brn_initials") (auto simp: initials_finding_def Let_def brp_compare_None)

lemma gender_finding_None:
  "gender_finding env p b = None \<longleftrightarrow> (\<forall>g. pd_gender (p_personal_data p) = Some g \<longrightarrow>
      (\<exists>code. gender_code b = Some code \<and> \<not> eq_ignore_ascii_case code GENDER_UNKNOWN_CODE
         \<and> trim code \<noteq> [] \<and> gender_from_str env (trim code) = Ok g))"
  by (cases "pd_gender (p_personal_data p)"; cases "gender_code b") (simp_all add: gender_finding_def brp_compare_None)

lemma date_of_birth_finding_None:
  "date_of_birth_finding env p b = None \<longleftrightarrow> (\<exists>raw date. brp_date_of_birth b = Some raw \<and> parse_brp_date env raw = Some date
      \<and> pd_date_of_birth (p_personal_data p) = Some date)"
  by (auto simp: date_of_birth_finding_def Let_def split: option.splits)

lemma place_of_residence_finding_None:
  "place_of_residence_finding env p b = None \<longleftrightarrow> (\<exists>a raw place. bp_residence b = Some (ResidenceAddress (Some a))
      \<and> ba_place_of_residence a = Some raw \<and> trim raw \<noteq> []
      \<and> place_of_residence_from_str env (trim raw) = Ok place \<and> pd_place_of_residence (p_personal_data p) = Some place)"
  by (auto simp: place_of_residence_finding_def brp_compare_None bind_eq_Some_conv split: option.splits brp_residence.splits)

lemma findings_for_Nil: "findings_for env p b = [] \<longleftrightarrow> brp_agrees env p b"
  unfolding findings_for_def append_is_Nil_conv option_list_Nil name_findings_Nil initials_finding_None gender_finding_None
    date_of_birth_finding_None place_of_residence_finding_None brp_agrees_def
  by (auto simp: eligibility_findings_def)










text \<open>A prefix of the register that cannot be read is dropped with the name it belongs to, so that a
  candidate without a prefix agrees with it: the field by itself would be reported.\<close>

lemma unreadable_prefix_unreported:
  assumes "bp_name b = Some n" "non_blank (brn_last_name_prefix n) = Some raw" "last_name_prefix_from_str raw = Inl e"
    and "brn_last_name n = Some s" "trim s \<noteq> []" "last_name_from_str (trim s) = Inr (fn_last_name (p_name p))"
    and "fn_last_name_prefix (p_name p) = None"
  shows "name_findings p b = [] \<and> last_name_prefix_finding p b = Some (Unparsable CheckedLastNamePrefix raw)"
proof -
  have "parse_brp_name n = Some (own_name p)" using assms by (auto simp: parse_brp_name_Some own_name_def)
  with assms show ?thesis by (auto simp: name_findings_Nil may_stand_as_def last_name_prefix_finding_def)
qed

subsection \<open>Requests on record\<close>




















subsection \<open>Results\<close>

lemma bind_c_Inr: "bind_c m f ls = (Inr b, ls'') \<longleftrightarrow> (\<exists>a ls'. m ls = (Inr a, ls') \<and> f a ls' = (Inr b, ls''))"
  by (auto simp: bind_c_def split: prod.splits sum.splits)

lemma return_c_eq [simp]: "return_c a ls = (r, ls') \<longleftrightarrow> r = Inr a \<and> ls' = ls"
  by (auto simp: return_c_def)

text \<open>What is reported of each candidate, in the order of the batch.\<close>

lemma verify_persons_results:
  "verify_persons env ask bs ps results ls = (Inr rs, ls') \<Longrightarrow>
    \<exists>rs'. rs = results @ rs' \<and> list_all2 (\<lambda>p r. fst r = p_id p
      \<and> (\<exists>l f l'. person_findings env ask bs p l = (Inr f, l') \<and> snd r = map brp_finding_of_kind f)) ps rs'"
proof (induction ps arbitrary: results ls)
  case (Cons p ps)
  then obtain f l where f: "person_findings env ask bs p ls = (Inr f, l)"
    and rest: "verify_persons env ask bs ps (results @ [(p_id p, map brp_finding_of_kind f)]) l = (Inr rs, ls')"
    by (auto simp: bind_c_Inr)
  from Cons.IH [OF rest] obtain rs' where "rs = results @ [(p_id p, map brp_finding_of_kind f)] @ rs'"
    "list_all2 (\<lambda>p r. fst r = p_id p \<and> (\<exists>l f l'. person_findings env ask bs p l = (Inr f, l') \<and> snd r = map brp_finding_of_kind f)) ps rs'"
    by auto
  with f show ?case by (intro exI [of _ "(p_id p, map brp_finding_of_kind f) # rs'"]) auto
qed simp

text \<open>A candidate is reported without findings only after a comparison.\<close>

lemma without_match_findings:
  assumes "findings_without_a_bsn_match env ask p l = (Inr f, l')"
  shows "f \<noteq> []"
proof -
  obtain found l1 where found: "search_by_personal_details env ask p l = (Inr found, l1)"
    using assms unfolding findings_without_a_bsn_match_def Let_def bind_c_Inr by blast
  consider "found = None" | "found = Some []" | bsn where "found = Some [bsn]" | a b r where "found = Some (a # b # r)"
    by (metis neq_Nil_conv option.exhaust)
  then show ?thesis
    using assms by cases (auto simp: findings_without_a_bsn_match_def Let_def bind_c_Inr found)
qed

lemma person_findings_Nil:
  "person_findings env ask bs p l = (Inr [], l') \<Longrightarrow> \<exists>b. matched_by_bsn bs p = [b] \<and> findings_for (be_values env) p b = []"
  by (auto simp: person_findings_def dest: without_match_findings split: list.splits)

lemma batch_results:
  assumes "verify_batch env ask persons = \<lparr>bb_lookups = ls, bb_outcome = Inr rs\<rparr>"
  shows "\<exists>bs. (filter (\<lambda>p. bsn_of p \<noteq> None) persons \<noteq> [] \<longrightarrow> ask 0 (batch_query (filter (\<lambda>p. bsn_of p \<noteq> None) persons)) = Inr bs)
    \<and> list_all2 (\<lambda>p r. fst r = p_id p
      \<and> (\<exists>l f l'. person_findings env ask bs p l = (Inr f, l') \<and> snd r = map brp_finding_of_kind f)) persons rs"
proof -
  let ?w = "filter (\<lambda>p. bsn_of p \<noteq> None) persons"
  from assms have "verify_batch_recording env ask persons [] = (Inr rs, ls)"
    by (auto simp: verify_batch_def split: prod.splits)
  then obtain bs l where bs: "(if ?w = [] then return_c [] else consult env ask (batch_query ?w) (map p_id ?w)) [] = (Inr bs, l)"
    and verify: "verify_persons env ask bs persons [] l = (Inr rs, ls)"
    by (simp only: verify_batch_recording_def Let_def bind_c_Inr split: if_splits) (auto)
  from bs have "?w \<noteq> [] \<Longrightarrow> ask 0 (batch_query ?w) = Inr bs" by (simp add: consult_def Let_def)
  with verify_persons_results [OF verify] show ?thesis by auto
qed


text \<open>C21: A candidate is reported without a single finding only when the register, asked for the
  citizen service numbers of the batch, returned exactly one person with the candidate's number,
  and the candidate agrees with that record in everything that is checked.\<close>

theorem clean_means_compared:
  assumes "bb_outcome (verify_batch env ask persons) = Ok rs" "(i, []) \<in> set rs"
  shows "\<exists>p\<in>set persons. p_id p = i \<and> (\<exists>bsn bs b. bsn_of p = Some bsn
    \<and> ask 0 (batch_query (filter (\<lambda>p. bsn_of p \<noteq> None) persons)) = Ok bs
    \<and> filter (\<lambda>b. bp_bsn b = Some bsn) bs = [b] \<and> brp_agrees (be_values env) p b)"
proof -
  let ?w = "filter (\<lambda>p. bsn_of p \<noteq> None) persons"
  have "verify_batch env ask persons = \<lparr>bb_lookups = bb_lookups (verify_batch env ask persons), bb_outcome = Inr rs\<rparr>"
    using assms(1) by (cases "verify_batch env ask persons") simp
  from batch_results [OF this] obtain bs where bs: "?w \<noteq> [] \<longrightarrow> ask 0 (batch_query ?w) = Inr bs"
    and res: "list_all2 (\<lambda>p r. fst r = p_id p
      \<and> (\<exists>l f l'. person_findings env ask bs p l = (Inr f, l') \<and> snd r = map brp_finding_of_kind f)) persons rs" by blast
  from assms(2) obtain k where k: "k < length rs" "rs ! k = (i, [])" by (auto simp: in_set_conv_nth)
  with res obtain l l' where p: "k < length persons" "p_id (persons ! k) = i"
    "person_findings env ask bs (persons ! k) l = (Inr [], l')"
    by (fastforce simp: list_all2_conv_all_nth)
  from person_findings_Nil [OF p(3)] obtain b where b: "matched_by_bsn bs (persons ! k) = [b]"
    "brp_agrees (be_values env) (persons ! k) b" by (auto simp: findings_for_Nil)
  then obtain bsn where bsn: "bsn_of (persons ! k) = Some bsn" "filter (\<lambda>b. bp_bsn b = Some bsn) bs = [b]"
    by (auto simp: matched_by_bsn_def split: option.splits)
  with p(1) have "persons ! k \<in> set ?w" by auto
  then have "?w \<noteq> []" by (auto simp only: list.set)
  with bs bsn b p show ?thesis by (intro bexI [of _ "persons ! k"]) auto
qed

subsection \<open>An example\<close>

definition example_values :: value_env where
  "example_values = \<lparr>ve_lowercase = map (\<lambda>c. if is_ascii_upper c then c + 32 else c), ve_uppercase = map to_ascii_upper,
     ve_bag_localities = [lit ''Utrecht''], ve_bag_suggest = \<lambda>_ _ _ _. [],
     ve_parse_date = \<lambda>s f. if s = lit ''1980-02-01'' then Some 7 else None,
     ve_regex_digit = is_ascii_digit, ve_today = 9\<rparr>"

definition example_brp_env :: brp_env where
  "example_brp_env = \<lparr>be_values = example_values, be_format_date = \<lambda>_. lit ''1980-02-01'', be_error_text = \<lambda>_. lit ''error''\<rparr>"

definition example_candidate :: person where
  "example_candidate = \<lparr>p_id = PersonId 1,
     p_name = \<lparr>fn_first_name = None, fn_last_name = lit ''Jansen'', fn_last_name_prefix = None, fn_initials = Some (lit ''A.'')\<rparr>,
     p_personal_data = \<lparr>pd_gender = Some Female, pd_bsn = Some (Bsn (lit ''111222333'')), pd_date_of_birth = Some 7,
       pd_place_of_residence = Some (Known (lit ''Utrecht'')), pd_country = None\<rparr>,
     p_address = dutch_address_default, p_representative = None, p_updated_at = 0\<rparr>"

definition example_record :: brp_person where
  "example_record = \<lparr>bp_bsn = Some (lit ''111222333''),
     bp_name = Some \<lparr>brn_last_name = Some (lit ''Jansen''), brn_last_name_prefix = None, brn_initials = Some (lit ''A.'')\<rparr>,
     bp_gender = Some \<lparr>bcv_code = Some (lit ''V'')\<rparr>,
     bp_birth = Some \<lparr>bb_date = Some \<lparr>bd_date = Some (lit ''1980-02-01'')\<rparr>\<rparr>, bp_death = None,
     bp_nationalities = [\<lparr>bna_nationality = Some \<lparr>bcv_code = Some DUTCH_NATIONALITY_CODE\<rparr>\<rparr>],
     bp_suffrage_exclusion = None,
     bp_residence = Some (ResidenceAddress (Some \<lparr>ba_place_of_residence = Some (lit ''Utrecht'')\<rparr>)), bp_partners = []\<rparr>"

text \<open>The record under another first initial gives one difference.\<close>

definition example_other_record :: brp_person where
  "example_other_record = example_record\<lparr>bp_name := Some \<lparr>brn_last_name = Some (lit ''Jansen''), brn_last_name_prefix = None,
     brn_initials = Some (lit ''B.'')\<rparr>\<rparr>"

lemma example_locality: "correct_locality_name example_values (lit ''Utrecht'') = None"
  by (simp add: correct_locality_name_def find_spelling_def LOCALITY_MISSPELLINGS_def lit_def example_values_def is_ascii_upper_def)

lemma example_official: "official_locality_name example_values (lit ''Utrecht'') = Some (lit ''Utrecht'')"
  by (simp add: official_locality_name_def example_values_def)

lemma example_trim:
  "trim (lit ''Utrecht'') = lit ''Utrecht''" "validate_length (lit ''Utrecht'') 1 MAX_LOCALITY_CHARS = Ok (lit ''Utrecht'')"
  "validate_teletex_chars (lit ''Utrecht'') = Ok ()" "lit ''Utrecht'' \<noteq> []"
  by (simp_all add: text_eval validate_length_def MAX_LOCALITY_CHARS_def validate_teletex_chars_def)

lemma example_place:
  "place_of_residence_finding example_values example_candidate example_record = None"
proof -
  have "place_of_residence_from_str example_values (lit ''Utrecht'') = Ok (Known (lit ''Utrecht''))"
    unfolding place_of_residence_from_str_def example_trim bind_res_simps
    by (simp add: example_locality example_official locality_exists_def)
  then show ?thesis
    by (simp add: place_of_residence_finding_None example_record_def example_candidate_def example_trim)
qed

lemma example_last_name: "last_name_from_str (lit ''Jansen'') = Ok (lit ''Jansen'')" "trim (lit ''Jansen'') = lit ''Jansen''" "lit ''Jansen'' \<noteq> []"
  by (simp_all add: text_eval last_name_from_str_def validate_length_def validate_teletex_chars_def split_once_space_def)

lemma example_initials_text:
  "initials_from_str (lit ''A.'') = Ok (lit ''A.'')" "initials_from_str (lit ''B.'') = Ok (lit ''B.'')"
  "trim (lit ''A.'') = lit ''A.''" "trim (lit ''B.'') = lit ''B.''" "lit ''A.'' \<noteq> []" "lit ''B.'' \<noteq> []" "lit ''A.'' \<noteq> lit ''B.''"
  by (simp_all add: text_eval initials_from_str_def is_initial_char_def MAX_INITIALS_def)

lemma example_gender_text:
  "gender_from_str example_values (lit ''V'') = Ok Female" "trim (lit ''V'') = lit ''V''" "lit ''V'' \<noteq> []"
  "\<not> eq_ignore_ascii_case (lit ''V'') GENDER_UNKNOWN_CODE"
  by (simp_all add: text_eval gender_from_str_def example_values_def eq_ignore_ascii_case_def GENDER_UNKNOWN_CODE_def
      to_ascii_lowercase_def Let_def)

lemma example_date_text: "trim (lit ''1980-02-01'') = lit ''1980-02-01''"
  by (simp add: text_eval)

lemma example_name: "name_findings example_candidate example_record = []" "name_findings example_candidate example_other_record = []"
  by (auto simp: name_findings_Nil example_record_def example_other_record_def example_candidate_def own_name_def may_stand_as_def
      parse_brp_name_Some example_last_name)

lemma example_initials: "initials_finding example_candidate example_record = None"
  "initials_finding example_candidate example_other_record = Some (Mismatch (ValInitials (lit ''B.'')))"
  by (simp_all add: initials_finding_def brp_compare_def example_record_def example_other_record_def example_candidate_def
      example_initials_text)

lemma example_gender: "gender_finding example_values example_candidate example_record = None"
  by (simp add: gender_finding_None example_record_def example_candidate_def gender_code_def example_gender_text)

lemma example_birth: "date_of_birth_finding example_values example_candidate example_record = None"
  by (simp add: date_of_birth_finding_None example_record_def example_candidate_def brp_date_of_birth_def parse_brp_date_def
      example_date_text) (simp add: example_values_def)

lemma example_eligible: "eligibility_findings example_values example_record = []"
  by (simp add: eligibility_findings_def is_deceased_def is_dutch_def is_excluded_from_suffrage_def example_record_def)

lemmas example_others = example_name example_initials example_gender example_birth example_eligible

text \<open>The other record has the same values apart from the initials.\<close>

lemma example_other_same:
  "gender_finding env p example_other_record = gender_finding env p example_record"
  "date_of_birth_finding env p example_other_record = date_of_birth_finding env p example_record"
  "place_of_residence_finding env p example_other_record = place_of_residence_finding env p example_record"
  "eligibility_findings env example_other_record = eligibility_findings env example_record"
proof -
  have same: "gender_code example_other_record = gender_code example_record"
    "brp_date_of_birth example_other_record = brp_date_of_birth example_record" "bp_residence example_other_record = bp_residence example_record"
    "is_deceased example_other_record = is_deceased example_record" "is_dutch example_other_record = is_dutch example_record"
    "is_excluded_from_suffrage example_other_record = is_excluded_from_suffrage example_record"
    "brp_date_of_death example_other_record = brp_date_of_death example_record"
    by (simp_all add: gender_code_def brp_date_of_birth_def is_deceased_def is_dutch_def is_excluded_from_suffrage_def
        brp_date_of_death_def example_other_record_def)
  show "gender_finding env p example_other_record = gender_finding env p example_record"
    "date_of_birth_finding env p example_other_record = date_of_birth_finding env p example_record"
    "place_of_residence_finding env p example_other_record = place_of_residence_finding env p example_record"
    "eligibility_findings env example_other_record = eligibility_findings env example_record"
    unfolding gender_finding_def date_of_birth_finding_def place_of_residence_finding_def eligibility_findings_def same by (rule refl)+
qed

lemma example_findings:
  "findings_for example_values example_candidate example_record = []"
  "findings_for example_values example_candidate example_other_record = [Mismatch (ValInitials (lit ''B.''))]"
  by (simp_all add: findings_for_def example_other_same example_others example_place option_list_def)


lemma example_batch:
  "bb_outcome (verify_batch example_brp_env (\<lambda>_ _. Ok [example_record]) [example_candidate]) = Ok [(PersonId 1, [])]"
proof -
  have "bsn_of example_candidate = Some (lit ''111222333'')" "bp_bsn example_record = Some (lit ''111222333'')"
    "p_id example_candidate = PersonId 1" "be_values example_brp_env = example_values"
    by (simp_all add: bsn_of_def example_candidate_def example_record_def example_brp_env_def)
  then show ?thesis
    by (simp add: verify_batch_def verify_batch_recording_def BRP_BSN_BATCH_SIZE_def bind_c_def consult_def return_c_def
        Let_def person_findings_def matched_by_bsn_def example_findings del: return_c_eq)
qed



theorem clean_means_compared_witness:
  "\<exists>p\<in>set [example_candidate]. p_id p = PersonId 1 \<and> (\<exists>bsn bs b. bsn_of p = Some bsn
    \<and> (Ok [example_record] :: brp_person list result) = Ok bs
    \<and> filter (\<lambda>b. bp_bsn b = Some bsn) bs = [b] \<and> brp_agrees (be_values example_brp_env) p b)"
  using clean_means_compared [OF example_batch] by simp

end
