(* ===== verification/Sweep_Properties.thy ===== *)
theory Sweep_Properties
  imports Brp_Sweep Brp_Properties Csb_Properties Committee_Properties
begin

text \<open>
  What a check against the person register leaves on a committee stream: over the database, with
  other requests at work, findings are recorded directly on the values they are about; over an
  in-memory stream nobody else writes to, the sweep records exactly what the register said.
\<close>

subsection \<open>A database stream\<close>


lemma brp_result_event_Some:
  "brp_result_event p fs d = Some a \<longleftrightarrow> get_person (csb_pg d CorrAll) (p_id p) = Inr p \<and> a = BrpPersonChecked (p_id p) fs"
  by (auto simp: brp_result_event_def)

lemma checked_event:
  assumes "ce_action (se_payload ev) = BrpPersonChecked i fs"
  shows "c_csb_corrected_data (csb_apply cenv ev d) = c_csb_corrected_data d"
    and "hm_get (c_brp_findings (csb_apply cenv ev d)) p = (if p = i then Some fs else hm_get (c_brp_findings d) p)"
    and "c_brp_validation_status (csb_apply cenv ev d) = c_brp_validation_status d"
  by (simp_all add: c_corrected_csb_apply c_brp_csb_apply assms) (simp add: csb_apply_defs assms)




subsection \<open>A stream nobody else writes to\<close>

text \<open>What the register says of the batches, one after the other, up to the first that could not
  be checked.\<close>

fun sweep_outcome :: "brp_env \<Rightarrow> (nat \<Rightarrow> brp_answers) \<Rightarrow> nat \<Rightarrow> person list list \<Rightarrow> (person_id \<times> brp_finding list) list \<times> unit result" where
  "sweep_outcome env ask n [] = ([], Ok ())"
| "sweep_outcome env ask n (batch # rest) = (case bb_outcome (verify_batch env (ask n) batch) of
      Inl e \<Rightarrow> ([], Err e)
    | Inr rs \<Rightarrow> (case sweep_outcome env ask (Suc n) rest of (rs', r) \<Rightarrow> (rs @ rs', r)))"

lemma batch_ids: "bb_outcome (verify_batch env ask batch) = Inr rs \<Longrightarrow> map fst rs = map p_id batch"
proof -
  assume *: "bb_outcome (verify_batch env ask batch) = Inr rs"
  then have "verify_batch env ask batch = \<lparr>bb_lookups = bb_lookups (verify_batch env ask batch), bb_outcome = Inr rs\<rparr>"
    by (cases "verify_batch env ask batch") simp
  from batch_results [OF this] have "list_all2 (\<lambda>p r. fst r = p_id p) batch rs"
    by (elim exE conjE) (erule list_all2_mono, blast)
  then show ?thesis by (induction rule: list_all2_induct) auto
qed

lemma sweep_outcome_ids:
  "sweep_outcome env ask n bs = (rs, r) \<Longrightarrow> \<exists>m\<le>length bs. map fst rs = map p_id (concat (take m bs)) \<and> (r = Inr () \<longleftrightarrow> m = length bs)"
proof (induction bs arbitrary: n rs)
  case (Cons b bs)
  show ?case
  proof (cases "bb_outcome (verify_batch env (ask n) b)")
    case (Inl e)
    with Cons.prems show ?thesis by (intro exI [of _ 0]) auto
  next
    case (Inr rs1)
    with Cons.prems obtain rs2 where rs: "rs = rs1 @ rs2" "sweep_outcome env ask (Suc n) bs = (rs2, r)"
      by (auto split: prod.splits)
    from Cons.IH [OF rs(2)] batch_ids [OF Inr] rs(1) obtain m where "m \<le> length bs" "map fst rs = map p_id (concat (take (Suc m) (b # bs)))"
      "r = Inr () \<longleftrightarrow> m = length bs" by auto
    then show ?thesis by (intro exI [of _ "Suc m"]) auto
  qed
qed simp

lemma concat_chunks: "0 < n \<Longrightarrow> concat (chunks n xs) = xs"
  by (induction n xs rule: chunks.induct) (subst chunks.simps, simp)

lemma chunks_size: "b \<in> set (chunks n xs) \<Longrightarrow> b \<noteq> [] \<and> length b \<le> n"
proof (induction n xs rule: chunks.induct)
  case (1 n xs)
  then show ?case by (subst (asm) (2) chunks.simps) (auto split: if_splits)
qed

lemma later_batches_apart:
  assumes "sweep_outcome env ask n bs = (rs2, r)" "map fst rs1 = map p_id b" "distinct (map p_id (concat (b # bs)))"
  shows "fst ` set rs1 \<inter> fst ` set rs2 = {}"
proof -
  from sweep_outcome_ids [OF assms(1)] obtain m where "map fst rs2 = map p_id (concat (take m bs))" by blast
  then have "fst ` set rs2 = p_id ` set (concat (take m bs))" by (metis list.set_map)
  moreover have "set (concat (take m bs)) \<subseteq> set (concat bs)"
    by (auto dest!: in_set_takeD)
  ultimately have "fst ` set rs2 \<subseteq> p_id ` set (concat bs)" by (metis image_mono)
  moreover have "fst ` set rs1 = p_id ` set b" using assms(2) by (metis list.set_map)
  moreover have "p_id ` set b \<inter> p_id ` set (concat bs) = {}" using assms(3) by auto
  ultimately show ?thesis by blast
qed

text \<open>A step of the sweep: the candidates and the status stay, findings are added.\<close>

definition adds_findings :: "csb_store_data \<Rightarrow> (person_id \<rightharpoonup> brp_finding list) \<Rightarrow> csb_store_data \<Rightarrow> bool" where
  "adds_findings d m d' \<longleftrightarrow> c_csb_corrected_data d' = c_csb_corrected_data d
     \<and> hm_get (c_brp_findings d') = hm_get (c_brp_findings d) ++ m
     \<and> c_brp_validation_status d' = c_brp_validation_status d"

lemma adds_findings_refl: "adds_findings d Map.empty d"
  by (simp add: adds_findings_def)

lemma adds_findings_trans: "adds_findings d m d1 \<Longrightarrow> adds_findings d1 m' d2 \<Longrightarrow> adds_findings d (m ++ m') d2"
  by (simp add: adds_findings_def)

lemma lookup_adds: "ce_action (se_payload ev) = BrpLookup l \<Longrightarrow> adds_findings d Map.empty (csb_apply cenv ev d)"
  by (simp add: adds_findings_def c_corrected_csb_apply c_brp_csb_apply fun_eq_iff) (simp add: csb_apply_defs)

lemma checked_adds: "ce_action (se_payload ev) = BrpPersonChecked i fs \<Longrightarrow> adds_findings d [i \<mapsto> fs] (csb_apply cenv ev d)"
  by (simp add: adds_findings_def checked_event fun_eq_iff)

text \<open>The contract: an update succeeds and its event is applied to the projection; a conditional
  update does so when the decision is to record.\<close>

locale settled_stream =
  fixes ok :: "'s \<Rightarrow> bool" and store :: "'s csb_store" and snap :: "'s \<Rightarrow> csb_store_data" and cenv :: csb_env
  assumes update_lands: "ok s \<Longrightarrow> \<exists>ev s'. csb_store_update store k a s = (s', Inr ()) \<and> ok s'
      \<and> ce_action (se_payload ev) = a \<and> snap s' = csb_apply cenv ev (snap s)"
    and update_when_lands: "ok s \<Longrightarrow> decision (snap s) = Some a \<Longrightarrow>
      \<exists>ev s'. csb_store_update_when store k decision s = (s', Inr True) \<and> ok s'
      \<and> ce_action (se_payload ev) = a \<and> snap s' = csb_apply cenv ev (snap s)"
    and snapshot_read: "cs_snapshot (st_stream store) s = snap s"
begin

lemma record_lookups_settled:
  "ok s \<Longrightarrow> \<exists>k' s'. record_lookups store ls (k, s) = ((k', s'), Inr ()) \<and> ok s' \<and> adds_findings (snap s) Map.empty (snap s')"
proof (induction ls arbitrary: k s)
  case (Cons l ls)
  from update_lands [OF Cons.prems, of k "BrpLookup l"] obtain ev s1 where
    u: "csb_store_update store k (BrpLookup l) s = (s1, Inr ())" "ok s1" "ce_action (se_payload ev) = BrpLookup l"
      "snap s1 = csb_apply cenv ev (snap s)" by blast
  from lookup_adds [OF u(3)] have "adds_findings (snap s) Map.empty (snap s1)" by (simp add: u(4))
  with Cons.IH [OF u(2), of "Suc k"] u(1) adds_findings_trans show ?case by fastforce
qed (auto intro: adds_findings_refl)

lemma record_results_settled:
  assumes "ok s" "\<forall>(i, fs)\<in>set rs. \<exists>p. find (\<lambda>p. p_id p = i) batch = Some p \<and> get_person (c_csb_corrected_data (snap s)) i = Inr p"
    and "distinct (map fst rs)"
  shows "\<exists>k' s'. record_results store batch rs (k, s) = ((k', s'), Inr ()) \<and> ok s' \<and> adds_findings (snap s) (map_of rs) (snap s')"
  using assms
proof (induction rs arbitrary: k s)
  case (Cons r rs)
  obtain i fs where r: "r = (i, fs)" by (cases r)
  with Cons.prems obtain p where p: "find (\<lambda>p. p_id p = i) batch = Some p" "get_person (c_csb_corrected_data (snap s)) i = Inr p"
    by auto
  then have i: "p_id p = i" by (auto simp: find_Some_iff)
  have "brp_result_event p fs (snap s) = Some (BrpPersonChecked i fs)" using p(2) i by (simp add: brp_result_event_Some)
  from update_when_lands [of s "brp_result_event p fs", OF Cons.prems(1) this] obtain ev s1 where
    u: "record_brp_result store k p fs s = (s1, Inr True)" "ok s1" "ce_action (se_payload ev) = BrpPersonChecked i fs"
      "snap s1 = csb_apply cenv ev (snap s)" unfolding record_brp_result_def by blast
  have eff: "adds_findings (snap s) [i \<mapsto> fs] (snap s1)" using checked_adds [OF u(3)] by (simp add: u(4))
  then have "\<exists>k' s'. record_results store batch rs (Suc k, s1) = ((k', s'), Inr ()) \<and> ok s' \<and> adds_findings (snap s1) (map_of rs) (snap s')"
    using Cons.prems r by (intro Cons.IH u) (auto simp: adds_findings_def)
  then obtain k' s' where s': "record_results store batch rs (Suc k, s1) = ((k', s'), Inr ())" "ok s'"
    "adds_findings (snap s1) (map_of rs) (snap s')" by blast
  have "i \<notin> dom (map_of rs)" using Cons.prems(3) r by (auto simp: dom_map_of_conv_image_fst)
  then have "[i \<mapsto> fs] ++ map_of rs = map_of (r # rs)" by (simp add: r map_add_upd_left)
  with adds_findings_trans [OF eff s'(3)] have "adds_findings (snap s) (map_of (r # rs)) (snap s')" by (simp only:)
  moreover have "record_results store batch (r # rs) (k, s) = ((k', s'), Inr ())" by (simp add: r p(1) u(1) s'(1))
  ultimately show ?case using s'(2) by blast
qed (auto intro: adds_findings_refl)

lemma sweep_batches_settled:
  assumes "ok s" "\<forall>p\<in>set (concat bs). get_person (c_csb_corrected_data (snap s)) (p_id p) = Inr p" "distinct (map p_id (concat bs))"
    and "sweep_outcome env ask n bs = (rs, r)"
  shows "\<exists>k' s'. sweep_batches store env ask n bs (k, s) = ((k', s'), r) \<and> ok s' \<and> adds_findings (snap s) (map_of rs) (snap s')"
  using assms
proof (induction bs arbitrary: n k s rs)
  case (Cons b bs)
  let ?b = "verify_batch env (ask n) b"
  from record_lookups_settled [OF Cons.prems(1), of "bb_lookups ?b" k] obtain k1 s1 where
    s1: "record_lookups store (bb_lookups ?b) (k, s) = ((k1, s1), Inr ())" "ok s1" "adds_findings (snap s) Map.empty (snap s1)" by blast
  then have same: "c_csb_corrected_data (snap s1) = c_csb_corrected_data (snap s)" by (simp add: adds_findings_def)
  show ?case
  proof (cases "bb_outcome ?b")
    case (Inl e)
    with Cons.prems(4) s1 show ?thesis by (auto simp: Let_def)
  next
    case (Inr rs1)
    with Cons.prems(4) obtain rs2 where rs: "rs = rs1 @ rs2" "sweep_outcome env ask (Suc n) bs = (rs2, r)"
      by (auto split: prod.splits)
    have ids: "map fst rs1 = map p_id b" by (rule batch_ids [OF Inr])
    have found: "\<forall>(i, fs)\<in>set rs1. \<exists>p. find (\<lambda>p. p_id p = i) b = Some p \<and> get_person (c_csb_corrected_data (snap s1)) i = Inr p"
    proof clarify
      fix i fs assume "(i, fs) \<in> set rs1"
      then have "i \<in> set (map p_id b)" using ids by (metis fst_conv image_eqI list.set_map)
      then obtain p where p: "find (\<lambda>p. p_id p = i) b = Some p" by (cases "find (\<lambda>p. p_id p = i) b") (auto simp: find_None_iff)
      then have "p \<in> set b" "p_id p = i" by (auto simp: find_Some_iff)
      with p Cons.prems(2) same show "\<exists>p. find (\<lambda>p. p_id p = i) b = Some p \<and> get_person (c_csb_corrected_data (snap s1)) i = Inr p"
        by auto
    qed
    from record_results_settled [OF s1(2) found, of k1] ids Cons.prems(3) obtain k2 s2 where
      s2: "record_results store b rs1 (k1, s1) = ((k2, s2), Inr ())" "ok s2" "adds_findings (snap s1) (map_of rs1) (snap s2)" by auto
    have "\<exists>k' s'. sweep_batches store env ask (Suc n) bs (k2, s2) = ((k', s'), r) \<and> ok s' \<and> adds_findings (snap s2) (map_of rs2) (snap s')"
      using Cons.prems(2,3) same s2(3) by (intro Cons.IH s2 rs) (auto simp: adds_findings_def)
    then obtain k' s' where s': "sweep_batches store env ask (Suc n) bs (k2, s2) = ((k', s'), r)" "ok s'"
      "adds_findings (snap s2) (map_of rs2) (snap s')" by blast
    have "map_of rs1 ++ map_of rs2 = map_of rs"
      using later_batches_apart [OF rs(2) ids Cons.prems(3)] map_add_comm [of "map_of rs1" "map_of rs2"]
      by (simp add: rs(1) dom_map_of_conv_image_fst)
    with adds_findings_trans [OF s1(3) adds_findings_trans [OF s2(3) s'(3)]] s1(1) s2(1) s' Inr show ?thesis
      by (auto simp: Let_def)
  qed
qed (auto intro: adds_findings_refl)

lemma monitor_settled:
  assumes "ok s" "\<forall>p\<in>set (unchecked_candidates (snap s)). get_person (c_csb_corrected_data (snap s)) (p_id p) = Inr p"
    and "distinct (map p_id (unchecked_candidates (snap s)))"
    and "sweep_outcome env ask 0 (chunks BRP_BSN_BATCH_SIZE (unchecked_candidates (snap s))) = (rs, r)"
    and "s' = snd (monitor_verification store env ask (k, s))"
  shows "c_csb_corrected_data (snap s') = c_csb_corrected_data (snap s)
    \<and> hm_get (c_brp_findings (snap s')) = hm_get (c_brp_findings (snap s)) ++ map_of rs
    \<and> c_brp_validation_status (snap s') = (case r of Inr _ \<Rightarrow> Finished | Inl e \<Rightarrow> Aborted (be_error_text env e))"
proof -
  let ?bs = "chunks BRP_BSN_BATCH_SIZE (unchecked_candidates (snap s))"
  have "concat ?bs = unchecked_candidates (snap s)" by (simp add: concat_chunks BRP_BSN_BATCH_SIZE_def)
  with sweep_batches_settled [OF assms(1) _ _ assms(4), of k] assms(2,3) obtain k1 s1 where
    s1: "sweep_batches store env ask 0 ?bs (k, s) = ((k1, s1), r)" "ok s1" "adds_findings (snap s) (map_of rs) (snap s1)" by auto
  let ?status = "case r of Inr _ \<Rightarrow> Finished | Inl e \<Rightarrow> Aborted (be_error_text env e)"
  from update_lands [OF s1(2), of k1 "SetBrpStatus ?status"] obtain ev s2 where
    s2: "csb_store_update store k1 (SetBrpStatus ?status) s1 = (s2, Inr ())" "ce_action (se_payload ev) = SetBrpStatus ?status"
      "snap s2 = csb_apply cenv ev (snap s1)" by blast
  have "s' = s2"
    using s1(1) s2(1) unfolding assms(5)
    by (cases r) (auto simp: monitor_verification_def verify_candidates_def snapshot_read)
  moreover have "c_brp_validation_status (snap s2) = ?status" using s2(2,3) by (simp add: csb_apply_defs)
  moreover have "c_csb_corrected_data (snap s2) = c_csb_corrected_data (snap s1)" "hm_get (c_brp_findings (snap s2)) = hm_get (c_brp_findings (snap s1))"
    using s2(2,3) by (simp_all add: c_corrected_csb_apply c_brp_csb_apply fun_eq_iff)
  ultimately show ?thesis using s1(3) by (simp add: adds_findings_def)
qed

end

text \<open>An in-memory stream that no other request writes to is settled, when events can be
  encoded.\<close>

definition mem_csb_stream :: "csb_env \<Rightarrow> hash_fn \<Rightarrow> csb_event codec \<Rightarrow> stream_key \<Rightarrow> (nat \<Rightarrow> nat \<Rightarrow> timestamp)
    \<Rightarrow> (nat \<Rightarrow> nat \<Rightarrow> csb_store_data \<times> memory_store \<Rightarrow> csb_store_data \<times> memory_store) \<Rightarrow> (csb_store_data \<times> memory_store) csb_stream" where
  "mem_csb_stream cenv sha256 cbor key clock other = \<lparr>cs_snapshot = fst, cs_last_id = last_event_id (csb_ops cenv),
     cs_append = \<lambda>k n. mem_append (csb_ops cenv) sha256 cbor key (clock k n), cs_other = other\<rparr>"

definition encodes_all :: "'e codec \<Rightarrow> bool" where
  "encodes_all cbor \<longleftrightarrow> (\<forall>e. cbor_write cbor e \<noteq> None)"

lemma mem_append_lands:
  assumes "encodes_all cbor" "x = None \<or> x = Some (last_event_id ops (fst s))"
  shows "\<exists>ev s'. mem_append ops sha256 cbor key now e x s = (s', Inr ()) \<and> se_payload ev = e \<and> fst s' = sd_apply ops ev (fst s)"
proof -
  obtain bs where "cbor_write cbor e = Some bs" using assms(1) unfolding encodes_all_def by blast
  then have "encode cbor e = Inr bs" by (simp add: encode_def ok_or_def)
  moreover have "check_expected_event_id x (last_event_id ops (fst s)) = Inr ()"
    using assms(2) by (auto simp: check_expected_event_id_def)
  ultimately have "mem_append ops sha256 cbor key now e x s =
      ((sd_apply ops \<lparr>se_event_id = last_event_id ops (fst s) + 1, se_payload = e, se_created_at = now,
          se_hash = chain_hash sha256 (last_event_hash ops (fst s)) (last_event_id ops (fst s) + 1) now bs\<rparr> (fst s),
        mem_record_event key (last_event_id ops (fst s) + 1)
          (chain_hash sha256 (last_event_hash ops (fst s)) (last_event_id ops (fst s) + 1) now bs) (snd s)), Inr ())"
    by (cases s) (simp add: mem_append_def Let_def)
  then show ?thesis by (metis fst_conv store_event.select_convs(2))
qed

interpretation quiet_mem: settled_stream "\<lambda>s. encodes_all cbor"
    "acting_as (mem_csb_stream cenv sha256 cbor key clock (\<lambda>_ _ s. s)) user" fst cenv
  for cenv sha256 cbor key clock user
proof (unfold_locales, goal_cases)
  case (1 s k a)
  from mem_append_lands [OF 1, of None "csb_ops cenv" s sha256 key "clock k 0" "csb_action_by a user"] 1 show ?case
    by (auto simp: csb_store_update_def acting_as_def mem_csb_stream_def csb_action_by_def)
next
  case (2 s decision a k)
  from mem_append_lands [OF 2(1), of "Some (last_event_id (csb_ops cenv) (fst s))" "csb_ops cenv" s sha256 key "clock k 2" "csb_action_by a user"] 2
  show ?case
    by (auto simp: csb_store_update_when_def acting_as_def mem_csb_stream_def csb_action_by_def update_when_def numeral_3_eq_3
        numeral_2_eq_2 Let_def)
qed (simp_all add: acting_as_def mem_csb_stream_def)

text \<open>The committee's version of the candidates is kept by id, like the versions it comes from.\<close>

lemma corrected_persons_ok:
  "hm_ok m \<Longrightarrow> keyed p_id m \<Longrightarrow> hm_ok (fold (\<lambda>(i, delta). hm_modify i (delta_apply delta)) deltas m)
     \<and> keyed p_id (fold (\<lambda>(i, delta). hm_modify i (delta_apply delta)) deltas m)"
  by (induction deltas arbitrary: m) (auto simp: inv_intros)

lemma csb_corrected_keyed:
  assumes "\<forall>e\<in>set es. csb_event_ok e"
  shows "hm_ok (d_persons (c_csb_corrected_data (csb_of env es))) \<and> keyed p_id (d_persons (c_csb_corrected_data (csb_of env es)))"
proof -
  have "hm_ok (d_persons (c_paper_corrected_data (csb_of env es)))" "keyed p_id (d_persons (c_paper_corrected_data (csb_of env es)))"
    using csb_inv_of [OF assms, of env] by (simp_all add: csb_inv_def pg_inv_def)
  from corrected_persons_ok [OF this] show ?thesis
    by (auto simp: csb_of_corrected corrected_data_def Let_def pg_default_def keyed_def hm_ok_def hm_get_def split: option.split)
qed

lemma keyed_values:
  assumes "hm_ok m" "keyed f m"
  shows "v \<in> set (hm_values m) \<Longrightarrow> hm_get m (f v) = Some v" and "distinct (map f (hm_values m))"
proof -
  show get: "v \<in> set (hm_values m) \<Longrightarrow> hm_get m (f v) = Some v" for v
    using assms by (auto simp: hm_values_iff keyed_def)
  have "map f (hm_values m) = map fst m"
    using assms by (auto simp: hm_values_def keyed_def hm_ok_def hm_get_def)
  then show "distinct (map f (hm_values m))" using assms(1) by (simp add: hm_ok_def)
qed

lemma unchecked_keyed:
  assumes "\<forall>e\<in>set es. csb_event_ok e" "d = csb_of cenv es"
  shows "\<forall>p\<in>set (unchecked_candidates d). get_person (c_csb_corrected_data d) (p_id p) = Inr p"
    and "distinct (map p_id (unchecked_candidates d))"
  using keyed_values [of "d_persons (c_csb_corrected_data d)" p_id] csb_corrected_keyed [OF assms(1), of cenv] assms(2)
  by (auto simp: unchecked_candidates_def get_persons_def get_person_def ok_or_def distinct_map inj_on_def)

text \<open>C23: The check of a whole stream that no other request writes to leaves on it exactly what the
  register said: the findings of every batch up to the first that could not be checked, next to
  the findings that were there. The status is then finished when every batch was checked, and
  every candidate is; otherwise it is aborted with the error, and the candidates of that batch
  and the ones after it stay unchecked.\<close>

theorem sweep_records_outcome:
  assumes "encodes_all cbor" "\<forall>e\<in>set es. csb_event_ok e" "fst s = csb_of cenv es"
    and "bs = chunks BRP_BSN_BATCH_SIZE (unchecked_candidates (fst s))" "sweep_outcome env ask 0 bs = (rs, r)"
    and "d' = fst (snd (monitor_verification (acting_as (mem_csb_stream cenv sha256 cbor key clock (\<lambda>_ _ s. s)) user) env ask (k, s)))"
  shows "c_csb_corrected_data d' = c_csb_corrected_data (fst s)
    \<and> hm_get (c_brp_findings d') = hm_get (c_brp_findings (fst s)) ++ map_of rs
    \<and> c_brp_validation_status d' = (case r of Inr _ \<Rightarrow> Finished | Inl e \<Rightarrow> Aborted (be_error_text env e))
    \<and> (\<exists>m\<le>length bs. map fst rs = map p_id (concat (take m bs)) \<and> (r = Ok () \<longleftrightarrow> m = length bs)
        \<and> (\<forall>p\<in>set (concat (drop m bs)). \<not> is_brp_checked d' (p_id p)))
    \<and> (r = Ok () \<longrightarrow> (\<forall>p\<in>set (get_persons (csb_pg d' CorrAll)). is_brp_checked d' (p_id p)))"
proof -
  let ?u = "unchecked_candidates (fst s)"
  note keyed = unchecked_keyed [OF assms(2,3)]
  have eff: "c_csb_corrected_data d' = c_csb_corrected_data (fst s)"
    "hm_get (c_brp_findings d') = hm_get (c_brp_findings (fst s)) ++ map_of rs"
    "c_brp_validation_status d' = (case r of Inr _ \<Rightarrow> Finished | Inl e \<Rightarrow> Aborted (be_error_text env e))"
    using quiet_mem.monitor_settled [OF assms(1) keyed assms(5) [unfolded assms(4)] refl, of cenv] by (simp_all add: assms(6))
  have concat: "concat bs = ?u" by (simp add: assms(4) concat_chunks BRP_BSN_BATCH_SIZE_def)
  from sweep_outcome_ids [OF assms(5)] obtain m where m: "m \<le> length bs" "map fst rs = map p_id (concat (take m bs))"
    "r = Inr () \<longleftrightarrow> m = length bs" by blast
  have checked: "is_brp_checked d' i \<longleftrightarrow> is_brp_checked (fst s) i \<or> i \<in> set (map p_id (concat (take m bs)))" for i
  proof -
    have "i \<in> dom (map_of rs) \<longleftrightarrow> i \<in> set (map p_id (concat (take m bs)))"
      by (simp add: dom_map_of_conv_image_fst m(2) [symmetric])
    then show ?thesis using eff by (auto simp: is_brp_checked_def hm_contains_def map_add_None domIff)
  qed
  have split: "?u = concat (take m bs) @ concat (drop m bs)" by (metis append_take_drop_id concat concat_append)
  have "\<not> is_brp_checked d' (p_id p)" if "p \<in> set (concat (drop m bs))" for p
  proof -
    have "p \<in> set ?u" using that split by auto
    moreover have "p_id p \<notin> set (map p_id (concat (take m bs)))" using keyed(2) that unfolding split by auto
    ultimately show ?thesis by (auto simp: checked unchecked_candidates_def)
  qed
  moreover have "is_brp_checked d' (p_id p)" if "r = Ok ()" "p \<in> set (get_persons (csb_pg d' CorrAll))" for p
  proof -
    have "concat (take m bs) = ?u" using m(3) that(1) concat by simp
    with that(2) eff show ?thesis by (auto simp: checked unchecked_candidates_def)
  qed
  ultimately show ?thesis using eff m by blast
qed

text \<open>The imported candidate of the example has nothing to be searched by.\<close>

lemma example_unchecked: "unchecked_candidates (csb_of example_csb_env [example_import]) = [example_person]"
  by (simp add: unchecked_candidates_def get_persons_def hm_values_def example_snapshot_def is_brp_checked_def hm_contains_def hm_get_def)

lemma chunks_single: "chunks BRP_BSN_BATCH_SIZE [x] = [[x]]"
  by (subst chunks.simps, subst chunks.simps) (simp add: BRP_BSN_BATCH_SIZE_def)

lemma example_verify:
  "verify_batch env ask [example_person] = \<lparr>bb_lookups = [], bb_outcome = Ok [(example_person_id, [brp_finding_of_kind BsnMissing])]\<rparr>"
proof -
  have "bsn_of example_person = None" "pd_bsn (p_personal_data example_person) = None"
    "pd_date_of_birth (p_personal_data example_person) = None" "p_id example_person = example_person_id"
    by (simp_all add: bsn_of_def example_person_def)
  then show ?thesis
    by (simp add: verify_batch_def verify_batch_recording_def BRP_BSN_BATCH_SIZE_def bind_c_def return_c_def Let_def person_findings_def
        matched_by_bsn_def findings_without_a_bsn_match_def search_by_personal_details_def no_match_reason_def del: return_c_eq)
qed

lemma example_sweep_outcome:
  "sweep_outcome env ask 0 [[example_person]] = ([(example_person_id, [brp_finding_of_kind BsnMissing])], Ok ())"
  by (simp add: example_verify)

definition example_sweep :: "nat \<times> (csb_store_data \<times> memory_store)" where
  "example_sweep = monitor_verification (acting_as (mem_csb_stream example_csb_env (\<lambda>bs. replicate 32 7)
      \<lparr>cbor_write = \<lambda>_. Some [1], cbor_read = \<lambda>_. None\<rparr> (StreamId 5, EK27) (\<lambda>_ _. 0) (\<lambda>_ _ s. s)) Developer)
      example_brp_env (\<lambda>_ _ _. Err DatabaseError) (0, (csb_of example_csb_env [example_import], []))"

theorem sweep_records_outcome_witness:
  "c_brp_validation_status (fst (snd example_sweep)) = Finished
   \<and> hm_get (c_brp_findings (fst (snd example_sweep))) example_person_id = Some [brp_finding_of_kind BsnMissing]"
proof -
  have ok: "\<forall>e\<in>set [example_import]. csb_event_ok e" using example_import_ok by simp
  have codec: "encodes_all \<lparr>cbor_write = \<lambda>_ :: csb_event. Some [1], cbor_read = \<lambda>_. None\<rparr>" by (simp add: encodes_all_def)
  have bs: "[[example_person]] = chunks BRP_BSN_BATCH_SIZE (unchecked_candidates (fst (csb_of example_csb_env [example_import], [] :: memory_store)))"
    by (simp add: example_unchecked chunks_single)
  from sweep_records_outcome [OF codec ok _ bs example_sweep_outcome example_sweep_def [THEN arg_cong [of _ _ "\<lambda>x. fst (snd x)"]]]
  show ?thesis by simp
qed

subsection \<open>A check of one candidate\<close>

text \<open>A check that one candidate's page asks for is recorded whatever happened meanwhile: here the
  committee corrects the last name while the register is consulted, and the candidate counts as
  checked under a name that was never compared.\<close>

definition example_correction :: "csb_event store_event" where
  "example_correction = csb_example_event 2 (UpdateCorrection (CorrPerson example_person_id (CorrLastName (lit ''Janssen''))))"

definition example_page_check :: "(nat \<times> (csb_store_data \<times> memory_store)) \<times> unit result" where
  "example_page_check = check_against_brp (acting_as (mem_csb_stream example_csb_env (\<lambda>bs. replicate 32 7)
      \<lparr>cbor_write = \<lambda>_. Some [1], cbor_read = \<lambda>_. None\<rparr> (StreamId 5, EK27) (\<lambda>_ _. 0)
      (\<lambda>_ _ s. (csb_apply example_csb_env example_correction (fst s), snd s))) Developer)
      example_brp_env (\<lambda>_ _. Err DatabaseError) example_person_id (0, (csb_of example_csb_env [example_import], []))"

lemma page_check_stale:
  "snd example_page_check = Ok () \<and> is_brp_checked (fst (snd (fst example_page_check))) example_person_id
   \<and> c_csb_corrected_data (fst (snd (fst example_page_check))) = c_csb_corrected_data (csb_of example_csb_env [example_import, example_correction])"
proof -
  let ?d = "csb_of example_csb_env [example_import]"
  let ?d1 = "csb_apply example_csb_env example_correction ?d"
  have read: "get_person (csb_pg ?d CorrAll) example_person_id = Ok example_person"
    by (simp add: get_person_def ok_or_def example_snapshot_def hm_get_Cons)
  have batch: "verify_batch example_brp_env (\<lambda>_ _. Err DatabaseError) [example_person] =
      \<lparr>bb_lookups = [], bb_outcome = Ok [(example_person_id, [brp_finding_of_kind BsnMissing])]\<rparr>"
    by (rule example_verify)
  have codec: "encodes_all \<lparr>cbor_write = \<lambda>_ :: csb_event. Some [1], cbor_read = \<lambda>_. None\<rparr>" by (simp add: encodes_all_def)
  from mem_append_lands [OF codec, of None "csb_ops example_csb_env" "(?d1, [])" "\<lambda>bs. replicate 32 7" "(StreamId 5, EK27)" 0
      "csb_action_by (BrpPersonChecked example_person_id [brp_finding_of_kind BsnMissing]) Developer"]
  obtain ev s' where app: "mem_append (csb_ops example_csb_env) (\<lambda>bs. replicate 32 7) \<lparr>cbor_write = \<lambda>_. Some [1], cbor_read = \<lambda>_. None\<rparr>
      (StreamId 5, EK27) 0 (csb_action_by (BrpPersonChecked example_person_id [brp_finding_of_kind BsnMissing]) Developer) None (?d1, []) = (s', Inr ())"
    and ev: "ce_action (se_payload ev) = BrpPersonChecked example_person_id [brp_finding_of_kind BsnMissing]"
    and s': "fst s' = csb_apply example_csb_env ev ?d1" by (auto simp: csb_action_by_def)
  have run: "example_page_check = ((1, s'), Ok ())"
    using read batch app
    by (simp add: example_page_check_def check_against_brp_def csb_store_update_def acting_as_def mem_csb_stream_def Let_def)
  have d1: "?d1 = csb_of example_csb_env [example_import, example_correction]"
    using csb_of_snoc [of example_csb_env "[example_import]" example_correction] by simp
  show ?thesis unfolding run snd_conv fst_conv s' is_brp_checked_def hm_contains_def checked_event [OF ev] by (simp add: d1)
qed

end
