(* ===== verification/Problems.thy ===== *)
theory Problems
  imports Pg_Projection Election
begin

text \<open>
  What can be missing or wrong in a submission (\<open>structs/common/problematic.rs\<close>,
  \<open>structs/common/severity.rs\<close>, the \<open>Problematic\<close> implementations of the structures, and
  \<open>structs/problems\<close>), and its collection from a group's projection
  (\<open>projection/pg_data/problems.rs\<close>). Only submissions without an error can be downloaded.
\<close>

subsection \<open>Severities and problems\<close>

datatype severity = SevInfo | SevWarn | SevError

text \<open>The derived order.\<close>

fun severity_rank :: "severity \<Rightarrow> nat" where
  "severity_rank SevInfo = 0"
| "severity_rank SevWarn = 1"
| "severity_rank SevError = 2"

instantiation severity :: linorder
begin

definition less_eq_severity :: "severity \<Rightarrow> severity \<Rightarrow> bool" where
  "less_eq_severity a b = (severity_rank a \<le> severity_rank b)"

definition less_severity :: "severity \<Rightarrow> severity \<Rightarrow> bool" where
  "less_severity a b = (severity_rank a < severity_rank b)"

instance
proof
  fix a b :: severity
  show "a \<le> b \<Longrightarrow> b \<le> a \<Longrightarrow> a = b" by (cases a; cases b) (simp_all add: less_eq_severity_def)
qed (auto simp: less_eq_severity_def less_severity_def)

end

datatype empty_address_problem = EmptyStreetName | EmptyHouseNumber | EmptyPostalCode | EmptyLocality | EmptyCountry

text \<open>\<open>SurplusCandidates\<close> is \<open>TooManyCandidates\<close> of the source.\<close>

datatype potential_problem =
    NoCandidateList | NoCandidates | SurplusCandidates nat | DuplicateDistricts | NoDistricts | CandidatesWithProblems nat
  | NoLegalName | NoAppellation | NoAuthorisedAgent | NoListSubmitter | TooManyAuthorizedNames nat | TooFewAuthorizedNames nat
  | RepresentativeProblem potential_problem
  | NoBsn | NoPlaceOfResidence | UnknownPlaceOfResidence | NoCountryOfResidence | NoDateOfBirth | NoRepresentative
  | TooYoungDateOfBirth | PossibleDuplicatePerson
  | NoInitials severity | NoLastName severity
  | UnknownAddress | IncompleteAddress severity "empty_address_problem list"

datatype info_problem =
    NoPreviousElectionResults | NoSubstituteSubmitter | NoListDesignation | VeryOldDateOfBirth
  | InfoNoInitials | InfoNoLastName | InfoIncompleteAddress "empty_address_problem list"

fun problem_severity :: "potential_problem \<Rightarrow> severity" where
  "problem_severity NoCandidateList = SevError"
| "problem_severity NoCandidates = SevError"
| "problem_severity (SurplusCandidates _) = SevWarn"
| "problem_severity DuplicateDistricts = SevError"
| "problem_severity NoDistricts = SevError"
| "problem_severity (CandidatesWithProblems _) = SevWarn"
| "problem_severity NoLegalName = SevWarn"
| "problem_severity NoAppellation = SevError"
| "problem_severity NoListSubmitter = SevError"
| "problem_severity NoAuthorisedAgent = SevWarn"
| "problem_severity (TooManyAuthorizedNames _) = SevError"
| "problem_severity (TooFewAuthorizedNames _) = SevWarn"
| "problem_severity (RepresentativeProblem inner) = problem_severity inner"
| "problem_severity NoBsn = SevWarn"
| "problem_severity TooYoungDateOfBirth = SevWarn"
| "problem_severity NoPlaceOfResidence = SevError"
| "problem_severity UnknownPlaceOfResidence = SevWarn"
| "problem_severity NoCountryOfResidence = SevError"
| "problem_severity NoDateOfBirth = SevError"
| "problem_severity NoRepresentative = SevWarn"
| "problem_severity PossibleDuplicatePerson = SevWarn"
| "problem_severity (NoInitials severity) = severity"
| "problem_severity (NoLastName severity) = severity"
| "problem_severity UnknownAddress = SevWarn"
| "problem_severity (IncompleteAddress severity _) = severity"

definition is_relevant_for_csb :: "potential_problem \<Rightarrow> bool" where
  "is_relevant_for_csb p = (case p of NoBsn \<Rightarrow> False | NoInitials _ \<Rightarrow> False | _ \<Rightarrow> True)"

record problems =
  pr_potential :: "potential_problem list"
  pr_info :: "info_problem list"

definition problems_empty :: problems where
  "problems_empty = \<lparr>pr_potential = [], pr_info = []\<rparr>"

definition problems_merge :: "problems list \<Rightarrow> problems" where
  "problems_merge ps = \<lparr>pr_potential = concat (map pr_potential ps), pr_info = concat (map pr_info ps)\<rparr>"

definition total_problem_count :: "problems \<Rightarrow> nat" where
  "total_problem_count ps = sum_list (map (\<lambda>p. case p of CandidatesWithProblems n \<Rightarrow> n | _ \<Rightarrow> 1) (pr_potential ps))"

text \<open>\<open>Iterator::max\<close>.\<close>

definition iter_max :: "('a::linorder) list \<Rightarrow> 'a option" where
  "iter_max xs = (if xs = [] then None else Some (Max (set xs)))"

text \<open>\<open>HasSeverity\<close>: what the trait derives from the highest severity.\<close>

definition is_all_good :: "('a \<Rightarrow> severity option) \<Rightarrow> 'a \<Rightarrow> bool" where
  "is_all_good highest_severity x = (highest_severity x = None)"

fun severity_class :: "severity \<Rightarrow> rstring" where
  "severity_class SevInfo = lit ''info''"
| "severity_class SevWarn = lit ''warning''"
| "severity_class SevError = lit ''error''"

definition highest_severity_class :: "('a \<Rightarrow> severity option) \<Rightarrow> 'a \<Rightarrow> rstring" where
  "highest_severity_class highest_severity x = (case highest_severity x of None \<Rightarrow> lit ''ok'' | Some s \<Rightarrow> severity_class s)"

definition has_severity_or_higher :: "('a \<Rightarrow> severity option) \<Rightarrow> 'a \<Rightarrow> severity \<Rightarrow> bool" where
  "has_severity_or_higher highest_severity x severity =
    (case highest_severity x of None \<Rightarrow> False | Some highest \<Rightarrow> highest \<ge> severity)"

definition problems_highest_severity :: "problems \<Rightarrow> severity option" where
  "problems_highest_severity ps = (case iter_max (map problem_severity (pr_potential ps)) of
      Some s \<Rightarrow> Some s
    | None \<Rightarrow> if pr_info ps \<noteq> [] then Some SevInfo else None)"

subsection \<open>Problems of the structures\<close>

definition full_name_problems :: "full_name \<Rightarrow> severity \<Rightarrow> problems" where
  "full_name_problems n severity =
    (if severity = SevInfo
     then \<lparr>pr_potential = [], pr_info = (if fn_initials n = None then [InfoNoInitials] else [])
             @ (if fn_last_name n = [] then [InfoNoLastName] else [])\<rparr>
     else \<lparr>pr_potential = (if fn_initials n = None then [NoInitials severity] else [])
             @ (if fn_last_name n = [] then [NoLastName severity] else []), pr_info = []\<rparr>)"

definition dutch_address_gaps :: "dutch_address \<Rightarrow> empty_address_problem list" where
  "dutch_address_gaps a =
     (if is_empty_or_none (da_street_name a) then [EmptyStreetName] else [])
     @ (if is_empty_or_none (da_house_number a) then [EmptyHouseNumber] else [])
     @ (if is_empty_or_none (da_postal_code a) then [EmptyPostalCode] else [])
     @ (if is_empty_or_none (da_locality a) then [EmptyLocality] else [])"

definition dutch_address_problems :: "dutch_address \<Rightarrow> severity \<Rightarrow> problems" where
  "dutch_address_problems a severity =
    (let gaps = dutch_address_gaps a in
     \<lparr>pr_potential = (if gaps \<noteq> [] \<and> severity \<noteq> SevInfo then [IncompleteAddress severity gaps] else [])
        @ (if da_known_in_bag a = Some False then [UnknownAddress] else []),
      pr_info = (if gaps \<noteq> [] \<and> severity = SevInfo then [InfoIncompleteAddress gaps] else [])\<rparr>)"

definition international_address_gaps :: "international_address \<Rightarrow> empty_address_problem list" where
  "international_address_gaps a =
     (if is_empty_or_none (ia_street_name a) then [EmptyStreetName] else [])
     @ (if is_empty_or_none (ia_house_number a) then [EmptyHouseNumber] else [])
     @ (if is_empty_or_none (ia_postal_code a) then [EmptyPostalCode] else [])
     @ (if is_empty_or_none (ia_locality a) then [EmptyLocality] else [])
     @ (if is_empty_or_none (ia_country a) then [EmptyCountry] else [])"

definition international_address_problems :: "international_address \<Rightarrow> severity \<Rightarrow> problems" where
  "international_address_problems a severity =
    (let gaps = international_address_gaps a in
     \<lparr>pr_potential = (if gaps = [] then [] else [IncompleteAddress severity gaps]), pr_info = []\<rparr>)"

fun address_problems :: "address \<Rightarrow> severity \<Rightarrow> problems" where
  "address_problems (Dutch a) severity = dutch_address_problems a severity"
| "address_problems (International a) severity = international_address_problems a severity"

definition previous_results_problems :: "previous_election_results option \<Rightarrow> list_designation option \<Rightarrow> problems" where
  "previous_results_problems r designation =
     \<lparr>pr_potential = [], pr_info = if designation \<noteq> Some Blank \<and> r = None then [NoPreviousElectionResults] else []\<rparr>"

definition appellation_problems :: "rstring option \<Rightarrow> list_designation option \<Rightarrow> problems" where
  "appellation_problems a designation =
     \<lparr>pr_potential = if designation \<noteq> Some Blank \<and> is_empty_or_none a then [NoAppellation] else [], pr_info = []\<rparr>"

definition legal_name_problems :: "rstring \<Rightarrow> problems" where
  "legal_name_problems n = \<lparr>pr_potential = if n = [] then [NoLegalName] else [], pr_info = []\<rparr>"

definition list_designation_problems :: "list_designation option \<Rightarrow> problems" where
  "list_designation_problems d = \<lparr>pr_potential = [], pr_info = if d = None then [NoListDesignation] else []\<rparr>"

definition group_information_problems :: "political_group \<Rightarrow> problems" where
  "group_information_problems g = problems_merge
     [appellation_problems (pg_appellation g) (pg_list_designation g),
      previous_results_problems (pg_previous_election_results g) (pg_list_designation g)]"

definition political_group_problems :: "political_group \<Rightarrow> problems" where
  "political_group_problems g = problems_merge [list_designation_problems (pg_list_designation g), group_information_problems g]"

definition name_authorisation_problems :: "name_authorisation \<Rightarrow> problems" where
  "name_authorisation_problems na = problems_merge [full_name_problems (na_name na) SevWarn, legal_name_problems (na_legal_name na)]"

definition get_size_problems :: "list_designation_kind option \<Rightarrow> nat \<Rightarrow> potential_problem option" where
  "get_size_problems designation authorisations =
    (case (case designation of None \<Rightarrow> KStandalone | Some k \<Rightarrow> k) of
       KStandalone \<Rightarrow> if authorisations > 1 then Some (TooManyAuthorizedNames (authorisations - 1))
         else if authorisations < 1 then Some (TooFewAuthorizedNames 1) else None
     | KCombined \<Rightarrow> if authorisations < 2 then Some (TooFewAuthorizedNames (2 - authorisations)) else None
     | KBlank \<Rightarrow> None)"

datatype submitter_role = MainSubmitter | SubstituteSubmitter

definition submitter_problems :: "list_submitter \<Rightarrow> submitter_role \<Rightarrow> problems" where
  "submitter_problems s role =
    (let severity = (case role of MainSubmitter \<Rightarrow> SevError | SubstituteSubmitter \<Rightarrow> SevWarn) in
     if submitter_is_empty s \<and> role = MainSubmitter then problems_empty
     else problems_merge [full_name_problems (ls_name s) severity, address_problems (ls_address s) severity])"

text \<open>Calendar arithmetic is a parameter: the age today in whole years, when the date is not in
  the future, and the date of birth an election requires.\<close>

record problem_env =
  pe_years_since :: "naive_date \<Rightarrow> nat option"
  pe_eligible_date_of_birth :: "election_config \<Rightarrow> naive_date"

definition WARN_AGE :: nat where "WARN_AGE = 110"

definition is_very_old :: "problem_env \<Rightarrow> naive_date \<Rightarrow> bool" where
  "is_very_old env dob = (case pe_years_since env dob of None \<Rightarrow> False | Some y \<Rightarrow> y \<ge> WARN_AGE)"

definition is_too_young :: "problem_env \<Rightarrow> naive_date \<Rightarrow> election_config \<Rightarrow> bool" where
  "is_too_young env dob election = (dob > pe_eligible_date_of_birth env election)"

definition personal_data_problems :: "problem_env \<Rightarrow> personal_data \<Rightarrow> election_config \<Rightarrow> problems" where
  "personal_data_problems env d election =
     \<lparr>pr_potential =
        (if pd_bsn d = None then [NoBsn] else [])
        @ (case pd_place_of_residence d of
             None \<Rightarrow> [NoPlaceOfResidence]
           | Some p \<Rightarrow> if place_as_str p = [] then [NoPlaceOfResidence]
               else (case p of Unknown _ \<Rightarrow> if lives_in_nl d then [UnknownPlaceOfResidence] else [] | Known _ \<Rightarrow> []))
        @ (if is_empty_or_none (pd_country d) then [NoCountryOfResidence] else [])
        @ (case pd_date_of_birth d of
             None \<Rightarrow> [NoDateOfBirth]
           | Some dob \<Rightarrow> if is_too_young env dob election then [TooYoungDateOfBirth] else []),
      pr_info = (case pd_date_of_birth d of
          None \<Rightarrow> [] | Some dob \<Rightarrow> if is_very_old env dob then [VeryOldDateOfBirth] else [])\<rparr>"

definition representative_problems :: "representative option \<Rightarrow> person \<Rightarrow> problems" where
  "representative_problems r p =
    (if \<not> needs_representative (p_personal_data p) then problems_empty
     else (case r of
         None \<Rightarrow> \<lparr>pr_potential = [NoRepresentative], pr_info = []\<rparr>
       | Some rep \<Rightarrow>
          (let ps = problems_merge [full_name_problems (rep_name rep) SevWarn, dutch_address_problems (rep_address rep) SevWarn] in
           \<lparr>pr_potential = map RepresentativeProblem (pr_potential ps), pr_info = pr_info ps\<rparr>)))"

definition person_problems :: "problem_env \<Rightarrow> person \<Rightarrow> election_config \<Rightarrow> problems" where
  "person_problems env p election = problems_merge
     [full_name_problems (p_name p) SevError, personal_data_problems env (p_personal_data p) election,
      if needs_representative (p_personal_data p) then representative_problems (p_representative p) p
      else dutch_address_problems (p_address p) SevWarn]"

definition get_person_problems :: "problem_env \<Rightarrow> pg_store_data \<Rightarrow> person \<Rightarrow> election_config \<Rightarrow> problems" where
  "get_person_problems env d p election =
    (let problems = person_problems env p election;
         possible_duplicate = list_ex (\<lambda>other. identity_match_of p other = Possible)
           (filter (\<lambda>other. p_id other \<noteq> p_id p) (hm_values (d_persons d)))
     in if possible_duplicate then problems\<lparr>pr_potential := pr_potential problems @ [PossibleDuplicatePerson]\<rparr> else problems)"

record candidate_list_summary =
  cls_list :: candidate_list
  cls_max_count :: nat
  cls_duplicate_districts :: "electoral_district list"
  cls_candidates_with_problems :: nat

definition candidate_count :: "candidate_list_summary \<Rightarrow> nat" where
  "candidate_count c = length (cl_candidates (cls_list c))"

definition summary_problems :: "candidate_list_summary \<Rightarrow> potential_problem list" where
  "summary_problems c =
     (if cls_duplicate_districts c \<noteq> [] then [DuplicateDistricts] else [])
     @ (if cl_electoral_districts (cls_list c) = [] then [NoDistricts] else [])
     @ (if candidate_count c = 0 then [NoCandidates]
        else if candidate_count c > cls_max_count c then [SurplusCandidates (candidate_count c - cls_max_count c)] else [])
     @ (if cls_candidates_with_problems c > 0 then [CandidatesWithProblems (cls_candidates_with_problems c)] else [])"

definition candidate_list_summaries :: "problem_env \<Rightarrow> pg_store_data \<Rightarrow> election_config \<Rightarrow> candidate_list_summary list" where
  "candidate_list_summaries env d election =
    (let max_count = get_max_candidates (d_political_group d) in
     map (\<lambda>l. \<lparr>cls_list = l, cls_max_count = max_count, cls_duplicate_districts = duplicate_districts d l,
         cls_candidates_with_problems = length (filter (\<lambda>i. case get_person d i of
             Inl _ \<Rightarrow> False
           | Inr p \<Rightarrow> pr_potential (get_person_problems env d p election) \<noteq> []) (cl_candidates l))\<rparr>)
       (get_candidate_lists d))"

subsection \<open>The report\<close>

record 'e entity_problems =
  ep_entity :: 'e
  ep_problems :: "potential_problem list"

datatype entity_info_problem =
    AnyProblem info_problem
  | SubmitterInfo info_problem
  | SubstituteInfo list_submitter info_problem
  | PersonInfo person info_problem
  | AuthorisationInfo name_authorisation info_problem

record general_problems =
  gp_general :: "potential_problem list"
  gp_name_authorisations :: "name_authorisation entity_problems list"
  gp_list_submitter :: "list_submitter entity_problems option"
  gp_substitute_submitters :: "list_submitter entity_problems list"

record list_problems =
  lp_general :: "potential_problem list"
  lp_per_list :: "candidate_list entity_problems list"

record all_problems =
  ap_general :: general_problems
  ap_candidates :: "person entity_problems list"
  ap_lists :: list_problems
  ap_info :: "entity_info_problem list"

definition general_flatten :: "general_problems \<Rightarrow> potential_problem list" where
  "general_flatten g = gp_general g @ concat (map ep_problems (gp_name_authorisations g))
     @ concat (map ep_problems (gp_substitute_submitters g))
     @ (case gp_list_submitter g of None \<Rightarrow> [] | Some s \<Rightarrow> ep_problems s)"

definition flatten_problems :: "all_problems \<Rightarrow> potential_problem list" where
  "flatten_problems a = concat (map ep_problems (ap_candidates a)) @ concat (map ep_problems (lp_per_list (ap_lists a)))
     @ general_flatten (ap_general a) @ lp_general (ap_lists a)"

definition general_highest_severity :: "general_problems \<Rightarrow> severity option" where
  "general_highest_severity g = iter_max (map problem_severity (general_flatten g))"

definition get_general_name_authorisation_problems_combined :: "general_problems \<Rightarrow> potential_problem list" where
  "get_general_name_authorisation_problems_combined g = gp_general g @ concat (map ep_problems (gp_name_authorisations g))"

definition get_substitute_submitter_problems :: "general_problems \<Rightarrow> list_submitter_id \<Rightarrow> potential_problem list option" where
  "get_substitute_submitter_problems g i =
     map_option ep_problems (find (\<lambda>s. ls_id (ep_entity s) = i) (gp_substitute_submitters g))"

definition lists_flatten :: "list_problems \<Rightarrow> potential_problem list" where
  "lists_flatten l = lp_general l @ concat (map ep_problems (lp_per_list l))"

definition list_problems_is_empty :: "list_problems \<Rightarrow> bool" where
  "list_problems_is_empty l = (lists_flatten l = [])"

definition lists_highest_severity :: "list_problems \<Rightarrow> severity option" where
  "lists_highest_severity l = iter_max (map problem_severity (lists_flatten l))"

definition get_highest_severity_for_person :: "person entity_problems list \<Rightarrow> person_id \<Rightarrow> severity option" where
  "get_highest_severity_for_person problems i =
    (case find (\<lambda>c. p_id (ep_entity c) = i) problems of
       None \<Rightarrow> None | Some c \<Rightarrow> iter_max (map problem_severity (ep_problems c)))"

definition get_problems_for_person :: "all_problems \<Rightarrow> person \<Rightarrow> potential_problem list" where
  "get_problems_for_person a p =
    (case find (\<lambda>c. ep_entity c = p) (ap_candidates a) of None \<Rightarrow> [] | Some c \<Rightarrow> ep_problems c)"

definition models_downloadable :: "all_problems \<Rightarrow> bool" where
  "models_downloadable a = (\<not> list_ex (\<lambda>p. problem_severity p = SevError) (flatten_problems a))"

definition all_highest_severity :: "all_problems \<Rightarrow> severity option" where
  "all_highest_severity a = (case iter_max (map problem_severity (flatten_problems a)) of
      Some s \<Rightarrow> Some s
    | None \<Rightarrow> if ap_info a \<noteq> [] then Some SevInfo else None)"

definition get_problems_for_list :: "all_problems \<Rightarrow> candidate_list_id \<Rightarrow> potential_problem list" where
  "get_problems_for_list a i = concat (map ep_problems (filter (\<lambda>l. cl_id (ep_entity l) = i) (lp_per_list (ap_lists a))))"

text \<open>\<open>Option::max\<close>: nothing is below everything.\<close>

definition option_max :: "('a::linorder) option \<Rightarrow> 'a option \<Rightarrow> 'a option" where
  "option_max x y = (case (x, y) of (None, _) \<Rightarrow> y | (_, None) \<Rightarrow> x | (Some a, Some b) \<Rightarrow> Some (max a b))"

definition max_severity_for_list_and_candidates :: "all_problems \<Rightarrow> candidate_list \<Rightarrow> severity option" where
  "max_severity_for_list_and_candidates a l = option_max
     (iter_max (map problem_severity (get_problems_for_list a (cl_id l))))
     (iter_max (concat (map (\<lambda>c. map problem_severity (ep_problems c))
       (filter (\<lambda>c. p_id (ep_entity c) \<in> set (cl_candidates l)) (ap_candidates a)))))"

text \<open>Sorting, most severe first; stable.\<close>

definition by_severity :: "potential_problem list \<Rightarrow> potential_problem list" where
  "by_severity = sort_key (\<lambda>p. 2 - severity_rank (problem_severity p))"

definition entity_by_severity :: "'e entity_problems \<Rightarrow> 'e entity_problems" where
  "entity_by_severity e = e\<lparr>ep_problems := by_severity (ep_problems e)\<rparr>"

definition sort_lists :: "candidate_list entity_problems list \<Rightarrow> candidate_list entity_problems list" where
  "sort_lists ls = filter (\<lambda>e. ep_problems e \<noteq> [])
     (map (\<lambda>l. \<lparr>ep_entity = ep_entity l, ep_problems = filter (\<lambda>p. problem_severity p = SevError) (ep_problems l)\<rparr>) ls
      @ map (\<lambda>l. \<lparr>ep_entity = ep_entity l, ep_problems = filter (\<lambda>p. problem_severity p \<noteq> SevError) (ep_problems l)\<rparr>) ls)"

definition sort_problems_by_severity :: "all_problems \<Rightarrow> all_problems" where
  "sort_problems_by_severity a = a\<lparr>
     ap_general := (ap_general a)\<lparr>gp_general := by_severity (gp_general (ap_general a)),
       gp_name_authorisations := map entity_by_severity (gp_name_authorisations (ap_general a)),
       gp_list_submitter := map_option entity_by_severity (gp_list_submitter (ap_general a)),
       gp_substitute_submitters := map entity_by_severity (gp_substitute_submitters (ap_general a))\<rparr>,
     ap_candidates := map entity_by_severity (ap_candidates a),
     ap_lists := \<lparr>lp_general = by_severity (lp_general (ap_lists a)), lp_per_list = sort_lists (lp_per_list (ap_lists a))\<rparr>\<rparr>"

subsection \<open>Collecting the report\<close>

definition find_name_authorisation_problems ::
  "name_authorisation list \<Rightarrow> name_authorisation entity_problems list \<times> entity_info_problem list" where
  "find_name_authorisation_problems nas =
    (filter (\<lambda>e. ep_problems e \<noteq> []) (map (\<lambda>na. \<lparr>ep_entity = na, ep_problems = pr_potential (name_authorisation_problems na)\<rparr>) nas),
     concat (map (\<lambda>na. map (AuthorisationInfo na) (pr_info (name_authorisation_problems na))) nas))"

text \<open>The problems of the submitter, what they add to the general problems, and to the
  information.\<close>

definition find_list_submitter_problems ::
  "pg_store_data \<Rightarrow> list_submitter entity_problems option \<times> potential_problem list \<times> entity_info_problem list" where
  "find_list_submitter_problems d =
    (let s = d_list_submitter d; problems = submitter_problems s MainSubmitter in
     (if pr_potential problems = [] then None else Some \<lparr>ep_entity = s, ep_problems = pr_potential problems\<rparr>,
      if submitter_is_empty s then [NoListSubmitter] else [],
      map SubmitterInfo (pr_info problems)))"

definition find_substitute_submitter_problems ::
  "pg_store_data \<Rightarrow> list_submitter entity_problems list \<times> entity_info_problem list" where
  "find_substitute_submitter_problems d =
    (let subs = d_substitute_submitters d in
     (filter (\<lambda>e. ep_problems e \<noteq> []) (map (\<lambda>s. \<lparr>ep_entity = s, ep_problems = pr_potential (submitter_problems s SubstituteSubmitter)\<rparr>) subs),
      (if subs = [] then [AnyProblem NoSubstituteSubmitter] else [])
      @ concat (map (\<lambda>s. map (SubstituteInfo s) (pr_info (submitter_problems s SubstituteSubmitter))) subs)))"

definition find_general_problems :: "pg_store_data \<Rightarrow> general_problems \<times> entity_info_problem list" where
  "find_general_problems d =
    (let g = d_political_group d; pg = political_group_problems g; nas = get_name_authorisations d;
         (authorisations, size, na_info) = (if pg_list_designation_kind g = Some KBlank then ([], [], [])
           else (case find_name_authorisation_problems nas of (problems, infos) \<Rightarrow>
             (problems, (case get_size_problems (pg_list_designation_kind g) (length nas) of None \<Rightarrow> [] | Some p \<Rightarrow> [p]), infos)));
         (submitter, submitter_general, submitter_info) = find_list_submitter_problems d;
         (substitutes, substitute_info) = find_substitute_submitter_problems d
     in (\<lparr>gp_general = pr_potential pg @ size @ submitter_general, gp_name_authorisations = authorisations,
           gp_list_submitter = submitter, gp_substitute_submitters = substitutes\<rparr>,
         map AnyProblem (pr_info pg) @ na_info @ submitter_info @ substitute_info))"

text \<open>\<open>filter(|id| seen.insert(id))\<close>.\<close>

fun first_seen :: "'a list \<Rightarrow> 'a list \<Rightarrow> 'a list" where
  "first_seen seen [] = []"
| "first_seen seen (x # xs) = (if x \<in> set seen then first_seen seen xs else x # first_seen (x # seen) xs)"

definition find_candidate_problems :: "problem_env \<Rightarrow> pg_store_data \<Rightarrow> election_config \<Rightarrow> candidate_list_summary list
    \<Rightarrow> person entity_problems list \<times> entity_info_problem list" where
  "find_candidate_problems env d election summaries =
    (let persons = List.map_filter (\<lambda>i. res_ok (get_person d i)) (first_seen [] (concat (map (\<lambda>c. cl_candidates (cls_list c)) summaries)))
     in (filter (\<lambda>e. ep_problems e \<noteq> [])
           (map (\<lambda>p. \<lparr>ep_entity = p, ep_problems = pr_potential (get_person_problems env d p election)\<rparr>) persons),
         concat (map (\<lambda>p. map (PersonInfo p) (pr_info (get_person_problems env d p election))) persons)))"

text \<open>Duplicate districts are reported with the first list that has them only.\<close>

fun list_problems_loop :: "bool \<Rightarrow> candidate_list_summary list \<Rightarrow> candidate_list entity_problems list" where
  "list_problems_loop seen_duplicate [] = []"
| "list_problems_loop seen_duplicate (c # cs) =
    (let problems = summary_problems c; duplicate = DuplicateDistricts \<in> set problems;
         problems' = (if duplicate \<and> seen_duplicate then filter (\<lambda>p. p \<noteq> DuplicateDistricts) problems else problems)
     in (if problems' \<noteq> [] then [\<lparr>ep_entity = cls_list c, ep_problems = problems'\<rparr>] else [])
        @ list_problems_loop (seen_duplicate \<or> duplicate) cs)"

definition find_list_problems :: "candidate_list_summary list \<Rightarrow> pg_store_data \<Rightarrow> list_problems" where
  "find_list_problems summaries d =
     \<lparr>lp_general = if get_candidate_list_count d = 0 then [NoCandidateList] else [],
      lp_per_list = list_problems_loop False summaries\<rparr>"

definition is_candidates_problem :: "potential_problem \<Rightarrow> bool" where
  "is_candidates_problem p = (case p of CandidatesWithProblems _ \<Rightarrow> True | _ \<Rightarrow> False)"

definition drop_candidates_problems :: "candidate_list entity_problems list \<Rightarrow> candidate_list entity_problems list" where
  "drop_candidates_problems ls = filter (\<lambda>l. ep_problems l \<noteq> [])
     (map (\<lambda>l. l\<lparr>ep_problems := filter (\<lambda>p. \<not> is_candidates_problem p) (ep_problems l)\<rparr>) ls)"

definition find_all :: "problem_env \<Rightarrow> pg_store_data \<Rightarrow> election_config \<Rightarrow> all_problems" where
  "find_all env d election =
    (let summaries = candidate_list_summaries env d election;
         (general, general_info) = find_general_problems d;
         (candidates, candidates_info) = find_candidate_problems env d election summaries;
         ls = find_list_problems summaries d
     in sort_problems_by_severity \<lparr>ap_general = general, ap_candidates = candidates,
          ap_lists = ls\<lparr>lp_per_list := drop_candidates_problems (lp_per_list ls)\<rparr>,
          ap_info = general_info @ candidates_info\<rparr>)"

text \<open>\<open>CandidateListSummary::is_usable\<close>.\<close>

definition summary_highest_severity :: "candidate_list_summary \<Rightarrow> severity option" where
  "summary_highest_severity c = problems_highest_severity \<lparr>pr_potential = summary_problems c, pr_info = []\<rparr>"

definition is_usable :: "problem_env \<Rightarrow> candidate_list_summary \<Rightarrow> pg_store_data \<Rightarrow> election_config \<Rightarrow> bool" where
  "is_usable env c d election =
    (candidate_count c > 0 \<and> \<not> has_severity_or_higher summary_highest_severity c SevError
     \<and> \<not> list_ex (\<lambda>i. case get_person d i of
           Inl _ \<Rightarrow> False
         | Inr p \<Rightarrow> has_severity_or_higher problems_highest_severity (get_person_problems env d p election) SevError)
         (cl_candidates (cls_list c)))"

text \<open>What the committee sees of them, from the corrected data.\<close>

definition get_all_problems :: "problem_env \<Rightarrow> pg_store_data \<Rightarrow> election_config \<Rightarrow> all_problems" where
  "get_all_problems env csb_corrected_data election =
    (let problems = find_all env csb_corrected_data election in
     problems\<lparr>ap_info := [],
       ap_candidates := filter (\<lambda>c. ep_problems c \<noteq> [])
         (map (\<lambda>c. c\<lparr>ep_problems := filter is_relevant_for_csb (ep_problems c)\<rparr>) (ap_candidates problems))\<rparr>)"

end
