(* ===== verification/Slug.thy ===== *)
theory Slug
  imports Text Domain
begin

text \<open>
  Slugs for file names (\<open>tools/utils/src/slugify_teletex.rs\<close>): every text becomes ASCII letters,
  digits and single dashes.
\<close>

definition SLUG_SEPARATORS :: "nat list" where
  "SLUG_SEPARATORS = [32, 45, 95, 47, 92, 58, 59, 44, 46, 43, 61, 40, 41, 91, 93, 123, 125, 124]"

text \<open>The letters of the Latin-1 Supplement and Latin Extended-A with what replaces them.\<close>

definition SLUG_LETTERS :: "(nat list \<times> rstring) list" where
  "SLUG_LETTERS =
    [([192, 193, 194, 195, 196, 197, 256, 258, 260], lit ''A''),
     ([224, 225, 226, 227, 228, 229, 257, 259, 261], lit ''a''),
     ([198], lit ''AE''),
     ([230], lit ''ae''),
     ([199, 262, 264, 266, 268], lit ''C''),
     ([231, 263, 265, 267, 269], lit ''c''),
     ([208, 270, 272], lit ''D''),
     ([240, 271, 273], lit ''d''),
     ([200, 201, 202, 203, 274, 276, 278, 280, 282], lit ''E''),
     ([232, 233, 234, 235, 275, 277, 279, 281, 283], lit ''e''),
     ([284, 286, 288, 290], lit ''G''),
     ([285, 287, 289, 291], lit ''g''),
     ([292, 294], lit ''H''),
     ([293, 295], lit ''h''),
     ([204, 205, 206, 207, 296, 298, 300, 302, 304], lit ''I''),
     ([236, 237, 238, 239, 297, 299, 301, 303, 305], lit ''i''),
     ([306], lit ''IJ''),
     ([307], lit ''ij''),
     ([308], lit ''J''),
     ([309], lit ''j''),
     ([310], lit ''K''),
     ([311, 312], lit ''k''),
     ([313, 315, 317, 319, 321], lit ''L''),
     ([314, 316, 318, 320, 322], lit ''l''),
     ([209, 323, 325, 327, 330], lit ''N''),
     ([241, 324, 326, 328, 329, 331], lit ''n''),
     ([210, 211, 212, 213, 214, 216, 332, 334, 336], lit ''O''),
     ([242, 243, 244, 245, 246, 248, 333, 335, 337], lit ''o''),
     ([338], lit ''OE''),
     ([339], lit ''oe''),
     ([340, 342, 344], lit ''R''),
     ([341, 343, 345], lit ''r''),
     ([346, 348, 350, 352], lit ''S''),
     ([347, 349, 351, 353], lit ''s''),
     ([223], lit ''ss''),
     ([222], lit ''TH''),
     ([254], lit ''th''),
     ([354, 356, 358], lit ''T''),
     ([355, 357, 359], lit ''t''),
     ([217, 218, 219, 220, 360, 362, 364, 366, 368, 370], lit ''U''),
     ([249, 250, 251, 252, 361, 363, 365, 367, 369, 371], lit ''u''),
     ([372], lit ''W''),
     ([373], lit ''w''),
     ([221, 374, 376], lit ''Y''),
     ([253, 255, 375], lit ''y''),
     ([377, 379, 381], lit ''Z''),
     ([378, 380, 382], lit ''z'')]"

definition append_char :: "nat \<Rightarrow> rstring" where
  "append_char c =
    (if is_ascii_alphanumeric c then [c]
     else if c \<in> set SLUG_SEPARATORS then lit ''-''
     else (case find (\<lambda>(cs, _). c \<in> set cs) SLUG_LETTERS of Some (_, out) \<Rightarrow> out | None \<Rightarrow> []))"

definition slugify_teletex :: "rstring \<Rightarrow> bool \<Rightarrow> rstring" where
  "slugify_teletex input only_lowercase =
    (let output = filter (\<lambda>s. s \<noteq> []) (split_on 45 (concat (map append_char input))) in
     join_with (lit ''-'') (if only_lowercase then map (map to_ascii_lowercase) output else output))"

subsection \<open>Facts\<close>

definition is_slug_char :: "nat \<Rightarrow> bool" where
  "is_slug_char c = (is_ascii_alphanumeric c \<or> c = 45)"

lemma slug_letters_alphanumeric: "list_all (\<lambda>(_, out). list_all is_ascii_alphanumeric out) SLUG_LETTERS"
  by (simp add: SLUG_LETTERS_def lit_def char_class_defs)

lemma find_Some_mem: "find P xs = Some x \<Longrightarrow> x \<in> set xs"
  by (induction xs) (auto split: if_splits)

lemma append_char_safe: "c \<in> set (append_char x) \<Longrightarrow> is_slug_char c"
proof (cases "find (\<lambda>(cs, _). x \<in> set cs) SLUG_LETTERS")
  case (Some entry)
  then have "list_all is_ascii_alphanumeric (snd entry)"
    using find_Some_mem slug_letters_alphanumeric by (fastforce simp: list_all_iff)
  then show "c \<in> set (append_char x) \<Longrightarrow> is_slug_char c"
    using Some by (auto simp: append_char_def is_slug_char_def lit_def list_all_iff split: if_splits prod.splits)
qed (auto simp: append_char_def is_slug_char_def lit_def split: if_splits)

lemma lowercase_alphanumeric: "is_ascii_alphanumeric c \<Longrightarrow> is_ascii_alphanumeric (to_ascii_lowercase c)"
  by (auto simp: char_class_defs to_ascii_lowercase_def)

text \<open>A slug holds ASCII letters, digits and dashes only.\<close>

lemma slug_safe: "c \<in> set (slugify_teletex s b) \<Longrightarrow> is_slug_char c"
proof -
  let ?parts = "filter (\<lambda>s. s \<noteq> []) (split_on 45 (concat (map append_char s)))"
  assume c: "c \<in> set (slugify_teletex s b)"
  have parts: "is_ascii_alphanumeric x" if p: "p \<in> set ?parts" and x: "x \<in> set p" for p x
  proof -
    have "x \<in> set (concat (map append_char s)) - {45}" using p x set_split_on by fastforce
    then show ?thesis using append_char_safe by (auto simp: is_slug_char_def)
  qed
  show ?thesis
  proof (cases b)
    case True
    then have "c = 45 \<or> (\<exists>p\<in>set ?parts. \<exists>x\<in>set p. c = to_ascii_lowercase x)"
      using c set_join_with [of "lit ''-''" "map (map to_ascii_lowercase) ?parts"]
      by (auto simp: slugify_teletex_def Let_def lit_def)
    then show ?thesis using parts lowercase_alphanumeric by (auto simp: is_slug_char_def)
  next
    case False
    then have "c = 45 \<or> (\<exists>p\<in>set ?parts. c \<in> set p)"
      using c set_join_with [of "lit ''-''" ?parts] by (auto simp: slugify_teletex_def Let_def lit_def)
    then show ?thesis using parts by (auto simp: is_slug_char_def)
  qed
qed

end
