(* ===== verification/Election_Texts.thy ===== *)
theory Election_Texts
  imports Election Slug
begin

text \<open>
  What an election is called and which districts it has (\<open>core/election/configs.rs\<close>,
  \<open>core/election/macros.rs\<close>, \<open>core/election/types.rs\<close>, \<open>core/model_locale.rs\<close>). The provinces,
  water councils and districts are generated by the build from the official election tree: their
  titles, codes and numbers are parameters.
\<close>

datatype any_locale = AnyEn | AnyFry | AnyNl

datatype model_locale = Fry | Nl

fun model_locale_display :: "model_locale \<Rightarrow> rstring" where
  "model_locale_display Fry = lit ''fry''"
| "model_locale_display Nl = lit ''nl''"

fun any_locale_of :: "model_locale \<Rightarrow> any_locale" where
  "any_locale_of Fry = AnyFry"
| "any_locale_of Nl = AnyNl"

datatype election_type = Tk | Ek | Gr | Ps | Ws | Ep | Kc | Kcni | Er

fun election_type_code :: "election_type \<Rightarrow> rstring" where
  "election_type_code Tk = lit ''TK''"
| "election_type_code Ek = lit ''EK''"
| "election_type_code Gr = lit ''GR''"
| "election_type_code Ps = lit ''PS''"
| "election_type_code Ws = lit ''WS''"
| "election_type_code Ep = lit ''EP''"
| "election_type_code Kc = lit ''KC''"
| "election_type_code Kcni = lit ''KCNI''"
| "election_type_code Er = lit ''ER''"

record election_env =
  ee_domains :: domains
  ee_province_title :: "nat \<Rightarrow> rstring"
  ee_water_council_title :: "nat \<Rightarrow> rstring"
  ee_province_number :: "nat \<Rightarrow> nat"
  ee_water_council_number :: "nat \<Rightarrow> nat"
  ee_province_seats :: "nat \<Rightarrow> nat"
  ee_water_council_seats :: "nat \<Rightarrow> nat"
  ee_frisian_province :: "nat \<Rightarrow> bool"
  ee_frisian_water_council :: "nat \<Rightarrow> bool"
  ee_ek_districts :: "electoral_district list"
  ee_ps_districts :: "nat \<Rightarrow> electoral_district list"
  ee_ws_districts :: "nat \<Rightarrow> electoral_district list"
  ee_district_title :: "electoral_district \<Rightarrow> rstring"
  ee_district_code :: "electoral_district \<Rightarrow> rstring"
  ee_region_number :: "electoral_district \<Rightarrow> nat"
  ee_lowercase :: "rstring \<Rightarrow> rstring"

fun election_type_of :: "election_config \<Rightarrow> election_type" where
  "election_type_of EK27 = Ek"
| "election_type_of (PS27 _) = Ps"
| "election_type_of (WS27 _) = Ws"

fun electoral_districts :: "election_env \<Rightarrow> election_config \<Rightarrow> electoral_district list" where
  "electoral_districts v EK27 = ee_ek_districts v"
| "electoral_districts v (PS27 p) = ee_ps_districts v p"
| "electoral_districts v (WS27 w) = ee_ws_districts v w"

fun domain_title :: "election_env \<Rightarrow> election_config \<Rightarrow> rstring option" where
  "domain_title v EK27 = None"
| "domain_title v (PS27 p) = Some (ee_province_title v p)"
| "domain_title v (WS27 w) = Some (ee_water_council_title v w)"

fun domain_number :: "election_env \<Rightarrow> election_config \<Rightarrow> nat option" where
  "domain_number v EK27 = None"
| "domain_number v (PS27 p) = Some (ee_province_number v p)"
| "domain_number v (WS27 w) = Some (ee_water_council_number v w)"

fun frisian_export_allowed :: "election_env \<Rightarrow> election_config \<Rightarrow> bool" where
  "frisian_export_allowed v EK27 = False"
| "frisian_export_allowed v (PS27 p) = ee_frisian_province v p"
| "frisian_export_allowed v (WS27 w) = ee_frisian_water_council v w"

fun number_of_seats :: "election_env \<Rightarrow> election_config \<Rightarrow> nat" where
  "number_of_seats v EK27 = 75"
| "number_of_seats v (PS27 p) = ee_province_seats v p"
| "number_of_seats v (WS27 w) = ee_water_council_seats v w"

definition nineteen_or_more_seats :: "election_env \<Rightarrow> election_config \<Rightarrow> bool" where
  "nineteen_or_more_seats v e = (number_of_seats v e \<ge> 19)"

text \<open>Dates of the calendar, as year, month and day.\<close>

type_synonym ymd = "nat \<times> nat \<times> nat"

fun nomination_day_date :: "election_config \<Rightarrow> ymd" where
  "nomination_day_date EK27 = (2027, 4, 20)"
| "nomination_day_date (PS27 _) = (2027, 2, 1)"
| "nomination_day_date (WS27 _) = (2027, 2, 1)"

fun election_date :: "election_config \<Rightarrow> ymd" where
  "election_date EK27 = (2027, 5, 24)"
| "election_date (PS27 _) = (2027, 3, 17)"
| "election_date (WS27 _) = (2027, 3, 17)"

definition has_only_one_district :: "election_env \<Rightarrow> election_config \<Rightarrow> bool" where
  "has_only_one_district v e = (length (electoral_districts v e) = 1)"

definition filename_slug :: "election_env \<Rightarrow> election_config \<Rightarrow> rstring" where
  "filename_slug v e = ee_lowercase v (election_code e)
     @ (case domain_code (ee_domains v) e of None \<Rightarrow> [] | Some d \<Rightarrow> ee_lowercase v d)"

text \<open>Nothing is the panic for an election type that has no title or no domain.\<close>

definition formal_title :: "election_env \<Rightarrow> election_config \<Rightarrow> model_locale \<Rightarrow> rstring option" where
  "formal_title v e loc =
    (case (election_type_of e, loc) of
       (Tk, Nl) \<Rightarrow> Some (lit ''de Tweede Kamer der Staten-Generaal'')
     | (Tk, Fry) \<Rightarrow> Some (lit ''de Twadde Keamer fan de Steaten-Generaal'')
     | (Ek, Nl) \<Rightarrow> Some (lit ''de Eerste Kamer der Staten-Generaal'')
     | (Ek, Fry) \<Rightarrow> Some (lit ''de Earste Keamer fan de Steaten-Generaal'')
     | (Gr, Nl) \<Rightarrow> map_option (\<lambda>d. lit ''de gemeenteraad van '' @ d) (domain_title v e)
     | (Gr, Fry) \<Rightarrow> map_option (\<lambda>d. lit ''de gemeenterie fan '' @ d) (domain_title v e)
     | (Ps, Nl) \<Rightarrow> map_option (\<lambda>d. lit ''de provinciale staten van '' @ d) (domain_title v e)
     | (Ps, Fry) \<Rightarrow> map_option (\<lambda>d. lit ''de Provinsjale Steaten fan '' @ d) (domain_title v e)
     | (Ws, Nl) \<Rightarrow> map_option (\<lambda>d. lit ''het algemeen bestuur van het waterschap '' @ d) (domain_title v e)
     | (Ws, Fry) \<Rightarrow> map_option (\<lambda>d. lit ''it algemien bestjoer fan it wetterskip '' @ d) (domain_title v e)
     | (Ep, _) \<Rightarrow> Some (lit ''het Europees Parlement'')
     | _ \<Rightarrow> None)"

definition full_formal_title :: "election_env \<Rightarrow> election_config \<Rightarrow> model_locale \<Rightarrow> rstring option" where
  "full_formal_title v e loc = map_option (\<lambda>title.
     (case loc of Fry \<Rightarrow> lit ''Ferkiezing fan'' | Nl \<Rightarrow> lit ''Verkiezing van'') @ lit '' '' @ title @ lit '' ''
       @ nat_text (fst (election_date e))) (formal_title v e loc)"

definition districts_name :: "election_env \<Rightarrow> candidate_list \<Rightarrow> rstring" where
  "districts_name v l = join_with (lit '', '') (map (ee_district_title v) (cl_electoral_districts l))"

definition districts_codes :: "election_env \<Rightarrow> candidate_list \<Rightarrow> rstring" where
  "districts_codes v l = join_with (lit ''-'') (map (\<lambda>d. ee_lowercase v (ee_district_code v d)) (cl_electoral_districts l))"

text \<open>Every configured election has a title.\<close>

lemma formal_title_total: "\<exists>t. formal_title v e loc = Some t"
  by (cases e; cases loc) (simp_all add: formal_title_def)

text \<open>What the generated district codes are relied on for: within an election they name the
  district, also in lower case, without dashes or slashes.\<close>

abbreviation lower_code :: "election_env \<Rightarrow> electoral_district \<Rightarrow> rstring" where
  "lower_code v d \<equiv> ee_lowercase v (ee_district_code v d)"

definition district_codes_ok :: "election_env \<Rightarrow> election_config \<Rightarrow> bool" where
  "district_codes_ok v e = (inj_on (lower_code v) (set (electoral_districts v e))
     \<and> (\<forall>d\<in>set (electoral_districts v e). 45 \<notin> set (lower_code v d) \<and> 47 \<notin> set (lower_code v d)))"

definition in_election :: "election_env \<Rightarrow> election_config \<Rightarrow> candidate_list \<Rightarrow> bool" where
  "in_election v e l = (set (cl_electoral_districts l) \<subseteq> set (electoral_districts v e))"

lemma split_districts_codes:
  assumes "district_codes_ok v e" "in_election v e l" "cl_electoral_districts l \<noteq> []"
  shows "split_on 45 (districts_codes v l) = map (lower_code v) (cl_electoral_districts l)"
  unfolding districts_codes_def
  using split_on_join [of "map (lower_code v) (cl_electoral_districts l)" 45] assms
  by (force simp: district_codes_ok_def in_election_def lit_def)

lemma districts_codes_eqD:
  assumes "district_codes_ok v e" "in_election v e l" "in_election v e l'"
    and "cl_electoral_districts l \<noteq> []" "cl_electoral_districts l' \<noteq> []"
    and "districts_codes v l = districts_codes v l'"
  shows "cl_electoral_districts l = cl_electoral_districts l'"
proof -
  have "map (lower_code v) (cl_electoral_districts l) = map (lower_code v) (cl_electoral_districts l')"
    using split_districts_codes assms by metis
  moreover have "inj_on (lower_code v) (set (cl_electoral_districts l) \<union> set (cl_electoral_districts l'))"
    using assms(1-3) by (auto simp: district_codes_ok_def in_election_def intro: inj_on_subset)
  ultimately show ?thesis by (rule map_inj_on)
qed

lemma districts_codes_no_slash: "district_codes_ok v e \<Longrightarrow> in_election v e l \<Longrightarrow> 47 \<notin> set (districts_codes v l)"
  using set_join_with [of "lit ''-''" "map (lower_code v) (cl_electoral_districts l)"]
  by (fastforce simp: districts_codes_def district_codes_ok_def in_election_def lit_def)

end
