(* ===== verification/Model_Inputs.thy ===== *)
theory Model_Inputs
  imports Problems Election_Texts
begin

text \<open>
  The candidates of a list in full (\<open>pg/candidate_lists/actions.rs\<close>) and the data the printed
  models are filled with (\<open>models/inputs.rs\<close>), with the texts the structures contribute
  (\<open>structs/persons\<close>, \<open>structs/common/address.rs\<close>, \<open>structs/common/gender.rs\<close>).
\<close>

subsection \<open>Full candidate lists\<close>

record candidate =
  c_list_id :: candidate_list_id
  c_position :: nat
  c_person :: person

record candidate_with_problems =
  cwp_data :: candidate
  cwp_problems :: problems

record full_candidate_list =
  fcl_list :: candidate_list
  fcl_candidates :: "candidate_with_problems list"

definition build_full_candidate_list ::
  "problem_env \<Rightarrow> pg_store_data \<Rightarrow> election_config \<Rightarrow> candidate_list \<Rightarrow> full_candidate_list result" where
  "build_full_candidate_list env d election l =
    bind_res (collect_res (\<lambda>(index, i). bind_res (get_person d i) (\<lambda>p.
        Ok \<lparr>cwp_data = \<lparr>c_list_id = cl_id l, c_position = index + 1, c_person = p\<rparr>,
            cwp_problems = get_person_problems env d p election\<rparr>)) (enumerate 0 (cl_candidates l)))
      (\<lambda>candidates. Ok \<lparr>fcl_list = l, fcl_candidates = candidates\<rparr>)"

definition full_candidate_list_get ::
  "problem_env \<Rightarrow> pg_store_data \<Rightarrow> election_config \<Rightarrow> candidate_list_id \<Rightarrow> full_candidate_list result" where
  "full_candidate_list_get env d election i =
     bind_res (get_candidate_list d i) (build_full_candidate_list env d election)"

subsection \<open>Texts of persons and addresses\<close>

fun gender_abbreviation :: "gender \<Rightarrow> any_locale \<Rightarrow> rstring" where
  "gender_abbreviation Female AnyNl = lit ''v''"
| "gender_abbreviation Female _ = lit ''f''"
| "gender_abbreviation Male _ = lit ''m''"

definition initials_as_printed_on_list :: "person \<Rightarrow> any_locale \<Rightarrow> rstring" where
  "initials_as_printed_on_list p loc =
    (let initials = initials_with_first_name (p_name p) in
     join_with (lit '' '') ((if initials \<noteq> [] then [initials] else [])
       @ (case pd_gender (p_personal_data p) of None \<Rightarrow> []
          | Some g \<Rightarrow> [lit ''('' @ gender_abbreviation g loc @ lit '')''])))"

definition name_as_printed_on_list :: "person \<Rightarrow> any_locale \<Rightarrow> rstring" where
  "name_as_printed_on_list p loc =
    (let last_name = last_name_with_prefix (p_name p); rest = initials_as_printed_on_list p loc in
     if rest = [] then last_name
     else case fn_initials (p_name p) of
         Some _ \<Rightarrow> last_name @ lit '', '' @ rest
       | None \<Rightarrow> last_name @ lit '' '' @ rest)"

definition personal_data_locality :: "personal_data \<Rightarrow> rstring option" where
  "personal_data_locality d =
    (case (pd_place_of_residence d, pd_country d) of
       (Some place, Some country) \<Rightarrow>
         if \<not> is_nl country then Some (place_as_str place @ lit '' ('' @ country @ lit '')'') else Some (place_as_str place)
     | (Some place, None) \<Rightarrow> Some (place_as_str place)
     | (None, _) \<Rightarrow> None)"

fun address_postal_code :: "address \<Rightarrow> rstring option" where
  "address_postal_code (Dutch a) = da_postal_code a"
| "address_postal_code (International a) = ia_postal_code a"

fun address_locality :: "address \<Rightarrow> rstring option" where
  "address_locality (Dutch a) = da_locality a"
| "address_locality (International a) = ia_locality a"

definition address_line_1 :: "address \<Rightarrow> rstring option" where
  "address_line_1 a =
    (let (street_name, house_number, house_number_addition) = (case a of
          Dutch a \<Rightarrow> (da_street_name a, da_house_number a, da_house_number_addition a)
        | International a \<Rightarrow> (ia_street_name a, ia_house_number a, ia_house_number_addition a))
     in case (street_name, house_number, house_number_addition) of
          (Some street, Some number, Some addition) \<Rightarrow> Some (street @ lit '' '' @ number @ addition)
        | (Some street, Some number, None) \<Rightarrow> Some (street @ lit '' '' @ number)
        | _ \<Rightarrow> None)"

subsection \<open>Inputs of the models\<close>

datatype electoral_districts_input = AllDistricts | SomeDistricts "rstring list" | OnlyOneDistrict

definition electoral_districts_from :: "election_env \<Rightarrow> candidate_list \<Rightarrow> election_config \<Rightarrow> electoral_districts_input" where
  "electoral_districts_from v l e =
    (if has_only_one_district v e then OnlyOneDistrict
     else if contains_all_districts (electoral_districts v e) l then AllDistricts
     else SomeDistricts (map (ee_district_title v) (cl_electoral_districts l)))"

record model_candidate =
  mc_last_name :: rstring
  mc_initials :: rstring
  mc_date_of_birth :: naive_date
  mc_locality :: rstring
  mc_position :: nat

definition model_candidate_try_from :: "candidate \<Rightarrow> model_locale \<Rightarrow> model_candidate result" where
  "model_candidate_try_from c loc =
    (let p = c_person c in
     bind_res (ok_or (IncompleteData (lit ''Missing birth date for candidate'')) (pd_date_of_birth (p_personal_data p))) (\<lambda>dob.
     bind_res (ok_or (IncompleteData (lit ''Missing locality for candidate'')) (personal_data_locality (p_personal_data p))) (\<lambda>loca.
     Ok \<lparr>mc_last_name = last_name_with_prefix (p_name p), mc_initials = initials_as_printed_on_list p (any_locale_of loc),
         mc_date_of_birth = dob, mc_locality = loca, mc_position = c_position c\<rparr>)))"

text \<open>The sorted candidates, which the caller's slice becomes, and the inputs.\<close>

definition ordered_candidates :: "candidate list \<Rightarrow> model_locale \<Rightarrow> candidate list \<times> model_candidate list result" where
  "ordered_candidates candidates loc =
    (let sorted_candidates = sort_key c_position candidates in
     (sorted_candidates,
      if list_ex (\<lambda>(i, c). c_position c \<noteq> i + 1) (enumerate 0 sorted_candidates) then Err IntegrityViolation
      else collect_res (\<lambda>c. model_candidate_try_from c loc) sorted_candidates))"

record postal_address =
  pa_street_address :: rstring
  pa_postal_code :: rstring
  pa_locality :: rstring

definition postal_address_from :: "address \<Rightarrow> postal_address" where
  "postal_address_from a = \<lparr>pa_street_address = as_str_or_empty (address_line_1 a),
     pa_postal_code = as_str_or_empty (address_postal_code a), pa_locality = as_str_or_empty (address_locality a)\<rparr>"

record model_person =
  mp_last_name :: rstring
  mp_initials :: rstring
  mp_postal_address :: postal_address

definition model_person_of_submitter :: "list_submitter \<Rightarrow> model_person" where
  "model_person_of_submitter s = \<lparr>mp_last_name = last_name_with_prefix (ls_name s),
     mp_initials = initials_with_first_name (ls_name s), mp_postal_address = postal_address_from (ls_address s)\<rparr>"

definition model_person_of_representative :: "representative \<Rightarrow> model_person" where
  "model_person_of_representative r = \<lparr>mp_last_name = last_name_with_prefix (rep_name r),
     mp_initials = initials_with_first_name (rep_name r), mp_postal_address = postal_address_from (Dutch (rep_address r))\<rparr>"

record model_authorisation =
  ma_last_name :: rstring
  ma_initials :: rstring
  ma_legal_name :: rstring

definition model_authorisation_default :: model_authorisation where
  "model_authorisation_default = \<lparr>ma_last_name = [], ma_initials = [], ma_legal_name = []\<rparr>"

definition model_authorisation_from :: "name_authorisation \<Rightarrow> model_authorisation" where
  "model_authorisation_from na = \<lparr>ma_last_name = last_name_with_prefix (na_name na),
     ma_initials = initials_with_first_name (na_name na), ma_legal_name = na_legal_name na\<rparr>"

definition model_authorisation_name :: "model_authorisation \<Rightarrow> rstring" where
  "model_authorisation_name na = join_with (lit '', '') (filter (\<lambda>s. s \<noteq> []) [ma_last_name na, ma_initials na])"

record detailed_candidate =
  dc_candidate :: model_candidate
  dc_initials_no_gender :: rstring
  dc_bsn :: "rstring option"
  dc_representative :: "model_person option"
  dc_needs_representative :: bool
  dc_postal_address :: "postal_address option"

definition detailed_candidate_try_from :: "candidate \<Rightarrow> model_locale \<Rightarrow> detailed_candidate result" where
  "detailed_candidate_try_from c loc =
    (let p = c_person c; needs = needs_representative (p_personal_data p);
         (rep, postal) = (if needs then (map_option model_person_of_representative (p_representative p), None)
           else (None, Some (postal_address_from (Dutch (p_address p)))));
         bsn = personal_data_bsn (p_personal_data p)
     in bind_res (model_candidate_try_from c loc) (\<lambda>m.
        Ok \<lparr>dc_candidate = m, dc_initials_no_gender = initials_with_first_name (p_name p), dc_bsn = bsn,
            dc_representative = rep, dc_needs_representative = needs, dc_postal_address = postal\<rparr>))"

record model_data =
  md_election_name :: rstring
  md_election_type :: election_type
  md_appellation :: rstring
  md_candidates :: "model_candidate list"
  md_locale :: model_locale
  md_event_id :: nat
  md_sha_hash :: rstring

end
