(* ===== verification/Nomination.thy ===== *)
theory Nomination
  imports Model_Inputs
begin

text \<open>
  The EML 210 candidate nomination (\<open>models/eml/mod.rs\<close>, \<open>models/eml/eml210.rs\<close>): the document as
  the code hands it to the \<open>eml_nl\<close> package. What that package accepts as an identifier, and its
  builder and writer, are parameters; a refusal is an \<open>EmlError\<close>.
\<close>

subsection \<open>Persons and addresses\<close>

record qualifying_locality =
  ql_locality :: rstring
  ql_postal_code :: "rstring option"
  ql_address_line :: "rstring option"

definition qualifying_locality_from :: "address \<Rightarrow> qualifying_locality" where
  "qualifying_locality_from a = \<lparr>ql_locality = as_str_or_empty (address_locality a),
     ql_postal_code = address_postal_code a, ql_address_line = address_line_1 a\<rparr>"

record agent =
  ag_role :: rstring
  ag_name :: full_name
  ag_contact :: qualifying_locality
  ag_living_address :: rstring

definition agent_from :: "representative \<Rightarrow> agent" where
  "agent_from r = \<lparr>ag_role = lit ''H10'', ag_name = rep_name r, ag_contact = qualifying_locality_from (Dutch (rep_address r)),
     ag_living_address = as_str_or_empty (da_locality (rep_address r))\<rparr>"

text \<open>The place of residence, with the country unless that is the Netherlands.\<close>

definition qualifying_address_try_from :: "personal_data \<Rightarrow> (rstring \<times> rstring option) result" where
  "qualifying_address_try_from d =
     bind_res (ok_or (IncompleteData (lit ''missing place of residence'')) (pd_place_of_residence d)) (\<lambda>place.
     bind_res (ok_or (IncompleteData (lit ''missing country'')) (pd_country d)) (\<lambda>country.
     Ok (place_as_str place, if is_nl country then None else Some country)))"

definition eml_contact :: "person \<Rightarrow> qualifying_locality option" where
  "eml_contact p = (if \<not> needs_representative (p_personal_data p)
     then Some (qualifying_locality_from (Dutch (p_address p))) else None)"

definition eml_agent :: "person \<Rightarrow> agent option" where
  "eml_agent p = (if needs_representative (p_personal_data p) then map_option agent_from (p_representative p) else None)"

datatype eml_gender = EmlUnknown | EmlFemale | EmlMale

definition eml_gender_from :: "personal_data \<Rightarrow> eml_gender" where
  "eml_gender_from d = (case pd_gender d of None \<Rightarrow> EmlUnknown | Some Female \<Rightarrow> EmlFemale | Some Male \<Rightarrow> EmlMale)"

subsection \<open>Elections\<close>

datatype election_category = CatTK | CatEK | CatGR | CatPS | CatAB | CatEP | CatKC | CatER

fun election_category_from :: "election_type \<Rightarrow> election_category" where
  "election_category_from Tk = CatTK"
| "election_category_from Ek = CatEK"
| "election_category_from Gr = CatGR"
| "election_category_from Ps = CatPS"
| "election_category_from Ws = CatAB"
| "election_category_from Ep = CatEP"
| "election_category_from Kc = CatKC"
| "election_category_from Kcni = CatKC"
| "election_category_from Er = CatER"

datatype election_subcategory = SubTK | SubEK | SubGR1 | SubGR2 | SubPS1 | SubPS2 | SubAB1 | SubAB2 | SubEP | SubKCCN | SubKCNI | SubER1

definition election_subcategory_from :: "election_env \<Rightarrow> election_config \<Rightarrow> election_subcategory" where
  "election_subcategory_from v e =
    (case election_type_of e of
       Tk \<Rightarrow> SubTK | Ek \<Rightarrow> SubEK
     | Gr \<Rightarrow> if nineteen_or_more_seats v e then SubGR2 else SubGR1
     | Ps \<Rightarrow> if has_only_one_district v e then SubPS1 else SubPS2
     | Ws \<Rightarrow> if nineteen_or_more_seats v e then SubAB2 else SubAB1
     | Ep \<Rightarrow> SubEP | Kc \<Rightarrow> SubKCCN | Kcni \<Rightarrow> SubKCNI | Er \<Rightarrow> SubER1)"

record election_identifier =
  ei_id :: rstring
  ei_name :: rstring
  ei_category :: election_category
  ei_subcategory :: election_subcategory
  ei_election_date :: ymd
  ei_nomination_date :: ymd
  ei_domain :: "(rstring option \<times> rstring) option"

record candidate_nomination =
  nc_identifier :: nat
  nc_full_name :: full_name
  nc_date_of_birth :: "naive_date option"
  nc_gender :: eml_gender
  nc_qualifying_address :: "rstring \<times> rstring option"
  nc_contact :: "qualifying_locality option"
  nc_agent :: "agent option"
  nc_national_identification_number :: "rstring option"

datatype job_title = Submitter | DeputySubmitter

record proposer =
  np_name :: full_name
  np_contact :: qualifying_locality
  np_job_title :: job_title
  np_id :: "rstring option"

record eml_list_data =
  ld_publication_language :: model_locale
  ld_contests :: "(rstring \<times> rstring) list"

datatype contest_id = ContestGeen | ContestAlle | Contest rstring

record nomination =
  nom_transaction_id :: nat
  nom_election_identifier :: election_identifier
  nom_contest :: "contest_id \<times> rstring"
  nom_registered_name :: rstring
  nom_list_data :: eml_list_data
  nom_candidates :: "candidate_nomination list"
  nom_proposers :: "proposer list"

text \<open>The \<open>eml_nl\<close> package.\<close>

record eml_env =
  en_category_text :: "election_category \<Rightarrow> rstring"
  en_candidate_id :: "nat \<Rightarrow> bool"
  en_contest_id :: "rstring \<Rightarrow> bool"
  en_authority_id :: "rstring \<Rightarrow> bool"
  en_election_id :: "rstring \<Rightarrow> bool"
  en_domain_id :: "rstring \<Rightarrow> bool"
  en_build_identifier :: "election_identifier \<Rightarrow> bool"
  en_write :: "nomination \<Rightarrow> byte list option"

definition eml_check :: "bool \<Rightarrow> unit result" where
  "eml_check b = (if b then Ok () else Err (EmlError []))"

definition eml_candidate_id :: "eml_env \<Rightarrow> nat \<Rightarrow> nat result" where
  "eml_candidate_id en position =
    (if en_candidate_id en position then Ok position else Err (IncompleteData (lit ''candidate position is 0'')))"

text \<open>Nothing is a panic: an election without a title, or a domain title without a number.\<close>

definition election_id_text :: "election_env \<Rightarrow> eml_env \<Rightarrow> election_config \<Rightarrow> rstring" where
  "election_id_text v en e =
     en_category_text en (election_category_from (election_type_of e)) @ nat_text (fst (election_date e))
     @ (case domain_title v e of Some d \<Rightarrow> lit ''_'' @ slugify_teletex d False | None \<Rightarrow> [])"

definition election_identifier_of :: "election_env \<Rightarrow> eml_env \<Rightarrow> election_config \<Rightarrow> election_identifier result option" where
  "election_identifier_of v en e =
    (let category = election_category_from (election_type_of e) in
     if \<not> en_election_id en (election_id_text v en e) then Some (Err (EmlError []))
     else case full_formal_title v e Nl of
         None \<Rightarrow> None
       | Some title \<Rightarrow>
          (let base = \<lparr>ei_id = election_id_text v en e, ei_name = title, ei_category = category,
                 ei_subcategory = election_subcategory_from v e, ei_election_date = election_date e,
                 ei_nomination_date = nomination_day_date e, ei_domain = None\<rparr>
           in case domain_title v e of
                None \<Rightarrow> Some (Ok base)
              | Some domain \<Rightarrow>
                  if category = CatPS then Some (Ok (base\<lparr>ei_domain := Some (None, domain)\<rparr>))
                  else (case domain_number v e of
                      None \<Rightarrow> None
                    | Some number \<Rightarrow>
                        Some (if en_domain_id en (nat_text number)
                          then Ok (base\<lparr>ei_domain := Some (Some (nat_text number), domain)\<rparr>) else Err (EmlError [])))))"

lemma election_identifier_no_panic: "election_identifier_of v en e \<noteq> None"
  using formal_title_total [of v e Nl]
  by (cases e) (auto simp: election_identifier_of_def full_formal_title_def Let_def)

definition election_identifier_for :: "election_env \<Rightarrow> eml_env \<Rightarrow> election_config \<Rightarrow> election_identifier result" where
  "election_identifier_for v en e = (case election_identifier_of v en e of None \<Rightarrow> Err InternalServerError
     | Some r \<Rightarrow> bind_res r (\<lambda>i. bind_res (eml_check (en_build_identifier en i)) (\<lambda>_. Ok i)))"

subsection \<open>The nomination\<close>

definition nomination_candidate :: "eml_env \<Rightarrow> candidate \<Rightarrow> candidate_nomination result" where
  "nomination_candidate en c =
    (let p = c_person c in
     bind_res (eml_candidate_id en (c_position c)) (\<lambda>identifier.
     bind_res (qualifying_address_try_from (p_personal_data p)) (\<lambda>qualifying.
     Ok \<lparr>nc_identifier = identifier, nc_full_name = p_name p, nc_date_of_birth = pd_date_of_birth (p_personal_data p),
         nc_gender = eml_gender_from (p_personal_data p), nc_qualifying_address = qualifying,
         nc_contact = eml_contact p, nc_agent = eml_agent p,
         nc_national_identification_number = personal_data_bsn (p_personal_data p)\<rparr>)))"

definition nomination_proposer :: "list_submitter \<Rightarrow> job_title \<Rightarrow> rstring option \<Rightarrow> proposer" where
  "nomination_proposer s title i = \<lparr>np_name = ls_name s, np_contact = qualifying_locality_from (ls_address s),
     np_job_title = title, np_id = i\<rparr>"

definition nominated_proposers :: "pg_store_data \<Rightarrow> proposer list" where
  "nominated_proposers d = nomination_proposer (d_list_submitter d) Submitter None
     # map (\<lambda>(i, s). nomination_proposer s DeputySubmitter (Some (nat_text (i + 1)))) (enumerate 0 (d_substitute_submitters d))"

definition eml_list_data_of :: "election_env \<Rightarrow> eml_env \<Rightarrow> candidate_list \<Rightarrow> model_locale \<Rightarrow> eml_list_data result" where
  "eml_list_data_of v en l loc =
     bind_res (collect_res (\<lambda>d. let i = nat_text (ee_region_number v d) in
         bind_res (eml_check (en_contest_id en i)) (\<lambda>_. Ok (i, ee_district_title v d))) (cl_electoral_districts l))
       (\<lambda>contests. Ok \<lparr>ld_publication_language = loc, ld_contests = contests\<rparr>)"

definition contest_identifier :: "election_env \<Rightarrow> eml_env \<Rightarrow> election_config \<Rightarrow> candidate_list \<Rightarrow> (contest_id \<times> rstring) result" where
  "contest_identifier v en e l =
    (if has_only_one_district v e then Ok (ContestGeen, [])
     else if contains_all_districts (electoral_districts v e) l then Ok (ContestAlle, [])
     else (case cl_electoral_districts l of
         [] \<Rightarrow> Err InternalServerError
       | d # _ \<Rightarrow> (let i = nat_text (ee_region_number v d) in
           bind_res (eml_check (en_contest_id en i)) (\<lambda>_. Ok (Contest i, ee_district_title v d)))))"

definition eml210 ::
  "problem_env \<Rightarrow> election_env \<Rightarrow> eml_env \<Rightarrow> pg_store_data \<Rightarrow> election_config \<Rightarrow> candidate_list_id \<Rightarrow> model_locale \<Rightarrow> byte list result" where
  "eml210 env v en d e i loc =
     bind_res (full_candidate_list_get env d e i) (\<lambda>full.
     bind_res (eml_list_data_of v en (fcl_list full) loc) (\<lambda>list_data.
     bind_res (if last_event_id_of (d_events d) < 2 ^ 64 then Ok () else Err InternalServerError) (\<lambda>_.
     bind_res (eml_check (en_authority_id en (lit ''0000''))) (\<lambda>_.
     bind_res (election_identifier_for v en e) (\<lambda>identifier.
     bind_res (contest_identifier v en e (fcl_list full)) (\<lambda>contest.
     bind_res (pg_appellation_document (d_political_group d)) (\<lambda>registered_name.
     bind_res (collect_res (\<lambda>c. nomination_candidate en (cwp_data c)) (fcl_candidates full)) (\<lambda>candidates.
     ok_or (EmlError []) (en_write en \<lparr>nom_transaction_id = last_event_id_of (d_events d),
        nom_election_identifier = identifier, nom_contest = contest, nom_registered_name = registered_name,
        nom_list_data = list_data, nom_candidates = candidates, nom_proposers = nominated_proposers d\<rparr>)))))))))"

end
