(* ===== verification/Documents.thy ===== *)
theory Documents
  imports Nomination Hash_Prefix Pg_Store
begin

text \<open>
  The download of a submission (\<open>models/documents.rs\<close>, \<open>pg/finalise/pages/documents.rs\<close> and the
  same download from the audit log, \<open>pg/audit_log/pages/detail.rs\<close>): the data every document
  needs, the files of the archive, and the requests with their gates. Rendering a document to PDF
  is done by the \<open>textris_pdf\<close> package from templates and is a parameter.
\<close>

subsection \<open>The data of the documents\<close>

record document_data =
  dd_list_id :: candidate_list_id
  dd_folder_name :: "rstring option"
  dd_election :: election_config
  dd_model_data :: model_data
  dd_electoral_districts :: electoral_districts_input
  dd_detailed_candidates :: "detailed_candidate list"
  dd_previously_seated :: bool
  dd_list_designation :: list_designation
  dd_list_submitter :: model_person
  dd_substitute_submitters :: "model_person list"
  dd_name_authorisations :: "model_authorisation list"
  dd_nomination :: "byte list"

definition archive_filename :: "election_env \<Rightarrow> document_data \<Rightarrow> rstring" where
  "archive_filename v b =
    (let election_slug = filename_slug v (dd_election b); version = nat_text (md_event_id (dd_model_data b));
         name_slug = (if dd_list_designation b = Blank then lit ''blanco''
           else slugify_teletex (md_appellation (dd_model_data b)) True)
     in name_slug @ lit ''-'' @ election_slug @ lit ''-v'' @ version
        @ (if md_locale (dd_model_data b) = Fry then lit ''-fry.zip'' else lit ''.zip''))"

text \<open>\<open>while auths.len() < 2\<close>.\<close>

function fill_to_two :: "model_authorisation list \<Rightarrow> model_authorisation list" where
  "fill_to_two auths = (if length auths < 2 then fill_to_two (auths @ [model_authorisation_default]) else auths)"
  by pat_completeness auto
termination by (relation "measure (\<lambda>auths. 2 - length auths)") auto

declare fill_to_two.simps [simp del]

definition name_authorisations_with_fill_ins :: "pg_store_data \<Rightarrow> model_authorisation list result" where
  "name_authorisations_with_fill_ins d =
    (let nas = get_name_authorisations d in
     case pg_list_designation_kind (d_political_group d) of
       Some KBlank \<Rightarrow> Ok []
     | Some KCombined \<Rightarrow> Ok (fill_to_two (map model_authorisation_from nas))
     | _ \<Rightarrow>
        if length nas > 1 then Err (IncompleteData (lit ''Expected no more than 1 name authorisation''))
        else Ok [case nas of [] \<Rightarrow> model_authorisation_default | na # _ \<Rightarrow> model_authorisation_from na])"

definition complete_list_submitter :: "pg_store_data \<Rightarrow> model_person result" where
  "complete_list_submitter d =
    (let s = d_list_submitter d in
     if submitter_is_empty s \<or> has_severity_or_higher problems_highest_severity (submitter_problems s MainSubmitter) SevError
     then Err (IncompleteData (lit ''Incomplete list submitter''))
     else Ok (model_person_of_submitter s))"

definition list_designation_default :: list_designation where
  "list_designation_default = Standalone None"

definition document_data_new ::
  "problem_env \<Rightarrow> election_env \<Rightarrow> eml_env \<Rightarrow> pg_store_data \<Rightarrow> election_config \<Rightarrow> candidate_list_id \<Rightarrow> model_locale \<Rightarrow> document_data result" where
  "document_data_new env v en d e list_id loc =
    (if \<not> frisian_export_allowed v e \<and> loc = Fry
     then Err (UserError (lit ''Frisian export not allowed for this election''))
     else
       bind_res (full_candidate_list_get env d e list_id) (\<lambda>full.
       let (candidates, ordered) = ordered_candidates (map cwp_data (fcl_candidates full)) loc in
       bind_res ordered (\<lambda>ordered.
       bind_res (collect_res (\<lambda>c. detailed_candidate_try_from c loc) candidates) (\<lambda>detailed.
       let g = d_political_group d in
       bind_res (pg_appellation_document g) (\<lambda>appellation.
       bind_res (complete_list_submitter d) (\<lambda>submitter.
       bind_res (eml210 env v en d e list_id loc) (\<lambda>nomination_xml.
       bind_res (name_authorisations_with_fill_ins d) (\<lambda>auths.
       Ok \<lparr>dd_list_id = list_id,
           dd_folder_name = Some ((case loc of Nl \<Rightarrow> lit ''kieskring'' | Fry \<Rightarrow> lit ''kiesrunte'') @ lit ''-'' @ districts_codes v (fcl_list full)),
           dd_election = e,
           dd_model_data = \<lparr>md_election_name = as_str_or_empty (formal_title v e loc), md_election_type = election_type_of e,
             md_appellation = appellation, md_candidates = ordered, md_locale = loc,
             md_event_id = last_event_id_of (d_events d), md_sha_hash = format_hash (last_event_hash_of (d_events d)) True\<rparr>,
           dd_electoral_districts = electoral_districts_from v (fcl_list full) e,
           dd_detailed_candidates = detailed,
           dd_previously_seated = was_previously_seated g,
           dd_list_designation = (case pg_list_designation g of None \<Rightarrow> list_designation_default | Some ld \<Rightarrow> ld),
           dd_list_submitter = submitter,
           dd_substitute_submitters = map model_person_of_submitter (d_substitute_submitters d),
           dd_name_authorisations = auths, dd_nomination = nomination_xml\<rparr>))))))))"

definition from_store_and_context ::
  "problem_env \<Rightarrow> election_env \<Rightarrow> eml_env \<Rightarrow> pg_store_data \<Rightarrow> election_config \<Rightarrow> model_locale \<Rightarrow> (document_data list \<times> rstring) result" where
  "from_store_and_context env v en d e loc =
    (let list_ids = map cl_id (get_candidate_lists d) in
     case list_ids of
       [] \<Rightarrow> Err (IncompleteData (lit ''No candidate lists''))
     | first # _ \<Rightarrow>
        bind_res (if length list_ids = 1
            then bind_res (document_data_new env v en d e first loc) (\<lambda>b. Ok [b\<lparr>dd_folder_name := None\<rparr>])
            else collect_res (\<lambda>i. document_data_new env v en d e i loc) list_ids)
          (\<lambda>bundles. Ok (bundles, archive_filename v (hd bundles))))"

subsection \<open>The archive\<close>

datatype document = DocH1 | DocH3 | DocH4 | DocH9 detailed_candidate | DocH9Bundle "detailed_candidate list" | DocNomination "byte list"

definition h1_filename :: "document_data \<Rightarrow> rstring" where
  "h1_filename b = (case md_locale (dd_model_data b) of
     Nl \<Rightarrow> lit ''h1-kandidatenlijst.pdf'' | Fry \<Rightarrow> lit ''h1-kandidatelist.pdf'')"

definition h3_filename :: "document_data \<Rightarrow> rstring" where
  "h3_filename b = (case (md_locale (dd_model_data b), dd_list_designation b) of
      (Nl, Combined _) \<Rightarrow> lit ''h3-2-samengevoegde-aanduiding.pdf''
    | (Fry, Combined _) \<Rightarrow> lit ''h3-2-gearfoege-oantsjutting.pdf''
    | (Nl, _) \<Rightarrow> lit ''h3-1-aanduiding.pdf''
    | (Fry, _) \<Rightarrow> lit ''h3-1-oantsjutting.pdf'')"

definition h4_filename :: "document_data \<Rightarrow> rstring" where
  "h4_filename b = (case md_locale (dd_model_data b) of
     Nl \<Rightarrow> lit ''h4-ondersteuningsverklaring.pdf'' | Fry \<Rightarrow> lit ''h4-stipeferklearring.pdf'')"

definition h9_filename :: "detailed_candidate \<Rightarrow> rstring" where
  "h9_filename c = lit ''h9-'' @ nat_text (mc_position (dc_candidate c)) @ lit ''-''
     @ slugify_teletex (mc_last_name (dc_candidate c)) True @ lit ''.pdf''"

definition h9_folder :: "document_data \<Rightarrow> rstring" where
  "h9_folder b = (case md_locale (dd_model_data b) of
     Nl \<Rightarrow> lit ''h9-instemmingsverklaringen'' | Fry \<Rightarrow> lit ''h9-ynstimmingsferklearrings'')"

definition zip_path :: "document_data \<Rightarrow> rstring \<Rightarrow> rstring" where
  "zip_path b relative_path = (case dd_folder_name b of
     Some folder_name \<Rightarrow> folder_name @ lit ''/'' @ relative_path | None \<Rightarrow> relative_path)"

text \<open>The files one bundle contributes to the archive, in the order they are written.\<close>

definition h9_files :: "document_data \<Rightarrow> (rstring \<times> document) list" where
  "h9_files b =
     map (\<lambda>c. (zip_path b (h9_folder b @ lit ''/'' @ h9_filename c), DocH9 c)) (dd_detailed_candidates b)
     @ (if dd_detailed_candidates b \<noteq> [] then [(zip_path b (h9_folder b @ lit ''.pdf''), DocH9Bundle (dd_detailed_candidates b))] else [])"

definition zip_files :: "document_data \<Rightarrow> (rstring \<times> document) list" where
  "zip_files b =
     [(zip_path b (h1_filename b), DocH1)]
     @ (if dd_list_designation b \<noteq> Blank then [(zip_path b (h3_filename b), DocH3)] else [])
     @ (if \<not> dd_previously_seated b then [(zip_path b (h4_filename b), DocH4)] else [])
     @ h9_files b
     @ [(zip_path b (lit ''eml210.eml.xml''), DocNomination (dd_nomination b))]"

text \<open>\<open>write_zip\<close>: the files are rendered and added one by one until one fails.\<close>

fun write_files :: "(document \<Rightarrow> byte list result) \<Rightarrow> (rstring \<times> document) list \<Rightarrow> (rstring \<times> byte list) list \<times> unit result" where
  "write_files render [] = ([], Ok ())"
| "write_files render ((path, doc) # fs) = (case render doc of
     Inl e \<Rightarrow> ([], Err e)
   | Inr bytes \<Rightarrow> (case write_files render fs of (written, r) \<Rightarrow> ((path, bytes) # written, r)))"

definition write_zip :: "(document_data \<Rightarrow> document \<Rightarrow> byte list result) \<Rightarrow> document_data \<Rightarrow> (rstring \<times> byte list) list \<times> unit result" where
  "write_zip render b = write_files (render b) (zip_files b)"

text \<open>The streaming task of \<open>to_zip_response\<close>: the response has been sent, so a failure only cuts
  the archive short.\<close>

fun to_zip_response :: "(document_data \<Rightarrow> document \<Rightarrow> byte list result) \<Rightarrow> document_data list \<Rightarrow> (rstring \<times> byte list) list \<times> bool" where
  "to_zip_response render [] = ([], True)"
| "to_zip_response render (b # bs) = (case write_zip render b of
     (written, Inl _) \<Rightarrow> (written, False)
   | (written, Inr _) \<Rightarrow> (case to_zip_response render bs of (rest, finished) \<Rightarrow> (written @ rest, finished)))"

subsection \<open>The requests\<close>

definition has_event_hash :: "pg_store_data \<Rightarrow> event_hash_prefix \<Rightarrow> bool" where
  "has_event_hash d prefix = (\<not> is_genesis prefix \<and> list_ex (\<lambda>e. prefix_matches prefix (se_hash e)) (d_events d))"

definition event_hash_matches :: "pg_store_data \<Rightarrow> nat \<Rightarrow> event_hash_prefix \<Rightarrow> bool" where
  "event_hash_matches d i prefix = (\<not> is_genesis prefix
     \<and> list_ex (\<lambda>e. se_event_id e = i \<and> prefix_matches prefix (se_hash e)) (d_events d))"

text \<open>A store of the group: the event is recorded by \<open>store_update\<close> before the archive is sent.\<close>

record 's doc_store =
  ds_snapshot :: "'s \<Rightarrow> pg_store_data"
  ds_update :: "pg_event \<Rightarrow> 's \<Rightarrow> 's \<times> unit result"
  ds_check_download_limit :: "'s \<Rightarrow> unit result"
  ds_paper_corrections :: bool
  ds_base :: pg_store_data

text \<open>The handle on the group's own stream, over the checks and the append of \<open>PgStore\<close>.\<close>

definition own_doc_store ::
  "('s \<Rightarrow> pg_store_data) \<Rightarrow> (pg_event \<Rightarrow> nat option \<Rightarrow> 's \<Rightarrow> 's \<times> unit result) \<Rightarrow> (nat \<Rightarrow> 's \<Rightarrow> 's)
    \<Rightarrow> int \<Rightarrow> int \<Rightarrow> timestamp \<Rightarrow> rate_limits option \<Rightarrow> list_submitter_id \<Rightarrow> ('s \<times> nat) doc_store" where
  "own_doc_store snapshot append_ev other min_utc max_utc now limits fresh =
     \<lparr>ds_snapshot = \<lambda>(s, _). snapshot s,
      ds_update = pg_update_own snapshot append_ev other min_utc max_utc now limits,
      ds_check_download_limit = \<lambda>(s, _). check_download_limit min_utc max_utc now limits (snapshot s),
      ds_paper_corrections = False, ds_base = pg_default fresh\<rparr>"

definition serve_download ::
  "'s doc_store \<Rightarrow> document_data list \<Rightarrow> rstring \<Rightarrow> rstring \<Rightarrow> 's \<Rightarrow> 's \<times> (document_data list \<times> rstring) result" where
  "serve_download st bundles filename path s =
    (case ds_update st (DownloadFile filename path) s of
       (s', Inl e) \<Rightarrow> (s', Err e)
     | (s', Inr _) \<Rightarrow> (s', Ok (bundles, filename)))"

definition gen_documents ::
  "'s doc_store \<Rightarrow> problem_env \<Rightarrow> election_env \<Rightarrow> eml_env \<Rightarrow> election_config \<Rightarrow> event_hash_prefix \<Rightarrow> model_locale \<Rightarrow> rstring
    \<Rightarrow> 's \<Rightarrow> 's \<times> (document_data list \<times> rstring) result" where
  "gen_documents st env v en e event_hash loc path s =
    (if \<not> has_event_hash (ds_snapshot st s) event_hash then (s, Err GenericNotFound)
     else let d = ds_snapshot st s in
     if \<not> models_downloadable (find_all env d e) then (s, Err NotDownloadable)
     else case ds_check_download_limit st s of
       Inl err \<Rightarrow> (s, Err err)
     | Inr _ \<Rightarrow> (case from_store_and_context env v en d e loc of
         Inl err \<Rightarrow> (s, Err err)
       | Inr (bundles, filename) \<Rightarrow> serve_download st bundles filename path s))"

definition audit_log_gen_documents ::
  "'s doc_store \<Rightarrow> problem_env \<Rightarrow> election_env \<Rightarrow> eml_env \<Rightarrow> election_config \<Rightarrow> nat \<Rightarrow> event_hash_prefix \<Rightarrow> model_locale \<Rightarrow> rstring
    \<Rightarrow> 's \<Rightarrow> 's \<times> (document_data list \<times> rstring) result" where
  "audit_log_gen_documents st env v en e event_id event_hash loc path s =
    (if ds_paper_corrections st then (s, Err Unauthorised)
     else if \<not> event_hash_matches (ds_snapshot st s) event_id event_hash then (s, Err GenericNotFound)
     else let d = pg_replay_onto (ds_base st) (d_events (ds_snapshot st s)) event_id in
     if \<not> models_downloadable (find_all env d e)
     then (s, Err (IncompleteData (lit ''Documents cannot be downloaded for this version'')))
     else case ds_check_download_limit st s of
       Inl err \<Rightarrow> (s, Err err)
     | Inr _ \<Rightarrow> (case from_store_and_context env v en d e loc of
         Inl err \<Rightarrow> (s, Err err)
       | Inr (bundles, filename) \<Rightarrow> serve_download st bundles filename path s))"

end
