(* ===== verification/Problem_Facts.thy ===== *)
theory Problem_Facts
  imports Problems Pg_Invariants
begin

text \<open>
  Facts on problem reports: what a report answers about its severities, stated once for every
  report with a highest severity, that sorting rearranges a report only, and when each part of a
  submission has an error.
\<close>

subsection \<open>Reports with a highest severity\<close>

text \<open>The trait \<open>HasSeverity\<close>: a report summarises the severities it holds by the highest.\<close>

locale severity_report =
  fixes severities :: "'a \<Rightarrow> severity set"
    and highest :: "'a \<Rightarrow> severity option"
  assumes finite_severities: "finite (severities x)"
    and highest_max: "highest x = (if severities x = {} then None else Some (Max (severities x)))"
begin

lemma all_good_iff: "is_all_good highest x \<longleftrightarrow> severities x = {}"
  by (simp add: is_all_good_def highest_max)

lemma or_higher_iff: "has_severity_or_higher highest x s \<longleftrightarrow> (\<exists>t\<in>severities x. s \<le> t)"
  using finite_severities [of x] by (auto simp: has_severity_or_higher_def highest_max Max_ge_iff)

lemma error_iff: "has_severity_or_higher highest x SevError \<longleftrightarrow> SevError \<in> severities x"
proof -
  have "t = SevError" if "SevError \<le> t" for t using that by (cases t) (simp_all add: less_eq_severity_def)
  then show ?thesis by (auto simp: or_higher_iff)
qed

end

lemma severity_info_least [simp]: "SevInfo \<le> s"
  by (simp add: less_eq_severity_def)

lemma iter_max_alt: "iter_max xs = (if set xs = {} then None else Some (Max (set xs)))"
  by (simp add: iter_max_def)

definition with_info :: "severity list \<Rightarrow> 'i list \<Rightarrow> severity set" where
  "with_info xs infos = set xs \<union> (if infos = [] then {} else {SevInfo})"

lemma iter_max_or_info:
  "(case iter_max xs of Some s \<Rightarrow> Some s | None \<Rightarrow> if infos \<noteq> [] then Some SevInfo else None) =
    (if with_info xs infos = {} then None else Some (Max (with_info xs infos)))"
proof (cases "xs = []")
  case False
  then have "max SevInfo (Max (set xs)) = Max (set xs)" by (simp add: max_def)
  then show ?thesis using False by (auto simp: iter_max_def with_info_def Max_insert)
qed (auto simp: iter_max_def with_info_def)

interpretation structure_report: severity_report
  "\<lambda>ps. with_info (map problem_severity (pr_potential ps)) (pr_info ps)" problems_highest_severity
  by unfold_locales (simp_all add: with_info_def problems_highest_severity_def iter_max_or_info [unfolded with_info_def])

interpretation full_report: severity_report
  "\<lambda>a. with_info (map problem_severity (flatten_problems a)) (ap_info a)" all_highest_severity
  by unfold_locales (simp_all add: with_info_def all_highest_severity_def iter_max_or_info [unfolded with_info_def])

interpretation general_report: severity_report
  "\<lambda>g. set (map problem_severity (general_flatten g))" general_highest_severity
  by unfold_locales (simp_all add: general_highest_severity_def iter_max_alt)

text \<open>The documents can be downloaded exactly when the report's highest severity is no error.\<close>

lemma downloadable_iff_no_error: "models_downloadable a \<longleftrightarrow> \<not> has_severity_or_higher all_highest_severity a SevError"
  by (auto simp: full_report.error_iff models_downloadable_def with_info_def list_ex_iff image_iff)

subsection \<open>Sorting\<close>

lemma mset_by_severity [simp]: "mset (by_severity ps) = mset ps"
  by (simp add: by_severity_def)

lemma entity_by_severity_simps [simp]:
  "ep_entity (entity_by_severity e) = ep_entity e"
  "ep_problems (entity_by_severity e) = by_severity (ep_problems e)"
  by (simp_all add: entity_by_severity_def)

lemma mset_entities_by_severity [simp]:
  "mset (concat (map ep_problems (map entity_by_severity es))) = mset (concat (map ep_problems es))"
  by (induction es) simp_all

lemma concat_nonempty [simp]: "concat (map ep_problems (filter (\<lambda>e. ep_problems e \<noteq> []) es)) = concat (map ep_problems es)"
  by (induction es) simp_all

lemma mset_sort_lists [simp]: "mset (concat (map ep_problems (sort_lists ls))) = mset (concat (map ep_problems ls))"
proof -
  have "mset (concat (map (filter P) xss)) + mset (concat (map (filter (\<lambda>x. \<not> P x)) xss)) = mset (concat xss)"
    for P and xss :: "potential_problem list list"
    by (induction xss) (simp_all, simp add: filter_mset_add_mset union_assoc ac_simps multiset_partition [symmetric])
  from this [of "\<lambda>p. problem_severity p = SevError" "map ep_problems ls"]
  show ?thesis unfolding sort_lists_def concat_nonempty by (simp add: comp_def)
qed

lemma mset_sorted_report: "mset (flatten_problems (sort_problems_by_severity a)) = mset (flatten_problems a)"
  by (cases "gp_list_submitter (ap_general a)")
    (simp_all add: flatten_problems_def general_flatten_def sort_problems_by_severity_def del: map_map)

lemma set_sorted_report [simp]: "set (flatten_problems (sort_problems_by_severity a)) = set (flatten_problems a)"
  using mset_sorted_report [of a] by (metis set_mset_mset)

lemma by_severity_sorted: "sorted_wrt (\<lambda>p q. problem_severity q \<le> problem_severity p) (by_severity ps)"
proof -
  have "sorted (map (\<lambda>p. 2 - severity_rank (problem_severity p)) (by_severity ps))" by (simp add: by_severity_def)
  moreover have "problem_severity q \<le> problem_severity p"
    if "2 - severity_rank (problem_severity p) \<le> 2 - severity_rank (problem_severity q)" for p q
    using that by (cases "problem_severity p"; cases "problem_severity q") (simp_all add: less_eq_severity_def)
  ultimately show ?thesis by (auto simp: sorted_map elim: sorted_wrt_mono_rel [rotated])
qed

subsection \<open>Errors of the structures\<close>

definition has_error :: "potential_problem list \<Rightarrow> bool" where
  "has_error ps = list_ex (\<lambda>p. problem_severity p = SevError) ps"

lemma has_error_simps [simp]:
  "has_error [] = False" "has_error (p # ps) \<longleftrightarrow> problem_severity p = SevError \<or> has_error ps"
  "has_error (ps @ qs) \<longleftrightarrow> has_error ps \<or> has_error qs"
  by (simp_all add: has_error_def)

lemma has_error_concat: "has_error (concat pss) \<longleftrightarrow> (\<exists>ps\<in>set pss. has_error ps)"
  by (auto simp: has_error_def list_ex_iff)

lemma has_error_iff: "has_error ps \<longleftrightarrow> (\<exists>p\<in>set ps. problem_severity p = SevError)"
  by (simp add: has_error_def list_ex_iff)

lemma downloadable_iff: "models_downloadable a \<longleftrightarrow> \<not> has_error (flatten_problems a)"
  by (simp add: models_downloadable_def has_error_def)

lemma has_error_sorted [simp]:
  "has_error (flatten_problems (sort_problems_by_severity a)) \<longleftrightarrow> has_error (flatten_problems a)"
  by (simp add: has_error_iff)

lemma pr_potential_merge [simp]: "pr_potential (problems_merge ps) = concat (map pr_potential ps)"
  by (simp add: problems_merge_def)

lemma pr_potential_empty [simp]: "pr_potential problems_empty = []"
  by (simp add: problems_empty_def)

text \<open>What a part must have for its report to be free of errors.\<close>

definition name_complete :: "full_name \<Rightarrow> bool" where
  "name_complete n = (fn_initials n \<noteq> None \<and> fn_last_name n \<noteq> [])"

fun address_complete :: "address \<Rightarrow> bool" where
  "address_complete (Dutch a) = (\<not> is_empty_or_none (da_street_name a) \<and> \<not> is_empty_or_none (da_house_number a)
     \<and> \<not> is_empty_or_none (da_postal_code a) \<and> \<not> is_empty_or_none (da_locality a))"
| "address_complete (International a) = (\<not> is_empty_or_none (ia_street_name a) \<and> \<not> is_empty_or_none (ia_house_number a)
     \<and> \<not> is_empty_or_none (ia_postal_code a) \<and> \<not> is_empty_or_none (ia_locality a) \<and> \<not> is_empty_or_none (ia_country a))"

definition submitter_complete :: "list_submitter \<Rightarrow> bool" where
  "submitter_complete s = (name_complete (ls_name s) \<and> address_complete (ls_address s))"

definition person_complete :: "person \<Rightarrow> bool" where
  "person_complete p = (name_complete (p_name p)
     \<and> (\<exists>place. pd_place_of_residence (p_personal_data p) = Some place \<and> place_as_str place \<noteq> [])
     \<and> \<not> is_empty_or_none (pd_country (p_personal_data p))
     \<and> pd_date_of_birth (p_personal_data p) \<noteq> None)"

lemma full_name_errors [simp]:
  "has_error (pr_potential (full_name_problems n SevError)) \<longleftrightarrow> \<not> name_complete n"
  "\<not> has_error (pr_potential (full_name_problems n SevWarn))"
  by (auto simp: full_name_problems_def name_complete_def)

lemma dutch_address_errors [simp]:
  "has_error (pr_potential (dutch_address_problems a SevError)) \<longleftrightarrow> \<not> address_complete (Dutch a)"
  "\<not> has_error (pr_potential (dutch_address_problems a SevWarn))"
  by (auto simp: dutch_address_problems_def dutch_address_gaps_def Let_def)

lemma address_errors [simp]:
  "has_error (pr_potential (address_problems a SevError)) \<longleftrightarrow> \<not> address_complete a"
  "\<not> has_error (pr_potential (address_problems a SevWarn))"
  by (cases a; simp; simp add: international_address_problems_def international_address_gaps_def Let_def)+

lemma submitter_errors:
  "has_error (pr_potential (submitter_problems s MainSubmitter)) \<longleftrightarrow> \<not> submitter_is_empty s \<and> \<not> submitter_complete s"
  "\<not> has_error (pr_potential (submitter_problems s SubstituteSubmitter))"
  by (auto simp: submitter_problems_def submitter_complete_def Let_def)

lemma complete_submitter_not_empty: "submitter_complete s \<Longrightarrow> \<not> submitter_is_empty s"
  by (auto simp: submitter_complete_def submitter_is_empty_def name_complete_def full_name_is_empty_def)

lemma name_authorisation_errors [simp]: "\<not> has_error (pr_potential (name_authorisation_problems na))"
  by (simp add: name_authorisation_problems_def legal_name_problems_def)

lemma political_group_errors [simp]:
  "has_error (pr_potential (political_group_problems g)) \<longleftrightarrow> pg_list_designation g \<noteq> Some Blank \<and> is_empty_or_none (pg_appellation g)"
  by (simp add: political_group_problems_def group_information_problems_def list_designation_problems_def
      appellation_problems_def previous_results_problems_def)

lemma personal_data_errors:
  "has_error (pr_potential (personal_data_problems env d election)) \<longleftrightarrow>
    (\<forall>place. pd_place_of_residence d = Some place \<longrightarrow> place_as_str place = []) \<or> is_empty_or_none (pd_country d)
    \<or> pd_date_of_birth d = None"
  by (auto simp: personal_data_problems_def split: option.splits place_of_residence.splits)

lemma representative_errors [simp]: "\<not> has_error (pr_potential (representative_problems r p))"
proof -
  have wrapped: "has_error (map RepresentativeProblem ps) \<longleftrightarrow> has_error ps" for ps by (induction ps) simp_all
  show ?thesis by (simp add: representative_problems_def wrapped Let_def split: option.split)
qed

lemma person_errors: "has_error (pr_potential (get_person_problems env d p election)) \<longleftrightarrow> \<not> person_complete p"
  by (auto simp: get_person_problems_def person_problems_def person_complete_def personal_data_errors Let_def)

subsection \<open>Errors of the report\<close>

lemma size_errors:
  "(\<exists>p. get_size_problems k n = Some p \<and> problem_severity p = SevError) \<longleftrightarrow>
    (k = None \<or> k = Some KStandalone) \<and> n > 1"
  by (cases k; cases "the k") (auto simp: get_size_problems_def)

lemma authorisation_errors [simp]: "\<not> has_error (concat (map ep_problems (fst (find_name_authorisation_problems nas))))"
  by (simp add: find_name_authorisation_problems_def has_error_concat)

lemma substitute_errors [simp]: "\<not> has_error (concat (map ep_problems (fst (find_substitute_submitter_problems d))))"
  by (simp add: find_substitute_submitter_problems_def has_error_concat submitter_errors Let_def)

lemma main_submitter_errors:
  "has_error (fst (snd (find_list_submitter_problems d))) \<or>
     has_error (case fst (find_list_submitter_problems d) of None \<Rightarrow> [] | Some s \<Rightarrow> ep_problems s)
   \<longleftrightarrow> \<not> submitter_complete (d_list_submitter d)"
proof -
  let ?s = "d_list_submitter d" and ?ps = "pr_potential (submitter_problems (d_list_submitter d) MainSubmitter)"
  have "has_error (case fst (find_list_submitter_problems d) of None \<Rightarrow> [] | Some s \<Rightarrow> ep_problems s) \<longleftrightarrow> has_error ?ps"
    by (simp add: find_list_submitter_problems_def Let_def)
  moreover have "has_error (fst (snd (find_list_submitter_problems d))) \<longleftrightarrow> submitter_is_empty ?s"
    by (simp add: find_list_submitter_problems_def Let_def)
  ultimately show ?thesis
    unfolding submitter_errors(1) using complete_submitter_not_empty [of ?s] by blast
qed

lemma set_first_seen [simp]: "set (first_seen seen xs) = set xs - set seen"
  by (induction xs arbitrary: seen) auto

lemma summary_errors:
  "has_error (summary_problems c) \<longleftrightarrow>
    cls_duplicate_districts c \<noteq> [] \<or> cl_electoral_districts (cls_list c) = [] \<or> cl_candidates (cls_list c) = []"
  by (simp add: summary_problems_def candidate_count_def)

lemma drop_candidates_errors:
  "has_error (concat (map ep_problems (drop_candidates_problems ls))) \<longleftrightarrow> has_error (concat (map ep_problems ls))"
proof -
  have "problem_severity p \<noteq> SevError" if "is_candidates_problem p" for p
    using that by (cases p) (simp_all add: is_candidates_problem_def)
  then have "has_error (filter (\<lambda>p. \<not> is_candidates_problem p) ps) \<longleftrightarrow> has_error ps" for ps
    by (auto simp: has_error_iff)
  then show ?thesis unfolding drop_candidates_problems_def concat_nonempty by (simp add: has_error_concat)
qed

text \<open>Reporting duplicate districts once hides no error.\<close>

lemma list_loop_errors:
  "has_error (concat (map ep_problems (list_problems_loop seen cs))) \<or> seen \<longleftrightarrow>
    (\<exists>c\<in>set cs. has_error (summary_problems c)) \<or> seen"
proof (induction cs arbitrary: seen)
  case (Cons c cs)
  have dup: "has_error (summary_problems c)" if "DuplicateDistricts \<in> set (summary_problems c)"
    using that by (force simp: has_error_iff)
  show ?case
  proof (cases "DuplicateDistricts \<in> set (summary_problems c)")
    case False
    with Cons [of seen] show ?thesis by (auto simp: Let_def)
  qed (use dup in \<open>auto simp: Let_def\<close>)
qed simp

section \<open>Guarantees\<close>

text \<open>
  Properties of problem reports: which submissions can be downloaded, and what sorting does to a
  report.
\<close>

text \<open>A submission is complete when

  \<^item> the group has an appellation unless its list is blank, no standalone list has more than one
    name authorisation, and the list submitter has a name and an address;
  \<^item> there are candidate lists, and each has candidates and districts of its own;
  \<^item> every candidate has a name, a place and country of residence and a date of birth.\<close>

definition group_complete :: "pg_store_data \<Rightarrow> bool" where
  "group_complete d =
    ((pg_list_designation (d_political_group d) = Some Blank \<or> \<not> is_empty_or_none (pg_appellation (d_political_group d)))
     \<and> (pg_list_designation_kind (d_political_group d) \<in> {None, Some KStandalone} \<longrightarrow> length (get_name_authorisations d) \<le> 1)
     \<and> submitter_complete (d_list_submitter d))"

definition own_districts :: "pg_store_data \<Rightarrow> candidate_list \<Rightarrow> bool" where
  "own_districts d l = (\<forall>l'\<in>set (get_candidate_lists d). cl_id l' \<noteq> cl_id l \<longrightarrow>
     set (cl_electoral_districts l) \<inter> set (cl_electoral_districts l') = {})"

definition lists_complete :: "pg_store_data \<Rightarrow> bool" where
  "lists_complete d = (\<forall>l\<in>set (get_candidate_lists d).
     cl_electoral_districts l \<noteq> [] \<and> cl_candidates l \<noteq> [] \<and> own_districts d l)"

definition candidates_complete :: "pg_store_data \<Rightarrow> bool" where
  "candidates_complete d = (\<forall>l\<in>set (get_candidate_lists d). \<forall>i\<in>set (cl_candidates l).
     \<forall>p. get_person d i = Ok p \<longrightarrow> person_complete p)"

definition submission_complete :: "pg_store_data \<Rightarrow> bool" where
  "submission_complete d = (group_complete d \<and> get_candidate_lists d \<noteq> [] \<and> lists_complete d \<and> candidates_complete d)"

lemma general_errors: "has_error (general_flatten (fst (find_general_problems d))) \<longleftrightarrow> \<not> group_complete d"
proof -
  let ?g = "d_political_group d" and ?nas = "get_name_authorisations d"
  let ?blank = "pg_list_designation_kind ?g = Some KBlank"
  let ?size = "case get_size_problems (pg_list_designation_kind ?g) (length ?nas) of None \<Rightarrow> [] | Some p \<Rightarrow> [p]"
  have "has_error ?size \<longleftrightarrow> (\<exists>p. get_size_problems (pg_list_designation_kind ?g) (length ?nas) = Some p \<and> problem_severity p = SevError)"
    by (simp split: option.split)
  then have size: "has_error ?size \<longleftrightarrow> pg_list_designation_kind ?g \<in> {None, Some KStandalone} \<and> length ?nas > 1"
    unfolding size_errors by blast
  have "has_error (general_flatten (fst (find_general_problems d))) \<longleftrightarrow>
      has_error (pr_potential (political_group_problems ?g)) \<or> (\<not> ?blank \<and> has_error ?size)
      \<or> (has_error (fst (snd (find_list_submitter_problems d)))
         \<or> has_error (case fst (find_list_submitter_problems d) of None \<Rightarrow> [] | Some s \<Rightarrow> ep_problems s))"
    unfolding find_general_problems_def Let_def prod.case_eq_if general_flatten_def
    by (cases ?blank) auto
  then show ?thesis unfolding main_submitter_errors size political_group_errors group_complete_def by auto
qed

lemma candidate_errors:
  "has_error (concat (map ep_problems (fst (find_candidate_problems env d election (candidate_list_summaries env d election)))))
    \<longleftrightarrow> \<not> candidates_complete d"
proof -
  let ?persons = "List.map_filter (\<lambda>i. res_ok (get_person d i))
    (first_seen [] (concat (map (\<lambda>c. cl_candidates (cls_list c)) (candidate_list_summaries env d election))))"
  have "p \<in> set ?persons \<longleftrightarrow> (\<exists>l\<in>set (get_candidate_lists d). \<exists>i\<in>set (cl_candidates l). get_person d i = Ok p)" for p
    unfolding set_map_filter_iff by (auto simp: candidate_list_summaries_def Let_def)
  moreover have "has_error (concat (map ep_problems (fst (find_candidate_problems env d election (candidate_list_summaries env d election)))))
      \<longleftrightarrow> (\<exists>p\<in>set ?persons. \<not> person_complete p)"
    unfolding find_candidate_problems_def Let_def fst_conv concat_nonempty by (simp add: has_error_concat person_errors)
  ultimately show ?thesis unfolding candidates_complete_def by metis
qed

lemma list_errors:
  "has_error (concat (map ep_problems (drop_candidates_problems (list_problems_loop False (candidate_list_summaries env d election)))))
    \<longleftrightarrow> \<not> lists_complete d"
proof -
  have dup: "duplicate_districts d l = [] \<longleftrightarrow> own_districts d l" for l
    by (auto simp: duplicate_districts_def filter_empty_conv districts_on_other_lists_contains own_districts_def)
  have "(\<exists>c\<in>set (candidate_list_summaries env d election). has_error (summary_problems c)) \<longleftrightarrow> \<not> lists_complete d"
    by (auto simp: candidate_list_summaries_def Let_def summary_errors dup lists_complete_def)
  then show ?thesis
    unfolding drop_candidates_errors using list_loop_errors [of False "candidate_list_summaries env d election"] by simp
qed

lemma downloadable_errors: "models_downloadable (find_all env d election) \<longleftrightarrow> submission_complete d"
proof -
  have count: "get_candidate_list_count d = 0 \<longleftrightarrow> get_candidate_lists d = []"
    by (simp add: get_candidate_list_count_def get_candidate_lists_def hm_values_def flip: length_0_conv)
  have "has_error (flatten_problems (find_all env d election)) \<longleftrightarrow>
      has_error (concat (map ep_problems (fst (find_candidate_problems env d election (candidate_list_summaries env d election)))))
      \<or> has_error (concat (map ep_problems (drop_candidates_problems (list_problems_loop False (candidate_list_summaries env d election)))))
      \<or> has_error (general_flatten (fst (find_general_problems d))) \<or> get_candidate_lists d = []"
    unfolding find_all_def Let_def prod.case_eq_if has_error_sorted
    by (simp add: flatten_problems_def find_list_problems_def count)
  then show ?thesis
    unfolding downloadable_iff candidate_errors list_errors general_errors submission_complete_def by blast
qed

text \<open>C36: The documents of a submission can be downloaded exactly when it is complete: the
  report has an error for every essential part that is missing and for nothing else.\<close>

theorem downloadable_exact: "models_downloadable (find_all env d election) \<longleftrightarrow> submission_complete d"
  by (rule downloadable_errors)

text \<open>Sorting keeps a report's problems, puts the errors of every list before the rest of its
  problems, and every other group in descending order of severity.\<close>

definition severity_descending :: "potential_problem list \<Rightarrow> bool" where
  "severity_descending ps = sorted_wrt (\<lambda>p q. problem_severity q \<le> problem_severity p) ps"

definition report_groups :: "all_problems \<Rightarrow> potential_problem list list" where
  "report_groups a = [gp_general (ap_general a), lp_general (ap_lists a)]
     @ map ep_problems (gp_name_authorisations (ap_general a)) @ map ep_problems (gp_substitute_submitters (ap_general a))
     @ map ep_problems (case gp_list_submitter (ap_general a) of None \<Rightarrow> [] | Some s \<Rightarrow> [s]) @ map ep_problems (ap_candidates a)"

lemma get_problems_for_list_sorted:
  "get_problems_for_list (sort_problems_by_severity a) i =
     filter (\<lambda>p. problem_severity p = SevError) (get_problems_for_list a i)
     @ filter (\<lambda>p. problem_severity p \<noteq> SevError) (get_problems_for_list a i)"
proof -
  have nonempty: "concat (map ep_problems (filter P (filter (\<lambda>e. ep_problems e \<noteq> []) es))) = concat (map ep_problems (filter P es))"
    for P and es :: "candidate_list entity_problems list"
    by (induction es) simp_all
  have pick: "concat (map ep_problems (filter (\<lambda>l. cl_id (ep_entity l) = i)
        (map (\<lambda>l. \<lparr>ep_entity = ep_entity l, ep_problems = filter P (ep_problems l)\<rparr>) es)))
      = filter P (concat (map ep_problems (filter (\<lambda>l. cl_id (ep_entity l) = i) es)))" for P and es :: "candidate_list entity_problems list"
    by (induction es) simp_all
  show ?thesis
    by (simp add: get_problems_for_list_def sort_problems_by_severity_def sort_lists_def nonempty pick del: filter_filter)
qed

theorem sorted_report_exact:
  "mset (flatten_problems (sort_problems_by_severity a)) = mset (flatten_problems a)
   \<and> list_all severity_descending (report_groups (sort_problems_by_severity a))
   \<and> get_problems_for_list (sort_problems_by_severity a) i =
       filter (\<lambda>p. problem_severity p = SevError) (get_problems_for_list a i)
       @ filter (\<lambda>p. problem_severity p \<noteq> SevError) (get_problems_for_list a i)"
proof -
  have "severity_descending (by_severity ps)" for ps by (simp add: severity_descending_def by_severity_sorted)
  then have "list_all severity_descending (report_groups (sort_problems_by_severity a))"
    by (auto simp: report_groups_def sort_problems_by_severity_def list_all_iff split: option.splits)
  then show ?thesis by (simp add: mset_sorted_report get_problems_for_list_sorted)
qed

end
