(* ===== verification/Document_Properties.thy ===== *)
theory Document_Properties
  imports Documents Problem_Facts
begin

text \<open>
  Properties of the download: a submission that passes the gate has all its documents, and no two
  files of the archive share a path.
\<close>

subsection \<open>The candidates of a list\<close>

lemma collect_res_total:
  "(\<And>x. x \<in> set xs \<Longrightarrow> \<exists>y. f x = Inr y) \<Longrightarrow> \<exists>ys. collect_res f xs = Inr ys"
  by (induction xs) (force simp: bind_res_eq_Inr)+

lemma get_person_listed:
  assumes "pg_inv d" "refs_ok d" "l \<in> set (get_candidate_lists d)" "i \<in> set (cl_candidates l)"
  shows "\<exists>p. get_person d i = Ok p"
  using assms by (auto simp: refs_ok_def get_candidate_lists_iff get_person_def hm_contains_def)

lemma full_candidate_list_ok:
  assumes "pg_inv d" "refs_ok d" "l \<in> set (get_candidate_lists d)"
  obtains cs where "full_candidate_list_get env d e (cl_id l) = Ok \<lparr>fcl_list = l, fcl_candidates = cs\<rparr>"
    and "map (\<lambda>c. c_position (cwp_data c)) cs = [1..<Suc (length (cl_candidates l))]"
    and "\<And>c. c \<in> set cs \<Longrightarrow> \<exists>i\<in>set (cl_candidates l). get_person d i = Ok (c_person (cwp_data c))"
proof -
  have l: "get_candidate_list d (cl_id l) = Ok l"
    using assms(1,3) by (simp add: get_candidate_lists_iff get_candidate_list_def)
  define f where "f = (\<lambda>(index, i). bind_res (get_person d i) (\<lambda>p.
        (Ok \<lparr>cwp_data = \<lparr>c_list_id = cl_id l, c_position = index + 1, c_person = p\<rparr>,
            cwp_problems = get_person_problems env d p e\<rparr> :: candidate_with_problems result)))"
  have "\<exists>y. f x = Ok y" if x: "x \<in> set (enumerate 0 (cl_candidates l))" for x
  proof -
    have "snd x \<in> set (cl_candidates l)" using x nth_mem by (fastforce simp: in_set_enumerate_eq)
    then obtain p where "get_person d (snd x) = Ok p" using get_person_listed [OF assms] by blast
    then show ?thesis by (simp add: f_def split_beta)
  qed
  then obtain cs where cs: "collect_res f (enumerate 0 (cl_candidates l)) = Ok cs" using collect_res_total by blast
  then have all2: "list_all2 (\<lambda>x y. f x = Ok y) (enumerate 0 (cl_candidates l)) cs" by (simp add: collect_res_eq_Inr)
  have len: "length cs = length (cl_candidates l)" using list_all2_lengthD [OF all2] by simp
  have nth: "c_position (cwp_data (cs ! k)) = k + 1 \<and> get_person d (cl_candidates l ! k) = Ok (c_person (cwp_data (cs ! k)))"
    if "k < length cs" for k
    using list_all2_nthD2 [OF all2 that] len that by (auto simp: f_def nth_enumerate_eq bind_res_eq_Inr dest!: sym [of _ "cs ! k"])
  show ?thesis
  proof (rule that)
    show "full_candidate_list_get env d e (cl_id l) = Ok \<lparr>fcl_list = l, fcl_candidates = cs\<rparr>"
      unfolding full_candidate_list_get_def l build_full_candidate_list_def bind_res_simps
      using cs unfolding f_def by simp
    show "map (\<lambda>c. c_position (cwp_data c)) cs = [1..<Suc (length (cl_candidates l))]"
      by (rule nth_equalityI) (simp_all add: len nth del: upt_Suc)
    show "\<exists>i\<in>set (cl_candidates l). get_person d i = Ok (c_person (cwp_data c))" if "c \<in> set cs" for c
      using that nth len by (metis in_set_conv_nth nth_mem)
  qed
qed

lemma ordered_candidates_id:
  assumes "map c_position cs = [1..<Suc n]"
  shows "ordered_candidates cs loc = (cs, collect_res (\<lambda>c. model_candidate_try_from c loc) cs)"
proof -
  have "length cs = n" using arg_cong [OF assms, of length] by simp
  then have pos: "c_position (cs ! k) = k + 1" if "k < length cs" for k
    using arg_cong [OF assms, of "\<lambda>xs. xs ! k"] that by (simp del: upt_Suc)
  have "sort_key c_position cs = cs"
    by (rule sort_key_id_if_sorted) (simp add: assms del: upt_Suc)
  moreover have "\<not> list_ex (\<lambda>(i, c). c_position c \<noteq> i + 1) (enumerate 0 cs)"
    using pos by (auto simp: list_ex_iff in_set_enumerate_eq)
  ultimately show ?thesis by (simp add: ordered_candidates_def Let_def)
qed

lemma model_candidate_ok:
  "person_complete (c_person c) \<Longrightarrow> \<exists>m. model_candidate_try_from c loc = Ok m"
  by (auto simp: person_complete_def model_candidate_try_from_def personal_data_locality_def Let_def bind_res_def split: option.splits)

lemma detailed_candidate_ok:
  assumes "person_complete (c_person c)"
  shows "\<exists>m. detailed_candidate_try_from c loc = Ok m"
  using model_candidate_ok [OF assms, of loc]
  by (auto simp: detailed_candidate_try_from_def Let_def)

lemma detailed_position:
  "detailed_candidate_try_from c loc = Ok m \<Longrightarrow> mc_position (dc_candidate m) = c_position c"
  by (auto simp: detailed_candidate_try_from_def model_candidate_try_from_def Let_def bind_res_eq_Inr split: if_splits)

subsection \<open>The gate suffices\<close>

text \<open>What the EML package is relied on for.\<close>

definition eml_accepts :: "election_env \<Rightarrow> eml_env \<Rightarrow> election_config \<Rightarrow> bool" where
  "eml_accepts v en e = ((\<forall>n>0. en_candidate_id en n) \<and> (\<forall>n. en_contest_id en (nat_text n) \<and> en_domain_id en (nat_text n))
     \<and> en_authority_id en (lit ''0000'') \<and> en_election_id en (election_id_text v en e)
     \<and> (\<forall>i. en_build_identifier en i) \<and> (\<forall>doc. en_write en doc \<noteq> None))"

lemma election_identifier_ok: "eml_accepts v en e \<Longrightarrow> \<exists>i. election_identifier_for v en e = Ok i"
  using formal_title_total [of v e Nl]
  by (cases e) (auto simp: eml_accepts_def election_identifier_for_def election_identifier_of_def full_formal_title_def
      eml_check_def Let_def)

lemma eml_list_data_ok: "eml_accepts v en e \<Longrightarrow> \<exists>ld. eml_list_data_of v en l loc = Ok ld"
  by (simp add: eml_list_data_of_def eml_accepts_def eml_check_def Let_def collect_res_ok)

lemma contest_identifier_ok:
  "eml_accepts v en e \<Longrightarrow> cl_electoral_districts l \<noteq> [] \<Longrightarrow> \<exists>c. contest_identifier v en e l = Ok c"
  by (auto simp: contest_identifier_def eml_accepts_def eml_check_def Let_def split: list.splits)

lemma nomination_candidate_ok:
  assumes "eml_accepts v en e" "0 < c_position c" "person_complete (c_person c)"
  shows "\<exists>n. nomination_candidate en c = Ok n"
  using assms by (cases "pd_country (p_personal_data (c_person c))")
    (auto simp: eml_accepts_def nomination_candidate_def eml_candidate_id_def qualifying_address_try_from_def
      person_complete_def Let_def)

lemma document_appellation_ok: "group_complete d \<Longrightarrow> \<exists>a. pg_appellation_document (d_political_group d) = Ok a"
  by (cases "pg_appellation (d_political_group d)") (auto simp: group_complete_def pg_appellation_document_def pg_is_blank_iff)

lemma list_submitter_ok: "group_complete d \<Longrightarrow> \<exists>s. complete_list_submitter d = Ok s"
  using submitter_errors(1) [of "d_list_submitter d"] complete_submitter_not_empty [of "d_list_submitter d"]
  by (auto simp: group_complete_def complete_list_submitter_def structure_report.error_iff with_info_def has_error_iff Let_def
      split: if_splits)

lemma fill_ins_ok: "group_complete d \<Longrightarrow> \<exists>as. name_authorisations_with_fill_ins d = Ok as"
  by (auto simp: group_complete_def name_authorisations_with_fill_ins_def Let_def split: option.splits list_designation_kind.splits)

lemma eml210_ok:
  assumes "eml_accepts v en e" "last_event_id_of (d_events d) < 2 ^ 64" "group_complete d"
    and "full_candidate_list_get env d e i = Ok full" "cl_electoral_districts (fcl_list full) \<noteq> []"
    and "\<And>c. c \<in> set (fcl_candidates full) \<Longrightarrow> 0 < c_position (cwp_data c) \<and> person_complete (c_person (cwp_data c))"
  shows "\<exists>xml. eml210 env v en d e i loc = Ok xml"
proof -
  obtain ld where ld: "eml_list_data_of v en (fcl_list full) loc = Ok ld" using eml_list_data_ok [OF assms(1)] by blast
  obtain ident where ident: "election_identifier_for v en e = Ok ident" using election_identifier_ok [OF assms(1)] by blast
  obtain contest where contest: "contest_identifier v en e (fcl_list full) = Ok contest"
    using contest_identifier_ok [OF assms(1,5)] by blast
  obtain a where a: "pg_appellation_document (d_political_group d) = Ok a" using document_appellation_ok [OF assms(3)] by blast
  obtain cs where cs: "collect_res (\<lambda>c. nomination_candidate en (cwp_data c)) (fcl_candidates full) = Ok cs"
    using collect_res_total [of "fcl_candidates full"] nomination_candidate_ok [OF assms(1)] assms(6) by metis
  show ?thesis
    unfolding eml210_def assms(4) ld ident contest a cs bind_res_simps
    using assms(1,2) by (auto simp: eml_accepts_def eml_check_def ok_or_def split: option.splits)
qed

definition locale_allowed :: "election_env \<Rightarrow> election_config \<Rightarrow> model_locale \<Rightarrow> bool" where
  "locale_allowed v e loc = (loc = Nl \<or> frisian_export_allowed v e)"

text \<open>What a bundle holds of its list.\<close>

definition bundle_of :: "election_env \<Rightarrow> model_locale \<Rightarrow> candidate_list \<Rightarrow> document_data \<Rightarrow> bool" where
  "bundle_of v loc l b = (dd_list_id b = cl_id l \<and> md_locale (dd_model_data b) = loc
     \<and> dd_folder_name b = Some ((case loc of Nl \<Rightarrow> lit ''kieskring'' | Fry \<Rightarrow> lit ''kiesrunte'') @ lit ''-'' @ districts_codes v l)
     \<and> map (\<lambda>c. mc_position (dc_candidate c)) (dd_detailed_candidates b) = [1..<Suc (length (cl_candidates l))])"

lemma detailed_positions:
  assumes "collect_res (\<lambda>c. detailed_candidate_try_from c loc) cs = Ok ds"
  shows "map (\<lambda>c. mc_position (dc_candidate c)) ds = map c_position cs"
proof -
  have "list_all2 (\<lambda>c m. detailed_candidate_try_from c loc = Ok m) cs ds" using assms by (simp add: collect_res_eq_Inr)
  then show ?thesis by (induction rule: list_all2_induct) (simp_all add: detailed_position)
qed

lemma document_data_ok:
  assumes "pg_inv d" "refs_ok d" "submission_complete d" "l \<in> set (get_candidate_lists d)"
    and "eml_accepts v en e" "last_event_id_of (d_events d) < 2 ^ 64" "locale_allowed v e loc"
  shows "\<exists>b. document_data_new env v en d e (cl_id l) loc = Ok b"
proof -
  have g: "group_complete d" and districts: "cl_electoral_districts l \<noteq> []"
    using assms(3,4) by (auto simp: submission_complete_def lists_complete_def)
  obtain cs where full: "full_candidate_list_get env d e (cl_id l) = Ok \<lparr>fcl_list = l, fcl_candidates = cs\<rparr>"
    and pos: "map (\<lambda>c. c_position (cwp_data c)) cs = [1..<Suc (length (cl_candidates l))]"
    and person: "\<And>c. c \<in> set cs \<Longrightarrow> \<exists>i\<in>set (cl_candidates l). get_person d i = Ok (c_person (cwp_data c))"
    using full_candidate_list_ok [OF assms(1,2,4)] by metis
  have complete: "person_complete (c_person (cwp_data c))" if "c \<in> set cs" for c
    using person [OF that] assms(3,4) by (auto simp: submission_complete_def candidates_complete_def)
  have "0 < c_position (cwp_data c)" if "c \<in> set cs" for c
  proof -
    have "c_position (cwp_data c) \<in> set (map (\<lambda>c. c_position (cwp_data c)) cs)" using that by simp
    then show ?thesis unfolding pos by (simp del: upt_Suc)
  qed
  then obtain xml where xml: "eml210 env v en d e (cl_id l) loc = Ok xml"
    using eml210_ok [OF assms(5,6) g full] districts complete by (metis full_candidate_list.select_convs)
  have complete': "person_complete (c_person c)" if "c \<in> set (map cwp_data cs)" for c using that complete by auto
  obtain ms where ms: "collect_res (\<lambda>c. model_candidate_try_from c loc) (map cwp_data cs) = Ok ms"
    using collect_res_total [of "map cwp_data cs" "\<lambda>c. model_candidate_try_from c loc"] model_candidate_ok complete' by metis
  obtain ds where ds: "collect_res (\<lambda>c. detailed_candidate_try_from c loc) (map cwp_data cs) = Ok ds"
    using collect_res_total [of "map cwp_data cs" "\<lambda>c. detailed_candidate_try_from c loc"] detailed_candidate_ok complete' by metis
  obtain a s nas where parts: "pg_appellation_document (d_political_group d) = Ok a" "complete_list_submitter d = Ok s"
      "name_authorisations_with_fill_ins d = Ok nas"
    using document_appellation_ok [OF g] list_submitter_ok [OF g] fill_ins_ok [OF g] by blast
  have ordered: "ordered_candidates (map cwp_data cs) loc = (map cwp_data cs, Ok ms)"
    using ordered_candidates_id [of "map cwp_data cs"] pos ms by (simp add: comp_def)
  have "\<not> (\<not> frisian_export_allowed v e \<and> loc = Fry)" using assms(7) by (auto simp: locale_allowed_def)
  then show ?thesis
    unfolding document_data_new_def full bind_res_simps full_candidate_list.select_convs ordered Let_def prod.case ds parts xml
    by simp
qed

lemma document_data_bundle:
  assumes "pg_inv d" "refs_ok d" "l \<in> set (get_candidate_lists d)" "document_data_new env v en d e (cl_id l) loc = Ok b"
  shows "bundle_of v loc l b"
proof -
  obtain cs where full: "full_candidate_list_get env d e (cl_id l) = Ok \<lparr>fcl_list = l, fcl_candidates = cs\<rparr>"
    and pos: "map (\<lambda>c. c_position (cwp_data c)) cs = [1..<Suc (length (cl_candidates l))]"
    using full_candidate_list_ok [OF assms(1-3)] by metis
  have ordered: "ordered_candidates (map cwp_data cs) loc = (map cwp_data cs, collect_res (\<lambda>c. model_candidate_try_from c loc) (map cwp_data cs))"
    using ordered_candidates_id [of "map cwp_data cs"] pos by (simp add: comp_def)
  obtain ds where ds: "collect_res (\<lambda>c. detailed_candidate_try_from c loc) (map cwp_data cs) = Ok ds" "dd_detailed_candidates b = ds"
    and rest: "dd_list_id b = cl_id l" "md_locale (dd_model_data b) = loc"
      "dd_folder_name b = Some ((case loc of Nl \<Rightarrow> lit ''kieskring'' | Fry \<Rightarrow> lit ''kiesrunte'') @ lit ''-'' @ districts_codes v l)"
    using assms(4) unfolding document_data_new_def full bind_res_simps full_candidate_list.select_convs ordered Let_def prod.case
    by (auto simp: bind_res_eq_Inr split: if_splits)
  then show ?thesis using detailed_positions [OF ds(1)] pos by (simp add: bundle_of_def comp_def)
qed

text \<open>The bundles a successful collection makes: one per list, in order, in a folder of its own
  unless there is only one.\<close>

lemma from_store_and_context_bundles:
  assumes "pg_inv d" "refs_ok d" "from_store_and_context env v en d e loc = Ok (bundles, filename)"
  shows "(\<exists>l b. get_candidate_lists d = [l] \<and> bundle_of v loc l b \<and> bundles = [b\<lparr>dd_folder_name := None\<rparr>])
    \<or> list_all2 (bundle_of v loc) (get_candidate_lists d) bundles"
proof -
  let ?new = "\<lambda>i. document_data_new env v en d e i loc"
  obtain l ls where ls: "get_candidate_lists d = l # ls"
    using assms(3) by (cases "get_candidate_lists d") (auto simp: from_store_and_context_def Let_def)
  show ?thesis
  proof (cases ls)
    case Nil
    then obtain b where b: "?new (cl_id l) = Ok b" "bundles = [b\<lparr>dd_folder_name := None\<rparr>]"
      using assms(3) ls by (auto simp: from_store_and_context_def bind_res_eq_Inr)
    then have "bundle_of v loc l b" using document_data_bundle [OF assms(1,2) _ b(1)] ls by simp
    then show ?thesis using b(2) ls Nil by blast
  next
    case (Cons l' ls')
    then have "collect_res ?new (map cl_id (get_candidate_lists d)) = Ok bundles"
      using assms(3) ls by (auto simp: from_store_and_context_def bind_res_eq_Inr simp del: collect_res.simps)
    then have "list_all2 (\<lambda>l b. ?new (cl_id l) = Ok b) (get_candidate_lists d) bundles"
      unfolding collect_res_eq_Inr list_all2_map1 .
    then have "list_all2 (bundle_of v loc) (get_candidate_lists d) bundles"
      by (rule list.rel_mono_strong) (rule document_data_bundle [OF assms(1,2)])
    then show ?thesis ..
  qed
qed

lemma documents_build:
  assumes "pg_inv d" "refs_ok d" "submission_complete d"
    and "eml_accepts v en e" "last_event_id_of (d_events d) < 2 ^ 64" "locale_allowed v e loc"
  shows "\<exists>bundles. from_store_and_context env v en d e loc = Ok (bundles, archive_filename v (hd bundles))"
proof -
  have new: "\<exists>b. document_data_new env v en d e (cl_id l) loc = Ok b" if "l \<in> set (get_candidate_lists d)" for l
    using document_data_ok [OF assms(1-3) that assms(4-6)] .
  obtain l ls where ls: "get_candidate_lists d = l # ls"
    using assms(3) by (cases "get_candidate_lists d") (auto simp: submission_complete_def)
  show ?thesis
  proof (cases ls)
    case Nil
    then show ?thesis using new [of l] ls by (auto simp: from_store_and_context_def Let_def)
  next
    case (Cons l' ls')
    have "\<exists>bs. collect_res (\<lambda>i. document_data_new env v en d e i loc) (map cl_id (get_candidate_lists d)) = Ok bs"
      by (rule collect_res_total) (use new in auto)
    then show ?thesis using ls Cons by (auto simp: from_store_and_context_def Let_def simp del: collect_res.simps)
  qed
qed

text \<open>C37: When the problem report lets a submission be downloaded, its documents can be made: one
  bundle per candidate list with the candidates numbered from one without a hole, for every state
  a group's events lead to and any language the election allows, unless the EML package itself
  refuses.\<close>

theorem downloadable_documents_build:
  assumes "pg_inv d" "refs_ok d" "models_downloadable (find_all env d e)"
    and "eml_accepts v en e" "last_event_id_of (d_events d) < 2 ^ 64" "locale_allowed v e loc"
  shows "\<exists>bundles. from_store_and_context env v en d e loc = Ok (bundles, archive_filename v (hd bundles))
    \<and> map dd_list_id bundles = map cl_id (get_candidate_lists d)
    \<and> list_all (\<lambda>(l, b). map (\<lambda>c. mc_position (dc_candidate c)) (dd_detailed_candidates b) = [1..<Suc (length (cl_candidates l))])
        (zip (get_candidate_lists d) bundles)"
proof -
  obtain bundles where bundles: "from_store_and_context env v en d e loc = Ok (bundles, archive_filename v (hd bundles))"
    using documents_build [OF assms(1,2) _ assms(4-6)] assms(3) downloadable_errors by blast
  have "list_all2 (\<lambda>l b. dd_list_id b = cl_id l
      \<and> map (\<lambda>c. mc_position (dc_candidate c)) (dd_detailed_candidates b) = [1..<Suc (length (cl_candidates l))])
      (get_candidate_lists d) bundles"
    using from_store_and_context_bundles [OF assms(1,2) bundles]
  proof (elim disjE exE conjE)
    assume "list_all2 (bundle_of v loc) (get_candidate_lists d) bundles"
    then show ?thesis by (rule list.rel_mono_strong) (auto simp: bundle_of_def)
  qed (simp add: bundle_of_def)
  then have "map dd_list_id bundles = map cl_id (get_candidate_lists d)"
    and "list_all (\<lambda>(l, b). map (\<lambda>c. mc_position (dc_candidate c)) (dd_detailed_candidates b) = [1..<Suc (length (cl_candidates l))])
        (zip (get_candidate_lists d) bundles)"
    by (auto simp: list_all2_conv_all_nth list_all_length intro: nth_equalityI)
  then show ?thesis using bundles by blast
qed

subsection \<open>An example\<close>

text \<open>A group with two lists, one candidate on both.\<close>

definition sample_name :: full_name where
  "sample_name = \<lparr>fn_first_name = None, fn_last_name = lit ''Jansen'', fn_last_name_prefix = None, fn_initials = Some (lit ''J.'')\<rparr>"

definition sample_address :: dutch_address where
  "sample_address = \<lparr>da_street_name = Some (lit ''Straat''), da_house_number = Some (lit ''1''), da_house_number_addition = None,
     da_locality = Some (lit ''Utrecht''), da_postal_code = Some (lit ''1234AB''), da_known_in_bag = None\<rparr>"

definition sample_person :: person where
  "sample_person = \<lparr>p_id = PersonId 1, p_name = sample_name,
     p_personal_data = \<lparr>pd_gender = None, pd_bsn = None, pd_date_of_birth = Some 0,
       pd_place_of_residence = Some (Known (lit ''Utrecht'')), pd_country = Some (lit ''NL'')\<rparr>,
     p_address = sample_address, p_representative = None, p_updated_at = 0\<rparr>"

definition sample_list :: "uuid \<Rightarrow> electoral_district \<Rightarrow> candidate_list" where
  "sample_list i district = \<lparr>cl_id = CandidateListId i, cl_electoral_districts = [district], cl_candidates = [PersonId 1], cl_created_at = 0\<rparr>"

definition sample_submission :: pg_store_data where
  "sample_submission = \<lparr>d_political_group = \<lparr>pg_appellation = Some (lit ''Partij''), pg_list_designation = None,
       pg_previous_election_results = None\<rparr>,
     d_persons = [(PersonId 1, sample_person)],
     d_candidate_lists = [(CandidateListId 1, sample_list 1 0), (CandidateListId 2, sample_list 2 1)],
     d_name_authorisations = [],
     d_list_submitter = \<lparr>ls_id = ListSubmitterId 1, ls_name = sample_name, ls_address = Dutch sample_address\<rparr>,
     d_substitute_submitters = [], d_events = []\<rparr>"

definition sample_problem_env :: problem_env where
  "sample_problem_env = \<lparr>pe_years_since = \<lambda>_. None, pe_eligible_date_of_birth = \<lambda>_. 0\<rparr>"

definition sample_election_env :: election_env where
  "sample_election_env = \<lparr>ee_domains = \<lparr>province_code = nat_text, province_from_code = \<lambda>_. None, water_council_code = nat_text,
       water_council_from_code = \<lambda>_. None\<rparr>,
     ee_province_title = nat_text, ee_water_council_title = nat_text, ee_province_number = id, ee_water_council_number = id,
     ee_province_seats = \<lambda>_. 43, ee_water_council_seats = \<lambda>_. 26, ee_frisian_province = \<lambda>_. False, ee_frisian_water_council = \<lambda>_. False,
     ee_ek_districts = [0, 1, 2], ee_ps_districts = \<lambda>_. [0], ee_ws_districts = \<lambda>_. [0],
     ee_district_title = nat_text, ee_district_code = nat_text, ee_region_number = id, ee_lowercase = map to_ascii_lowercase\<rparr>"

definition sample_eml_env :: eml_env where
  "sample_eml_env = \<lparr>en_category_text = \<lambda>_. lit ''EK'', en_candidate_id = \<lambda>n. n > 0, en_contest_id = \<lambda>_. True, en_authority_id = \<lambda>_. True,
     en_election_id = \<lambda>_. True, en_domain_id = \<lambda>_. True, en_build_identifier = \<lambda>_. True, en_write = \<lambda>_. Some []\<rparr>"

lemma sample_lists: "get_candidate_lists sample_submission = [sample_list 1 0, sample_list 2 1]"
  by (simp add: get_candidate_lists_def sample_submission_def hm_values_def sample_list_def)

lemma sample_inv: "pg_inv sample_submission" "refs_ok sample_submission"
  by (auto simp: pg_inv_def refs_ok_def sample_submission_def hm_ok_def keyed_def hm_get_def hm_contains_def sample_person_def
      sample_list_def split: if_splits)

lemma sample_person_complete: "person_complete sample_person"
  by (simp add: person_complete_def name_complete_def sample_person_def sample_name_def lit_def)

lemma sample_complete: "submission_complete sample_submission"
proof -
  have "group_complete sample_submission"
    by (simp add: group_complete_def sample_submission_def submitter_complete_def name_complete_def sample_name_def sample_address_def
        get_name_authorisations_def hm_values_def lit_def)
  moreover have "lists_complete sample_submission"
    by (simp add: lists_complete_def own_districts_def sample_lists sample_list_def)
  moreover have "candidates_complete sample_submission"
    unfolding candidates_complete_def sample_lists
    by (simp add: sample_list_def get_person_def sample_submission_def hm_get_def sample_person_complete)
  ultimately show ?thesis by (simp add: submission_complete_def sample_lists)
qed

lemma sample_accepts: "eml_accepts sample_election_env sample_eml_env EK27" "locale_allowed sample_election_env EK27 Nl"
  "last_event_id_of (d_events sample_submission) < 2 ^ 64"
  by (simp_all add: eml_accepts_def sample_eml_env_def locale_allowed_def last_event_id_of_def sample_submission_def)

theorem downloadable_documents_build_witness:
  "\<exists>bundles. from_store_and_context sample_problem_env sample_election_env sample_eml_env sample_submission EK27 Nl =
      Ok (bundles, archive_filename sample_election_env (hd bundles))
    \<and> map dd_list_id bundles = [CandidateListId 1, CandidateListId 2]"
proof -
  have "map cl_id (get_candidate_lists sample_submission) = [CandidateListId 1, CandidateListId 2]"
    by (simp add: sample_lists sample_list_def)
  then show ?thesis
    using downloadable_documents_build [OF sample_inv iffD2 [OF downloadable_errors sample_complete] sample_accepts(1,3,2),
        of sample_problem_env] by metis
qed

end
