(* ===== verification/Archive_Properties.thy ===== *)
theory Archive_Properties
  imports Document_Properties
begin

text \<open>
  The archive of a download: every file has a path of its own, file names are safe, and what the
  requests record.
\<close>

subsection \<open>Paths within a bundle\<close>

definition relative_paths :: "document_data \<Rightarrow> rstring list" where
  "relative_paths b = [h1_filename b] @ (if dd_list_designation b \<noteq> Blank then [h3_filename b] else [])
     @ (if \<not> dd_previously_seated b then [h4_filename b] else [])
     @ map (\<lambda>c. h9_folder b @ lit ''/'' @ h9_filename c) (dd_detailed_candidates b)
     @ (if dd_detailed_candidates b \<noteq> [] then [h9_folder b @ lit ''.pdf''] else []) @ [lit ''eml210.eml.xml'']"

lemma paths_zip_files: "map fst (zip_files b) = map (zip_path b) (relative_paths b)"
  by (simp add: zip_files_def h9_files_def relative_paths_def comp_def)

lemma inj_zip_path: "inj (zip_path b)"
  by (auto simp: inj_def zip_path_def split: option.splits)

lemma prefix_before_eqD: "x @ c # y = x' @ c # y' \<Longrightarrow> c \<notin> set x \<Longrightarrow> c \<notin> set x' \<Longrightarrow> x = x'"
proof (induction x arbitrary: x')
  case Nil
  then show ?case by (cases x') auto
next
  case (Cons a x)
  then show ?case by (cases x') auto
qed

lemma h9_filename_inj:
  assumes "h9_filename c = h9_filename c'"
  shows "mc_position (dc_candidate c) = mc_position (dc_candidate c')"
proof -
  have digits: "45 \<notin> set (nat_text n)" for n using nat_text_digits [of 45 n] by (auto simp: is_ascii_digit_def)
  have "nat_text (mc_position (dc_candidate c)) @ 45 # slugify_teletex (mc_last_name (dc_candidate c)) True @ lit ''.pdf''
      = nat_text (mc_position (dc_candidate c')) @ 45 # slugify_teletex (mc_last_name (dc_candidate c')) True @ lit ''.pdf''"
    using assms by (simp add: h9_filename_def lit_def del: append_same_eq)
  then have "nat_text (mc_position (dc_candidate c)) = nat_text (mc_position (dc_candidate c'))"
    by (rule prefix_before_eqD) (rule digits)+
  then show ?thesis by (rule nat_text_inj)
qed

text \<open>The first two characters of a file name tell which document it is.\<close>

lemma file_heads:
  "take 2 (h1_filename b) = lit ''h1''" "take 2 (h3_filename b) = lit ''h3''" "take 2 (h4_filename b) = lit ''h4''"
  "take 2 (h9_folder b @ x) = lit ''h9''" "take 2 (lit ''eml210.eml.xml'') = lit ''em''"
  by (simp_all add: h1_filename_def h3_filename_def h4_filename_def h9_folder_def lit_def
      split: model_locale.split list_designation.split)

lemma file_names_differ:
  "h1_filename b \<noteq> h3_filename b" "h1_filename b \<noteq> h4_filename b" "h1_filename b \<noteq> h9_folder b @ x" "h1_filename b \<noteq> lit ''eml210.eml.xml''"
  "h3_filename b \<noteq> h4_filename b" "h3_filename b \<noteq> h9_folder b @ x" "h3_filename b \<noteq> lit ''eml210.eml.xml''"
  "h4_filename b \<noteq> h9_folder b @ x" "h4_filename b \<noteq> lit ''eml210.eml.xml''" "h9_folder b @ x \<noteq> lit ''eml210.eml.xml''"
  by (rule notI, drule arg_cong [of _ _ "take 2"], unfold file_heads, simp add: lit_def)+

lemma distinct_relative_paths:
  assumes "distinct (map (\<lambda>c. mc_position (dc_candidate c)) (dd_detailed_candidates b))"
  shows "distinct (relative_paths b)"
proof -
  have inj: "inj_on (\<lambda>c. h9_folder b @ lit ''/'' @ h9_filename c) (set (dd_detailed_candidates b))"
  proof (rule inj_onI)
    fix c c'
    assume "c \<in> set (dd_detailed_candidates b)" "c' \<in> set (dd_detailed_candidates b)"
      and "h9_folder b @ lit ''/'' @ h9_filename c = h9_folder b @ lit ''/'' @ h9_filename c'"
    then show "c = c'" using h9_filename_inj [of c c'] assms by (auto simp: distinct_map dest: inj_onD)
  qed
  have h9: "distinct (map (\<lambda>c. h9_folder b @ lit ''/'' @ h9_filename c) (dd_detailed_candidates b))"
    using inj assms by (simp add: distinct_map)
  have slash: "lit ''/'' @ x \<noteq> lit ''.pdf''" "lit ''.pdf'' \<noteq> lit ''/'' @ x" for x by (simp_all add: lit_def)
  show ?thesis
    using h9 unfolding relative_paths_def
    by (auto simp: file_names_differ file_names_differ [symmetric] slash)
qed

subsection \<open>Paths across bundles\<close>

lemma bundle_distinct_positions:
  "bundle_of v loc l b \<Longrightarrow> distinct (map (\<lambda>c. mc_position (dc_candidate c)) (dd_detailed_candidates b))"
  by (simp add: bundle_of_def del: upt_Suc)

lemma distinct_bundle: "distinct (map (\<lambda>c. mc_position (dc_candidate c)) (dd_detailed_candidates b)) \<Longrightarrow> distinct (map fst (zip_files b))"
  unfolding paths_zip_files using distinct_relative_paths inj_zip_path by (simp add: distinct_map inj_on_def inj_def)

lemma bundle_path_prefix:
  assumes "bundle_of v loc l b" "path \<in> set (map fst (zip_files b))"
  obtains rest where "path = (case loc of Nl \<Rightarrow> lit ''kieskring'' | Fry \<Rightarrow> lit ''kiesrunte'') @ lit ''-'' @ districts_codes v l @ lit ''/'' @ rest"
  using assms unfolding paths_zip_files by (auto simp: bundle_of_def zip_path_def)

lemma bundles_disjoint:
  assumes "bundle_of v loc l b" "bundle_of v loc l' b'" "district_codes_ok v e" "in_election v e l" "in_election v e l'"
    and "cl_electoral_districts l \<noteq> []" "set (cl_electoral_districts l) \<inter> set (cl_electoral_districts l') = {}"
    and "cl_electoral_districts l' \<noteq> []"
  shows "set (map fst (zip_files b)) \<inter> set (map fst (zip_files b')) = {}"
proof (rule ccontr)
  assume "\<not> ?thesis"
  then obtain path where p: "path \<in> set (map fst (zip_files b))" "path \<in> set (map fst (zip_files b'))" by blast
  obtain r where "path = (case loc of Nl \<Rightarrow> lit ''kieskring'' | Fry \<Rightarrow> lit ''kiesrunte'') @ lit ''-'' @ districts_codes v l @ lit ''/'' @ r"
    using bundle_path_prefix [OF assms(1) p(1)] by metis
  moreover obtain r' where "path = (case loc of Nl \<Rightarrow> lit ''kieskring'' | Fry \<Rightarrow> lit ''kiesrunte'') @ lit ''-'' @ districts_codes v l' @ lit ''/'' @ r'"
    using bundle_path_prefix [OF assms(2) p(2)] by metis
  ultimately have "districts_codes v l @ 47 # r = districts_codes v l' @ 47 # r'" by (simp add: lit_def)
  then have "districts_codes v l = districts_codes v l'"
    using districts_codes_no_slash assms(3-5) by (blast intro: prefix_before_eqD)
  then have "cl_electoral_districts l = cl_electoral_districts l'" using districts_codes_eqD assms by metis
  then show False using assms(6,7) by auto
qed

lemma distinct_concat_pairwise:
  "(\<And>x. x \<in> set xs \<Longrightarrow> distinct (f x)) \<Longrightarrow> sorted_wrt (\<lambda>x y. set (f x) \<inter> set (f y) = {}) xs \<Longrightarrow> distinct (concat (map f xs))"
  by (induction xs) auto

lemma own_districts_disjoint:
  assumes "pg_inv d" "submission_complete d" "l \<in> set (get_candidate_lists d)" "l' \<in> set (get_candidate_lists d)" "l \<noteq> l'"
  shows "set (cl_electoral_districts l) \<inter> set (cl_electoral_districts l') = {}"
proof -
  have "cl_id l' \<noteq> cl_id l" using assms(1,3-5) by (auto simp: get_candidate_lists_iff)
  then show ?thesis using assms(2-4) by (auto simp: submission_complete_def lists_complete_def own_districts_def)
qed

lemma distinct_get_candidate_lists: "pg_inv d \<Longrightarrow> distinct (get_candidate_lists d)"
proof -
  assume inv: "pg_inv d"
  then have "map cl_id (hm_values (d_candidate_lists d)) = map fst (d_candidate_lists d)"
    by (auto simp: pg_inv_def hm_ok_def hm_values_def keyed_def hm_get_def)
  then have "distinct (map cl_id (hm_values (d_candidate_lists d)))" using inv by (simp add: pg_inv_def hm_ok_def)
  then show ?thesis unfolding get_candidate_lists_def by (simp add: distinct_map)
qed

text \<open>C38: No two files of the archive of a downloadable submission have the same path, so none is
  overwritten when it is unpacked: candidates' consent forms are told apart by position, documents
  by name, and lists by the codes of their districts.\<close>

theorem archive_paths_distinct:
  assumes "pg_inv d" "refs_ok d" "models_downloadable (find_all env d e)"
    and "district_codes_ok v e" "\<forall>l\<in>set (get_candidate_lists d). in_election v e l"
    and "from_store_and_context env v en d e loc = Ok (bundles, filename)"
  shows "distinct (map fst (concat (map zip_files bundles)))"
proof -
  have complete: "submission_complete d" using assms(3) downloadable_errors by simp
  have districts: "cl_electoral_districts l \<noteq> []" if "l \<in> set (get_candidate_lists d)" for l
    using complete that by (auto simp: submission_complete_def lists_complete_def)
  consider (one) l b where "bundle_of v loc l b" "bundles = [b\<lparr>dd_folder_name := None\<rparr>]"
    | (several) "list_all2 (bundle_of v loc) (get_candidate_lists d) bundles"
    using from_store_and_context_bundles [OF assms(1,2,6)] by blast
  then show ?thesis
  proof cases
    case one
    then show ?thesis using distinct_bundle [of "b\<lparr>dd_folder_name := None\<rparr>"] bundle_distinct_positions by simp
  next
    case several
    let ?ls = "get_candidate_lists d"
    have held: "bundle_of v loc (?ls ! i) (bundles ! i)" if "i < length bundles" for i
      using several that by (auto simp: list_all2_conv_all_nth)
    have len: "length bundles = length ?ls" using list_all2_lengthD [OF several] by simp
    have "set (map fst (zip_files (bundles ! i))) \<inter> set (map fst (zip_files (bundles ! j))) = {}" if "i < j" "j < length bundles" for i j
    proof -
      have mem: "?ls ! i \<in> set ?ls" "?ls ! j \<in> set ?ls" using that len by simp_all
      have "?ls ! i \<noteq> ?ls ! j" using distinct_get_candidate_lists [OF assms(1)] that len by (simp add: nth_eq_iff_index_eq)
      then show ?thesis
        using bundles_disjoint [OF held held assms(4)] that mem assms(5) districts own_districts_disjoint [OF assms(1) complete]
        by simp
    qed
    then have "sorted_wrt (\<lambda>b b'. set (map fst (zip_files b)) \<inter> set (map fst (zip_files b')) = {}) bundles"
      by (simp add: sorted_wrt_iff_nth_less)
    moreover have "distinct (map fst (zip_files b))" if "b \<in> set bundles" for b
      using that held distinct_bundle bundle_distinct_positions by (metis in_set_conv_nth)
    ultimately have "distinct (concat (map (\<lambda>b. map fst (zip_files b)) bundles))"
      by (intro distinct_concat_pairwise)
    then show ?thesis by (simp add: map_concat comp_def)
  qed
qed

lemma nat_text_lowercase: "map to_ascii_lowercase (nat_text n) = nat_text n"
  using nat_text_digits by (intro map_idI) (fastforce simp: to_ascii_lowercase_def is_ascii_digit_def)

lemma sample_codes_ok: "district_codes_ok sample_election_env EK27"
proof -
  have code: "lower_code sample_election_env d = nat_text d" for d
    by (simp add: sample_election_env_def nat_text_lowercase)
  have "45 \<notin> set (nat_text d) \<and> 47 \<notin> set (nat_text d)" for d
    using nat_text_digits [of 45 d] nat_text_digits [of 47 d] by (auto simp: is_ascii_digit_def)
  then show ?thesis unfolding district_codes_ok_def code by (auto simp: inj_on_def dest: nat_text_inj)
qed

theorem archive_paths_distinct_witness:
  "\<exists>bundles filename. from_store_and_context sample_problem_env sample_election_env sample_eml_env sample_submission EK27 Nl = Ok (bundles, filename)
    \<and> distinct (map fst (concat (map zip_files bundles)))"
proof -
  obtain bundles where b: "from_store_and_context sample_problem_env sample_election_env sample_eml_env sample_submission EK27 Nl =
      Ok (bundles, archive_filename sample_election_env (hd bundles))"
    using documents_build [OF sample_inv sample_complete sample_accepts(1,3,2)] by blast
  have "\<forall>l\<in>set (get_candidate_lists sample_submission). in_election sample_election_env EK27 l"
    by (simp add: sample_lists sample_list_def in_election_def sample_election_env_def)
  then show ?thesis
    using archive_paths_distinct [OF sample_inv iffD2 [OF downloadable_errors sample_complete] sample_codes_ok _ b] b by blast
qed

subsection \<open>Requests\<close>




end
