(* ===== verification/Forms.thy ===== *)
theory Forms
  imports Values Csb_Main
begin

text \<open>
  The forms of the political group and of the committee (\<open>pg/*/forms\<close>, \<open>csb/*/forms\<close>) and
  the validation the \<open>Validate\<close> derive generates for them (\<open>validate/src/lib.rs\<close>): every field
  is read, all errors are collected under the name of their field, and only a form without
  errors yields its target, with the fields the form does not name taken from a base value.

  The parser and printer of UUIDs, \<open>chrono\<close>'s formatting and its times of day, and the lookup
  in the address register are parameters (\<open>form_env\<close>). A default id is a fresh UUID and an
  argument.
\<close>

record form_env =
  fe_values :: value_env
  fe_parse_uuid :: "rstring \<Rightarrow> uuid option"
  fe_uuid_text :: "uuid \<Rightarrow> rstring"
  fe_format_date :: "naive_date \<Rightarrow> rstring"
  fe_parse_time :: "rstring \<Rightarrow> int option"
  fe_address_exists :: "rstring \<Rightarrow> nat \<Rightarrow> rstring \<Rightarrow> rstring \<Rightarrow> bool"

type_synonym field_errors = "(rstring \<times> validation_error) list"
type_synonym 'a form_result = "field_errors + 'a"

subsection \<open>The derived validation\<close>

definition field_errs :: "'a form_result \<Rightarrow> field_errors" where
  "field_errs r = (case r of Inl es \<Rightarrow> es | Inr _ \<Rightarrow> [])"

text \<open>\<open>expect("validated field")\<close>, reached only when there are no errors.\<close>

definition the_field :: "'a form_result \<Rightarrow> 'a" where
  "the_field r = (case r of Inr a \<Rightarrow> a)"

definition unless_errors :: "field_errors \<Rightarrow> 'a \<Rightarrow> 'a form_result" where
  "unless_errors errors target = (if errors \<noteq> [] then Inl errors else Inr target)"

text \<open>\<open>parse\<close>, \<open>parse, required\<close> and \<open>parse, optional\<close>: the trimmed input through \<open>FromStr\<close>.\<close>

definition parse_field :: "rstring \<Rightarrow> (rstring \<Rightarrow> 'a validated) \<Rightarrow> rstring \<Rightarrow> 'a form_result" where
  "parse_field name from_str v = (let t = trim v in
     if t = [] then Inl [(name, ValueShouldNotBeEmpty)]
     else (case from_str t of Inr a \<Rightarrow> Inr a | Inl e \<Rightarrow> Inl [(name, e)]))"

definition parse_required :: "rstring \<Rightarrow> (rstring \<Rightarrow> 'a validated) \<Rightarrow> rstring \<Rightarrow> 'a option form_result" where
  "parse_required name from_str v = (case parse_field name from_str v of Inl es \<Rightarrow> Inl es | Inr a \<Rightarrow> Inr (Some a))"

definition parse_optional :: "rstring \<Rightarrow> (rstring \<Rightarrow> 'a validated) \<Rightarrow> rstring \<Rightarrow> 'a option form_result" where
  "parse_optional name from_str v = (let t = trim v in
     if t = [] then Inr None
     else (case from_str t of Inr a \<Rightarrow> Inr (Some a) | Inl e \<Rightarrow> Inl [(name, e)]))"

text \<open>\<open>not_empty\<close> on a collection, whose value is passed through.\<close>

definition not_empty_field :: "rstring \<Rightarrow> 'a list \<Rightarrow> field_errors" where
  "not_empty_field name v = (if v = [] then [(name, ChooseAtLeastOneOption)] else [])"

text \<open>\<open>flatten\<close>: the errors of a nested form under the name of its field.\<close>

definition flatten_field :: "rstring \<Rightarrow> 'a form_result \<Rightarrow> 'a form_result" where
  "flatten_field name r = (case r of Inr a \<Rightarrow> Inr a | Inl es \<Rightarrow> Inl (map (\<lambda>(n, e). (name @ lit ''.'' @ n, e)) es))"

text \<open>\<open>MergeErrors::merge_errors\<close>.\<close>

definition merge_errors :: "'a form_result \<Rightarrow> field_errors \<Rightarrow> 'a form_result" where
  "merge_errors r additional = (if additional = [] then r else Inl (field_errs r @ additional))"

lemma field_errs_simps [simp]: "field_errs (Inr a) = []" "field_errs (Inl es) = es"
  by (simp_all add: field_errs_def)

lemma the_field_Inr [simp]: "the_field (Inr a) = a"
  by (simp add: the_field_def)

lemma unless_errors_ok [simp]: "unless_errors es t = Inr a \<longleftrightarrow> es = [] \<and> a = t"
  by (auto simp: unless_errors_def)

lemma parse_field_ok: "parse_field n p v = Inr a \<longleftrightarrow> trim v \<noteq> [] \<and> p (trim v) = Inr a"
  by (auto simp: parse_field_def Let_def split: sum.splits)

lemma parse_field_error: "parse_field n p v \<noteq> Inl []"
  by (auto simp: parse_field_def Let_def split: sum.splits)

lemma parse_optional_ok:
  "parse_optional n p v = Inr a \<longleftrightarrow> (case a of None \<Rightarrow> trim v = [] | Some x \<Rightarrow> trim v \<noteq> [] \<and> p (trim v) = Inr x)"
  by (cases a) (auto simp: parse_optional_def Let_def split: sum.splits)

lemma parse_required_ok:
  "parse_required n p v = Inr a \<longleftrightarrow> (\<exists>x. a = Some x \<and> trim v \<noteq> [] \<and> p (trim v) = Inr x)"
  by (auto simp: parse_required_def parse_field_def Let_def split: sum.splits)

lemma flatten_field_ok [simp]: "flatten_field n r = Inr a \<longleftrightarrow> r = Inr a"
  by (auto simp: flatten_field_def split: sum.splits)

lemma flatten_field_Inr [simp]: "flatten_field n (Inr a) = Inr a"
  by simp

text \<open>A field without errors has a value.\<close>

lemma no_errs_parse [simp]:
  "field_errs (parse_field n p v) = [] \<longleftrightarrow> (\<exists>a. parse_field n p v = Inr a)"
  "field_errs (parse_optional n p v) = [] \<longleftrightarrow> (\<exists>a'. parse_optional n p v = Inr a')"
  "field_errs (parse_required n p v) = [] \<longleftrightarrow> (\<exists>a'. parse_required n p v = Inr a')"
  by (auto simp: parse_field_def parse_optional_def parse_required_def Let_def split: sum.splits)

lemma no_errs_flatten [simp]: "field_errs (flatten_field n r) = [] \<longleftrightarrow> field_errs r = []"
  by (auto simp: flatten_field_def split: sum.splits)

lemma no_errs_unless [simp]: "field_errs (unless_errors es t) = [] \<longleftrightarrow> es = []"
  by (auto simp: unless_errors_def)

lemma merge_errors_ok: "merge_errors r es = Inr a \<longleftrightarrow> es = [] \<and> r = Inr a"
  by (auto simp: merge_errors_def)

subsection \<open>Names\<close>

record minimal_name_form =
  mnf_last_name :: rstring
  mnf_last_name_prefix :: rstring
  mnf_initials :: rstring

record full_name_form =
  fnf_first_name :: rstring
  fnf_last_name :: rstring
  fnf_last_name_prefix :: rstring
  fnf_initials :: rstring

definition minimal_name_validate :: "minimal_name_form \<Rightarrow> full_name \<Rightarrow> full_name form_result" where
  "minimal_name_validate f base =
    (let last_name = parse_field (lit ''last_name'') last_name_from_str (mnf_last_name f);
         last_name_prefix = parse_optional (lit ''last_name_prefix'') last_name_prefix_from_str (mnf_last_name_prefix f);
         initials = parse_required (lit ''initials'') initials_from_str (mnf_initials f)
     in unless_errors (field_errs last_name @ field_errs last_name_prefix @ field_errs initials)
        (base\<lparr>fn_last_name := the_field last_name, fn_last_name_prefix := the_field last_name_prefix,
          fn_initials := the_field initials\<rparr>))"

definition minimal_name_form_is_empty :: "minimal_name_form \<Rightarrow> bool" where
  "minimal_name_form_is_empty f = (mnf_last_name f = [] \<and> mnf_last_name_prefix f = [] \<and> mnf_initials f = [])"

definition minimal_name_form_of :: "full_name \<Rightarrow> minimal_name_form" where
  "minimal_name_form_of n = \<lparr>mnf_last_name = fn_last_name n,
     mnf_last_name_prefix = as_str_or_empty (fn_last_name_prefix n), mnf_initials = as_str_or_empty (fn_initials n)\<rparr>"

definition full_name_validate :: "full_name_form \<Rightarrow> full_name \<Rightarrow> full_name form_result" where
  "full_name_validate f base =
    (let first_name = parse_optional (lit ''first_name'') first_name_from_str (fnf_first_name f);
         last_name = parse_field (lit ''last_name'') last_name_from_str (fnf_last_name f);
         last_name_prefix = parse_optional (lit ''last_name_prefix'') last_name_prefix_from_str (fnf_last_name_prefix f);
         initials = parse_required (lit ''initials'') initials_from_str (fnf_initials f)
     in unless_errors (field_errs first_name @ field_errs last_name @ field_errs last_name_prefix @ field_errs initials)
        (base\<lparr>fn_first_name := the_field first_name, fn_last_name := the_field last_name,
          fn_last_name_prefix := the_field last_name_prefix, fn_initials := the_field initials\<rparr>))"

definition full_name_form_of :: "full_name \<Rightarrow> full_name_form" where
  "full_name_form_of n = \<lparr>fnf_first_name = as_str_or_empty (fn_first_name n), fnf_last_name = fn_last_name n,
     fnf_last_name_prefix = as_str_or_empty (fn_last_name_prefix n), fnf_initials = as_str_or_empty (fn_initials n)\<rparr>"

subsection \<open>Addresses\<close>

record dutch_address_form =
  daf_locality :: rstring
  daf_postal_code :: rstring
  daf_house_number :: rstring
  daf_house_number_addition :: rstring
  daf_street_name :: rstring

definition dutch_address_validate :: "form_env \<Rightarrow> dutch_address_form \<Rightarrow> dutch_address \<Rightarrow> dutch_address form_result" where
  "dutch_address_validate env f base =
    (let locality = parse_optional (lit ''locality'') (locality_from_str (fe_values env)) (daf_locality f);
         postal_code = parse_optional (lit ''postal_code'') postal_code_from_str (daf_postal_code f);
         house_number = parse_optional (lit ''house_number'') house_number_from_str (daf_house_number f);
         addition = parse_optional (lit ''house_number_addition'') house_number_addition_from_str (daf_house_number_addition f);
         street_name = parse_optional (lit ''street_name'') street_name_from_str (daf_street_name f)
     in unless_errors (field_errs locality @ field_errs postal_code @ field_errs house_number @ field_errs addition
          @ field_errs street_name)
        (base\<lparr>da_locality := the_field locality, da_postal_code := the_field postal_code,
          da_house_number := the_field house_number, da_house_number_addition := the_field addition,
          da_street_name := the_field street_name\<rparr>))"

definition dutch_address_form_of :: "dutch_address \<Rightarrow> dutch_address_form" where
  "dutch_address_form_of a = \<lparr>daf_locality = as_str_or_empty (da_locality a),
     daf_postal_code = as_str_or_empty (da_postal_code a), daf_house_number = as_str_or_empty (da_house_number a),
     daf_house_number_addition = as_str_or_empty (da_house_number_addition a),
     daf_street_name = as_str_or_empty (da_street_name a)\<rparr>"

definition dutch_address_form_is_empty :: "dutch_address_form \<Rightarrow> bool" where
  "dutch_address_form_is_empty f = (daf_locality f = [] \<and> daf_postal_code f = [] \<and> daf_house_number f = []
     \<and> daf_house_number_addition f = [] \<and> daf_street_name f = [])"

record international_address_form =
  iaf_country :: rstring
  iaf_locality :: rstring
  iaf_state_or_province :: rstring
  iaf_postal_code :: rstring
  iaf_house_number :: rstring
  iaf_house_number_addition :: rstring
  iaf_street_name :: rstring

definition international_address_validate ::
  "form_env \<Rightarrow> international_address_form \<Rightarrow> international_address \<Rightarrow> international_address form_result" where
  "international_address_validate env f base =
    (let country = parse_optional (lit ''country'') (country_code_from_str (fe_values env)) (iaf_country f);
         locality = parse_optional (lit ''locality'') (locality_from_str (fe_values env)) (iaf_locality f);
         province = parse_optional (lit ''state_or_province'') state_or_province_from_str (iaf_state_or_province f);
         postal_code = parse_optional (lit ''postal_code'') international_postal_code_from_str (iaf_postal_code f);
         house_number = parse_optional (lit ''house_number'') house_number_from_str (iaf_house_number f);
         addition = parse_optional (lit ''house_number_addition'') house_number_addition_from_str (iaf_house_number_addition f);
         street_name = parse_optional (lit ''street_name'') street_name_from_str (iaf_street_name f)
     in unless_errors (field_errs country @ field_errs locality @ field_errs province @ field_errs postal_code
          @ field_errs house_number @ field_errs addition @ field_errs street_name)
        (base\<lparr>ia_country := the_field country, ia_locality := the_field locality,
          ia_state_or_province := the_field province, ia_postal_code := the_field postal_code,
          ia_house_number := the_field house_number, ia_house_number_addition := the_field addition,
          ia_street_name := the_field street_name\<rparr>))"

definition international_address_form_of :: "international_address \<Rightarrow> international_address_form" where
  "international_address_form_of a = \<lparr>iaf_country = as_str_or_empty (ia_country a),
     iaf_locality = as_str_or_empty (ia_locality a), iaf_state_or_province = as_str_or_empty (ia_state_or_province a),
     iaf_postal_code = as_str_or_empty (ia_postal_code a), iaf_house_number = as_str_or_empty (ia_house_number a),
     iaf_house_number_addition = as_str_or_empty (ia_house_number_addition a),
     iaf_street_name = as_str_or_empty (ia_street_name a)\<rparr>"

subsection \<open>Personal data\<close>

record personal_data_fields_form =
  pdf_gender :: rstring
  pdf_date_of_birth :: rstring
  pdf_bsn :: rstring
  pdf_place_of_residence :: rstring
  pdf_country :: rstring

definition personal_data_validate ::
  "form_env \<Rightarrow> personal_data_fields_form \<Rightarrow> personal_data \<Rightarrow> personal_data form_result" where
  "personal_data_validate env f base =
    (let gender = parse_optional (lit ''gender'') (gender_from_str (fe_values env)) (pdf_gender f);
         birth = parse_optional (lit ''date_of_birth'') (date_of_birth_from_str (fe_values env)) (pdf_date_of_birth f);
         bsn = parse_optional (lit ''bsn'') bsn_or_none_from_str (pdf_bsn f);
         place = parse_optional (lit ''place_of_residence'') (place_of_residence_from_str (fe_values env)) (pdf_place_of_residence f);
         country = parse_optional (lit ''country'') (country_code_from_str (fe_values env)) (pdf_country f)
     in unless_errors (field_errs gender @ field_errs birth @ field_errs bsn @ field_errs place @ field_errs country)
        (base\<lparr>pd_gender := the_field gender, pd_date_of_birth := the_field birth, pd_bsn := the_field bsn,
          pd_place_of_residence := the_field place, pd_country := the_field country\<rparr>))"

definition personal_data_fields_form_of :: "form_env \<Rightarrow> personal_data \<Rightarrow> personal_data_fields_form" where
  "personal_data_fields_form_of env d =
    \<lparr>pdf_gender = (case pd_gender d of None \<Rightarrow> [] | Some g \<Rightarrow> gender_display g),
     pdf_date_of_birth = (case pd_date_of_birth d of None \<Rightarrow> [] | Some b \<Rightarrow> fe_format_date env b),
     pdf_bsn = (case pd_bsn d of None \<Rightarrow> [] | Some b \<Rightarrow> bsn_or_none_to_exposed_string b),
     pdf_place_of_residence = (case pd_place_of_residence d of None \<Rightarrow> [] | Some p \<Rightarrow> place_as_str p),
     pdf_country = as_str_or_empty (pd_country d)\<rparr>"

record personal_data_form =
  pf_name :: full_name_form
  pf_personal_data :: personal_data_fields_form

definition personal_data_default :: personal_data where
  "personal_data_default = \<lparr>pd_gender = None, pd_bsn = None, pd_date_of_birth = None,
     pd_place_of_residence = None, pd_country = None\<rparr>"

text \<open>\<open>Person::default()\<close>: a fresh id and the current time.\<close>

definition person_default :: "person_id \<Rightarrow> timestamp \<Rightarrow> person" where
  "person_default fresh now = \<lparr>p_id = fresh, p_name = full_name_default, p_personal_data = personal_data_default,
     p_address = dutch_address_default, p_representative = None, p_updated_at = now\<rparr>"

definition personal_data_form_validate :: "form_env \<Rightarrow> personal_data_form \<Rightarrow> person \<Rightarrow> person form_result" where
  "personal_data_form_validate env f base =
    (let name = flatten_field (lit ''name'') (full_name_validate (pf_name f) (p_name base));
         personal_data = flatten_field (lit ''personal_data'') (personal_data_validate env (pf_personal_data f) (p_personal_data base))
     in unless_errors (field_errs name @ field_errs personal_data)
        (base\<lparr>p_name := the_field name, p_personal_data := the_field personal_data\<rparr>))"

definition personal_data_form_of :: "form_env \<Rightarrow> person \<Rightarrow> personal_data_form" where
  "personal_data_form_of env p = \<lparr>pf_name = full_name_form_of (p_name p),
     pf_personal_data = personal_data_fields_form_of env (p_personal_data p)\<rparr>"

text \<open>\<open>identity_name\<close>: the identifying fields as typed, \<open>None\<close> when one does not parse.\<close>

definition identity_name :: "personal_data_form \<Rightarrow> full_name option" where
  "identity_name f =
    (let prefix = (if fnf_last_name_prefix (pf_name f) = [] then Some None
         else map_option Some (res_ok (last_name_prefix_from_str (fnf_last_name_prefix (pf_name f))))) in
     case prefix of None \<Rightarrow> None
     | Some last_name_prefix \<Rightarrow> (case res_ok (last_name_from_str (fnf_last_name (pf_name f))) of None \<Rightarrow> None
       | Some last_name \<Rightarrow> (case res_ok (initials_from_str (fnf_initials (pf_name f))) of None \<Rightarrow> None
         | Some initials \<Rightarrow> Some \<lparr>fn_first_name = None, fn_last_name = last_name,
             fn_last_name_prefix = last_name_prefix, fn_initials = Some initials\<rparr>)))"

fun is_bsn :: "bsn_or_none_confirmed option \<Rightarrow> bool" where
  "is_bsn (Some (Bsn _)) = True"
| "is_bsn _ = False"

definition uniqueness_errors :: "form_env \<Rightarrow> person_id \<Rightarrow> timestamp \<Rightarrow> personal_data_form \<Rightarrow> person list \<Rightarrow> field_errors" where
  "uniqueness_errors env fresh now f existing =
    (let bsn = res_ok (bsn_or_none_from_str (pdf_bsn (pf_personal_data f)));
         has_bsn = is_bsn bsn;
         name = (case identity_name f of Some n \<Rightarrow> Some n | None \<Rightarrow> if has_bsn then Some full_name_default else None)
     in case name of
       None \<Rightarrow> []
     | Some n \<Rightarrow>
       (let candidate = (person_default fresh now)\<lparr>p_name := n,
              p_personal_data := personal_data_default\<lparr>pd_bsn := bsn,
                pd_date_of_birth := res_ok (date_of_birth_from_str (fe_values env) (pdf_date_of_birth (pf_personal_data f)))\<rparr>\<rparr>
        in if \<not> list_ex (\<lambda>p. identity_match_of candidate p = Same) existing then []
           else if has_bsn then [(lit ''personal_data.bsn'', BsnAlreadyExists)]
           else map (\<lambda>field. (field, NameAlreadyExists))
             [lit ''name.initials'', lit ''name.last_name'', lit ''personal_data.date_of_birth'']))"

definition person_create_with_checks ::
  "form_env \<Rightarrow> person_id \<Rightarrow> timestamp \<Rightarrow> personal_data_form \<Rightarrow> person list \<Rightarrow> person form_result" where
  "person_create_with_checks env fresh now f existing =
     merge_errors (personal_data_form_validate env f (person_default fresh now)) (uniqueness_errors env fresh now f existing)"

definition person_update_with_checks ::
  "form_env \<Rightarrow> person_id \<Rightarrow> timestamp \<Rightarrow> personal_data_form \<Rightarrow> person \<Rightarrow> person list \<Rightarrow> person form_result" where
  "person_update_with_checks env fresh now f current existing =
     merge_errors (personal_data_form_validate env f current)
       (uniqueness_errors env fresh now f (filter (\<lambda>p. p_id p \<noteq> p_id current) existing))"

subsection \<open>Address and representative of a person\<close>

definition address_form_validate :: "form_env \<Rightarrow> dutch_address_form \<Rightarrow> person \<Rightarrow> person form_result" where
  "address_form_validate env f base =
    (let address = flatten_field (lit ''address'') (dutch_address_validate env f (p_address base))
     in unless_errors (field_errs address) (base\<lparr>p_address := the_field address\<rparr>))"

record representative_form =
  rf_name :: minimal_name_form
  rf_address :: dutch_address_form

definition representative_default :: representative where
  "representative_default = \<lparr>rep_name = full_name_default, rep_address = dutch_address_default\<rparr>"

definition representative_form_is_empty :: "representative_form \<Rightarrow> bool" where
  "representative_form_is_empty f = (minimal_name_form_is_empty (rf_name f) \<and> dutch_address_form_is_empty (rf_address f))"

definition representative_validate :: "form_env \<Rightarrow> representative_form \<Rightarrow> representative \<Rightarrow> representative form_result" where
  "representative_validate env f base =
    (let name = flatten_field (lit ''name'') (minimal_name_validate (rf_name f) (rep_name base));
         address = flatten_field (lit ''address'') (dutch_address_validate env (rf_address f) (rep_address base))
     in unless_errors (field_errs name @ field_errs address)
        (base\<lparr>rep_name := the_field name, rep_address := the_field address\<rparr>))"

definition representative_form_of :: "representative \<Rightarrow> representative_form" where
  "representative_form_of r = \<lparr>rf_name = minimal_name_form_of (rep_name r), rf_address = dutch_address_form_of (rep_address r)\<rparr>"

end
