(* ===== verification/Form_Facts.thy ===== *)
theory Form_Facts
  imports Forms Value_Properties
begin

text \<open>
  What a form that passes validation says of the value it yields, and the identity of persons:
  which persons are the same natural person, and what the check on a form misses.
\<close>

subsection \<open>The same natural person\<close>

text \<open>The identity of a person: the citizen service number, or without one the name and the
  date of birth. A person without either has none.\<close>

datatype identity = ByBsn rstring | ByName "rstring option" "rstring option" rstring naive_date

definition identity_of :: "person \<Rightarrow> identity option" where
  "identity_of p = (case personal_data_bsn (p_personal_data p) of
      Some b \<Rightarrow> Some (ByBsn b)
    | None \<Rightarrow> map_option (ByName (fn_initials (p_name p)) (fn_last_name_prefix (p_name p)) (fn_last_name (p_name p)))
        (pd_date_of_birth (p_personal_data p)))"

lemma same_iff_identity: "identity_match_of a b = Same \<longleftrightarrow> identity_of a \<noteq> None \<and> identity_of a = identity_of b"
  by (cases "personal_data_bsn (p_personal_data a)"; cases "personal_data_bsn (p_personal_data b)";
      cases "pd_date_of_birth (p_personal_data a)"; cases "pd_date_of_birth (p_personal_data b)")
    (auto simp: identity_match_of_def identity_of_def same_person_name_def)

lemma same_trans: "identity_match_of a b = Same \<Longrightarrow> identity_match_of b c = Same \<Longrightarrow> identity_match_of a c = Same"
  unfolding same_iff_identity by metis

lemma identity_of_cong:
  "p_name a = p_name b \<Longrightarrow> p_personal_data a = p_personal_data b \<Longrightarrow> identity_of a = identity_of b"
  unfolding identity_of_def by metis

text \<open>No two of the persons are the same.\<close>

definition distinct_persons :: "person list \<Rightarrow> bool" where
  "distinct_persons ps = distinct (List.map_filter identity_of ps)"

subsection \<open>Typed and trimmed input\<close>

lemma initials_loop_dropWhile: "initials_loop True acc (dropWhile is_whitespace v) = initials_loop True acc v"
  by (induction v) auto

lemma initials_loop_trailing: "list_all is_whitespace w \<Longrightarrow> initials_loop sep acc w = Inr acc"
  by (induction w arbitrary: sep) auto

lemma initials_loop_append:
  "list_all is_whitespace w \<Longrightarrow> initials_loop sep acc (v @ w) = initials_loop sep acc v"
proof (induction sep acc v rule: initials_loop.induct)
  case (2 separated initials c cs)
  have w46: "w = d # w' \<Longrightarrow> d \<noteq> 46" for d w'
    using 2(5) by (auto simp: is_whitespace_def)
  show ?case using 2 w46 by (cases cs; cases w) (auto simp: initials_loop_trailing)
qed (simp add: initials_loop_trailing)

lemma trim_decompose: "\<exists>w. list_all is_whitespace w \<and> dropWhile is_whitespace v = trim v @ w"
proof -
  let ?s = "dropWhile is_whitespace v"
  have "rev ?s = takeWhile is_whitespace (rev ?s) @ dropWhile is_whitespace (rev ?s)" by simp
  then have "?s = rev (dropWhile is_whitespace (rev ?s)) @ rev (takeWhile is_whitespace (rev ?s))"
    by (metis rev_append rev_rev_ident)
  moreover have "list_all is_whitespace (rev (takeWhile is_whitespace (rev ?s)))"
    by (auto simp: list_all_iff dest: set_takeWhileD)
  ultimately show ?thesis unfolding trim_def trim_start_def trim_end_def by blast
qed

lemma initials_trim: "initials_from_str (trim v) = initials_from_str v"
proof -
  obtain w where "list_all is_whitespace w" "dropWhile is_whitespace v = trim v @ w" using trim_decompose by blast
  then have "initials_loop True [] v = initials_loop True [] (trim v)"
    by (metis initials_loop_append initials_loop_dropWhile)
  then show ?thesis by (simp add: initials_from_str_def)
qed

text \<open>The parsers of the identifying fields read the same from the typed and the trimmed text.\<close>

lemma last_name_trim: "last_name_from_str (trim v) = last_name_from_str v"
  by (simp add: last_name_from_str_def validate_length_def)

lemma last_name_prefix_trim: "last_name_prefix_from_str (trim v) = last_name_prefix_from_str v"
  by (simp add: last_name_prefix_from_str_def)

lemma date_of_birth_trim: "date_of_birth_from_str env (trim v) = date_of_birth_from_str env v"
  by (simp add: date_of_birth_from_str_def)

lemma bsn_or_none_trim: "bsn_or_none_from_str (trim v) = bsn_or_none_from_str v"
  by (simp add: bsn_or_none_from_str_def bsn_from_str_def)

lemmas parser_trims = initials_trim last_name_trim last_name_prefix_trim date_of_birth_trim bsn_or_none_trim

text \<open>A blank text is refused by the parsers.\<close>

lemma blank_refused:
  assumes "trim v = []"
  shows "res_ok (bsn_or_none_from_str v) = None" "res_ok (date_of_birth_from_str env v) = None"
proof -
  show "res_ok (bsn_or_none_from_str v) = None"
    using assms by (simp add: bsn_or_none_from_str_def bsn_from_str_def BSN_NONE_CONFIRMATION_def lit_def)
  show "res_ok (date_of_birth_from_str env v) = None"
    using assms by (simp add: date_of_birth_from_str_def date_format_def)
qed

subsection \<open>What validation yields\<close>

lemma full_name_validate_ok:
  "full_name_validate f base = Inr n \<longleftrightarrow>
    parse_optional (lit ''first_name'') first_name_from_str (fnf_first_name f) = Inr (fn_first_name n)
    \<and> parse_field (lit ''last_name'') last_name_from_str (fnf_last_name f) = Inr (fn_last_name n)
    \<and> parse_optional (lit ''last_name_prefix'') last_name_prefix_from_str (fnf_last_name_prefix f) = Inr (fn_last_name_prefix n)
    \<and> parse_required (lit ''initials'') initials_from_str (fnf_initials f) = Inr (fn_initials n)"
  by (auto simp: full_name_validate_def Let_def)

lemma personal_data_validate_ok:
  "personal_data_validate env f base = Inr d \<longleftrightarrow>
    parse_optional (lit ''gender'') (gender_from_str (fe_values env)) (pdf_gender f) = Inr (pd_gender d)
    \<and> parse_optional (lit ''date_of_birth'') (date_of_birth_from_str (fe_values env)) (pdf_date_of_birth f) = Inr (pd_date_of_birth d)
    \<and> parse_optional (lit ''bsn'') bsn_or_none_from_str (pdf_bsn f) = Inr (pd_bsn d)
    \<and> parse_optional (lit ''place_of_residence'') (place_of_residence_from_str (fe_values env)) (pdf_place_of_residence f)
      = Inr (pd_place_of_residence d)
    \<and> parse_optional (lit ''country'') (country_code_from_str (fe_values env)) (pdf_country f) = Inr (pd_country d)"
  by (auto simp: personal_data_validate_def Let_def)

lemma personal_data_form_validate_ok:
  "personal_data_form_validate env f base = Inr p \<longleftrightarrow>
    (\<exists>n d. full_name_validate (pf_name f) (p_name base) = Inr n
      \<and> personal_data_validate env (pf_personal_data f) (p_personal_data base) = Inr d
      \<and> p = base\<lparr>p_name := n, p_personal_data := d\<rparr>)"
proof -
  have errs: "field_errs (full_name_validate g b) = [] \<longleftrightarrow> (\<exists>n. full_name_validate g b = Inr n)"
    "field_errs (personal_data_validate env h c) = [] \<longleftrightarrow> (\<exists>d. personal_data_validate env h c = Inr d)" for g b h c
    by (simp_all only: full_name_validate_def personal_data_validate_def Let_def no_errs_unless unless_errors_ok) auto
  show ?thesis
    by (auto simp: personal_data_form_validate_def Let_def errs)
qed

text \<open>An optional field whose parser trims reads what the parser makes of the typed text.\<close>

lemma parse_optional_res_ok:
  assumes "parse_optional n p v = Inr a" "\<And>v. p (trim v) = p v" "trim v = [] \<Longrightarrow> res_ok (p v) = None"
  shows "res_ok (p v) = a"
  using assms by (cases a) (auto simp: parse_optional_ok)

text \<open>A prefix of the last name that is typed but blank.\<close>

definition blank_prefix :: "personal_data_form \<Rightarrow> bool" where
  "blank_prefix f = (fnf_last_name_prefix (pf_name f) \<noteq> [] \<and> trim (fnf_last_name_prefix (pf_name f)) = [])"

lemma blank_is_no_prefix: "trim v = [] \<Longrightarrow> res_ok (last_name_prefix_from_str v) = None"
proof -
  have "[] \<notin> set LAST_NAME_PREFIXES" by (simp add: LAST_NAME_PREFIXES_def lit_def)
  then show "trim v = [] \<Longrightarrow> res_ok (last_name_prefix_from_str v) = None"
    by (simp add: last_name_prefix_from_str_def)
qed

lemma identity_name_validated:
  assumes "full_name_validate (pf_name f) base = Inr n"
  shows "identity_name f = (if blank_prefix f then None
    else Some (n\<lparr>fn_first_name := None\<rparr>))"
proof -
  from assms obtain i where last: "res_ok (last_name_from_str (fnf_last_name (pf_name f))) = Some (fn_last_name n)"
    and ini: "res_ok (initials_from_str (fnf_initials (pf_name f))) = Some i" "fn_initials n = Some i"
    and prefix: "parse_optional (lit ''last_name_prefix'') last_name_prefix_from_str (fnf_last_name_prefix (pf_name f)) = Inr (fn_last_name_prefix n)"
    by (auto simp: full_name_validate_ok parse_field_ok parse_required_ok parser_trims)
  let ?v = "fnf_last_name_prefix (pf_name f)"
  have pre: "res_ok (last_name_prefix_from_str ?v) = fn_last_name_prefix n"
    by (rule parse_optional_res_ok [OF prefix]) (simp_all add: parser_trims blank_is_no_prefix)
  show ?thesis
  proof (cases "trim ?v = []")
    case True
    with prefix have "fn_last_name_prefix n = None" by (auto simp: parse_optional_ok split: option.splits)
    with True last ini show ?thesis
      by (auto simp: identity_name_def blank_prefix_def blank_is_no_prefix)
  next
    case False
    with prefix obtain q where "fn_last_name_prefix n = Some q" by (auto simp: parse_optional_ok split: option.splits)
    moreover have "?v \<noteq> []" using False by (auto simp: trim_def trim_start_def trim_end_def)
    ultimately show ?thesis using False pre last ini by (simp add: identity_name_def blank_prefix_def)
  qed
qed

text \<open>The check compares the person the form describes with the existing ones, except that
  without a citizen service number a blank prefix of the last name turns it off.\<close>

lemma uniqueness_errors_exact:
  assumes "personal_data_form_validate env f base = Inr p"
  shows "uniqueness_errors env fresh now f existing = [] \<longleftrightarrow>
    (\<forall>q\<in>set existing. identity_match_of p q \<noteq> Same) \<or> blank_prefix f \<and> \<not> is_bsn (pd_bsn (p_personal_data p))"
proof -
  from assms obtain n d where n: "full_name_validate (pf_name f) (p_name base) = Inr n"
    and d: "personal_data_validate env (pf_personal_data f) (p_personal_data base) = Inr d"
    and p: "p = base\<lparr>p_name := n, p_personal_data := d\<rparr>" by (auto simp: personal_data_form_validate_ok)
  let ?f = "pf_personal_data f"
  have bsn: "res_ok (bsn_or_none_from_str (pdf_bsn ?f)) = pd_bsn d"
    by (rule parse_optional_res_ok [where n = "lit ''bsn''"])
      (use d in \<open>simp_all add: personal_data_validate_ok parser_trims blank_refused\<close>)
  have dob: "res_ok (date_of_birth_from_str (fe_values env) (pdf_date_of_birth ?f)) = pd_date_of_birth d"
    by (rule parse_optional_res_ok [where n = "lit ''date_of_birth''"])
      (use d in \<open>simp_all add: personal_data_validate_ok parser_trims blank_refused\<close>)
  let ?c = "\<lambda>m. (person_default fresh now)\<lparr>p_name := m,
      p_personal_data := personal_data_default\<lparr>pd_bsn := pd_bsn d, pd_date_of_birth := pd_date_of_birth d\<rparr>\<rparr>"
  have ident: "identity_of (?c (n\<lparr>fn_first_name := None\<rparr>)) = identity_of p"
    "is_bsn (pd_bsn d) \<Longrightarrow> identity_of (?c full_name_default) = identity_of p"
    by (auto simp: p identity_of_def personal_data_bsn_def split: option.splits bsn_or_none_confirmed.splits)
  have none: "uniqueness_errors env fresh now f existing = [] \<longleftrightarrow>
    (case identity_name f of
      Some m \<Rightarrow> (\<forall>q\<in>set existing. identity_match_of (?c m) q \<noteq> Same)
    | None \<Rightarrow> is_bsn (pd_bsn d) \<longrightarrow> (\<forall>q\<in>set existing. identity_match_of (?c full_name_default) q \<noteq> Same))"
    unfolding uniqueness_errors_def Let_def bsn dob by (auto simp: list_ex_iff split: option.splits)
  show ?thesis
    unfolding none identity_name_validated [OF n] using ident by (auto simp: same_iff_identity p)
qed

end
