(* ===== verification/Entry_Forms.thy ===== *)
theory Entry_Forms
  imports Form_Facts
begin

text \<open>
  The other forms: the designation of a list and the group's own information, name
  authorisations, list submitters, the position of a candidate and the adding of persons, the
  districts of a list, and the committee's forms for omissions, registrations, objections and
  hearings.
\<close>

subsection \<open>Numbers\<close>

text \<open>\<open>str::parse\<close> of an unsigned integer of the given width: an optional plus sign and
  digits, within range.\<close>

definition parse_unsigned :: "nat \<Rightarrow> rstring \<Rightarrow> nat option" where
  "parse_unsigned width s =
    (let digits = (if s \<noteq> [] \<and> hd s = 43 then tl s else s) in
     if digits \<noteq> [] \<and> list_all is_ascii_digit digits
     then let n = foldl (\<lambda>n c. 10 * n + (c - 48)) 0 digits in if n < 2 ^ width then Some n else None
     else None)"

definition usize_from_str :: "rstring \<Rightarrow> nat validated" where
  "usize_from_str s = ok_or InvalidValue (parse_unsigned 64 s)"

text \<open>\<open>count_newtypes!\<close>.\<close>

definition count_from_str :: "nat \<Rightarrow> rstring \<Rightarrow> nat validated" where
  "count_from_str width v = (let t = trim v in
     if t = [] then Err ValueShouldNotBeEmpty
     else if \<not> list_all (\<lambda>b. is_ascii_digit (unat b)) (str_bytes t) then Err InvalidValue
     else ok_or InvalidValue (parse_unsigned width t))"

definition vote_count_from_str :: "rstring \<Rightarrow> 64 word validated" where
  "vote_count_from_str v = bind_res (count_from_str 64 v) (\<lambda>n. Ok (of_nat n))"

definition seat_count_from_str :: "rstring \<Rightarrow> 32 word validated" where
  "seat_count_from_str v = bind_res (count_from_str 32 v) (\<lambda>n. Ok (of_nat n))"

subsection \<open>The political group\<close>

definition list_designation_kind_from_str :: "rstring \<Rightarrow> list_designation_kind validated" where
  "list_designation_kind_from_str s =
    (if s = lit ''standalone'' then Ok KStandalone
     else if s = lit ''blank'' then Ok KBlank
     else if s = lit ''combined'' then Ok KCombined
     else Err InvalidValue)"

fun list_designation_kind_text :: "list_designation_kind \<Rightarrow> rstring" where
  "list_designation_kind_text KStandalone = lit ''standalone''"
| "list_designation_kind_text KBlank = lit ''blank''"
| "list_designation_kind_text KCombined = lit ''combined''"

definition list_designation_form_validate :: "rstring \<Rightarrow> list_designation_kind form_result" where
  "list_designation_form_validate list_designation_type =
    (let kind = parse_field (lit ''list_designation_type'') list_designation_kind_from_str list_designation_type
     in unless_errors (field_errs kind) (the_field kind))"

definition list_designation_form_of :: "list_designation_kind option \<Rightarrow> rstring" where
  "list_designation_form_of k = (case k of None \<Rightarrow> [] | Some d \<Rightarrow> list_designation_kind_text d)"

definition previous_election_results_from_str :: "rstring \<Rightarrow> previous_election_results validated" where
  "previous_election_results_from_str s =
    (if s = lit ''zero_seats'' then Ok ZeroSeats
     else if s = lit ''one_to_fifteen_seats'' then Ok OneToFifteenSeats
     else if s = lit ''sixteen_or_more_seats'' then Ok SixteenOrMoreSeats
     else Err InvalidValue)"

fun previous_election_results_text :: "previous_election_results \<Rightarrow> rstring" where
  "previous_election_results_text ZeroSeats = lit ''zero_seats''"
| "previous_election_results_text OneToFifteenSeats = lit ''one_to_fifteen_seats''"
| "previous_election_results_text SixteenOrMoreSeats = lit ''sixteen_or_more_seats''"

record political_group_form =
  pgf_registered_political_group :: rstring
  pgf_previous_election_results :: rstring
  pgf_appellation :: rstring

definition political_group_form_validate :: "political_group_form \<Rightarrow> political_group \<Rightarrow> political_group form_result" where
  "political_group_form_validate f base =
    (let results = parse_optional (lit ''previous_election_results'') previous_election_results_from_str (pgf_previous_election_results f);
         appellation = parse_optional (lit ''appellation'') appellation_from_str (pgf_appellation f)
     in unless_errors (field_errs results @ field_errs appellation)
        (base\<lparr>pg_previous_election_results := the_field results, pg_appellation := the_field appellation\<rparr>))"

definition with_registration :: "form_env \<Rightarrow> registered_political_group \<Rightarrow> political_group_form \<Rightarrow> political_group_form" where
  "with_registration env registration f =
     f\<lparr>pgf_registered_political_group := fe_uuid_text env (registered_group_uuid (rg_id registration)),
       pgf_appellation := rg_appellation registration,
       pgf_previous_election_results := previous_election_results_text (rg_previous_election_results registration)\<rparr>"

definition political_group_form_of :: "political_group \<Rightarrow> political_group_form" where
  "political_group_form_of g = \<lparr>pgf_registered_political_group = [],
     pgf_previous_election_results = (case pg_previous_election_results g of None \<Rightarrow> [] | Some r \<Rightarrow> previous_election_results_text r),
     pgf_appellation = as_str_or_empty (pg_appellation g)\<rparr>"

subsection \<open>Name authorisations\<close>

record name_authorisation_form =
  naf_name :: minimal_name_form
  naf_legal_name :: rstring

definition name_authorisation_default :: "name_authorisation_id \<Rightarrow> name_authorisation" where
  "name_authorisation_default fresh = \<lparr>na_id = fresh, na_name = full_name_default, na_legal_name = []\<rparr>"

definition name_authorisation_validate ::
  "name_authorisation_form \<Rightarrow> name_authorisation \<Rightarrow> name_authorisation form_result" where
  "name_authorisation_validate f base =
    (let name = flatten_field (lit ''name'') (minimal_name_validate (naf_name f) (na_name base));
         legal_name = parse_field (lit ''legal_name'') legal_name_from_str (naf_legal_name f)
     in unless_errors (field_errs name @ field_errs legal_name)
        (base\<lparr>na_name := the_field name, na_legal_name := the_field legal_name\<rparr>))"

definition name_authorisation_form_of :: "name_authorisation \<Rightarrow> name_authorisation_form" where
  "name_authorisation_form_of a = \<lparr>naf_name = minimal_name_form_of (na_name a), naf_legal_name = na_legal_name a\<rparr>"

subsection \<open>List submitters\<close>

record list_submitter_data =
  lsd_name :: full_name
  lsd_address :: international_address

definition international_address_default :: international_address where
  "international_address_default = \<lparr>ia_street_name = None, ia_house_number = None, ia_house_number_addition = None,
     ia_locality = None, ia_state_or_province = None, ia_postal_code = None, ia_country = None\<rparr>"

definition list_submitter_data_default :: list_submitter_data where
  "list_submitter_data_default = \<lparr>lsd_name = full_name_default, lsd_address = international_address_default\<rparr>"

text \<open>\<open>map(parse).transpose().ok()?\<close>.\<close>

definition try_into_dutch_address :: "international_address \<Rightarrow> dutch_address option" where
  "try_into_dutch_address a =
    (let postal_code = (case ia_postal_code a of None \<Rightarrow> Some None
         | Some p \<Rightarrow> (case postal_code_from_str p of Inr q \<Rightarrow> Some (Some q) | Inl _ \<Rightarrow> None))
     in map_option (\<lambda>postal_code. \<lparr>da_street_name = ia_street_name a, da_house_number = ia_house_number a,
          da_house_number_addition = ia_house_number_addition a, da_locality = ia_locality a,
          da_postal_code = postal_code, da_known_in_bag = None\<rparr>) postal_code)"

definition submitter_of_data :: "list_submitter_id \<Rightarrow> list_submitter_data \<Rightarrow> list_submitter" where
  "submitter_of_data fresh v =
    (let is_dutch = (case ia_country (lsd_address v) of None \<Rightarrow> True | Some c \<Rightarrow> is_nl c);
         address = (if is_dutch
           then (case try_into_dutch_address (lsd_address v) of Some a \<Rightarrow> Dutch a | None \<Rightarrow> International (lsd_address v))
           else International (lsd_address v))
     in \<lparr>ls_id = fresh, ls_name = lsd_name v, ls_address = address\<rparr>)"

text \<open>A Dutch address is read as an international one; \<open>None\<close> is the panic of a postal code
  that would not fit.\<close>

definition data_of_submitter :: "list_submitter \<Rightarrow> list_submitter_data option" where
  "data_of_submitter s = (case ls_address s of
      Dutch a \<Rightarrow>
        (let postal_code = (case da_postal_code a of None \<Rightarrow> Some None
             | Some p \<Rightarrow> map_option Some (res_ok (international_postal_code_from_str p)))
         in map_option (\<lambda>postal_code. \<lparr>lsd_name = ls_name s, lsd_address =
              \<lparr>ia_street_name = da_street_name a, ia_house_number = da_house_number a,
               ia_house_number_addition = da_house_number_addition a, ia_locality = da_locality a,
               ia_state_or_province = None, ia_postal_code = postal_code, ia_country = None\<rparr>\<rparr>) postal_code)
    | International a \<Rightarrow> Some \<lparr>lsd_name = ls_name s, lsd_address = a\<rparr>)"

definition updated_from :: "form_env \<Rightarrow> list_submitter \<Rightarrow> list_submitter_data \<Rightarrow> list_submitter" where
  "updated_from env s v = (let updated = submitter_of_data (ls_id s) v in
     updated\<lparr>ls_address := address_update_is_known_in_bag (fe_address_exists env) house_number_as_number (ls_address updated)\<rparr>)"

record list_submitter_form =
  lsf_name :: minimal_name_form
  lsf_address :: international_address_form

definition list_submitter_validate ::
  "form_env \<Rightarrow> list_submitter_form \<Rightarrow> list_submitter_data \<Rightarrow> list_submitter_data form_result" where
  "list_submitter_validate env f base =
    (let name = flatten_field (lit ''name'') (minimal_name_validate (lsf_name f) (lsd_name base));
         address = flatten_field (lit ''address'') (international_address_validate env (lsf_address f) (lsd_address base))
     in unless_errors (field_errs name @ field_errs address)
        (base\<lparr>lsd_name := the_field name, lsd_address := the_field address\<rparr>))"

definition validate_postal_code :: "form_env \<Rightarrow> list_submitter_form \<Rightarrow> field_errors" where
  "validate_postal_code env f =
    (case country_code_from_str (fe_values env) (iaf_country (lsf_address f)) of
      Inr country \<Rightarrow> if is_nl country \<and> iaf_postal_code (lsf_address f) \<noteq> []
        then (case postal_code_from_str (iaf_postal_code (lsf_address f)) of
            Inl e \<Rightarrow> [(lit ''address.postal_code'', e)]
          | Inr _ \<Rightarrow> [])
        else []
    | Inl _ \<Rightarrow> [])"

definition submitter_validate_with_checks ::
  "form_env \<Rightarrow> list_submitter_form \<Rightarrow> list_submitter_data \<Rightarrow> list_submitter_data form_result" where
  "submitter_validate_with_checks env f base = merge_errors (list_submitter_validate env f base) (validate_postal_code env f)"

definition list_submitter_form_of :: "list_submitter \<Rightarrow> list_submitter_form option" where
  "list_submitter_form_of s = map_option (\<lambda>v. \<lparr>lsf_name = minimal_name_form_of (lsd_name v),
     lsf_address = international_address_form_of (lsd_address v)\<rparr>) (data_of_submitter s)"

subsection \<open>Candidates and lists\<close>

datatype form_action = Save | Remove

definition form_action_from_str :: "rstring \<Rightarrow> form_action validated" where
  "form_action_from_str s = (if s = lit ''save'' then Ok Save else if s = lit ''remove'' then Ok Remove else Err InvalidValue)"

record candidate_position =
  cp_position :: nat
  cp_action :: form_action

record candidate_position_form =
  cpf_position :: rstring
  cpf_action :: rstring

definition candidate_position_validate ::
  "candidate_position_form \<Rightarrow> candidate_position \<Rightarrow> candidate_position form_result" where
  "candidate_position_validate f base =
    (let position = parse_field (lit ''position'') usize_from_str (cpf_position f);
         action = parse_field (lit ''action'') form_action_from_str (cpf_action f)
     in unless_errors (field_errs position @ field_errs action)
        (base\<lparr>cp_position := the_field position, cp_action := the_field action\<rparr>))"

datatype add_person_action = ActionNone | AddAll | RemoveAll | TogglePerson person_id

definition add_person_action_from_str :: "form_env \<Rightarrow> rstring \<Rightarrow> add_person_action validated" where
  "add_person_action_from_str env s =
    (if s = [] then Ok ActionNone
     else if s = lit ''add-all'' then Ok AddAll
     else if s = lit ''remove-all'' then Ok RemoveAll
     else (case fe_parse_uuid env s of None \<Rightarrow> Err InvalidValue | Some u \<Rightarrow> Ok (TogglePerson (PersonId u))))"

record add_person =
  ap_action :: add_person_action
  ap_added_position :: "nat option"

record add_person_form =
  apf_action :: rstring
  apf_added_position :: rstring

definition add_person_default :: add_person where
  "add_person_default = \<lparr>ap_action = ActionNone, ap_added_position = None\<rparr>"

definition add_person_validate :: "form_env \<Rightarrow> add_person_form \<Rightarrow> add_person \<Rightarrow> add_person form_result" where
  "add_person_validate env f base =
    (let action = parse_field (lit ''action'') (add_person_action_from_str env) (apf_action f);
         added_position = parse_optional (lit ''added_position'') usize_from_str (apf_added_position f)
     in unless_errors (field_errs action @ field_errs added_position)
        (base\<lparr>ap_action := the_field action, ap_added_position := the_field added_position\<rparr>))"

text \<open>The districts of a list; the create form also says whether candidates are copied.\<close>

definition candidate_list_validate :: "electoral_district btset \<Rightarrow> candidate_list \<Rightarrow> candidate_list form_result" where
  "candidate_list_validate districts base =
     unless_errors (not_empty_field (lit ''electoral_districts'') districts) (base\<lparr>cl_electoral_districts := districts\<rparr>)"

definition candidate_list_default :: "candidate_list_id \<Rightarrow> timestamp \<Rightarrow> candidate_list" where
  "candidate_list_default fresh now = \<lparr>cl_id = fresh, cl_electoral_districts = [], cl_candidates = [], cl_created_at = now\<rparr>"

record candidate_list_create_form =
  clf_electoral_districts :: "electoral_district btset"
  clf_copy_candidates :: bool

subsection \<open>The committee's forms\<close>

record omission_form =
  of_title :: rstring
  of_description :: rstring
  of_help_text :: rstring
  of_recoverable :: bool
  of_electoral_districts :: "electoral_district list"
  of_candidate_lists :: "candidate_list_id list"

definition omission_form_default :: omission_form where
  "omission_form_default = \<lparr>of_title = [], of_description = [], of_help_text = [], of_recoverable = True,
     of_electoral_districts = [], of_candidate_lists = []\<rparr>"

definition omission_form_validate :: "omission_form \<Rightarrow> omission \<Rightarrow> omission form_result" where
  "omission_form_validate f base =
    (let title = parse_field (lit ''title'') omission_title_from_str (of_title f);
         description = parse_field (lit ''description'') omission_text_from_str (of_description f);
         help_text = parse_optional (lit ''help_text'') omission_text_from_str (of_help_text f)
     in unless_errors (field_errs title @ field_errs description @ field_errs help_text)
        (base\<lparr>om_title := the_field title, om_description := the_field description, om_help_text := the_field help_text,
          om_recoverable := of_recoverable f\<rparr>))"

definition omission_form_of :: "omission \<Rightarrow> omission_form" where
  "omission_form_of om = \<lparr>of_title = om_title om, of_description = om_description om,
     of_help_text = as_str_or_empty (help_text_of om), of_recoverable = om_recoverable om,
     of_electoral_districts = [], of_candidate_lists = []\<rparr>"

record registered_group_form =
  rgf_appellation :: rstring
  rgf_legal_name :: rstring
  rgf_previous_votes :: rstring
  rgf_previous_seats :: rstring

definition registered_group_validate ::
  "registered_group_form \<Rightarrow> registered_political_group \<Rightarrow> registered_political_group form_result" where
  "registered_group_validate f base =
    (let appellation = parse_field (lit ''appellation'') appellation_from_str (rgf_appellation f);
         legal_name = parse_field (lit ''legal_name'') legal_name_from_str (rgf_legal_name f);
         votes = parse_field (lit ''previous_votes'') vote_count_from_str (rgf_previous_votes f);
         seats = parse_field (lit ''previous_seats'') seat_count_from_str (rgf_previous_seats f)
     in unless_errors (field_errs appellation @ field_errs legal_name @ field_errs votes @ field_errs seats)
        (base\<lparr>rg_appellation := the_field appellation, rg_legal_name := the_field legal_name,
          rg_previous_votes := the_field votes, rg_previous_seats := the_field seats\<rparr>))"

definition registered_group_form_of :: "registered_political_group \<Rightarrow> registered_group_form" where
  "registered_group_form_of g = \<lparr>rgf_appellation = rg_appellation g, rgf_legal_name = rg_legal_name g,
     rgf_previous_votes = nat_text (unat (rg_previous_votes g)), rgf_previous_seats = nat_text (unat (rg_previous_seats g))\<rparr>"

definition objection_form_validate :: "rstring \<Rightarrow> objection \<Rightarrow> objection form_result" where
  "objection_form_validate objection_text base =
    (let t = parse_field (lit ''objection_text'') objection_text_from_str objection_text
     in unless_errors (field_errs t) (base\<lparr>ob_text := the_field t\<rparr>))"

text \<open>The hearing: a date in the Dutch format and a time of the day in nanoseconds.\<close>

definition date_of_hearing_from_str :: "form_env \<Rightarrow> rstring \<Rightarrow> naive_date validated" where
  "date_of_hearing_from_str env v =
    (if \<not> digit_groups (ve_regex_digit (fe_values env)) 45 [(1, 2), (1, 2), (4, 4)] v then Err InvalidValue
     else ok_or InvalidValue (ve_parse_date (fe_values env) v (lit ''%d-%m-%Y'')))"

definition time_of_hearing_from_str :: "form_env \<Rightarrow> rstring \<Rightarrow> int validated" where
  "time_of_hearing_from_str env v = ok_or InvalidValue (fe_parse_time env v)"

record hearing_form =
  hf_date_of_hearing :: rstring
  hf_time_of_hearing :: rstring
  hf_chair :: rstring
  hf_signers :: "rstring list"

record hearing_target =
  ht_date_of_hearing :: naive_date
  ht_time_of_hearing :: int
  ht_chair :: rstring
  ht_signers :: "rstring list"

definition hearing_form_validate :: "form_env \<Rightarrow> hearing_form \<Rightarrow> hearing_target \<Rightarrow> hearing_target form_result" where
  "hearing_form_validate env f base =
    (let date = parse_field (lit ''date_of_hearing'') (date_of_hearing_from_str env) (hf_date_of_hearing f);
         time = parse_field (lit ''time_of_hearing'') (time_of_hearing_from_str env) (hf_time_of_hearing f)
     in unless_errors (field_errs date @ field_errs time)
        (base\<lparr>ht_date_of_hearing := the_field date, ht_time_of_hearing := the_field time,
          ht_chair := hf_chair f, ht_signers := hf_signers f\<rparr>))"

definition hearing_details_of :: "hearing_target \<Rightarrow> hearing_details" where
  "hearing_details_of t = \<lparr>hd_date_time = ht_date_of_hearing t * (86400 * 10 ^ 9) + ht_time_of_hearing t,
     hd_chair = trim (ht_chair t), hd_members = filter (\<lambda>m. m \<noteq> []) (map trim (ht_signers t))\<rparr>"

definition is_invalid_date :: "form_env \<Rightarrow> hearing_form \<Rightarrow> bool" where
  "is_invalid_date env f = (\<not> is_ok (date_of_hearing_from_str env (hf_date_of_hearing f)))"

definition is_invalid_time :: "form_env \<Rightarrow> hearing_form \<Rightarrow> bool" where
  "is_invalid_time env f = (\<not> is_ok (time_of_hearing_from_str env (hf_time_of_hearing f)))"

definition SIGNER_COUNT :: nat where "SIGNER_COUNT = 10"

text \<open>\<open>slice::chunks\<close> of two.\<close>

fun chunks_of_two :: "'a list \<Rightarrow> 'a list list" where
  "chunks_of_two (x # y # xs) = [x, y] # chunks_of_two xs"
| "chunks_of_two [x] = [[x]]"
| "chunks_of_two [] = []"

definition signer_rows :: "hearing_form \<Rightarrow> (nat \<times> rstring) list list" where
  "signer_rows f =
    (let n = max (length (hf_signers f)) SIGNER_COUNT;
         signers = hf_signers f @ replicate (n - length (hf_signers f)) []
     in chunks_of_two (enumerate 0 signers))"

end
