(* ===== verification/Actions.thy ===== *)
theory Actions
  imports Entry_Forms Pg_Store Model_Inputs "HOL-Library.List_Lexorder" "HOL-Library.Option_ord" "HOL-Library.Product_Lexorder"
begin

text \<open>
  The store-backed operations on a group's data (\<open>pg/*/actions.rs\<close>): what a request does
  through its \<open>PgStore\<close> handle. A handle is a record of the snapshot it reads, the update it
  writes with and its write target; an operation threads the store's state and returns a value
  or an error. The methods that change \<open>self\<close> return the list they leave behind.

  \<open>PersonId::new()\<close> is a fresh UUID and an argument.
\<close>

record 's pg_handle =
  ph_snapshot :: "'s \<Rightarrow> pg_store_data"
  ph_update :: "pg_event \<Rightarrow> 's \<Rightarrow> 's \<times> unit result"
  ph_target :: write_target

type_synonym ('s, 'a) action = "'s \<Rightarrow> 's \<times> 'a result"

definition act_res :: "'a result \<Rightarrow> ('s, 'a) action" where
  "act_res r s = (s, r)"

definition act_bind :: "('s, 'a) action \<Rightarrow> ('a \<Rightarrow> ('s, 'b) action) \<Rightarrow> ('s, 'b) action" where
  "act_bind m f s = (case m s of (s', Inl e) \<Rightarrow> (s', Inl e) | (s', Inr a) \<Rightarrow> f a s')"

text \<open>\<open>store.snapshot()\<close>.\<close>

definition act_read :: "'s pg_handle \<Rightarrow> (pg_store_data \<Rightarrow> ('s, 'a) action) \<Rightarrow> ('s, 'a) action" where
  "act_read h f s = f (ph_snapshot h s) s"

definition limit_of :: "'s pg_handle \<Rightarrow> nat" where
  "limit_of h = candidate_limit (ph_target h)"

subsection \<open>Candidate lists\<close>

definition used_districts :: "pg_store_data \<Rightarrow> electoral_district list" where
  "used_districts d = bt_collect (concat (map cl_electoral_districts (get_candidate_lists d)))"

text \<open>The districts of the election no list has yet.\<close>

definition list_available_districts :: "pg_store_data \<Rightarrow> electoral_district list \<Rightarrow> electoral_district list" where
  "list_available_districts d districts = available_districts districts (used_districts d)"

definition update_order :: "'s pg_handle \<Rightarrow> candidate_list \<Rightarrow> person_id list \<Rightarrow> ('s, candidate_list) action" where
  "update_order h l person_ids = act_read h (\<lambda>d.
     let existing_person_ids = bt_collect (map p_id (get_persons d)) in
     if length person_ids > limit_of h then act_res (Err (TooManyCandidates (limit_of h)))
     else if length (bt_collect person_ids) \<noteq> length person_ids then act_res (Err DuplicateCandidate)
     else if \<not> list_all (\<lambda>i. i \<in> set existing_person_ids) person_ids then act_res (Err GenericNotFound)
     else act_bind (act_read h (\<lambda>d. act_res (get_candidate_list d (cl_id l)))) (\<lambda>_.
       act_bind (ph_update h (UpdateCandidateListOrder (cl_id l) person_ids)) (\<lambda>_.
         act_read h (\<lambda>d. act_res (get_candidate_list d (cl_id l))))))"

text \<open>\<open>Vec::remove\<close> and \<open>Vec::insert\<close>.\<close>

definition vec_remove :: "nat \<Rightarrow> 'a list \<Rightarrow> 'a list" where
  "vec_remove i xs = take i xs @ drop (Suc i) xs"

definition vec_insert :: "nat \<Rightarrow> 'a \<Rightarrow> 'a list \<Rightarrow> 'a list" where
  "vec_insert i x xs = take i xs @ x # drop i xs"

text \<open>Natural subtraction is the saturating one.\<close>

definition move_candidate :: "candidate_list \<Rightarrow> nat \<Rightarrow> nat \<Rightarrow> candidate_list" where
  "move_candidate l current_index position =
    (let moved = cl_candidates l ! current_index; rest = vec_remove current_index (cl_candidates l);
         target_index = min (position - 1) (length rest)
     in l\<lparr>cl_candidates := vec_insert target_index moved rest\<rparr>)"

definition update_position :: "'s pg_handle \<Rightarrow> candidate_list \<Rightarrow> person_id \<Rightarrow> nat \<Rightarrow> ('s, candidate_list) action" where
  "update_position h l i position = (case list_position (\<lambda>p. p = i) (cl_candidates l) of
      None \<Rightarrow> act_res (Ok l)
    | Some current_index \<Rightarrow>
        (let l = move_candidate l current_index position in update_order h l (cl_candidates l)))"

definition append_candidate :: "'s pg_handle \<Rightarrow> candidate_list \<Rightarrow> person_id \<Rightarrow> ('s, candidate_list) action" where
  "append_candidate h l person_id = act_read h (\<lambda>d. act_bind (act_res (get_person d person_id)) (\<lambda>person.
     if p_id person \<notin> set (cl_candidates l) then
       (if length (cl_candidates l) \<ge> limit_of h then act_res (Err (TooManyCandidates (limit_of h)))
        else act_bind (ph_update h (AddCandidateToCandidateList (cl_id l) (p_id person))) (\<lambda>_.
          act_read h (\<lambda>d. act_res (get_candidate_list d (cl_id l)))))
     else act_res (Ok l)))"

definition remove_candidate_action :: "'s pg_handle \<Rightarrow> candidate_list \<Rightarrow> person_id \<Rightarrow> ('s, candidate_list) action" where
  "remove_candidate_action h l person_id =
    (if person_id \<in> set (cl_candidates l)
     then act_bind (ph_update h (RemoveCandidateFromCandidateList (cl_id l) person_id)) (\<lambda>_.
       act_read h (\<lambda>d. act_res (get_candidate_list d (cl_id l))))
     else act_res (Ok l))"

definition get_candidate :: "pg_store_data \<Rightarrow> candidate_list_id \<Rightarrow> person_id \<Rightarrow> candidate result" where
  "get_candidate d list_id person_id =
     bind_res (get_candidate_list d list_id) (\<lambda>l.
       bind_res (ok_or GenericNotFound (position_of l person_id)) (\<lambda>position.
         bind_res (get_person d person_id) (\<lambda>person.
           Ok \<lparr>c_list_id = list_id, c_position = position, c_person = person\<rparr>)))"

text \<open>\<open>impl Ord for Person\<close>: the last name, its prefix, the initials, the place of residence
  and the id, in this order.\<close>

definition place_key :: "place_of_residence \<Rightarrow> nat \<times> rstring" where
  "place_key p = (case p of Known name \<Rightarrow> (0, name) | Unknown name \<Rightarrow> (1, name))"

definition person_key :: "person \<Rightarrow> rstring \<times> rstring option \<times> rstring option \<times> (nat \<times> rstring) option \<times> uuid" where
  "person_key p = (fn_last_name (p_name p), fn_last_name_prefix (p_name p), fn_initials (p_name p),
     map_option place_key (pd_place_of_residence (p_personal_data p)), person_uuid (p_id p))"

definition get_sorted_persons :: "pg_store_data \<Rightarrow> person list" where
  "get_sorted_persons d = sort_key person_key (get_persons d)"

definition persons_not_on_list :: "pg_store_data \<Rightarrow> candidate_list_id \<Rightarrow> person_id list \<Rightarrow> person list result" where
  "persons_not_on_list d list_id included =
     bind_res (get_candidate_list d list_id) (\<lambda>l.
       Ok (filter (\<lambda>p. p_id p \<notin> set (cl_candidates l) \<or> p_id p \<in> set included) (get_sorted_persons d)))"

definition create_list :: "'s pg_handle \<Rightarrow> candidate_list \<Rightarrow> ('s, unit) action" where
  "create_list h l = ph_update h (CreateCandidateList l)"

definition update_districts :: "'s pg_handle \<Rightarrow> candidate_list \<Rightarrow> ('s, unit) action" where
  "update_districts h l = ph_update h (UpdateCandidateListDistricts (cl_id l) (cl_electoral_districts l))"

definition delete_list :: "'s pg_handle \<Rightarrow> candidate_list \<Rightarrow> ('s, unit) action" where
  "delete_list h l = ph_update h (DeleteCandidateList (cl_id l))"

subsection \<open>Persons\<close>

definition create_from_personal_data ::
  "'s pg_handle \<Rightarrow> person_id \<Rightarrow> full_name \<Rightarrow> personal_data \<Rightarrow> ('s, person) action" where
  "create_from_personal_data h person_id name personal_data =
     act_bind (ph_update h (CreatePersonPersonalData person_id name personal_data)) (\<lambda>_.
       act_read h (\<lambda>d. act_res (get_person d person_id)))"

definition update_personal_data :: "'s pg_handle \<Rightarrow> person \<Rightarrow> full_name \<Rightarrow> personal_data \<Rightarrow> ('s, person) action" where
  "update_personal_data h p name personal_data =
     act_bind (ph_update h (UpdatePersonPersonalData (p_id p) name personal_data)) (\<lambda>_.
       act_read h (\<lambda>d. act_res (get_person d (p_id p))))"

definition create_person_action :: "'s pg_handle \<Rightarrow> person \<Rightarrow> ('s, unit) action" where
  "create_person_action h p = ph_update h (CreatePerson p)"

definition update_person_action :: "'s pg_handle \<Rightarrow> person \<Rightarrow> ('s, unit) action" where
  "update_person_action h p = ph_update h (UpdatePerson p)"

definition bag_dutch :: "form_env \<Rightarrow> dutch_address \<Rightarrow> dutch_address" where
  "bag_dutch env a = update_is_known_in_bag (fe_address_exists env) house_number_as_number a"

definition update_representative_action :: "'s pg_handle \<Rightarrow> person \<Rightarrow> representative option \<Rightarrow> ('s, unit) action" where
  "update_representative_action h p r = ph_update h (UpdatePersonRepresentative (p_id p) r)"

definition save_representative :: "form_env \<Rightarrow> 's pg_handle \<Rightarrow> person \<Rightarrow> representative \<Rightarrow> ('s, unit) action" where
  "save_representative env h p r =
     update_representative_action h p (Some (r\<lparr>rep_address := bag_dutch env (rep_address r)\<rparr>))"

definition update_address_action :: "'s pg_handle \<Rightarrow> person \<Rightarrow> dutch_address \<Rightarrow> ('s, unit) action" where
  "update_address_action h p a = ph_update h (UpdatePersonAddress (p_id p) a)"

definition save_address :: "form_env \<Rightarrow> 's pg_handle \<Rightarrow> person \<Rightarrow> ('s, unit) action" where
  "save_address env h p = update_address_action h p (bag_dutch env (p_address p))"

definition delete_person_action :: "'s pg_handle \<Rightarrow> person \<Rightarrow> ('s, unit) action" where
  "delete_person_action h p = ph_update h (DeletePerson (p_id p))"

text \<open>\<open>compare_persons\<close> as a key: each field compares as an optional text, the time of the
  last update as a number.\<close>

datatype person_sort = SortLastName | SortFirstName | SortInitials | SortGender | SortPlaceOfResidence | SortUpdatedAt

fun gender_key :: "gender \<Rightarrow> rstring" where
  "gender_key Female = [0]"
| "gender_key Male = [1]"

definition compare_key :: "person_sort \<Rightarrow> person \<Rightarrow> int \<times> rstring option list \<times> uuid" where
  "compare_key sort_field p = (case sort_field of
      SortLastName \<Rightarrow> (0, [Some (fn_last_name (p_name p)), Some (as_str_or_empty (fn_last_name_prefix (p_name p))), fn_initials (p_name p)], person_uuid (p_id p))
    | SortFirstName \<Rightarrow> (0, [Some (as_str_or_empty (fn_first_name (p_name p))), Some (fn_last_name (p_name p))], person_uuid (p_id p))
    | SortInitials \<Rightarrow> (0, [fn_initials (p_name p), Some (fn_last_name (p_name p))], person_uuid (p_id p))
    | SortGender \<Rightarrow> (0, [map_option gender_key (pd_gender (p_personal_data p)), Some (fn_last_name (p_name p))], person_uuid (p_id p))
    | SortPlaceOfResidence \<Rightarrow> (0, [Some (case pd_place_of_residence (p_personal_data p) of None \<Rightarrow> [] | Some place \<Rightarrow> place_as_str place), Some (fn_last_name (p_name p))], person_uuid (p_id p))
    | SortUpdatedAt \<Rightarrow> (p_updated_at p, [], person_uuid (p_id p)))"

definition list_persons :: "pg_store_data \<Rightarrow> nat \<Rightarrow> nat \<Rightarrow> person_sort \<Rightarrow> bool \<Rightarrow> person list" where
  "list_persons d limit offset sort_field descending =
    (let persons = sort_key (compare_key sort_field) (get_persons d);
         persons = (if descending then rev persons else persons)
     in take limit (drop offset persons))"

subsection \<open>The group, its submitters and its name authorisations\<close>

definition update_submitter :: "'s pg_handle \<Rightarrow> list_submitter \<Rightarrow> ('s, unit) action" where
  "update_submitter h ls = ph_update h (UpdateListSubmitter ls)"

definition create_substitute :: "'s pg_handle \<Rightarrow> list_submitter \<Rightarrow> ('s, unit) action" where
  "create_substitute h ls = ph_update h (CreateSubstituteSubmitter ls)"

definition update_substitute :: "'s pg_handle \<Rightarrow> list_submitter \<Rightarrow> ('s, unit) action" where
  "update_substitute h ls = ph_update h (UpdateSubstituteSubmitter ls)"

definition delete_substitute :: "'s pg_handle \<Rightarrow> list_submitter \<Rightarrow> ('s, unit) action" where
  "delete_substitute h ls = ph_update h (DeleteSubstituteSubmitter (ls_id ls))"

definition create_authorisation :: "'s pg_handle \<Rightarrow> name_authorisation \<Rightarrow> ('s, unit) action" where
  "create_authorisation h a = ph_update h (CreateNameAuthorisation a)"

definition update_authorisation :: "'s pg_handle \<Rightarrow> name_authorisation \<Rightarrow> ('s, unit) action" where
  "update_authorisation h a = ph_update h (UpdateNameAuthorisation a)"

definition delete_authorisation :: "'s pg_handle \<Rightarrow> name_authorisation \<Rightarrow> ('s, unit) action" where
  "delete_authorisation h a = ph_update h (DeleteNameAuthorisation (na_id a))"

definition update_group :: "'s pg_handle \<Rightarrow> political_group \<Rightarrow> ('s, unit) action" where
  "update_group h g = ph_update h (UpdatePoliticalGroup g)"

definition is_general_information_empty :: "pg_store_data \<Rightarrow> political_group \<Rightarrow> bool" where
  "is_general_information_empty d g = (pg_list_designation g = None
     \<and> is_empty_or_none (pg_appellation g) \<and> pg_previous_election_results g = None
     \<and> get_name_authorisations d = [] \<and> submitter_is_empty (d_list_submitter d) \<and> d_substitute_submitters d = [])"

end
