(* ===== verification/Csv.thy ===== *)
theory Csv
  imports Text
begin

text \<open>
  Reading and writing comma-separated values (\<open>core/csv.rs\<close>): the neutralising of cells a
  spreadsheet would evaluate, the choice of the separator, the bounds every record is held to
  before the reader sees it, and the loop that collects records or errors.

  The reader and writer of the \<open>csv\<close> package and its deserialisation are parameters
  (\<open>csv_env\<close>). The bounds check is a loop over an index and may be called on any input, so it
  is a partial function: \<open>None\<close> would be a call that does not return.
\<close>

definition MAX_ERRORS :: nat where "MAX_ERRORS = 50"
definition MAX_HEADER_LINE_BYTES :: nat where "MAX_HEADER_LINE_BYTES = 4 * 1024"
definition MAX_HEADER_FIELDS :: nat where "MAX_HEADER_FIELDS = 64"

text \<open>The text of the package's own error stands for its kind.\<close>

datatype csv_error =
    FormatError nat rstring
  | ParseError nat rstring rstring
  | TooManyErrors nat
  | HeaderTooLarge
  | RecordTooWide nat

subsection \<open>Cells\<close>

definition starts_with_formula_trigger :: "rstring \<Rightarrow> bool" where
  "starts_with_formula_trigger cell = (case str_bytes cell of
      [] \<Rightarrow> False
    | b # _ \<Rightarrow> b = 0x3D \<or> b = 0x2B \<or> b = 0x2D \<or> b = 0x40 \<or> b = 0x27 \<or> b = 0x09 \<or> b = 0x0D)"

definition escape_csv_formula :: "rstring \<Rightarrow> rstring" where
  "escape_csv_formula cell = (if starts_with_formula_trigger cell then 0x27 # cell else cell)"

definition unescape_csv_formula :: "rstring \<Rightarrow> rstring" where
  "unescape_csv_formula cell =
     (if cell \<noteq> [] \<and> hd cell = 0x27 \<and> starts_with_formula_trigger (tl cell) then tl cell else cell)"

subsection \<open>Separators and column names\<close>

abbreviation newline :: byte where "newline \<equiv> 0x0A"
abbreviation carriage_return :: byte where "carriage_return \<equiv> 0x0D"
abbreviation quote :: byte where "quote \<equiv> 0x22"
abbreviation comma :: byte where "comma \<equiv> 0x2C"
abbreviation semicolon :: byte where "semicolon \<equiv> 0x3B"

definition first_line :: "byte list \<Rightarrow> byte list" where
  "first_line data = takeWhile (\<lambda>b. b \<noteq> newline) data"

definition detect_delimiter :: "byte list \<Rightarrow> byte" where
  "detect_delimiter data = (let line = first_line data in
     if length (filter (\<lambda>b. b = semicolon) line) > length (filter (\<lambda>b. b = comma) line) then semicolon else comma)"

definition normalize_column_name :: "(rstring \<Rightarrow> rstring) \<Rightarrow> rstring \<Rightarrow> rstring" where
  "normalize_column_name to_lowercase name =
     map (\<lambda>c. if c = 32 \<or> c = 45 then 95 else c) (to_lowercase (trim name))"

subsection \<open>The bounds of a record\<close>

definition UTF8_BOM :: "byte list" where "UTF8_BOM = [0xEF, 0xBB, 0xBF]"

definition strip_bom :: "byte list \<Rightarrow> byte list" where
  "strip_bom data = (if take 3 data = UTF8_BOM then drop 3 data else data)"

definition too_wide :: "bool \<Rightarrow> nat \<Rightarrow> csv_error" where
  "too_wide is_header line_number = (if is_header then HeaderTooLarge else RecordTooWide line_number)"

record bounds_state =
  bs_index :: nat
  bs_is_header :: bool
  bs_line_number :: nat
  bs_record_line :: nat
  bs_record_start :: nat
  bs_separators :: nat
  bs_quoted :: bool
  bs_at_field_start :: bool

definition bounds_init :: bounds_state where
  "bounds_init = \<lparr>bs_index = 0, bs_is_header = True, bs_line_number = 1, bs_record_line = 1, bs_record_start = 0,
     bs_separators = 0, bs_quoted = False, bs_at_field_start = True\<rparr>"

text \<open>One turn of the loop, which runs while the index is in the data.\<close>

definition bounds_step :: "byte list \<Rightarrow> byte \<Rightarrow> bounds_state \<Rightarrow> csv_error + bounds_state" where
  "bounds_step data delimiter st =
    (let at_byte = bs_index st; b = data ! at_byte;
         st = st\<lparr>bs_index := at_byte + 1, bs_line_number := bs_line_number st + (if b = newline then 1 else 0)\<rparr>
     in if bs_quoted st then
          (if b = quote then
             (if bs_index st < length data \<and> data ! bs_index st = quote
              then Inr (st\<lparr>bs_index := bs_index st + 1\<rparr>)
              else Inr (st\<lparr>bs_quoted := False\<rparr>))
           else Inr st)
        else if b = quote \<and> bs_at_field_start st then Inr (st\<lparr>bs_quoted := True, bs_at_field_start := False\<rparr>)
        else if b = newline \<or> b = carriage_return then
          (let empty = (at_byte = bs_record_start st) in
           if bs_is_header st \<and> \<not> empty \<and> at_byte - bs_record_start st > MAX_HEADER_LINE_BYTES
           then Inl HeaderTooLarge
           else Inr (st\<lparr>bs_is_header := (if bs_is_header st \<and> \<not> empty then False else bs_is_header st),
             bs_record_line := bs_line_number st, bs_record_start := at_byte + 1, bs_separators := 0,
             bs_at_field_start := True\<rparr>))
        else if b = delimiter then
          (if bs_separators st + 1 \<ge> MAX_HEADER_FIELDS then Inl (too_wide (bs_is_header st) (bs_record_line st))
           else Inr (st\<lparr>bs_separators := bs_separators st + 1, bs_at_field_start := True\<rparr>))
        else Inr (st\<lparr>bs_at_field_start := False\<rparr>))"

partial_function (option) bounds_loop :: "byte list \<Rightarrow> byte \<Rightarrow> bounds_state \<Rightarrow> (csv_error + bounds_state) option" where
  "bounds_loop data delimiter st =
    (if bs_index st < length data
     then (case bounds_step data delimiter st of
         Inl e \<Rightarrow> Some (Inl e)
       | Inr st' \<Rightarrow> bounds_loop data delimiter st')
     else Some (Inr st))"

declare bounds_loop.simps [code]

definition check_record_bounds :: "byte list \<Rightarrow> byte \<Rightarrow> (csv_error + unit) option" where
  "check_record_bounds data delimiter =
    (let data = strip_bom data in
     case bounds_loop data delimiter bounds_init of
       None \<Rightarrow> None
     | Some (Inl e) \<Rightarrow> Some (Inl e)
     | Some (Inr st) \<Rightarrow>
         if bs_is_header st \<and> length data - bs_record_start st > MAX_HEADER_LINE_BYTES
         then Some (Inl HeaderTooLarge) else Some (Inr ()))"

subsection \<open>Reading rows\<close>

text \<open>What the package reads from the data with a separator: the names of the first record and
  the records that follow, each possibly an error; cells are trimmed.\<close>

record 'r csv_env =
  ce_headers :: "byte \<Rightarrow> byte list \<Rightarrow> rstring list option"
  ce_rows :: "byte \<Rightarrow> byte list \<Rightarrow> (rstring + rstring list) list"
  ce_deserialize :: "rstring list option \<Rightarrow> rstring list \<Rightarrow> rstring + 'r"
  ce_lowercase :: "rstring \<Rightarrow> rstring"

text \<open>\<open>reader_from_bytes\<close>: the normalised names and the records.\<close>

definition reader_from_bytes ::
  "'r csv_env \<Rightarrow> byte list \<Rightarrow> (csv_error + rstring list option \<times> (rstring + rstring list) list) option" where
  "reader_from_bytes env data =
    (let delimiter = detect_delimiter data in
     case check_record_bounds data delimiter of
       None \<Rightarrow> None
     | Some (Inl e) \<Rightarrow> Some (Inl e)
     | Some (Inr _) \<Rightarrow> Some (Inr (map_option (map (normalize_column_name (ce_lowercase env))) (ce_headers env delimiter data),
         ce_rows env delimiter data)))"

fun rows_loop ::
  "'r csv_env \<Rightarrow> rstring list option \<Rightarrow> nat \<Rightarrow> nat \<Rightarrow> 'r list \<Rightarrow> csv_error list \<Rightarrow> (rstring + rstring list) list
    \<Rightarrow> 'r list \<times> csv_error list" where
  "rows_loop env headers max_records index records errors [] = (records, errors)"
| "rows_loop env headers max_records index records errors (res # rows) =
    (if length records < max_records then
       (case bind_res res (\<lambda>row. ce_deserialize env headers (map unescape_csv_formula row)) of
         Inr record \<Rightarrow> rows_loop env headers max_records (index + 1) (records @ [record]) errors rows
       | Inl error \<Rightarrow>
           if length errors = MAX_ERRORS then (records, errors @ [TooManyErrors MAX_ERRORS])
           else rows_loop env headers max_records (index + 1) records (errors @ [FormatError (index + 2) error]) rows)
     else (records, errors))"

definition from_bytes :: "'r csv_env \<Rightarrow> byte list \<Rightarrow> nat \<Rightarrow> (csv_error list + 'r list) option" where
  "from_bytes env data max_records =
    (case reader_from_bytes env data of
      None \<Rightarrow> None
    | Some (Inl e) \<Rightarrow> Some (Inl [e])
    | Some (Inr (headers, rows)) \<Rightarrow>
        (case rows_loop env headers max_records 0 [] [] rows of
          (records, errors) \<Rightarrow> Some (if errors = [] then Inr records else Inl errors)))"

subsection \<open>Writing rows\<close>

text \<open>\<open>write_record_safely\<close>: the cells of a record as they reach the file; \<open>cells\<close> is what the
  package's staging writer and reader make of the record.\<close>

definition write_record_safely :: "('r \<Rightarrow> rstring list) \<Rightarrow> 'r \<Rightarrow> rstring list" where
  "write_record_safely cells record = map escape_csv_formula (cells record)"

text \<open>The rows of a generated file.\<close>

definition csv_rows :: "('r \<Rightarrow> rstring list) \<Rightarrow> rstring list option \<Rightarrow> 'r list \<Rightarrow> rstring list list" where
  "csv_rows cells headers records = (case headers of None \<Rightarrow> [] | Some h \<Rightarrow> [h]) @ map (write_record_safely cells) records"

end
