(* ===== verification/Candidate_Import.thy ===== *)
theory Candidate_Import
  imports Actions Csv
begin

text \<open>
  The export and import of a candidate list as a table (\<open>pg/candidate_lists/candidate_record.rs\<close>,
  \<open>importer.rs\<close>): the columns of a person, the check of the headers, the matching of imported
  persons with the ones the group has, and the event the import records.

  \<open>ids\<close> numbers the fresh ids an import may draw. The messages shown for an error are not
  modelled; an error is the structure the message is made of.
\<close>

subsection \<open>The columns\<close>

definition NO_BSN :: rstring where "NO_BSN = lit ''kandidaat heeft geen BSN''"

definition CSV_HEADERS :: "rstring list" where
  "CSV_HEADERS = map lit [''voorletters'', ''roepnaam'', ''voorvoegsel'', ''achternaam'', ''woonplaats'', ''landcode'',
     ''bsn'', ''geboortedatum'', ''geslacht'', ''correspondentie_postcode'', ''correspondentie_huisnummer'',
     ''correspondentie_toevoeging'', ''correspondentie_straatnaam'', ''correspondentie_plaats'',
     ''gemachtigde_voorletters'', ''gemachtigde_voorvoegsel'', ''gemachtigde_achternaam'', ''gemachtigde_postcode'',
     ''gemachtigde_huisnummer'', ''gemachtigde_toevoeging'', ''gemachtigde_straatnaam'', ''gemachtigde_plaats'']"

record candidate_record_csv =
  voorletters :: rstring
  roepnaam :: rstring
  voorvoegsel :: rstring
  achternaam :: rstring
  woonplaats :: rstring
  landcode :: rstring
  bsn_column :: rstring
  geboortedatum :: rstring
  geslacht :: rstring
  correspondentie_postcode :: rstring
  correspondentie_huisnummer :: rstring
  correspondentie_toevoeging :: rstring
  correspondentie_straatnaam :: rstring
  correspondentie_plaats :: rstring
  gemachtigde_voorletters :: rstring
  gemachtigde_voorvoegsel :: rstring
  gemachtigde_achternaam :: rstring
  gemachtigde_postcode :: rstring
  gemachtigde_huisnummer :: rstring
  gemachtigde_toevoeging :: rstring
  gemachtigde_straatnaam :: rstring
  gemachtigde_plaats :: rstring

text \<open>The cells of a record, in the order of the headers.\<close>

definition csv_cells :: "candidate_record_csv \<Rightarrow> rstring list" where
  "csv_cells c = [voorletters c, roepnaam c, voorvoegsel c, achternaam c, woonplaats c, landcode c, bsn_column c,
     geboortedatum c, geslacht c, correspondentie_postcode c, correspondentie_huisnummer c, correspondentie_toevoeging c,
     correspondentie_straatnaam c, correspondentie_plaats c, gemachtigde_voorletters c, gemachtigde_voorvoegsel c,
     gemachtigde_achternaam c, gemachtigde_postcode c, gemachtigde_huisnummer c, gemachtigde_toevoeging c,
     gemachtigde_straatnaam c, gemachtigde_plaats c]"

record candidate_record =
  cr_name :: full_name_form
  cr_personal_data :: personal_data_fields_form
  cr_address :: dutch_address_form
  cr_representative :: "representative_form option"

definition country_from_csv :: "rstring \<Rightarrow> rstring" where
  "country_from_csv code = (if trim code = [] then lit ''NL'' else code)"

definition bsn_from_csv :: "rstring \<Rightarrow> rstring" where
  "bsn_from_csv v = (let v = trim v in if v = NO_BSN then lit ''none-confirmed'' else v)"

definition candidate_record_of_csv :: "candidate_record_csv \<Rightarrow> candidate_record" where
  "candidate_record_of_csv c =
    (let representative = \<lparr>rf_name = \<lparr>mnf_last_name = gemachtigde_achternaam c,
            mnf_last_name_prefix = gemachtigde_voorvoegsel c, mnf_initials = gemachtigde_voorletters c\<rparr>,
          rf_address = \<lparr>daf_locality = gemachtigde_plaats c, daf_postal_code = gemachtigde_postcode c,
            daf_house_number = gemachtigde_huisnummer c, daf_house_number_addition = gemachtigde_toevoeging c,
            daf_street_name = gemachtigde_straatnaam c\<rparr>\<rparr>
     in \<lparr>cr_name = \<lparr>fnf_first_name = roepnaam c, fnf_last_name = achternaam c, fnf_last_name_prefix = voorvoegsel c,
           fnf_initials = voorletters c\<rparr>,
         cr_personal_data = \<lparr>pdf_gender = geslacht c, pdf_date_of_birth = geboortedatum c,
           pdf_bsn = bsn_from_csv (bsn_column c), pdf_place_of_residence = woonplaats c,
           pdf_country = country_from_csv (landcode c)\<rparr>,
         cr_address = \<lparr>daf_locality = correspondentie_plaats c, daf_postal_code = correspondentie_postcode c,
           daf_house_number = correspondentie_huisnummer c, daf_house_number_addition = correspondentie_toevoeging c,
           daf_street_name = correspondentie_straatnaam c\<rparr>,
         cr_representative = (if representative_form_is_empty representative then None else Some representative)\<rparr>)"

definition csv_of_person :: "form_env \<Rightarrow> person \<Rightarrow> candidate_record_csv" where
  "csv_of_person env p =
    (let needs = needs_representative (p_personal_data p); d = p_personal_data p; n = p_name p;
         r = (if needs then (case p_representative p of Some r \<Rightarrow> r | None \<Rightarrow> representative_default) else representative_default);
         a = (if needs then dutch_address_default else p_address p)
     in \<lparr>voorletters = as_str_or_empty (fn_initials n), roepnaam = as_str_or_empty (fn_first_name n),
         voorvoegsel = as_str_or_empty (fn_last_name_prefix n), achternaam = fn_last_name n,
         woonplaats = (case pd_place_of_residence d of None \<Rightarrow> [] | Some place \<Rightarrow> place_as_str place),
         landcode = as_str_or_empty (pd_country d),
         bsn_column = (case pd_bsn d of Some NoneConfirmed \<Rightarrow> NO_BSN | Some (Bsn b) \<Rightarrow> b | None \<Rightarrow> []),
         geboortedatum = (case pd_date_of_birth d of None \<Rightarrow> [] | Some b \<Rightarrow> fe_format_date env b),
         geslacht = (case pd_gender d of Some g \<Rightarrow> gender_abbreviation g AnyNl | None \<Rightarrow> []),
         correspondentie_postcode = as_str_or_empty (da_postal_code a),
         correspondentie_huisnummer = as_str_or_empty (da_house_number a),
         correspondentie_toevoeging = as_str_or_empty (da_house_number_addition a),
         correspondentie_straatnaam = as_str_or_empty (da_street_name a),
         correspondentie_plaats = as_str_or_empty (da_locality a),
         gemachtigde_voorletters = as_str_or_empty (fn_initials (rep_name r)),
         gemachtigde_voorvoegsel = as_str_or_empty (fn_last_name_prefix (rep_name r)),
         gemachtigde_achternaam = fn_last_name (rep_name r),
         gemachtigde_postcode = as_str_or_empty (da_postal_code (rep_address r)),
         gemachtigde_huisnummer = as_str_or_empty (da_house_number (rep_address r)),
         gemachtigde_toevoeging = as_str_or_empty (da_house_number_addition (rep_address r)),
         gemachtigde_straatnaam = as_str_or_empty (da_street_name (rep_address r)),
         gemachtigde_plaats = as_str_or_empty (da_locality (rep_address r))\<rparr>)"

text \<open>The derived validation of a record; an absent representative stays absent.\<close>

definition candidate_record_validate :: "form_env \<Rightarrow> candidate_record \<Rightarrow> person \<Rightarrow> person form_result" where
  "candidate_record_validate env f base =
    (let name = flatten_field (lit ''name'') (full_name_validate (cr_name f) (p_name base));
         personal_data = flatten_field (lit ''personal_data'') (personal_data_validate env (cr_personal_data f) (p_personal_data base));
         address = flatten_field (lit ''address'') (dutch_address_validate env (cr_address f) (p_address base));
         representative = (case cr_representative f of
             None \<Rightarrow> Inr None
           | Some r \<Rightarrow> (case flatten_field (lit ''representative'') (representative_validate env r
                 (case p_representative base of None \<Rightarrow> representative_default | Some b \<Rightarrow> b)) of
               Inl es \<Rightarrow> Inl es | Inr v \<Rightarrow> Inr (Some v)))
     in unless_errors (field_errs name @ field_errs personal_data @ field_errs address @ field_errs representative)
        (base\<lparr>p_name := the_field name, p_personal_data := the_field personal_data, p_address := the_field address,
          p_representative := the_field representative\<rparr>))"

subsection \<open>Headers\<close>

definition MAX_IMPORT_RECORDS :: nat where "MAX_IMPORT_RECORDS = 1000"

definition REQUIRED_HEADERS :: "rstring list" where
  "REQUIRED_HEADERS = [lit ''voorletters'', lit ''achternaam'']"

datatype import_message =
    InvalidHeaders
  | InvalidFileType
  | MissingFile
  | FileTooLarge
  | UploadFailed
  | DuplicateColumns "rstring list"
  | MissingColumns "rstring list"
  | CsvMessage csv_error
  | FieldMessage nat rstring validation_error

datatype import_error = ImportApp app_error | ImportMessages "import_message list"

text \<open>\<open>filter(|name| !seen.insert(name))\<close>: the names met before.\<close>

fun repeated :: "rstring list \<Rightarrow> rstring list \<Rightarrow> rstring list" where
  "repeated seen [] = []"
| "repeated seen (n # ns) = (if n \<in> set seen then n # repeated seen ns else repeated (n # seen) ns)"

definition check_headers :: "rstring list \<Rightarrow> import_message list \<times> rstring list" where
  "check_headers headers =
    (let is_known = (\<lambda>name. name \<in> set CSV_HEADERS); names = filter (\<lambda>n. n \<noteq> []) headers in
     if \<not> list_ex is_known names then ([InvalidHeaders], [])
     else let seen = bt_collect names; duplicates = bt_collect (repeated [] names);
              missing = bt_collect (filter (\<lambda>r. r \<notin> set seen) REQUIRED_HEADERS)
          in ((if duplicates \<noteq> [] then [DuplicateColumns duplicates] else [])
                @ (if missing \<noteq> [] then [MissingColumns missing] else []),
              filter (\<lambda>n. \<not> is_known n) seen))"

text \<open>The outer option is a reader that would not return.\<close>

definition read_headers :: "'r csv_env \<Rightarrow> byte list \<Rightarrow> rstring list option" where
  "read_headers cenv data = (case reader_from_bytes cenv data of
      None \<Rightarrow> None
    | Some (Inl _) \<Rightarrow> Some []
    | Some (Inr (None, _)) \<Rightarrow> Some []
    | Some (Inr (Some headers, _)) \<Rightarrow> Some headers)"

definition ensure_expected_headers :: "'r csv_env \<Rightarrow> byte list \<Rightarrow> (import_error + rstring list) option" where
  "ensure_expected_headers cenv data = map_option (\<lambda>headers. case check_headers headers of (errors, ignored) \<Rightarrow>
     if errors = [] then Inr ignored else Inl (ImportMessages errors)) (read_headers cenv data)"

definition parse_records :: "candidate_record_csv csv_env \<Rightarrow> byte list \<Rightarrow> nat \<Rightarrow> (import_error + candidate_record list) option" where
  "parse_records cenv data max_records = map_option (\<lambda>r. case r of
      Inl errors \<Rightarrow> Inl (ImportMessages (map CsvMessage errors))
    | Inr records \<Rightarrow> Inr (map candidate_record_of_csv records)) (from_bytes cenv data max_records)"

subsection \<open>Persons\<close>

record prepared_person =
  pp_person :: person
  pp_exists :: bool

definition refresh_bag_checks :: "form_env \<Rightarrow> person \<Rightarrow> person" where
  "refresh_bag_checks env p = p\<lparr>p_address := bag_dutch env (p_address p),
     p_representative := map_option (\<lambda>r. r\<lparr>rep_address := bag_dutch env (rep_address r)\<rparr>) (p_representative p)\<rparr>"

definition validate_record :: "form_env \<Rightarrow> person_id \<Rightarrow> timestamp \<Rightarrow> candidate_record \<Rightarrow> nat \<Rightarrow> import_message list + person" where
  "validate_record env fresh now record candidate_number =
    (case candidate_record_validate env record (person_default fresh now) of
      Inr p \<Rightarrow> Inr (refresh_bag_checks env p)
    | Inl errors \<Rightarrow> Inl (map (\<lambda>(field, e). FieldMessage (candidate_number + 1) field e) errors))"

definition same_import_identity :: "person \<Rightarrow> person \<Rightarrow> bool" where
  "same_import_identity p existing = (identity_match_of p existing = Same)"

definition prepare_person :: "person_id \<Rightarrow> person \<Rightarrow> person list \<Rightarrow> prepared_person" where
  "prepare_person fresh p existing_persons =
    (case find (same_import_identity p) existing_persons of
      Some existing \<Rightarrow> \<lparr>pp_person = p\<lparr>p_id := p_id existing\<rparr>, pp_exists = True\<rparr>
    | None \<Rightarrow> \<lparr>pp_person = p\<lparr>p_id := fresh\<rparr>, pp_exists = False\<rparr>)"

text \<open>The first prepared person that is the same is overwritten and keeps its id.\<close>

fun upsert_person :: "person_id \<Rightarrow> person \<Rightarrow> prepared_person list \<Rightarrow> person list \<Rightarrow> prepared_person list" where
  "upsert_person fresh p [] existing = [prepare_person fresh p existing]"
| "upsert_person fresh p (q # qs) existing =
    (if same_import_identity p (pp_person q) then q\<lparr>pp_person := p\<lparr>p_id := p_id (pp_person q)\<rparr>\<rparr> # qs
     else q # upsert_person fresh p qs existing)"

fun collect_loop ::
  "form_env \<Rightarrow> (nat \<Rightarrow> person_id) \<Rightarrow> timestamp \<Rightarrow> person list \<Rightarrow> nat \<Rightarrow> prepared_person list \<Rightarrow> import_message list
    \<Rightarrow> candidate_record list \<Rightarrow> prepared_person list \<times> import_message list" where
  "collect_loop env ids now existing index prepared errors [] = (prepared, errors)"
| "collect_loop env ids now existing index prepared errors (record # records) =
    (case validate_record env (ids index) now record (index + 1) of
      Inr p \<Rightarrow> collect_loop env ids now existing (index + 1) (upsert_person (ids index) p prepared existing) errors records
    | Inl messages \<Rightarrow> collect_loop env ids now existing (index + 1) prepared (errors @ messages) records)"

definition collect_persons ::
  "form_env \<Rightarrow> (nat \<Rightarrow> person_id) \<Rightarrow> timestamp \<Rightarrow> candidate_record list \<Rightarrow> person list \<Rightarrow> import_error + prepared_person list" where
  "collect_persons env ids now records existing = (case collect_loop env ids now existing 0 [] [] records of
     (prepared, errors) \<Rightarrow> if errors = [] then Inr prepared else Inl (ImportMessages errors))"

subsection \<open>The import\<close>

record import_outcome =
  io_capped :: bool
  io_ignored_columns :: "rstring list"

definition has_warnings :: "import_outcome \<Rightarrow> bool" where
  "has_warnings out = (io_capped out \<or> io_ignored_columns out \<noteq> [])"

definition import_event :: "candidate_list \<Rightarrow> rstring \<Rightarrow> nat \<Rightarrow> prepared_person list \<Rightarrow> candidate_import" where
  "import_event l file_name file_size persons =
     \<lparr>ci_list_id = cl_id l, ci_file_name = file_name, ci_file_size = file_size,
      ci_created_persons = map pp_person (filter (\<lambda>p. \<not> pp_exists p) persons),
      ci_updated_persons = map pp_person (filter pp_exists persons),
      ci_candidates = map (\<lambda>p. p_id (pp_person p)) persons\<rparr>"

definition emit_import_event ::
  "'s pg_handle \<Rightarrow> candidate_list \<Rightarrow> prepared_person list \<Rightarrow> rstring \<Rightarrow> nat \<Rightarrow> ('s, candidate_list) action" where
  "emit_import_event h l persons file_name file_size =
     act_bind (ph_update h (ImportCandidates (import_event l file_name file_size persons))) (\<lambda>_.
       act_read h (\<lambda>d. act_res (get_candidate_list d (cl_id l))))"

text \<open>\<open>import_candidate_list_csv\<close>: the outcome and the list, or the error. The task that
  parses is joined; a parser that would not return is the failed join.\<close>

definition import_candidate_list_csv ::
  "form_env \<Rightarrow> candidate_record_csv csv_env \<Rightarrow> (nat \<Rightarrow> person_id) \<Rightarrow> timestamp \<Rightarrow> 's pg_handle \<Rightarrow> candidate_list \<Rightarrow> byte list
    \<Rightarrow> rstring \<Rightarrow> nat \<Rightarrow> 's \<Rightarrow> 's \<times> (import_error + import_outcome \<times> candidate_list)" where
  "import_candidate_list_csv env cenv ids now h l csv_data file_name file_size s =
    (let limit = min (limit_of h) MAX_IMPORT_RECORDS in
     case ensure_expected_headers cenv csv_data of
       None \<Rightarrow> (s, Inl (ImportApp InternalServerError))
     | Some (Inl e) \<Rightarrow> (s, Inl e)
     | Some (Inr ignored) \<Rightarrow> (case parse_records cenv csv_data (limit + 1) of
         None \<Rightarrow> (s, Inl (ImportApp InternalServerError))
       | Some (Inl e) \<Rightarrow> (s, Inl e)
       | Some (Inr records) \<Rightarrow>
           (let capped = length records > limit; records = take limit records in
            case collect_persons env ids now records (get_persons (ph_snapshot h s)) of
              Inl e \<Rightarrow> (s, Inl e)
            | Inr persons \<Rightarrow> (case emit_import_event h l persons file_name file_size s of
                (s', Inl e) \<Rightarrow> (s', Inl (ImportApp e))
              | (s', Inr l') \<Rightarrow> (s', Inr (\<lparr>io_capped = capped, io_ignored_columns = ignored\<rparr>, l'))))))"

text \<open>\<open>export_candidate_list\<close> names the file and fills the rows.\<close>

definition has_csv_extension :: "rstring \<Rightarrow> bool" where
  "has_csv_extension name = (let lowered = map to_ascii_lowercase name in
     ends_with lowered (lit ''.csv'') \<and> str_len lowered > str_len (lit ''.csv''))"

subsection \<open>The uploaded file\<close>

text \<open>\<open>form/file_form.rs\<close>: the parts of a multipart body as they arrive, a part or the failure
  to read it. The parser of the body is the framework's.\<close>

datatype upload_error = MultipartFormError nat | MultipartError | UploadOther app_error

record multipart_field =
  mf_name :: "rstring option"
  mf_file_name :: "rstring option"
  mf_bytes :: "upload_error + byte list"

record file_form =
  ff_file_name :: "rstring option"
  ff_file_data :: "byte list option"

definition MAX_FILE_NAME_LEN :: nat where "MAX_FILE_NAME_LEN = 255"

text \<open>What follows the last slash or backslash.\<close>

definition base_name :: "rstring \<Rightarrow> rstring" where
  "base_name s = rev (takeWhile (\<lambda>c. c \<noteq> 47 \<and> c \<noteq> 92) (rev s))"

definition sanitize_file_name :: "rstring option \<Rightarrow> rstring option" where
  "sanitize_file_name raw = (case raw of None \<Rightarrow> None | Some s \<Rightarrow>
     let cleaned = take MAX_FILE_NAME_LEN (filter (\<lambda>c. \<not> is_control c) (base_name s)); trimmed = trim cleaned in
     if trimmed \<noteq> [] then Some trimmed else None)"

fun read_fields :: "file_form \<Rightarrow> (upload_error + multipart_field) list \<Rightarrow> upload_error + file_form" where
  "read_fields form [] = Inr form"
| "read_fields form (Inl e # _) = Inl e"
| "read_fields form (Inr field # rest) =
    (if mf_name field = Some (lit ''file_data'')
     then let form = form\<lparr>ff_file_name := sanitize_file_name (mf_file_name field)\<rparr> in
       (case mf_bytes field of
         Inl e \<Rightarrow> Inl e
       | Inr bytes \<Rightarrow> read_fields (form\<lparr>ff_file_data := Some bytes\<rparr>) rest)
     else read_fields form rest)"

definition file_form_from_request :: "upload_error + (upload_error + multipart_field) list \<Rightarrow> upload_error + file_form" where
  "file_form_from_request req = (case req of
      Inl e \<Rightarrow> Inl e
    | Inr parts \<Rightarrow> read_fields \<lparr>ff_file_name = None, ff_file_data = None\<rparr> parts)"

text \<open>The failures shown on the page; the others keep their error page.\<close>

definition upload_error_messages :: "upload_error \<Rightarrow> app_error + import_message list" where
  "upload_error_messages e = (case e of
      MultipartFormError status \<Rightarrow> if status = 413 then Inr [FileTooLarge] else Inr [UploadFailed]
    | MultipartError \<Rightarrow> Inr [UploadFailed]
    | UploadOther err \<Rightarrow> Inl err)"

text \<open>A name that was sanitised is bounded, holds no separator and no control character.\<close>

lemma sanitize_file_name_safe:
  assumes "sanitize_file_name raw = Some name"
  shows "name \<noteq> [] \<and> length name \<le> MAX_FILE_NAME_LEN \<and> 47 \<notin> set name \<and> 92 \<notin> set name \<and> \<not> list_ex is_control name"
proof -
  from assms obtain s where name: "name = trim (take MAX_FILE_NAME_LEN (filter (\<lambda>c. \<not> is_control c) (base_name s)))" "name \<noteq> []"
    by (auto simp: sanitize_file_name_def Let_def split: option.splits if_splits)
  have sub: "set (trim t) \<subseteq> set t" and len: "length (trim t) \<le> length t" for t :: rstring
    by (auto simp: trim_def trim_start_def trim_end_def dest!: set_dropWhileD)
      (metis (no_types, lifting) length_dropWhile_le length_rev order_trans)
  have "set name \<subseteq> set (filter (\<lambda>c. \<not> is_control c) (base_name s))"
    using sub [of "take MAX_FILE_NAME_LEN (filter (\<lambda>c. \<not> is_control c) (base_name s))"] name(1) set_take_subset by fastforce
  moreover have "c \<noteq> 47 \<and> c \<noteq> 92" if "c \<in> set (base_name s)" for c
    using that by (auto simp: base_name_def dest: set_takeWhileD)
  moreover have "length name \<le> MAX_FILE_NAME_LEN"
    using len [of "take MAX_FILE_NAME_LEN (filter (\<lambda>c. \<not> is_control c) (base_name s))"] name(1) by simp
  ultimately show ?thesis using name(2) by (auto simp: list_ex_iff)
qed

end
