(* ===== verification/Redirects.thy ===== *)
theory Redirects
  imports Text
begin

text \<open>
  The query parameters a page carries along (\<open>utils/query_param_state.rs\<close>) and the redirects
  built from them and from a \<open>Referer\<close> (\<open>utils/redirect.rs\<close>). A redirect target that comes from
  the client is followed only when it is a path on this host. The \<open>Uri\<close> parser is a parameter.
\<close>

record query_param_state =
  qp_initial :: bool
  qp_success :: bool
  qp_highlight :: "uuid option"
  qp_highlight_last :: "nat option"
  qp_redirect_to :: "rstring option"
  qp_overlay :: bool
  qp_max_candidates_reached :: bool
  qp_import_capped :: bool
  qp_ignored_columns :: "rstring option"
  qp_session_expired :: bool

definition query_default :: query_param_state where
  "query_default = \<lparr>qp_initial = False, qp_success = False, qp_highlight = None, qp_highlight_last = None,
     qp_redirect_to = None, qp_overlay = False, qp_max_candidates_reached = False, qp_import_capped = False,
     qp_ignored_columns = None, qp_session_expired = False\<rparr>"

definition should_warn :: "query_param_state \<Rightarrow> bool" where
  "should_warn q = (\<not> qp_initial q)"

definition ignored_columns_of :: "query_param_state \<Rightarrow> rstring list" where
  "ignored_columns_of q = filter (\<lambda>name. name \<noteq> [])
     (case qp_ignored_columns q of None \<Rightarrow> [] | Some names \<Rightarrow> split_on 44 names)"

definition MAX_IGNORED_COLUMNS_LEN :: nat where "MAX_IGNORED_COLUMNS_LEN = 200"

text \<open>The loop over the names, which stops at the first that does not fit.\<close>

fun join_names :: "rstring \<Rightarrow> rstring list \<Rightarrow> rstring" where
  "join_names joined [] = joined"
| "join_names joined (name # names) =
    (let next_len = str_len joined + str_len name + (if joined \<noteq> [] then 1 else 0) in
     if next_len > MAX_IGNORED_COLUMNS_LEN then joined
     else join_names (joined @ (if joined \<noteq> [] then [44] else []) @ name) names)"

definition import_warnings :: "bool \<Rightarrow> rstring list \<Rightarrow> query_param_state" where
  "import_warnings capped names = (let joined = join_names [] names in
     query_default\<lparr>qp_import_capped := capped, qp_ignored_columns := (if joined \<noteq> [] then Some joined else None)\<rparr>)"

subsection \<open>Redirects\<close>

text \<open>\<open>str::contains\<close> of a text.\<close>

fun str_contains :: "rstring \<Rightarrow> rstring \<Rightarrow> bool" where
  "str_contains [] pat = (pat = [])"
| "str_contains (c # s) pat = (starts_with (c # s) pat \<or> str_contains s pat)"

definition is_ascii_control :: "byte \<Rightarrow> bool" where
  "is_ascii_control b = (b < 32 \<or> b = 127)"

definition is_local_path :: "rstring \<Rightarrow> bool" where
  "is_local_path url = (starts_with url (lit ''/'') \<and> \<not> starts_with url (lit ''//'') \<and> 92 \<notin> set url
     \<and> \<not> list_ex is_ascii_control (str_bytes url))"

definition redirect_url :: "query_param_state \<Rightarrow> rstring option" where
  "redirect_url q = (case qp_redirect_to q of Some url \<Rightarrow> if is_local_path url then Some url else None | None \<Rightarrow> None)"

definition redirect_url_or :: "query_param_state \<Rightarrow> rstring \<Rightarrow> rstring" where
  "redirect_url_or q fallback =
    (let url = (case redirect_url q of None \<Rightarrow> fallback | Some u \<Rightarrow> u);
         url = (if 63 \<notin> set url then url @ lit ''?&success=true'' else url)
     in if qp_overlay q \<and> \<not> str_contains url (lit ''overlay='') then url @ lit ''&overlay=true'' else url)"

definition redirect_or_highlighting :: "(uuid \<Rightarrow> rstring) \<Rightarrow> query_param_state \<Rightarrow> rstring \<Rightarrow> uuid \<Rightarrow> rstring" where
  "redirect_or_highlighting uuid_text q fallback i = redirect_url_or q fallback @ lit ''&highlight='' @ uuid_text i"

definition redirect_or_preserving_initial :: "query_param_state \<Rightarrow> rstring \<Rightarrow> rstring" where
  "redirect_or_preserving_initial q fallback =
    (let url = redirect_url_or q fallback in
     if qp_initial q \<and> \<not> str_contains url (lit ''initial='')
     then (if 63 \<in> set url then url @ lit ''&initial=true'' else url @ lit ''?initial=true'')
     else url)"

text \<open>\<open>path_and_query\<close> stands for the parse of the header as a \<open>Uri\<close>.\<close>

definition redirect_to_referer :: "(rstring \<Rightarrow> rstring option) \<Rightarrow> rstring \<Rightarrow> rstring \<Rightarrow> rstring" where
  "redirect_to_referer path_and_query referer fallback =
    (case path_and_query referer of
      Some path \<Rightarrow> if is_local_path path then path else fallback
    | None \<Rightarrow> fallback)"

subsection \<open>Facts\<close>

lemma starts_with_iff: "starts_with s p \<longleftrightarrow> (\<exists>r. s = p @ r)"
  by (metis append_eq_conv_conj append_take_drop_id starts_with_def)

lemma starts_with_append: "starts_with s p \<Longrightarrow> starts_with (s @ t) p"
  by (auto simp: starts_with_iff)

lemma starts_with_slash_append: "s \<noteq> [] \<Longrightarrow> \<not> starts_with s (lit ''//'') \<Longrightarrow> hd t \<noteq> 47 \<Longrightarrow> \<not> starts_with (s @ t) (lit ''//'')"
  by (cases s; cases "tl s"; cases t) (auto simp: starts_with_def lit_def)

lemma str_bytes_append: "str_bytes (s @ t) = str_bytes s @ str_bytes t"
  by (simp add: str_bytes_def)

text \<open>A suffix of harmless characters keeps a path local.\<close>

definition harmless :: "rstring \<Rightarrow> bool" where
  "harmless t = (t \<noteq> [] \<and> hd t \<noteq> 47 \<and> 92 \<notin> set t \<and> \<not> list_ex is_ascii_control (str_bytes t))"

lemma is_local_path_append: "is_local_path s \<Longrightarrow> harmless t \<Longrightarrow> is_local_path (s @ t)"
proof -
  assume s: "is_local_path s" and t: "harmless t"
  then have "s \<noteq> []" by (auto simp: is_local_path_def starts_with_def lit_def)
  with starts_with_slash_append [of s t] s t show "is_local_path (s @ t)"
    by (simp add: is_local_path_def harmless_def str_bytes_append starts_with_append)
qed

lemma harmless_literals:
  "harmless (lit ''?&success=true'')" "harmless (lit ''&overlay=true'')" "harmless (lit ''&initial=true'')"
  "harmless (lit ''?initial=true'')" "harmless (lit ''&highlight='')"
  by (simp_all add: harmless_def lit_def str_bytes_def utf8_char_def is_ascii_control_def)

lemma is_local_path_host:
  "is_local_path url \<Longrightarrow> \<exists>rest. url = 47 # rest \<and> (rest \<noteq> [] \<longrightarrow> hd rest \<noteq> 47 \<and> hd rest \<noteq> 92)"
  by (cases url; cases "tl url") (auto simp: is_local_path_def starts_with_def lit_def)

lemma redirect_url_or_local: "is_local_path fallback \<Longrightarrow> is_local_path (redirect_url_or q fallback)"
  unfolding redirect_url_or_def redirect_url_def Let_def
  by (auto simp: is_local_path_append harmless_literals split: option.splits)

lemma preserving_initial_local: "is_local_path fallback \<Longrightarrow> is_local_path (redirect_or_preserving_initial q fallback)"
  using redirect_url_or_local [of fallback q]
  by (auto simp: redirect_or_preserving_initial_def Let_def is_local_path_append harmless_literals)

subsection \<open>The names of ignored columns\<close>

text \<open>The names that fit: those of the longest prefix whose joined text stays within the bound.\<close>

lemma join_names_prefix:
  "\<exists>k\<le>length names. join_names joined names = joined @ concat (map (\<lambda>n. 44 # n) (take k names))
     \<and> (str_len joined \<le> MAX_IGNORED_COLUMNS_LEN \<longrightarrow> str_len (join_names joined names) \<le> MAX_IGNORED_COLUMNS_LEN)"
  if "joined \<noteq> []" for joined
  using that
proof (induction joined names rule: join_names.induct)
  case (2 joined name names)
  show ?case
  proof (cases "str_len joined + str_len name + 1 > MAX_IGNORED_COLUMNS_LEN")
    case True
    with 2(2) show ?thesis by (intro exI [of _ 0]) (simp add: Let_def)
  next
    case False
    from 2 False obtain k where k: "k \<le> length names"
      "join_names (joined @ [44] @ name) names = (joined @ [44] @ name) @ concat (map (\<lambda>n. 44 # n) (take k names))"
      "str_len (joined @ [44] @ name) \<le> MAX_IGNORED_COLUMNS_LEN \<longrightarrow>
        str_len (join_names (joined @ [44] @ name) names) \<le> MAX_IGNORED_COLUMNS_LEN"
      by auto
    have "str_len (joined @ [44] @ name) \<le> MAX_IGNORED_COLUMNS_LEN"
      using False by (simp add: len_utf8_def)
    with k False 2(2) show ?thesis by (intro exI [of _ "Suc k"]) (simp add: Let_def)
  qed
qed simp

lemma split_on_concat:
  "44 \<notin> set n \<Longrightarrow> \<forall>x\<in>set names. 44 \<notin> set x \<Longrightarrow> split_on 44 (n @ concat (map (\<lambda>n. 44 # n) names)) = n # names"
proof (induction names arbitrary: n)
  case (Cons x xs)
  from Cons.prems Cons.IH [of x] show ?case by (simp add: split_on_append)
qed (simp add: split_on_id)

text \<open>Reading the parameter gives back the leading names that fit.\<close>

lemma ignored_columns_roundtrip:
  assumes "\<forall>n\<in>set names. n \<noteq> [] \<and> 44 \<notin> set n"
  shows "\<exists>k. ignored_columns_of (import_warnings capped names) = take k names"
    "\<forall>s. qp_ignored_columns (import_warnings capped names) = Some s \<longrightarrow> str_len s \<le> MAX_IGNORED_COLUMNS_LEN"
proof -
  have "(\<exists>k. ignored_columns_of (import_warnings capped names) = take k names)
    \<and> (\<forall>s. qp_ignored_columns (import_warnings capped names) = Some s \<longrightarrow> str_len s \<le> MAX_IGNORED_COLUMNS_LEN)"
  proof (cases names)
    case Nil
    then show ?thesis by (simp add: import_warnings_def ignored_columns_of_def query_default_def)
  next
    case (Cons n rest)
    show ?thesis
    proof (cases "str_len n > MAX_IGNORED_COLUMNS_LEN")
      case True
      with Cons show ?thesis
        by (intro conjI exI [of _ 0]) (simp_all add: import_warnings_def ignored_columns_of_def query_default_def)
    next
      case False
      from Cons assms have "n \<noteq> []" by simp
      from join_names_prefix [OF this, of rest] obtain k where k: "k \<le> length rest"
        "join_names n rest = n @ concat (map (\<lambda>n. 44 # n) (take k rest))"
        "str_len (join_names n rest) \<le> MAX_IGNORED_COLUMNS_LEN" using False by auto
      from Cons assms have ok: "44 \<notin> set n" "\<forall>x\<in>set (take k rest). 44 \<notin> set x" "\<forall>x\<in>set (take k rest). x \<noteq> []"
        by (auto dest: in_set_takeD)
      have "join_names [] names = join_names n rest" using Cons False by simp
      then have p: "qp_ignored_columns (import_warnings capped names) = Some (join_names n rest)"
        using k(2) \<open>n \<noteq> []\<close> by (simp add: import_warnings_def)
      then have "ignored_columns_of (import_warnings capped names) = n # take k rest"
        using k(2) split_on_concat [OF ok(1,2)] ok(3) \<open>n \<noteq> []\<close> by (simp add: ignored_columns_of_def)
      then have "ignored_columns_of (import_warnings capped names) = take (Suc k) names" using Cons by simp
      with p k(3) show ?thesis by auto
    qed
  qed
  then show "\<exists>k. ignored_columns_of (import_warnings capped names) = take k names"
    "\<forall>s. qp_ignored_columns (import_warnings capped names) = Some s \<longrightarrow> str_len s \<le> MAX_IGNORED_COLUMNS_LEN"
    by blast+
qed

end
