(* ===== verification/Pages.thy ===== *)
theory Pages
  imports Candidate_Import Documents Redirects
begin

text \<open>
  The pages that change a group's data (\<open>pg/*/pages\<close>): what each posted form does. A handler
  loads what its path names (\<open>pg/*/extractors\<close>), validates the form, runs the operations of
  \<open>Actions\<close> and answers with a page. Rendering is not modelled: a page shown again is its field
  errors, a redirect is its destination.

  The election's districts, the texts of an error and the environments of the forms are one
  record; ids drawn by a handler are arguments.
\<close>

record page_env =
  pv_forms :: form_env
  pv_problems :: problem_env
  pv_elections :: election_env
  pv_election :: election_config
  pv_text :: "rstring \<Rightarrow> rstring"
  pv_now :: timestamp

datatype route =
    ListsPage
  | ListPage candidate_list_id
  | ListCreatedPage candidate_list_id
  | MaxCandidatesPage candidate_list_id
  | ImportWarningsPage candidate_list_id bool "rstring list"
  | CandidateHighlightPage candidate_list_id person_id
  | CandidateCreatedPage candidate_list_id person_id
  | CandidateUpdatedPage candidate_list_id person_id
  | CandidateUpdatePage candidate_list_id person_id
  | PersonsPage
  | PersonCreatedPage person_id
  | PersonUpdatedPage person_id
  | PersonHighlightPage person_id
  | SubmittersPage
  | AuthorisationsPage
  | GroupPage

datatype page =
    Shown field_errors
  | ShownImport "import_message list"
  | RedirectTo route
  | RedirectOr route
  | RedirectOrInitial route
  | RedirectPath rstring
  | NoContent
  | AddPage "nat option" "person_id option"
  | Attachment rstring "rstring list list"

abbreviation page_districts :: "page_env \<Rightarrow> electoral_district list" where
  "page_districts v \<equiv> electoral_districts (pv_elections v) (pv_election v)"

subsection \<open>Loading what a path names\<close>

definition not_found :: "page_env \<Rightarrow> string \<Rightarrow> 'a result \<Rightarrow> 'a result" where
  "not_found v key r = (case r of Inl _ \<Rightarrow> Inl (NotFound (pv_text v (lit key))) | Inr a \<Rightarrow> Inr a)"

definition load_list :: "page_env \<Rightarrow> 's pg_handle \<Rightarrow> candidate_list_id \<Rightarrow> ('s, candidate_list) action" where
  "load_list v h i = act_read h (\<lambda>d. act_res (not_found v ''candidate_list.not_found'' (get_candidate_list d i)))"

definition load_full_list :: "page_env \<Rightarrow> 's pg_handle \<Rightarrow> candidate_list_id \<Rightarrow> ('s, full_candidate_list) action" where
  "load_full_list v h i = act_read h (\<lambda>d. act_res (not_found v ''candidate_list.not_found''
     (full_candidate_list_get (pv_problems v) d (pv_election v) i)))"

definition load_person :: "page_env \<Rightarrow> 's pg_handle \<Rightarrow> person_id \<Rightarrow> ('s, person) action" where
  "load_person v h i = act_read h (\<lambda>d. act_res (not_found v ''person.not_found'' (get_person d i)))"

text \<open>The candidate of a path. The reads answer \<open>GenericNotFound\<close>, so the translated message
  for \<open>NotFound\<close> is never used.\<close>

definition not_found_only :: "page_env \<Rightarrow> string \<Rightarrow> 'a result \<Rightarrow> 'a result" where
  "not_found_only v key r = (case r of Inl (NotFound _) \<Rightarrow> Inl (NotFound (pv_text v (lit key))) | _ \<Rightarrow> r)"

definition load_candidate :: "page_env \<Rightarrow> 's pg_handle \<Rightarrow> candidate_list_id \<Rightarrow> person_id \<Rightarrow> ('s, candidate) action" where
  "load_candidate v h list_id person_id = act_read h (\<lambda>d.
     act_bind (act_res (not_found_only v ''person.not_found_in_candidate_list'' (get_candidate_list d list_id))) (\<lambda>l.
       act_res (not_found_only v ''person.not_found_in_candidate_list'' (get_candidate d (cl_id l) person_id))))"

definition load_authorisation :: "'s pg_handle \<Rightarrow> name_authorisation_id \<Rightarrow> ('s, name_authorisation) action" where
  "load_authorisation h i = act_read h (\<lambda>d. act_res (get_name_authorisation d i))"

definition load_substitute :: "'s pg_handle \<Rightarrow> list_submitter_id \<Rightarrow> ('s, list_submitter) action" where
  "load_substitute h i = act_read h (\<lambda>d. act_res (get_substitute_submitter d i))"

text \<open>A form that does not validate shows the page again.\<close>

definition on_valid :: "'a form_result \<Rightarrow> ('a \<Rightarrow> ('s, page) action) \<Rightarrow> ('s, page) action" where
  "on_valid r f = (case r of Inl errors \<Rightarrow> act_res (Ok (Shown errors)) | Inr a \<Rightarrow> f a)"

subsection \<open>Candidate lists\<close>

definition create_only_candidate_list :: "page_env \<Rightarrow> 's pg_handle \<Rightarrow> candidate_list_id \<Rightarrow> ('s, page) action" where
  "create_only_candidate_list v h fresh = act_read h (\<lambda>d.
     if get_candidate_lists d \<noteq> []
     then act_res (Err (UserError (lit ''Cannot create more than one candidate list for single district elections'')))
     else let l = (candidate_list_default fresh (pv_now v))\<lparr>cl_electoral_districts := bt_collect (page_districts v)\<rparr> in
       act_bind (create_list h l) (\<lambda>_. act_res (Ok (RedirectTo (ListCreatedPage (cl_id l))))))"

definition create_candidate_list_submit ::
  "page_env \<Rightarrow> 's pg_handle \<Rightarrow> candidate_list_id \<Rightarrow> candidate_list_create_form \<Rightarrow> ('s, page) action" where
  "create_candidate_list_submit v h fresh f =
    (if has_only_one_district (pv_elections v) (pv_election v) then create_only_candidate_list v h fresh
     else on_valid (candidate_list_validate (known_districts (page_districts v) (clf_electoral_districts f))
         (candidate_list_default fresh (pv_now v))) (\<lambda>l. act_read h (\<lambda>d.
       let ls = get_candidate_lists d;
           l = (if clf_copy_candidates f
                then l\<lparr>cl_candidates := (if ls = [] then [] else cl_candidates (last ls))\<rparr> else l)
       in act_bind (create_list h l) (\<lambda>_. act_res (Ok (RedirectTo (ListCreatedPage (cl_id l))))))))"

definition update_candidate_list_submit ::
  "page_env \<Rightarrow> 's pg_handle \<Rightarrow> candidate_list_id \<Rightarrow> electoral_district btset \<Rightarrow> ('s, page) action" where
  "update_candidate_list_submit v h i districts = act_bind (load_list v h i) (\<lambda>l.
     if has_only_one_district (pv_elections v) (pv_election v)
     then act_res (Err (UserError (lit ''Not available for single district elections'')))
     else on_valid (candidate_list_validate (known_districts (page_districts v) districts) l) (\<lambda>l.
       act_bind (update_districts h l) (\<lambda>_. act_res (Ok (RedirectOr (ListPage (cl_id l)))))))"

definition delete_candidate_list :: "page_env \<Rightarrow> 's pg_handle \<Rightarrow> candidate_list_id \<Rightarrow> ('s, page) action" where
  "delete_candidate_list v h i = act_bind (load_list v h i) (\<lambda>l.
     act_bind (delete_list h l) (\<lambda>_. act_res (Ok (RedirectOr ListsPage))))"

definition reorder_candidate_list :: "page_env \<Rightarrow> 's pg_handle \<Rightarrow> candidate_list_id \<Rightarrow> person_id list \<Rightarrow> ('s, page) action" where
  "reorder_candidate_list v h i person_ids = act_bind (load_list v h i) (\<lambda>l.
     let submitted = bt_collect person_ids; current = bt_collect (cl_candidates l) in
     if length submitted \<noteq> length person_ids then act_res (Err DuplicateCandidate)
     else if submitted \<noteq> current then act_res (Err CandidateSetChanged)
     else act_bind (update_order h l person_ids) (\<lambda>_. act_res (Ok NoContent)))"

text \<open>The export of a list records an event only when there is a candidate on it.\<close>

definition export_candidate_list ::
  "page_env \<Rightarrow> 's pg_handle \<Rightarrow> (rstring list list \<Rightarrow> nat) \<Rightarrow> candidate_list_id \<Rightarrow> event_hash_prefix \<Rightarrow> ('s, page) action" where
  "export_candidate_list v h csv_size i event_hash = act_bind (load_full_list v h i) (\<lambda>full. act_read h (\<lambda>d.
     if \<not> has_event_hash d event_hash then act_res (Err GenericNotFound)
     else let l = fcl_list full;
              file_name = take 8 (fe_uuid_text (pv_forms v) (list_uuid (cl_id l))) @ lit ''-''
                @ districts_codes (pv_elections v) l @ lit ''.csv'';
              records = map (\<lambda>c. csv_of_person (pv_forms v) (c_person (cwp_data c))) (fcl_candidates full);
              rows = csv_rows csv_cells (Some CSV_HEADERS) records
          in if records \<noteq> []
             then act_bind (ph_update h (ExportCsv file_name (csv_size rows) (cl_id l)))
               (\<lambda>_. act_res (Ok (Attachment file_name rows)))
             else act_res (Ok (Attachment file_name rows))))"

text \<open>The import of a posted file, or of the failure to read one.\<close>

definition import_candidate_list ::
  "page_env \<Rightarrow> candidate_record_csv csv_env \<Rightarrow> (nat \<Rightarrow> person_id) \<Rightarrow> 's pg_handle \<Rightarrow> candidate_list_id
    \<Rightarrow> upload_error + file_form \<Rightarrow> ('s, page) action" where
  "import_candidate_list v cenv ids h i import_data = act_bind (load_list v h i) (\<lambda>l.
     case import_data of
       Inl err \<Rightarrow> (case upload_error_messages err of
           Inr messages \<Rightarrow> act_res (Ok (ShownImport messages))
         | Inl err \<Rightarrow> act_res (Err err))
     | Inr form \<Rightarrow>
         if (case ff_file_name form of Some name \<Rightarrow> \<not> has_csv_extension name | None \<Rightarrow> False)
         then act_res (Ok (ShownImport [InvalidFileType]))
         else (case ff_file_data form of
             None \<Rightarrow> act_res (Ok (ShownImport [MissingFile]))
           | Some csv_data \<Rightarrow> (\<lambda>s.
               case import_candidate_list_csv (pv_forms v) cenv ids (pv_now v) h l csv_data
                 (case ff_file_name form of Some n \<Rightarrow> n | None \<Rightarrow> []) (length csv_data) s of
                 (s', Inr (outcome, l')) \<Rightarrow>
                   (s', Ok (if has_warnings outcome
                     then RedirectTo (ImportWarningsPage (cl_id l') (io_capped outcome) (io_ignored_columns outcome))
                     else RedirectTo (ListPage (cl_id l'))))
               | (s', Inl (ImportApp e)) \<Rightarrow> (s', Err e)
               | (s', Inl (ImportMessages messages)) \<Rightarrow> (s', Ok (ShownImport messages)))))"

subsection \<open>Candidates\<close>

definition handle_add_candidate_form ::
  "'s pg_handle \<Rightarrow> candidate_list \<Rightarrow> add_person \<Rightarrow> ('s, nat option \<times> person_id option) action" where
  "handle_add_candidate_form h l add = (case ap_action add of
      ActionNone \<Rightarrow> act_res (Ok (ap_added_position add, None))
    | AddAll \<Rightarrow>
        (let position = (case ap_added_position add of None \<Rightarrow> Some (length (cl_candidates l) + 1) | Some p \<Rightarrow> Some p) in
         act_read h (\<lambda>d. act_bind (act_res (persons_not_on_list d (cl_id l) [])) (\<lambda>ps.
           let all_persons = take (limit_of h) (cl_candidates l @ map p_id ps) in
           act_bind (update_order h l all_persons) (\<lambda>_. act_res (Ok (position, None))))))
    | RemoveAll \<Rightarrow>
        (case ap_added_position add of
          Some position \<Rightarrow> act_bind (update_order h l (take (position - 1) (cl_candidates l))) (\<lambda>_. act_res (Ok (None, None)))
        | None \<Rightarrow> act_res (Ok (None, None)))
    | TogglePerson person_id \<Rightarrow>
        if person_id \<in> set (cl_candidates l)
        then act_bind (remove_candidate_action h l person_id) (\<lambda>_. act_res (Ok (ap_added_position add, None)))
        else act_bind (append_candidate h l person_id) (\<lambda>l'.
          act_res (Ok (case ap_added_position add of None \<Rightarrow> Some (length (cl_candidates l')) | Some p \<Rightarrow> Some p, Some person_id))))"

definition add_person_to_candidate_list ::
  "page_env \<Rightarrow> 's pg_handle \<Rightarrow> candidate_list_id \<Rightarrow> add_person_form \<Rightarrow> ('s, page) action" where
  "add_person_to_candidate_list v h i f = act_bind (load_full_list v h i) (\<lambda>full.
     on_valid (add_person_validate (pv_forms v) f add_person_default) (\<lambda>add s.
       case handle_add_candidate_form h (fcl_list full) add s of
         (s', Inr (position, just_added)) \<Rightarrow> (s', Ok (AddPage position just_added))
       | (s', Inl (TooManyCandidates m)) \<Rightarrow> (s', Ok (RedirectTo (MaxCandidatesPage (cl_id (fcl_list full)))))
       | (s', Inl e) \<Rightarrow> (s', Err e)))"

definition create_person_candidate_list_submit ::
  "page_env \<Rightarrow> 's pg_handle \<Rightarrow> person_id \<Rightarrow> candidate_list_id \<Rightarrow> personal_data_form \<Rightarrow> ('s, page) action" where
  "create_person_candidate_list_submit v h fresh i f = act_bind (load_full_list v h i) (\<lambda>full. act_read h (\<lambda>d.
     on_valid (person_create_with_checks (pv_forms v) fresh (pv_now v) f (get_persons d)) (\<lambda>p.
       if length (cl_candidates (fcl_list full)) \<ge> limit_of h
       then act_res (Ok (RedirectTo (MaxCandidatesPage (cl_id (fcl_list full)))))
       else act_bind (create_from_personal_data h fresh (p_name p) (p_personal_data p)) (\<lambda>p.
         act_bind (append_candidate h (fcl_list full) (p_id p)) (\<lambda>l. act_read h (\<lambda>d.
           act_bind (act_res (get_candidate d (cl_id l) (p_id p))) (\<lambda>c.
             act_res (Ok (RedirectTo (CandidateCreatedPage (c_list_id c) (p_id (c_person c))))))))))))"

definition delete_candidate_submit :: "page_env \<Rightarrow> 's pg_handle \<Rightarrow> candidate_list_id \<Rightarrow> person_id \<Rightarrow> ('s, page) action" where
  "delete_candidate_submit v h i pid = act_bind (load_candidate v h i pid) (\<lambda>c. act_bind (load_list v h i) (\<lambda>l.
     act_bind (delete_person_action h (c_person c)) (\<lambda>_. act_res (Ok (RedirectOr (ListPage (cl_id l)))))))"

definition update_candidate_submit ::
  "page_env \<Rightarrow> 's pg_handle \<Rightarrow> person_id \<Rightarrow> candidate_list_id \<Rightarrow> person_id \<Rightarrow> personal_data_form \<Rightarrow> ('s, page) action" where
  "update_candidate_submit v h fresh i pid f = act_bind (load_full_list v h i) (\<lambda>full. act_bind (load_candidate v h i pid) (\<lambda>c.
     act_read h (\<lambda>d. on_valid (person_update_with_checks (pv_forms v) fresh (pv_now v) f (c_person c) (get_persons d)) (\<lambda>updated.
       act_bind (update_personal_data h (c_person c) (p_name updated) (p_personal_data updated)) (\<lambda>p.
         act_res (Ok (RedirectOr (CandidateUpdatedPage (c_list_id c) (p_id p)))))))))"

definition update_candidate_address_submit ::
  "page_env \<Rightarrow> 's pg_handle \<Rightarrow> candidate_list_id \<Rightarrow> person_id \<Rightarrow> dutch_address_form \<Rightarrow> ('s, page) action" where
  "update_candidate_address_submit v h i pid f = act_bind (load_full_list v h i) (\<lambda>full. act_bind (load_candidate v h i pid) (\<lambda>c.
     on_valid (address_form_validate (pv_forms v) f (c_person c)) (\<lambda>p.
       act_bind (save_address (pv_forms v) h p) (\<lambda>_.
         act_res (Ok (RedirectOr (CandidateHighlightPage (cl_id (fcl_list full)) (p_id (c_person c)))))))))"

definition update_candidate_representative_submit ::
  "page_env \<Rightarrow> 's pg_handle \<Rightarrow> candidate_list_id \<Rightarrow> person_id \<Rightarrow> representative_form \<Rightarrow> ('s, page) action" where
  "update_candidate_representative_submit v h i pid f = act_bind (load_full_list v h i) (\<lambda>full. act_bind (load_candidate v h i pid) (\<lambda>c.
     let r = (case p_representative (c_person c) of Some r \<Rightarrow> r | None \<Rightarrow> representative_default) in
     on_valid (representative_validate (pv_forms v) f r) (\<lambda>r.
       act_bind (save_representative (pv_forms v) h (c_person c) r) (\<lambda>_.
         act_res (Ok (RedirectOr (CandidateHighlightPage (cl_id (fcl_list full)) (p_id (c_person c)))))))))"

definition update_candidate_position_submit ::
  "page_env \<Rightarrow> 's pg_handle \<Rightarrow> candidate_list_id \<Rightarrow> person_id \<Rightarrow> candidate_position_form \<Rightarrow> ('s, page) action" where
  "update_candidate_position_submit v h i pid f = act_bind (load_full_list v h i) (\<lambda>full. act_bind (load_candidate v h i pid) (\<lambda>c.
     on_valid (candidate_position_validate f \<lparr>cp_position = c_position c, cp_action = Save\<rparr>) (\<lambda>position.
       (case cp_action position of
         Remove \<Rightarrow> act_bind (remove_candidate_action h (fcl_list full) (p_id (c_person c))) (\<lambda>l.
           act_res (Ok (RedirectTo (ListPage (cl_id l)))))
       | Save \<Rightarrow> act_bind (update_position h (fcl_list full) (p_id (c_person c)) (cp_position position)) (\<lambda>_.
           act_res (Ok (RedirectOr (CandidateUpdatePage (c_list_id c) (p_id (c_person c))))))))))"

subsection \<open>Persons\<close>

definition create_person_submit :: "page_env \<Rightarrow> 's pg_handle \<Rightarrow> person_id \<Rightarrow> personal_data_form \<Rightarrow> ('s, page) action" where
  "create_person_submit v h fresh f = act_read h (\<lambda>d.
     on_valid (person_create_with_checks (pv_forms v) fresh (pv_now v) f (get_persons d)) (\<lambda>p.
       act_bind (create_from_personal_data h fresh (p_name p) (p_personal_data p)) (\<lambda>p.
         act_res (Ok (RedirectTo (PersonCreatedPage (p_id p)))))))"

definition update_person_submit ::
  "page_env \<Rightarrow> 's pg_handle \<Rightarrow> person_id \<Rightarrow> person_id \<Rightarrow> personal_data_form \<Rightarrow> ('s, page) action" where
  "update_person_submit v h fresh pid f = act_bind (load_person v h pid) (\<lambda>p. act_read h (\<lambda>d.
     on_valid (person_update_with_checks (pv_forms v) fresh (pv_now v) f p (get_persons d)) (\<lambda>updated.
       act_bind (update_personal_data h p (p_name updated) (p_personal_data updated)) (\<lambda>q.
         act_res (Ok (RedirectOr (PersonUpdatedPage (p_id q))))))))"

definition update_person_address_submit :: "page_env \<Rightarrow> 's pg_handle \<Rightarrow> person_id \<Rightarrow> dutch_address_form \<Rightarrow> ('s, page) action" where
  "update_person_address_submit v h pid f = act_bind (load_person v h pid) (\<lambda>p.
     on_valid (address_form_validate (pv_forms v) f p) (\<lambda>p.
       act_bind (save_address (pv_forms v) h p) (\<lambda>_. act_res (Ok (RedirectOr (PersonHighlightPage (p_id p)))))))"

definition update_representative_submit :: "page_env \<Rightarrow> 's pg_handle \<Rightarrow> person_id \<Rightarrow> representative_form \<Rightarrow> ('s, page) action" where
  "update_representative_submit v h pid f = act_bind (load_person v h pid) (\<lambda>p.
     let r = (case p_representative p of Some r \<Rightarrow> r | None \<Rightarrow> representative_default) in
     on_valid (representative_validate (pv_forms v) f r) (\<lambda>r.
       act_bind (save_representative (pv_forms v) h p r) (\<lambda>_. act_res (Ok (RedirectOr (PersonHighlightPage (p_id p)))))))"

definition delete_person_submit :: "page_env \<Rightarrow> 's pg_handle \<Rightarrow> person_id \<Rightarrow> ('s, page) action" where
  "delete_person_submit v h pid = act_bind (load_person v h pid) (\<lambda>p.
     act_bind (delete_person_action h p) (\<lambda>_. act_res (Ok (RedirectOr PersonsPage))))"

subsection \<open>The group\<close>

definition update_list_designation_submit :: "'s pg_handle \<Rightarrow> rstring \<Rightarrow> ('s, page) action" where
  "update_list_designation_submit h f = act_read h (\<lambda>d. let g = d_political_group d in
     on_valid (list_designation_form_validate f) (\<lambda>kind.
       let g = g\<lparr>pg_list_designation := Some (case pg_list_designation g of
               Some current \<Rightarrow> if list_designation_kind_of current = kind then current else list_designation_of_kind kind
             | None \<Rightarrow> list_designation_of_kind kind)\<rparr>
       in act_bind (update_group h g) (\<lambda>_.
         act_res (Ok (RedirectOrInitial (if pg_is_blank g then SubmittersPage else GroupPage))))))"

text \<open>The committee's registrations come from the main stream.\<close>

definition picked_registration ::
  "form_env \<Rightarrow> registered_political_group list \<Rightarrow> political_group_form \<Rightarrow> registered_political_group option validated" where
  "picked_registration env registered f = (let picked = trim (pgf_registered_political_group f) in
     if picked = [] then Ok None
     else (case find (\<lambda>g. fe_uuid_text env (registered_group_uuid (rg_id g)) = picked) registered of
         Some g \<Rightarrow> Ok (Some g)
       | None \<Rightarrow> Err InvalidValue))"

definition update_political_group_submit ::
  "page_env \<Rightarrow> 's pg_handle \<Rightarrow> registered_political_group list \<Rightarrow> political_group_form \<Rightarrow> ('s, page) action" where
  "update_political_group_submit v h registered f = act_read h (\<lambda>d. let g = d_political_group d in
     case (case picked_registration (pv_forms v) registered f of
         Inl error \<Rightarrow> (Inl [(lit ''registered_political_group'', error)], None)
       | Inr (Some registration) \<Rightarrow>
           (political_group_form_validate (with_registration (pv_forms v) registration f) g, Some registration)
       | Inr None \<Rightarrow> (political_group_form_validate f g, None)) of
       (form_data, registration) \<Rightarrow> on_valid form_data (\<lambda>g.
         act_bind (update_group h (bind_registration (map_option rg_id registration) g)) (\<lambda>_.
           act_res (Ok (RedirectOrInitial AuthorisationsPage)))))"

definition create_name_authorisation_submit ::
  "'s pg_handle \<Rightarrow> name_authorisation_id \<Rightarrow> name_authorisation_form \<Rightarrow> ('s, page) action" where
  "create_name_authorisation_submit h fresh f =
     on_valid (name_authorisation_validate f (name_authorisation_default fresh)) (\<lambda>a.
       act_bind (create_authorisation h a) (\<lambda>_. act_res (Ok (RedirectOrInitial AuthorisationsPage))))"

definition update_name_authorisation_submit ::
  "'s pg_handle \<Rightarrow> name_authorisation_id \<Rightarrow> name_authorisation_form \<Rightarrow> ('s, page) action" where
  "update_name_authorisation_submit h i f = act_bind (load_authorisation h i) (\<lambda>a.
     on_valid (name_authorisation_validate f a) (\<lambda>a.
       act_bind (update_authorisation h a) (\<lambda>_. act_res (Ok (RedirectOrInitial AuthorisationsPage)))))"

definition delete_name_authorisation :: "'s pg_handle \<Rightarrow> name_authorisation_id \<Rightarrow> ('s, page) action" where
  "delete_name_authorisation h i = act_bind (load_authorisation h i) (\<lambda>a.
     act_bind (delete_authorisation h a) (\<lambda>_. act_res (Ok (RedirectOrInitial AuthorisationsPage))))"

text \<open>A stored submitter whose postal code does not fit would panic; the answer is then the
  server error of the handler's task.\<close>

definition submitter_data :: "list_submitter \<Rightarrow> list_submitter_data result" where
  "submitter_data ls = ok_or InternalServerError (data_of_submitter ls)"

definition update_list_submitter_submit :: "page_env \<Rightarrow> 's pg_handle \<Rightarrow> list_submitter_form \<Rightarrow> ('s, page) action" where
  "update_list_submitter_submit v h f = act_read h (\<lambda>d. let ls = d_list_submitter d in
     act_bind (act_res (submitter_data ls)) (\<lambda>current.
       on_valid (submitter_validate_with_checks (pv_forms v) f current) (\<lambda>data.
         act_bind (update_submitter h (updated_from (pv_forms v) ls data)) (\<lambda>_.
           act_res (Ok (RedirectOrInitial SubmittersPage))))))"

definition create_substitute_submitter_submit ::
  "page_env \<Rightarrow> 's pg_handle \<Rightarrow> list_submitter_id \<Rightarrow> list_submitter_form \<Rightarrow> ('s, page) action" where
  "create_substitute_submitter_submit v h fresh f =
     on_valid (submitter_validate_with_checks (pv_forms v) f list_submitter_data_default) (\<lambda>data.
       let ls = submitter_of_data fresh data;
           ls = ls\<lparr>ls_address := address_update_is_known_in_bag (fe_address_exists (pv_forms v)) house_number_as_number (ls_address ls)\<rparr>
       in act_bind (create_substitute h ls) (\<lambda>_. act_res (Ok (RedirectOrInitial SubmittersPage))))"

definition update_substitute_submitter_submit ::
  "page_env \<Rightarrow> 's pg_handle \<Rightarrow> list_submitter_id \<Rightarrow> list_submitter_form \<Rightarrow> ('s, page) action" where
  "update_substitute_submitter_submit v h i f = act_bind (load_substitute h i) (\<lambda>ls.
     act_bind (act_res (submitter_data ls)) (\<lambda>current.
       on_valid (submitter_validate_with_checks (pv_forms v) f current) (\<lambda>data.
         act_bind (update_substitute h (updated_from (pv_forms v) ls data)) (\<lambda>_.
           act_res (Ok (RedirectOrInitial SubmittersPage))))))"

definition delete_substitute_submitter :: "'s pg_handle \<Rightarrow> list_submitter_id \<Rightarrow> ('s, page) action" where
  "delete_substitute_submitter h i = act_bind (load_substitute h i) (\<lambda>ls.
     act_bind (delete_substitute h ls) (\<lambda>_. act_res (Ok (RedirectOrInitial SubmittersPage))))"

definition hide_download_warning ::
  "'s pg_handle \<Rightarrow> (rstring \<Rightarrow> rstring option) \<Rightarrow> rstring \<Rightarrow> bool \<Rightarrow> rstring option \<Rightarrow> ('s, page) action" where
  "hide_download_warning h path_and_query index_path header_token referer =
     act_bind (ph_update h HideDownloadWarning) (\<lambda>_. act_res (Ok (
       if header_token then NoContent
       else RedirectPath (case referer of
           Some r \<Rightarrow> redirect_to_referer path_and_query r index_path
         | None \<Rightarrow> index_path))))"

end
