(* ===== verification/Import_Facts.thy ===== *)
theory Import_Facts
  imports Candidate_Import
begin

text \<open>
  The persons an import prepares: each natural person once, known persons under the id the
  group has for them, and new persons under fresh ids.
\<close>

lemma identity_of_id [simp]: "identity_of (p\<lparr>p_id := i\<rparr>) = identity_of p"
  by (rule identity_of_cong) simp_all

lemma same_import_iff:
  "same_import_identity p q \<longleftrightarrow> identity_of p \<noteq> None \<and> identity_of p = identity_of q"
  by (simp add: same_import_identity_def same_iff_identity)

text \<open>A known person carries the id of an existing person it is the same as; a new person is
  none of the existing ones.\<close>

definition prepared_as :: "person list \<Rightarrow> prepared_person \<Rightarrow> bool" where
  "prepared_as existing q = (if pp_exists q
     then \<exists>e\<in>set existing. same_import_identity (pp_person q) e \<and> p_id (pp_person q) = p_id e
     else \<forall>e\<in>set existing. \<not> same_import_identity (pp_person q) e)"

lemma prepared_as_cong:
  "identity_of (pp_person x) = identity_of (pp_person y) \<Longrightarrow> p_id (pp_person x) = p_id (pp_person y) \<Longrightarrow>
    pp_exists x = pp_exists y \<Longrightarrow> prepared_as existing x = prepared_as existing y"
  by (simp add: prepared_as_def same_import_iff)

definition prepared_ok :: "(nat \<Rightarrow> person_id) \<Rightarrow> nat \<Rightarrow> person list \<Rightarrow> prepared_person list \<Rightarrow> bool" where
  "prepared_ok ids n existing qs = (list_all (prepared_as existing) qs
     \<and> sorted_wrt (\<lambda>a b. \<not> same_import_identity (pp_person a) (pp_person b)) qs
     \<and> (\<exists>js. sorted_wrt (<) js \<and> set js \<subseteq> {..<n}
         \<and> map (\<lambda>q. p_id (pp_person q)) (filter (\<lambda>q. \<not> pp_exists q) qs) = map ids js))"

lemma prepare_person_as:
  "prepared_as existing (prepare_person fresh p existing)"
  "identity_of (pp_person (prepare_person fresh p existing)) = identity_of p"
  by (auto simp: prepared_as_def prepare_person_def same_import_iff find_None_iff find_Some_iff split: option.splits)

text \<open>Overwriting a prepared person with one that is the same changes no identity and no id.\<close>

lemma upsert_cases:
  "(\<exists>k<length qs. upsert_person fresh p qs existing = qs[k := (qs ! k)\<lparr>pp_person := p\<lparr>p_id := p_id (pp_person (qs ! k))\<rparr>\<rparr>]
      \<and> same_import_identity p (pp_person (qs ! k)))
   \<or> upsert_person fresh p qs existing = qs @ [prepare_person fresh p existing]
      \<and> (\<forall>q\<in>set qs. \<not> same_import_identity p (pp_person q))"
proof (induction qs)
  case (Cons q qs)
  show ?case
  proof (cases "same_import_identity p (pp_person q)")
    case True
    then show ?thesis by (intro disjI1 exI [of _ 0]) simp
  next
    case False
    from Cons.IH show ?thesis
    proof
      assume "\<exists>k<length qs. upsert_person fresh p qs existing = qs[k := (qs ! k)\<lparr>pp_person := p\<lparr>p_id := p_id (pp_person (qs ! k))\<rparr>\<rparr>]
        \<and> same_import_identity p (pp_person (qs ! k))"
      then obtain k where "k < length qs" "upsert_person fresh p qs existing = qs[k := (qs ! k)\<lparr>pp_person := p\<lparr>p_id := p_id (pp_person (qs ! k))\<rparr>\<rparr>]"
        "same_import_identity p (pp_person (qs ! k))" by blast
      with False show ?thesis by (intro disjI1 exI [of _ "Suc k"]) simp
    qed (use False in simp)
  qed
qed simp

lemma filter_map_update:
  assumes "k < length qs" "P x = P (qs ! k)" "f x = f (qs ! k)"
  shows "map f (filter P (qs[k := x])) = map f (filter P qs)"
  using assms
proof (induction qs arbitrary: k)
  case (Cons q qs)
  then show ?case by (cases k) auto
qed simp

lemma distinct_map_filter_nth:
  "distinct (map f (filter P xs)) \<Longrightarrow> i < j \<Longrightarrow> j < length xs \<Longrightarrow> P (xs ! i) \<Longrightarrow> P (xs ! j) \<Longrightarrow> f (xs ! i) \<noteq> f (xs ! j)"
proof (induction xs arbitrary: i j)
  case (Cons x xs)
  then obtain j' where j: "j = Suc j'" by (cases j) auto
  show ?case
  proof (cases i)
    case 0
    have "xs ! j' \<in> set (filter P xs)" using Cons.prems j by simp
    moreover have "f x \<notin> f ` set (filter P xs)" using Cons.prems 0 by simp
    ultimately show ?thesis using 0 j by (metis imageI nth_Cons_0 nth_Cons_Suc)
  next
    case (Suc i')
    have "f (xs ! i') \<noteq> f (xs ! j')"
      by (rule Cons.IH) (use Cons.prems j Suc in \<open>auto split: if_splits\<close>)
    with Suc j show ?thesis by simp
  qed
qed simp

lemma upsert_ok:
  assumes "prepared_ok ids n existing qs"
  shows "prepared_ok ids (Suc n) existing (upsert_person (ids n) p qs existing)"
proof -
  from assms obtain js where as: "list_all (prepared_as existing) qs"
    and srt: "sorted_wrt (\<lambda>a b. \<not> same_import_identity (pp_person a) (pp_person b)) qs"
    and js: "sorted_wrt (<) js" "set js \<subseteq> {..<n}" "map (\<lambda>q. p_id (pp_person q)) (filter (\<lambda>q. \<not> pp_exists q) qs) = map ids js"
    by (auto simp: prepared_ok_def)
  from upsert_cases [of qs "ids n" p existing] show ?thesis
  proof
    assume "\<exists>k<length qs. upsert_person (ids n) p qs existing = qs[k := (qs ! k)\<lparr>pp_person := p\<lparr>p_id := p_id (pp_person (qs ! k))\<rparr>\<rparr>]
      \<and> same_import_identity p (pp_person (qs ! k))"
    then obtain k where k: "k < length qs" "same_import_identity p (pp_person (qs ! k))"
      and up: "upsert_person (ids n) p qs existing = qs[k := (qs ! k)\<lparr>pp_person := p\<lparr>p_id := p_id (pp_person (qs ! k))\<rparr>\<rparr>]"
      by blast
    let ?x = "(qs ! k)\<lparr>pp_person := p\<lparr>p_id := p_id (pp_person (qs ! k))\<rparr>\<rparr>"
    have ident: "identity_of (pp_person ?x) = identity_of (pp_person (qs ! k))"
      using k(2) by (simp add: same_import_iff)
    have "prepared_as existing (qs ! k)" using as k(1) by (simp add: list_all_length)
    then have "prepared_as existing ?x" using prepared_as_cong [of ?x "qs ! k", OF ident] by simp
    then have "list_all (prepared_as existing) (qs[k := ?x])" using as k(1)
      by (auto simp: list_all_length nth_list_update)
    moreover have "sorted_wrt (\<lambda>a b. \<not> same_import_identity (pp_person a) (pp_person b)) (qs[k := ?x])"
      using srt ident k(1) by (auto simp: sorted_wrt_iff_nth_less same_import_iff nth_list_update)
    moreover have "map (\<lambda>q. p_id (pp_person q)) (filter (\<lambda>q. \<not> pp_exists q) (qs[k := ?x])) = map ids js"
      using js(3) k(1) by (subst filter_map_update) auto
    moreover have "set js \<subseteq> {..<Suc n}" using js(2) by auto
    ultimately show ?thesis unfolding up prepared_ok_def using js(1) by blast
  next
    assume up: "upsert_person (ids n) p qs existing = qs @ [prepare_person (ids n) p existing]
      \<and> (\<forall>q\<in>set qs. \<not> same_import_identity p (pp_person q))"
    let ?x = "prepare_person (ids n) p existing"
    have "list_all (prepared_as existing) (qs @ [?x])" using as prepare_person_as by simp
    moreover have "sorted_wrt (\<lambda>a b. \<not> same_import_identity (pp_person a) (pp_person b)) (qs @ [?x])"
      using srt up prepare_person_as(2) [of "ids n" p existing] by (auto simp: sorted_wrt_append same_import_iff)
    moreover have "\<exists>js. sorted_wrt (<) js \<and> set js \<subseteq> {..<Suc n}
        \<and> map (\<lambda>q. p_id (pp_person q)) (filter (\<lambda>q. \<not> pp_exists q) (qs @ [?x])) = map ids js"
    proof (cases "pp_exists ?x")
      case True
      with js show ?thesis by (intro exI [of _ js]) auto
    next
      case False
      then have "p_id (pp_person ?x) = ids n" by (auto simp: prepare_person_def split: option.splits)
      with js False show ?thesis by (intro exI [of _ "js @ [n]"]) (auto simp: sorted_wrt_append)
    qed
    ultimately show ?thesis using up by (simp add: prepared_ok_def)
  qed
qed

lemma length_upsert: "length (upsert_person fresh p qs existing) \<le> Suc (length qs)"
  by (induction qs) auto

lemma prepared_ok_mono: "prepared_ok ids n existing qs \<Longrightarrow> n \<le> m \<Longrightarrow> prepared_ok ids m existing qs"
  unfolding prepared_ok_def by (metis lessThan_subset_iff subset_trans)

lemma collect_loop_ok:
  "collect_loop env ids now existing n qs es rs = (qs', es') \<Longrightarrow> prepared_ok ids n existing qs \<Longrightarrow>
    prepared_ok ids (n + length rs) existing qs' \<and> length qs' \<le> length qs + length rs"
proof (induction env ids now existing n qs es rs rule: collect_loop.induct)
  case (2 env ids now existing n qs es r rs)
  show ?case
  proof (cases "validate_record env (ids n) now r (n + 1)")
    case (Inl ms)
    with 2(1) [of ms] 2(3) prepared_ok_mono [OF 2(4), of "n + 1"] show ?thesis by auto
  next
    case (Inr p)
    with 2(2) [of p] 2(3) upsert_ok [OF 2(4), of p] length_upsert [of "ids n" p qs existing] show ?thesis by auto
  qed
qed simp

lemma collect_persons_ok:
  assumes "collect_persons env ids now records existing = Inr qs"
  shows "prepared_ok ids (length records) existing qs" "length qs \<le> length records"
proof -
  have empty: "prepared_ok ids 0 existing []" by (simp add: prepared_ok_def)
  obtain qs' es' where loop: "collect_loop env ids now existing 0 [] [] records = (qs', es')" by fastforce
  with assms have "qs' = qs" by (simp add: collect_persons_def split: if_splits)
  with collect_loop_ok [OF loop empty] show "prepared_ok ids (length records) existing qs" "length qs \<le> length records"
    by auto
qed

text \<open>The ids an import of at most \<open>n\<close> records draws are fresh: no two are equal and none is in
  use.\<close>

definition fresh_ids :: "(nat \<Rightarrow> person_id) \<Rightarrow> nat \<Rightarrow> person list \<Rightarrow> bool" where
  "fresh_ids ids n existing = (inj_on ids {..<n} \<and> (\<forall>p\<in>set existing. p_id p \<notin> ids ` {..<n}))"

lemma prepared_ids_distinct:
  assumes ok: "prepared_ok ids n existing qs" and fresh: "fresh_ids ids n existing" and ex: "distinct (map p_id existing)"
  shows "distinct (map (\<lambda>q. p_id (pp_person q)) qs)"
proof -
  from ok obtain js where as: "list_all (prepared_as existing) qs"
    and srt: "sorted_wrt (\<lambda>a b. \<not> same_import_identity (pp_person a) (pp_person b)) qs"
    and js: "sorted_wrt (<) js" "map (\<lambda>q. p_id (pp_person q)) (filter (\<lambda>q. \<not> pp_exists q) qs) = map ids js"
    and within: "set js \<subseteq> {..<n}"
    by (auto simp: prepared_ok_def)
  have "distinct js" using js(1) by (simp add: strict_sorted_iff)
  then have new: "distinct (map (\<lambda>q. p_id (pp_person q)) (filter (\<lambda>q. \<not> pp_exists q) qs))"
    using fresh within inj_on_subset unfolding js(2) by (auto simp: fresh_ids_def distinct_map)
  have new_range: "p_id (pp_person q) \<in> ids ` {..<n}" if "q \<in> set qs" "\<not> pp_exists q" for q
  proof -
    have "p_id (pp_person q) \<in> set (map ids js)" unfolding js(2) [symmetric] using that by auto
    with within show ?thesis by auto
  qed
  have old_range: "p_id (pp_person q) \<in> p_id ` set existing" if "q \<in> set qs" "pp_exists q" for q
  proof -
    have "prepared_as existing q" using as that by (simp add: list_all_iff)
    with that show ?thesis by (auto simp: prepared_as_def)
  qed
  have old_same: "same_import_identity (pp_person a) (pp_person b)"
    if ab: "a \<in> set qs" "b \<in> set qs" "pp_exists a" "pp_exists b" "p_id (pp_person a) = p_id (pp_person b)" for a b
  proof -
    from ab as have "prepared_as existing a" "prepared_as existing b" by (simp_all add: list_all_iff)
    with ab obtain e f where "e \<in> set existing" "f \<in> set existing" "same_import_identity (pp_person a) e"
      "same_import_identity (pp_person b) f" "p_id (pp_person a) = p_id e" "p_id (pp_person b) = p_id f"
      by (auto simp: prepared_as_def)
    moreover from this ab(5) ex have "e = f" by (auto simp: distinct_map inj_on_def)
    ultimately show ?thesis unfolding same_import_iff by metis
  qed
  have neq: "p_id (pp_person (qs ! j)) \<noteq> p_id (pp_person (qs ! i))" if "i < j" "j < length qs" for i j
  proof
    assume eq: "p_id (pp_person (qs ! j)) = p_id (pp_person (qs ! i))"
    have mem: "qs ! i \<in> set qs" "qs ! j \<in> set qs" using that by auto
    have not_same: "\<not> same_import_identity (pp_person (qs ! i)) (pp_person (qs ! j))"
      using srt that by (simp add: sorted_wrt_iff_nth_less)
    consider "pp_exists (qs ! i) \<and> pp_exists (qs ! j)" | "pp_exists (qs ! i) \<noteq> pp_exists (qs ! j)"
      | "\<not> pp_exists (qs ! i) \<and> \<not> pp_exists (qs ! j)" by blast
    then show False
    proof cases
      case 1
      with old_same [OF mem] eq not_same show False by simp
    next
      case 2
      then have "p_id (pp_person (qs ! i)) \<in> ids ` {..<n} \<and> p_id (pp_person (qs ! i)) \<in> p_id ` set existing"
        using mem new_range old_range eq by metis
      with fresh show False by (auto simp: fresh_ids_def)
    next
      case 3
      with distinct_map_filter_nth [OF new that] eq show False by simp
    qed
  qed
  show ?thesis unfolding distinct_conv_nth
  proof (intro allI impI)
    fix i j assume "i < length (map (\<lambda>q. p_id (pp_person q)) qs)" "j < length (map (\<lambda>q. p_id (pp_person q)) qs)" "i \<noteq> j"
    then show "map (\<lambda>q. p_id (pp_person q)) qs ! i \<noteq> map (\<lambda>q. p_id (pp_person q)) qs ! j"
      using neq [of i j] neq [of j i] by (cases "i < j") auto
  qed
qed

end
