(* ===== verification/Page_Logic.thy ===== *)
theory Page_Logic
  imports Pages Import_Facts
begin

text \<open>
  What the handlers of \<open>Pages\<close> keep: an invariant of a group's data, the events that keep it,
  and a small program logic for operations on a store handle. What a handle promises is the
  locale \<open>pg_writer\<close>: a successful update records its event on the data the handle shows, a
  refused one changes nothing. The handle of a group's own stream and the handle of the
  committee's corrections on paper are its interpretations.
\<close>

subsection \<open>Identities of the persons held\<close>

definition ident_at :: "(person_id, person) hmap \<Rightarrow> person_id \<Rightarrow> identity option" where
  "ident_at m i = (case hm_get m i of None \<Rightarrow> None | Some p \<Rightarrow> identity_of p)"

text \<open>No natural person is entered twice.\<close>

definition unique_persons :: "(person_id, person) hmap \<Rightarrow> bool" where
  "unique_persons m = (\<forall>i j. ident_at m i \<noteq> None \<longrightarrow> ident_at m i = ident_at m j \<longrightarrow> i = j)"

definition identity_parts :: "full_name \<Rightarrow> personal_data \<Rightarrow> identity option" where
  "identity_parts n pd = identity_of ((person_default (PersonId 0) 0)\<lparr>p_name := n, p_personal_data := pd\<rparr>)"

lemma identity_of_parts: "identity_of p = identity_parts (p_name p) (p_personal_data p)"
  unfolding identity_parts_def by (rule identity_of_cong) simp_all

lemma ident_at_insert [simp]: "ident_at (hm_insert i p m) j = (if j = i then identity_of p else ident_at m j)"
  by (simp add: ident_at_def)

lemma ident_at_remove [simp]: "ident_at (hm_remove i m) j = (if j = i then None else ident_at m j)"
  by (simp add: ident_at_def)

lemma ident_at_modify:
  "ident_at (hm_modify i f m) j = (if j = i then (case hm_get m i of None \<Rightarrow> None | Some p \<Rightarrow> identity_of (f p)) else ident_at m j)"
  by (auto simp: ident_at_def split: option.splits)

text \<open>Giving one person an identity no other has keeps identities unique.\<close>

lemma unique_upd:
  assumes "unique_persons m" "\<And>j. j \<noteq> i \<Longrightarrow> ident_at m' j = ident_at m j"
    and "ident_at m' i = None \<or> (\<forall>j. j \<noteq> i \<longrightarrow> ident_at m j \<noteq> ident_at m' i)"
  shows "unique_persons m'"
  unfolding unique_persons_def
proof (intro allI impI)
  fix a b assume a: "ident_at m' a \<noteq> None" and eq: "ident_at m' a = ident_at m' b"
  show "a = b"
  proof (cases "a = i \<or> b = i")
    case True
    with a eq assms(2,3) show ?thesis by metis
  next
    case False
    with a eq assms(1,2) show ?thesis by (metis unique_persons_def)
  qed
qed

lemma unique_same: "unique_persons m \<Longrightarrow> (\<And>j. ident_at m' j = ident_at m j) \<Longrightarrow> unique_persons m'"
  by (simp add: unique_persons_def)

subsection \<open>Events that keep the invariant\<close>

definition sizes_ok :: "nat \<Rightarrow> pg_store_data \<Rightarrow> bool" where
  "sizes_ok lim d = (\<forall>i l. hm_get (d_candidate_lists d) i = Some l \<longrightarrow> length (cl_candidates l) \<le> lim)"

text \<open>The lists name persons the group holds, each once and no more than the limit; when \<open>u\<close> is
  asked for, no natural person is held twice.\<close>

definition group_inv :: "nat \<Rightarrow> bool \<Rightarrow> pg_store_data \<Rightarrow> bool" where
  "group_inv lim u d = (pg_inv d \<and> refs_ok d \<and> sizes_ok lim d \<and> (u \<longrightarrow> unique_persons (d_persons d)))"

fun event_sizes_ok :: "nat \<Rightarrow> pg_store_data \<Rightarrow> pg_event \<Rightarrow> bool" where
  "event_sizes_ok lim d (CreateCandidateList l) = (length (cl_candidates l) \<le> lim)"
| "event_sizes_ok lim d (UpdateCandidateListOrder i cs) = (length cs \<le> lim)"
| "event_sizes_ok lim d (AddCandidateToCandidateList i p) =
     (case hm_get (d_candidate_lists d) i of
        None \<Rightarrow> True
      | Some l \<Rightarrow> p \<in> set (cl_candidates l) \<or> length (cl_candidates l) < lim)"
| "event_sizes_ok lim d (ImportCandidates imp) = (length (ci_candidates imp) \<le> lim)"
| "event_sizes_ok lim d _ = True"

text \<open>Nobody has the identity, or nobody but the person with the id.\<close>

definition free_identity :: "pg_store_data \<Rightarrow> identity option \<Rightarrow> bool" where
  "free_identity d x = (x = None \<or> list_all (\<lambda>(j, _). ident_at (d_persons d) j \<noteq> x) (d_persons d))"

definition new_identity :: "pg_store_data \<Rightarrow> person_id \<Rightarrow> identity option \<Rightarrow> bool" where
  "new_identity d i x = (x = None \<or> list_all (\<lambda>(j, _). j = i \<or> ident_at (d_persons d) j \<noteq> x) (d_persons d))"

lemma ident_at_in: "ident_at m j = Some x \<Longrightarrow> \<exists>p. (j, p) \<in> set m"
  by (auto simp: ident_at_def hm_get_def split: option.splits dest: map_of_SomeD)

lemma free_identity_iff: "free_identity d x \<longleftrightarrow> x = None \<or> (\<forall>j. ident_at (d_persons d) j \<noteq> x)"
  using ident_at_in by (cases x) (fastforce simp: free_identity_def list_all_iff)+

lemma new_identity_iff: "new_identity d i x \<longleftrightarrow> x = None \<or> (\<forall>j. j \<noteq> i \<longrightarrow> ident_at (d_persons d) j \<noteq> x)"
  using ident_at_in by (cases x) (fastforce simp: new_identity_def list_all_iff)+

fun event_unique_ok :: "pg_store_data \<Rightarrow> pg_event \<Rightarrow> bool" where
  "event_unique_ok d (CreatePerson p) = new_identity d (p_id p) (identity_of p)"
| "event_unique_ok d (CreatePersonPersonalData i n pd) = new_identity d i (identity_parts n pd)"
| "event_unique_ok d (UpdatePerson p) = new_identity d (p_id p) (identity_of p)"
| "event_unique_ok d (UpdatePersonPersonalData i n pd) = new_identity d i (identity_parts n pd)"
| "event_unique_ok d (ImportCandidates imp) =
    (list_all (\<lambda>p. hm_contains (d_persons d) (p_id p) \<and> ident_at (d_persons d) (p_id p) = identity_of p) (ci_updated_persons imp)
     \<and> list_all (\<lambda>p. \<not> hm_contains (d_persons d) (p_id p) \<and> free_identity d (identity_of p)) (ci_created_persons imp)
     \<and> distinct (map p_id (ci_created_persons imp))
     \<and> sorted_wrt (\<lambda>p q. identity_of p = None \<or> identity_of p \<noteq> identity_of q) (ci_created_persons imp))"
| "event_unique_ok d _ = True"

definition event_ok :: "nat \<Rightarrow> bool \<Rightarrow> pg_store_data \<Rightarrow> pg_event \<Rightarrow> bool" where
  "event_ok lim u d e = (event_refs_ok d e \<and> event_sizes_ok lim d e \<and> (u \<longrightarrow> event_unique_ok d e))"

lemma length_add_candidate:
  "length (cl_candidates (add_candidate p l)) = (if p \<in> set (cl_candidates l) then length (cl_candidates l) else Suc (length (cl_candidates l)))"
  by (simp add: add_candidate_def)

lemma sizes_ok_apply:
  assumes "sizes_ok lim d" "event_sizes_ok lim d (se_payload e)"
  shows "sizes_ok lim (pg_apply e d)"
proof -
  have "length (cl_candidates l) \<le> lim"
    if l: "hm_get (lists_after (se_payload e) (se_created_at e) (d_candidate_lists d)) i = Some l" for i l
  proof -
    have old: "hm_get (d_candidate_lists d) j = Some k \<Longrightarrow> length (cl_candidates k) \<le> lim" for j k
      using assms(1) by (auto simp: sizes_ok_def)
    have flt: "length (filter P (cl_candidates k)) \<le> lim" if "hm_get (d_candidate_lists d) j = Some k" for P j k
      using old [OF that] length_filter_le [of P "cl_candidates k"] by linarith
    show ?thesis
      using assms(2) l by (cases "se_payload e") (auto simp: length_add_candidate old flt Suc_le_eq split: if_splits)
  qed
  then show ?thesis by (simp add: sizes_ok_def d_lists_pg_apply)
qed

lemma ident_at_fold_insert:
  "distinct (map p_id ps) \<Longrightarrow> ident_at (fold (\<lambda>p. hm_insert (p_id p) (p\<lparr>p_updated_at := t\<rparr>)) ps m) i =
    (case find (\<lambda>p. p_id p = i) ps of None \<Rightarrow> ident_at m i | Some p \<Rightarrow> identity_of p)"
proof (induction ps arbitrary: m)
  case (Cons p ps)
  have upd: "identity_of (p\<lparr>p_updated_at := t\<rparr>) = identity_of p" by (rule identity_of_cong) simp_all
  have "p_id p \<notin> p_id ` set ps" using Cons.prems by simp
  then have "find (\<lambda>q. p_id q = p_id p) ps = None" unfolding find_None_iff by (metis imageI)
  with Cons upd show ?case by (auto split: option.splits)
qed simp

lemma ident_at_fold_modify:
  "list_all (\<lambda>p. ident_at m (p_id p) = identity_of p) ps \<Longrightarrow>
    ident_at (fold (\<lambda>p. hm_modify (p_id p) (\<lambda>_. p\<lparr>p_updated_at := t\<rparr>)) ps m) i = ident_at m i"
proof (induction ps arbitrary: m)
  case (Cons p ps)
  have upd: "identity_of (p\<lparr>p_updated_at := t\<rparr>) = identity_of p" by (rule identity_of_cong) simp_all
  have same: "ident_at (hm_modify (p_id p) (\<lambda>_. p\<lparr>p_updated_at := t\<rparr>) m) j = ident_at m j" for j
    using Cons.prems by (auto simp: ident_at_modify upd ident_at_def split: option.splits)
  have "list_all (\<lambda>q. ident_at (hm_modify (p_id p) (\<lambda>_. p\<lparr>p_updated_at := t\<rparr>) m) (p_id q) = identity_of q) ps"
    using Cons.prems by (simp add: same list_all_iff)
  from Cons.IH [OF this] show ?case by (simp add: same)
qed simp

lemma unique_import:
  assumes u: "unique_persons (d_persons d)" and ok: "event_unique_ok d (ImportCandidates imp)"
  shows "unique_persons (persons_after (ImportCandidates imp) t (d_persons d))"
proof -
  let ?m = "d_persons d" and ?cs = "ci_created_persons imp"
  let ?m1 = "fold (\<lambda>p. hm_insert (p_id p) (p\<lparr>p_updated_at := t\<rparr>)) ?cs ?m"
  have cs: "distinct (map p_id ?cs)" "sorted_wrt (\<lambda>p q. identity_of p = None \<or> identity_of p \<noteq> identity_of q) ?cs"
    and new: "p \<in> set ?cs \<Longrightarrow> \<not> hm_contains ?m (p_id p) \<and> (\<forall>j. identity_of p = None \<or> ident_at ?m j \<noteq> identity_of p)" for p
    using ok by (auto simp: list_all_iff free_identity_iff)
  have at1: "ident_at ?m1 i = (case find (\<lambda>p. p_id p = i) ?cs of None \<Rightarrow> ident_at ?m i | Some p \<Rightarrow> identity_of p)" for i
    by (rule ident_at_fold_insert [OF cs(1)])
  have "ident_at ?m1 (p_id p) = identity_of p" if p: "p \<in> set (ci_updated_persons imp)" for p
  proof -
    have held: "hm_contains ?m (p_id p)" "ident_at ?m (p_id p) = identity_of p" using ok p by (auto simp: list_all_iff)
    then have "find (\<lambda>q. p_id q = p_id p) ?cs = None" using new by (auto simp: find_None_iff) metis
    with held at1 show ?thesis by simp
  qed
  then have at2: "ident_at (persons_after (ImportCandidates imp) t ?m) i = ident_at ?m1 i" for i
    by (simp add: ident_at_fold_modify list_all_iff)
  have apart: "p_id p = p_id q" if "p \<in> set ?cs" "q \<in> set ?cs" "identity_of p \<noteq> None" "identity_of p = identity_of q" for p q
  proof -
    from that obtain i j where ij: "i < length ?cs" "j < length ?cs" "p = ?cs ! i" "q = ?cs ! j" by (metis in_set_conv_nth)
    have "\<not> i < j" using cs(2) ij that unfolding sorted_wrt_iff_nth_less by metis
    moreover have "\<not> j < i" using cs(2) ij that unfolding sorted_wrt_iff_nth_less by metis
    ultimately show ?thesis using ij by (metis linorder_neqE_nat)
  qed
  show ?thesis
    unfolding unique_persons_def at2
  proof (intro allI impI)
    fix i j assume a: "ident_at ?m1 i \<noteq> None" and eq: "ident_at ?m1 i = ident_at ?m1 j"
    have created: "\<exists>p\<in>set ?cs. p_id p = k \<and> ident_at ?m1 k = identity_of p" if "find (\<lambda>p. p_id p = k) ?cs \<noteq> None" for k
    proof -
      from that obtain p where p: "find (\<lambda>p. p_id p = k) ?cs = Some p" by blast
      then have "p \<in> set ?cs" "p_id p = k" by (auto simp: find_Some_iff)
      with p at1 [of k] show ?thesis by auto
    qed
    have old: "ident_at ?m1 k = ident_at ?m k" if "find (\<lambda>p. p_id p = k) ?cs = None" for k
      using that at1 [of k] by simp
    show "i = j"
    proof (cases "find (\<lambda>p. p_id p = i) ?cs = None")
      case True
      then have i: "ident_at ?m1 i = ident_at ?m i" by (rule old)
      show ?thesis
      proof (cases "find (\<lambda>p. p_id p = j) ?cs = None")
        case True
        with i a eq u show ?thesis using old [OF True] by (simp add: unique_persons_def)
      next
        case False
        from created [OF False] new i a eq show ?thesis by metis
      qed
    next
      case False
      from created [OF False] obtain p where p: "p \<in> set ?cs" "p_id p = i" "ident_at ?m1 i = identity_of p" by blast
      show ?thesis
      proof (cases "find (\<lambda>p. p_id p = j) ?cs = None")
        case True
        with old [OF True] p new a eq show ?thesis by metis
      next
        case False
        from created [OF False] p apart a eq show ?thesis by metis
      qed
    qed
  qed
qed

lemma unique_apply:
  assumes "unique_persons (d_persons d)" "event_unique_ok d (se_payload e)"
  shows "unique_persons (d_persons (pg_apply e d))"
proof -
  let ?t = "se_created_at e"
  have parts: "identity_of (p\<lparr>p_address := a, p_updated_at := ?t\<rparr>) = identity_of p"
    "identity_of (p\<lparr>p_representative := r, p_updated_at := ?t\<rparr>) = identity_of p"
    "identity_of (p\<lparr>p_updated_at := ?t\<rparr>) = identity_of p"
    "identity_of (p\<lparr>p_name := n, p_personal_data := pd, p_updated_at := ?t\<rparr>) = identity_parts n pd"
    "identity_of (p\<lparr>p_name := n, p_personal_data := pd\<rparr>) = identity_parts n pd"
    "identity_of (p\<lparr>p_address := a\<rparr>) = identity_of p" "identity_of (p\<lparr>p_representative := r\<rparr>) = identity_of p"
    "identity_of \<lparr>p_id = i, p_name = n, p_personal_data = pd, p_address = dutch_address_default, p_representative = None,
       p_updated_at = ?t\<rparr> = identity_parts n pd" for p a r n pd i
    by (simp_all add: identity_of_parts)
  show ?thesis unfolding d_persons_pg_apply
  proof (cases "se_payload e")
    case (CreatePerson p)
    show "unique_persons (persons_after (se_payload e) ?t (d_persons d))"
      by (rule unique_upd [OF assms(1), where i = "p_id p"])
        (use assms(2) CreatePerson in \<open>auto simp: ident_at_modify parts new_identity_iff split: option.splits\<close>)
  next
    case (CreatePersonPersonalData i n pd)
    show "unique_persons (persons_after (se_payload e) ?t (d_persons d))"
      by (rule unique_upd [OF assms(1), where i = i])
        (use assms(2) CreatePersonPersonalData in \<open>auto simp: ident_at_modify parts new_identity_iff split: option.splits\<close>)
  next
    case (UpdatePerson p)
    show "unique_persons (persons_after (se_payload e) ?t (d_persons d))"
      by (rule unique_upd [OF assms(1), where i = "p_id p"])
        (use assms(2) UpdatePerson in \<open>auto simp: ident_at_modify parts new_identity_iff split: option.splits\<close>)
  next
    case (UpdatePersonPersonalData i n pd)
    show "unique_persons (persons_after (se_payload e) ?t (d_persons d))"
      by (rule unique_upd [OF assms(1), where i = i])
        (use assms(2) UpdatePersonPersonalData in \<open>auto simp: ident_at_modify parts new_identity_iff split: option.splits\<close>)
  next
    case (UpdatePersonAddress i a)
    have "ident_at (hm_modify i (\<lambda>p. p\<lparr>p_address := a, p_updated_at := ?t\<rparr>) (d_persons d)) j = ident_at (d_persons d) j" for j
      by (auto simp: ident_at_modify parts ident_at_def split: option.splits)
    with UpdatePersonAddress assms(1) show "unique_persons (persons_after (se_payload e) ?t (d_persons d))"
      by (auto intro: unique_same)
  next
    case (UpdatePersonRepresentative i r)
    have "ident_at (hm_modify i (\<lambda>p. p\<lparr>p_representative := r, p_updated_at := ?t\<rparr>) (d_persons d)) j = ident_at (d_persons d) j" for j
      by (auto simp: ident_at_modify parts ident_at_def split: option.splits)
    with UpdatePersonRepresentative assms(1) show "unique_persons (persons_after (se_payload e) ?t (d_persons d))"
      by (auto intro: unique_same)
  next
    case (DeletePerson i)
    show "unique_persons (persons_after (se_payload e) ?t (d_persons d))"
      by (rule unique_upd [OF assms(1), where i = i])
        (use assms(2) DeletePerson in \<open>auto simp: ident_at_modify parts new_identity_iff split: option.splits\<close>)
  next
    case (ImportCandidates imp)
    show "unique_persons (persons_after (se_payload e) ?t (d_persons d))"
      using unique_import [OF assms(1), of imp ?t] assms(2) by (simp only: ImportCandidates)
  qed (use assms in simp_all)
qed

lemma group_inv_apply:
  "group_inv lim u d \<Longrightarrow> event_ok lim u d (se_payload e) \<Longrightarrow> group_inv lim u (pg_apply e d)"
  by (auto simp: group_inv_def event_ok_def pg_inv_apply refs_ok_apply sizes_ok_apply unique_apply)

lemma group_inv_default: "group_inv lim u (pg_default fresh)"
  unfolding group_inv_def using pg_inv_default [of fresh]
  by (simp add: refs_ok_def sizes_ok_def unique_persons_def ident_at_def) (simp add: pg_default_def)

section \<open>Rules for the operations\<close>

text \<open>
  Rules for the operations on a store handle, in the style of weakest preconditions: one per
  construct, and one per action of \<open>Actions\<close> that writes. What the rules need of the handle is
  the locale \<open>pg_writer\<close>; the rules of the handlers are proved in it once, for every handle.
\<close>

named_theorems wp_simps \<open>weakest preconditions of the constructs\<close>

definition wp :: "('s, 'a) action \<Rightarrow> ('a \<Rightarrow> 's \<Rightarrow> bool) \<Rightarrow> ('s \<Rightarrow> bool) \<Rightarrow> 's \<Rightarrow> bool" where
  "wp m Q E s = (case m s of (s', Inl _) \<Rightarrow> E s' | (s', Inr a) \<Rightarrow> Q a s')"

lemma wp_res [wp_simps]: "wp (act_res r) Q E s = (case r of Inl _ \<Rightarrow> E s | Inr a \<Rightarrow> Q a s)"
  by (simp add: wp_def act_res_def)

lemma wp_bind [wp_simps]: "wp (act_bind m f) Q E s = wp m (\<lambda>a. wp (f a) Q E) E s"
  by (auto simp: wp_def act_bind_def split: prod.splits sum.splits)

lemma wp_read [wp_simps]: "wp (act_read h f) Q E s = wp (f (ph_snapshot h s)) Q E s"
  by (simp add: wp_def act_read_def)

lemma wp_if [wp_simps]: "wp (if b then m else n) Q E s = (if b then wp m Q E s else wp n Q E s)"
  by simp

lemma wp_on_valid [wp_simps]:
  "wp (on_valid r f) Q E s = (case r of Inl es \<Rightarrow> Q (Shown es) s | Inr a \<Rightarrow> wp (f a) Q E s)"
  by (simp add: on_valid_def wp_simps split: sum.splits)

lemma wp_fst: "wp m (\<lambda>_. P) P s \<longleftrightarrow> P (fst (m s))"
  by (auto simp: wp_def split: prod.splits sum.splits)

lemma wp_mono:
  "wp m Q E s \<Longrightarrow> (\<And>a s'. Q a s' \<Longrightarrow> Q' a s') \<Longrightarrow> (\<And>s'. E s' \<Longrightarrow> E' s') \<Longrightarrow> wp m Q' E' s"
  by (auto simp: wp_def split: prod.splits sum.splits)

subsection \<open>What a handle promises\<close>

definition good_state :: "'s pg_handle \<Rightarrow> ('s \<Rightarrow> bool) \<Rightarrow> bool \<Rightarrow> 's \<Rightarrow> bool" where
  "good_state h ok u s = (ok s \<and> group_inv (limit_of h) u (ph_snapshot h s))"

text \<open>A list as the handle shows it.\<close>

definition stored :: "pg_store_data \<Rightarrow> candidate_list \<Rightarrow> bool" where
  "stored d l = (hm_get (d_candidate_lists d) (cl_id l) = Some l)"

lemma get_candidate_list_stored: "group_inv lim u d \<Longrightarrow> get_candidate_list d i = Inr l \<Longrightarrow> stored d l \<and> cl_id l = i"
  by (auto simp: get_candidate_list_def stored_def group_inv_def pg_inv_def keyed_def ok_or_def split: option.splits)

lemma get_person_held: "group_inv lim u d \<Longrightarrow> get_person d i = Inr p \<Longrightarrow> hm_get (d_persons d) i = Some p \<and> p_id p = i"
  by (auto simp: get_person_def group_inv_def pg_inv_def keyed_def ok_or_def split: option.splits)

lemma not_found_ok [simp]: "not_found v key r = Inr a \<longleftrightarrow> r = Inr a"
  by (auto simp: not_found_def split: sum.splits)

lemma not_found_only_ok [simp]: "not_found_only v key r = Inr a \<longleftrightarrow> r = Inr a"
  by (auto simp: not_found_only_def split: sum.splits app_error.splits)

lemma distinct_bt_collect: "length (bt_collect xs) = length xs \<longleftrightarrow> distinct xs"
  by (auto simp: bt_collect_def length_remdups_card_conv card_distinct distinct_card)

lemma get_persons_ids: "group_inv lim u d \<Longrightarrow> i \<in> p_id ` set (get_persons d) \<longleftrightarrow> hm_contains (d_persons d) i"
  by (force simp: group_inv_def pg_inv_def keyed_def get_persons_def hm_values_iff hm_contains_def image_iff)

lemma stored_sizes:
  assumes "group_inv lim u d" "stored d l"
  shows "distinct (cl_candidates l)" "list_all (hm_contains (d_persons d)) (cl_candidates l)" "length (cl_candidates l) \<le> lim"
  using assms by (auto simp: group_inv_def refs_ok_def sizes_ok_def stored_def list_all_iff)

locale pg_writer =
  fixes h :: "'s pg_handle" and ok :: "'s \<Rightarrow> bool" and u :: bool
  assumes update_recorded: "ok s \<Longrightarrow> ph_update h e s = (s', Inr x) \<Longrightarrow>
      ok s' \<and> (\<exists>ev. se_payload ev = e \<and> ph_snapshot h s' = pg_apply ev (ph_snapshot h s))"
    and update_refused: "ok s \<Longrightarrow> ph_update h e s = (s', Inl err) \<Longrightarrow>
      ok s' \<and> (group_inv (limit_of h) u (ph_snapshot h s) \<longrightarrow> group_inv (limit_of h) u (ph_snapshot h s'))"
begin

abbreviation good :: "'s \<Rightarrow> bool" where "good \<equiv> good_state h ok u"
abbreviation shown :: "'s \<Rightarrow> pg_store_data" where "shown \<equiv> ph_snapshot h"

lemma goodD: "good s \<Longrightarrow> group_inv (limit_of h) u (shown s)"
  by (simp add: good_state_def)

lemma wp_update:
  assumes "good s" "event_ok (limit_of h) u (shown s) e"
    and "\<And>s' ev. good s' \<Longrightarrow> se_payload ev = e \<Longrightarrow> shown s' = pg_apply ev (shown s) \<Longrightarrow> Q () s'"
    and "\<And>s'. good s' \<Longrightarrow> E s'"
  shows "wp (ph_update h e) Q E s"
proof -
  obtain s' r where r: "ph_update h e s = (s', r)" by fastforce
  show ?thesis
  proof (cases r)
    case (Inl err)
    with r update_refused [of s e s' err] assms(1) have "good s'" by (simp add: good_state_def)
    with r Inl assms(4) show ?thesis by (simp add: wp_def)
  next
    case (Inr x)
    with r update_recorded [of s e s' x] assms(1) obtain ev where "ok s'" "se_payload ev = e" "shown s' = pg_apply ev (shown s)"
      by (auto simp: good_state_def)
    moreover from this assms(1,2) have "good s'" by (simp add: good_state_def group_inv_apply)
    ultimately show ?thesis using r Inr assms(3) by (simp add: wp_def)
  qed
qed

text \<open>Events that concern neither the candidates on a list nor a person's identity.\<close>

lemma wp_update_free:
  "good s \<Longrightarrow> (\<And>d. event_ok (limit_of h) u d e) \<Longrightarrow> (\<And>s'. good s' \<Longrightarrow> Q () s') \<Longrightarrow> (\<And>s'. good s' \<Longrightarrow> E s') \<Longrightarrow>
    wp (ph_update h e) Q E s"
  by (rule wp_update) auto

lemma wp_update_order:
  assumes "good s" "\<And>l' s'. good s' \<Longrightarrow> Q l' s'" "\<And>s'. good s' \<Longrightarrow> E s'"
  shows "wp (update_order h l ids) Q E s"
proof -
  have "event_ok (limit_of h) u (shown s) (UpdateCandidateListOrder i ids)"
    if "length (bt_collect ids) = length ids" "length ids \<le> limit_of h"
      "list_all (\<lambda>i. i \<in> set (bt_collect (map p_id (get_persons (shown s))))) ids" for i
    using that get_persons_ids [OF goodD [OF assms(1)]]
    by (auto simp: event_ok_def distinct_bt_collect list_all_iff)
  then show ?thesis
    using assms by (auto simp: update_order_def wp_simps Let_def split: sum.splits intro!: wp_update)
qed

lemma wp_append_candidate:
  assumes "good s" "stored (shown s) l" "\<And>l' s'. good s' \<Longrightarrow> Q l' s'" "\<And>s'. good s' \<Longrightarrow> E s'"
  shows "wp (append_candidate h l i) Q E s"
proof -
  have "event_ok (limit_of h) u (shown s) (AddCandidateToCandidateList (cl_id l) (p_id p))"
    if "get_person (shown s) i = Inr p" "length (cl_candidates l) < limit_of h" for p
    using that assms(2) get_person_held [OF goodD [OF assms(1)] that(1)] by (auto simp: event_ok_def stored_def hm_contains_def)
  then show ?thesis
    using assms by (auto simp: append_candidate_def wp_simps split: sum.splits intro!: wp_update)
qed

lemma wp_remove_candidate:
  assumes "good s" "\<And>l' s'. good s' \<Longrightarrow> Q l' s'" "\<And>s'. good s' \<Longrightarrow> E s'"
  shows "wp (remove_candidate_action h l i) Q E s"
  using assms by (auto simp: remove_candidate_action_def wp_simps event_ok_def split: sum.splits intro!: wp_update_free)

lemma wp_update_position:
  assumes "good s" "\<And>l' s'. good s' \<Longrightarrow> Q l' s'" "\<And>s'. good s' \<Longrightarrow> E s'"
  shows "wp (update_position h l i n) Q E s"
  using assms by (auto simp: update_position_def wp_simps Let_def split: option.splits intro!: wp_update_order)

end

end
