(* ===== verification/Page_Handlers.thy ===== *)
theory Page_Handlers
  imports Page_Logic
begin

text \<open>
  The handlers of \<open>Pages\<close> keep the invariant of a group's data, on every handle that keeps
  \<open>pg_writer\<close>: what the extractors and the forms have checked is what each event needs.
\<close>

subsection \<open>What the checks of a form and of an import establish\<close>

lemma ident_at_held:
  assumes "group_inv lim u d" "ident_at (d_persons d) j = Some x"
  obtains q where "q \<in> set (get_persons d)" "p_id q = j" "identity_of q = Some x"
proof -
  from assms(2) obtain q where q: "hm_get (d_persons d) j = Some q" "identity_of q = Some x"
    by (auto simp: ident_at_def split: option.splits)
  with assms(1) have "p_id q = j" by (auto simp: group_inv_def pg_inv_def keyed_def)
  with q that [of q] hm_get_in_values [OF q(1)] show thesis by (simp add: get_persons_def)
qed

lemma keyed_distinct: "hm_ok m \<Longrightarrow> keyed key m \<Longrightarrow> distinct (map key (hm_values m))"
proof -
  assume ok: "hm_ok m" and keyed: "keyed key m"
  have "key (snd x) = fst x" if "x \<in> set m" for x
    using that ok keyed by (metis in_set_hm_iff keyed_def prod.collapse)
  then have "map key (hm_values m) = map fst m" by (simp add: hm_values_def)
  with ok show ?thesis by (simp add: hm_ok_def)
qed

lemma held_ident_at:
  assumes "group_inv lim u d" "q \<in> set (get_persons d)"
  shows "hm_contains (d_persons d) (p_id q)" "ident_at (d_persons d) (p_id q) = identity_of q"
  using assms by (force simp: group_inv_def pg_inv_def keyed_def get_persons_def hm_values_iff hm_contains_def ident_at_def)+

lemma new_identity_unless_same:
  assumes inv: "group_inv lim u d" and apart: "\<forall>q\<in>set (get_persons d). p_id q \<noteq> i \<longrightarrow> identity_match_of p q \<noteq> Same"
  shows "new_identity d i (identity_of p)"
proof (cases "identity_of p")
  case (Some x)
  have "ident_at (d_persons d) j \<noteq> Some x" if "j \<noteq> i" for j
  proof
    assume "ident_at (d_persons d) j = Some x"
    from ident_at_held [OF inv this] obtain q where "q \<in> set (get_persons d)" "p_id q = j" "identity_of q = Some x" by metis
    with apart that Some show False unfolding same_iff_identity by (metis option.distinct(1))
  qed
  with Some show ?thesis by (simp add: new_identity_iff)
qed (simp add: new_identity_iff)

text \<open>Where unique persons are asked for, no prefix of the last name is typed but blank.\<close>

definition prefix_ok :: "bool \<Rightarrow> personal_data_form \<Rightarrow> bool" where
  "prefix_ok u f = (u \<longrightarrow> \<not> blank_prefix f)"

lemma create_checks_unique:
  assumes "group_inv lim u d" "person_create_with_checks env fresh now f (get_persons d) = Inr p" "\<not> blank_prefix f"
  shows "new_identity d fresh (identity_parts (p_name p) (p_personal_data p))"
proof -
  from assms(2) have "personal_data_form_validate env f (person_default fresh now) = Inr p"
    "uniqueness_errors env fresh now f (get_persons d) = []" by (simp_all add: person_create_with_checks_def merge_errors_ok)
  with uniqueness_errors_exact assms(3) have "\<forall>q\<in>set (get_persons d). identity_match_of p q \<noteq> Same" by metis
  with new_identity_unless_same [OF assms(1), of fresh p] show ?thesis by (simp add: identity_of_parts)
qed

lemma update_checks_unique:
  assumes "group_inv lim u d" "person_update_with_checks env fresh now f c (get_persons d) = Inr p" "\<not> blank_prefix f"
  shows "new_identity d (p_id c) (identity_parts (p_name p) (p_personal_data p))"
proof -
  from assms(2) have "personal_data_form_validate env f c = Inr p"
    "uniqueness_errors env fresh now f (filter (\<lambda>q. p_id q \<noteq> p_id c) (get_persons d)) = []"
    by (simp_all add: person_update_with_checks_def merge_errors_ok)
  with uniqueness_errors_exact assms(3)
  have "\<forall>q\<in>set (filter (\<lambda>q. p_id q \<noteq> p_id c) (get_persons d)). identity_match_of p q \<noteq> Same" by metis
  then have "\<forall>q\<in>set (get_persons d). p_id q \<noteq> p_id c \<longrightarrow> identity_match_of p q \<noteq> Same" by simp
  from new_identity_unless_same [OF assms(1) this] show ?thesis by (simp add: identity_of_parts)
qed

lemma import_event_ok:
  assumes inv: "group_inv lim u d" and prep: "prepared_ok ids n (get_persons d) qs"
    and fresh: "fresh_ids ids n (get_persons d)" and len: "length qs \<le> lim"
  shows "event_ok lim u d (ImportCandidates (import_event l file_name file_size qs))"
proof -
  have ex: "distinct (map p_id (get_persons d))"
    using inv by (auto simp: group_inv_def pg_inv_def get_persons_def intro: keyed_distinct)
  have dist: "distinct (map (\<lambda>q. p_id (pp_person q)) qs)" by (rule prepared_ids_distinct [OF prep fresh ex])
  have as: "prepared_as (get_persons d) q" if "q \<in> set qs" for q
    using prep that by (simp add: prepared_ok_def list_all_iff)
  have old: "hm_contains (d_persons d) (p_id (pp_person q)) \<and> ident_at (d_persons d) (p_id (pp_person q)) = identity_of (pp_person q)"
    if q: "q \<in> set qs" "pp_exists q" for q
  proof -
    from as [OF q(1)] q(2) obtain e where "e \<in> set (get_persons d)" "same_import_identity (pp_person q) e" "p_id (pp_person q) = p_id e"
      by (auto simp: prepared_as_def)
    with held_ident_at [OF inv] show ?thesis by (simp add: same_import_iff)
  qed
  have new: "\<not> hm_contains (d_persons d) (p_id (pp_person q))
      \<and> (\<forall>j. identity_of (pp_person q) = None \<or> ident_at (d_persons d) j \<noteq> identity_of (pp_person q))"
    if q: "q \<in> set qs" "\<not> pp_exists q" for q
  proof -
    from prep obtain js where "map (\<lambda>q. p_id (pp_person q)) (filter (\<lambda>q. \<not> pp_exists q) qs) = map ids js" "set js \<subseteq> {..<n}"
      by (auto simp: prepared_ok_def)
    moreover have "p_id (pp_person q) \<in> set (map (\<lambda>q. p_id (pp_person q)) (filter (\<lambda>q. \<not> pp_exists q) qs))" using q by auto
    ultimately have "p_id (pp_person q) \<in> ids ` {..<n}" by auto
    with fresh have "p_id (pp_person q) \<notin> p_id ` set (get_persons d)" by (auto simp: fresh_ids_def)
    moreover have "ident_at (d_persons d) j \<noteq> Some x" if "identity_of (pp_person q) = Some x" for j x
    proof
      assume "ident_at (d_persons d) j = Some x"
      from ident_at_held [OF inv this] obtain e where "e \<in> set (get_persons d)" "identity_of e = Some x" by metis
      with as [OF q(1)] q(2) that show False by (auto simp: prepared_as_def same_import_iff)
    qed
    ultimately show ?thesis using get_persons_ids [OF inv] by auto
  qed
  have refs: "event_refs_ok d (ImportCandidates (import_event l file_name file_size qs))"
    using dist old by (auto simp: import_event_def)
  have "distinct (map p_id (map pp_person (filter (\<lambda>q. \<not> pp_exists q) qs)))"
    using distinct_map_filter [OF dist] by (simp add: comp_def)
  moreover have "sorted_wrt (\<lambda>p q. identity_of p = None \<or> identity_of p \<noteq> identity_of q) (map pp_person (filter (\<lambda>q. \<not> pp_exists q) qs))"
    using prep by (auto simp: prepared_ok_def sorted_wrt_map same_import_iff intro!: sorted_wrt_filter)
  ultimately have "event_unique_ok d (ImportCandidates (import_event l file_name file_size qs))"
    using old new by (auto simp: import_event_def list_all_iff free_identity_iff)
  with refs len show ?thesis by (simp add: event_ok_def import_event_def)
qed

context pg_writer
begin

subsection \<open>Loading\<close>

lemma wp_load_list:
  "good s \<Longrightarrow> (\<And>l. stored (shown s) l \<Longrightarrow> cl_id l = i \<Longrightarrow> Q l s) \<Longrightarrow> E s \<Longrightarrow> wp (load_list v h i) Q E s"
  by (auto simp: load_list_def wp_simps split: sum.splits dest: get_candidate_list_stored [OF goodD])

lemma wp_load_full_list:
  "good s \<Longrightarrow> (\<And>f. stored (shown s) (fcl_list f) \<Longrightarrow> cl_id (fcl_list f) = i \<Longrightarrow> Q f s) \<Longrightarrow> E s \<Longrightarrow> wp (load_full_list v h i) Q E s"
  by (auto simp: load_full_list_def full_candidate_list_get_def build_full_candidate_list_def wp_simps bind_res_eq_Inr split: sum.splits
      dest: get_candidate_list_stored [OF goodD])

lemma wp_load_person:
  "good s \<Longrightarrow> (\<And>p. p_id p = i \<Longrightarrow> Q p s) \<Longrightarrow> E s \<Longrightarrow> wp (load_person v h i) Q E s"
  by (auto simp: load_person_def wp_simps split: sum.splits dest: get_person_held [OF goodD])

lemma wp_load_candidate:
  "good s \<Longrightarrow> (\<And>c. p_id (c_person c) = i \<Longrightarrow> Q c s) \<Longrightarrow> E s \<Longrightarrow> wp (load_candidate v h j i) Q E s"
  by (auto simp: load_candidate_def get_candidate_def wp_simps bind_res_eq_Inr split: sum.splits dest: get_person_held [OF goodD])

lemma wp_load_authorisation: "(\<And>a. Q a s) \<Longrightarrow> E s \<Longrightarrow> wp (load_authorisation h i) Q E s"
  by (auto simp: load_authorisation_def wp_simps split: sum.splits)

lemma wp_load_substitute: "(\<And>a. Q a s) \<Longrightarrow> E s \<Longrightarrow> wp (load_substitute h i) Q E s"
  by (auto simp: load_substitute_def wp_simps split: sum.splits)

subsection \<open>Writing\<close>

text \<open>The actions whose event concerns no candidate on a list and no identity.\<close>

lemma free_events:
  "event_ok (limit_of h) u d (UpdateCandidateListDistricts i ds)" "event_ok (limit_of h) u d (DeleteCandidateList i)"
  "event_ok (limit_of h) u d (ExportCsv n k i)" "event_ok (limit_of h) u d (DeletePerson p)"
  "event_ok (limit_of h) u d (UpdatePersonAddress p a)" "event_ok (limit_of h) u d (UpdatePersonRepresentative p r)"
  "event_ok (limit_of h) u d (UpdatePoliticalGroup g)" "event_ok (limit_of h) u d (UpdateListSubmitter ls)"
  "event_ok (limit_of h) u d (CreateSubstituteSubmitter ls)" "event_ok (limit_of h) u d (UpdateSubstituteSubmitter ls)"
  "event_ok (limit_of h) u d (DeleteSubstituteSubmitter j)" "event_ok (limit_of h) u d (CreateNameAuthorisation a')"
  "event_ok (limit_of h) u d (UpdateNameAuthorisation a')" "event_ok (limit_of h) u d (DeleteNameAuthorisation k')"
  "event_ok (limit_of h) u d HideDownloadWarning"
  by (simp_all add: event_ok_def)

lemmas action_defs = create_list_def update_districts_def delete_list_def create_from_personal_data_def
  update_personal_data_def update_representative_action_def save_representative_def update_address_action_def
  save_address_def delete_person_action_def update_submitter_def create_substitute_def update_substitute_def
  delete_substitute_def create_authorisation_def update_authorisation_def delete_authorisation_def update_group_def

lemmas load_rules = wp_load_list wp_load_full_list wp_load_person wp_load_candidate wp_load_authorisation wp_load_substitute

lemma wp_create_list:
  "good s \<Longrightarrow> cl_candidates l = [] \<or> stored (shown s) k \<and> cl_candidates l = cl_candidates k \<Longrightarrow> (\<And>s'. good s' \<Longrightarrow> Q () s') \<Longrightarrow>
    (\<And>s'. good s' \<Longrightarrow> E s') \<Longrightarrow> wp (create_list h l) Q E s"
  unfolding create_list_def
  by (rule wp_update) (auto simp: event_ok_def list_all_iff dest: stored_sizes [OF goodD])

lemma last_list_stored: "good s \<Longrightarrow> get_candidate_lists (shown s) \<noteq> [] \<Longrightarrow> stored (shown s) (last (get_candidate_lists (shown s)))"
  using last_in_set [of "get_candidate_lists (shown s)"]
  by (auto simp: good_state_def group_inv_def stored_def get_candidate_lists_iff [symmetric])

lemma create_only_candidate_list_good: "good s \<Longrightarrow> wp (create_only_candidate_list v h i) (\<lambda>_. good) good s"
  by (auto simp: create_only_candidate_list_def candidate_list_default_def wp_simps Let_def intro!: wp_create_list)

lemma validated_candidates: "candidate_list_validate ds l = Inr l' \<Longrightarrow> cl_candidates l' = cl_candidates l \<and> cl_id l' = cl_id l"
  by (auto simp: candidate_list_validate_def Let_def unless_errors_def split: if_splits)

lemma create_candidate_list_submit_good:
  assumes "good s"
  shows "wp (create_candidate_list_submit v h i f) (\<lambda>_. good) good s"
proof -
  let ?ls = "get_candidate_lists (shown s)"
  have "wp (create_list h (if clf_copy_candidates f then l\<lparr>cl_candidates := if ?ls = [] then [] else cl_candidates (last ?ls)\<rparr> else l)) Q good s"
    if "candidate_list_validate ds (candidate_list_default i now) = Inr l" "\<And>s'. good s' \<Longrightarrow> Q () s'" for ds now l Q
    by (rule wp_create_list [OF assms, where k = "last ?ls"])
      (use that validated_candidates [OF that(1)] last_list_stored [OF assms] in \<open>auto simp: candidate_list_default_def\<close>)
  with create_only_candidate_list_good [OF assms] assms show ?thesis
    by (auto simp: create_candidate_list_submit_def wp_simps Let_def split: sum.splits)
qed

lemma update_candidate_list_submit_good: "good s \<Longrightarrow> wp (update_candidate_list_submit v h i ds) (\<lambda>_. good) good s"
  by (auto simp: update_candidate_list_submit_def action_defs wp_simps free_events intro!: load_rules wp_update_free split: sum.splits)

lemma delete_candidate_list_good: "good s \<Longrightarrow> wp (delete_candidate_list v h i) (\<lambda>_. good) good s"
  by (auto simp: delete_candidate_list_def action_defs wp_simps free_events intro!: load_rules wp_update_free split: sum.splits)

lemma reorder_candidate_list_good: "good s \<Longrightarrow> wp (reorder_candidate_list v h i ps) (\<lambda>_. good) good s"
  by (auto simp: reorder_candidate_list_def wp_simps Let_def intro!: load_rules wp_update_order)

lemma export_candidate_list_good: "good s \<Longrightarrow> wp (export_candidate_list v h csz i hash) (\<lambda>_. good) good s"
  by (auto simp: export_candidate_list_def wp_simps Let_def free_events intro!: load_rules wp_update_free)

lemma import_csv_good:
  assumes s: "good s" and fresh: "fresh_ids ids MAX_IMPORT_RECORDS (get_persons (shown s))"
  shows "good (fst (import_candidate_list_csv env cenv ids now h l csv_data file_name file_size s))"
proof -
  let ?lim = "min (limit_of h) MAX_IMPORT_RECORDS"
  have emit: "good t" if "emit_import_event h l qs file_name file_size s = (t, r)"
    "collect_persons env ids now (take ?lim records) (get_persons (shown s)) = Inr qs" for records qs t r
  proof -
    note ok = collect_persons_ok [OF that(2)]
    have "length qs \<le> limit_of h" using ok(2) by simp
    moreover have "prepared_ok ids MAX_IMPORT_RECORDS (get_persons (shown s)) qs"
      using prepared_ok_mono [OF ok(1), of MAX_IMPORT_RECORDS] by simp
    ultimately have "event_ok (limit_of h) u (shown s) (ImportCandidates (import_event l file_name file_size qs))"
      using import_event_ok [OF goodD [OF s] _ fresh] by blast
    with s
    have "wp (emit_import_event h l qs file_name file_size) (\<lambda>_. good) good s"
      by (auto simp: emit_import_event_def wp_simps split: sum.splits intro!: wp_update)
    with that(1) show ?thesis by (simp add: wp_fst)
  qed
  show ?thesis using s emit
    by (auto simp: import_candidate_list_csv_def Let_def split: option.splits sum.splits prod.splits)
qed

lemma import_candidate_list_good:
  assumes "good s" "fresh_ids ids MAX_IMPORT_RECORDS (get_persons (shown s))"
  shows "wp (import_candidate_list v cenv ids h i import_data) (\<lambda>_. good) good s"
proof -
  have "wp (\<lambda>s. case import_candidate_list_csv env cenv ids now h l data n k s of
      (s', Inr (outcome, l')) \<Rightarrow> (s', Ok (P outcome l'))
    | (s', Inl (ImportApp e)) \<Rightarrow> (s', Err e)
    | (s', Inl (ImportMessages messages)) \<Rightarrow> (s', Ok (ShownImport messages))) (\<lambda>_. good) good s" for env now l data n k P
    using import_csv_good [OF assms, of env cenv now l data n k]
    by (auto simp: wp_def split: prod.splits sum.splits import_error.splits)
  with assms(1) show ?thesis
    by (auto simp: import_candidate_list_def wp_simps intro!: load_rules split: option.splits sum.splits)
qed

lemma handle_add_candidate_form_good:
  "good s \<Longrightarrow> stored (shown s) l \<Longrightarrow> wp (handle_add_candidate_form h l add) (\<lambda>_. good) good s"
  by (auto simp: handle_add_candidate_form_def wp_simps Let_def split: add_person_action.splits option.splits sum.splits
      intro!: wp_update_order wp_append_candidate wp_remove_candidate)

lemma add_person_to_candidate_list_good:
  assumes "good s"
  shows "wp (add_person_to_candidate_list v h i f) (\<lambda>_. good) good s"
proof -
  have "wp (\<lambda>s. case handle_add_candidate_form h l add s of
      (s', Inr (position, just_added)) \<Rightarrow> (s', Ok (AddPage position just_added))
    | (s', Inl (TooManyCandidates m)) \<Rightarrow> (s', Ok P)
    | (s', Inl e) \<Rightarrow> (s', Err e)) (\<lambda>_. good) good s" if "stored (shown s) l" for l add P
    using handle_add_candidate_form_good [OF assms that, of add]
    by (auto simp: wp_def split: prod.splits sum.splits app_error.splits)
  with assms show ?thesis
    by (auto simp: add_person_to_candidate_list_def wp_simps intro!: load_rules split: sum.splits)
qed

lemma wp_create_person:
  assumes "good s" "prefix_ok u f" "person_create_with_checks env fresh now f (get_persons (shown s)) = Inr p"
    and "\<And>q s'. good s' \<Longrightarrow> d_candidate_lists (shown s') = d_candidate_lists (shown s) \<Longrightarrow> Q q s'" "\<And>s'. good s' \<Longrightarrow> E s'"
  shows "wp (create_from_personal_data h fresh (p_name p) (p_personal_data p)) Q E s"
proof -
  have "event_ok (limit_of h) u (shown s) (CreatePersonPersonalData fresh (p_name p) (p_personal_data p))"
    using create_checks_unique [OF goodD [OF assms(1)] assms(3)] assms(2) by (simp add: event_ok_def prefix_ok_def)
  then show ?thesis
    using assms(1,4,5) by (auto simp: create_from_personal_data_def wp_simps d_lists_pg_apply split: sum.splits intro!: wp_update)
qed

lemma wp_update_person:
  assumes "good s" "prefix_ok u f" "person_update_with_checks env fresh now f c (get_persons (shown s)) = Inr p"
    and "\<And>q s'. good s' \<Longrightarrow> Q q s'" "\<And>s'. good s' \<Longrightarrow> E s'"
  shows "wp (update_personal_data h c (p_name p) (p_personal_data p)) Q E s"
proof -
  have "event_ok (limit_of h) u (shown s) (UpdatePersonPersonalData (p_id c) (p_name p) (p_personal_data p))"
    using update_checks_unique [OF goodD [OF assms(1)] assms(3)] assms(2) by (simp add: event_ok_def prefix_ok_def)
  then show ?thesis
    using assms(1,4,5) by (auto simp: update_personal_data_def wp_simps split: sum.splits intro!: wp_update)
qed

lemma create_person_submit_good:
  "good s \<Longrightarrow> prefix_ok u f \<Longrightarrow> wp (create_person_submit v h fresh f) (\<lambda>_. good) good s"
  by (auto simp: create_person_submit_def wp_simps split: sum.splits intro!: wp_create_person)

lemma create_person_candidate_list_submit_good:
  "good s \<Longrightarrow> prefix_ok u f \<Longrightarrow> wp (create_person_candidate_list_submit v h fresh i f) (\<lambda>_. good) good s"
  by (auto simp: create_person_candidate_list_submit_def wp_simps stored_def split: sum.splits
      intro!: load_rules wp_create_person wp_append_candidate)

lemma update_candidate_submit_good:
  "good s \<Longrightarrow> prefix_ok u f \<Longrightarrow> wp (update_candidate_submit v h fresh i j f) (\<lambda>_. good) good s"
  by (auto simp: update_candidate_submit_def wp_simps split: sum.splits intro!: load_rules wp_update_person)

lemma update_person_submit_good:
  "good s \<Longrightarrow> prefix_ok u f \<Longrightarrow> wp (update_person_submit v h fresh j f) (\<lambda>_. good) good s"
  by (auto simp: update_person_submit_def wp_simps split: sum.splits intro!: load_rules wp_update_person)

lemma update_candidate_position_submit_good: "good s \<Longrightarrow> wp (update_candidate_position_submit v h i j f) (\<lambda>_. good) good s"
  by (auto simp: update_candidate_position_submit_def wp_simps split: sum.splits form_action.splits
      intro!: load_rules wp_update_position wp_remove_candidate)

lemma candidate_details_good:
  "good s \<Longrightarrow> wp (delete_candidate_submit v h i j) (\<lambda>_. good) good s"
  "good s \<Longrightarrow> wp (update_candidate_address_submit v h i j af) (\<lambda>_. good) good s"
  "good s \<Longrightarrow> wp (update_candidate_representative_submit v h i j rf) (\<lambda>_. good) good s"
  by (auto simp: delete_candidate_submit_def update_candidate_address_submit_def update_candidate_representative_submit_def
      Let_def action_defs wp_simps free_events intro!: load_rules wp_update_free split: sum.splits)

lemma person_details_good:
  "good s \<Longrightarrow> wp (update_person_address_submit v h j af) (\<lambda>_. good) good s"
  "good s \<Longrightarrow> wp (update_representative_submit v h j rf) (\<lambda>_. good) good s"
  "good s \<Longrightarrow> wp (delete_person_submit v h j) (\<lambda>_. good) good s"
  by (auto simp: update_person_address_submit_def update_representative_submit_def delete_person_submit_def
      Let_def action_defs wp_simps free_events intro!: load_rules wp_update_free split: sum.splits)

lemma group_good:
  "good s \<Longrightarrow> wp (update_list_designation_submit h df) (\<lambda>_. good) good s"
  "good s \<Longrightarrow> wp (hide_download_warning h pq ip ht referer) (\<lambda>_. good) good s"
  by (auto simp: update_list_designation_submit_def hide_download_warning_def Let_def action_defs wp_simps free_events
      intro!: wp_update_free split: sum.splits)

lemma update_political_group_submit_good: "good s \<Longrightarrow> wp (update_political_group_submit v h rs gf) (\<lambda>_. good) good s"
  by (auto simp: update_political_group_submit_def Let_def action_defs wp_simps free_events
      intro!: wp_update_free split: sum.splits option.splits)

lemma authorisations_good:
  "good s \<Longrightarrow> wp (create_name_authorisation_submit h fa nf) (\<lambda>_. good) good s"
  "good s \<Longrightarrow> wp (update_name_authorisation_submit h ai nf) (\<lambda>_. good) good s"
  "good s \<Longrightarrow> wp (delete_name_authorisation h ai) (\<lambda>_. good) good s"
  by (auto simp: create_name_authorisation_submit_def update_name_authorisation_submit_def delete_name_authorisation_def
      action_defs wp_simps free_events intro!: load_rules wp_update_free split: sum.splits)

lemma submitters_good:
  "good s \<Longrightarrow> wp (update_list_submitter_submit v h lf) (\<lambda>_. good) good s"
  "good s \<Longrightarrow> wp (create_substitute_submitter_submit v h fl lf) (\<lambda>_. good) good s"
  "good s \<Longrightarrow> wp (update_substitute_submitter_submit v h li lf) (\<lambda>_. good) good s"
  "good s \<Longrightarrow> wp (delete_substitute_submitter h li) (\<lambda>_. good) good s"
  by (auto simp: update_list_submitter_submit_def create_substitute_submitter_submit_def update_substitute_submitter_submit_def
      delete_substitute_submitter_def Let_def action_defs wp_simps free_events intro!: load_rules wp_update_free split: sum.splits)

end

end
