(* ===== verification/Page_Requests.thy ===== *)
theory Page_Requests
  imports Page_Handlers Brp_Sweep
begin

text \<open>
  The requests a group's pages accept for writing (the \<open>router\<close> of each \<open>pg/*/pages/mod.rs\<close>)
  and the two handles they run on: the group's own stream, shared with any number of other
  requests, and the committee's corrections on paper.
\<close>

subsection \<open>Routes\<close>

text \<open>The ids a request draws.\<close>

record drawn_ids =
  dr_person :: person_id
  dr_list :: candidate_list_id
  dr_authorisation :: name_authorisation_id
  dr_submitter :: list_submitter_id
  dr_import :: "nat \<Rightarrow> person_id"

datatype list_request =
    PostCreateList candidate_list_create_form
  | PostUpdateList candidate_list_id "electoral_district btset"
  | PostDeleteList candidate_list_id
  | PostReorderList candidate_list_id "person_id list"
  | GetExportList candidate_list_id event_hash_prefix
  | PostImportList candidate_list_id "upload_error + (upload_error + multipart_field) list"

datatype candidate_request =
    PostAddCandidate candidate_list_id add_person_form
  | PostCandidatePosition candidate_list_id person_id candidate_position_form
  | PostCreateCandidate candidate_list_id personal_data_form
  | PostCandidateAddress candidate_list_id person_id dutch_address_form
  | PostCandidateRepresentative candidate_list_id person_id representative_form
  | PostUpdateCandidate candidate_list_id person_id personal_data_form
  | PostDeleteCandidate candidate_list_id person_id

datatype person_request =
    PostCreatePerson personal_data_form
  | PostUpdatePerson person_id personal_data_form
  | PostPersonAddress person_id dutch_address_form
  | PostPersonRepresentative person_id representative_form
  | PostDeletePerson person_id

datatype authorisation_request =
    PostCreateAuthorisation name_authorisation_form
  | PostUpdateAuthorisation name_authorisation_id name_authorisation_form
  | PostDeleteAuthorisation name_authorisation_id

datatype substitute_request =
    PostCreateSubstitute list_submitter_form
  | PostUpdateSubstitute list_submitter_id list_submitter_form
  | PostDeleteSubstitute list_submitter_id

text \<open>A request to hide the warning: the index of the site, whether it came with the token
  header, and the page it came from.\<close>

datatype pg_request =
    ListRequest list_request
  | CandidateRequest candidate_request
  | PersonRequest person_request
  | AuthorisationRequest authorisation_request
  | SubstituteRequest substitute_request
  | PostUpdateSubmitter list_submitter_form
  | PostUpdateGroup "registered_political_group list" political_group_form
  | PostUpdateDesignation rstring
  | PostHideWarning rstring bool "rstring option"

record router_env =
  rv_page :: page_env
  rv_csv :: "candidate_record_csv csv_env"
  rv_csv_size :: "rstring list list \<Rightarrow> nat"
  rv_path_and_query :: "rstring \<Rightarrow> rstring option"

fun candidate_lists_router :: "router_env \<Rightarrow> drawn_ids \<Rightarrow> 's pg_handle \<Rightarrow> list_request \<Rightarrow> ('s, page) action" where
  "candidate_lists_router v ids h (PostCreateList f) = create_candidate_list_submit (rv_page v) h (dr_list ids) f"
| "candidate_lists_router v ids h (PostUpdateList i districts) = update_candidate_list_submit (rv_page v) h i districts"
| "candidate_lists_router v ids h (PostDeleteList i) = delete_candidate_list (rv_page v) h i"
| "candidate_lists_router v ids h (PostReorderList i person_ids) = reorder_candidate_list (rv_page v) h i person_ids"
| "candidate_lists_router v ids h (GetExportList i hash) = export_candidate_list (rv_page v) h (rv_csv_size v) i hash"
| "candidate_lists_router v ids h (PostImportList i body) =
     import_candidate_list (rv_page v) (rv_csv v) (dr_import ids) h i (file_form_from_request body)"

fun candidates_router :: "router_env \<Rightarrow> drawn_ids \<Rightarrow> 's pg_handle \<Rightarrow> candidate_request \<Rightarrow> ('s, page) action" where
  "candidates_router v ids h (PostAddCandidate i f) = add_person_to_candidate_list (rv_page v) h i f"
| "candidates_router v ids h (PostCandidatePosition i p f) = update_candidate_position_submit (rv_page v) h i p f"
| "candidates_router v ids h (PostCreateCandidate i f) = create_person_candidate_list_submit (rv_page v) h (dr_person ids) i f"
| "candidates_router v ids h (PostCandidateAddress i p f) = update_candidate_address_submit (rv_page v) h i p f"
| "candidates_router v ids h (PostCandidateRepresentative i p f) = update_candidate_representative_submit (rv_page v) h i p f"
| "candidates_router v ids h (PostUpdateCandidate i p f) = update_candidate_submit (rv_page v) h (dr_person ids) i p f"
| "candidates_router v ids h (PostDeleteCandidate i p) = delete_candidate_submit (rv_page v) h i p"

fun persons_router :: "router_env \<Rightarrow> drawn_ids \<Rightarrow> 's pg_handle \<Rightarrow> person_request \<Rightarrow> ('s, page) action" where
  "persons_router v ids h (PostCreatePerson f) = create_person_submit (rv_page v) h (dr_person ids) f"
| "persons_router v ids h (PostUpdatePerson p f) = update_person_submit (rv_page v) h (dr_person ids) p f"
| "persons_router v ids h (PostPersonAddress p f) = update_person_address_submit (rv_page v) h p f"
| "persons_router v ids h (PostPersonRepresentative p f) = update_representative_submit (rv_page v) h p f"
| "persons_router v ids h (PostDeletePerson p) = delete_person_submit (rv_page v) h p"

fun name_authorisations_router :: "drawn_ids \<Rightarrow> 's pg_handle \<Rightarrow> authorisation_request \<Rightarrow> ('s, page) action" where
  "name_authorisations_router ids h (PostCreateAuthorisation f) = create_name_authorisation_submit h (dr_authorisation ids) f"
| "name_authorisations_router ids h (PostUpdateAuthorisation i f) = update_name_authorisation_submit h i f"
| "name_authorisations_router ids h (PostDeleteAuthorisation i) = delete_name_authorisation h i"

fun substitute_submitters_router :: "router_env \<Rightarrow> drawn_ids \<Rightarrow> 's pg_handle \<Rightarrow> substitute_request \<Rightarrow> ('s, page) action" where
  "substitute_submitters_router v ids h (PostCreateSubstitute f) = create_substitute_submitter_submit (rv_page v) h (dr_submitter ids) f"
| "substitute_submitters_router v ids h (PostUpdateSubstitute i f) = update_substitute_submitter_submit (rv_page v) h i f"
| "substitute_submitters_router v ids h (PostDeleteSubstitute i) = delete_substitute_submitter h i"

fun serve :: "router_env \<Rightarrow> drawn_ids \<Rightarrow> 's pg_handle \<Rightarrow> pg_request \<Rightarrow> ('s, page) action" where
  "serve v ids h (ListRequest r) = candidate_lists_router v ids h r"
| "serve v ids h (CandidateRequest r) = candidates_router v ids h r"
| "serve v ids h (PersonRequest r) = persons_router v ids h r"
| "serve v ids h (AuthorisationRequest r) = name_authorisations_router ids h r"
| "serve v ids h (SubstituteRequest r) = substitute_submitters_router v ids h r"
| "serve v ids h (PostUpdateSubmitter f) = update_list_submitter_submit (rv_page v) h f"
| "serve v ids h (PostUpdateGroup registered f) = update_political_group_submit (rv_page v) h registered f"
| "serve v ids h (PostUpdateDesignation f) = update_list_designation_submit h f"
| "serve v ids h (PostHideWarning index_path header_token referer) =
     hide_download_warning h (rv_path_and_query v) index_path header_token referer"

text \<open>What a request may assume: the ids of an import are fresh, and, where unique persons are
  asked for, the prefix of a name is not typed blank.\<close>

fun request_ok :: "bool \<Rightarrow> drawn_ids \<Rightarrow> person list \<Rightarrow> pg_request \<Rightarrow> bool" where
  "request_ok u ids persons (ListRequest (PostImportList _ _)) = fresh_ids (dr_import ids) MAX_IMPORT_RECORDS persons"
| "request_ok u ids persons (CandidateRequest (PostCreateCandidate _ f)) = prefix_ok u f"
| "request_ok u ids persons (CandidateRequest (PostUpdateCandidate _ _ f)) = prefix_ok u f"
| "request_ok u ids persons (PersonRequest (PostCreatePerson f)) = prefix_ok u f"
| "request_ok u ids persons (PersonRequest (PostUpdatePerson _ f)) = prefix_ok u f"
| "request_ok u ids persons _ = True"

context pg_writer
begin

lemma serve_good:
  assumes "good s" "request_ok u ids (get_persons (shown s)) r"
  shows "good (fst (serve v ids h r s))"
proof -
  note rules = create_candidate_list_submit_good update_candidate_list_submit_good delete_candidate_list_good
    reorder_candidate_list_good export_candidate_list_good import_candidate_list_good add_person_to_candidate_list_good
    create_person_submit_good create_person_candidate_list_submit_good update_candidate_submit_good update_person_submit_good
    update_candidate_position_submit_good candidate_details_good person_details_good group_good
    update_political_group_submit_good authorisations_good submitters_good
  have "wp (serve v ids h r) (\<lambda>_. good) good s"
  proof (cases r)
    case (ListRequest x)
    with assms show ?thesis by (cases x) (auto intro: rules)
  next
    case (CandidateRequest x)
    with assms show ?thesis by (cases x) (auto intro: rules)
  next
    case (PersonRequest x)
    with assms show ?thesis by (cases x) (auto intro: rules)
  next
    case (AuthorisationRequest x)
    with assms show ?thesis by (cases x) (auto intro: rules)
  next
    case (SubstituteRequest x)
    with assms show ?thesis by (cases x) (auto intro: rules)
  qed (use assms in \<open>auto intro: rules\<close>)
  then show ?thesis by (simp add: wp_fst)
qed

end

subsection \<open>A group's own stream\<close>

record mem_env =
  me_fresh :: list_submitter_id
  me_sha256 :: hash_fn
  me_codec :: "pg_event codec"
  me_key :: stream_key
  me_min_utc :: int
  me_max_utc :: int
  me_limits :: rate_limits
  me_now :: timestamp

definition own_append :: "mem_env \<Rightarrow> pg_event \<Rightarrow> nat option \<Rightarrow> pg_store_data \<times> memory_store \<Rightarrow> (pg_store_data \<times> memory_store) \<times> unit result" where
  "own_append b = mem_append (pg_ops (me_fresh b)) (me_sha256 b) (me_codec b) (me_key b) (me_now b)"

text \<open>What other requests record meanwhile: any events that keep the invariant.\<close>

definition interfere :: "mem_env \<Rightarrow> bool \<Rightarrow> pg_event list \<Rightarrow> pg_store_data \<times> memory_store \<Rightarrow> pg_store_data \<times> memory_store" where
  "interfere b u = fold (\<lambda>e s. if event_ok MAX_CANDIDATES u (fst s) e then fst (own_append b e None s) else s)"

text \<open>\<open>PgStore::own\<close>: the stream, the number the handle has last seen on it, and what other
  requests are going to record at each point of an update where they can.\<close>

type_synonym own_state = "((pg_store_data \<times> memory_store) \<times> nat) \<times> pg_event list list"

definition own_update :: "mem_env \<Rightarrow> bool \<Rightarrow> pg_event \<Rightarrow> own_state \<Rightarrow> own_state \<times> unit result" where
  "own_update b u e st = (case pg_update_own fst (own_append b)
       (\<lambda>k. interfere b u (if k < length (snd st) then snd st ! k else []))
       (me_min_utc b) (me_max_utc b) (me_now b) (Some (me_limits b)) e (fst st) of
     (st', r) \<Rightarrow> ((st', drop 2 (snd st)), r))"

definition own_handle :: "mem_env \<Rightarrow> bool \<Rightarrow> own_state pg_handle" where
  "own_handle b u = \<lparr>ph_snapshot = \<lambda>st. fst (fst (fst st)), ph_update = own_update b u, ph_target = Own\<rparr>"

definition own_ok :: "mem_env \<Rightarrow> own_state \<Rightarrow> bool" where
  "own_ok b st = (snd (fst st) \<le> last_event_id (pg_ops (me_fresh b)) (fst (fst (fst st))))"

text \<open>\<open>PgStore::own\<close> starts at the last event.\<close>

definition own_open :: "mem_env \<Rightarrow> pg_store_data \<times> memory_store \<Rightarrow> pg_event list list \<Rightarrow> own_state" where
  "own_open b s schedule = ((s, last_event_id (pg_ops (me_fresh b)) (fst s)), schedule)"

lemma mem_append_cases:
  "(\<exists>err. mem_append ops sha256 cbor k now e None s = (s, Inl err)) \<or>
   (\<exists>ev t. mem_append ops sha256 cbor k now e None s = (t, Inr ()) \<and> se_payload ev = e
      \<and> se_event_id ev = Suc (last_event_id ops (fst s)) \<and> fst t = sd_apply ops ev (fst s))"
  by (cases s) (auto simp: mem_append_def check_expected_event_id_def Let_def split: sum.splits)

lemma own_append_cases:
  "(\<exists>err. own_append b e None s = (s, Inl err)) \<or>
   (\<exists>ev t. own_append b e None s = (t, Inr ()) \<and> se_payload ev = e
      \<and> se_event_id ev = Suc (last_event_id (pg_ops (me_fresh b)) (fst s)) \<and> fst t = pg_apply ev (fst s))"
  unfolding own_append_def using mem_append_cases [of "pg_ops (me_fresh b)"] by (simp add: pg_ops_def)

lemma own_append_refused: "own_append b e x s = (s', Inl err) \<Longrightarrow> s' = s"
  by (cases s) (auto simp: own_append_def mem_append_def Let_def split: sum.splits)

lemma pg_update_own_result:
  "pg_update_own snap app other mn mx now lim e (s, seen) = ((s', seen'), r) \<Longrightarrow> case r of
      Inl _ \<Rightarrow> seen' = seen \<and> (s' = s \<or> s' = other 0 s \<or> (\<exists>err. app e (Some seen) (other 1 (other 0 s)) = (s', Inl err)))
    | Inr _ \<Rightarrow> seen' = Suc seen \<and> app e (Some seen) (other 1 (other 0 s)) = (s', Inr ())"
  by (auto simp: pg_update_own_def Let_def split: sum.splits prod.splits)

lemma interfere_evolves:
  "mem_evolves (pg_ops (me_fresh b)) s (interfere b u es s)
     \<and> (group_inv MAX_CANDIDATES u (fst s) \<longrightarrow> group_inv MAX_CANDIDATES u (fst (interfere b u es s)))"
proof (induction es arbitrary: s)
  case Nil
  then show ?case by (simp add: interfere_def pg_mem.evolves_refl)
next
  case (Cons e es)
  let ?t = "if event_ok MAX_CANDIDATES u (fst s) e then fst (own_append b e None s) else s"
  have "mem_evolves (pg_ops (me_fresh b)) s ?t \<and> (group_inv MAX_CANDIDATES u (fst s) \<longrightarrow> group_inv MAX_CANDIDATES u (fst ?t))"
  proof (cases "event_ok MAX_CANDIDATES u (fst s) e")
    case True
    from own_append_cases [of b e s] show ?thesis
    proof
      assume "\<exists>err. own_append b e None s = (s, Inl err)"
      then show ?thesis by (auto simp: pg_mem.evolves_refl)
    next
      assume "\<exists>ev t. own_append b e None s = (t, Inr ()) \<and> se_payload ev = e
        \<and> se_event_id ev = Suc (last_event_id (pg_ops (me_fresh b)) (fst s)) \<and> fst t = pg_apply ev (fst s)"
      then obtain ev t where t: "own_append b e None s = (t, Inr ())" "se_payload ev = e"
        "se_event_id ev = Suc (last_event_id (pg_ops (me_fresh b)) (fst s))" "fst t = pg_apply ev (fst s)" by blast
      then have "mem_evolves (pg_ops (me_fresh b)) s t"
        by (auto simp: mem_evolves_def replay_events_def pg_ops_def intro: exI [of _ "[ev]"])
      with t True show ?thesis by (simp add: group_inv_apply)
    qed
  qed (simp add: pg_mem.evolves_refl)
  moreover have "interfere b u (e # es) s = interfere b u es ?t" by (simp add: interfere_def)
  ultimately show ?case using Cons.IH [of ?t] by (metis pg_mem.evolves_trans)
qed

text \<open>An update that succeeds is recorded on what the handle showed, whatever other requests
  recorded; a refused one leaves what they did.\<close>

lemma own_update_law:
  assumes ok: "own_ok b st" and up: "own_update b u e st = (st', r)"
  shows "case r of
      Inr _ \<Rightarrow> own_ok b st' \<and> (\<exists>ev. se_payload ev = e \<and> fst (fst (fst st')) = pg_apply ev (fst (fst (fst st))))
    | Inl _ \<Rightarrow> own_ok b st' \<and> (group_inv MAX_CANDIDATES u (fst (fst (fst st))) \<longrightarrow> group_inv MAX_CANDIDATES u (fst (fst (fst st'))))"
proof -
  obtain s seen sch where st: "st = ((s, seen), sch)" by (metis prod.collapse)
  let ?ops = "pg_ops (me_fresh b)"
  let ?other = "\<lambda>k. interfere b u (if k < length sch then sch ! k else [])"
  have seen: "seen \<le> last_event_id ?ops (fst s)" using ok st by (simp add: own_ok_def)
  have ev1: "mem_evolves ?ops s (?other 0 s)" and ev2: "mem_evolves ?ops (?other 0 s) (?other 1 (?other 0 s))"
    using interfere_evolves by blast+
  have inv: "group_inv MAX_CANDIDATES u (fst s) \<Longrightarrow> group_inv MAX_CANDIDATES u (fst (?other 0 s))"
    "group_inv MAX_CANDIDATES u (fst s) \<Longrightarrow> group_inv MAX_CANDIDATES u (fst (?other 1 (?other 0 s)))"
    using interfere_evolves by blast+
  have on: "last_event_id ?ops (fst s) \<le> last_event_id ?ops (fst (?other 0 s))"
    "last_event_id ?ops (fst s) \<le> last_event_id ?ops (fst (?other 1 (?other 0 s)))"
    using pg_mem.evolves_mono [OF TrueI ev1] pg_mem.evolves_mono [OF TrueI ev2] by simp_all
  obtain s' seen' where st': "fst st' = (s', seen')" by fastforce
  then have "pg_update_own fst (own_append b) ?other (me_min_utc b) (me_max_utc b) (me_now b) (Some (me_limits b)) e (s, seen)
      = ((s', seen'), r)"
    using up unfolding own_update_def st fst_conv snd_conv by (auto split: prod.splits)
  note result = pg_update_own_result [OF this]
  show ?thesis
  proof (cases r)
    case (Inl err)
    from result Inl have "seen' = seen" and "s' = s \<or> s' = ?other 0 s \<or> (\<exists>err. own_append b e (Some seen) (?other 1 (?other 0 s)) = (s', Inl err))"
      by simp_all
    then have "seen' = seen \<and> (s' = s \<or> s' = ?other 0 s \<or> s' = ?other 1 (?other 0 s))"
      using own_append_refused by blast
    then show ?thesis using Inl inv on seen st st' by (auto simp: own_ok_def)
  next
    case (Inr x)
    then have seen': "seen' = Suc seen" and app: "own_append b e (Some seen) (?other 1 (?other 0 s)) = (s', Inr ())"
      using result by auto
    from pg_mem.checked_append_twice [OF TrueI ev1 ev2 app [unfolded own_append_def] seen]
    obtain ev where ev: "se_payload ev = e" "se_event_id ev = Suc seen" "fst s' = pg_apply ev (fst s)"
      by (auto simp: recorded_pg)
    moreover have "last_event_id ?ops (fst s') = Suc seen"
      using ev pg.last_event_id_apply [of "me_fresh b" ev "fst s"] by simp
    ultimately show ?thesis using Inr seen' st' st by (auto simp: own_ok_def)
  qed
qed

interpretation own: pg_writer "own_handle b u" "own_ok b" u for b u
proof (unfold_locales, goal_cases)
  case (1 s e s' x)
  with own_update_law [of b s u e s' "Inr x"] show ?case by (simp add: own_handle_def)
next
  case (2 s e s' err)
  with own_update_law [of b s u e s' "Inl err"] show ?case by (simp add: own_handle_def limit_of_def)
qed

subsection \<open>Corrections on paper\<close>

text \<open>\<open>PgStore::paper_corrections\<close>: the committee's stream for the group and the projection
  served to reads, which a write replaces by the stream's corrected data.\<close>

record committee_env =
  cv_csb :: csb_env
  cv_sha256 :: hash_fn
  cv_codec :: "csb_event codec"
  cv_key :: stream_key
  cv_user :: csb_user
  cv_now :: timestamp

type_synonym paper_state = "(csb_store_data \<times> memory_store) \<times> pg_store_data"

definition paper_update :: "committee_env \<Rightarrow> pg_event \<Rightarrow> paper_state \<Rightarrow> paper_state \<times> unit result" where
  "paper_update v e st = (case mem_append (csb_ops (cv_csb v)) (cv_sha256 v) (cv_codec v) (cv_key v) (cv_now v)
       (csb_action_by (PaperCorrectedUpdate e) (cv_user v)) None (fst st) of
     (s', Inl err) \<Rightarrow> ((s', snd st), Err err)
   | (s', Inr _) \<Rightarrow> ((s', c_paper_corrected_data (fst s')), Ok ()))"

definition paper_handle :: "committee_env \<Rightarrow> paper_state pg_handle" where
  "paper_handle v = \<lparr>ph_snapshot = snd, ph_update = paper_update v, ph_target = PaperCorrections\<rparr>"

definition paper_open :: "csb_store_data \<times> memory_store \<Rightarrow> paper_state" where
  "paper_open s = (s, c_paper_corrected_data (fst s))"

definition paper_ok :: "paper_state \<Rightarrow> bool" where
  "paper_ok st = (snd st = c_paper_corrected_data (fst (fst st)))"

lemma paper_update_cases:
  assumes "paper_ok st" "paper_update v e st = (st', r)"
  shows "case r of
      Inl _ \<Rightarrow> st' = st
    | Inr _ \<Rightarrow> paper_ok st' \<and> (\<exists>ev. se_payload ev = e \<and> snd st' = pg_apply ev (snd st))"
proof -
  from mem_append_cases [of "csb_ops (cv_csb v)" "cv_sha256 v" "cv_codec v" "cv_key v" "cv_now v"
      "csb_action_by (PaperCorrectedUpdate e) (cv_user v)" "fst st"]
  show ?thesis
  proof
    assume "\<exists>ev t. mem_append (csb_ops (cv_csb v)) (cv_sha256 v) (cv_codec v) (cv_key v) (cv_now v)
        (csb_action_by (PaperCorrectedUpdate e) (cv_user v)) None (fst st) = (t, Inr ())
      \<and> se_payload ev = csb_action_by (PaperCorrectedUpdate e) (cv_user v)
      \<and> se_event_id ev = Suc (last_event_id (csb_ops (cv_csb v)) (fst (fst st))) \<and> fst t = sd_apply (csb_ops (cv_csb v)) ev (fst (fst st))"
    then obtain ev t where app: "mem_append (csb_ops (cv_csb v)) (cv_sha256 v) (cv_codec v) (cv_key v) (cv_now v)
        (csb_action_by (PaperCorrectedUpdate e) (cv_user v)) None (fst st) = (t, Inr ())"
      and ev: "se_payload ev = csb_action_by (PaperCorrectedUpdate e) (cv_user v)" "fst t = csb_apply (cv_csb v) ev (fst (fst st))"
      by (auto simp: csb_ops_def)
    have "c_paper_corrected_data (fst t) = pg_apply (paper_event ev e) (snd st)"
      using assms(1) ev by (simp add: c_paper_csb_apply paper_after_def csb_action_by_def paper_ok_def)
    moreover have "se_payload (paper_event ev e) = e" by simp
    ultimately obtain pe where "se_payload pe = e" "c_paper_corrected_data (fst t) = pg_apply pe (snd st)" by blast
    then show ?thesis using assms(2) app by (auto simp: paper_update_def paper_ok_def)
  qed (use assms in \<open>auto simp: paper_update_def\<close>)
qed

interpretation paper: pg_writer "paper_handle v" paper_ok u for v u
proof (unfold_locales, goal_cases)
  case (1 s e s' x)
  with paper_update_cases [of s v e s' "Inr x"] show ?case by (simp add: paper_handle_def)
next
  case (2 s e s' err)
  with paper_update_cases [of s v e s' "Inl err"] show ?case by (simp add: paper_handle_def)
qed

end
