(* ===== verification/Csv_Facts.thy ===== *)
theory Csv_Facts
  imports Csv
begin

text \<open>
  The bounds check of \<open>Csv\<close> against a reference: the data is split into its records first, and
  each record is then judged on its own.
\<close>

subsection \<open>The records of the data\<close>

text \<open>A record is the line it starts on, its bytes and its separators. The state is whether a
  quoted field is open, whether a field starts here, and the current line.\<close>

type_synonym record_size = "nat \<times> nat \<times> nat"

function lex_records :: "byte \<Rightarrow> bool \<Rightarrow> bool \<Rightarrow> nat \<Rightarrow> record_size \<Rightarrow> byte list \<Rightarrow> record_size list" where
  "lex_records d quoted fs line (start, n, k) [] = [(start, n, k)]"
| "lex_records d quoted fs line (start, n, k) (b # bs) =
    (let line' = line + (if b = newline then 1 else 0) in
     if quoted then
       (if b \<noteq> quote then lex_records d True fs line' (start, n + 1, k) bs
        else if bs \<noteq> [] \<and> hd bs = quote then lex_records d True fs line' (start, n + 2, k) (tl bs)
        else lex_records d False fs line' (start, n + 1, k) bs)
     else if b = quote \<and> fs then lex_records d True False line' (start, n + 1, k) bs
     else if b = newline \<or> b = carriage_return then (start, n, k) # lex_records d False True line' (line', 0, 0) bs
     else if b = d then lex_records d False True line' (start, n + 1, k + 1) bs
     else lex_records d False False line' (start, n + 1, k) bs)"
  by pat_completeness auto

termination
  by (relation "measure (\<lambda>(d, q, fs, l, r, bs). length bs)") auto

definition csv_records :: "byte \<Rightarrow> byte list \<Rightarrow> record_size list" where
  "csv_records d data = lex_records d False True 1 (1, 0, 0) (strip_bom data)"

text \<open>The header is the first record that is not empty; the first record that breaks a bound
  decides the error.\<close>

fun judge_records :: "bool \<Rightarrow> record_size list \<Rightarrow> csv_error + unit" where
  "judge_records hdr [] = Inr ()"
| "judge_records hdr ((line, n, k) # rs) =
    (if k \<ge> MAX_HEADER_FIELDS then Inl (too_wide hdr line)
     else if hdr \<and> n > MAX_HEADER_LINE_BYTES then Inl HeaderTooLarge
     else judge_records (hdr \<and> n = 0) rs)"

lemma lex_records_hd:
  "\<exists>n' k' rs. lex_records d quoted fs line (start, n, k) bs = (start, n', k') # rs \<and> n \<le> n' \<and> k \<le> k'"
proof (induction bs arbitrary: quoted fs line start n k rule: length_induct)
  case (1 bs)
  show ?case
  proof (cases bs)
    case (Cons b bs')
    have ih: "\<exists>n'' k'' rs. lex_records d q f l (start, n', k') cs = (start, n'', k'') # rs \<and> n \<le> n'' \<and> k \<le> k''"
      if "length cs < length bs" "n \<le> n'" "k \<le> k'" for q f l n' k' cs
      using 1 that by (meson order_trans)
    show ?thesis
      unfolding Cons lex_records.simps Let_def using ih Cons by (auto simp: ih)
  qed simp
qed

lemma judge_wide:
  "k \<ge> MAX_HEADER_FIELDS \<Longrightarrow> judge_records hdr (lex_records d quoted fs line (start, n, k) bs) = Inl (too_wide hdr start)"
  using lex_records_hd [of d quoted fs line start n k bs] by auto

definition close_bounds :: "byte list \<Rightarrow> csv_error + bounds_state \<Rightarrow> csv_error + unit" where
  "close_bounds data r = (case r of
      Inl e \<Rightarrow> Inl e
    | Inr st \<Rightarrow> if bs_is_header st \<and> length data - bs_record_start st > MAX_HEADER_LINE_BYTES
        then Inl HeaderTooLarge else Inr ())"

definition bounds_ok :: "byte list \<Rightarrow> bounds_state \<Rightarrow> bool" where
  "bounds_ok data st = (bs_index st \<le> length data \<and> bs_record_start st \<le> bs_index st
     \<and> bs_separators st < MAX_HEADER_FIELDS)"

definition rest_records :: "byte list \<Rightarrow> byte \<Rightarrow> bounds_state \<Rightarrow> record_size list" where
  "rest_records data d st = lex_records d (bs_quoted st) (bs_at_field_start st) (bs_line_number st)
     (bs_record_line st, bs_index st - bs_record_start st, bs_separators st) (drop (bs_index st) data)"

text \<open>One turn of the loop either stops with the error the reference finds, or goes on with the
  records that remain.\<close>

lemma bounds_step_sound:
  assumes ok: "bounds_ok data st" and i: "bs_index st < length data"
  shows "case bounds_step data d st of
      Inl e \<Rightarrow> judge_records (bs_is_header st) (rest_records data d st) = Inl e
    | Inr st' \<Rightarrow> bs_index st < bs_index st' \<and> bounds_ok data st'
        \<and> judge_records (bs_is_header st) (rest_records data d st) = judge_records (bs_is_header st') (rest_records data d st')"
proof -
  let ?i = "bs_index st"
  have dr: "drop ?i data = data ! ?i # drop (Suc ?i) data" using i by (simp add: Cons_nth_drop_Suc)
  have nxt: "drop (Suc ?i) data \<noteq> [] \<and> hd (drop (Suc ?i) data) = quote \<longleftrightarrow> Suc ?i < length data \<and> data ! Suc ?i = quote"
    by (auto simp: hd_drop_conv_nth)
  have tl: "tl (drop (Suc ?i) data) = drop (Suc (Suc ?i)) data" by (simp add: drop_Suc tl_drop)
  have rs: "Suc ?i - bs_record_start st = Suc (?i - bs_record_start st)"
    "Suc (Suc ?i) - bs_record_start st = Suc (Suc (?i - bs_record_start st))"
    using ok by (auto simp: bounds_ok_def)
  have wide: "bs_separators st < MAX_HEADER_FIELDS" using ok by (simp add: bounds_ok_def)
  consider (quoted) "bs_quoted st" | (opened) "\<not> bs_quoted st" "data ! ?i = quote" "bs_at_field_start st"
    | (ended) "\<not> bs_quoted st" "\<not> (data ! ?i = quote \<and> bs_at_field_start st)" "data ! ?i = newline \<or> data ! ?i = carriage_return"
    | (sep) "\<not> bs_quoted st" "\<not> (data ! ?i = quote \<and> bs_at_field_start st)"
        "\<not> (data ! ?i = newline \<or> data ! ?i = carriage_return)" "data ! ?i = d"
    | (other) "\<not> bs_quoted st" "\<not> (data ! ?i = quote \<and> bs_at_field_start st)"
        "\<not> (data ! ?i = newline \<or> data ! ?i = carriage_return)" "data ! ?i \<noteq> d"
    by blast
  then show ?thesis
  proof cases
    case quoted
    then show ?thesis using ok i nxt tl rs
      unfolding bounds_step_def rest_records_def dr lex_records.simps Let_def by (auto simp: bounds_ok_def)
  next
    case opened
    then show ?thesis using ok i rs
      unfolding bounds_step_def rest_records_def dr lex_records.simps Let_def by (auto simp: bounds_ok_def)
  next
    case ended
    with i have q: "data ! ?i \<noteq> quote" by auto
    let ?n = "?i - bs_record_start st"
    have zero: "?i = bs_record_start st \<longleftrightarrow> ?n = 0" using ok by (auto simp: bounds_ok_def)
    define line' where "line' = bs_line_number st + (if data ! ?i = newline then 1 else 0)"
    have rest: "rest_records data d st = (bs_record_line st, ?n, bs_separators st)
        # lex_records d False True line' (line', 0, 0) (drop (Suc ?i) data)"
      using ended q unfolding rest_records_def dr line'_def by (simp add: Let_def)
    have step: "bounds_step data d st = (if bs_is_header st \<and> ?n > MAX_HEADER_LINE_BYTES then Inl HeaderTooLarge
      else Inr (st\<lparr>bs_index := Suc ?i, bs_line_number := line', bs_is_header := bs_is_header st \<and> ?n = 0,
        bs_record_line := line', bs_record_start := Suc ?i, bs_separators := 0, bs_at_field_start := True\<rparr>))"
      using ended q zero unfolding bounds_step_def line'_def Let_def by simp
    show ?thesis
      unfolding step rest using i wide ended(1)
      by (simp add: rest_records_def bounds_ok_def MAX_HEADER_FIELDS_def)
  next
    case sep
    then show ?thesis using ok i rs judge_wide
      unfolding bounds_step_def rest_records_def dr lex_records.simps Let_def by (auto simp: bounds_ok_def)
  next
    case other
    then show ?thesis using ok i rs
      unfolding bounds_step_def rest_records_def dr lex_records.simps Let_def by (auto simp: bounds_ok_def)
  qed
qed

lemma bounds_loop_sound:
  "bounds_ok data st \<Longrightarrow>
    map_option (close_bounds data) (bounds_loop data d st) = Some (judge_records (bs_is_header st) (rest_records data d st))"
proof (induction "length data - bs_index st" arbitrary: st rule: less_induct)
  case less
  show ?case
  proof (cases "bs_index st < length data")
    case False
    with less.prems show ?thesis
      by (subst bounds_loop.simps) (auto simp: bounds_ok_def rest_records_def close_bounds_def)
  next
    case True
    note step = bounds_step_sound [OF less.prems True, of d]
    show ?thesis
    proof (cases "bounds_step data d st")
      case (Inl e)
      with step True show ?thesis by (subst bounds_loop.simps) (simp add: close_bounds_def)
    next
      case (Inr st')
      with step have st': "bs_index st < bs_index st'" "bounds_ok data st'"
        "judge_records (bs_is_header st) (rest_records data d st) = judge_records (bs_is_header st') (rest_records data d st')"
        by auto
      have "map_option (close_bounds data) (bounds_loop data d st') = Some (judge_records (bs_is_header st') (rest_records data d st'))"
        using st' True by (intro less.hyps) auto
      with Inr True st'(3) show ?thesis by (subst bounds_loop.simps) simp
    qed
  qed
qed

text \<open>The check returns on every input, with the verdict of the reference.\<close>

lemma check_record_bounds_judges: "check_record_bounds data d = Some (judge_records True (csv_records d data))"
proof -
  let ?data = "strip_bom data"
  have "bounds_ok ?data bounds_init" by (simp add: bounds_ok_def bounds_init_def MAX_HEADER_FIELDS_def)
  from bounds_loop_sound [OF this, of d] obtain r where r: "bounds_loop ?data d bounds_init = Some r"
    "close_bounds ?data r = judge_records True (csv_records d data)"
    by (auto simp: csv_records_def rest_records_def bounds_init_def)
  then show ?thesis
    by (auto simp: check_record_bounds_def Let_def close_bounds_def split: sum.splits)
qed

text \<open>Acceptance, record by record.\<close>

definition header_of :: "record_size list \<Rightarrow> record_size option" where
  "header_of rs = find (\<lambda>(_, n, _). n \<noteq> 0) rs"

lemma judge_records_ok:
  "judge_records True rs = Inr () \<longleftrightarrow> list_all (\<lambda>(_, _, k). k < MAX_HEADER_FIELDS) rs
     \<and> (case header_of rs of None \<Rightarrow> True | Some (_, n, _) \<Rightarrow> n \<le> MAX_HEADER_LINE_BYTES)"
  "judge_records False rs = Inr () \<longleftrightarrow> list_all (\<lambda>(_, _, k). k < MAX_HEADER_FIELDS) rs"
proof -
  show no: "judge_records False rs = Inr () \<longleftrightarrow> list_all (\<lambda>(_, _, k). k < MAX_HEADER_FIELDS) rs" for rs
    by (induction rs) (auto split: if_splits)
  show "judge_records True rs = Inr () \<longleftrightarrow> list_all (\<lambda>(_, _, k). k < MAX_HEADER_FIELDS) rs
     \<and> (case header_of rs of None \<Rightarrow> True | Some (_, n, _) \<Rightarrow> n \<le> MAX_HEADER_LINE_BYTES)"
  proof (induction rs)
    case (Cons r rs)
    obtain l n k where "r = (l, n, k)" by (cases r)
    with Cons no show ?case by (auto simp: header_of_def split: if_splits)
  qed (simp add: header_of_def)
qed

subsection \<open>Cells\<close>

lemma str_bytes_hd: "c < 128 \<Longrightarrow> str_bytes (c # s) = of_nat c # str_bytes s"
  by (simp add: str_bytes_def utf8_char_def)

lemma unescape_escape: "unescape_csv_formula (escape_csv_formula cell) = cell"
  by (cases cell) (auto simp: unescape_csv_formula_def escape_csv_formula_def starts_with_formula_trigger_def str_bytes_hd)

text \<open>The rows loop: at most the wanted records, at most fifty errors and a note that there
  were more.\<close>

lemma rows_loop_bounds:
  assumes "rows_loop env h mx i rec err rows = (rec', err')" "length rec \<le> mx" "length err \<le> MAX_ERRORS"
  shows "length rec' \<le> mx \<and> length err' \<le> MAX_ERRORS + 1"
  using assms
proof (induction env h mx i rec err rows rule: rows_loop.induct)
  case (2 env h mx i rec err res rows)
  show ?case
  proof (cases "length rec < mx")
    case True
    show ?thesis
    proof (cases "bind_res res (\<lambda>row. ce_deserialize env h (map unescape_csv_formula row))")
      case (Inl e)
      with 2 True show ?thesis by (cases "length err = MAX_ERRORS") auto
    next
      case (Inr r)
      with 2 True show ?thesis by auto
    qed
  qed (use 2 in auto)
qed auto

lemma from_bytes_bound: "from_bytes env data mx = Some (Inr rs) \<Longrightarrow> length rs \<le> mx"
  using rows_loop_bounds [of env _ mx 0 "[]" "[]"]
  by (auto simp: from_bytes_def split: option.splits sum.splits prod.splits if_splits)

end
