(* ===== verification/Page_Properties.thy ===== *)
theory Page_Properties
  imports Page_Requests Csv_Facts Document_Properties Csb_Properties
begin

text \<open>
  What the pages of a group guarantee, over every sequence of requests: consistent lists and
  no person twice. And what the parts a request meets before guarantee: the check for
  duplicates, the bounds on an uploaded file, and where a redirect can lead.
\<close>

subsection \<open>Requests on a group's own stream\<close>

text \<open>The events of a session and of a download, which no page form posts.\<close>

fun is_session_event :: "pg_event \<Rightarrow> bool" where
  "is_session_event Login = True"
| "is_session_event Logout = True"
| "is_session_event (DeveloperLogin _) = True"
| "is_session_event (DownloadFile _ _) = True"
| "is_session_event _ = False"

text \<open>The stores a group's stream can reach: requests one after another, each with others'
  events landing in the middle of its updates.\<close>

inductive own_reachable :: "bool \<Rightarrow> pg_store_data \<times> memory_store \<Rightarrow> bool" for u where
  created: "own_reachable u (pg_default fresh, m)"
| session: "own_reachable u s \<Longrightarrow> is_session_event e \<Longrightarrow> own_reachable u (fst (own_append b e None s))"
| request: "own_reachable u s \<Longrightarrow> request_ok u ids (get_persons (fst s)) r \<Longrightarrow>
    own_reachable u (fst (fst (fst (serve v ids (own_handle b u) r (own_open b s schedule)))))"

lemma session_event_free: "is_session_event e \<Longrightarrow> event_ok lim u d e"
  by (cases e) (auto simp: event_ok_def)

lemma own_reachable_inv: "own_reachable u s \<Longrightarrow> group_inv MAX_CANDIDATES u (fst s)"
proof (induction rule: own_reachable.induct)
  case (created fresh m)
  then show ?case by (simp add: group_inv_default)
next
  case (session s e b)
  with own_append_cases [of b e s] show ?case by (auto simp: group_inv_apply session_event_free)
next
  case (request s ids r v b schedule)
  let ?st = "own_open b s schedule"
  have "good_state (own_handle b u) (own_ok b) u ?st"
    using request.IH by (simp add: good_state_def own_handle_def own_open_def own_ok_def limit_of_def)
  moreover have "ph_snapshot (own_handle b u) ?st = fst s" by (simp add: own_handle_def own_open_def)
  ultimately have "good_state (own_handle b u) (own_ok b) u (fst (serve v ids (own_handle b u) r ?st))"
    using own.serve_good [of b u ?st ids r v] request.hyps by simp
  then show ?case by (simp add: good_state_def own_handle_def limit_of_def)
qed

text \<open>What the invariant says of the reads.\<close>

lemma group_inv_reads:
  assumes "group_inv lim u d"
  shows "list_all (\<lambda>l. distinct (cl_candidates l) \<and> length (cl_candidates l) \<le> lim
      \<and> list_all (\<lambda>i. i \<in> p_id ` set (get_persons d)) (cl_candidates l)) (get_candidate_lists d)"
    and "u \<longrightarrow> pairwise (\<lambda>p q. identity_match_of p q \<noteq> Same) (set (get_persons d))"
proof -
  have "stored d l" if "l \<in> set (get_candidate_lists d)" for l
    using that assms by (simp add: stored_def group_inv_def get_candidate_lists_iff)
  then show "list_all (\<lambda>l. distinct (cl_candidates l) \<and> length (cl_candidates l) \<le> lim
      \<and> list_all (\<lambda>i. i \<in> p_id ` set (get_persons d)) (cl_candidates l)) (get_candidate_lists d)"
    using stored_sizes [OF assms] unfolding list_all_iff get_persons_ids [OF assms] by blast
  show "u \<longrightarrow> pairwise (\<lambda>p q. identity_match_of p q \<noteq> Same) (set (get_persons d))"
  proof (intro impI pairwiseI)
    fix p q assume u and pq: "p \<in> set (get_persons d)" "q \<in> set (get_persons d)" "p \<noteq> q"
    have "hm_get (d_persons d) (p_id p) = Some p" "hm_get (d_persons d) (p_id q) = Some q"
      using pq assms by (auto simp: group_inv_def pg_inv_def keyed_def get_persons_def hm_values_iff)
    with pq(3) have ids: "p_id p \<noteq> p_id q" by auto
    have "unique_persons (d_persons d)" using assms \<open>u\<close> by (simp add: group_inv_def)
    then show "identity_match_of p q \<noteq> Same"
      using held_ident_at(2) [OF assms] pq ids unfolding unique_persons_def same_iff_identity by metis
  qed
qed

text \<open>C32: Whatever requests a group makes, with any number of other requests recording events in
  the middle, every candidate list names at most eighty candidates, none twice and all of
  them persons the group holds. When no form is posted with a blank prefix of the last name,
  no two persons held are the same natural person.\<close>

theorem pages_keep_group:
  assumes "own_reachable u s"
  shows "list_all (\<lambda>l. distinct (cl_candidates l) \<and> length (cl_candidates l) \<le> MAX_CANDIDATES
      \<and> list_all (\<lambda>i. i \<in> p_id ` set (get_persons (fst s))) (cl_candidates l)) (get_candidate_lists (fst s))
    \<and> (u \<longrightarrow> pairwise (\<lambda>p q. identity_match_of p q \<noteq> Same) (set (get_persons (fst s))))"
  using group_inv_reads [OF own_reachable_inv [OF assms]] by blast

definition example_values :: value_env where
  "example_values = \<lparr>ve_lowercase = map to_ascii_lowercase, ve_uppercase = \<lambda>s. s, ve_bag_localities = [],
     ve_bag_suggest = \<lambda>_ _ _ _. [], ve_parse_date = \<lambda>_ _. Some 0, ve_regex_digit = \<lambda>c. 48 \<le> c \<and> c \<le> 57, ve_today = 7\<rparr>"

definition example_forms :: form_env where
  "example_forms = \<lparr>fe_values = example_values, fe_parse_uuid = \<lambda>_. None, fe_uuid_text = \<lambda>_. [], fe_format_date = \<lambda>_. [],
     fe_parse_time = \<lambda>_. None, fe_address_exists = \<lambda>_ _ _ _. False\<rparr>"

definition example_router :: router_env where
  "example_router = \<lparr>rv_page = \<lparr>pv_forms = example_forms, pv_problems = sample_problem_env, pv_elections = sample_election_env,
       pv_election = EK27, pv_text = id, pv_now = 3\<rparr>,
     rv_csv = \<lparr>ce_headers = \<lambda>_ _. None, ce_rows = \<lambda>_ _. [], ce_deserialize = \<lambda>_ _. Inl [], ce_lowercase = id\<rparr>,
     rv_csv_size = \<lambda>_. 0, rv_path_and_query = Some\<rparr>"

definition example_backend :: mem_env where
  "example_backend = \<lparr>me_fresh = ListSubmitterId 0, me_sha256 = \<lambda>_. replicate 32 0,
     me_codec = \<lparr>cbor_write = \<lambda>_. Some [1], cbor_read = \<lambda>_. None\<rparr>, me_key = (StreamId 1, EK27),
     me_min_utc = - 1000, me_max_utc = 1000,
     me_limits = \<lparr>rls_downloads = \<lparr>rl_max = 9, rl_window = 3\<rparr>, rls_events = \<lparr>rl_max = 9, rl_window = 3\<rparr>, rls_events_total = 9\<rparr>,
     me_now = 3\<rparr>"

definition example_ids :: "uuid \<Rightarrow> drawn_ids" where
  "example_ids n = \<lparr>dr_person = PersonId n, dr_list = CandidateListId n, dr_authorisation = NameAuthorisationId n,
     dr_submitter = ListSubmitterId n, dr_import = \<lambda>k. PersonId (word_of_nat k + 100)\<rparr>"

text \<open>A person with a last name, initials, a date of birth and the given prefix.\<close>

definition example_form :: "rstring \<Rightarrow> personal_data_form" where
  "example_form prefix = \<lparr>pf_name = \<lparr>fnf_first_name = [], fnf_last_name = lit ''Bos'', fnf_last_name_prefix = prefix,
       fnf_initials = lit ''J''\<rparr>,
     pf_personal_data = \<lparr>pdf_gender = [], pdf_date_of_birth = lit ''01-01-1990'', pdf_bsn = [], pdf_place_of_residence = [], pdf_country = []\<rparr>\<rparr>"

definition example_served :: "bool \<Rightarrow> uuid \<Rightarrow> rstring \<Rightarrow> pg_store_data \<times> memory_store \<Rightarrow> pg_store_data \<times> memory_store" where
  "example_served u n prefix s = fst (fst (fst (serve example_router (example_ids n) (own_handle example_backend u)
     (PersonRequest (PostCreatePerson (example_form prefix))) (own_open example_backend s []))))"

lemma example_trimmed:
  "trim (lit ''Bos'') = lit ''Bos''" "trim (lit ''J'') = lit ''J''" "trim (lit ''01-01-1990'') = lit ''01-01-1990''"
  "trim ([] :: rstring) = []" "trim (lit '' '') = []" "lit ''Bos'' \<noteq> []" "lit ''J'' \<noteq> []" "lit ''01-01-1990'' \<noteq> []"
  by (simp_all add: trim_def trim_start_def trim_end_def is_whitespace_def lit_def)

lemma example_name_parsed:
  "last_name_from_str (lit ''Bos'') = Inr (lit ''Bos'')" "initials_from_str (lit ''J'') = Inr (lit ''J'')"
  by code_simp+

lemma example_date_parsed: "date_of_birth_from_str example_values (lit ''01-01-1990'') = Inr 0"
  by code_simp

lemmas example_parsed = example_trimmed example_name_parsed example_date_parsed

definition example_entered :: "uuid \<Rightarrow> person" where
  "example_entered n = (person_default (PersonId n) 3)\<lparr>
     p_name := \<lparr>fn_first_name = None, fn_last_name = lit ''Bos'', fn_last_name_prefix = None, fn_initials = Some (lit ''J'')\<rparr>,
     p_personal_data := personal_data_default\<lparr>pd_date_of_birth := Some 0\<rparr>\<rparr>"

lemma example_validates:
  assumes "prefix = [] \<or> prefix = lit '' ''"
  shows "personal_data_form_validate example_forms (example_form prefix) (person_default (PersonId n) 3) = Inr (example_entered n)"
proof -
  have "full_name_validate (pf_name (example_form prefix)) base = Inr (p_name (example_entered n))" for base
    using assms example_parsed
    by (auto simp: full_name_validate_ok parse_optional_ok parse_field_ok parse_required_ok example_form_def example_entered_def)
  moreover have "personal_data_validate example_forms (pf_personal_data (example_form prefix)) base = Inr (p_personal_data (example_entered n))" for base
    using example_parsed
    by (auto simp: personal_data_validate_ok parse_optional_ok example_form_def example_forms_def example_entered_def personal_data_default_def)
  ultimately show ?thesis unfolding personal_data_form_validate_ok by (force simp: example_entered_def)
qed

lemma example_not_blank: "\<not> blank_prefix (example_form [])" "blank_prefix (example_form (lit '' ''))"
  using example_parsed by (auto simp: blank_prefix_def example_form_def lit_def)

lemma example_created: "person_create_with_checks example_forms (PersonId n) 3 (example_form []) [] = Inr (example_entered n)"
  using uniqueness_errors_exact [OF example_validates [of "[]" n], of "PersonId n" 3 "[]"] example_validates [of "[]" n]
  by (simp add: person_create_with_checks_def merge_errors_ok)

lemma example_update_lands:
  "snd (own_update example_backend True (CreatePersonPersonalData (PersonId 1) n pd) (own_open example_backend (pg_default (ListSubmitterId 0), []) []))
    = Inr ()"
  by code_simp

lemma example_one_person: "map p_id (get_persons (fst (example_served True 1 [] (pg_default (ListSubmitterId 0), [])))) = [PersonId 1]"
proof -
  let ?p = "example_entered 1" and ?s0 = "own_open example_backend (pg_default (ListSubmitterId 0), []) []"
  let ?e = "CreatePersonPersonalData (PersonId 1) (p_name ?p) (p_personal_data ?p)"
  have env: "pv_forms (rv_page example_router) = example_forms" "pv_now (rv_page example_router) = 3"
    "dr_person (example_ids 1) = PersonId 1" "ph_snapshot (own_handle example_backend True) ?s0 = pg_default (ListSubmitterId 0)"
    "get_persons (pg_default (ListSubmitterId 0)) = []"
    by (simp_all add: example_router_def example_ids_def own_handle_def own_open_def get_persons_def pg_default_def hm_values_def)
  obtain st where st: "own_update example_backend True ?e ?s0 = (st, Inr ())"
    using example_update_lands by (metis prod.collapse)
  have "own_ok example_backend ?s0" by (simp add: own_ok_def own_open_def)
  from own_update_law [OF this st] obtain ev where ev: "se_payload ev = ?e" "fst (fst (fst st)) = pg_apply ev (pg_default (ListSubmitterId 0))"
    by (auto simp: own_open_def)
  have upd: "ph_update (own_handle example_backend True) = own_update example_backend True" by (simp add: own_handle_def)
  have "fst (create_person_submit (rv_page example_router) (own_handle example_backend True) (PersonId 1) (example_form []) ?s0) = st"
    unfolding create_person_submit_def act_read_def env example_created on_valid_def create_from_personal_data_def upd act_bind_def
    by (simp add: st act_res_def split: sum.splits)
  with ev show ?thesis
    by (simp add: example_served_def env get_persons_def d_persons_pg_apply hm_values_def pg_default_def)
       (simp add: hm_insert_def)
qed

theorem pages_keep_group_witness:
  "map p_id (get_persons (fst (example_served True 1 [] (pg_default (ListSubmitterId 0), [])))) = [PersonId 1]
    \<and> pairwise (\<lambda>p q. identity_match_of p q \<noteq> Same) (set (get_persons (fst (example_served True 1 [] (pg_default (ListSubmitterId 0), [])))))"
proof -
  have "own_reachable True (example_served True 1 [] (pg_default (ListSubmitterId 0), []))"
    unfolding example_served_def
    by (rule own_reachable.request [OF own_reachable.created]) (simp add: prefix_ok_def example_not_blank)
  from pages_keep_group [OF this] example_one_person show ?thesis by simp
qed

subsection \<open>Corrections on paper\<close>







subsection \<open>The check for duplicates\<close>

text \<open>C34: A form for a new person that is complete is refused for duplication exactly when it
  describes a person the group already holds: by the citizen service number, or without one
  by name, initials and date of birth. The one gap is a prefix of the last name typed as
  blanks: without a number the check is then skipped.\<close>

theorem duplicate_check_exact:
  assumes "personal_data_form_validate env f (person_default fresh now) = Inr p"
  shows "person_create_with_checks env fresh now f existing = Inr p \<longleftrightarrow>
    list_all (\<lambda>q. identity_match_of p q \<noteq> Same) existing \<or> blank_prefix f \<and> \<not> is_bsn (pd_bsn (p_personal_data p))"
  unfolding person_create_with_checks_def merge_errors_ok uniqueness_errors_exact [OF assms] list_all_iff
  using assms by simp

theorem duplicate_check_exact_witness:
  "person_create_with_checks example_forms (PersonId 2) 3 (example_form []) [example_entered 1] \<noteq> Inr (example_entered 2)
    \<and> person_create_with_checks example_forms (PersonId 2) 3 (example_form (lit '' '')) [example_entered 1] = Inr (example_entered 2)"
proof -
  have "identity_match_of (example_entered 2) (example_entered 1) = Same"
    by (simp add: same_iff_identity identity_of_def example_entered_def person_default_def personal_data_default_def personal_data_bsn_def)
  moreover have "\<not> is_bsn (pd_bsn (p_personal_data (example_entered 2)))"
    by (simp add: example_entered_def personal_data_default_def)
  ultimately show ?thesis
    using duplicate_check_exact [OF example_validates [of "[]" 2], of "[example_entered 1]"]
      duplicate_check_exact [OF example_validates [of "lit '' ''" 2], of "[example_entered 1]"] example_not_blank by simp
qed

subsection \<open>Uploaded files and redirects\<close>




end
