(* ===== verification/Xml_Tree.thy ===== *)
theory Xml_Tree
  imports Redirects
begin

text \<open>
  The read-only XML documents of the SAML service (\<open>auth-service/src/saml/xml_parser.rs\<close>):
  lookups by namespace and local name, and the walk that leaves out a pruned subtree.

  \<open>roxmltree\<close> parses the text. What the source reads of its result is the tree, the piece of
  the input a node spans, the namespace declarations in scope and where the attributes of a
  node begin; these are a \<open>document\<close>. A \<open>NodeId\<close> is the path from the document element: two
  nodes with equal content at different places are different nodes.
\<close>

subsection \<open>Texts\<close>

lemma lit_eq_iff [simp]: "lit s = lit t \<longleftrightarrow> s = t"
proof -
  have "inj (of_char :: char \<Rightarrow> nat)" by (auto intro!: injI dest: arg_cong [where f = char_of])
  then show ?thesis by (simp add: lit_def inj_map_eq_map)
qed

lemma lit_Nil_iff [simp]: "lit s = [] \<longleftrightarrow> s = []" "[] = lit s \<longleftrightarrow> s = []"
  by (auto simp: lit_def)

text \<open>\<open>str::strip_prefix\<close>, \<open>str::strip_suffix\<close> and \<open>str::rsplit_once\<close> of a character.\<close>

definition strip_prefix :: "rstring \<Rightarrow> rstring \<Rightarrow> rstring option" where
  "strip_prefix p s = (if starts_with s p then Some (drop (length p) s) else None)"

definition strip_suffix :: "rstring \<Rightarrow> rstring \<Rightarrow> rstring option" where
  "strip_suffix p s = (if ends_with s p then Some (take (length s - length p) s) else None)"

definition rsplit_once :: "nat \<Rightarrow> rstring \<Rightarrow> (rstring \<times> rstring) option" where
  "rsplit_once c s = (if c \<in> set s
     then Some (rev (tl (dropWhile (\<lambda>x. x \<noteq> c) (rev s))), rev (takeWhile (\<lambda>x. x \<noteq> c) (rev s))) else None)"

lemma rsplit_once_append: "c \<notin> set b \<Longrightarrow> rsplit_once c (a @ c # b) = Some (a, b)"
proof -
  assume "c \<notin> set b"
  then have "takeWhile (\<lambda>x. x \<noteq> c) (rev b @ c # rev a) = rev b" "dropWhile (\<lambda>x. x \<noteq> c) (rev b @ c # rev a) = c # rev a"
    by (auto simp: takeWhile_append dropWhile_append)
  then show ?thesis by (simp add: rsplit_once_def)
qed

lemma rsplit_once_Some: "rsplit_once c s = Some (a, b) \<Longrightarrow> s = a @ c # b \<and> c \<notin> set b"
proof -
  assume split: "rsplit_once c s = Some (a, b)"
  then have "c \<in> set (rev s)" by (auto simp: rsplit_once_def split: if_splits)
  then obtain u v where r: "rev s = u @ c # v" "c \<notin> set u" by (metis split_list_first)
  then have "s = rev v @ c # rev u" by (metis append.assoc append_Cons append_Nil rev.simps(2) rev_append rev_rev_ident)
  with r split rsplit_once_append [of c "rev u" "rev v"] show ?thesis by auto
qed

text \<open>\<open>str\<close>'s \<open>Debug\<close>: quoted, with escapes. Which characters beyond ASCII are escaped is a
  table of the standard library.\<close>

definition hex_text :: "nat \<Rightarrow> rstring" where
  "hex_text n = (let d = (\<lambda>k. if k < 10 then 48 + k else 87 + k) in
     dropWhile (\<lambda>c. c = 48) [d (n div 16 ^ 5 mod 16), d (n div 16 ^ 4 mod 16), d (n div 16 ^ 3 mod 16),
       d (n div 16 ^ 2 mod 16), d (n div 16 mod 16)] @ [d (n mod 16)])"

definition debug_char :: "(nat \<Rightarrow> bool) \<Rightarrow> nat \<Rightarrow> rstring" where
  "debug_char escaped c =
    (if c = 0 then [92, 48] else if c = 9 then [92, 116] else if c = 10 then [92, 110] else if c = 13 then [92, 114]
     else if c = 34 then [92, 34] else if c = 92 then [92, 92]
     else if c < 32 \<or> c = 127 \<or> (128 \<le> c \<and> escaped c) then [92, 117, 123] @ hex_text c @ [125] else [c])"

definition debug_text :: "(nat \<Rightarrow> bool) \<Rightarrow> rstring \<Rightarrow> rstring" where
  "debug_text escaped s = [34] @ concat (map (debug_char escaped) s) @ [34]"

fun debug_option :: "(nat \<Rightarrow> bool) \<Rightarrow> rstring option \<Rightarrow> rstring" where
  "debug_option escaped None = lit ''None''"
| "debug_option escaped (Some s) = lit ''Some('' @ debug_text escaped s @ lit '')''"

subsection \<open>Documents\<close>

datatype xml =
    Element "rstring option" rstring "(rstring \<times> rstring) list" "xml list"
  | TextNode rstring
  | OtherNode

type_synonym node_id = "nat list"

record qname =
  qn_namespace :: "rstring option"
  qn_local_name :: rstring

definition qname_display :: "qname \<Rightarrow> rstring" where
  "qname_display q = (case qn_namespace q of
      Some ns \<Rightarrow> lit ''{'' @ ns @ lit ''}'' @ qn_local_name q
    | None \<Rightarrow> qn_local_name q)"

record namespace_decl =
  nd_prefix :: "rstring option"
  nd_uri :: rstring

text \<open>\<open>dc_attr_text\<close> is the input from the place where each attribute of a node begins.\<close>

record document =
  dc_root :: xml
  dc_source :: "node_id \<Rightarrow> rstring option"
  dc_namespaces :: "node_id \<Rightarrow> namespace_decl list"
  dc_attr_text :: "node_id \<Rightarrow> rstring list"

fun is_element :: "xml \<Rightarrow> bool" where
  "is_element (Element _ _ _ _) = True"
| "is_element _ = False"

fun xml_children :: "xml \<Rightarrow> xml list" where
  "xml_children (Element _ _ _ ks) = ks"
| "xml_children _ = []"

fun xml_attributes :: "xml \<Rightarrow> (rstring \<times> rstring) list" where
  "xml_attributes (Element _ _ as _) = as"
| "xml_attributes _ = []"

fun xml_text :: "xml \<Rightarrow> rstring option" where
  "xml_text (TextNode t) = Some t"
| "xml_text _ = None"

fun node_matches :: "xml \<Rightarrow> rstring \<Rightarrow> rstring \<Rightarrow> bool" where
  "node_matches (Element ns' l _ _) ns local = (l = local \<and> ns' = Some ns)"
| "node_matches _ ns local = False"

fun node_at :: "xml \<Rightarrow> node_id \<Rightarrow> xml option" where
  "node_at n [] = Some n"
| "node_at n (i # p) = (if i < length (xml_children n) then node_at (xml_children n ! i) p else None)"

definition doc_node :: "document \<Rightarrow> node_id \<Rightarrow> xml option" where
  "doc_node doc nid = node_at (dc_root doc) nid"

text \<open>The children of a node, and the node with all nodes below it in document order.\<close>

fun children_from :: "node_id \<Rightarrow> nat \<Rightarrow> xml list \<Rightarrow> (node_id \<times> xml) list" where
  "children_from nid i [] = []"
| "children_from nid i (k # ks) = (nid @ [i], k) # children_from nid (Suc i) ks"

definition children_of :: "node_id \<Rightarrow> xml \<Rightarrow> (node_id \<times> xml) list" where
  "children_of nid n = children_from nid 0 (xml_children n)"

fun descendants :: "node_id \<Rightarrow> xml \<Rightarrow> (node_id \<times> xml) list"
  and descendants_from :: "node_id \<Rightarrow> nat \<Rightarrow> xml list \<Rightarrow> (node_id \<times> xml) list" where
  "descendants nid (Element ns l as ks) = (nid, Element ns l as ks) # descendants_from nid 0 ks"
| "descendants nid (TextNode t) = [(nid, TextNode t)]"
| "descendants nid OtherNode = [(nid, OtherNode)]"
| "descendants_from nid i [] = []"
| "descendants_from nid i (k # ks) = descendants (nid @ [i]) k @ descendants_from nid (Suc i) ks"

subsection \<open>Operations on documents\<close>

definition document_element :: "document \<Rightarrow> node_id" where
  "document_element doc = []"

definition local_name :: "document \<Rightarrow> node_id \<Rightarrow> rstring option" where
  "local_name doc nid = (case doc_node doc nid of Some (Element _ l _ _) \<Rightarrow> Some l | _ \<Rightarrow> None)"

definition node_qname :: "document \<Rightarrow> node_id \<Rightarrow> qname option" where
  "node_qname doc nid = (case doc_node doc nid of
      Some (Element ns l _ _) \<Rightarrow> Some \<lparr>qn_namespace = ns, qn_local_name = l\<rparr> | _ \<Rightarrow> None)"

definition get_attribute :: "document \<Rightarrow> node_id \<Rightarrow> rstring \<Rightarrow> rstring option" where
  "get_attribute doc nid name = (case doc_node doc nid of None \<Rightarrow> None | Some n \<Rightarrow> map_of (xml_attributes n) name)"

definition node_source :: "document \<Rightarrow> node_id \<Rightarrow> rstring option" where
  "node_source doc nid = (case doc_node doc nid of None \<Rightarrow> None | Some _ \<Rightarrow> dc_source doc nid)"

text \<open>The document element's parent is \<open>roxmltree\<close>'s root node, which declares nothing.\<close>

definition parent_namespaces :: "document \<Rightarrow> node_id \<Rightarrow> namespace_decl list" where
  "parent_namespaces doc nid = (if nid = [] then [] else dc_namespaces doc (butlast nid))"

definition inherited_namespaces :: "document \<Rightarrow> node_id \<Rightarrow> namespace_decl list" where
  "inherited_namespaces doc nid = (case doc_node doc nid of
      None \<Rightarrow> []
    | Some _ \<Rightarrow> filter (\<lambda>d. d \<in> set (parent_namespaces doc nid)) (dc_namespaces doc nid))"

definition declaration_text :: "namespace_decl \<Rightarrow> rstring" where
  "declaration_text d = (case nd_prefix d of
      Some p \<Rightarrow> lit '' xmlns:'' @ p @ [61, 34] @ nd_uri d @ [34]
    | None \<Rightarrow> lit '' xmlns='' @ [34] @ nd_uri d @ [34])"

definition node_source_with_inherited_namespaces :: "document \<Rightarrow> node_id \<Rightarrow> rstring option" where
  "node_source_with_inherited_namespaces doc nid = (case node_source doc nid of
      None \<Rightarrow> None
    | Some source \<Rightarrow>
        (let inherited = inherited_namespaces doc nid in
         if inherited = [] then Some source
         else if list_ex (\<lambda>d. list_ex (\<lambda>c. c \<in> {34, 38, 60}) (nd_uri d)) inherited then None
         else (case strip_prefix [60] source of
             None \<Rightarrow> None
           | Some rest \<Rightarrow> (case list_position (\<lambda>c. is_whitespace c \<or> c = 47 \<or> c = 62) rest of
               None \<Rightarrow> None
             | Some at \<Rightarrow> Some (take (1 + at) source @ concat (map declaration_text inherited) @ drop (1 + at) source)))))"

definition first_element_child :: "document \<Rightarrow> node_id \<Rightarrow> node_id option" where
  "first_element_child doc nid = (case doc_node doc nid of
      None \<Rightarrow> None | Some n \<Rightarrow> map_option fst (find (\<lambda>(_, c). is_element c) (children_of nid n)))"

definition element_children :: "document \<Rightarrow> node_id \<Rightarrow> node_id list" where
  "element_children doc nid = (case doc_node doc nid of
      None \<Rightarrow> [] | Some n \<Rightarrow> map fst (filter (\<lambda>(_, c). is_element c) (children_of nid n)))"

definition inner_text :: "document \<Rightarrow> node_id \<Rightarrow> rstring option" where
  "inner_text doc nid = (case doc_node doc nid of
      None \<Rightarrow> None | Some n \<Rightarrow> Some (concat (List.map_filter (\<lambda>(_, d). xml_text d) (descendants nid n))))"

definition direct_text :: "document \<Rightarrow> node_id \<Rightarrow> rstring option" where
  "direct_text doc nid = (case doc_node doc nid of
      None \<Rightarrow> None
    | Some n \<Rightarrow> if list_ex is_element (xml_children n) then None
        else Some (concat (List.map_filter xml_text (xml_children n))))"

definition all_elements :: "document \<Rightarrow> node_id list" where
  "all_elements doc = map fst (filter (\<lambda>(_, d). is_element d) (descendants [] (dc_root doc)))"

definition find_child :: "document \<Rightarrow> node_id \<Rightarrow> rstring \<Rightarrow> rstring \<Rightarrow> node_id option" where
  "find_child doc nid ns local = (case doc_node doc nid of
      None \<Rightarrow> None | Some n \<Rightarrow> map_option fst (find (\<lambda>(_, c). node_matches c ns local) (children_of nid n)))"

definition children_by_tag :: "document \<Rightarrow> node_id \<Rightarrow> rstring \<Rightarrow> rstring \<Rightarrow> node_id list" where
  "children_by_tag doc nid ns local = (case doc_node doc nid of
      None \<Rightarrow> [] | Some n \<Rightarrow> map fst (filter (\<lambda>(_, c). node_matches c ns local) (children_of nid n)))"

definition find_descendant :: "document \<Rightarrow> node_id \<Rightarrow> rstring \<Rightarrow> rstring \<Rightarrow> node_id option" where
  "find_descendant doc nid ns local = (case doc_node doc nid of
      None \<Rightarrow> None | Some n \<Rightarrow> map_option fst (find (\<lambda>(_, d). node_matches d ns local) (tl (descendants nid n))))"

definition element_descendants :: "document \<Rightarrow> node_id \<Rightarrow> node_id list" where
  "element_descendants doc nid = (case doc_node doc nid of
      None \<Rightarrow> [] | Some n \<Rightarrow> map fst (filter (\<lambda>(_, d). is_element d) (tl (descendants nid n))))"

definition descendants_by_tag :: "document \<Rightarrow> node_id \<Rightarrow> rstring \<Rightarrow> rstring \<Rightarrow> node_id list" where
  "descendants_by_tag doc nid ns local = (case doc_node doc nid of
      None \<Rightarrow> [] | Some n \<Rightarrow> map fst (filter (\<lambda>(_, d). node_matches d ns local) (tl (descendants nid n))))"

type_synonym tag = "rstring \<times> rstring"

fun collect_pruned :: "tag \<Rightarrow> node_id \<Rightarrow> xml \<Rightarrow> node_id list"
  and collect_pruned_all :: "tag \<Rightarrow> node_id \<Rightarrow> nat \<Rightarrow> xml list \<Rightarrow> node_id list" where
  "collect_pruned prune nid (Element ns l as ks) =
    (if node_matches (Element ns l as ks) (fst prune) (snd prune) then []
     else nid # collect_pruned_all prune nid 0 ks)"
| "collect_pruned prune nid (TextNode t) = []"
| "collect_pruned prune nid OtherNode = []"
| "collect_pruned_all prune nid i [] = []"
| "collect_pruned_all prune nid i (k # ks) = collect_pruned prune (nid @ [i]) k @ collect_pruned_all prune nid (Suc i) ks"

definition walk_pruned :: "document \<Rightarrow> node_id \<Rightarrow> tag \<Rightarrow> node_id list" where
  "walk_pruned doc nid prune = (case doc_node doc nid of
      None \<Rightarrow> [] | Some root \<Rightarrow> collect_pruned_all prune nid 0 (xml_children root))"

definition descendants_by_tag_pruned :: "document \<Rightarrow> node_id \<Rightarrow> tag \<Rightarrow> tag \<Rightarrow> node_id list" where
  "descendants_by_tag_pruned doc nid tag prune =
    filter (\<lambda>n. case doc_node doc n of None \<Rightarrow> False | Some m \<Rightarrow> node_matches m (fst tag) (snd tag))
      (walk_pruned doc nid prune)"

definition find_descendant_pruned :: "document \<Rightarrow> node_id \<Rightarrow> tag \<Rightarrow> tag \<Rightarrow> node_id option" where
  "find_descendant_pruned doc nid tag prune = (case descendants_by_tag_pruned doc nid tag prune of [] \<Rightarrow> None | n # _ \<Rightarrow> Some n)"

subsection \<open>Parsing\<close>

definition NODE_LIMIT :: nat where "NODE_LIMIT = 100000"

text \<open>\<open>rsplit_once("</")\<close>: what follows the last occurrence.\<close>

fun after_last :: "rstring \<Rightarrow> rstring \<Rightarrow> rstring option" where
  "after_last pat [] = None"
| "after_last pat (c # s) = (case after_last pat s of
      Some r \<Rightarrow> Some r | None \<Rightarrow> strip_prefix pat (c # s))"

definition has_leading_colon_name :: "document \<Rightarrow> node_id \<times> xml \<Rightarrow> bool" where
  "has_leading_colon_name doc m = (case m of (nid, n) \<Rightarrow>
    if \<not> is_element n then False
    else (case dc_source doc nid of
        None \<Rightarrow> False
      | Some source \<Rightarrow>
          (let end_tag = (case after_last [60, 47] source of None \<Rightarrow> False | Some e \<Rightarrow> starts_with e [58]) in
           starts_with (drop 1 source) [58] \<or> end_tag
           \<or> list_ex (\<lambda>a. starts_with a [58]) (dc_attr_text doc nid))))"

text \<open>\<open>parser\<close> is \<open>roxmltree\<close>'s \<open>parse_with_options\<close> with a limit on the nodes.\<close>

definition xml_parse :: "(nat \<Rightarrow> rstring \<Rightarrow> rstring + document) \<Rightarrow> rstring \<Rightarrow> rstring + document" where
  "xml_parse parser xml = bind_res (parser NODE_LIMIT xml) (\<lambda>doc.
     if list_ex (has_leading_colon_name doc) (descendants [] (dc_root doc))
     then Err (lit ''name starts with a colon'') else Ok doc)"

subsection \<open>Nodes and paths\<close>

lemma children_from_iff: "(p, k) \<in> set (children_from nid i ks) \<longleftrightarrow> (\<exists>j < length ks. p = nid @ [i + j] \<and> k = ks ! j)"
proof (induction ks arbitrary: i)
  case (Cons x xs)
  show ?case
  proof
    assume "(p, k) \<in> set (children_from nid i (x # xs))"
    then show "\<exists>j < length (x # xs). p = nid @ [i + j] \<and> k = (x # xs) ! j"
      using Cons [of "Suc i"] by fastforce
  next
    assume "\<exists>j < length (x # xs). p = nid @ [i + j] \<and> k = (x # xs) ! j"
    then obtain j where "j < Suc (length xs)" "p = nid @ [i + j]" "k = (x # xs) ! j" by auto
    then show "(p, k) \<in> set (children_from nid i (x # xs))"
      using Cons [of "Suc i"] by (cases j) auto
  qed
qed simp

lemma children_of_iff: "(p, k) \<in> set (children_of nid n) \<longleftrightarrow>
    (\<exists>j < length (xml_children n). p = nid @ [j] \<and> k = xml_children n ! j)"
  by (simp add: children_of_def children_from_iff)

lemma node_at_append: "node_at n (p @ q) = (case node_at n p of None \<Rightarrow> None | Some m \<Rightarrow> node_at m q)"
  by (induction p arbitrary: n) auto

lemma doc_node_child: "doc_node doc nid = Some n \<Longrightarrow> (p, k) \<in> set (children_of nid n) \<Longrightarrow> doc_node doc p = Some k"
  by (auto simp: children_of_iff doc_node_def node_at_append)

lemma descendants_sound:
  "(p, m) \<in> set (descendants nid n) \<Longrightarrow> \<exists>q. p = nid @ q \<and> node_at n q = Some m"
  "(p, m) \<in> set (descendants_from nid i ks) \<Longrightarrow> \<exists>j q. j < length ks \<and> p = nid @ (i + j) # q \<and> node_at (ks ! j) q = Some m"
proof (induction nid n and nid i ks rule: descendants_descendants_from.induct)
  case (1 nid ns l as ks)
  then show ?case by (fastforce intro: exI [of _ "_ # _"])
next
  case (5 nid i k ks)
  then consider "(p, m) \<in> set (descendants (nid @ [i]) k)" | "(p, m) \<in> set (descendants_from nid (Suc i) ks)" by auto
  then show ?case
  proof cases
    case 1
    then obtain q where "p = (nid @ [i]) @ q" "node_at k q = Some m" using 5(1) by blast
    then show ?thesis by (intro exI [of _ 0] exI [of _ q]) simp
  next
    case 2
    then obtain j q where "j < length ks" "p = nid @ (Suc i + j) # q" "node_at (ks ! j) q = Some m" using 5(2) by blast
    then show ?thesis by (intro exI [of _ "Suc j"] exI [of _ q]) simp
  qed
qed auto

lemma descendants_complete:
  "node_at n q = Some m \<Longrightarrow> (nid @ q, m) \<in> set (descendants nid n)"
  "j < length ks \<Longrightarrow> node_at (ks ! j) q = Some m \<Longrightarrow> (nid @ (i + j) # q, m) \<in> set (descendants_from nid i ks)"
proof (induction nid n and nid i ks arbitrary: q and q j rule: descendants_descendants_from.induct)
  case (1 nid ns l as ks)
  show ?case
  proof (cases q)
    case (Cons j r)
    with 1(2) have "j < length ks" "node_at (ks ! j) r = Some m" by (auto split: if_splits)
    from 1(1) [OF this] Cons show ?thesis by simp
  qed (use 1 in auto)
next
  case (2 nid t)
  then show ?case by (cases q) auto
next
  case (3 nid)
  then show ?case by (cases q) auto
next
  case (5 nid i k ks)
  show ?case
  proof (cases j)
    case 0
    with 5(1) [of q] 5(4) show ?thesis by simp
  next
    case (Suc j')
    with 5(2) [of j' q] 5(3,4) show ?thesis by simp
  qed
qed auto

lemma descendants_self: "\<exists>ds. descendants nid n = (nid, n) # ds"
  by (cases n) auto

lemma distinct_descendants:
  "distinct (map fst (descendants nid n))"
  "distinct (map fst (descendants_from nid i ks))"
proof (induction nid n and nid i ks rule: descendants_descendants_from.induct)
  case (1 nid ns l as ks)
  have "nid \<notin> fst ` set (descendants_from nid 0 ks)" using descendants_sound(2) by fastforce
  with 1 show ?case by simp
next
  case (5 nid i k ks)
  have "p = p' \<Longrightarrow> False" if "(p, m) \<in> set (descendants (nid @ [i]) k)" "(p', m') \<in> set (descendants_from nid (Suc i) ks)" for p m p' m'
    using descendants_sound(1) [OF that(1)] descendants_sound(2) [OF that(2)] by auto
  with 5 show ?case by fastforce
qed auto

text \<open>Below a node: everything in its subtree but the node itself.\<close>

lemma tl_descendants_iff:
  assumes "doc_node doc nid = Some n"
  shows "(p, m) \<in> set (tl (descendants nid n)) \<longleftrightarrow> (\<exists>q. q \<noteq> [] \<and> p = nid @ q \<and> doc_node doc p = Some m)"
proof -
  obtain ds where ds: "descendants nid n = (nid, n) # ds" using descendants_self by blast
  have d: "distinct (nid # map fst ds)" using distinct_descendants(1) [of nid n] ds by simp
  have "(p, m) \<in> set ds \<longleftrightarrow> (p, m) \<in> set (descendants nid n) \<and> p \<noteq> nid"
    using d ds by (force simp: image_iff)
  also have "\<dots> \<longleftrightarrow> (\<exists>q. q \<noteq> [] \<and> p = nid @ q \<and> node_at n q = Some m)"
    using descendants_sound(1) [of p m nid n] descendants_complete(1) [of n _ m nid] by fastforce
  also have "\<dots> \<longleftrightarrow> (\<exists>q. q \<noteq> [] \<and> p = nid @ q \<and> doc_node doc p = Some m)"
    using assms by (auto simp: doc_node_def node_at_append)
  finally show ?thesis by (simp add: ds)
qed


subsection \<open>What the lookups return\<close>

definition is_node :: "document \<Rightarrow> node_id \<Rightarrow> rstring \<Rightarrow> rstring \<Rightarrow> bool" where
  "is_node doc nid ns local = (case doc_node doc nid of None \<Rightarrow> False | Some n \<Rightarrow> node_matches n ns local)"

lemma is_node_D: "is_node doc nid ns local \<Longrightarrow> \<exists>as ks. doc_node doc nid = Some (Element (Some ns) local as ks)"
  by (auto simp: is_node_def elim!: node_matches.elims(2) split: option.splits)

lemma is_node_qname: "is_node doc nid ns local \<longleftrightarrow> node_qname doc nid = Some \<lparr>qn_namespace = Some ns, qn_local_name = local\<rparr>"
  by (auto simp: is_node_def node_qname_def split: option.splits xml.splits)

lemma find_fst_Some: "map_option fst (find P xs) = Some p \<Longrightarrow> \<exists>x. (p, x) \<in> set xs \<and> P (p, x)"
  by (auto simp: find_Some_iff) (metis nth_mem)

lemma find_child_Some:
  assumes "find_child doc nid ns local = Some p"
  shows "\<exists>i. p = nid @ [i]" "is_node doc p ns local"
proof -
  obtain n where n: "doc_node doc nid = Some n" and f: "map_option fst (find (\<lambda>(_, c). node_matches c ns local) (children_of nid n)) = Some p"
    using assms by (auto simp: find_child_def split: option.splits)
  obtain k where k: "(p, k) \<in> set (children_of nid n)" "node_matches k ns local" using find_fst_Some [OF f] by auto
  then show "\<exists>i. p = nid @ [i]" by (auto simp: children_of_iff)
  show "is_node doc p ns local" using doc_node_child [OF n k(1)] k(2) by (simp add: is_node_def)
qed

lemma children_by_tag_iff: "p \<in> set (children_by_tag doc nid ns local) \<longleftrightarrow> (\<exists>i. p = nid @ [i]) \<and> is_node doc p ns local"
proof (cases "doc_node doc nid")
  case None
  then have "doc_node doc (nid @ [i]) = None" for i by (simp add: doc_node_def node_at_append)
  with None show ?thesis by (auto simp: children_by_tag_def is_node_def)
next
  case (Some n)
  have child: "doc_node doc (nid @ [i]) = (if i < length (xml_children n) then Some (xml_children n ! i) else None)" for i
    using Some by (simp add: doc_node_def node_at_append)
  have "p \<in> set (children_by_tag doc nid ns local) \<longleftrightarrow> (\<exists>k. (p, k) \<in> set (children_of nid n) \<and> node_matches k ns local)"
    using Some by (auto simp: children_by_tag_def image_iff)
  also have "\<dots> \<longleftrightarrow> (\<exists>i. p = nid @ [i]) \<and> is_node doc p ns local"
    by (auto simp: children_of_iff is_node_def child split: option.splits if_splits)
  finally show ?thesis .
qed

lemma find_descendant_Some:
  assumes "find_descendant doc nid ns local = Some p"
  shows "\<exists>q. q \<noteq> [] \<and> p = nid @ q" "is_node doc p ns local"
proof -
  obtain n where n: "doc_node doc nid = Some n" and f: "map_option fst (find (\<lambda>(_, d). node_matches d ns local) (tl (descendants nid n))) = Some p"
    using assms by (auto simp: find_descendant_def split: option.splits)
  obtain m where "(p, m) \<in> set (tl (descendants nid n))" "node_matches m ns local" using find_fst_Some [OF f] by auto
  with tl_descendants_iff [OF n] show "\<exists>q. q \<noteq> [] \<and> p = nid @ q" "is_node doc p ns local" by (auto simp: is_node_def)
qed

lemma descendants_by_tag_iff: "p \<in> set (descendants_by_tag doc nid ns local) \<longleftrightarrow> (\<exists>q. q \<noteq> [] \<and> p = nid @ q) \<and> is_node doc p ns local"
proof (cases "doc_node doc nid")
  case None
  then have "doc_node doc (nid @ q) = None" for q by (simp add: doc_node_def node_at_append)
  with None show ?thesis by (auto simp: descendants_by_tag_def is_node_def)
next
  case (Some n)
  then have "p \<in> set (descendants_by_tag doc nid ns local) \<longleftrightarrow> (\<exists>m. (p, m) \<in> set (tl (descendants nid n)) \<and> node_matches m ns local)"
    by (auto simp: descendants_by_tag_def image_iff)
  also have "\<dots> \<longleftrightarrow> (\<exists>q. q \<noteq> [] \<and> p = nid @ q) \<and> is_node doc p ns local"
    by (auto simp: tl_descendants_iff [OF Some] is_node_def split: option.splits)
  finally show ?thesis .
qed

lemma find_descendant_None: "find_descendant doc nid ns local = None \<longleftrightarrow> descendants_by_tag doc nid ns local = []"
  by (auto simp: find_descendant_def descendants_by_tag_def find_None_iff filter_empty_conv split: option.splits)

lemma all_elements_iff: "p \<in> set (all_elements doc) \<longleftrightarrow> (\<exists>n. doc_node doc p = Some n \<and> is_element n)"
proof -
  have "(p, m) \<in> set (descendants [] (dc_root doc)) \<longleftrightarrow> doc_node doc p = Some m" for m
    using descendants_sound(1) [of p m "[]" "dc_root doc"] descendants_complete(1) [of "dc_root doc" p m "[]"]
    by (auto simp: doc_node_def)
  then show ?thesis by (auto simp: all_elements_def image_iff)
qed

text \<open>The pruned walk reaches exactly the elements below a node that are reached through
  elements other than the pruned one: nothing of a pruned subtree, and everything else.\<close>

definition free_path :: "tag \<Rightarrow> xml \<Rightarrow> node_id \<Rightarrow> bool" where
  "free_path prune n q = (\<forall>k \<le> length q. \<exists>m. node_at n (take k q) = Some m \<and> is_element m
     \<and> \<not> node_matches m (fst prune) (snd prune))"

lemma free_path_Nil: "free_path prune n [] \<longleftrightarrow> is_element n \<and> \<not> node_matches n (fst prune) (snd prune)"
  by (simp add: free_path_def)

lemma free_path_Cons: "free_path prune n (i # q) \<longleftrightarrow>
    is_element n \<and> \<not> node_matches n (fst prune) (snd prune) \<and> i < length (xml_children n) \<and> free_path prune (xml_children n ! i) q"
proof -
  have "(\<forall>k \<le> Suc (length q). P k) \<longleftrightarrow> P 0 \<and> (\<forall>k \<le> length q. P (Suc k))" for P :: "nat \<Rightarrow> bool"
    by (metis Suc_le_mono le0 not0_implies_Suc)
  then show ?thesis by (auto simp: free_path_def split: if_splits)
qed

lemma collect_pruned_iff:
  "p \<in> set (collect_pruned prune nid n) \<longleftrightarrow> (\<exists>q. p = nid @ q \<and> free_path prune n q)"
  "p \<in> set (collect_pruned_all prune nid i ks) \<longleftrightarrow> (\<exists>j q. j < length ks \<and> p = nid @ (i + j) # q \<and> free_path prune (ks ! j) q)"
proof (induction prune nid n and prune nid i ks rule: collect_pruned_collect_pruned_all.induct)
  case (1 prune nid ns l as ks)
  show ?case
  proof (cases "node_matches (Element ns l as ks) (fst prune) (snd prune)")
    case True
    then have "\<not> free_path prune (Element ns l as ks) q" for q by (cases q) (auto simp: free_path_Nil free_path_Cons)
    with True show ?thesis by simp
  next
    case False
    have "(\<exists>q. p = nid @ q \<and> free_path prune (Element ns l as ks) q) \<longleftrightarrow>
        p = nid \<or> (\<exists>j q. j < length ks \<and> p = nid @ j # q \<and> free_path prune (ks ! j) q)" (is "?l \<longleftrightarrow> ?r")
    proof
      assume ?l
      then obtain q where "p = nid @ q" "free_path prune (Element ns l as ks) q" by blast
      then show ?r by (cases q) (auto simp: free_path_Cons)
    next
      assume ?r
      then show ?l using False by (auto simp: free_path_Nil free_path_Cons intro: exI [of _ "[]"] exI [of _ "_ # _"])
    qed
    with 1 False show ?thesis by auto
  qed
next
  case (2 prune nid t)
  have "\<not> free_path prune (TextNode t) q" for q by (cases q) (auto simp: free_path_Nil free_path_Cons)
  then show ?case by simp
next
  case (3 prune nid)
  have "\<not> free_path prune OtherNode q" for q by (cases q) (auto simp: free_path_Nil free_path_Cons)
  then show ?case by simp
next
  case (5 prune nid i k ks)
  have "(\<exists>j q. j < length (k # ks) \<and> p = nid @ (i + j) # q \<and> free_path prune ((k # ks) ! j) q) \<longleftrightarrow>
      (\<exists>q. p = nid @ i # q \<and> free_path prune k q)
      \<or> (\<exists>j q. j < length ks \<and> p = nid @ (Suc i + j) # q \<and> free_path prune (ks ! j) q)" (is "?l \<longleftrightarrow> ?r")
  proof
    assume ?l
    then obtain j q where "j < length (k # ks)" "p = nid @ (i + j) # q" "free_path prune ((k # ks) ! j) q" by blast
    then show ?r by (cases j) auto
  next
    assume ?r
    then show ?l by (fastforce intro: exI [of _ 0] exI [of _ "Suc _"])
  qed
  with 5 show ?case by simp
qed simp

definition outside :: "document \<Rightarrow> node_id \<Rightarrow> node_id \<Rightarrow> tag \<Rightarrow> bool" where
  "outside doc nid p prune = (\<exists>q. q \<noteq> [] \<and> p = nid @ q \<and>
     (\<forall>k. 0 < k \<and> k \<le> length q \<longrightarrow> \<not> is_node doc (nid @ take k q) (fst prune) (snd prune)))"

lemma node_at_prefix_element: "node_at n q = Some m \<Longrightarrow> is_element m \<Longrightarrow> k \<le> length q \<Longrightarrow> \<exists>x. node_at n (take k q) = Some x \<and> is_element x"
proof (induction q arbitrary: n k)
  case (Cons i q)
  show ?case
  proof (cases k)
    case 0
    have "is_element n" using Cons.prems(1) by (cases n) auto
    with 0 show ?thesis by simp
  next
    case (Suc k')
    with Cons show ?thesis by (auto split: if_splits)
  qed
qed simp

lemma free_path_iff:
  assumes "doc_node doc nid = Some n" "i < length (xml_children n)"
  shows "free_path prune (xml_children n ! i) q \<longleftrightarrow>
    (\<exists>m. doc_node doc (nid @ i # q) = Some m \<and> is_element m) \<and> outside doc nid (nid @ i # q) prune"
proof -
  have at: "doc_node doc (nid @ i # r) = node_at (xml_children n ! i) r" for r
    using assms by (simp add: doc_node_def node_at_append)
  have out: "outside doc nid (nid @ i # q) prune \<longleftrightarrow> (\<forall>k \<le> length q. \<not> is_node doc (nid @ i # take k q) (fst prune) (snd prune))"
  proof -
    have "(\<forall>k. 0 < k \<and> k \<le> Suc (length q) \<longrightarrow> P k) \<longleftrightarrow> (\<forall>k \<le> length q. P (Suc k))" for P :: "nat \<Rightarrow> bool"
      by (metis Suc_le_mono not0_implies_Suc zero_less_Suc less_numeral_extra(3))
    then show ?thesis by (auto simp: outside_def)
  qed
  show ?thesis
  proof
    assume f: "free_path prune (xml_children n ! i) q"
    then have "\<exists>m. node_at (xml_children n ! i) (take (length q) q) = Some m \<and> is_element m" unfolding free_path_def by blast
    moreover have "\<forall>k \<le> length q. \<not> is_node doc (nid @ i # take k q) (fst prune) (snd prune)"
      using f by (fastforce simp: free_path_def is_node_def at)
    ultimately show "(\<exists>m. doc_node doc (nid @ i # q) = Some m \<and> is_element m) \<and> outside doc nid (nid @ i # q) prune"
      by (simp add: at out)
  next
    assume "(\<exists>m. doc_node doc (nid @ i # q) = Some m \<and> is_element m) \<and> outside doc nid (nid @ i # q) prune"
    then obtain m where m: "node_at (xml_children n ! i) q = Some m" "is_element m"
      and o: "\<forall>k \<le> length q. \<not> is_node doc (nid @ i # take k q) (fst prune) (snd prune)" by (auto simp: at out)
    show "free_path prune (xml_children n ! i) q"
      unfolding free_path_def using node_at_prefix_element [OF m] o by (fastforce simp: is_node_def at)
  qed
qed

theorem walk_pruned_iff:
  "p \<in> set (walk_pruned doc nid prune) \<longleftrightarrow> (\<exists>n. doc_node doc p = Some n \<and> is_element n) \<and> outside doc nid p prune"
proof (cases "doc_node doc nid")
  case None
  then have "doc_node doc (nid @ q) = None" for q by (simp add: doc_node_def node_at_append)
  with None show ?thesis by (auto simp: walk_pruned_def outside_def)
next
  case (Some n)
  have below: "i < length (xml_children n)" if "doc_node doc (nid @ i # q) = Some m" for i q m
    using that Some by (auto simp: doc_node_def node_at_append split: if_splits)
  have "p \<in> set (walk_pruned doc nid prune) \<longleftrightarrow>
      (\<exists>i q. i < length (xml_children n) \<and> p = nid @ i # q \<and> free_path prune (xml_children n ! i) q)"
    using Some collect_pruned_iff(2) [of p prune nid 0 "xml_children n"] by (simp add: walk_pruned_def)
  also have "\<dots> \<longleftrightarrow> (\<exists>m. doc_node doc p = Some m \<and> is_element m) \<and> outside doc nid p prune"
  proof
    assume "\<exists>i q. i < length (xml_children n) \<and> p = nid @ i # q \<and> free_path prune (xml_children n ! i) q"
    then show "(\<exists>m. doc_node doc p = Some m \<and> is_element m) \<and> outside doc nid p prune" using free_path_iff [OF Some] by blast
  next
    assume r: "(\<exists>m. doc_node doc p = Some m \<and> is_element m) \<and> outside doc nid p prune"
    then obtain i q where p: "p = nid @ i # q" unfolding outside_def by (metis neq_Nil_conv)
    with r below have "i < length (xml_children n)" by blast
    with r p free_path_iff [OF Some] show "\<exists>i q. i < length (xml_children n) \<and> p = nid @ i # q \<and> free_path prune (xml_children n ! i) q" by blast
  qed
  finally show ?thesis .
qed

lemma descendants_by_tag_pruned_iff:
  "p \<in> set (descendants_by_tag_pruned doc nid tag prune) \<longleftrightarrow> is_node doc p (fst tag) (snd tag) \<and> outside doc nid p prune"
proof -
  have "p \<in> set (descendants_by_tag_pruned doc nid tag prune) \<longleftrightarrow> p \<in> set (walk_pruned doc nid prune) \<and> is_node doc p (fst tag) (snd tag)"
    by (auto simp: descendants_by_tag_pruned_def is_node_def split: option.splits)
  moreover have "is_node doc p (fst tag) (snd tag) \<Longrightarrow> \<exists>n. doc_node doc p = Some n \<and> is_element n"
    using is_node_D by fastforce
  ultimately show ?thesis by (auto simp: walk_pruned_iff)
qed

lemma find_descendant_pruned_Some:
  "find_descendant_pruned doc nid tag prune = Some p \<Longrightarrow> is_node doc p (fst tag) (snd tag) \<and> outside doc nid p prune"
  using descendants_by_tag_pruned_iff [of p doc nid tag prune]
  by (auto simp: find_descendant_pruned_def split: list.splits)

lemma find_descendant_pruned_None:
  "find_descendant_pruned doc nid tag prune = None \<longleftrightarrow> (\<forall>p. \<not> (is_node doc p (fst tag) (snd tag) \<and> outside doc nid p prune))"
  using descendants_by_tag_pruned_iff [of _ doc nid tag prune]
  by (force simp: find_descendant_pruned_def split: list.splits)

end
