(* ===== verification/Saml_Types.thy ===== *)
theory Saml_Types
  imports Xml_Tree Request_Gate
begin

text \<open>
  The values the SAML service passes around (\<open>auth-service/src/types.rs\<close>,
  \<open>saml/constants.rs\<close>, \<open>saml/loa.rs\<close>, \<open>keys.rs\<close>, \<open>error.rs\<close>): identifiers and URLs with the
  rules their parsers enforce, levels of assurance, certificates and key pairs.

  What comes from other packages is the parameter \<open>saml_env\<close>: the XML parser, base64, the
  hash functions, \<open>chrono\<close>'s reading and shifting of times (nanoseconds), and the
  signature and decryption backend.
\<close>

subsection \<open>Errors and parameters\<close>

datatype saml_error =
    XmlError rstring | CryptoError rstring | HttpError rstring | ConfigError rstring | TemplateError rstring

fun saml_error_display :: "saml_error \<Rightarrow> rstring" where
  "saml_error_display (XmlError e) = lit ''XML error: '' @ e"
| "saml_error_display (CryptoError e) = lit ''Crypto error: '' @ e"
| "saml_error_display (HttpError e) = lit ''HTTP error: '' @ e"
| "saml_error_display (ConfigError e) = lit ''Config error: '' @ e"
| "saml_error_display (TemplateError e) = lit ''Template error: '' @ e"

type_synonym 'a saml_result = "saml_error + 'a"

datatype signature_verification = SigValid | SigInvalid rstring

record saml_env =
  sm_parser :: "nat \<Rightarrow> rstring \<Rightarrow> rstring + document"
  sm_escaped :: "nat \<Rightarrow> bool"
  sm_base64 :: "rstring \<Rightarrow> rstring + byte list"
  sm_sha1 :: hash_fn
  sm_sha256 :: hash_fn
  sm_instant :: "rstring \<Rightarrow> timestamp option"
  sm_checked_add :: "timestamp \<Rightarrow> int \<Rightarrow> timestamp option"
  sm_load_cert :: "rstring \<Rightarrow> rstring + rstring"
  sm_backend_verify :: "rstring \<Rightarrow> rstring \<Rightarrow> rstring + signature_verification"
  sm_load_private :: "rstring \<Rightarrow> rstring + rstring"
  sm_backend_decrypt :: "rstring \<Rightarrow> rstring \<Rightarrow> rstring + rstring"

abbreviation saml_parse :: "saml_env \<Rightarrow> rstring \<Rightarrow> rstring + document" where
  "saml_parse env \<equiv> xml_parse (sm_parser env)"

abbreviation debug_str :: "saml_env \<Rightarrow> rstring \<Rightarrow> rstring" where
  "debug_str env \<equiv> debug_text (sm_escaped env)"

subsection \<open>Constants\<close>

definition NS_SAMLP :: rstring where "NS_SAMLP = lit ''urn:oasis:names:tc:SAML:2.0:protocol''"
definition NS_SAML :: rstring where "NS_SAML = lit ''urn:oasis:names:tc:SAML:2.0:assertion''"
definition NS_MD :: rstring where "NS_MD = lit ''urn:oasis:names:tc:SAML:2.0:metadata''"
definition NS_SOAP :: rstring where "NS_SOAP = lit ''http://schemas.xmlsoap.org/soap/envelope/''"
definition NS_DSIG :: rstring where "NS_DSIG = lit ''http://www.w3.org/2000/09/xmldsig#''"
definition NS_XENC :: rstring where "NS_XENC = lit ''http://www.w3.org/2001/04/xmlenc#''"
definition BINDING_HTTP_POST :: rstring where "BINDING_HTTP_POST = lit ''urn:oasis:names:tc:SAML:2.0:bindings:HTTP-POST''"
definition BINDING_SOAP :: rstring where "BINDING_SOAP = lit ''urn:oasis:names:tc:SAML:2.0:bindings:SOAP''"
definition STATUS_SUCCESS :: rstring where "STATUS_SUCCESS = lit ''urn:oasis:names:tc:SAML:2.0:status:Success''"
definition NAMEID_TRANSIENT :: rstring where "NAMEID_TRANSIENT = lit ''urn:oasis:names:tc:SAML:2.0:nameid-format:transient''"
definition NAMEID_PERSISTENT :: rstring where "NAMEID_PERSISTENT = lit ''urn:oasis:names:tc:SAML:2.0:nameid-format:persistent''"
definition SUBJECT_CONFIRMATION_BEARER :: rstring where "SUBJECT_CONFIRMATION_BEARER = lit ''urn:oasis:names:tc:SAML:2.0:cm:bearer''"
definition EID_SERVICE_UUID :: rstring where "EID_SERVICE_UUID = lit ''urn:nl-eid-gdi:1.0:ServiceUUID''"
definition EID_ACTING_SUBJECT_ID :: rstring where "EID_ACTING_SUBJECT_ID = lit ''urn:nl-eid-gdi:1.0:ActingSubjectID''"
definition EID_LEGAL_SUBJECT_ID :: rstring where "EID_LEGAL_SUBJECT_ID = lit ''urn:nl-eid-gdi:1.0:LegalSubjectID''"
definition EID_ID_TYPES :: "rstring list" where
  "EID_ID_TYPES = [lit ''urn:nl-eid-gdi:1.0:id:legacy-BSN'', lit ''urn:nl-eid-gdi:1.0:id:BSN'', lit ''urn:nl-eid-gdi:1.0:id:Pseudonym'']"
definition CLOCK_SKEW_SECONDS :: int where "CLOCK_SKEW_SECONDS = 30"
definition MESSAGE_FRESHNESS_SECONDS :: int where "MESSAGE_FRESHNESS_SECONDS = 300"

subsection \<open>Identifiers and URLs\<close>

type_synonym entity_id = rstring
type_synonym service_uuid = rstring
type_synonym endpoint_url = rstring
type_synonym message_id = rstring
type_synonym name_id = rstring
type_synonym artifact = rstring

definition URL_ILLEGAL_CHARS :: "nat list" where "URL_ILLEGAL_CHARS = [34, 39, 60, 62, 96, 59, 92]"
definition MAX_IDENTIFIER_LEN :: nat where "MAX_IDENTIFIER_LEN = 1024"

definition token_illegal :: "nat \<Rightarrow> bool" where
  "token_illegal c = (is_whitespace c \<or> is_control c \<or> c \<in> set URL_ILLEGAL_CHARS)"

text \<open>\<open>char\<close>'s \<open>Debug\<close>: in single quotes.\<close>

definition debug_quoted :: "saml_env \<Rightarrow> nat \<Rightarrow> rstring" where
  "debug_quoted env c = [39] @ (if c = 39 then [92, 39] else if c = 34 then [34] else debug_char (sm_escaped env) c) @ [39]"

definition check_token :: "saml_env \<Rightarrow> rstring \<Rightarrow> rstring \<Rightarrow> unit saml_result" where
  "check_token env what v =
    (if v = [] then Err (ConfigError (what @ lit '' is empty''))
     else if MAX_IDENTIFIER_LEN < str_len v then Err (ConfigError (what @ lit '' is longer than '' @ nat_text MAX_IDENTIFIER_LEN @ lit '' characters''))
     else (case find token_illegal v of
         Some bad \<Rightarrow> Err (ConfigError (what @ lit '' contains an illegal character '' @ debug_quoted env bad @ lit '': '' @ v))
       | None \<Rightarrow> Ok ()))"

definition entity_id_parse :: "saml_env \<Rightarrow> rstring \<Rightarrow> entity_id saml_result" where
  "entity_id_parse env s = bind_res (check_token env (lit ''EntityID'') s) (\<lambda>_. Ok s)"

definition from_metadata :: "saml_env \<Rightarrow> rstring \<Rightarrow> rstring \<Rightarrow> endpoint_url saml_result" where
  "from_metadata env url what = (case strip_prefix (lit ''https://'') url of
      None \<Rightarrow> Err (ConfigError (lit ''metadata '' @ what @ lit '' endpoint is not an https URL: '' @ url))
    | Some host \<Rightarrow>
        if host = [] then Err (ConfigError (lit ''metadata '' @ what @ lit '' endpoint has no host: '' @ url))
        else bind_res (check_token env (lit ''metadata '' @ what @ lit '' endpoint'') url) (\<lambda>_. Ok url))"

definition is_label :: "rstring \<Rightarrow> bool" where
  "is_label l = (l \<noteq> [] \<and> list_all (\<lambda>c. is_ascii_alphanumeric c \<or> c = 45) l)"

definition url_host :: "endpoint_url \<Rightarrow> rstring option" where
  "url_host url = (case (case strip_prefix (lit ''https://'') url of Some r \<Rightarrow> Some r | None \<Rightarrow> strip_prefix (lit ''http://'') url) of
      None \<Rightarrow> None
    | Some rest \<Rightarrow>
        (let authority = takeWhile (\<lambda>c. c \<notin> {47, 63, 35}) rest in
         if 64 \<in> set authority then None
         else (case (case rsplit_once 58 authority of
               Some (host, port) \<Rightarrow> if port \<noteq> [] \<and> list_all is_ascii_digit port then Some host else None
             | None \<Rightarrow> Some authority) of
           None \<Rightarrow> None
         | Some host \<Rightarrow>
             if list_all is_label (split_on 46 host) \<and> \<not> list_all is_ascii_digit (last (split_on 46 host))
             then Some host else None)))"

definition require_domain :: "endpoint_url \<Rightarrow> rstring \<Rightarrow> rstring \<Rightarrow> unit saml_result" where
  "require_domain url domain what = (case url_host url of
      None \<Rightarrow> Err (ConfigError (lit ''metadata '' @ what @ lit '' endpoint has no plain DNS host name: '' @ url))
    | Some h \<Rightarrow>
        (let host = map to_ascii_lowercase h; domain' = map to_ascii_lowercase domain;
             in_domain = (host = domain' \<or> (case strip_suffix domain' host of None \<Rightarrow> False | Some p \<Rightarrow> ends_with p [46])) in
         if \<not> in_domain then Err (ConfigError (lit ''metadata '' @ what @ lit '' endpoint host '' @ host
               @ lit '' is not under the pinned RD domain '' @ domain' @ lit '': '' @ url))
         else Ok ()))"

definition from_base_url :: "saml_env \<Rightarrow> rstring \<Rightarrow> rstring \<Rightarrow> endpoint_url saml_result" where
  "from_base_url env url what =
    (case (case strip_prefix (lit ''https://'') url of Some r \<Rightarrow> Some r | None \<Rightarrow> strip_prefix (lit ''http://'') url) of
      None \<Rightarrow> Err (ConfigError (what @ lit '' is not an absolute http(s) URL: '' @ url))
    | Some rest \<Rightarrow>
        if rest = [] then Err (ConfigError (what @ lit '' has no host: '' @ url))
        else bind_res (check_token env what url) (\<lambda>_. Ok url))"

definition is_https :: "endpoint_url \<Rightarrow> bool" where
  "is_https url = starts_with url (lit ''https://'')"

definition redirect_target_parse :: "saml_env \<Rightarrow> rstring \<Rightarrow> rstring saml_result" where
  "redirect_target_parse env path = bind_res (check_token env (lit ''redirect target'') path) (\<lambda>_.
     if \<not> starts_with path [47] then Err (ConfigError (lit ''redirect target is not an absolute path: '' @ path))
     else if starts_with path [47, 47] \<or> starts_with path [47, 92]
       then Err (ConfigError (lit ''redirect target leaves this origin: '' @ path))
     else Ok path)"

definition is_ncname_start :: "nat \<Rightarrow> bool" where
  "is_ncname_start c = (is_ascii_alphabetic c \<or> c = 95)"

definition is_ncname_char :: "nat \<Rightarrow> bool" where
  "is_ncname_char c = (is_ascii_alphanumeric c \<or> c = 95 \<or> c = 45 \<or> c = 46)"

definition message_id_parse :: "saml_env \<Rightarrow> rstring \<Rightarrow> message_id saml_result" where
  "message_id_parse env s = bind_res (check_token env (lit ''message ID'') s) (\<lambda>_.
     if \<not> (s \<noteq> [] \<and> is_ncname_start (hd s)) \<or> \<not> list_all is_ncname_char s
     then Err (XmlError (lit ''message ID is not an XML NCName: '' @ debug_str env s)) else Ok s)"

definition name_id_parse :: "rstring \<Rightarrow> name_id saml_result" where
  "name_id_parse s = (let t = trim s in
     if t = [] then Err (XmlError (lit ''NameID is empty''))
     else if MAX_IDENTIFIER_LEN < str_len t then Err (XmlError (lit ''NameID is longer than '' @ nat_text MAX_IDENTIFIER_LEN @ lit '' characters''))
     else if list_ex is_control t then Err (XmlError (lit ''NameID contains a control character''))
     else Ok t)"

definition MAX_ARTIFACT_LEN :: nat where "MAX_ARTIFACT_LEN = 512"

definition artifact_parse :: "rstring \<Rightarrow> artifact saml_result" where
  "artifact_parse s =
    (if s = [] \<or> MAX_ARTIFACT_LEN < str_len s
     then Err (ConfigError (lit ''SAMLart is empty or longer than '' @ nat_text MAX_ARTIFACT_LEN @ lit '' characters''))
     else if \<not> list_all (\<lambda>c. is_ascii_alphanumeric c \<or> c \<in> {43, 47, 61, 45, 95}) s
     then Err (ConfigError (lit ''SAMLart is not base64 text''))
     else Ok s)"

subsection \<open>Levels of assurance\<close>

datatype level_of_assurance = LoaBasic | LoaLow | LoaSubstantial | LoaHigh

fun loa_rank :: "level_of_assurance \<Rightarrow> nat" where
  "loa_rank LoaBasic = 0"
| "loa_rank LoaLow = 1"
| "loa_rank LoaSubstantial = 2"
| "loa_rank LoaHigh = 3"

lemma loa_rank_inj: "loa_rank a = loa_rank b \<Longrightarrow> a = b"
  by (cases a; cases b) simp_all

instantiation level_of_assurance :: linorder
begin

definition less_eq_level_of_assurance :: "level_of_assurance \<Rightarrow> level_of_assurance \<Rightarrow> bool" where
  "less_eq_level_of_assurance a b = (loa_rank a \<le> loa_rank b)"

definition less_level_of_assurance :: "level_of_assurance \<Rightarrow> level_of_assurance \<Rightarrow> bool" where
  "less_level_of_assurance a b = (loa_rank a < loa_rank b)"

instance
  by standard (auto simp: less_eq_level_of_assurance_def less_level_of_assurance_def intro: loa_rank_inj)

end

fun loa_debug :: "level_of_assurance \<Rightarrow> rstring" where
  "loa_debug LoaBasic = lit ''Basic''"
| "loa_debug LoaLow = lit ''Low''"
| "loa_debug LoaSubstantial = lit ''Substantial''"
| "loa_debug LoaHigh = lit ''High''"

definition loa_from_uri :: "rstring \<Rightarrow> level_of_assurance option" where
  "loa_from_uri uri =
    (if uri \<in> {lit ''urn:oasis:names:tc:SAML:2.0:ac:classes:PasswordProtectedTransport'', lit ''http://eID.logius.nl/LoA/basic''} then Some LoaBasic
     else if uri \<in> {lit ''urn:oasis:names:tc:SAML:2.0:ac:classes:MobileTwoFactorContract'', lit ''http://eidas.europa.eu/LoA/low''} then Some LoaLow
     else if uri \<in> {lit ''urn:oasis:names:tc:SAML:2.0:ac:classes:Smartcard'', lit ''http://eidas.europa.eu/LoA/substantial''} then Some LoaSubstantial
     else if uri \<in> {lit ''urn:oasis:names:tc:SAML:2.0:ac:classes:SmartcardPKI'', lit ''http://eidas.europa.eu/LoA/high''} then Some LoaHigh
     else None)"

fun as_request_uri :: "level_of_assurance \<Rightarrow> rstring" where
  "as_request_uri LoaBasic = lit ''urn:oasis:names:tc:SAML:2.0:ac:classes:PasswordProtectedTransport''"
| "as_request_uri LoaLow = lit ''urn:oasis:names:tc:SAML:2.0:ac:classes:MobileTwoFactorContract''"
| "as_request_uri LoaSubstantial = lit ''urn:oasis:names:tc:SAML:2.0:ac:classes:Smartcard''"
| "as_request_uri LoaHigh = lit ''urn:oasis:names:tc:SAML:2.0:ac:classes:SmartcardPKI''"

definition MINIMUM_LOA :: level_of_assurance where "MINIMUM_LOA = LoaLow"

lemma loa_request_roundtrip: "loa_from_uri (as_request_uri l) = Some l"
  by (cases l) (simp_all add: loa_from_uri_def)

subsection \<open>Certificates and keys\<close>

definition PEM_CERT_BEGIN :: rstring where "PEM_CERT_BEGIN = lit ''-----BEGIN CERTIFICATE-----''"
definition PEM_CERT_END :: rstring where "PEM_CERT_END = lit ''-----END CERTIFICATE-----''"

text \<open>\<open>str::lines\<close>.\<close>

definition text_lines :: "rstring \<Rightarrow> rstring list" where
  "text_lines s = (let ps = split_on 10 s; qs = (if last ps = [] then butlast ps else ps) in
     map (\<lambda>l. if l \<noteq> [] \<and> last l = 13 then butlast l else l) qs)"

definition strip_pem_armour :: "rstring \<Rightarrow> rstring" where
  "strip_pem_armour pem = filter (\<lambda>c. \<not> is_whitespace c) (concat (filter (\<lambda>l. \<not> starts_with l (lit ''-----'')) (text_lines pem)))"

definition certificate_base64_parse :: "saml_env \<Rightarrow> rstring \<Rightarrow> rstring saml_result" where
  "certificate_base64_parse env t = (let body = filter (\<lambda>c. \<not> is_whitespace c) t in
     if body = [] then Err (XmlError (lit ''empty X509Certificate value''))
     else (case sm_base64 env body of
         Err e \<Rightarrow> Err (XmlError (lit ''X509Certificate is not valid base64: '' @ e))
       | Ok _ \<Rightarrow> Ok body))"

fun chunks_64 :: "rstring \<Rightarrow> rstring list" where
  "chunks_64 s = (if s = [] then [] else take 64 s # chunks_64 (drop 64 s))"

declare chunks_64.simps [simp del]

definition certificate_to_pem :: "rstring \<Rightarrow> rstring" where
  "certificate_to_pem body = PEM_CERT_BEGIN @ [10] @ join_with [10] (chunks_64 body) @ [10] @ PEM_CERT_END"

definition certificate_to_der :: "saml_env \<Rightarrow> rstring \<Rightarrow> byte list" where
  "certificate_to_der env body = (case sm_base64 env body of Ok der \<Rightarrow> der | Err _ \<Rightarrow> [])"

definition certificate_pem_parse :: "saml_env \<Rightarrow> rstring \<Rightarrow> rstring saml_result" where
  "certificate_pem_parse env pem =
    (if \<not> str_contains pem PEM_CERT_BEGIN \<or> \<not> str_contains pem PEM_CERT_END
     then Err (ConfigError (lit ''not a PEM certificate: expected a '' @ PEM_CERT_BEGIN @ lit '' block''))
     else bind_res (certificate_base64_parse env (strip_pem_armour pem)) (\<lambda>_. Ok pem))"

definition key_name_parse :: "saml_env \<Rightarrow> rstring \<Rightarrow> rstring saml_result" where
  "key_name_parse env s = (let t = trim s in
     if t = [] \<or> \<not> list_all (\<lambda>c. is_ascii_digit c \<or> (65 \<le> c \<and> c \<le> 70) \<or> (97 \<le> c \<and> c \<le> 102)) t
     then Err (XmlError (lit ''KeyName is not a hex thumbprint: '' @ debug_str env t))
     else Ok (map to_ascii_lowercase t))"

definition key_name_from_digest :: "byte list \<Rightarrow> rstring" where
  "key_name_from_digest d = concat (map byte_hex d)"

definition pem_to_der :: "saml_env \<Rightarrow> rstring \<Rightarrow> byte list" where
  "pem_to_der env pem = certificate_to_der env (strip_pem_armour pem)"

definition key_names :: "saml_env \<Rightarrow> rstring \<Rightarrow> rstring list" where
  "key_names env pem = (let der = pem_to_der env pem in
     [key_name_from_digest (sm_sha1 env der), key_name_from_digest (sm_sha256 env der)])"

record key_pair =
  kp_cert_pem :: rstring
  kp_key_pem :: rstring
  kp_key_name :: rstring
  kp_cert_base64 :: rstring

text \<open>The absent private key of a certificate that only verifies is the empty text.\<close>

definition key_pair_from_pem :: "saml_env \<Rightarrow> rstring \<Rightarrow> rstring \<Rightarrow> key_pair" where
  "key_pair_from_pem env cert_pem key_pem = \<lparr>kp_cert_pem = cert_pem, kp_key_pem = key_pem,
     kp_key_name = key_name_from_digest (sm_sha1 env (pem_to_der env cert_pem)), kp_cert_base64 = strip_pem_armour cert_pem\<rparr>"

definition matches_key_name :: "saml_env \<Rightarrow> key_pair \<Rightarrow> rstring \<Rightarrow> bool" where
  "matches_key_name env kp candidate = (case key_name_parse env candidate of
      Err _ \<Rightarrow> False
    | Ok c \<Rightarrow> kp_key_name kp = c \<or> c \<in> set (key_names env (kp_cert_pem kp)))"

record key_set =
  ks_signing :: "key_pair list"
  ks_encryption :: "key_pair list"

definition primary_signing :: "key_set \<Rightarrow> key_pair saml_result" where
  "primary_signing ks = (case ks_signing ks of
      [] \<Rightarrow> Err (ConfigError (lit ''no DV signing key is configured (check CERTS_DIR)'')) | k # _ \<Rightarrow> Ok k)"

subsection \<open>What the parsers accept\<close>

lemma check_token_Ok: "check_token env what v = Ok u \<longleftrightarrow> v \<noteq> [] \<and> str_len v \<le> MAX_IDENTIFIER_LEN \<and> (\<forall>c\<in>set v. \<not> token_illegal c)"
  by (auto simp: check_token_def find_None_iff List.find_Some_iff split: option.splits)

lemma check_token_Err: "v \<noteq> [] \<Longrightarrow> str_len v \<le> MAX_IDENTIFIER_LEN \<Longrightarrow> \<forall>c\<in>set v. \<not> token_illegal c \<Longrightarrow> check_token env what v \<noteq> Err e"
  using check_token_Ok [of env what v "()"] by auto

lemma ncname_char_legal: "is_ncname_char c \<Longrightarrow> \<not> token_illegal c"
  by (auto simp: is_ncname_char_def token_illegal_def URL_ILLEGAL_CHARS_def char_class_defs)

lemma message_id_parse_Ok: "message_id_parse env s = Ok m \<longleftrightarrow>
    m = s \<and> s \<noteq> [] \<and> str_len s \<le> MAX_IDENTIFIER_LEN \<and> is_ncname_start (hd s) \<and> (\<forall>c\<in>set s. is_ncname_char c)"
  by (auto simp: message_id_parse_def bind_res_def check_token_Ok list_all_iff ncname_char_legal check_token_Err
      dest: check_token_Err [rotated 3] split: sum.splits if_splits)

lemma name_id_parse_Ok: "name_id_parse s = Ok n \<longleftrightarrow>
    n = trim s \<and> n \<noteq> [] \<and> str_len n \<le> MAX_IDENTIFIER_LEN \<and> (\<forall>c\<in>set n. \<not> is_control c)"
  by (auto simp: name_id_parse_def Let_def list_ex_iff)

text \<open>A host accepted for a domain is that domain or a name below it, spelled in labels: the
  URL has no user name, and nothing follows the domain but a port and a path.\<close>

lemma ends_with_append: "ends_with s p \<longleftrightarrow> (\<exists>q. s = q @ p)"
proof
  assume "ends_with s p"
  then show "\<exists>q. s = q @ p" unfolding ends_with_def by (metis append_take_drop_id)
qed (auto simp: ends_with_def)

lemma strip_suffix_Some: "strip_suffix p s = Some r \<longleftrightarrow> s = r @ p"
  by (auto simp: strip_suffix_def ends_with_append)

lemma strip_prefix_Some: "strip_prefix p s = Some r \<longleftrightarrow> s = p @ r"
  by (auto simp: strip_prefix_def starts_with_def) (metis append_take_drop_id)

lemma require_domain_Ok: "require_domain url domain what = Ok u \<longleftrightarrow>
    (\<exists>host. url_host url = Some host \<and>
      (map to_ascii_lowercase host = map to_ascii_lowercase domain
       \<or> (\<exists>p. map to_ascii_lowercase host = p @ [46] @ map to_ascii_lowercase domain)))"
proof -
  have "(case strip_suffix d h of None \<Rightarrow> False | Some p \<Rightarrow> ends_with p [46]) \<longleftrightarrow> (\<exists>p. h = p @ [46] @ d)" for d h :: rstring
    by (auto simp: strip_suffix_Some ends_with_append split: option.splits) (metis append.assoc append_Cons append_Nil option.distinct(1) strip_suffix_Some)
  then show ?thesis by (auto simp: require_domain_def Let_def split: option.splits)
qed

end
