(* ===== verification/Saml_Signature.thy ===== *)
theory Saml_Signature
  imports Saml_Types
begin

text \<open>
  Verification of XML signatures (\<open>auth-service/src/saml/verification.rs\<close>, with the adapter
  \<open>saml/crypto.rs\<close> over the signature and decryption backend).

  A check returns the messages it records, in order; in the source it returns \<open>false\<close> or
  nothing exactly when it records one. The backend verifies the first \<open>Signature\<close> of a text with
  one certificate: \<open>sm_backend_verify\<close>.
\<close>

subsection \<open>The backend adapter\<close>

definition verify_signature :: "saml_env \<Rightarrow> rstring \<Rightarrow> rstring \<Rightarrow> signature_verification saml_result" where
  "verify_signature env xml cert = (case sm_load_cert env cert of
      Err e \<Rightarrow> Err (CryptoError (lit ''Failed to load verification cert: '' @ e))
    | Ok key \<Rightarrow> (case sm_backend_verify env key xml of
        Err e \<Rightarrow> Err (CryptoError (lit ''Signature verification error: '' @ e))
      | Ok v \<Rightarrow> Ok v))"

fun decrypt_loop :: "saml_env \<Rightarrow> rstring \<Rightarrow> rstring option \<Rightarrow> key_pair list \<Rightarrow> rstring saml_result" where
  "decrypt_loop env xml last_err [] = Err (CryptoError (lit ''decryption failed: ''
     @ (case last_err of Some e \<Rightarrow> e | None \<Rightarrow> lit ''no usable decryption key'')))"
| "decrypt_loop env xml last_err (k # ks) = (case sm_load_private env (kp_key_pem k) of
      Err _ \<Rightarrow> decrypt_loop env xml last_err ks
    | Ok key \<Rightarrow> (case sm_backend_decrypt env key xml of
        Ok out \<Rightarrow> Ok out
      | Err e \<Rightarrow> decrypt_loop env xml (Some e) ks))"

definition backend_decrypt :: "saml_env \<Rightarrow> rstring \<Rightarrow> key_pair list \<Rightarrow> rstring saml_result" where
  "backend_decrypt env xml ks = decrypt_loop env xml None ks"

subsection \<open>Permitted algorithms\<close>

definition ALLOWED_SIGNATURE_METHODS :: "rstring list" where
  "ALLOWED_SIGNATURE_METHODS = [lit ''http://www.w3.org/2001/04/xmldsig-more#rsa-sha256'',
     lit ''http://www.w3.org/2001/04/xmldsig-more#rsa-sha384'', lit ''http://www.w3.org/2001/04/xmldsig-more#rsa-sha512'']"

definition ALLOWED_DIGEST_METHODS :: "rstring list" where
  "ALLOWED_DIGEST_METHODS = [lit ''http://www.w3.org/2001/04/xmlenc#sha256'',
     lit ''http://www.w3.org/2001/04/xmldsig-more#sha384'', lit ''http://www.w3.org/2001/04/xmlenc#sha384'',
     lit ''http://www.w3.org/2001/04/xmldsig-more#sha512'', lit ''http://www.w3.org/2001/04/xmlenc#sha512'']"

definition EXCLUSIVE_C14N :: rstring where "EXCLUSIVE_C14N = lit ''http://www.w3.org/2001/10/xml-exc-c14n#''"

definition ENVELOPED_SIGNATURE_TRANSFORM :: rstring where
  "ENVELOPED_SIGNATURE_TRANSFORM = lit ''http://www.w3.org/2000/09/xmldsig#enveloped-signature''"

definition ID_ATTRIBUTES :: "rstring list" where
  "ID_ATTRIBUTES = [lit ''ID'', lit ''Id'', lit ''id'', lit ''AssertionID'']"

record expected_root =
  er_namespace :: rstring
  er_local_name :: rstring
  er_id :: "rstring option"

text \<open>The section sign of the messages.\<close>

definition section_sign :: rstring where "section_sign = [167]"

subsection \<open>The signed root\<close>

fun first_some :: "('a \<Rightarrow> 'b option) \<Rightarrow> 'a list \<Rightarrow> 'b option" where
  "first_some f [] = None"
| "first_some f (x # xs) = (case f x of Some y \<Rightarrow> Some y | None \<Rightarrow> first_some f xs)"

definition root_id :: "document \<Rightarrow> node_id \<Rightarrow> rstring option" where
  "root_id doc root = first_some (get_attribute doc root) ID_ATTRIBUTES"

definition check_expected_root :: "saml_env \<Rightarrow> document \<Rightarrow> node_id \<Rightarrow> expected_root \<Rightarrow> rstring list" where
  "check_expected_root env doc root expected = (case node_qname doc root of
      None \<Rightarrow> [lit ''Signed document has no root element'']
    | Some actual \<Rightarrow>
        (let wanted = \<lparr>qn_namespace = Some (er_namespace expected), qn_local_name = er_local_name expected\<rparr> in
         if actual \<noteq> wanted then [lit ''Signed root element is '' @ qname_display actual
             @ lit '', but the caller consumes '' @ qname_display wanted @ lit '' (possible XML signature wrapping)'']
         else (case er_id expected of
             Some expected_id \<Rightarrow>
               if root_id doc root \<noteq> Some expected_id
               then [lit ''Signed root element ID '' @ debug_option (sm_escaped env) (root_id doc root)
                  @ lit '' does not match the ID '' @ debug_str env expected_id @ lit '' the caller consumes (possible XML signature wrapping)'']
               else []
           | None \<Rightarrow> [])))"

definition verify_with_cert :: "saml_env \<Rightarrow> rstring \<Rightarrow> key_pair \<Rightarrow> rstring list" where
  "verify_with_cert env xml cert = (case verify_signature env xml (kp_cert_pem cert) of
      Ok SigValid \<Rightarrow> []
    | Ok (SigInvalid reason) \<Rightarrow> [lit ''Signature verification failed: '' @ reason]
    | Err e \<Rightarrow> [saml_error_display e])"

definition enveloping_signature :: "document \<Rightarrow> node_id \<Rightarrow> rstring + node_id" where
  "enveloping_signature doc root = (case children_by_tag doc root NS_DSIG (lit ''Signature'') of
      [] \<Rightarrow> Err (lit ''No ds:Signature element found'')
    | [sig] \<Rightarrow>
        (let all_sigs = descendants_by_tag doc root NS_DSIG (lit ''Signature'') in
         if all_sigs = [] \<or> hd all_sigs \<noteq> sig
         then Err (lit ''A nested ds:Signature precedes the enveloping signature: the backend would verify a different signature than the enveloping one (possible XML signature wrapping)'')
         else Ok sig)
    | sigs \<Rightarrow> Err (lit ''Expected exactly one enveloping ds:Signature, found '' @ nat_text (length sigs)))"

subsection \<open>Algorithms\<close>

abbreviation algorithm_of :: "document \<Rightarrow> node_id \<Rightarrow> rstring option" where
  "algorithm_of doc n \<equiv> get_attribute doc n (lit ''Algorithm'')"

definition check_signature_method :: "document \<Rightarrow> node_id \<Rightarrow> rstring list" where
  "check_signature_method doc sig = (case Option.bind (find_descendant doc sig NS_DSIG (lit ''SignatureMethod'')) (algorithm_of doc) of
      Some a \<Rightarrow> if a \<in> set ALLOWED_SIGNATURE_METHODS then []
        else [lit ''Disallowed SignatureMethod (eID '' @ section_sign @ lit ''9.1 requires RSA-SHA256 or stronger): '' @ a]
    | None \<Rightarrow> [lit ''Signature has no SignatureMethod algorithm''])"

definition check_digest_methods :: "document \<Rightarrow> node_id \<Rightarrow> rstring list" where
  "check_digest_methods doc sig = (let digests = descendants_by_tag doc sig NS_DSIG (lit ''DigestMethod'') in
     (if digests = [] then [lit ''Signature has no DigestMethod''] else [])
     @ concat (map (\<lambda>d. case algorithm_of doc d of
           Some a \<Rightarrow> if a \<in> set ALLOWED_DIGEST_METHODS then []
             else [lit ''Disallowed DigestMethod (eID '' @ section_sign @ lit ''9.1 requires SHA-256 or stronger): '' @ a]
         | None \<Rightarrow> [lit ''DigestMethod has no Algorithm'']) digests))"

definition check_canonicalization_method :: "document \<Rightarrow> node_id \<Rightarrow> rstring list" where
  "check_canonicalization_method doc sig =
    (case Option.bind (find_descendant doc sig NS_DSIG (lit ''CanonicalizationMethod'')) (algorithm_of doc) of
      Some a \<Rightarrow> if a = EXCLUSIVE_C14N then []
        else [lit ''Disallowed CanonicalizationMethod (eID '' @ section_sign @ lit ''9.1 requires exclusive c14n without comments): '' @ a]
    | None \<Rightarrow> [lit ''Signature has no CanonicalizationMethod algorithm''])"

definition occurrences :: "rstring \<Rightarrow> rstring list \<Rightarrow> nat" where
  "occurrences t ts = length (filter (\<lambda>x. x = t) ts)"

definition check_transform_list :: "rstring list \<Rightarrow> rstring list" where
  "check_transform_list transforms =
    map (\<lambda>t. lit ''Signature Reference uses a disallowed transform (eID '' @ section_sign
          @ lit ''9.1 permits only the enveloped-signature transform and exclusive c14n without comments): '' @ t)
      (filter (\<lambda>t. t \<notin> {ENVELOPED_SIGNATURE_TRANSFORM, EXCLUSIVE_C14N}) transforms)
    @ (let enveloped = occurrences ENVELOPED_SIGNATURE_TRANSFORM transforms in
       if enveloped = 0 then [lit ''Signature Reference does not apply the enveloped-signature transform (eID '' @ section_sign @ lit ''9.1)'']
       else if 1 < enveloped then [lit ''Signature Reference applies the enveloped-signature transform '' @ nat_text enveloped
          @ lit '' times (eID '' @ section_sign @ lit ''9.1 permits one)'']
       else [])
    @ (let c14n = occurrences EXCLUSIVE_C14N transforms in
       (if 1 < c14n then [lit ''Signature Reference applies '' @ nat_text c14n @ lit '' canonicalization transforms (eID ''
            @ section_sign @ lit ''9.1 permits at most one)''] else [])
       @ (if c14n = 1 \<and> last transforms \<noteq> EXCLUSIVE_C14N
          then [lit ''Signature Reference applies a canonicalization transform before another transform (eID '' @ section_sign @ lit ''9.1: c14n comes last)'']
          else []))"

text \<open>The transforms of one reference: the messages, and the algorithms found.\<close>

fun reference_transforms :: "document \<Rightarrow> node_id list \<Rightarrow> rstring list \<times> rstring list" where
  "reference_transforms doc [] = ([], [])"
| "reference_transforms doc (t # ts) = (case reference_transforms doc ts of (es, as) \<Rightarrow>
     if Option.bind (node_qname doc t) qn_namespace \<noteq> Some NS_DSIG
     then (lit ''Signature Reference Transform outside the XML-DSig namespace'' # es, as)
     else (case algorithm_of doc t of
         Some a \<Rightarrow> (es, a # as)
       | None \<Rightarrow> (lit ''Signature Reference Transform has no Algorithm'' # es, as)))"

definition transform_nodes :: "document \<Rightarrow> node_id \<Rightarrow> node_id list" where
  "transform_nodes doc r = filter (\<lambda>n. local_name doc n = Some (lit ''Transform'')) (element_descendants doc r)"

definition check_reference_transforms :: "document \<Rightarrow> node_id \<Rightarrow> rstring list" where
  "check_reference_transforms doc sig = concat (map (\<lambda>r.
     case reference_transforms doc (transform_nodes doc r) of (es, as) \<Rightarrow> es @ check_transform_list as)
     (descendants_by_tag doc sig NS_DSIG (lit ''Reference'')))"

definition check_signature_algorithms :: "document \<Rightarrow> node_id \<Rightarrow> rstring list" where
  "check_signature_algorithms doc sig = check_signature_method doc sig @ check_digest_methods doc sig
     @ check_canonicalization_method doc sig @ check_reference_transforms doc sig"

subsection \<open>The reference\<close>

definition single_reference :: "document \<Rightarrow> node_id \<Rightarrow> rstring + node_id" where
  "single_reference doc sig = (case descendants_by_tag doc sig NS_DSIG (lit ''Reference'') of
      [reference] \<Rightarrow> Ok reference
    | refs \<Rightarrow> Err (lit ''Signature has '' @ nat_text (length refs) @ lit '' References, expected exactly one''))"

definition id_carriers :: "document \<Rightarrow> rstring \<Rightarrow> node_id list" where
  "id_carriers doc i = filter (\<lambda>n. list_ex (\<lambda>a. get_attribute doc n a = Some i) ID_ATTRIBUTES) (all_elements doc)"

definition check_id_is_unique :: "saml_env \<Rightarrow> document \<Rightarrow> node_id \<Rightarrow> rstring \<Rightarrow> rstring list" where
  "check_id_is_unique env doc root i = (case id_carriers doc i of
      [only] \<Rightarrow> if only = root then [] else [lit ''Signature Reference URI '' @ debug_str env i
          @ lit '' resolves to an element other than the signed root (possible XML signature wrapping)'']
    | others \<Rightarrow> [nat_text (length others) @ lit '' elements carry the ID '' @ debug_str env i
          @ lit '' referenced by the signature, so it does not uniquely name the signed root (possible XML signature wrapping)''])"

definition signature_covers_root :: "saml_env \<Rightarrow> document \<Rightarrow> node_id \<Rightarrow> node_id \<Rightarrow> rstring list" where
  "signature_covers_root env doc root reference =
    (let uri = (case get_attribute doc reference (lit ''URI'') of None \<Rightarrow> [] | Some u \<Rightarrow> u) in
     if uri = [] then []
     else (case root_id doc root of
         Some i \<Rightarrow> if strip_prefix [35] uri = Some i then check_id_is_unique env doc root i
           else [lit ''Signature Reference URI '' @ debug_str env uri @ lit '' does not target the signed root element (possible XML signature wrapping)'']
       | None \<Rightarrow> [lit ''Signature Reference URI '' @ debug_str env uri @ lit '' does not target the signed root element (possible XML signature wrapping)'']))"

subsection \<open>The key\<close>

definition debug_list :: "saml_env \<Rightarrow> rstring list \<Rightarrow> rstring" where
  "debug_list env xs = lit ''['' @ join_with (lit '', '') (map (debug_str env) xs) @ lit '']''"

definition key_by_name :: "saml_env \<Rightarrow> rstring \<Rightarrow> key_pair list \<Rightarrow> rstring + key_pair" where
  "key_by_name env name trusted = (let key_name = trim name in
     case find (\<lambda>kp. matches_key_name env kp key_name) trusted of
       Some found \<Rightarrow> Ok found
     | None \<Rightarrow> Err (lit ''Unknown KeyName in signature: '' @ key_name @ lit '' (trusted: ''
         @ debug_list env (map kp_key_name trusted) @ lit '')''))"

definition key_by_cert :: "saml_env \<Rightarrow> rstring \<Rightarrow> key_pair list \<Rightarrow> rstring + key_pair" where
  "key_by_cert env cert_text trusted = (case certificate_base64_parse env cert_text of
      Err _ \<Rightarrow> Err (lit ''X509Certificate in signature is not a base64 certificate'')
    | Ok sig_cert \<Rightarrow> (case find (\<lambda>kp. kp_cert_base64 kp = sig_cert) trusted of
        Some found \<Rightarrow> Ok found
      | None \<Rightarrow> Err (lit ''X509Certificate in signature does not match any trusted key'')))"

definition find_matching_key :: "saml_env \<Rightarrow> document \<Rightarrow> node_id \<Rightarrow> key_pair list \<Rightarrow> rstring + key_pair" where
  "find_matching_key env doc sig trusted = (case find_descendant doc sig NS_DSIG (lit ''KeyName'') of
      Some key_name_node \<Rightarrow> (case direct_text doc key_name_node of
          Some name \<Rightarrow> key_by_name env name trusted
        | None \<Rightarrow> Err (lit ''Signature KeyInfo KeyName contains child elements''))
    | None \<Rightarrow> (case find_descendant doc sig NS_DSIG (lit ''X509Certificate'') of
          Some x509_node \<Rightarrow> (case direct_text doc x509_node of
              Some cert \<Rightarrow> key_by_cert env cert trusted
            | None \<Rightarrow> Err (lit ''Signature KeyInfo X509Certificate contains child elements''))
        | None \<Rightarrow> Err (lit ''Signature KeyInfo contains neither KeyName nor X509Certificate'')))"

subsection \<open>Verification\<close>

definition check_and_verify :: "saml_env \<Rightarrow> document \<Rightarrow> rstring \<Rightarrow> key_pair list \<Rightarrow> expected_root \<Rightarrow> rstring list" where
  "check_and_verify env doc xml trusted_keys expected =
    (let root = document_element doc; root_errors = check_expected_root env doc root expected in
     if root_errors \<noteq> [] then root_errors
     else (case enveloping_signature doc root of
         Err e \<Rightarrow> [e]
       | Ok sig_node \<Rightarrow> (case single_reference doc sig_node of
           Err e \<Rightarrow> [e]
         | Ok reference \<Rightarrow> (case find_matching_key env doc sig_node trusted_keys of
             Err e \<Rightarrow> [e]
           | Ok key \<Rightarrow>
               (let algorithm_errors = check_signature_algorithms doc sig_node in
                if algorithm_errors \<noteq> [] then algorithm_errors
                else (let cover_errors = signature_covers_root env doc root reference in
                      if cover_errors \<noteq> [] then cover_errors else verify_with_cert env xml key))))))"

definition verify_xml_signature :: "saml_env \<Rightarrow> rstring \<Rightarrow> key_pair list \<Rightarrow> expected_root \<Rightarrow> rstring list" where
  "verify_xml_signature env xml trusted_keys expected = (case saml_parse env xml of
      Ok doc \<Rightarrow> check_and_verify env doc xml trusted_keys expected
    | Err e \<Rightarrow> [lit ''XML parse error: '' @ e])"

subsection \<open>What a verified signature shows\<close>

definition backend_verified :: "saml_env \<Rightarrow> rstring \<Rightarrow> key_pair \<Rightarrow> bool" where
  "backend_verified env xml key = (\<exists>k. sm_load_cert env (kp_cert_pem key) = Ok k \<and> sm_backend_verify env k xml = Ok SigValid)"

text \<open>The algorithms of a signature: every digest and the signature itself by a permitted
  method, exclusive canonicalization, and as transforms of the reference once the enveloped
  signature and at most once, last, the canonicalization.\<close>

definition strong_algorithms :: "document \<Rightarrow> node_id \<Rightarrow> bool" where
  "strong_algorithms doc sig =
    ((\<exists>n a. find_descendant doc sig NS_DSIG (lit ''SignatureMethod'') = Some n \<and> algorithm_of doc n = Some a \<and> a \<in> set ALLOWED_SIGNATURE_METHODS)
     \<and> (\<exists>n. find_descendant doc sig NS_DSIG (lit ''CanonicalizationMethod'') = Some n \<and> algorithm_of doc n = Some EXCLUSIVE_C14N)
     \<and> descendants_by_tag doc sig NS_DSIG (lit ''DigestMethod'') \<noteq> []
     \<and> (\<forall>d \<in> set (descendants_by_tag doc sig NS_DSIG (lit ''DigestMethod'')). \<exists>a \<in> set ALLOWED_DIGEST_METHODS. algorithm_of doc d = Some a))"

definition plain_transforms :: "document \<Rightarrow> node_id \<Rightarrow> bool" where
  "plain_transforms doc reference =
    ((\<forall>t \<in> set (transform_nodes doc reference). Option.bind (node_qname doc t) qn_namespace = Some NS_DSIG)
     \<and> map (algorithm_of doc) (transform_nodes doc reference)
        \<in> {[Some ENVELOPED_SIGNATURE_TRANSFORM], [Some ENVELOPED_SIGNATURE_TRANSFORM, Some EXCLUSIVE_C14N]})"

text \<open>The reference names the root: the whole text, or the root's identifier, which no other
  element carries under any name of an identifier.\<close>

definition names_root :: "document \<Rightarrow> node_id \<Rightarrow> bool" where
  "names_root doc reference =
    (get_attribute doc reference (lit ''URI'') \<in> {None, Some []}
     \<or> (\<exists>i. root_id doc [] = Some i \<and> get_attribute doc reference (lit ''URI'') = Some (35 # i) \<and> id_carriers doc i = [[]]))"

definition signed_by :: "saml_env \<Rightarrow> rstring \<Rightarrow> key_pair list \<Rightarrow> expected_root \<Rightarrow> bool" where
  "signed_by env xml trusted expected = (\<exists>doc sig reference key.
     saml_parse env xml = Ok doc \<and> is_node doc [] (er_namespace expected) (er_local_name expected)
     \<and> (\<forall>i. er_id expected = Some i \<longrightarrow> root_id doc [] = Some i)
     \<and> children_by_tag doc [] NS_DSIG (lit ''Signature'') = [sig]
     \<and> find_descendant doc [] NS_DSIG (lit ''Signature'') = Some sig
     \<and> descendants_by_tag doc sig NS_DSIG (lit ''Reference'') = [reference]
     \<and> names_root doc reference \<and> strong_algorithms doc sig \<and> plain_transforms doc reference
     \<and> key \<in> set trusted \<and> backend_verified env xml key)"

lemma find_descendant_hd: "find_descendant doc nid ns l = (case descendants_by_tag doc nid ns l of [] \<Rightarrow> None | p # _ \<Rightarrow> Some p)"
proof -
  have "map_option fst (find P xs) = (case map fst (filter P xs) of [] \<Rightarrow> None | p # _ \<Rightarrow> Some p)" for P and xs :: "(node_id \<times> xml) list"
    by (induction xs) auto
  then show ?thesis by (simp add: find_descendant_def descendants_by_tag_def split: option.splits)
qed

lemma find_in_set: "find P xs = Some x \<Longrightarrow> x \<in> set xs"
  by (auto simp: List.find_Some_iff)

lemma find_matching_key_trusted: "find_matching_key env doc sig trusted = Ok key \<Longrightarrow> key \<in> set trusted"
  by (auto simp: find_matching_key_def key_by_name_def key_by_cert_def Let_def dest: find_in_set split: option.splits sum.splits)

lemma verify_with_cert_Nil: "verify_with_cert env xml key = [] \<longleftrightarrow> backend_verified env xml key"
  by (auto simp: verify_with_cert_def verify_signature_def backend_verified_def split: sum.splits signature_verification.splits)

lemma check_expected_root_Nil: "check_expected_root env doc root e = [] \<longleftrightarrow>
    is_node doc root (er_namespace e) (er_local_name e) \<and> (\<forall>i. er_id e = Some i \<longrightarrow> root_id doc root = Some i)"
  by (auto simp: check_expected_root_def is_node_qname Let_def split: option.splits)

lemma enveloping_signature_Ok: "enveloping_signature doc root = Ok sig \<longleftrightarrow>
    children_by_tag doc root NS_DSIG (lit ''Signature'') = [sig] \<and> find_descendant doc root NS_DSIG (lit ''Signature'') = Some sig"
  by (auto simp: enveloping_signature_def find_descendant_hd Let_def split: list.splits)

lemma single_reference_Ok: "single_reference doc sig = Ok r \<longleftrightarrow> descendants_by_tag doc sig NS_DSIG (lit ''Reference'') = [r]"
  by (auto simp: single_reference_def split: list.splits)

lemma signature_covers_root_Nil: "signature_covers_root env doc [] reference = [] \<longleftrightarrow> names_root doc reference"
  by (auto simp: signature_covers_root_def names_root_def check_id_is_unique_def Let_def strip_prefix_Some
      split: option.splits list.splits if_splits)

lemma check_transform_list_Nil:
  assumes "check_transform_list ts = []"
  shows "ts \<in> {[ENVELOPED_SIGNATURE_TRANSFORM], [ENVELOPED_SIGNATURE_TRANSFORM, EXCLUSIVE_C14N]}"
proof -
  let ?e = ENVELOPED_SIGNATURE_TRANSFORM and ?c = EXCLUSIVE_C14N
  have ne: "?e \<noteq> ?c" by (simp add: ENVELOPED_SIGNATURE_TRANSFORM_def EXCLUSIVE_C14N_def)
  have only: "\<forall>t \<in> set ts. t = ?e \<or> t = ?c" using assms by (auto simp: check_transform_list_def filter_empty_conv)
  have e: "occurrences ?e ts = 1" and c: "occurrences ?c ts \<le> 1" and l: "occurrences ?c ts = 1 \<Longrightarrow> last ts = ?c"
    using assms by (auto simp: check_transform_list_def Let_def split: if_splits)
  have "occurrences ?e xs + occurrences ?c xs = length xs" if "\<forall>t \<in> set xs. t = ?e \<or> t = ?c" for xs
    using that ne by (induction xs) (auto simp: occurrences_def)
  with only e c have "length ts = 1 \<or> length ts = 2" by (metis le_Suc_eq le_zero_eq One_nat_def add.right_neutral one_add_one)
  then show ?thesis
  proof
    assume "length ts = 1"
    then obtain t where "ts = [t]" by (metis One_nat_def length_0_conv length_Suc_conv)
    with e only ne show ?thesis by (auto simp: occurrences_def)
  next
    assume "length ts = 2"
    then obtain t u where ts: "ts = [t, u]" by (metis One_nat_def Suc_1 length_0_conv length_Suc_conv)
    then consider "t = ?e" "u = ?e" | "t = ?e" "u = ?c" | "t = ?c" "u = ?e" | "t = ?c" "u = ?c" using only by auto
    then show ?thesis
    proof cases
      case 1
      with e ts show ?thesis by (simp add: occurrences_def)
    next
      case 2
      with ts show ?thesis by simp
    next
      case 3
      with l ts ne show ?thesis by (simp add: occurrences_def)
    next
      case 4
      with e ts ne [symmetric] show ?thesis by (simp add: occurrences_def)
    qed
  qed
qed

lemma reference_transforms_clean:
  "reference_transforms doc ts = ([], as) \<Longrightarrow>
    (\<forall>t \<in> set ts. Option.bind (node_qname doc t) qn_namespace = Some NS_DSIG) \<and> map (algorithm_of doc) ts = map Some as"
  by (induction ts arbitrary: as) (auto split: prod.splits if_splits option.splits)

lemma check_reference_transforms_Nil:
  assumes "check_reference_transforms doc sig = []" "descendants_by_tag doc sig NS_DSIG (lit ''Reference'') = [reference]"
  shows "plain_transforms doc reference"
proof -
  obtain es as where r: "reference_transforms doc (transform_nodes doc reference) = (es, as)" by fastforce
  with assms have "es = []" "check_transform_list as = []" by (auto simp: check_reference_transforms_def)
  with r reference_transforms_clean check_transform_list_Nil show ?thesis by (fastforce simp: plain_transforms_def)
qed

lemma check_signature_algorithms_Nil:
  assumes "check_signature_algorithms doc sig = []"
  shows "strong_algorithms doc sig" "check_reference_transforms doc sig = []"
proof -
  have m: "check_signature_method doc sig = []" and d: "check_digest_methods doc sig = []"
    and c: "check_canonicalization_method doc sig = []" and t: "check_reference_transforms doc sig = []"
    using assms by (auto simp: check_signature_algorithms_def)
  show "check_reference_transforms doc sig = []" by (rule t)
  have "\<exists>n a. find_descendant doc sig NS_DSIG (lit ''SignatureMethod'') = Some n \<and> algorithm_of doc n = Some a \<and> a \<in> set ALLOWED_SIGNATURE_METHODS"
    using m by (auto simp: check_signature_method_def bind_eq_Some_conv split: option.splits if_splits)
  moreover have "\<exists>n. find_descendant doc sig NS_DSIG (lit ''CanonicalizationMethod'') = Some n \<and> algorithm_of doc n = Some EXCLUSIVE_C14N"
    using c by (auto simp: check_canonicalization_method_def bind_eq_Some_conv split: option.splits if_splits)
  moreover have "descendants_by_tag doc sig NS_DSIG (lit ''DigestMethod'') \<noteq> []"
    using d by (auto simp: check_digest_methods_def Let_def)
  moreover have "\<forall>x \<in> set (descendants_by_tag doc sig NS_DSIG (lit ''DigestMethod'')). \<exists>a \<in> set ALLOWED_DIGEST_METHODS. algorithm_of doc x = Some a"
    using d by (fastforce simp: check_digest_methods_def Let_def split: option.splits if_splits)
  ultimately show "strong_algorithms doc sig" by (simp add: strong_algorithms_def)
qed

theorem verify_xml_signature_sound:
  assumes "verify_xml_signature env xml trusted expected = []"
  shows "signed_by env xml trusted expected"
proof -
  obtain doc where doc: "saml_parse env xml = Ok doc" and v: "check_and_verify env doc xml trusted expected = []"
    using assms by (auto simp: verify_xml_signature_def split: sum.splits)
  have r: "check_expected_root env doc [] expected = []"
    using v by (auto simp: check_and_verify_def document_element_def Let_def split: if_splits)
  obtain sig where s: "enveloping_signature doc [] = Ok sig"
    using v r by (auto simp: check_and_verify_def document_element_def Let_def split: sum.splits)
  obtain reference where f: "single_reference doc sig = Ok reference"
    using v r s by (auto simp: check_and_verify_def document_element_def Let_def split: sum.splits)
  obtain key where k: "find_matching_key env doc sig trusted = Ok key"
    using v r s f by (auto simp: check_and_verify_def document_element_def Let_def split: sum.splits)
  have a: "check_signature_algorithms doc sig = []"
    using v r s f k by (auto simp: check_and_verify_def document_element_def Let_def split: if_splits)
  have c: "signature_covers_root env doc [] reference = []"
    using v r s f k a by (auto simp: check_and_verify_def document_element_def Let_def split: if_splits)
  have b: "verify_with_cert env xml key = []"
    using v r s f k a c by (simp add: check_and_verify_def document_element_def)
  show ?thesis
    unfolding signed_by_def
    using doc r s f c b check_signature_algorithms_Nil [OF a] find_matching_key_trusted [OF k]
      check_reference_transforms_Nil
    by (auto simp: check_expected_root_Nil enveloping_signature_Ok single_reference_Ok signature_covers_root_Nil verify_with_cert_Nil
        intro!: exI [of _ doc] exI [of _ sig] exI [of _ reference] exI [of _ key])
qed

end
