(* ===== verification/Saml_Decryption.thy ===== *)
theory Saml_Decryption
  imports Saml_Signature
begin

text \<open>
  Decryption of an \<open>EncryptedID\<close> (\<open>auth-service/src/saml/decryption.rs\<close>): the permitted
  algorithms, the recipient of the key, and the name identifier found in the plaintext. The
  decryption itself is the backend's.
\<close>

definition ALLOWED_DATA_ENCRYPTION :: "rstring list" where
  "ALLOWED_DATA_ENCRYPTION = [lit ''http://www.w3.org/2001/04/xmlenc#aes256-cbc'']"

definition ALLOWED_KEY_TRANSPORT :: "rstring list" where
  "ALLOWED_KEY_TRANSPORT = [lit ''http://www.w3.org/2001/04/xmlenc#rsa-oaep-mgf1p'', lit ''http://www.w3.org/2009/xmlenc11#rsa-oaep'']"

record decrypted_name_id =
  dn_value :: rstring
  dn_format :: rstring
  dn_name_qualifier :: rstring
  dn_sp_name_qualifier :: "rstring option"
  dn_sp_provided_id :: "rstring option"

definition encryption_method :: "document \<Rightarrow> node_id \<Rightarrow> rstring option" where
  "encryption_method doc n = Option.bind (find_child doc n NS_XENC (lit ''EncryptionMethod'')) (algorithm_of doc)"

definition check_data_encryption :: "document \<Rightarrow> node_id \<Rightarrow> rstring + unit" where
  "check_data_encryption doc enc_id = (case find_descendant doc enc_id NS_XENC (lit ''EncryptedData'') of
      None \<Rightarrow> Err (lit ''EncryptedID has no EncryptedData'')
    | Some enc_data \<Rightarrow> (case encryption_method doc enc_data of
        None \<Rightarrow> Err (lit ''EncryptedData has no EncryptionMethod Algorithm'')
      | Some data_alg \<Rightarrow>
          if data_alg \<notin> set ALLOWED_DATA_ENCRYPTION
          then Err (lit ''disallowed data-encryption algorithm (eID '' @ section_sign @ lit ''9.3 requires AES-256-CBC): '' @ data_alg)
          else Ok ()))"

definition key_recipient :: "document \<Rightarrow> node_id \<Rightarrow> rstring option" where
  "key_recipient doc ek = get_attribute doc ek (lit ''Recipient'')"

definition encrypted_keys :: "saml_env \<Rightarrow> document \<Rightarrow> node_id \<Rightarrow> rstring option \<Rightarrow> rstring + node_id list" where
  "encrypted_keys env doc enc_id dv_entity_id =
    (let enc_keys = descendants_by_tag doc enc_id NS_XENC (lit ''EncryptedKey'') in
     if enc_keys = [] then Err (lit ''EncryptedID has no EncryptedKey'')
     else (case dv_entity_id of
         Some dv \<Rightarrow> if \<not> list_ex (\<lambda>ek. key_recipient doc ek = Some dv) enc_keys
           then Err (lit ''no EncryptedKey addressed to this DV (eID '' @ section_sign @ lit ''7.6.3.4 @Recipient); saw ''
              @ debug_list env (map (\<lambda>ek. case key_recipient doc ek of Some r \<Rightarrow> r | None \<Rightarrow> lit ''<absent>'') enc_keys))
           else Ok enc_keys
       | None \<Rightarrow> Ok enc_keys))"

fun check_key_transport :: "document \<Rightarrow> node_id list \<Rightarrow> rstring + unit" where
  "check_key_transport doc [] = Ok ()"
| "check_key_transport doc (ek # eks) = (case encryption_method doc ek of
      None \<Rightarrow> Err (lit ''EncryptedKey has no EncryptionMethod Algorithm'')
    | Some key_alg \<Rightarrow>
        if key_alg \<notin> set ALLOWED_KEY_TRANSPORT
        then Err (lit ''disallowed key-transport algorithm (eID '' @ section_sign @ lit ''9.3 requires RSA-OAEP): '' @ key_alg)
        else check_key_transport doc eks)"

definition check_encryption_algorithms :: "saml_env \<Rightarrow> document \<Rightarrow> node_id \<Rightarrow> rstring option \<Rightarrow> rstring + unit" where
  "check_encryption_algorithms env doc enc_id dv_entity_id =
    bind_res (check_data_encryption doc enc_id) (\<lambda>_.
    bind_res (encrypted_keys env doc enc_id dv_entity_id) (check_key_transport doc))"

definition self_contained_source :: "saml_env \<Rightarrow> document \<Rightarrow> node_id \<Rightarrow> rstring option" where
  "self_contained_source env doc node = (case node_source doc node of
      None \<Rightarrow> None
    | Some raw \<Rightarrow> if is_ok (saml_parse env raw) then Some raw
        else (case node_source_with_inherited_namespaces doc node of
            None \<Rightarrow> None
          | Some reconstructed \<Rightarrow> if is_ok (saml_parse env reconstructed) then Some reconstructed else None))"

definition decrypt_ciphertext :: "saml_env \<Rightarrow> rstring \<Rightarrow> key_pair list \<Rightarrow> rstring option" where
  "decrypt_ciphertext env enc_id_xml private_keys = res_ok (backend_decrypt env enc_id_xml private_keys)"

definition decrypted_name_id_node :: "document \<Rightarrow> node_id option" where
  "decrypted_name_id_node dec_doc = (let dec_root = document_element dec_doc in
     case find_descendant dec_doc dec_root NS_SAML (lit ''NameID'') of
       Some n \<Rightarrow> Some n
     | None \<Rightarrow> if local_name dec_doc dec_root = Some (lit ''NameID'') then Some dec_root else None)"

definition attribute_or_empty :: "document \<Rightarrow> node_id \<Rightarrow> rstring \<Rightarrow> rstring" where
  "attribute_or_empty doc n name = (case get_attribute doc n name of None \<Rightarrow> [] | Some v \<Rightarrow> v)"

definition name_id_fields :: "document \<Rightarrow> node_id \<Rightarrow> decrypted_name_id" where
  "name_id_fields dec_doc n = \<lparr>
     dn_value = (case direct_text dec_doc n of Some t \<Rightarrow> trim t | None \<Rightarrow> []),
     dn_format = attribute_or_empty dec_doc n (lit ''Format''),
     dn_name_qualifier = attribute_or_empty dec_doc n (lit ''NameQualifier''),
     dn_sp_name_qualifier = get_attribute dec_doc n (lit ''SPNameQualifier''),
     dn_sp_provided_id = get_attribute dec_doc n (lit ''SPProvidedID'')\<rparr>"

definition decrypt_encrypted_id :: "saml_env \<Rightarrow> document \<Rightarrow> node_id \<Rightarrow> key_pair list \<Rightarrow> rstring option \<Rightarrow> decrypted_name_id option" where
  "decrypt_encrypted_id env doc enc_id private_keys dv_entity_id =
    (case check_encryption_algorithms env doc enc_id dv_entity_id of
      Err _ \<Rightarrow> None
    | Ok _ \<Rightarrow> (case self_contained_source env doc enc_id of
        None \<Rightarrow> None
      | Some enc_id_xml \<Rightarrow> (case decrypt_ciphertext env enc_id_xml private_keys of
          None \<Rightarrow> None
        | Some decrypted_xml \<Rightarrow> (case saml_parse env decrypted_xml of
            Err _ \<Rightarrow> None
          | Ok dec_doc \<Rightarrow> map_option (name_id_fields dec_doc) (decrypted_name_id_node dec_doc)))))"

subsection \<open>What is decrypted\<close>

text \<open>The data by AES-256-CBC, every key that could be unwrapped by RSA-OAEP, and at least one
  key for this recipient.\<close>

definition strong_encryption :: "document \<Rightarrow> node_id \<Rightarrow> rstring \<Rightarrow> bool" where
  "strong_encryption doc enc_id dv =
    ((\<exists>n a. find_descendant doc enc_id NS_XENC (lit ''EncryptedData'') = Some n \<and> encryption_method doc n = Some a
        \<and> a \<in> set ALLOWED_DATA_ENCRYPTION)
     \<and> (\<exists>ek \<in> set (descendants_by_tag doc enc_id NS_XENC (lit ''EncryptedKey'')). key_recipient doc ek = Some dv)
     \<and> (\<forall>ek \<in> set (descendants_by_tag doc enc_id NS_XENC (lit ''EncryptedKey'')).
          \<exists>a \<in> set ALLOWED_KEY_TRANSPORT. encryption_method doc ek = Some a))"

lemma check_key_transport_Ok: "check_key_transport doc eks = Ok u \<longleftrightarrow>
    (\<forall>ek \<in> set eks. \<exists>a \<in> set ALLOWED_KEY_TRANSPORT. encryption_method doc ek = Some a)"
  by (induction eks) (auto split: option.splits if_splits)

lemma check_encryption_algorithms_Ok:
  assumes "check_encryption_algorithms env doc enc_id (Some dv) = Ok u"
  shows "strong_encryption doc enc_id dv"
proof -
  have d: "check_data_encryption doc enc_id = Ok ()" and "\<exists>eks. encrypted_keys env doc enc_id (Some dv) = Ok eks \<and> check_key_transport doc eks = Ok u"
    using assms by (auto simp: check_encryption_algorithms_def bind_res_def split: sum.splits)
  then obtain eks where k: "encrypted_keys env doc enc_id (Some dv) = Ok eks" and t: "check_key_transport doc eks = Ok u" by blast
  have "eks = descendants_by_tag doc enc_id NS_XENC (lit ''EncryptedKey'')" and "\<exists>ek \<in> set eks. key_recipient doc ek = Some dv"
    using k by (auto simp: encrypted_keys_def Let_def list_ex_iff split: if_splits)
  moreover have "\<exists>n a. find_descendant doc enc_id NS_XENC (lit ''EncryptedData'') = Some n \<and> encryption_method doc n = Some a
        \<and> a \<in> set ALLOWED_DATA_ENCRYPTION"
    using d by (auto simp: check_data_encryption_def split: option.splits if_splits)
  ultimately show ?thesis using t check_key_transport_Ok unfolding strong_encryption_def by blast
qed

lemma decrypt_loop_key: "decrypt_loop env xml e ks = Ok out \<Longrightarrow>
    \<exists>k \<in> set ks. \<exists>key. sm_load_private env (kp_key_pem k) = Ok key \<and> sm_backend_decrypt env key xml = Ok out"
  by (induction ks arbitrary: e) (auto split: sum.splits)

definition decrypted_for :: "saml_env \<Rightarrow> document \<Rightarrow> node_id \<Rightarrow> key_pair list \<Rightarrow> rstring \<Rightarrow> decrypted_name_id \<Rightarrow> bool" where
  "decrypted_for env doc enc_id private_keys dv d = (strong_encryption doc enc_id dv \<and>
     (\<exists>xml k key out dec n. self_contained_source env doc enc_id = Some xml \<and> k \<in> set private_keys
        \<and> sm_load_private env (kp_key_pem k) = Ok key \<and> sm_backend_decrypt env key xml = Ok out
        \<and> saml_parse env out = Ok dec \<and> decrypted_name_id_node dec = Some n \<and> d = name_id_fields dec n))"

lemma decrypt_encrypted_id_Some:
  assumes "decrypt_encrypted_id env doc enc_id ks (Some dv) = Some d"
  shows "decrypted_for env doc enc_id ks dv d"
proof -
  obtain u xml out dec n where a: "check_encryption_algorithms env doc enc_id (Some dv) = Ok u"
    and x: "self_contained_source env doc enc_id = Some xml" and o: "decrypt_ciphertext env xml ks = Some out"
    and p: "saml_parse env out = Ok dec" "decrypted_name_id_node dec = Some n" "d = name_id_fields dec n"
    using assms by (auto simp: decrypt_encrypted_id_def split: sum.splits option.splits)
  have "decrypt_loop env xml None ks = Ok out"
    using o by (auto simp: decrypt_ciphertext_def backend_decrypt_def res_ok_def split: sum.splits)
  with decrypt_loop_key check_encryption_algorithms_Ok [OF a] x p show ?thesis unfolding decrypted_for_def by blast
qed

end
