(* ===== verification/Saml_Validation.thy ===== *)
theory Saml_Validation
  imports Saml_Decryption
begin

text \<open>
  The validators of the SAML messages (\<open>auth-service/src/saml/validation/\<close>): the helpers
  every message shares, the ArtifactResponse, the Response, the Assertion with its claims,
  and the LogoutResponse.

  A validator never stops at a failed check: it records a message and goes on, and its
  result counts only when nothing was recorded. A check returns the messages it records, in
  order. \<open>now\<close> is the clock a validator reads once.
\<close>

subsection \<open>Helpers\<close>

definition skew :: int where "skew = duration_seconds CLOCK_SKEW_SECONDS"

definition check_version :: "saml_env \<Rightarrow> document \<Rightarrow> node_id \<Rightarrow> rstring \<Rightarrow> rstring list" where
  "check_version env doc node label = (case get_attribute doc node (lit ''Version'') of
      Some v \<Rightarrow> if v = lit ''2.0'' then []
        else [label @ lit '' has unsupported @Version '' @ debug_str env v @ lit '' (MUST be 2.0)'']
    | None \<Rightarrow> [label @ lit '' is missing the required @Version''])"

definition check_issuer :: "document \<Rightarrow> node_id \<Rightarrow> entity_id option \<Rightarrow> rstring \<Rightarrow> rstring list" where
  "check_issuer doc node expected_issuer label = (case expected_issuer of
      None \<Rightarrow> []
    | Some expected \<Rightarrow> (case find_child doc node NS_SAML (lit ''Issuer'') of
        None \<Rightarrow> [label @ lit '' has no Issuer'']
      | Some n \<Rightarrow> (case direct_text doc n of
          None \<Rightarrow> [label @ lit '' Issuer contains child elements'']
        | Some i \<Rightarrow> if expected = trim i then []
            else [label @ lit '' Issuer mismatch: expected '' @ expected @ lit '', got '' @ trim i])))"

definition find_status_code :: "document \<Rightarrow> node_id \<Rightarrow> rstring option" where
  "find_status_code doc root = Option.bind (find_descendant doc root NS_SAMLP (lit ''StatusCode'')) (\<lambda>n. get_attribute doc n (lit ''Value''))"

definition find_nested_status_code :: "document \<Rightarrow> node_id \<Rightarrow> rstring option" where
  "find_nested_status_code doc root =
    Option.bind (find_descendant doc root NS_SAMLP (lit ''StatusCode'')) (\<lambda>sc.
    Option.bind (find_child doc sc NS_SAMLP (lit ''StatusCode'')) (\<lambda>n. get_attribute doc n (lit ''Value'')))"

definition find_samlp_text :: "document \<Rightarrow> node_id \<Rightarrow> rstring \<Rightarrow> rstring option" where
  "find_samlp_text doc root local = Option.bind (find_descendant doc root NS_SAMLP local) (inner_text doc)"

definition opt_text :: "rstring option \<Rightarrow> rstring \<Rightarrow> rstring" where
  "opt_text t d = (case t of None \<Rightarrow> d | Some s \<Rightarrow> s)"

definition check_status_success :: "document \<Rightarrow> node_id \<Rightarrow> rstring \<Rightarrow> rstring option \<times> rstring list" where
  "check_status_success doc node label = (let status_code = find_status_code doc node in
     (status_code, if status_code \<noteq> Some STATUS_SUCCESS
        then [label @ lit '' status: '' @ opt_text status_code (lit ''unknown'') @ lit '' (''
          @ opt_text (find_nested_status_code doc node) [] @ lit '') - ''
          @ opt_text (find_samlp_text doc node (lit ''StatusMessage'')) []]
        else []))"

definition shifted :: "saml_env \<Rightarrow> timestamp \<Rightarrow> int \<Rightarrow> rstring \<Rightarrow> rstring \<Rightarrow> rstring list + timestamp" where
  "shifted env t delta label raw = (case sm_checked_add env t delta of
      Some u \<Rightarrow> Ok u
    | None \<Rightarrow> Err [label @ lit '' timestamp is outside the usable range: '' @ raw])"

definition check_freshness :: "saml_env \<Rightarrow> timestamp \<Rightarrow> rstring option \<Rightarrow> rstring \<Rightarrow> rstring list" where
  "check_freshness env now v label = (case v of
      None \<Rightarrow> [label @ lit '' is missing (required, cardinality 1)'']
    | Some s \<Rightarrow> (case sm_instant env s of
        None \<Rightarrow> [label @ lit '' has an invalid timestamp: '' @ s]
      | Some t \<Rightarrow> (case shifted env t (duration_seconds MESSAGE_FRESHNESS_SECONDS + skew) label s of
          Err es \<Rightarrow> es
        | Ok stale_after \<Rightarrow> (case shifted env t (- skew) label s of
            Err es \<Rightarrow> es
          | Ok not_before \<Rightarrow>
              if stale_after < now then [label @ lit '' is stale: issued at '' @ s]
              else if now < not_before then [label @ lit '' is in the future: issued at '' @ s]
              else []))))"

definition parse_required_instant :: "saml_env \<Rightarrow> rstring option \<Rightarrow> rstring \<Rightarrow> rstring \<Rightarrow> rstring list + timestamp \<times> rstring" where
  "parse_required_instant env v attr label = (case v of
      None \<Rightarrow> Err [label @ lit '' is missing the required '' @ attr]
    | Some s \<Rightarrow> (case sm_instant env s of
        Some t \<Rightarrow> Ok (t, s)
      | None \<Rightarrow> Err [label @ lit '' has an invalid '' @ attr @ lit '' timestamp: '' @ s]))"

definition check_not_before :: "saml_env \<Rightarrow> timestamp \<Rightarrow> rstring option \<Rightarrow> rstring \<Rightarrow> rstring list" where
  "check_not_before env now v label = (case parse_required_instant env v (lit ''NotBefore'') label of
      Err es \<Rightarrow> es
    | Ok (t, s) \<Rightarrow> (case shifted env t (- skew) label s of
        Err es \<Rightarrow> es
      | Ok not_before \<Rightarrow> if now < not_before then [label @ lit '' not yet valid: NotBefore '' @ s] else []))"

definition check_not_on_or_after :: "saml_env \<Rightarrow> timestamp \<Rightarrow> rstring option \<Rightarrow> rstring \<Rightarrow> rstring list" where
  "check_not_on_or_after env now v label = (case parse_required_instant env v (lit ''NotOnOrAfter'') label of
      Err es \<Rightarrow> es
    | Ok (t, s) \<Rightarrow> (case shifted env t skew label s of
        Err es \<Rightarrow> es
      | Ok expires_at \<Rightarrow> if expires_at < now then [label @ lit '' expired: '' @ s] else []))"

abbreviation child_element :: "document \<Rightarrow> node_id \<Rightarrow> rstring \<Rightarrow> rstring \<Rightarrow> node_id option" where
  "child_element \<equiv> find_child"

subsection \<open>The ArtifactResponse\<close>

record artifact_response_opts =
  ar_trusted_keys :: "key_pair list"
  ar_expected_in_response_to :: "message_id option"
  ar_expected_issuer :: "entity_id option"

definition signed_element_source :: "saml_env \<Rightarrow> document \<Rightarrow> node_id \<Rightarrow> rstring list + rstring" where
  "signed_element_source env doc art_node = (case node_source doc art_node of
      None \<Rightarrow> Err [lit ''ArtifactResponse sig: could not read element source'']
    | Some raw \<Rightarrow> if is_ok (saml_parse env raw) then Ok raw
        else (case node_source_with_inherited_namespaces doc art_node of
            Some reconstructed \<Rightarrow> if is_ok (saml_parse env reconstructed) then Ok reconstructed
              else Err [lit ''ArtifactResponse sig: the signed element does not parse standalone even with its inherited namespace declarations restored (unexpected RD serialization)'']
          | None \<Rightarrow> Err [lit ''ArtifactResponse sig: the signed element does not parse standalone even with its inherited namespace declarations restored (unexpected RD serialization)'']))"

definition artifact_response_root :: "document \<Rightarrow> node_id \<Rightarrow> expected_root" where
  "artifact_response_root doc art_node = \<lparr>er_namespace = NS_SAMLP, er_local_name = lit ''ArtifactResponse'',
     er_id = get_attribute doc art_node (lit ''ID'')\<rparr>"

definition check_signature :: "saml_env \<Rightarrow> document \<Rightarrow> node_id \<Rightarrow> key_pair list \<Rightarrow> rstring list" where
  "check_signature env doc art_node trusted_keys = (case signed_element_source env doc art_node of
      Err es \<Rightarrow> es
    | Ok xml \<Rightarrow> map (\<lambda>e. lit ''ArtifactResponse sig: '' @ e)
        (verify_xml_signature env xml trusted_keys (artifact_response_root doc art_node)))"

definition check_in_response_to :: "document \<Rightarrow> node_id \<Rightarrow> message_id option \<Rightarrow> rstring list" where
  "check_in_response_to doc root expected = (case expected of
      None \<Rightarrow> []
    | Some e \<Rightarrow> (let in_response_to = attribute_or_empty doc root (lit ''InResponseTo'') in
        if in_response_to \<noteq> e then [lit ''ArtifactResponse InResponseTo mismatch: expected '' @ e @ lit '', got '' @ in_response_to]
        else []))"

definition extract_response :: "document \<Rightarrow> node_id \<Rightarrow> rstring option \<Rightarrow> node_id option \<times> rstring list" where
  "extract_response doc art_node status_code =
    (let response = child_element doc art_node NS_SAMLP (lit ''Response'');
         n = length (children_by_tag doc art_node NS_SAMLP (lit ''Response'')) in
     (response,
      (if response = None \<and> status_code = Some STATUS_SUCCESS
       then [lit ''ArtifactResponse reports Success but carries no Response (artifact expired, already resolved, or requester not authorized)''] else [])
      @ (if 1 < n then [lit ''ArtifactResponse carries '' @ nat_text n @ lit '' Response elements (at most one is allowed)''] else [])))"

definition validate_artifact_response_at ::
  "saml_env \<Rightarrow> timestamp \<Rightarrow> document \<Rightarrow> node_id \<Rightarrow> artifact_response_opts \<Rightarrow> node_id option \<times> rstring list" where
  "validate_artifact_response_at env now doc art_node opts =
    (let label = lit ''ArtifactResponse'';
         root_name = opt_text (local_name doc art_node) [];
         name_errors = (if root_name \<noteq> lit ''ArtifactResponse'' then [lit ''Expected ArtifactResponse, got '' @ root_name] else []);
         version_errors = check_version env doc art_node label;
         signature_errors = check_signature env doc art_node (ar_trusted_keys opts);
         issuer_errors = check_issuer doc art_node (ar_expected_issuer opts) label;
         answer_errors = check_in_response_to doc art_node (ar_expected_in_response_to opts);
         (status_code, status_errors) = check_status_success doc art_node label;
         fresh_errors = check_freshness env now (get_attribute doc art_node (lit ''IssueInstant'')) (lit ''ArtifactResponse @IssueInstant'');
         (response, response_errors) = extract_response doc art_node status_code
     in (response, name_errors @ version_errors @ signature_errors @ issuer_errors @ answer_errors @ status_errors @ fresh_errors @ response_errors))"

subsection \<open>The Response\<close>

record response_opts =
  rp_expected_destination :: "endpoint_url option"
  rp_expected_issuer :: "entity_id option"

definition check_destination :: "document \<Rightarrow> node_id \<Rightarrow> endpoint_url option \<Rightarrow> rstring list" where
  "check_destination doc response expected = (case expected of
      None \<Rightarrow> []
    | Some e \<Rightarrow> (let destination = attribute_or_empty doc response (lit ''Destination'') in
        if destination \<noteq> e then [lit ''Response Destination mismatch: expected '' @ e @ lit '', got '' @ destination] else []))"

definition extract_assertion :: "document \<Rightarrow> node_id \<Rightarrow> rstring option \<Rightarrow> node_id option \<times> rstring list" where
  "extract_assertion doc response status_code =
    (let assertion = child_element doc response NS_SAML (lit ''Assertion'');
         success = (status_code = Some STATUS_SUCCESS);
         n = length (children_by_tag doc response NS_SAML (lit ''Assertion'')) in
     (assertion,
      (if assertion = None \<and> success then [lit ''No Assertion found in successful Response''] else [])
      @ (if assertion \<noteq> None \<and> \<not> success then [lit ''Response carries an Assertion without a Success status, which eID '' @ section_sign @ lit ''7.6.2 forbids''] else [])
      @ (if 1 < n then [lit ''Response carries '' @ nat_text n @ lit '' Assertion elements (at most one is allowed)''] else [])))"

definition validate_response_at ::
  "saml_env \<Rightarrow> timestamp \<Rightarrow> document \<Rightarrow> node_id \<Rightarrow> response_opts \<Rightarrow> node_id option \<times> rstring list" where
  "validate_response_at env now doc response opts =
    (let label = lit ''Response'';
         version_errors = check_version env doc response label;
         fresh_errors = check_freshness env now (get_attribute doc response (lit ''IssueInstant'')) (lit ''Response @IssueInstant'');
         (status_code, status_errors) = check_status_success doc response label;
         encrypted_errors = (if find_descendant doc response NS_SAML (lit ''EncryptedAssertion'') \<noteq> None
           then [lit ''Response contains an EncryptedAssertion, which eID '' @ section_sign @ lit ''7.6.2 forbids''] else []);
         destination_errors = check_destination doc response (rp_expected_destination opts);
         issuer_errors = check_issuer doc response (rp_expected_issuer opts) label;
         (assertion, assertion_errors) = extract_assertion doc response status_code
     in (assertion, version_errors @ fresh_errors @ status_errors @ encrypted_errors @ destination_errors @ issuer_errors @ assertion_errors))"

subsection \<open>The Assertion\<close>

record subject_id =
  sj_value :: rstring
  sj_name_qualifier :: rstring

record claims =
  cm_name_id :: name_id
  cm_authn_context_class_ref :: "rstring option"
  cm_authenticating_authority :: "rstring option"
  cm_acting_subject_id :: "subject_id option"
  cm_legal_subject_id :: "subject_id option"
  cm_service_uuid :: "rstring option"
  cm_in_response_to :: "message_id option"

record assertion_opts =
  as_dv_entity_id :: entity_id
  as_expected_recipient :: "endpoint_url option"
  as_expected_issuer :: "entity_id option"
  as_private_keys :: "key_pair list"
  as_minimum_loa :: "level_of_assurance option"
  as_expected_service_uuid :: "service_uuid option"

definition advice :: tag where "advice = (NS_SAML, lit ''Advice'')"

definition find_claim :: "document \<Rightarrow> node_id \<Rightarrow> rstring \<Rightarrow> node_id option" where
  "find_claim doc assertion local = find_descendant_pruned doc assertion (NS_SAML, local) advice"

definition find_claims :: "document \<Rightarrow> node_id \<Rightarrow> rstring \<Rightarrow> node_id list" where
  "find_claims doc assertion local = descendants_by_tag_pruned doc assertion (NS_SAML, local) advice"

definition find_attributes :: "document \<Rightarrow> node_id \<Rightarrow> node_id list" where
  "find_attributes doc assertion = concat (map (\<lambda>stmt. children_by_tag doc stmt NS_SAML (lit ''Attribute''))
     (find_claims doc assertion (lit ''AttributeStatement'')))"

definition check_subject_name_id_format :: "document \<Rightarrow> node_id option \<Rightarrow> rstring list" where
  "check_subject_name_id_format doc name_id_node = (case name_id_node of
      None \<Rightarrow> [lit ''Assertion is missing the required Subject NameID'']
    | Some n \<Rightarrow> (case get_attribute doc n (lit ''Format'') of
        None \<Rightarrow> []
      | Some format \<Rightarrow> if format = NAMEID_TRANSIENT then []
          else [lit ''Subject NameID Format must be '' @ NAMEID_TRANSIENT @ lit '' (a TransientID), got '' @ [39] @ format @ [39]]))"

definition checked_subject_name_id :: "document \<Rightarrow> node_id \<Rightarrow> name_id option \<times> rstring list" where
  "checked_subject_name_id doc root =
    (let name_id_node = Option.bind (find_claim doc root (lit ''Subject'')) (\<lambda>s. find_child doc s NS_SAML (lit ''NameID''));
         txt = Option.bind name_id_node (direct_text doc);
         child_errors = (if name_id_node \<noteq> None \<and> txt = None then [lit ''Subject NameID contains child elements''] else []);
         format_errors = check_subject_name_id_format doc name_id_node
     in (case map_option name_id_parse txt of
          Some (Ok n) \<Rightarrow> (Some n, child_errors @ format_errors)
        | Some (Err e) \<Rightarrow> (None, child_errors @ format_errors @ [lit ''Subject NameID is not usable: '' @ saml_error_display e])
        | None \<Rightarrow> (None, child_errors @ format_errors)))"

definition check_assertion_instants :: "saml_env \<Rightarrow> timestamp \<Rightarrow> document \<Rightarrow> node_id \<Rightarrow> rstring list" where
  "check_assertion_instants env now doc root =
    check_freshness env now (get_attribute doc root (lit ''IssueInstant'')) (lit ''Assertion @IssueInstant'')
    @ (case find_claim doc root (lit ''AuthnStatement'') of
        Some stmt \<Rightarrow> check_freshness env now (get_attribute doc stmt (lit ''AuthnInstant'')) (lit ''AuthnStatement @AuthnInstant'')
      | None \<Rightarrow> [lit ''Assertion is missing the required AuthnStatement''])"

definition service_uuid_of :: "document \<Rightarrow> node_id \<Rightarrow> rstring option" where
  "service_uuid_of doc root = map_option trim
    (Option.bind (find (\<lambda>a. get_attribute doc a (lit ''Name'') = Some EID_SERVICE_UUID) (find_attributes doc root)) (\<lambda>a.
     Option.bind (find_descendant doc a NS_SAML (lit ''AttributeValue'')) (direct_text doc)))"

definition check_service_uuid :: "document \<Rightarrow> node_id \<Rightarrow> service_uuid option \<Rightarrow> rstring option \<times> rstring list" where
  "check_service_uuid doc root expected = (let service_uuid = service_uuid_of doc root in
     (service_uuid, case expected of
        None \<Rightarrow> []
      | Some e \<Rightarrow> (case service_uuid of
          Some u \<Rightarrow> if u = e then [] else [lit ''ServiceUUID mismatch: expected '' @ e @ lit '', got '' @ u]
        | None \<Rightarrow> [lit ''Assertion is missing the required ServiceUUID''])))"

definition check_subject_confirmation_data :: "saml_env \<Rightarrow> timestamp \<Rightarrow> document \<Rightarrow> node_id \<Rightarrow> endpoint_url option \<Rightarrow> rstring list" where
  "check_subject_confirmation_data env now doc scd expected_recipient =
    check_not_on_or_after env now (get_attribute doc scd (lit ''NotOnOrAfter'')) (lit ''SubjectConfirmation'')
    @ (case get_attribute doc scd (lit ''NotBefore'') of
        Some nb \<Rightarrow> [lit ''SubjectConfirmationData carries @NotBefore ('' @ nb @ lit ''), which eID '' @ section_sign @ lit ''7.6.3.3 forbids'']
      | None \<Rightarrow> [])
    @ (case expected_recipient of
        None \<Rightarrow> []
      | Some e \<Rightarrow> (let recipient = attribute_or_empty doc scd (lit ''Recipient'') in
          if recipient \<noteq> e then [lit ''Recipient mismatch: expected '' @ e @ lit '', got '' @ recipient] else []))"

definition check_subject_confirmation :: "saml_env \<Rightarrow> timestamp \<Rightarrow> document \<Rightarrow> node_id \<Rightarrow> assertion_opts \<Rightarrow> rstring list" where
  "check_subject_confirmation env now doc root opts = (case find_claim doc root (lit ''SubjectConfirmation'') of
      None \<Rightarrow> [lit ''Assertion is missing the required SubjectConfirmation'']
    | Some sc \<Rightarrow>
        (let meth = attribute_or_empty doc sc (lit ''Method'') in
         (if meth \<noteq> SUBJECT_CONFIRMATION_BEARER then [lit ''Expected bearer SubjectConfirmation, got '' @ meth] else [])
         @ (case find_child doc sc NS_SAML (lit ''SubjectConfirmationData'') of
             None \<Rightarrow> [lit ''SubjectConfirmation is missing the required SubjectConfirmationData'']
           | Some scd \<Rightarrow> check_subject_confirmation_data env now doc scd (as_expected_recipient opts))))"

definition audiences_of :: "document \<Rightarrow> node_id \<Rightarrow> rstring list" where
  "audiences_of doc restriction = map trim (List.map_filter (direct_text doc) (children_by_tag doc restriction NS_SAML (lit ''Audience'')))"

definition check_audience_restriction :: "document \<Rightarrow> node_id \<Rightarrow> entity_id \<Rightarrow> rstring list" where
  "check_audience_restriction doc restriction dv_entity_id = (let audiences = audiences_of doc restriction in
     if dv_entity_id \<notin> set audiences
     then [lit ''DV entityId '' @ dv_entity_id @ lit '' not in AudienceRestriction: ['' @ join_with (lit '', '') audiences @ lit '']'']
     else [])"

definition is_audience_restriction :: "document \<Rightarrow> node_id \<Rightarrow> bool" where
  "is_audience_restriction doc child = (case node_qname doc child of
      Some q \<Rightarrow> qn_namespace q = Some NS_SAML \<and> qn_local_name q = lit ''AudienceRestriction'' | None \<Rightarrow> False)"

definition check_condition_elements :: "saml_env \<Rightarrow> document \<Rightarrow> node_id \<Rightarrow> entity_id \<Rightarrow> rstring list" where
  "check_condition_elements env doc cond dv_entity_id =
    concat (map (\<lambda>child. if is_audience_restriction doc child then check_audience_restriction doc child dv_entity_id
        else (case node_qname doc child of
            Some q \<Rightarrow> [lit ''Assertion carries an unsupported Condition <'' @ qn_local_name q @ lit ''> (namespace ''
              @ debug_option (sm_escaped env) (qn_namespace q) @ lit '')'']
          | None \<Rightarrow> [lit ''Conditions carries a non-element child''])) (element_children doc cond))
    @ (if filter (is_audience_restriction doc) (element_children doc cond) = []
       then [lit ''DV entityId '' @ dv_entity_id @ lit '' not in AudienceRestriction: [] (no AudienceRestriction)''] else [])"

definition check_conditions :: "saml_env \<Rightarrow> timestamp \<Rightarrow> document \<Rightarrow> node_id \<Rightarrow> entity_id \<Rightarrow> rstring list" where
  "check_conditions env now doc root dv_entity_id = (case children_by_tag doc root NS_SAML (lit ''Conditions'') of
      [] \<Rightarrow> [lit ''Assertion is missing the required Conditions'']
    | [cond] \<Rightarrow>
        check_not_before env now (get_attribute doc cond (lit ''NotBefore'')) (lit ''Assertion Conditions'')
        @ check_not_on_or_after env now (get_attribute doc cond (lit ''NotOnOrAfter'')) (lit ''Assertion'')
        @ check_condition_elements env doc cond dv_entity_id
    | conds \<Rightarrow> [lit ''Assertion carries '' @ nat_text (length conds) @ lit '' Conditions elements; SAML allows at most one''])"

definition claim_text :: "document \<Rightarrow> node_id \<Rightarrow> rstring \<Rightarrow> rstring option" where
  "claim_text doc root local = map_option trim (Option.bind (find_claim doc root local) (direct_text doc))"

definition check_authn_context :: "document \<Rightarrow> node_id \<Rightarrow> level_of_assurance option \<Rightarrow> (rstring option \<times> rstring option) \<times> rstring list" where
  "check_authn_context doc root minimum_loa =
    (let class_ref = claim_text doc root (lit ''AuthnContextClassRef'');
         authority = claim_text doc root (lit ''AuthenticatingAuthority'')
     in ((class_ref, authority), case minimum_loa of
          None \<Rightarrow> []
        | Some mini \<Rightarrow> (case class_ref of
            Some loa \<Rightarrow> (case loa_from_uri loa of
                Some level \<Rightarrow> if mini \<le> level then []
                  else [lit ''LoA too low: got '' @ loa @ lit '' ('' @ loa_debug level @ lit ''), minimum required is '' @ loa_debug mini]
              | None \<Rightarrow> [lit ''Unrecognized LoA URI: '' @ loa @ lit '', minimum required is '' @ loa_debug mini])
          | None \<Rightarrow> [lit ''Assertion is missing the required AuthnContextClassRef''])))"

definition check_decrypted_name_id :: "saml_env \<Rightarrow> rstring \<Rightarrow> decrypted_name_id \<Rightarrow> rstring list" where
  "check_decrypted_name_id env attr_name d =
    (if trim (dn_value d) = [] then [attr_name @ lit '' NameID has an empty value''] else [])
    @ (if dn_format d \<noteq> NAMEID_PERSISTENT
       then [attr_name @ lit '' NameID Format must be '' @ NAMEID_PERSISTENT @ lit '', got '' @ [39] @ dn_format d @ [39]] else [])
    @ (let name_qualifier = trim (dn_name_qualifier d) in
       if name_qualifier = [] then [attr_name @ lit '' NameID is missing the required NameQualifier'']
       else if name_qualifier \<notin> set EID_ID_TYPES
       then [attr_name @ lit '' NameID NameQualifier '' @ [39] @ name_qualifier @ [39] @ lit '' is not an eID '' @ section_sign
          @ lit ''10.1 identifier type (expected one of '' @ debug_list env EID_ID_TYPES @ lit '')'']
       else [])
    @ (if dn_sp_name_qualifier d \<noteq> None then [attr_name @ lit '' NameID must not carry SPNameQualifier''] else [])
    @ (if dn_sp_provided_id d \<noteq> None then [attr_name @ lit '' NameID must not carry SPProvidedID''] else [])"

definition subject_of :: "decrypted_name_id \<Rightarrow> subject_id" where
  "subject_of d = \<lparr>sj_value = dn_value d, sj_name_qualifier = dn_name_qualifier d\<rparr>"

text \<open>The attribute's encrypted identifier, when it is one of the two that carry one and it
  decrypts.\<close>

definition encrypted_subject :: "saml_env \<Rightarrow> document \<Rightarrow> assertion_opts \<Rightarrow> node_id \<Rightarrow> (bool \<times> rstring \<times> decrypted_name_id) option" where
  "encrypted_subject env doc opts attr_el = (let name = attribute_or_empty doc attr_el (lit ''Name'') in
     if name \<noteq> EID_ACTING_SUBJECT_ID \<and> name \<noteq> EID_LEGAL_SUBJECT_ID then None
     else (case find_descendant doc attr_el NS_SAML (lit ''EncryptedID'') of
         None \<Rightarrow> None
       | Some enc_id \<Rightarrow> map_option (\<lambda>d. (name = EID_ACTING_SUBJECT_ID, name, d))
           (decrypt_encrypted_id env doc enc_id (as_private_keys opts) (Some (as_dv_entity_id opts)))))"

fun subject_ids_loop :: "saml_env \<Rightarrow> document \<Rightarrow> assertion_opts \<Rightarrow> subject_id option \<times> subject_id option \<Rightarrow> node_id list
    \<Rightarrow> (subject_id option \<times> subject_id option) \<times> rstring list" where
  "subject_ids_loop env doc opts (acting, legal) [] = ((acting, legal), [])"
| "subject_ids_loop env doc opts (acting, legal) (a # as) = (case encrypted_subject env doc opts a of
      None \<Rightarrow> subject_ids_loop env doc opts (acting, legal) as
    | Some (is_acting, name, d) \<Rightarrow>
        (case subject_ids_loop env doc opts
            (if is_acting then (Some (subject_of d), legal) else (acting, Some (subject_of d))) as of
          (r, es) \<Rightarrow> (r, check_decrypted_name_id env name d @ es)))"

definition extract_encrypted_subject_ids :: "saml_env \<Rightarrow> document \<Rightarrow> node_id \<Rightarrow> assertion_opts
    \<Rightarrow> (subject_id option \<times> subject_id option) \<times> rstring list" where
  "extract_encrypted_subject_ids env doc root opts = subject_ids_loop env doc opts (None, None) (find_attributes doc root)"

definition claimed_in_response_to :: "saml_env \<Rightarrow> document \<Rightarrow> node_id \<Rightarrow> message_id option" where
  "claimed_in_response_to env doc root =
    Option.bind (find_claim doc root (lit ''SubjectConfirmationData'')) (\<lambda>scd.
    Option.bind (get_attribute doc scd (lit ''InResponseTo'')) (\<lambda>i. res_ok (message_id_parse env i)))"

definition extract_claims :: "saml_env \<Rightarrow> document \<Rightarrow> node_id \<Rightarrow> assertion_opts \<Rightarrow> claims option \<times> rstring list" where
  "extract_claims env doc root opts =
    (let (name_id, name_errors) = checked_subject_name_id doc root;
         ((class_ref, authority), context_errors) = check_authn_context doc root (as_minimum_loa opts);
         ((acting, legal), subject_errors) = extract_encrypted_subject_ids env doc root opts;
         in_response_to = claimed_in_response_to env doc root;
         (service_uuid, service_errors) = check_service_uuid doc root (as_expected_service_uuid opts)
     in (map_option (\<lambda>n. \<lparr>cm_name_id = n, cm_authn_context_class_ref = class_ref, cm_authenticating_authority = authority,
           cm_acting_subject_id = acting, cm_legal_subject_id = legal, cm_service_uuid = service_uuid,
           cm_in_response_to = in_response_to\<rparr>) name_id,
         name_errors @ context_errors @ subject_errors @ service_errors))"

definition validate_assertion_at ::
  "saml_env \<Rightarrow> timestamp \<Rightarrow> document \<Rightarrow> node_id \<Rightarrow> assertion_opts \<Rightarrow> claims option \<times> rstring list" where
  "validate_assertion_at env now doc root opts =
    (let version_errors = check_version env doc root (lit ''Assertion'');
         issuer_errors = check_issuer doc root (as_expected_issuer opts) (lit ''Assertion'');
         confirmation_errors = check_subject_confirmation env now doc root opts;
         condition_errors = check_conditions env now doc root (as_dv_entity_id opts);
         instant_errors = check_assertion_instants env now doc root;
         (claims, claim_errors) = extract_claims env doc root opts;
         errors = version_errors @ issuer_errors @ confirmation_errors @ condition_errors @ instant_errors @ claim_errors
     in (if errors = [] then claims else None, errors))"

subsection \<open>The LogoutResponse\<close>

record logout_response_fields =
  lf_in_response_to :: message_id
  lf_status_is_success :: bool

definition check_logout_response :: "saml_env \<Rightarrow> timestamp \<Rightarrow> document \<Rightarrow> node_id \<Rightarrow> entity_id \<Rightarrow> endpoint_url \<Rightarrow> rstring + unit" where
  "check_logout_response env now doc root rd_entity_id sls_url =
    (let label = lit ''LogoutResponse'';
         errors = check_version env doc root label
           @ check_freshness env now (get_attribute doc root (lit ''IssueInstant'')) (lit ''LogoutResponse @IssueInstant'')
           @ check_issuer doc root (Some rd_entity_id) label
           @ (case get_attribute doc root (lit ''Destination'') of
               Some d \<Rightarrow> if d = sls_url then [] else [lit ''LogoutResponse @Destination is not our SLS endpoint'']
             | None \<Rightarrow> [lit ''LogoutResponse is missing the required @Destination''])
     in if errors = [] then Ok () else Err (join_with (lit ''; '') errors))"

definition validate_logout_response :: "saml_env \<Rightarrow> timestamp \<Rightarrow> rstring \<Rightarrow> entity_id \<Rightarrow> endpoint_url \<Rightarrow> rstring + logout_response_fields" where
  "validate_logout_response env now saml_response rd_entity_id sls_url = (case saml_parse env saml_response of
      Err e \<Rightarrow> Err (lit ''could not parse LogoutResponse XML: '' @ e)
    | Ok doc \<Rightarrow>
        (let root = document_element doc in
         if node_qname doc root \<noteq> Some \<lparr>qn_namespace = Some NS_SAMLP, qn_local_name = lit ''LogoutResponse''\<rparr>
         then Err (lit ''response root is not samlp:LogoutResponse'')
         else bind_res (check_logout_response env now doc root rd_entity_id sls_url) (\<lambda>_.
           case get_attribute doc root (lit ''InResponseTo'') of
             None \<Rightarrow> Err (lit ''LogoutResponse has no InResponseTo'')
           | Some i \<Rightarrow> (case message_id_parse env i of
               Err e \<Rightarrow> Err (lit ''LogoutResponse InResponseTo is not a message ID: '' @ saml_error_display e)
             | Ok in_response_to \<Rightarrow> Ok \<lparr>lf_in_response_to = in_response_to,
                 lf_status_is_success = (find_status_code doc root = Some STATUS_SUCCESS)\<rparr>))))"

end
