(* ===== verification/Saml_Metadata.thy ===== *)
theory Saml_Metadata
  imports Saml_Signature
begin

text \<open>
  The descriptor of the identity provider (\<open>auth-service/src/saml/idp_metadata.rs\<close>,
  \<open>state/metadata_refresh.rs\<close>, the environments of \<open>config/mod.rs\<close>): parsing and verifying a
  metadata document against the pinned identity, the time it may be trusted, and keeping it
  fresh.

  Certificate paths and the identification number in a certificate are read by packages:
  \<open>pk_subject_oin\<close>, \<open>pk_chain\<close>. A fetch is a list of outcomes, one per attempt; a cached document
  is its text and its age. Sums of times are taken to stay within \<open>chrono\<close>'s range.
\<close>

subsection \<open>Environments and pinned trust\<close>

datatype environment = TestEnv | Preproduction | Production

definition RD_OIN :: rstring where "RD_OIN = lit ''00000004000000149000''"

fun rd_base_url :: "environment \<Rightarrow> rstring" where
  "rd_base_url TestEnv = lit ''https://tvs-mock.eks-test.nl''"
| "rd_base_url Preproduction = lit ''https://pp2.toegang.overheid.nl''"
| "rd_base_url Production = lit ''https://rd2.toegang.overheid.nl''"

fun rd_endpoint_domain :: "environment \<Rightarrow> rstring" where
  "rd_endpoint_domain TestEnv = lit ''eks-test.nl''"
| "rd_endpoint_domain Preproduction = lit ''toegang.overheid.nl''"
| "rd_endpoint_domain Production = lit ''toegang.overheid.nl''"

fun dv_entity_id_of :: "environment \<Rightarrow> entity_id" where
  "dv_entity_id_of TestEnv = lit ''urn:nl-eid-gdi:1.0:DV:00000004185618890000:entities:9001''"
| "dv_entity_id_of Preproduction = lit ''urn:nl-eid-gdi:1.0:DV:00000004185618890000:entities:9001''"
| "dv_entity_id_of Production = lit ''urn:nl-eid-gdi:1.0:DV:00000004185618890000:entities:0001''"

fun rd_entity_id_of :: "environment \<Rightarrow> entity_id" where
  "rd_entity_id_of TestEnv = lit ''urn:nl-eid-gdi:1.0:RD:00000004000000149000:entities:9002''"
| "rd_entity_id_of Preproduction = lit ''urn:nl-eid-gdi:1.0:RD:00000004000000149000:entities:9002''"
| "rd_entity_id_of Production = lit ''urn:nl-eid-gdi:1.0:RD:00000004000000149000:entities:0001''"

fun dv_service_uuid_of :: "environment \<Rightarrow> service_uuid" where
  "dv_service_uuid_of TestEnv = lit ''f847dc11-ac24-47b2-84a8-a057440ce56d''"
| "dv_service_uuid_of Preproduction = lit ''4d475439-5847-4337-414c-50505a493141''"
| "dv_service_uuid_of Production = lit ''4d475439-5847-4337-414c-50505a493141''"

definition environment_from_str :: "saml_env \<Rightarrow> rstring \<Rightarrow> rstring + environment" where
  "environment_from_str env s = (let t = map to_ascii_lowercase (trim s) in
     if t \<in> {lit ''test'', lit ''local'', lit ''development''} then Ok TestEnv
     else if t \<in> {lit ''preproduction'', lit ''preprod''} then Ok Preproduction
     else if t \<in> {lit ''production'', lit ''prod''} then Ok Production
     else Err (lit ''invalid environment '' @ debug_str env t @ lit '': expected one of test, preproduction, production''))"

record rd_trust =
  rt_expected_entity_id :: entity_id
  rt_expected_oin :: rstring
  rt_endpoint_domain :: rstring
  rt_roots :: "rstring list"
  rt_intermediates :: "rstring list"

record pki_env =
  pk_subject_oin :: "byte list \<Rightarrow> rstring option"
  pk_chain :: "byte list \<Rightarrow> byte list list \<Rightarrow> byte list list \<Rightarrow> rstring + unit"
  pk_roots :: "rstring list"
  pk_intermediates :: "rstring list"

definition trust_for_environment :: "pki_env \<Rightarrow> environment \<Rightarrow> rd_trust" where
  "trust_for_environment pki e = \<lparr>rt_expected_entity_id = rd_entity_id_of e, rt_expected_oin = RD_OIN,
     rt_endpoint_domain = rd_endpoint_domain e, rt_roots = pk_roots pki, rt_intermediates = pk_intermediates pki\<rparr>"

subsection \<open>The descriptor\<close>

text \<open>Cache durations are in seconds, times in nanoseconds.\<close>

record idp_metadata =
  im_entity_id :: entity_id
  im_sso_url :: endpoint_url
  im_ars_url :: endpoint_url
  im_slo_url :: endpoint_url
  im_signing_keys :: "key_pair list"
  im_cache_duration :: "nat option"
  im_valid_until :: "timestamp option"
  im_retrieved_at :: timestamp

definition DEFAULT_CACHE_AGE :: nat where "DEFAULT_CACHE_AGE = 24 * 60 * 60"
definition MIN_CACHE_AGE :: nat where "MIN_CACHE_AGE = 60 * 60"
definition MAX_CACHE_AGE :: nat where "MAX_CACHE_AGE = 7 * 24 * 60 * 60"

definition clamp_nat :: "nat \<Rightarrow> nat \<Rightarrow> nat \<Rightarrow> nat" where
  "clamp_nat lo hi n = (if n < lo then lo else if hi < n then hi else n)"

definition trust_deadline :: "idp_metadata \<Rightarrow> timestamp" where
  "trust_deadline m =
    (let lifetime = clamp_nat MIN_CACHE_AGE MAX_CACHE_AGE (case im_cache_duration m of None \<Rightarrow> DEFAULT_CACHE_AGE | Some d \<Rightarrow> d);
         by_retrieval = im_retrieved_at m + duration_seconds (int lifetime)
     in case im_valid_until m of
          None \<Rightarrow> by_retrieval
        | Some until \<Rightarrow> min (until + duration_seconds CLOCK_SKEW_SECONDS) by_retrieval)"

definition is_expired_at :: "idp_metadata \<Rightarrow> timestamp \<Rightarrow> bool" where
  "is_expired_at m now = (trust_deadline m < now)"

subsection \<open>Reading the document\<close>

record idp_keys =
  ik_signing :: "key_pair list"
  ik_encryption :: "key_pair list"

definition descriptor_key_pair :: "saml_env \<Rightarrow> document \<Rightarrow> node_id \<Rightarrow> key_pair option" where
  "descriptor_key_pair env doc kd =
    Option.bind (find_descendant doc kd NS_DSIG (lit ''X509Certificate'')) (\<lambda>cert_node.
    Option.bind (direct_text doc cert_node) (\<lambda>t.
      case certificate_base64_parse env t of
        Ok cert_base64 \<Rightarrow> Some (key_pair_from_pem env (certificate_to_pem cert_base64) [])
      | Err _ \<Rightarrow> None))"

fun extract_keys_loop :: "saml_env \<Rightarrow> document \<Rightarrow> node_id list \<Rightarrow> idp_keys" where
  "extract_keys_loop env doc [] = \<lparr>ik_signing = [], ik_encryption = []\<rparr>"
| "extract_keys_loop env doc (kd # kds) = (let rest = extract_keys_loop env doc kds in
     case descriptor_key_pair env doc kd of
       None \<Rightarrow> rest
     | Some kp \<Rightarrow>
         (let usage = get_attribute doc kd (lit ''use'') in
          if usage = Some (lit ''signing'') then rest\<lparr>ik_signing := kp # ik_signing rest\<rparr>
          else if usage = Some (lit ''encryption'') then rest\<lparr>ik_encryption := kp # ik_encryption rest\<rparr>
          else rest\<lparr>ik_signing := kp # ik_signing rest, ik_encryption := kp # ik_encryption rest\<rparr>))"

definition extract_idp_keys :: "saml_env \<Rightarrow> document \<Rightarrow> node_id \<Rightarrow> idp_keys" where
  "extract_idp_keys env doc root = extract_keys_loop env doc (descendants_by_tag doc root NS_MD (lit ''KeyDescriptor''))"

definition idp_sso_descriptor :: "document \<Rightarrow> node_id \<Rightarrow> node_id saml_result" where
  "idp_sso_descriptor doc root = ok_or (ConfigError (lit ''metadata: EntityDescriptor has no IDPSSODescriptor''))
     (find_child doc root NS_MD (lit ''IDPSSODescriptor''))"

definition endpoint_location :: "document \<Rightarrow> node_id \<Rightarrow> rstring \<Rightarrow> rstring \<Rightarrow> rstring option" where
  "endpoint_location doc root tg binding = first_some (\<lambda>n.
     if get_attribute doc n (lit ''Binding'') = Some binding then get_attribute doc n (lit ''Location'') else None)
     (descendants_by_tag doc root NS_MD tg)"

definition required_endpoint :: "saml_env \<Rightarrow> document \<Rightarrow> node_id \<Rightarrow> rstring \<Rightarrow> rstring \<Rightarrow> rstring \<Rightarrow> endpoint_url saml_result" where
  "required_endpoint env doc root tg binding endpoint_domain =
    bind_res (ok_or (ConfigError (lit ''metadata: no '' @ binding @ lit '' '' @ tg)) (endpoint_location doc root tg binding)) (\<lambda>location.
    bind_res (from_metadata env location tg) (\<lambda>url.
    bind_res (require_domain url endpoint_domain tg) (\<lambda>_. Ok url)))"

definition parse_u64 :: "rstring \<Rightarrow> nat option" where
  "parse_u64 s = (if s \<noteq> [] \<and> list_all is_ascii_digit s
     then let n = foldl (\<lambda>n c. 10 * n + (c - 48)) 0 s in if n < 2 ^ 64 then Some n else None
     else None)"

definition checked_u64 :: "nat \<Rightarrow> nat option" where
  "checked_u64 n = (if n < 2 ^ 64 then Some n else None)"

definition duration_unit :: "bool \<Rightarrow> nat \<Rightarrow> nat option" where
  "duration_unit in_time c =
    (if \<not> in_time \<and> c = 68 then Some 86400 else if \<not> in_time \<and> c = 87 then Some 604800
     else if in_time \<and> c = 72 then Some 3600 else if in_time \<and> c = 77 then Some 60
     else if in_time \<and> c = 83 then Some 1 else None)"

fun duration_accumulate :: "bool \<Rightarrow> rstring \<Rightarrow> nat \<Rightarrow> rstring \<Rightarrow> nat option" where
  "duration_accumulate in_time num secs [] = (if num = [] then Some secs else None)"
| "duration_accumulate in_time num secs (c # cs) =
    (if is_ascii_digit c then duration_accumulate in_time (num @ [c]) secs cs
     else (case parse_u64 num of
         None \<Rightarrow> None
       | Some n \<Rightarrow> (case duration_unit in_time c of
           None \<Rightarrow> None
         | Some unit \<Rightarrow> (case checked_u64 (n * unit) of
             None \<Rightarrow> None
           | Some m \<Rightarrow> (case checked_u64 (secs + m) of
               None \<Rightarrow> None
             | Some secs' \<Rightarrow> duration_accumulate in_time [] secs' cs)))))"

definition parse_xs_duration :: "rstring \<Rightarrow> nat option" where
  "parse_xs_duration s = (case strip_prefix [80] s of
      None \<Rightarrow> None
    | Some body \<Rightarrow> (case (case split_once 84 body of Some p \<Rightarrow> p | None \<Rightarrow> (body, [])) of
        (date_part, time_part) \<Rightarrow> (case duration_accumulate False [] 0 date_part of
            None \<Rightarrow> None
          | Some secs \<Rightarrow> duration_accumulate True [] secs time_part)))"

subsection \<open>Trust in a certificate\<close>

definition check_rd_oin :: "pki_env \<Rightarrow> byte list \<Rightarrow> rd_trust \<Rightarrow> unit saml_result" where
  "check_rd_oin pki leaf_der trust = (case pk_subject_oin pki leaf_der of
      Some oin \<Rightarrow> if oin = rt_expected_oin trust then Ok ()
        else Err (CryptoError (lit ''RD signing cert OIN '' @ oin @ lit '' does not match expected '' @ rt_expected_oin trust))
    | None \<Rightarrow> Err (CryptoError (lit ''RD signing cert has no subject serialNumber (OIN)'')))"

definition pem_list_to_der :: "saml_env \<Rightarrow> rstring list \<Rightarrow> byte list list saml_result" where
  "pem_list_to_der env = collect_res (\<lambda>pem. bind_res (certificate_pem_parse env pem) (\<lambda>p. Ok (pem_to_der env p)))"

definition check_chains_to_pinned_root :: "saml_env \<Rightarrow> pki_env \<Rightarrow> byte list \<Rightarrow> rd_trust \<Rightarrow> unit saml_result" where
  "check_chains_to_pinned_root env pki leaf_der trust =
    bind_res (pem_list_to_der env (rt_roots trust)) (\<lambda>roots.
    bind_res (pem_list_to_der env (rt_intermediates trust)) (\<lambda>intermediates.
    case pk_chain pki leaf_der roots intermediates of
      Ok _ \<Rightarrow> Ok ()
    | Err e \<Rightarrow> Err (CryptoError e)))"

definition cert_is_trusted :: "saml_env \<Rightarrow> pki_env \<Rightarrow> rstring \<Rightarrow> rd_trust \<Rightarrow> unit saml_result" where
  "cert_is_trusted env pki cert_pem trust = (let leaf_der = pem_to_der env cert_pem in
     bind_res (check_rd_oin pki leaf_der trust) (\<lambda>_. check_chains_to_pinned_root env pki leaf_der trust))"

definition pinned_signing_keys :: "saml_env \<Rightarrow> pki_env \<Rightarrow> idp_keys \<Rightarrow> rd_trust \<Rightarrow> key_pair list saml_result" where
  "pinned_signing_keys env pki keys trust =
    (let signing_keys = filter (\<lambda>kp. is_ok (cert_is_trusted env pki (kp_cert_pem kp) trust)) (ik_signing keys) in
     if signing_keys = [] then Err (CryptoError (lit ''no RD metadata signing certificate chains to the pinned PKIoverheid root with the expected OIN''))
     else Ok signing_keys)"

subsection \<open>Parsing a document\<close>

definition pinned_entity_id :: "saml_env \<Rightarrow> document \<Rightarrow> node_id \<Rightarrow> rd_trust \<Rightarrow> entity_id saml_result" where
  "pinned_entity_id env doc root trust =
    bind_res (ok_or (XmlError (lit ''metadata: missing entityID'')) (get_attribute doc root (lit ''entityID''))) (\<lambda>s.
    bind_res (entity_id_parse env s) (\<lambda>e.
    if e \<noteq> rt_expected_entity_id trust
    then Err (CryptoError (lit ''metadata entityID '' @ e @ lit '' does not match the pinned RD EntityID '' @ rt_expected_entity_id trust))
    else Ok e))"

definition check_metadata_expiry :: "saml_env \<Rightarrow> timestamp \<Rightarrow> document \<Rightarrow> node_id \<Rightarrow> timestamp option saml_result" where
  "check_metadata_expiry env now doc root = (case get_attribute doc root (lit ''validUntil'') of
      Some s \<Rightarrow>
        (let until = sm_instant env s in
         case Option.bind until (\<lambda>t. sm_checked_add env t (duration_seconds CLOCK_SKEW_SECONDS)) of
           None \<Rightarrow> Err (ConfigError (lit ''metadata has an unusable validUntil timestamp: '' @ s))
         | Some expires_at \<Rightarrow>
             if expires_at < now then Err (ConfigError (lit ''metadata has expired: validUntil '' @ s @ lit '' is in the past''))
             else Ok until)
    | None \<Rightarrow>
        if get_attribute doc root (lit ''cacheDuration'') = None
        then Err (ConfigError (lit ''metadata carries neither validUntil nor cacheDuration (eID '' @ section_sign @ lit ''8.4 requires one)''))
        else Ok None)"

definition verified_signing_keys ::
  "saml_env \<Rightarrow> pki_env \<Rightarrow> rstring \<Rightarrow> document \<Rightarrow> node_id \<Rightarrow> node_id \<Rightarrow> rd_trust \<Rightarrow> key_pair list saml_result" where
  "verified_signing_keys env pki xml doc root idp trust =
    bind_res (pinned_signing_keys env pki (extract_idp_keys env doc idp) trust) (\<lambda>signing_keys.
      (let expected = \<lparr>er_namespace = NS_MD, er_local_name = lit ''EntityDescriptor'', er_id = get_attribute doc root (lit ''ID'')\<rparr>;
           errors = verify_xml_signature env xml signing_keys expected in
       if errors \<noteq> [] then Err (CryptoError (lit ''metadata signature verification failed: '' @ join_with (lit ''; '') errors))
       else Ok signing_keys))"

definition resolve_endpoints :: "saml_env \<Rightarrow> document \<Rightarrow> node_id \<Rightarrow> rd_trust \<Rightarrow> (endpoint_url \<times> endpoint_url \<times> endpoint_url) saml_result" where
  "resolve_endpoints env doc root trust = (let domain = rt_endpoint_domain trust in
     bind_res (required_endpoint env doc root (lit ''SingleSignOnService'') BINDING_HTTP_POST domain) (\<lambda>sso.
     bind_res (required_endpoint env doc root (lit ''ArtifactResolutionService'') BINDING_SOAP domain) (\<lambda>ars.
     bind_res (required_endpoint env doc root (lit ''SingleLogoutService'') BINDING_HTTP_POST domain) (\<lambda>slo.
     Ok (sso, ars, slo)))))"

definition parse_idp_metadata :: "saml_env \<Rightarrow> pki_env \<Rightarrow> timestamp \<Rightarrow> rstring \<Rightarrow> rd_trust \<Rightarrow> idp_metadata saml_result" where
  "parse_idp_metadata env pki now xml trust =
    bind_res (case saml_parse env xml of Err e \<Rightarrow> Err (XmlError e) | Ok d \<Rightarrow> Ok d) (\<lambda>doc.
      (let root = document_element doc in
       bind_res (pinned_entity_id env doc root trust) (\<lambda>entity.
       bind_res (check_metadata_expiry env now doc root) (\<lambda>valid_until.
       bind_res (idp_sso_descriptor doc root) (\<lambda>idp.
       bind_res (verified_signing_keys env pki xml doc root idp trust) (\<lambda>signing_keys.
       bind_res (resolve_endpoints env doc idp trust) (\<lambda>(sso, ars, slo).
       Ok \<lparr>im_entity_id = entity, im_sso_url = sso, im_ars_url = ars, im_slo_url = slo, im_signing_keys = signing_keys,
           im_cache_duration = Option.bind (get_attribute doc root (lit ''cacheDuration'')) parse_xs_duration,
           im_valid_until = valid_until, im_retrieved_at = now\<rparr>)))))))"

subsection \<open>Keeping the descriptor\<close>

text \<open>The cached document: its text and its age in nanoseconds, when the file can be read.\<close>

definition load_cached_idp_metadata ::
  "saml_env \<Rightarrow> pki_env \<Rightarrow> timestamp \<Rightarrow> rstring option \<Rightarrow> nat option \<Rightarrow> rd_trust \<Rightarrow> idp_metadata option" where
  "load_cached_idp_metadata env pki now file age trust = (case file of
      None \<Rightarrow> None
    | Some xml \<Rightarrow> (case parse_idp_metadata env pki now xml trust of
        Err _ \<Rightarrow> None
      | Ok parsed \<Rightarrow> (case age of
          None \<Rightarrow> None
        | Some a \<Rightarrow> (let metadata = parsed\<lparr>im_retrieved_at := now - int a\<rparr> in
            if is_expired_at metadata now then None else Some metadata))))"

definition STARTUP_FETCH_ATTEMPTS :: nat where "STARTUP_FETCH_ATTEMPTS = 3"

text \<open>One outcome per attempt: the text received at a time, or a failure.\<close>

type_synonym fetch_outcome = "timestamp \<times> rstring saml_result"

definition fetch_and_cache_idp_metadata :: "saml_env \<Rightarrow> pki_env \<Rightarrow> rd_trust \<Rightarrow> fetch_outcome \<Rightarrow> idp_metadata saml_result" where
  "fetch_and_cache_idp_metadata env pki trust f = bind_res (snd f) (\<lambda>xml. parse_idp_metadata env pki (fst f) xml trust)"

definition fetch_rd_metadata_with_retries :: "saml_env \<Rightarrow> pki_env \<Rightarrow> rd_trust \<Rightarrow> fetch_outcome list \<Rightarrow> idp_metadata option" where
  "fetch_rd_metadata_with_retries env pki trust attempts =
    first_some (\<lambda>f. res_ok (fetch_and_cache_idp_metadata env pki trust f)) (take STARTUP_FETCH_ATTEMPTS attempts)"

definition load_at_startup ::
  "saml_env \<Rightarrow> pki_env \<Rightarrow> rd_trust \<Rightarrow> fetch_outcome list \<Rightarrow> timestamp \<Rightarrow> rstring option \<Rightarrow> nat option \<Rightarrow> idp_metadata option" where
  "load_at_startup env pki trust attempts now file age = (case fetch_rd_metadata_with_retries env pki trust attempts of
      Some fetched \<Rightarrow> Some fetched
    | None \<Rightarrow> load_cached_idp_metadata env pki now file age trust)"

definition refresh_rd_metadata :: "saml_env \<Rightarrow> pki_env \<Rightarrow> rd_trust \<Rightarrow> fetch_outcome \<Rightarrow> idp_metadata option \<Rightarrow> idp_metadata option" where
  "refresh_rd_metadata env pki trust f held = (case fetch_and_cache_idp_metadata env pki trust f of
      Ok metadata \<Rightarrow> Some metadata
    | Err _ \<Rightarrow> held)"

text \<open>\<open>AuthServiceState::rd_metadata\<close>: the held descriptor while it may be trusted.\<close>

definition rd_metadata :: "timestamp \<Rightarrow> idp_metadata option \<Rightarrow> idp_metadata option" where
  "rd_metadata now held = (case held of Some m \<Rightarrow> if \<not> is_expired_at m now then Some m else None | None \<Rightarrow> None)"

definition MAX_METADATA_REFRESH_INTERVAL :: nat where "MAX_METADATA_REFRESH_INTERVAL = 24 * 60 * 60"
definition MIN_METADATA_REFRESH_INTERVAL :: nat where "MIN_METADATA_REFRESH_INTERVAL = 15 * 60"
definition METADATA_RECOVERY_RETRY_INTERVAL :: nat where "METADATA_RECOVERY_RETRY_INTERVAL = 60"

text \<open>Delays in nanoseconds.\<close>

definition next_refresh_interval :: "idp_metadata \<Rightarrow> timestamp \<Rightarrow> nat" where
  "next_refresh_interval m now =
    (let cache_delay = clamp_nat MIN_METADATA_REFRESH_INTERVAL MAX_METADATA_REFRESH_INTERVAL
           (case im_cache_duration m of None \<Rightarrow> MAX_METADATA_REFRESH_INTERVAL | Some d \<Rightarrow> d) * 1000000000;
         remaining = nat (trust_deadline m - now)
     in max (min cache_delay (remaining div 2)) (METADATA_RECOVERY_RETRY_INTERVAL * 1000000000))"

definition refresh_delay :: "idp_metadata option \<Rightarrow> timestamp \<Rightarrow> nat" where
  "refresh_delay held now = (case held of
      Some m \<Rightarrow> if \<not> is_expired_at m now then next_refresh_interval m now else METADATA_RECOVERY_RETRY_INTERVAL * 1000000000
    | None \<Rightarrow> METADATA_RECOVERY_RETRY_INTERVAL * 1000000000)"

subsection \<open>What a loaded descriptor guarantees\<close>

text \<open>An endpoint: https, without characters that break out of where it is inserted, on a host
  under the pinned domain.\<close>

definition pinned_endpoint :: "rstring \<Rightarrow> endpoint_url \<Rightarrow> bool" where
  "pinned_endpoint domain url = ((\<exists>rest. url = lit ''https://'' @ rest) \<and> (\<forall>c\<in>set url. \<not> token_illegal c)
     \<and> (\<exists>host. url_host url = Some host \<and>
          (map to_ascii_lowercase host = map to_ascii_lowercase domain
           \<or> (\<exists>p. map to_ascii_lowercase host = p @ [46] @ map to_ascii_lowercase domain))))"

definition trusted_key :: "saml_env \<Rightarrow> pki_env \<Rightarrow> rd_trust \<Rightarrow> key_pair \<Rightarrow> bool" where
  "trusted_key env pki trust kp = (pk_subject_oin pki (pem_to_der env (kp_cert_pem kp)) = Some (rt_expected_oin trust)
     \<and> (\<exists>roots intermediates. pem_list_to_der env (rt_roots trust) = Ok roots \<and> pem_list_to_der env (rt_intermediates trust) = Ok intermediates
          \<and> is_ok (pk_chain pki (pem_to_der env (kp_cert_pem kp)) roots intermediates)))"

definition descriptor_ok :: "saml_env \<Rightarrow> pki_env \<Rightarrow> rd_trust \<Rightarrow> idp_metadata \<Rightarrow> bool" where
  "descriptor_ok env pki trust m =
    (im_entity_id m = rt_expected_entity_id trust
     \<and> im_signing_keys m \<noteq> [] \<and> (\<forall>kp \<in> set (im_signing_keys m). trusted_key env pki trust kp)
     \<and> (\<forall>url \<in> {im_sso_url m, im_ars_url m, im_slo_url m}. pinned_endpoint (rt_endpoint_domain trust) url)
     \<and> (\<exists>xml i. signed_by env xml (im_signing_keys m) \<lparr>er_namespace = NS_MD, er_local_name = lit ''EntityDescriptor'', er_id = i\<rparr>))"

lemma bind_res_Ok: "bind_res r f = Ok y \<longleftrightarrow> (\<exists>x. r = Ok x \<and> f x = Ok y)"
  by (cases r) (auto simp: bind_res_def)

lemma ok_or_Ok: "ok_or e v = Ok y \<longleftrightarrow> v = Some y"
  by (cases v) (auto simp: ok_or_def)

lemma cert_is_trusted_ok: "is_ok (cert_is_trusted env pki (kp_cert_pem kp) trust) \<Longrightarrow> trusted_key env pki trust kp"
proof -
  assume "is_ok (cert_is_trusted env pki (kp_cert_pem kp) trust)"
  then obtain u where u: "cert_is_trusted env pki (kp_cert_pem kp) trust = Ok u" by (auto simp: is_ok_def split: sum.splits)
  then obtain v where "check_rd_oin pki (pem_to_der env (kp_cert_pem kp)) trust = Ok v"
    and c: "check_chains_to_pinned_root env pki (pem_to_der env (kp_cert_pem kp)) trust = Ok u"
    by (auto simp: cert_is_trusted_def Let_def bind_res_Ok)
  then have "pk_subject_oin pki (pem_to_der env (kp_cert_pem kp)) = Some (rt_expected_oin trust)"
    by (auto simp: check_rd_oin_def split: option.splits if_splits)
  moreover obtain roots intermediates where r: "pem_list_to_der env (rt_roots trust) = Ok roots"
    "pem_list_to_der env (rt_intermediates trust) = Ok intermediates"
    and p: "(case pk_chain pki (pem_to_der env (kp_cert_pem kp)) roots intermediates of Ok _ \<Rightarrow> Ok () | Err e \<Rightarrow> Err (CryptoError e)) = Ok u"
    using c unfolding check_chains_to_pinned_root_def bind_res_Ok by blast
  moreover have "is_ok (pk_chain pki (pem_to_der env (kp_cert_pem kp)) roots intermediates)"
    using p by (cases "pk_chain pki (pem_to_der env (kp_cert_pem kp)) roots intermediates") auto
  ultimately show ?thesis by (auto simp: trusted_key_def)
qed

lemma required_endpoint_Ok: "required_endpoint env doc root tg b domain = Ok url \<Longrightarrow> pinned_endpoint domain url"
proof -
  assume "required_endpoint env doc root tg b domain = Ok url"
  then obtain u where m: "from_metadata env url tg = Ok url" and d: "require_domain url domain tg = Ok u"
    by (auto simp: required_endpoint_def bind_res_Ok from_metadata_def split: option.splits if_splits)
  from m have "\<exists>rest. url = lit ''https://'' @ rest" and "\<forall>c\<in>set url. \<not> token_illegal c"
    by (auto simp: from_metadata_def bind_res_Ok check_token_Ok strip_prefix_Some split: option.splits if_splits)
  with d show ?thesis by (simp add: pinned_endpoint_def require_domain_Ok)
qed

lemma pinned_signing_keys_Ok: "pinned_signing_keys env pki keys trust = Ok ks \<Longrightarrow>
    ks \<noteq> [] \<and> (\<forall>kp \<in> set ks. trusted_key env pki trust kp)"
  by (auto simp: pinned_signing_keys_def Let_def cert_is_trusted_ok split: if_splits)

theorem parse_idp_metadata_sound:
  assumes "parse_idp_metadata env pki now xml trust = Ok m"
  shows "descriptor_ok env pki trust m \<and> im_retrieved_at m = now"
proof -
  obtain doc entity valid_until idp ks urls where
    e: "pinned_entity_id env doc [] trust = Ok entity"
    and k: "verified_signing_keys env pki xml doc [] idp trust = Ok ks"
    and u: "resolve_endpoints env doc idp trust = Ok urls"
    and m: "m = \<lparr>im_entity_id = entity, im_sso_url = fst urls, im_ars_url = fst (snd urls), im_slo_url = snd (snd urls), im_signing_keys = ks,
           im_cache_duration = Option.bind (get_attribute doc [] (lit ''cacheDuration'')) parse_xs_duration,
           im_valid_until = valid_until, im_retrieved_at = now\<rparr>"
    using assms by (auto simp: parse_idp_metadata_def bind_res_Ok document_element_def Let_def split: prod.splits)
  have "entity = rt_expected_entity_id trust" using e by (auto simp: pinned_entity_id_def bind_res_Ok split: if_splits)
  moreover have "pinned_signing_keys env pki (extract_idp_keys env doc idp) trust = Ok ks"
    and "verify_xml_signature env xml ks \<lparr>er_namespace = NS_MD, er_local_name = lit ''EntityDescriptor'', er_id = get_attribute doc [] (lit ''ID'')\<rparr> = []"
    using k by (auto simp: verified_signing_keys_def bind_res_Ok Let_def split: if_splits)
  moreover have "\<forall>url \<in> {fst urls, fst (snd urls), snd (snd urls)}. pinned_endpoint (rt_endpoint_domain trust) url"
    using u by (auto simp: resolve_endpoints_def bind_res_Ok Let_def dest: required_endpoint_Ok)
  ultimately show ?thesis
    using pinned_signing_keys_Ok verify_xml_signature_sound unfolding descriptor_ok_def m by fastforce
qed

lemma clamp_nat_bounds: "lo \<le> hi \<Longrightarrow> lo \<le> clamp_nat lo hi n \<and> clamp_nat lo hi n \<le> hi"
  by (simp add: clamp_nat_def)

lemma duration_seconds_mono: "a \<le> b \<Longrightarrow> duration_seconds a \<le> duration_seconds b"
  by (simp add: duration_seconds_def)

lemma trust_deadline_le: "trust_deadline m \<le> im_retrieved_at m + duration_seconds (7 * 24 * 60 * 60)"
proof -
  let ?l = "clamp_nat MIN_CACHE_AGE MAX_CACHE_AGE (case im_cache_duration m of None \<Rightarrow> DEFAULT_CACHE_AGE | Some d \<Rightarrow> d)"
  have "?l \<le> MAX_CACHE_AGE" by (rule clamp_nat_bounds [THEN conjunct2]) (simp add: MIN_CACHE_AGE_def MAX_CACHE_AGE_def)
  then have "duration_seconds (int ?l) \<le> duration_seconds (7 * 24 * 60 * 60)"
    by (intro duration_seconds_mono) (simp add: MAX_CACHE_AGE_def)
  then show ?thesis by (auto simp: trust_deadline_def Let_def min_def split: option.splits)
qed

end
