(* ===== verification/Saml_Pending.thy ===== *)
theory Saml_Pending
  imports Saml_Types Session_Store
begin

text \<open>
  The store of outstanding one-time identifiers: the requests this application sent to the
  identity provider, and the challenges of the security-key login. In memory it is
  \<open>auth-service/src/pending.rs\<close>, over PostgreSQL \<open>src/auth/pending_request_db.rs\<close>; the choice
  is \<open>src/auth/pending_request_store.rs\<close>, and \<open>auth/csb_webauthn/challenge.rs\<close> is its second
  client.

  Times are nanoseconds; memory keeps milliseconds. Statements and clock readings of an
  operation are numbered. \<open>db_time\<close> is what storing makes of a time.
\<close>

subsection \<open>In memory\<close>

definition PENDING_REQUEST_TTL_SECS :: nat where "PENDING_REQUEST_TTL_SECS = 15 * 60"
definition PENDING_REQUEST_TTL_MS :: nat where "PENDING_REQUEST_TTL_MS = PENDING_REQUEST_TTL_SECS * 1000"
definition SWEEP_THRESHOLD :: nat where "SWEEP_THRESHOLD = 1024"

record pending =
  pe_map :: "(rstring, nat) hmap"
  pe_sweep_at :: nat

definition pending_is_expired :: "nat \<Rightarrow> nat \<Rightarrow> bool" where
  "pending_is_expired created now = (PENDING_REQUEST_TTL_MS \<le> now - created)"

definition pending_sweep :: "(rstring, nat) hmap \<Rightarrow> nat \<Rightarrow> (rstring, nat) hmap" where
  "pending_sweep m now = hm_filter (\<lambda>_ created. \<not> pending_is_expired created now) m"

definition sweep_if_large :: "nat \<Rightarrow> pending \<Rightarrow> pending" where
  "sweep_if_large now p = (if max (pe_sweep_at p) SWEEP_THRESHOLD \<le> length (pe_map p)
     then (let m = pending_sweep (pe_map p) now in p\<lparr>pe_map := m, pe_sweep_at := length m * 2\<rparr>) else p)"

definition unix_ms :: "timestamp \<Rightarrow> nat" where
  "unix_ms now = nat (now div 1000000)"

definition memory_register :: "timestamp \<Rightarrow> rstring \<Rightarrow> pending \<Rightarrow> pending" where
  "memory_register t i p = (let now = unix_ms t; p = sweep_if_large now p in p\<lparr>pe_map := hm_insert i now (pe_map p)\<rparr>)"

definition memory_consume :: "timestamp \<Rightarrow> rstring \<Rightarrow> pending \<Rightarrow> pending \<times> bool" where
  "memory_consume t i p = (let now = unix_ms t; p = sweep_if_large now p in
     (p\<lparr>pe_map := hm_remove i (pe_map p)\<rparr>,
      case hm_get (pe_map p) i of Some created \<Rightarrow> \<not> pending_is_expired created now | None \<Rightarrow> False))"

subsection \<open>Over the database\<close>

type_synonym pending_table = "(rstring, timestamp) hmap"

definition pending_cutoff :: "timestamp \<Rightarrow> timestamp" where
  "pending_cutoff now = now - duration_seconds (int PENDING_REQUEST_TTL_SECS)"

definition pending_db_register :: "(timestamp \<Rightarrow> timestamp) \<Rightarrow> (nat \<Rightarrow> io) \<Rightarrow> (nat \<Rightarrow> timestamp) \<Rightarrow> rstring
    \<Rightarrow> pending_table \<Rightarrow> pending_table \<times> unit result" where
  "pending_db_register db_time ios clock i t =
    (case run_stmt (ios 0) t (hm_filter (\<lambda>_ created. \<not> created < pending_cutoff (clock 0)) t, ()) of
      (t, Inl e) \<Rightarrow> (t, Err e)
    | (t, Inr _) \<Rightarrow> run_stmt (ios 1) t (hm_insert i (db_time (clock 1)) t, ()))"

definition pending_db_consume :: "io \<Rightarrow> timestamp \<Rightarrow> rstring \<Rightarrow> pending_table \<Rightarrow> pending_table \<times> bool result" where
  "pending_db_consume s now i t = run_stmt s t (case hm_get t i of
      Some created \<Rightarrow> if pending_cutoff now \<le> created then (hm_remove i t, True) else (t, False)
    | None \<Rightarrow> (t, False))"

subsection \<open>The store\<close>

datatype pending_store = PendingMemory pending | PendingDatabase pending_table

definition pending_default :: pending_store where
  "pending_default = PendingMemory \<lparr>pe_map = [], pe_sweep_at = 0\<rparr>"

fun pending_register :: "(timestamp \<Rightarrow> timestamp) \<Rightarrow> (nat \<Rightarrow> io) \<Rightarrow> (nat \<Rightarrow> timestamp) \<Rightarrow> rstring \<Rightarrow> pending_store \<Rightarrow> pending_store" where
  "pending_register db_time ios clock i (PendingMemory p) = PendingMemory (memory_register (clock 0) i p)"
| "pending_register db_time ios clock i (PendingDatabase t) = PendingDatabase (fst (pending_db_register db_time ios clock i t))"

fun pending_consume :: "io \<Rightarrow> timestamp \<Rightarrow> rstring \<Rightarrow> pending_store \<Rightarrow> pending_store \<times> bool" where
  "pending_consume s now i (PendingMemory p) = (case memory_consume now i p of (p', b) \<Rightarrow> (PendingMemory p', b))"
| "pending_consume s now i (PendingDatabase t) = (case pending_db_consume s now i t of
      (t', Inr matched) \<Rightarrow> (PendingDatabase t', matched)
    | (t', Inl e) \<Rightarrow> (PendingDatabase t', False))"

subsection \<open>Challenges\<close>

definition CHALLENGE_LEN :: nat where "CHALLENGE_LEN = 32"

definition pending_challenge_id :: "rstring \<Rightarrow> rstring" where
  "pending_challenge_id challenge = lit ''csb-webauthn:'' @ challenge"

text \<open>\<open>enc\<close> and \<open>dec\<close> are base64url without padding; the random bytes are an argument.\<close>

definition challenge_issue :: "(byte list \<Rightarrow> rstring) \<Rightarrow> byte list \<Rightarrow> (timestamp \<Rightarrow> timestamp) \<Rightarrow> (nat \<Rightarrow> io) \<Rightarrow> (nat \<Rightarrow> timestamp)
    \<Rightarrow> pending_store \<Rightarrow> pending_store \<times> rstring" where
  "challenge_issue enc random db_time ios clock st = (let challenge = enc random in
     (pending_register db_time ios clock (pending_challenge_id challenge) st, challenge))"

datatype challenge_failure = ChallengeMalformed | ChallengeNotPending

definition consume_challenge :: "(rstring \<Rightarrow> byte list option) \<Rightarrow> io \<Rightarrow> timestamp \<Rightarrow> rstring \<Rightarrow> pending_store
    \<Rightarrow> pending_store \<times> (challenge_failure + unit)" where
  "consume_challenge dec s now challenge st =
    (let well_formed = (case dec challenge of None \<Rightarrow> False | Some bytes \<Rightarrow> length bytes = CHALLENGE_LEN) in
     if \<not> well_formed then (st, Err ChallengeMalformed)
     else (case pending_consume s now (pending_challenge_id challenge) st of
         (st, True) \<Rightarrow> (st, Ok ())
       | (st, False) \<Rightarrow> (st, Err ChallengeNotPending)))"

subsection \<open>One-time identifiers\<close>

text \<open>The contract of the two backends: an identifier is outstanding from its registration to
  its consumption; consuming succeeds only for an outstanding one, which then is no longer
  outstanding, and touches no other; registering makes only the registered one outstanding.\<close>

locale one_shot_store =
  fixes outstanding :: "'s \<Rightarrow> rstring \<Rightarrow> bool"
    and ok :: "'s \<Rightarrow> bool"
    and register :: "'r \<Rightarrow> rstring \<Rightarrow> 's \<Rightarrow> 's"
    and consume :: "'c \<Rightarrow> rstring \<Rightarrow> 's \<Rightarrow> 's \<times> bool"
  assumes register_only: "ok s \<Longrightarrow> outstanding (register r i s) j \<Longrightarrow> j = i \<or> outstanding s j"
    and register_ok: "ok s \<Longrightarrow> ok (register r i s)"
    and consume_only: "ok s \<Longrightarrow> outstanding (fst (consume c i s)) j \<Longrightarrow> outstanding s j"
    and consume_needs: "ok s \<Longrightarrow> snd (consume c i s) \<Longrightarrow> outstanding s i \<and> \<not> outstanding (fst (consume c i s)) i"
    and consume_ok: "ok s \<Longrightarrow> ok (fst (consume c i s))"
begin

text \<open>Runs of the store: in every order of registrations and consumptions, by any clients,
  with any times and failures, an identifier is consumed at most as often as it was
  registered.\<close>

definition step :: "(bool \<times> 'r \<times> 'c \<times> rstring) \<Rightarrow> 's \<times> rstring list \<Rightarrow> 's \<times> rstring list" where
  "step x sl = (case x of (reg, r, c, i) \<Rightarrow> case sl of (s, taken) \<Rightarrow>
     if reg then (register r i s, taken)
     else (case consume c i s of (s', b) \<Rightarrow> (s', if b then i # taken else taken)))"

definition registered :: "(bool \<times> 'r \<times> 'c \<times> rstring) list \<Rightarrow> rstring \<Rightarrow> nat" where
  "registered xs i = length (filter (\<lambda>(reg, _, _, j). reg \<and> j = i) xs)"

lemma step_bound:
  assumes "ok s" "count_list taken i + of_bool (outstanding s i) \<le> n"
  shows "ok (fst (step x (s, taken)))"
    "count_list (snd (step x (s, taken))) i + of_bool (outstanding (fst (step x (s, taken))) i)
      \<le> n + (case x of (reg, _, _, j) \<Rightarrow> of_bool (reg \<and> j = i))"
proof -
  obtain reg r c j where x: "x = (reg, r, c, j)" by (cases x)
  obtain s' b where cs: "consume c j s = (s', b)" by fastforce
  show "ok (fst (step x (s, taken)))"
    using register_ok [OF assms(1), of r j] consume_ok [OF assms(1), of c j] by (simp add: step_def x cs)
  show "count_list (snd (step x (s, taken))) i + of_bool (outstanding (fst (step x (s, taken))) i)
      \<le> n + (case x of (reg, _, _, j) \<Rightarrow> of_bool (reg \<and> j = i))"
  proof (cases reg)
    case True
    show ?thesis
    proof (cases "outstanding (register r j s) i")
      case o: True
      then have "j = i \<or> outstanding s i" using register_only [OF assms(1)] by blast
      with True assms(2) show ?thesis by (auto simp: step_def x)
    qed (use True assms(2) in \<open>auto simp: step_def x\<close>)
  next
    case False
    have only: "outstanding s' i \<Longrightarrow> outstanding s i" using consume_only [OF assms(1), of c j i] cs by simp
    have needs: "b \<Longrightarrow> outstanding s j \<and> \<not> outstanding s' j" using consume_needs [OF assms(1), of c j] cs by simp
    show ?thesis using False assms(2) only needs by (auto simp: step_def x cs split: if_splits)
  qed
qed

theorem consumed_at_most_registered:
  assumes "ok s" "\<forall>i. \<not> outstanding s i"
  shows "count_list (snd (fold step xs (s, []))) i \<le> registered xs i"
proof -
  have "ok s \<Longrightarrow> count_list taken i + of_bool (outstanding s i) \<le> n \<Longrightarrow>
      count_list (snd (fold step xs (s, taken))) i \<le> n + registered xs i" for taken n s
  proof (induction xs arbitrary: s taken n)
    case (Cons x xs)
    obtain s' taken' where st: "step x (s, taken) = (s', taken')" by fastforce
    from Cons.IH [of s' taken' "n + (case x of (reg, _, _, j) \<Rightarrow> of_bool (reg \<and> j = i))"]
      step_bound [OF Cons.prems, of x] st
    have "count_list (snd (fold step xs (s', taken'))) i \<le> n + (case x of (reg, _, _, j) \<Rightarrow> of_bool (reg \<and> j = i)) + registered xs i"
      by simp
    then show ?case by (auto simp: st registered_def split: prod.splits)
  qed (simp add: registered_def)
  from this [of s "[]" 0] assms show ?thesis by simp
qed

end

fun pending_known :: "pending_store \<Rightarrow> rstring \<Rightarrow> bool" where
  "pending_known (PendingMemory p) i = hm_contains (pe_map p) i"
| "pending_known (PendingDatabase t) i = hm_contains t i"

fun pending_ok_store :: "pending_store \<Rightarrow> bool" where
  "pending_ok_store (PendingMemory p) = hm_ok (pe_map p)"
| "pending_ok_store (PendingDatabase t) = hm_ok t"


lemma sweep_if_large_ok: "hm_ok (pe_map p) \<Longrightarrow> hm_ok (pe_map (sweep_if_large now p))"
  by (auto simp: sweep_if_large_def pending_sweep_def Let_def intro: hm_ok_filter)

lemma sweep_if_large_get:
  assumes "hm_ok (pe_map p)" "hm_get (pe_map (sweep_if_large now p)) i = Some created"
  shows "hm_get (pe_map p) i = Some created"
  using assms by (auto simp: sweep_if_large_def pending_sweep_def Let_def hm_get_filter split: if_splits option.splits)

lemma memory_one_shot:
  assumes "hm_ok (pe_map p)"
  shows "hm_ok (pe_map (memory_register t i p))" "hm_ok (pe_map (fst (memory_consume t i p)))"
    "hm_contains (pe_map (memory_register t i p)) j \<Longrightarrow> j = i \<or> hm_contains (pe_map p) j"
    "hm_contains (pe_map (fst (memory_consume t i p))) j \<Longrightarrow> j \<noteq> i \<and> hm_contains (pe_map p) j"
    "snd (memory_consume t i p) \<Longrightarrow> hm_contains (pe_map p) i"
  using sweep_if_large_ok [OF assms] sweep_if_large_get [OF assms]
  by (fastforce simp: memory_register_def memory_consume_def hm_contains_def Let_def
      intro: hm_ok_insert hm_ok_remove split: if_splits option.splits)+

lemma pending_stmt_cases: "run_stmt s t (t', r) = (u, x) \<Longrightarrow> (u = t \<or> u = t') \<and> (x = Ok r \<and> u = t' \<or> x = Err DatabaseError)"
  by (cases s) auto

lemma db_register_cases: "fst (pending_db_register db_time ios clock i t) \<in>
    (let t' = hm_filter (\<lambda>_ created. \<not> created < pending_cutoff (clock 0)) t in
     {t, t', hm_insert i (db_time (clock 1)) t'})"
  by (cases "ios 0"; cases "ios 1") (auto simp: pending_db_register_def Let_def)

lemma db_one_shot:
  assumes "hm_ok t"
  shows "hm_ok (fst (pending_db_register db_time ios clock i t))" "hm_ok (fst (pending_db_consume s now i t))"
    "hm_contains (fst (pending_db_register db_time ios clock i t)) j \<Longrightarrow> j = i \<or> hm_contains t j"
    "hm_contains (fst (pending_db_consume s now i t)) j \<Longrightarrow> hm_contains t j"
    "snd (pending_db_consume s now i t) = Ok True \<Longrightarrow> hm_contains t i \<and> \<not> hm_contains (fst (pending_db_consume s now i t)) i"
proof -
  show "hm_ok (fst (pending_db_register db_time ios clock i t))"
    using db_register_cases [of db_time ios clock i t] assms by (auto simp: Let_def intro!: hm_ok_insert hm_ok_filter)
  show "hm_contains (fst (pending_db_register db_time ios clock i t)) j \<Longrightarrow> j = i \<or> hm_contains t j"
    using db_register_cases [of db_time ios clock i t] assms
    by (auto simp: Let_def hm_contains_def hm_get_filter split: if_splits option.splits)
  show "hm_ok (fst (pending_db_consume s now i t))"
    using assms by (cases s) (auto simp: pending_db_consume_def intro: hm_ok_remove split: option.splits)
  show "hm_contains (fst (pending_db_consume s now i t)) j \<Longrightarrow> hm_contains t j"
    by (cases s) (auto simp: pending_db_consume_def hm_contains_def split: option.splits if_splits)
  show "snd (pending_db_consume s now i t) = Ok True \<Longrightarrow> hm_contains t i \<and> \<not> hm_contains (fst (pending_db_consume s now i t)) i"
    by (cases s) (auto simp: pending_db_consume_def hm_contains_def split: option.splits if_splits)
qed

lemma db_consume_fst_snd: "pending_consume s now i (PendingDatabase t) =
    (PendingDatabase (fst (pending_db_consume s now i t)), snd (pending_db_consume s now i t) = Ok True)"
  by (auto split: prod.splits sum.splits)

lemma memory_consume_fst_snd: "pending_consume s now i (PendingMemory p) =
    (PendingMemory (fst (memory_consume now i p)), snd (memory_consume now i p))"
  by (simp split: prod.splits)

interpretation one_shot: one_shot_store pending_known pending_ok_store
  "\<lambda>(db_time, ios, clock). pending_register db_time ios clock" "\<lambda>(s, now). pending_consume s now"
proof (unfold_locales, goal_cases)
  case (1 s r i j)
  then show ?case by (cases s; cases r) (auto dest: memory_one_shot(3) db_one_shot(3))
next
  case (2 s r i)
  then show ?case by (cases s; cases r) (auto dest: memory_one_shot(1) db_one_shot(1))
next
  case (3 s c i j)
  then show ?case by (cases s; cases c) (auto simp: memory_consume_fst_snd db_consume_fst_snd simp del: pending_consume.simps
      dest: memory_one_shot(4) db_one_shot(4))
next
  case (4 s c i)
  then show ?case by (cases s; cases c) (auto simp: memory_consume_fst_snd db_consume_fst_snd simp del: pending_consume.simps
      dest: memory_one_shot(4,5) db_one_shot(5))
next
  case (5 s c i)
  then show ?case by (cases s; cases c) (auto simp: memory_consume_fst_snd db_consume_fst_snd simp del: pending_consume.simps
      dest: memory_one_shot(2) db_one_shot(2))
qed

text \<open>A challenge and a request of the identity provider are never the same entry: an identifier
  of a message has no colon.\<close>

lemma challenge_id_no_message: "message_id_parse env s = Ok m \<Longrightarrow> pending_challenge_id c \<noteq> m"
proof
  assume p: "message_id_parse env s = Ok m" and "pending_challenge_id c = m"
  then have "58 \<in> set m" by (auto simp: pending_challenge_id_def lit_def)
  with p show False by (auto simp: message_id_parse_Ok is_ncname_char_def char_class_defs)
qed

text \<open>The time window, exactly: a registered identifier that nothing consumes is accepted for
  fifteen minutes.\<close>

lemma memory_consume_iff:
  assumes "hm_ok (pe_map p)"
  shows "snd (memory_consume t i p) \<longleftrightarrow>
    (\<exists>created. hm_get (pe_map p) i = Some created \<and> \<not> pending_is_expired created (unix_ms t))"
proof -
  have "hm_get (pe_map (sweep_if_large (unix_ms t) p)) i = Some created"
    if "hm_get (pe_map p) i = Some created" "\<not> pending_is_expired created (unix_ms t)" for created
    using assms that by (auto simp: sweep_if_large_def pending_sweep_def Let_def hm_get_filter)
  then show ?thesis using sweep_if_large_get [OF assms]
    by (fastforce simp: memory_consume_def Let_def split: option.splits)
qed

end
