(* ===== verification/Saml_Flow.thy ===== *)
theory Saml_Flow
  imports Saml_Validation Saml_Metadata Saml_Pending
begin

text \<open>
  The handlers of the SAML service (\<open>auth-service/src/handlers/\<close>): the start of a login, the
  assertion consumer service, the logout and the answer to it, with the cookie that binds a
  flow to a browser (\<open>flow.rs\<close>) and the messages that are sent (\<open>saml/messages.rs\<close>).

  The embedding application is the record \<open>auth_hooks\<close> over its state \<open>'w\<close>. Rendering a
  template, signing, the back-channel and the random identifiers are parameters. A handler
  that waits for the network takes the state it finds afterwards as \<open>busy\<close>: what other
  requests made of it meanwhile.
\<close>

type_synonym jar = "(rstring, rstring) hmap"
type_synonym headers = "(rstring \<times> rstring option) list"

subsection \<open>The flow cookie\<close>

definition FLOW_COOKIE_HOST :: rstring where "FLOW_COOKIE_HOST = lit ''__Host-eks-saml-flow''"
definition FLOW_COOKIE_DEV :: rstring where "FLOW_COOKIE_DEV = lit ''eks-saml-flow''"
definition FLOW_COOKIE_TTL_MINUTES :: nat where "FLOW_COOKIE_TTL_MINUTES = PENDING_REQUEST_TTL_SECS div 60"

definition cookie_name :: "bool \<Rightarrow> rstring" where
  "cookie_name secure = (if secure then FLOW_COOKIE_HOST else FLOW_COOKIE_DEV)"

definition ua_hash :: "hash_fn \<Rightarrow> headers \<Rightarrow> rstring" where
  "ua_hash sha hs = (let ua = (case header_str (lit ''user-agent'') hs of None \<Rightarrow> [] | Some u \<Rightarrow> u) in
     concat (map byte_hex (take 8 (sha (str_bytes ua)))))"

definition bound_value :: "hash_fn \<Rightarrow> message_id \<Rightarrow> headers \<Rightarrow> rstring" where
  "bound_value sha authn_id hs = authn_id @ [46] @ ua_hash sha hs"

record set_cookie =
  sc_name :: rstring
  sc_value :: rstring
  sc_http_only :: bool
  sc_secure :: bool
  sc_same_site_lax :: bool
  sc_path :: rstring
  sc_max_age_minutes :: nat

definition flow_cookie :: "hash_fn \<Rightarrow> endpoint_url \<Rightarrow> message_id \<Rightarrow> headers \<Rightarrow> set_cookie" where
  "flow_cookie sha acs_url authn_id hs = (let secure = is_https acs_url in
     \<lparr>sc_name = cookie_name secure, sc_value = bound_value sha authn_id hs, sc_http_only = True, sc_secure = secure,
      sc_same_site_lax = True, sc_path = lit ''/'', sc_max_age_minutes = FLOW_COOKIE_TTL_MINUTES\<rparr>)"

definition parse_bound_value :: "saml_env \<Rightarrow> rstring \<Rightarrow> headers \<Rightarrow> message_id option" where
  "parse_bound_value env v hs = (case rsplit_once 46 v of
      None \<Rightarrow> None
    | Some (authn_id, ua) \<Rightarrow> if ua \<noteq> ua_hash (sm_sha256 env) hs then None else res_ok (message_id_parse env authn_id))"

definition take_bound_authn_id :: "saml_env \<Rightarrow> jar \<Rightarrow> endpoint_url \<Rightarrow> headers \<Rightarrow> message_id option \<times> jar" where
  "take_bound_authn_id env jar acs_url hs = (let name = cookie_name (is_https acs_url) in
     (Option.bind (hm_get jar name) (\<lambda>v. parse_bound_value env v hs), hm_remove name jar))"

subsection \<open>Configuration\<close>

datatype preselected_ad = SelectAd | DigiD | EHerkenning | Eidas

fun ad_entity_id :: "preselected_ad \<Rightarrow> bool \<Rightarrow> entity_id option" where
  "ad_entity_id SelectAd _ = None"
| "ad_entity_id DigiD p = Some (if p then lit ''urn:nl-eid-gdi:1.0:AD:00000004166909913000:entities:0001''
     else lit ''urn:nl-eid-gdi:1.0:AD:00000004166909913000:entities:9002'')"
| "ad_entity_id EHerkenning p = Some (if p then lit ''urn:etoegang:HM:00000003520354760000:entities:0113''
     else lit ''urn:etoegang:HM:00000003520354760000:entities:9713'')"
| "ad_entity_id Eidas p = Some (if p then lit ''urn:etoegang:EB:00000004000000149000:entities:0001''
     else lit ''urn:etoegang:EB:00000004000000149000:entities:9009'')"

record dv_config =
  dv_entity_id :: entity_id
  dv_service_uuid :: service_uuid
  dv_acs_url :: endpoint_url
  dv_slo_url :: endpoint_url

record auth_config =
  ac_environment :: environment
  ac_dv :: dv_config
  ac_preselected_ad :: preselected_ad
  ac_post_logout_redirect :: rstring

text \<open>The state of the service: configuration, keys, and the descriptor held.\<close>

record auth_service =
  au_config :: auth_config
  au_dv_keys :: key_set
  au_rd_metadata :: "idp_metadata option"

subsection \<open>Outgoing messages\<close>

record authn_request_args =
  aa_id :: message_id
  aa_issue_instant :: rstring
  aa_destination :: endpoint_url
  aa_issuer :: entity_id
  aa_acs_url :: "endpoint_url option"
  aa_intended_audience :: entity_id
  aa_service_uuid :: service_uuid
  aa_requested_loa_uri :: "rstring option"
  aa_preselected_ad :: "entity_id option"
  aa_signing_cert :: rstring

record resolve_args =
  ra_id :: message_id
  ra_issue_instant :: rstring
  ra_destination :: endpoint_url
  ra_issuer :: entity_id
  ra_artifact :: artifact
  ra_signing_cert :: rstring

record logout_args =
  la_id :: message_id
  la_issue_instant :: rstring
  la_destination :: endpoint_url
  la_issuer :: entity_id
  la_name_id :: name_id
  la_signing_cert :: rstring

record 'p wire_env =
  we_authn_request :: "authn_request_args \<Rightarrow> rstring saml_result"
  we_artifact_resolve :: "resolve_args \<Rightarrow> rstring saml_result"
  we_logout_request :: "logout_args \<Rightarrow> rstring saml_result"
  we_soap_envelope :: "rstring \<Rightarrow> rstring saml_result"
  we_sign :: "rstring \<Rightarrow> rstring \<Rightarrow> rstring saml_result"
  we_instant_text :: "timestamp \<Rightarrow> rstring"
  we_send_soap :: "endpoint_url \<Rightarrow> rstring \<Rightarrow> rstring saml_result"
  we_post_form :: "endpoint_url \<Rightarrow> rstring \<Rightarrow> rstring \<Rightarrow> 'p saml_result"

definition create_authn_request :: "'p wire_env \<Rightarrow> message_id \<Rightarrow> timestamp \<Rightarrow> entity_id \<Rightarrow> service_uuid \<Rightarrow> endpoint_url
    \<Rightarrow> key_pair \<Rightarrow> entity_id option \<Rightarrow> endpoint_url option \<Rightarrow> (message_id \<times> rstring) saml_result" where
  "create_authn_request wire fresh now entity uuid sso_url signing_key ad acs_url =
    bind_res (we_authn_request wire \<lparr>aa_id = fresh, aa_issue_instant = we_instant_text wire now, aa_destination = sso_url,
       aa_issuer = entity, aa_acs_url = acs_url, aa_intended_audience = entity, aa_service_uuid = uuid,
       aa_requested_loa_uri = Some (as_request_uri MINIMUM_LOA), aa_preselected_ad = ad, aa_signing_cert = kp_cert_base64 signing_key\<rparr>) (\<lambda>xml.
    bind_res (we_sign wire xml (kp_key_pem signing_key)) (\<lambda>signed. Ok (fresh, signed)))"

definition create_artifact_resolve :: "'p wire_env \<Rightarrow> message_id \<Rightarrow> timestamp \<Rightarrow> artifact \<Rightarrow> entity_id \<Rightarrow> endpoint_url
    \<Rightarrow> key_pair \<Rightarrow> (message_id \<times> rstring) saml_result" where
  "create_artifact_resolve wire fresh now art entity ars_url signing_key =
    bind_res (we_artifact_resolve wire \<lparr>ra_id = fresh, ra_issue_instant = we_instant_text wire now, ra_destination = ars_url,
       ra_issuer = entity, ra_artifact = art, ra_signing_cert = kp_cert_base64 signing_key\<rparr>) (\<lambda>xml.
    bind_res (we_sign wire xml (kp_key_pem signing_key)) (\<lambda>signed. Ok (fresh, signed)))"

definition create_logout_request :: "'p wire_env \<Rightarrow> message_id \<Rightarrow> timestamp \<Rightarrow> name_id \<Rightarrow> entity_id \<Rightarrow> endpoint_url
    \<Rightarrow> key_pair \<Rightarrow> (message_id \<times> rstring) saml_result" where
  "create_logout_request wire fresh now name entity slo_url signing_key =
    bind_res (we_logout_request wire \<lparr>la_id = fresh, la_issue_instant = we_instant_text wire now, la_destination = slo_url,
       la_issuer = entity, la_name_id = name, la_signing_cert = kp_cert_base64 signing_key\<rparr>) (\<lambda>xml.
    bind_res (we_sign wire xml (kp_key_pem signing_key)) (\<lambda>signed. Ok (fresh, signed)))"

subsection \<open>The embedding application\<close>

datatype auth_failure = Cancelled | AuthFailed | Unavailable

fun failure_of :: "saml_error \<Rightarrow> auth_failure" where
  "failure_of (HttpError _) = Unavailable"
| "failure_of (XmlError _) = AuthFailed"
| "failure_of (CryptoError _) = AuthFailed"
| "failure_of (ConfigError _) = AuthFailed"
| "failure_of (TemplateError _) = AuthFailed"

datatype logged_out_session = NoSession | WithoutSamlSubject | WithSamlSubject name_id

record ('w, 'r) auth_hooks =
  ah_on_authenticated :: "subject_id \<Rightarrow> name_id \<Rightarrow> jar \<Rightarrow> headers \<Rightarrow> 'w \<Rightarrow> 'w \<times> 'r"
  ah_on_authentication_failed :: "auth_failure \<Rightarrow> jar \<Rightarrow> bool \<Rightarrow> 'w \<Rightarrow> 'w \<times> 'r"
  ah_logout_session :: "jar \<Rightarrow> 'w \<Rightarrow> 'w \<times> ('r + jar \<times> logged_out_session)"
  ah_register_pending :: "message_id \<Rightarrow> 'w \<Rightarrow> 'w"
  ah_consume_if_pending :: "message_id \<Rightarrow> 'w \<Rightarrow> 'w \<times> bool"

datatype ('r, 'p) reply =
    AppReply 'r
  | Hardened 'r
  | PostForm jar "set_cookie option" 'p
  | RedirectReply jar rstring

subsection \<open>The start of a login\<close>

definition signed_authn_request :: "'p wire_env \<Rightarrow> message_id \<Rightarrow> timestamp \<Rightarrow> auth_config \<Rightarrow> key_set \<Rightarrow> endpoint_url \<Rightarrow> (message_id \<times> rstring) saml_result" where
  "signed_authn_request wire fresh now config keys sso_url =
    bind_res (primary_signing keys) (\<lambda>signing_key.
      create_authn_request wire fresh now (dv_entity_id (ac_dv config)) (dv_service_uuid (ac_dv config)) sso_url signing_key
        (ad_entity_id (ac_preselected_ad config) (ac_environment config = Production))
        (if ac_environment config = TestEnv then Some (dv_acs_url (ac_dv config)) else None))"

definition build_login_response :: "saml_env \<Rightarrow> 'p wire_env \<Rightarrow> message_id \<Rightarrow> timestamp \<Rightarrow> auth_service \<Rightarrow> endpoint_url \<Rightarrow> jar \<Rightarrow> headers
    \<Rightarrow> (message_id \<times> ('r, 'p) reply) saml_result" where
  "build_login_response env wire fresh now au sso_url jar hs = (let config = au_config au in
     bind_res (signed_authn_request wire fresh now config (au_dv_keys au) sso_url) (\<lambda>(i, xml).
       let cookie = flow_cookie (sm_sha256 env) (dv_acs_url (ac_dv config)) i hs;
           jar = hm_insert (sc_name cookie) (sc_value cookie) jar in
       bind_res (we_post_form wire sso_url xml (lit ''SAMLRequest'')) (\<lambda>form. Ok (i, PostForm jar (Some cookie) form))))"

definition handle_login :: "saml_env \<Rightarrow> 'p wire_env \<Rightarrow> ('w, 'r) auth_hooks \<Rightarrow> message_id \<Rightarrow> (nat \<Rightarrow> timestamp) \<Rightarrow> auth_service \<Rightarrow> jar \<Rightarrow> headers
    \<Rightarrow> 'w \<Rightarrow> 'w \<times> ('r, 'p) reply" where
  "handle_login env wire app fresh clock au jar hs w = (case rd_metadata (clock 0) (au_rd_metadata au) of
      None \<Rightarrow> apsnd AppReply (ah_on_authentication_failed app Unavailable jar False w)
    | Some rd \<Rightarrow> (case build_login_response env wire fresh (clock 1) au (im_sso_url rd) jar hs of
        Ok (request_id, response) \<Rightarrow> (ah_register_pending app request_id w, response)
      | Err e \<Rightarrow> apsnd AppReply (ah_on_authentication_failed app (failure_of e) jar False w)))"

subsection \<open>The assertion consumer service\<close>

datatype rejection = Unanswered auth_failure | Answered auth_failure

definition map_err :: "('e \<Rightarrow> 'f) \<Rightarrow> 'e + 'a \<Rightarrow> 'f + 'a" where
  "map_err f r = (case r of Err e \<Rightarrow> Err (f e) | Ok a \<Rightarrow> Ok a)"

definition artifact_from_params :: "(rstring, rstring) hmap \<Rightarrow> auth_failure + artifact" where
  "artifact_from_params params = (case hm_get params (lit ''SAMLart'') of
      None \<Rightarrow> Err AuthFailed
    | Some art \<Rightarrow> map_err (\<lambda>_. AuthFailed) (artifact_parse art))"

definition build_artifact_resolve :: "'p wire_env \<Rightarrow> message_id \<Rightarrow> timestamp \<Rightarrow> artifact \<Rightarrow> auth_config \<Rightarrow> idp_metadata \<Rightarrow> key_pair
    \<Rightarrow> auth_failure + message_id \<times> rstring" where
  "build_artifact_resolve wire fresh now art cfg rd signing_key =
    map_err (\<lambda>_. AuthFailed) (create_artifact_resolve wire fresh now art (dv_entity_id (ac_dv cfg)) (im_ars_url rd) signing_key)"

definition send_artifact_resolve :: "'p wire_env \<Rightarrow> rstring \<Rightarrow> idp_metadata \<Rightarrow> auth_failure + rstring" where
  "send_artifact_resolve wire resolve_xml rd = map_err (\<lambda>_. AuthFailed)
     (bind_res (we_soap_envelope wire resolve_xml) (we_send_soap wire (im_ars_url rd)))"

record resolved_artifact =
  rv_soap :: rstring
  rv_resolve_id :: message_id
  rv_rd :: idp_metadata

definition resolve_artifact :: "'p wire_env \<Rightarrow> message_id \<Rightarrow> (nat \<Rightarrow> timestamp) \<Rightarrow> auth_service \<Rightarrow> (rstring, rstring) hmap
    \<Rightarrow> auth_failure + resolved_artifact" where
  "resolve_artifact wire fresh clock au params =
    bind_res (artifact_from_params params) (\<lambda>art.
    case rd_metadata (clock 0) (au_rd_metadata au) of
      None \<Rightarrow> Err Unavailable
    | Some rd \<Rightarrow>
        bind_res (map_err failure_of (primary_signing (au_dv_keys au))) (\<lambda>signing_key.
        bind_res (build_artifact_resolve wire fresh (clock 1) art (au_config au) rd signing_key) (\<lambda>(i, xml).
        bind_res (send_artifact_resolve wire xml rd) (\<lambda>soap.
        Ok \<lparr>rv_soap = soap, rv_resolve_id = i, rv_rd = rd\<rparr>))))"

definition unwrap_soap :: "document \<Rightarrow> node_id \<Rightarrow> node_id option" where
  "unwrap_soap doc root = Option.bind (find_descendant doc root NS_SOAP (lit ''Body'')) (first_element_child doc)"

definition response_node :: "saml_env \<Rightarrow> timestamp \<Rightarrow> document \<Rightarrow> idp_metadata \<Rightarrow> node_id \<Rightarrow> message_id \<Rightarrow> auth_failure + node_id" where
  "response_node env now doc rd art_node expected_id =
    (case validate_artifact_response_at env now doc art_node \<lparr>ar_trusted_keys = im_signing_keys rd,
        ar_expected_in_response_to = Some expected_id, ar_expected_issuer = Some (im_entity_id rd)\<rparr> of
      (response, errors) \<Rightarrow> if errors \<noteq> [] then Err AuthFailed else ok_or AuthFailed response)"

definition check_answers_bound_request :: "document \<Rightarrow> node_id \<Rightarrow> message_id \<Rightarrow> auth_failure + unit" where
  "check_answers_bound_request doc response bound_authn_id =
    (if get_attribute doc response (lit ''InResponseTo'') \<noteq> Some bound_authn_id then Err AuthFailed else Ok ())"

definition assertion_node :: "saml_env \<Rightarrow> timestamp \<Rightarrow> document \<Rightarrow> auth_config \<Rightarrow> idp_metadata \<Rightarrow> node_id \<Rightarrow> auth_failure + node_id" where
  "assertion_node env now doc cfg rd response =
    (case validate_response_at env now doc response \<lparr>rp_expected_destination = Some (dv_acs_url (ac_dv cfg)),
        rp_expected_issuer = Some (im_entity_id rd)\<rparr> of
      (assertion, errors) \<Rightarrow>
        if errors \<noteq> [] then
          (let errors_str = join_with (lit ''; '') errors in
           if str_contains errors_str (lit ''AuthnFailed'') \<or> str_contains errors_str (lit ''Authentication cancelled'')
           then Err Cancelled else Err AuthFailed)
        else ok_or AuthFailed assertion)"

definition assertion_claims :: "saml_env \<Rightarrow> timestamp \<Rightarrow> document \<Rightarrow> auth_service \<Rightarrow> idp_metadata \<Rightarrow> node_id \<Rightarrow> auth_failure + claims" where
  "assertion_claims env now doc au rd assertion = (let dv = ac_dv (au_config au) in
     ok_or AuthFailed (fst (validate_assertion_at env now doc assertion \<lparr>as_dv_entity_id = dv_entity_id dv,
       as_expected_recipient = Some (dv_acs_url dv), as_expected_issuer = Some (im_entity_id rd),
       as_private_keys = ks_encryption (au_dv_keys au), as_minimum_loa = Some MINIMUM_LOA,
       as_expected_service_uuid = Some (dv_service_uuid dv)\<rparr>)))"

definition check_matching_in_response_to :: "document \<Rightarrow> node_id \<Rightarrow> claims \<Rightarrow> auth_failure + unit" where
  "check_matching_in_response_to doc response cs =
    (if get_attribute doc response (lit ''InResponseTo'') \<noteq> cm_in_response_to cs then Err AuthFailed else Ok ())"

definition chain_claims :: "saml_env \<Rightarrow> (nat \<Rightarrow> timestamp) \<Rightarrow> document \<Rightarrow> auth_service \<Rightarrow> idp_metadata \<Rightarrow> message_id \<Rightarrow> message_id \<Rightarrow> rejection + claims" where
  "chain_claims env clock doc au rd resolve_id bound_authn_id =
    (if is_expired_at rd (clock 2) then Err (Unanswered Unavailable)
     else (case unwrap_soap doc (document_element doc) of
         None \<Rightarrow> Err (Unanswered AuthFailed)
       | Some art_node \<Rightarrow>
           bind_res (map_err Unanswered (response_node env (clock 3) doc rd art_node resolve_id)) (\<lambda>response.
           bind_res (map_err Unanswered (check_answers_bound_request doc response bound_authn_id)) (\<lambda>_.
           bind_res (map_err Answered (assertion_node env (clock 4) doc (au_config au) rd response)) (\<lambda>assertion.
           bind_res (map_err Answered (assertion_claims env (clock 5) doc au rd assertion)) (\<lambda>cs.
           bind_res (map_err Answered (check_matching_in_response_to doc response cs)) (\<lambda>_. Ok cs)))))))"

definition parse_soap_envelope :: "saml_env \<Rightarrow> rstring \<Rightarrow> auth_failure + document" where
  "parse_soap_envelope env soap = map_err (\<lambda>_. AuthFailed) (saml_parse env soap)"

definition resolve_artifact_to_claims :: "saml_env \<Rightarrow> 'p wire_env \<Rightarrow> message_id \<Rightarrow> (nat \<Rightarrow> timestamp) \<Rightarrow> auth_service
    \<Rightarrow> (rstring, rstring) hmap \<Rightarrow> message_id \<Rightarrow> rejection + claims" where
  "resolve_artifact_to_claims env wire fresh clock au params bound_authn_id =
    bind_res (map_err Unanswered (resolve_artifact wire fresh clock au params)) (\<lambda>resolved.
    bind_res (map_err Unanswered (parse_soap_envelope env (rv_soap resolved))) (\<lambda>doc.
    chain_claims env clock doc au (rv_rd resolved) (rv_resolve_id resolved) bound_authn_id))"

definition confirm_answers_bound_request :: "message_id \<Rightarrow> claims \<Rightarrow> bool" where
  "confirm_answers_bound_request bound_authn_id cs = (case cm_in_response_to cs of
      None \<Rightarrow> False | Some i \<Rightarrow> i = bound_authn_id)"

text \<open>What the callback is answered with once its request has been consumed.\<close>

definition acs_finish :: "saml_env \<Rightarrow> 'p wire_env \<Rightarrow> message_id \<Rightarrow> (nat \<Rightarrow> timestamp) \<Rightarrow> auth_service
    \<Rightarrow> (rstring, rstring) hmap \<Rightarrow> message_id \<Rightarrow> rejection + subject_id \<times> name_id" where
  "acs_finish env wire fresh clock au params bound_authn_id =
    bind_res (resolve_artifact_to_claims env wire fresh clock au params bound_authn_id) (\<lambda>cs.
      if \<not> confirm_answers_bound_request bound_authn_id cs then Err (Answered AuthFailed)
      else (case cm_acting_subject_id cs of
          None \<Rightarrow> Err (Answered AuthFailed)
        | Some subject \<Rightarrow> Ok (subject, cm_name_id cs)))"

definition acs_fail :: "('w, 'r) auth_hooks \<Rightarrow> rejection \<Rightarrow> jar \<Rightarrow> 'w \<Rightarrow> 'w \<times> ('r, 'p) reply" where
  "acs_fail app rej jar w = (case (case rej of Unanswered f \<Rightarrow> (f, False) | Answered f \<Rightarrow> (f, True)) of
      (f, end_session) \<Rightarrow> apsnd Hardened (ah_on_authentication_failed app f jar end_session w))"

definition handle_acs :: "saml_env \<Rightarrow> 'p wire_env \<Rightarrow> ('w, 'r) auth_hooks \<Rightarrow> message_id \<Rightarrow> (nat \<Rightarrow> timestamp) \<Rightarrow> auth_service
    \<Rightarrow> ('w \<Rightarrow> 'w) \<Rightarrow> jar \<Rightarrow> headers \<Rightarrow> (rstring, rstring) hmap \<Rightarrow> 'w \<Rightarrow> 'w \<times> ('r, 'p) reply" where
  "handle_acs env wire app fresh clock au busy jar hs params w =
    (case take_bound_authn_id env jar (dv_acs_url (ac_dv (au_config au))) hs of
      (None, jar) \<Rightarrow> acs_fail app (Unanswered AuthFailed) jar w
    | (Some bound_authn_id, jar) \<Rightarrow>
        (case ah_consume_if_pending app bound_authn_id w of
          (w, False) \<Rightarrow> acs_fail app (Unanswered AuthFailed) jar w
        | (w, True) \<Rightarrow> (case acs_finish env wire fresh clock au params bound_authn_id of
            Err rej \<Rightarrow> acs_fail app rej jar (busy w)
          | Ok (subject, name) \<Rightarrow> apsnd AppReply (ah_on_authenticated app subject name jar hs (busy w)))))"

subsection \<open>Logout\<close>

definition build_slo_form :: "'p wire_env \<Rightarrow> message_id \<Rightarrow> timestamp \<Rightarrow> name_id \<Rightarrow> auth_service \<Rightarrow> endpoint_url \<Rightarrow> (message_id \<times> 'p) saml_result" where
  "build_slo_form wire fresh now name au slo_url =
    bind_res (primary_signing (au_dv_keys au)) (\<lambda>signing_key.
    bind_res (create_logout_request wire fresh now name (dv_entity_id (ac_dv (au_config au))) slo_url signing_key) (\<lambda>(i, xml).
    bind_res (we_post_form wire slo_url xml (lit ''SAMLRequest'')) (\<lambda>form. Ok (i, form))))"

definition handle_logout :: "'p wire_env \<Rightarrow> ('w, 'r) auth_hooks \<Rightarrow> message_id \<Rightarrow> (nat \<Rightarrow> timestamp) \<Rightarrow> auth_service \<Rightarrow> jar \<Rightarrow> rstring
    \<Rightarrow> 'w \<Rightarrow> 'w \<times> ('r, 'p) reply" where
  "handle_logout wire app fresh clock au jar post_logout_redirect w = (case ah_logout_session app jar w of
      (w, Inl response) \<Rightarrow> (w, AppReply response)
    | (w, Inr (cleared_jar, ended)) \<Rightarrow> (case ended of
        WithSamlSubject name \<Rightarrow> (case rd_metadata (clock 0) (au_rd_metadata au) of
            None \<Rightarrow> (w, RedirectReply cleared_jar post_logout_redirect)
          | Some rd \<Rightarrow> (case build_slo_form wire fresh (clock 1) name au (im_slo_url rd) of
              Ok (request_id, form) \<Rightarrow> (ah_register_pending app request_id w, PostForm cleared_jar None form)
            | Err _ \<Rightarrow> (w, RedirectReply cleared_jar post_logout_redirect)))
      | _ \<Rightarrow> (w, RedirectReply cleared_jar post_logout_redirect)))"

text \<open>\<open>String::from_utf8_lossy\<close> of the decoded form field is the argument \<open>decoded\<close>.\<close>

definition decode_saml_response :: "(rstring \<Rightarrow> rstring option) \<Rightarrow> (rstring, rstring) hmap \<Rightarrow> rstring option" where
  "decode_saml_response decoded params = Option.bind (hm_get params (lit ''SAMLResponse'')) decoded"

definition verified_logout_fields :: "saml_env \<Rightarrow> (nat \<Rightarrow> timestamp) \<Rightarrow> auth_service \<Rightarrow> rstring \<Rightarrow> logout_response_fields option" where
  "verified_logout_fields env clock au saml_response = (case rd_metadata (clock 0) (au_rd_metadata au) of
      None \<Rightarrow> None
    | Some rd \<Rightarrow>
        if verify_xml_signature env saml_response (im_signing_keys rd)
            \<lparr>er_namespace = NS_SAMLP, er_local_name = lit ''LogoutResponse'', er_id = None\<rparr> \<noteq> [] then None
        else res_ok (validate_logout_response env (clock 1) saml_response (im_entity_id rd) (dv_slo_url (ac_dv (au_config au)))))"

text \<open>The state after the response, and whether it was confirmed with success, confirmed
  otherwise, or ignored.\<close>

definition process_logout_response :: "saml_env \<Rightarrow> ('w, 'r) auth_hooks \<Rightarrow> (nat \<Rightarrow> timestamp) \<Rightarrow> auth_service
    \<Rightarrow> (rstring \<Rightarrow> rstring option) \<Rightarrow> (rstring, rstring) hmap \<Rightarrow> 'w \<Rightarrow> 'w \<times> bool option" where
  "process_logout_response env app clock au decoded params w = (case decode_saml_response decoded params of
      None \<Rightarrow> (w, None)
    | Some saml_response \<Rightarrow> (case verified_logout_fields env clock au saml_response of
        None \<Rightarrow> (w, None)
      | Some f \<Rightarrow> (case ah_consume_if_pending app (lf_in_response_to f) w of
          (w, False) \<Rightarrow> (w, None)
        | (w, True) \<Rightarrow> (w, Some (lf_status_is_success f)))))"

definition handle_sls :: "saml_env \<Rightarrow> ('w, 'r) auth_hooks \<Rightarrow> (nat \<Rightarrow> timestamp) \<Rightarrow> auth_service
    \<Rightarrow> (rstring \<Rightarrow> rstring option) \<Rightarrow> (rstring, rstring) hmap \<Rightarrow> 'w \<Rightarrow> 'w \<times> rstring" where
  "handle_sls env app clock au decoded params w =
    (fst (process_logout_response env app clock au decoded params w), ac_post_logout_redirect (au_config au))"

end
