(* ===== verification/Saml_Facts.thy ===== *)
theory Saml_Facts
  imports Saml_Flow
begin

text \<open>
  What the validators promise: the conditions that hold of a message nothing was recorded
  about, up to the chain from the signed ArtifactResponse to the identity handed on.
\<close>

named_theorems saml_checks "what a check that records nothing shows"

subsection \<open>Times\<close>

text \<open>\<open>checked_add_signed\<close> is the sum, when there is one.\<close>

definition checked_add_ok :: "saml_env \<Rightarrow> bool" where
  "checked_add_ok env = (\<forall>t d u. sm_checked_add env t d = Some u \<longrightarrow> u = t + d)"

definition fresh_at :: "saml_env \<Rightarrow> timestamp \<Rightarrow> rstring option \<Rightarrow> bool" where
  "fresh_at env now v = (\<exists>s t. v = Some s \<and> sm_instant env s = Some t
     \<and> t - duration_seconds 30 \<le> now \<and> now \<le> t + duration_seconds 330)"

definition begun_at :: "saml_env \<Rightarrow> timestamp \<Rightarrow> rstring option \<Rightarrow> bool" where
  "begun_at env now v = (\<exists>s t. v = Some s \<and> sm_instant env s = Some t \<and> t - duration_seconds 30 \<le> now)"

definition not_over_at :: "saml_env \<Rightarrow> timestamp \<Rightarrow> rstring option \<Rightarrow> bool" where
  "not_over_at env now v = (\<exists>s t. v = Some s \<and> sm_instant env s = Some t \<and> now \<le> t + duration_seconds 30)"

lemmas skew_defs = skew_def CLOCK_SKEW_SECONDS_def MESSAGE_FRESHNESS_SECONDS_def duration_seconds_def

lemma shifted_Ok: "checked_add_ok env \<Longrightarrow> shifted env t d l s = Ok u \<Longrightarrow> u = t + d"
  by (auto simp: shifted_def checked_add_ok_def split: option.splits)

lemma shifted_Err: "shifted env t d l s = Err es \<Longrightarrow> es \<noteq> []"
  by (auto simp: shifted_def split: option.splits)

lemma check_freshness_Nil [saml_checks]:
  assumes "checked_add_ok env" "check_freshness env now v l = []"
  shows "fresh_at env now v"
proof -
  obtain s t where s: "v = Some s" "sm_instant env s = Some t"
    using assms(2) by (auto simp: check_freshness_def split: option.splits)
  obtain a b where a: "shifted env t (duration_seconds MESSAGE_FRESHNESS_SECONDS + skew) l s = Ok a"
    and b: "shifted env t (- skew) l s = Ok b" and w: "\<not> a < now" "\<not> now < b"
    using assms(2) s shifted_Err by (fastforce simp: check_freshness_def split: sum.splits if_splits)
  from shifted_Ok [OF assms(1) a] shifted_Ok [OF assms(1) b] w s show ?thesis
    by (auto simp: fresh_at_def skew_defs)
qed

lemma parse_required_instant_Ok: "parse_required_instant env v attr l = Ok (t, s) \<longleftrightarrow> v = Some s \<and> sm_instant env s = Some t"
  by (auto simp: parse_required_instant_def split: option.splits)

lemma parse_required_instant_Err: "parse_required_instant env v attr l = Err es \<Longrightarrow> es \<noteq> []"
  by (auto simp: parse_required_instant_def split: option.splits)

lemma check_not_before_Nil [saml_checks]:
  assumes "checked_add_ok env" "check_not_before env now v l = []"
  shows "begun_at env now v"
proof -
  obtain t s b where p: "parse_required_instant env v (lit ''NotBefore'') l = Ok (t, s)"
    and b: "shifted env t (- skew) l s = Ok b" and w: "\<not> now < b"
    using assms(2) parse_required_instant_Err shifted_Err by (fastforce simp: check_not_before_def split: sum.splits if_splits)
  from shifted_Ok [OF assms(1) b] w p show ?thesis by (auto simp: begun_at_def parse_required_instant_Ok skew_defs)
qed

lemma check_not_on_or_after_Nil [saml_checks]:
  assumes "checked_add_ok env" "check_not_on_or_after env now v l = []"
  shows "not_over_at env now v"
proof -
  obtain t s b where p: "parse_required_instant env v (lit ''NotOnOrAfter'') l = Ok (t, s)"
    and b: "shifted env t skew l s = Ok b" and w: "\<not> b < now"
    using assms(2) parse_required_instant_Err shifted_Err by (fastforce simp: check_not_on_or_after_def split: sum.splits if_splits)
  from shifted_Ok [OF assms(1) b] w p show ?thesis by (auto simp: not_over_at_def parse_required_instant_Ok skew_defs)
qed

subsection \<open>Checks every message shares\<close>

definition issuer_is :: "document \<Rightarrow> node_id \<Rightarrow> entity_id \<Rightarrow> bool" where
  "issuer_is doc node e = (\<exists>n t. find_child doc node NS_SAML (lit ''Issuer'') = Some n \<and> direct_text doc n = Some t \<and> trim t = e)"

lemma check_version_Nil [saml_checks]: "check_version env doc node l = [] \<Longrightarrow> get_attribute doc node (lit ''Version'') = Some (lit ''2.0'')"
  by (auto simp: check_version_def split: option.splits if_splits)

lemma check_issuer_Nil [saml_checks]: "check_issuer doc node (Some e) l = [] \<Longrightarrow> issuer_is doc node e"
  by (auto simp: check_issuer_def issuer_is_def split: option.splits if_splits)

lemma check_status_success_Nil: "check_status_success doc node l = (c, []) \<Longrightarrow> c = Some STATUS_SUCCESS \<and> find_status_code doc node = Some STATUS_SUCCESS"
  by (auto simp: check_status_success_def Let_def split: if_splits)

lemma find_child_hd: "find_child doc nid ns l = (case children_by_tag doc nid ns l of [] \<Rightarrow> None | p # _ \<Rightarrow> Some p)"
proof -
  have "map_option fst (find P xs) = (case map fst (filter P xs) of [] \<Rightarrow> None | p # _ \<Rightarrow> Some p)" for P and xs :: "(node_id \<times> xml) list"
    by (induction xs) auto
  then show ?thesis by (simp add: find_child_def children_by_tag_def split: option.splits)
qed

lemma only_child: "find_child doc nid ns l = Some p \<Longrightarrow> \<not> 1 < length (children_by_tag doc nid ns l) \<Longrightarrow> children_by_tag doc nid ns l = [p]"
  by (cases "children_by_tag doc nid ns l") (auto simp: find_child_hd)

subsection \<open>The ArtifactResponse and the Response\<close>

definition artifact_response_ok :: "saml_env \<Rightarrow> timestamp \<Rightarrow> document \<Rightarrow> idp_metadata \<Rightarrow> message_id \<Rightarrow> node_id \<Rightarrow> node_id \<Rightarrow> bool" where
  "artifact_response_ok env now doc rd resolve_id art response =
    (get_attribute doc art (lit ''Version'') = Some (lit ''2.0'')
     \<and> (\<exists>xml. signed_element_source env doc art = Ok xml \<and> signed_by env xml (im_signing_keys rd) (artifact_response_root doc art))
     \<and> issuer_is doc art (im_entity_id rd)
     \<and> attribute_or_empty doc art (lit ''InResponseTo'') = resolve_id
     \<and> find_status_code doc art = Some STATUS_SUCCESS
     \<and> fresh_at env now (get_attribute doc art (lit ''IssueInstant''))
     \<and> children_by_tag doc art NS_SAMLP (lit ''Response'') = [response])"

lemma check_signature_Nil: "check_signature env doc art ks = [] \<Longrightarrow>
    \<exists>xml. signed_element_source env doc art = Ok xml \<and> signed_by env xml ks (artifact_response_root doc art)"
proof -
  assume c: "check_signature env doc art ks = []"
  have "signed_element_source env doc art = Err es \<Longrightarrow> es \<noteq> []" for es
    by (auto simp: signed_element_source_def split: option.splits if_splits)
  with c show ?thesis by (auto simp: check_signature_def intro: verify_xml_signature_sound split: sum.splits)
qed

lemma extract_response_Nil: "extract_response doc art c = (Some response, []) \<Longrightarrow> children_by_tag doc art NS_SAMLP (lit ''Response'') = [response]"
  by (auto simp: extract_response_def Let_def intro!: only_child split: if_splits)

lemma response_node_Ok:
  assumes "checked_add_ok env" "response_node env now doc rd art resolve_id = Ok response"
  shows "artifact_response_ok env now doc rd resolve_id art response"
proof -
  let ?o = "\<lparr>ar_trusted_keys = im_signing_keys rd, ar_expected_in_response_to = Some resolve_id, ar_expected_issuer = Some (im_entity_id rd)\<rparr>"
  have v: "validate_artifact_response_at env now doc art ?o = (Some response, [])"
    using assms(2) by (auto simp: response_node_def ok_or_Ok split: prod.splits if_splits)
  obtain c es where s: "check_status_success doc art (lit ''ArtifactResponse'') = (c, es)" by fastforce
  obtain r rs where r: "extract_response doc art c = (r, rs)" by fastforce
  note u = v [unfolded validate_artifact_response_at_def Let_def s r prod.case append_is_Nil_conv prod.inject]
  have "check_version env doc art (lit ''ArtifactResponse'') = []" "check_signature env doc art (im_signing_keys rd) = []"
    "check_issuer doc art (Some (im_entity_id rd)) (lit ''ArtifactResponse'') = []" "check_in_response_to doc art (Some resolve_id) = []"
    "es = []" "check_freshness env now (get_attribute doc art (lit ''IssueInstant'')) (lit ''ArtifactResponse @IssueInstant'') = []"
    "r = Some response" "rs = []"
    using u by auto
  then show ?thesis
    using s r check_status_success_Nil [of doc art "lit ''ArtifactResponse''" c] extract_response_Nil [of doc art c response]
      check_signature_Nil check_version_Nil check_issuer_Nil check_freshness_Nil [OF assms(1)]
    by (auto simp: artifact_response_ok_def check_in_response_to_def Let_def split: if_splits)
qed

definition response_ok :: "saml_env \<Rightarrow> timestamp \<Rightarrow> document \<Rightarrow> auth_config \<Rightarrow> idp_metadata \<Rightarrow> node_id \<Rightarrow> node_id \<Rightarrow> bool" where
  "response_ok env now doc cfg rd response assertion =
    (get_attribute doc response (lit ''Version'') = Some (lit ''2.0'')
     \<and> fresh_at env now (get_attribute doc response (lit ''IssueInstant''))
     \<and> find_status_code doc response = Some STATUS_SUCCESS
     \<and> find_descendant doc response NS_SAML (lit ''EncryptedAssertion'') = None
     \<and> attribute_or_empty doc response (lit ''Destination'') = dv_acs_url (ac_dv cfg)
     \<and> issuer_is doc response (im_entity_id rd)
     \<and> children_by_tag doc response NS_SAML (lit ''Assertion'') = [assertion])"

lemma extract_assertion_Nil: "extract_assertion doc response c = (Some a, []) \<Longrightarrow> children_by_tag doc response NS_SAML (lit ''Assertion'') = [a]"
  by (auto simp: extract_assertion_def Let_def intro!: only_child split: if_splits)

lemma assertion_node_Ok:
  assumes "checked_add_ok env" "assertion_node env now doc cfg rd response = Ok assertion"
  shows "response_ok env now doc cfg rd response assertion"
proof -
  let ?o = "\<lparr>rp_expected_destination = Some (dv_acs_url (ac_dv cfg)), rp_expected_issuer = Some (im_entity_id rd)\<rparr>"
  have v: "validate_response_at env now doc response ?o = (Some assertion, [])"
    using assms(2) by (auto simp: assertion_node_def ok_or_Ok Let_def split: prod.splits if_splits)
  obtain c es where s: "check_status_success doc response (lit ''Response'') = (c, es)" by fastforce
  obtain r rs where r: "extract_assertion doc response c = (r, rs)" by fastforce
  note u = v [unfolded validate_response_at_def Let_def s r prod.case append_is_Nil_conv prod.inject]
  have "check_version env doc response (lit ''Response'') = []"
    "check_issuer doc response (Some (im_entity_id rd)) (lit ''Response'') = []" "check_destination doc response (Some (dv_acs_url (ac_dv cfg))) = []"
    "es = []" "check_freshness env now (get_attribute doc response (lit ''IssueInstant'')) (lit ''Response @IssueInstant'') = []"
    "find_descendant doc response NS_SAML (lit ''EncryptedAssertion'') = None" "r = Some assertion" "rs = []"
    using u by (auto split: if_splits)
  then show ?thesis
    using s r check_status_success_Nil [of doc response "lit ''Response''" c] extract_assertion_Nil [of doc response c assertion]
      check_version_Nil check_issuer_Nil check_freshness_Nil [OF assms(1)]
    by (auto simp: response_ok_def check_destination_def Let_def split: if_splits)
qed

subsection \<open>The Assertion\<close>

text \<open>A claim: an element of the assertion that is reached without passing an \<open>Advice\<close>.\<close>

definition is_claim :: "document \<Rightarrow> node_id \<Rightarrow> rstring \<Rightarrow> node_id \<Rightarrow> bool" where
  "is_claim doc assertion local p = (is_node doc p NS_SAML local \<and> outside doc assertion p advice)"

lemma find_claim_Some: "find_claim doc a l = Some p \<Longrightarrow> is_claim doc a l p"
  using find_descendant_pruned_Some [of doc a "(NS_SAML, l)" advice p] by (simp add: find_claim_def is_claim_def)

lemma find_attributes_iff: "p \<in> set (find_attributes doc a) \<longleftrightarrow>
    is_node doc p NS_SAML (lit ''Attribute'') \<and> (\<exists>stmt i. is_claim doc a (lit ''AttributeStatement'') stmt \<and> p = stmt @ [i])"
  using descendants_by_tag_pruned_iff [of _ doc a "(NS_SAML, lit ''AttributeStatement'')" advice]
  by (auto simp: find_attributes_def find_claims_def is_claim_def children_by_tag_iff)

definition confirmed_subject :: "saml_env \<Rightarrow> timestamp \<Rightarrow> document \<Rightarrow> node_id \<Rightarrow> endpoint_url \<Rightarrow> bool" where
  "confirmed_subject env now doc a acs = (\<exists>sc scd. is_claim doc a (lit ''SubjectConfirmation'') sc
     \<and> attribute_or_empty doc sc (lit ''Method'') = SUBJECT_CONFIRMATION_BEARER
     \<and> find_child doc sc NS_SAML (lit ''SubjectConfirmationData'') = Some scd
     \<and> not_over_at env now (get_attribute doc scd (lit ''NotOnOrAfter'')) \<and> get_attribute doc scd (lit ''NotBefore'') = None
     \<and> attribute_or_empty doc scd (lit ''Recipient'') = acs)"

definition conditions_hold :: "saml_env \<Rightarrow> timestamp \<Rightarrow> document \<Rightarrow> node_id \<Rightarrow> entity_id \<Rightarrow> bool" where
  "conditions_hold env now doc a dv = (\<exists>cond. children_by_tag doc a NS_SAML (lit ''Conditions'') = [cond]
     \<and> begun_at env now (get_attribute doc cond (lit ''NotBefore'')) \<and> not_over_at env now (get_attribute doc cond (lit ''NotOnOrAfter''))
     \<and> element_children doc cond \<noteq> []
     \<and> (\<forall>c \<in> set (element_children doc cond). is_node doc c NS_SAML (lit ''AudienceRestriction'') \<and> dv \<in> set (audiences_of doc c)))"

definition strong_enough :: "document \<Rightarrow> node_id \<Rightarrow> bool" where
  "strong_enough doc a = (\<exists>p t level. is_claim doc a (lit ''AuthnContextClassRef'') p \<and> direct_text doc p = Some t
     \<and> loa_from_uri (trim t) = Some level \<and> LoaLow \<le> level)"

definition for_service :: "document \<Rightarrow> node_id \<Rightarrow> service_uuid \<Rightarrow> bool" where
  "for_service doc a uuid = (\<exists>at v t. at \<in> set (find_attributes doc a) \<and> get_attribute doc at (lit ''Name'') = Some EID_SERVICE_UUID
     \<and> find_descendant doc at NS_SAML (lit ''AttributeValue'') = Some v \<and> direct_text doc v = Some t \<and> trim t = uuid)"

text \<open>The acting subject: decrypted from an attribute of that name, and of a form that is an
  identity.\<close>

definition acting_subject :: "saml_env \<Rightarrow> document \<Rightarrow> node_id \<Rightarrow> key_pair list \<Rightarrow> entity_id \<Rightarrow> subject_id \<Rightarrow> bool" where
  "acting_subject env doc a ks dv subject = (\<exists>at enc d. at \<in> set (find_attributes doc a)
     \<and> get_attribute doc at (lit ''Name'') = Some EID_ACTING_SUBJECT_ID
     \<and> find_descendant doc at NS_SAML (lit ''EncryptedID'') = Some enc \<and> decrypted_for env doc enc ks dv d
     \<and> subject = subject_of d \<and> trim (dn_value d) \<noteq> [] \<and> dn_format d = NAMEID_PERSISTENT
     \<and> trim (dn_name_qualifier d) \<in> set EID_ID_TYPES \<and> dn_sp_name_qualifier d = None \<and> dn_sp_provided_id d = None)"

definition subject_name :: "document \<Rightarrow> node_id \<Rightarrow> name_id \<Rightarrow> bool" where
  "subject_name doc a name = (\<exists>s n t. is_claim doc a (lit ''Subject'') s \<and> find_child doc s NS_SAML (lit ''NameID'') = Some n
     \<and> direct_text doc n = Some t \<and> name_id_parse t = Ok name
     \<and> get_attribute doc n (lit ''Format'') \<in> {None, Some NAMEID_TRANSIENT})"

definition assertion_ok :: "saml_env \<Rightarrow> timestamp \<Rightarrow> document \<Rightarrow> auth_service \<Rightarrow> idp_metadata \<Rightarrow> node_id \<Rightarrow> claims \<Rightarrow> bool" where
  "assertion_ok env now doc au rd a cs = (let dv = ac_dv (au_config au) in
     get_attribute doc a (lit ''Version'') = Some (lit ''2.0'') \<and> issuer_is doc a (im_entity_id rd)
     \<and> confirmed_subject env now doc a (dv_acs_url dv) \<and> conditions_hold env now doc a (dv_entity_id dv)
     \<and> fresh_at env now (get_attribute doc a (lit ''IssueInstant''))
     \<and> (\<exists>st. is_claim doc a (lit ''AuthnStatement'') st \<and> fresh_at env now (get_attribute doc st (lit ''AuthnInstant'')))
     \<and> strong_enough doc a \<and> for_service doc a (dv_service_uuid dv) \<and> subject_name doc a (cm_name_id cs)
     \<and> (\<forall>subject. cm_acting_subject_id cs = Some subject \<longrightarrow>
          acting_subject env doc a (ks_encryption (au_dv_keys au)) (dv_entity_id dv) subject))"

lemma check_subject_confirmation_Nil:
  assumes "checked_add_ok env" "check_subject_confirmation env now doc a o' = []" "as_expected_recipient o' = Some acs"
  shows "confirmed_subject env now doc a acs"
proof -
  obtain sc where sc: "find_claim doc a (lit ''SubjectConfirmation'') = Some sc"
    and m: "attribute_or_empty doc sc (lit ''Method'') = SUBJECT_CONFIRMATION_BEARER"
    using assms(2) by (auto simp: check_subject_confirmation_def Let_def split: option.splits if_splits)
  obtain scd where scd: "find_child doc sc NS_SAML (lit ''SubjectConfirmationData'') = Some scd"
    and d: "check_subject_confirmation_data env now doc scd (Some acs) = []"
    using assms(2,3) sc by (auto simp: check_subject_confirmation_def Let_def split: option.splits if_splits)
  have "check_not_on_or_after env now (get_attribute doc scd (lit ''NotOnOrAfter'')) (lit ''SubjectConfirmation'') = []"
    "get_attribute doc scd (lit ''NotBefore'') = None" "attribute_or_empty doc scd (lit ''Recipient'') = acs"
    using d by (auto simp: check_subject_confirmation_data_def Let_def split: option.splits if_splits)
  with sc m scd find_claim_Some check_not_on_or_after_Nil [OF assms(1)] show ?thesis unfolding confirmed_subject_def by blast
qed

lemma is_audience_restriction_iff: "is_audience_restriction doc c \<longleftrightarrow> is_node doc c NS_SAML (lit ''AudienceRestriction'')"
  by (auto simp: is_audience_restriction_def is_node_qname split: option.splits)

lemma check_conditions_Nil:
  assumes "checked_add_ok env" "check_conditions env now doc a dv = []"
  shows "conditions_hold env now doc a dv"
proof -
  obtain cond where c: "children_by_tag doc a NS_SAML (lit ''Conditions'') = [cond]"
    using assms(2) by (auto simp: check_conditions_def split: list.splits)
  then have nb: "check_not_before env now (get_attribute doc cond (lit ''NotBefore'')) (lit ''Assertion Conditions'') = []"
    and na: "check_not_on_or_after env now (get_attribute doc cond (lit ''NotOnOrAfter'')) (lit ''Assertion'') = []"
    and el: "check_condition_elements env doc cond dv = []"
    using assms(2) by (auto simp: check_conditions_def)
  have some: "filter (is_audience_restriction doc) (element_children doc cond) \<noteq> []"
    using el by (auto simp: check_condition_elements_def)
  have each: "(if is_audience_restriction doc x then check_audience_restriction doc x dv
        else (case node_qname doc x of
            Some q \<Rightarrow> [lit ''Assertion carries an unsupported Condition <'' @ qn_local_name q @ lit ''> (namespace ''
              @ debug_option (sm_escaped env) (qn_namespace q) @ lit '')'']
          | None \<Rightarrow> [lit ''Conditions carries a non-element child''])) = []" if "x \<in> set (element_children doc cond)" for x
    using el that unfolding check_condition_elements_def by simp
  have "is_node doc x NS_SAML (lit ''AudienceRestriction'') \<and> dv \<in> set (audiences_of doc x)"
    if "x \<in> set (element_children doc cond)" for x
    using each [OF that] by (auto simp: is_audience_restriction_iff check_audience_restriction_def Let_def split: if_splits option.splits)
  with c check_not_before_Nil [OF assms(1) nb] check_not_on_or_after_Nil [OF assms(1) na] some
  show ?thesis unfolding conditions_hold_def by (metis filter.simps(1))
qed

lemma checked_subject_name_id_Nil: "checked_subject_name_id doc a = (Some name, []) \<Longrightarrow> subject_name doc a name"
  by (auto simp: checked_subject_name_id_def check_subject_name_id_format_def subject_name_def Let_def bind_eq_Some_conv
      dest!: find_claim_Some split: option.splits sum.splits if_splits)

lemma check_authn_context_Nil: "check_authn_context doc a (Some LoaLow) = (r, []) \<Longrightarrow> strong_enough doc a"
  by (auto simp: check_authn_context_def claim_text_def strong_enough_def Let_def bind_eq_Some_conv
      dest!: find_claim_Some split: option.splits if_splits)

lemma find_Some_set: "find P xs = Some x \<Longrightarrow> x \<in> set xs \<and> P x"
  by (auto simp: find_Some_iff)

lemma check_service_uuid_Nil: "check_service_uuid doc a (Some uuid) = (r, []) \<Longrightarrow> for_service doc a uuid"
proof -
  assume "check_service_uuid doc a (Some uuid) = (r, [])"
  then have "service_uuid_of doc a = Some uuid" by (simp add: check_service_uuid_def Let_def split: option.splits if_splits)
  then obtain at v t where f: "find (\<lambda>x. get_attribute doc x (lit ''Name'') = Some EID_SERVICE_UUID) (find_attributes doc a) = Some at"
    and v: "find_descendant doc at NS_SAML (lit ''AttributeValue'') = Some v" "direct_text doc v = Some t" "trim t = uuid"
    unfolding service_uuid_of_def map_option_eq_Some bind_eq_Some_conv by (elim exE conjE) (rule that)
  from find_Some_set [OF f] v show ?thesis unfolding for_service_def by blast
qed

lemma check_decrypted_name_id_Nil: "check_decrypted_name_id env l d = [] \<Longrightarrow> trim (dn_value d) \<noteq> [] \<and> dn_format d = NAMEID_PERSISTENT
     \<and> trim (dn_name_qualifier d) \<in> set EID_ID_TYPES \<and> dn_sp_name_qualifier d = None \<and> dn_sp_provided_id d = None"
  by (auto simp: check_decrypted_name_id_def Let_def split: if_splits)

lemma EID_ACTING_SUBJECT_ID_not_Nil: "EID_ACTING_SUBJECT_ID \<noteq> []"
  by (simp add: EID_ACTING_SUBJECT_ID_def lit_def)

lemma encrypted_subject_acting: "encrypted_subject env doc o' at = Some (True, name, d) \<Longrightarrow>
    name = EID_ACTING_SUBJECT_ID \<and> get_attribute doc at (lit ''Name'') = Some EID_ACTING_SUBJECT_ID
    \<and> (\<exists>enc. find_descendant doc at NS_SAML (lit ''EncryptedID'') = Some enc
        \<and> decrypted_for env doc enc (as_private_keys o') (as_dv_entity_id o') d)"
  using EID_ACTING_SUBJECT_ID_not_Nil
  by (auto simp: encrypted_subject_def attribute_or_empty_def Let_def dest: decrypt_encrypted_id_Some split: option.splits if_splits)

lemma subject_ids_loop_acting:
  assumes "subject_ids_loop env doc o' acc as = ((Some subject, legal), [])" "set as \<subseteq> set (find_attributes doc a)"
    "\<forall>s. fst acc = Some s \<longrightarrow> acting_subject env doc a (as_private_keys o') (as_dv_entity_id o') s"
  shows "acting_subject env doc a (as_private_keys o') (as_dv_entity_id o') subject"
  using assms
proof (induction as arbitrary: acc)
  case Nil
  then show ?case by (cases acc) auto
next
  case (Cons at as)
  obtain acting legal' where acc: "acc = (acting, legal')" by fastforce
  show ?case
  proof (cases "encrypted_subject env doc o' at")
    case None
    with Cons acc show ?thesis by auto
  next
    case (Some x)
    obtain b name d where x: "x = (b, name, d)" by (cases x)
    let ?acc = "if b then (Some (subject_of d), legal') else (acting, Some (subject_of d))"
    have l: "subject_ids_loop env doc o' ?acc as = ((Some subject, legal), [])" and c: "check_decrypted_name_id env name d = []"
      using Cons.prems(1) Some x acc by (auto split: prod.splits)
    have "acting_subject env doc a (as_private_keys o') (as_dv_entity_id o') s" if s: "fst ?acc = Some s" for s
    proof (cases b)
      case True
      with s encrypted_subject_acting [of env doc o' at name d] Some x check_decrypted_name_id_Nil [OF c] Cons.prems(2)
      show ?thesis unfolding acting_subject_def by auto
    next
      case False
      with s Cons.prems(3) acc show ?thesis by simp
    qed
    with Cons.IH [OF l] Cons.prems(2) show ?thesis by auto
  qed
qed

lemma assertion_claims_Ok:
  assumes "checked_add_ok env" "assertion_claims env now doc au rd a = Ok cs"
  shows "assertion_ok env now doc au rd a cs" "cm_in_response_to cs = claimed_in_response_to env doc a"
proof -
  let ?dv = "ac_dv (au_config au)"
  let ?o = "\<lparr>as_dv_entity_id = dv_entity_id ?dv, as_expected_recipient = Some (dv_acs_url ?dv), as_expected_issuer = Some (im_entity_id rd),
       as_private_keys = ks_encryption (au_dv_keys au), as_minimum_loa = Some MINIMUM_LOA, as_expected_service_uuid = Some (dv_service_uuid ?dv)\<rparr>"
  have v: "fst (validate_assertion_at env now doc a ?o) = Some cs"
    using assms(2) by (simp add: assertion_claims_def ok_or_Ok Let_def)
  obtain cl es where e: "extract_claims env doc a ?o = (cl, es)" by fastforce
  note u = v [unfolded validate_assertion_at_def Let_def e prod.case fst_conv if_split_eq1 append_is_Nil_conv]
  have clean: "check_version env doc a (lit ''Assertion'') = []" "check_issuer doc a (Some (im_entity_id rd)) (lit ''Assertion'') = []"
    "check_subject_confirmation env now doc a ?o = []" "check_conditions env now doc a (dv_entity_id ?dv) = []"
    "check_assertion_instants env now doc a = []" "es = []" "cl = Some cs"
    using u by (auto split: if_splits)
  obtain nm ne where n: "checked_subject_name_id doc a = (nm, ne)" by fastforce
  obtain cr ca ce where c: "check_authn_context doc a (Some MINIMUM_LOA) = ((cr, ca), ce)" by (metis surj_pair)
  obtain ac lg se where s: "extract_encrypted_subject_ids env doc a ?o = ((ac, lg), se)" by (metis surj_pair)
  obtain sv ve where w: "check_service_uuid doc a (Some (dv_service_uuid ?dv)) = (sv, ve)" by fastforce
  have parts: "ne = []" "ce = []" "se = []" "ve = []" "nm = Some (cm_name_id cs)" "cm_acting_subject_id cs = ac"
    "cm_in_response_to cs = claimed_in_response_to env doc a"
    using e clean by (auto simp: extract_claims_def Let_def n c s w)
  show "cm_in_response_to cs = claimed_in_response_to env doc a" by (rule parts)
  have "acting_subject env doc a (ks_encryption (au_dv_keys au)) (dv_entity_id ?dv) subject" if "cm_acting_subject_id cs = Some subject" for subject
    using subject_ids_loop_acting [of env doc ?o "(None, None)" "find_attributes doc a" subject lg a] s that parts
    by (simp add: extract_encrypted_subject_ids_def)
  moreover have "subject_name doc a (cm_name_id cs)" using n parts checked_subject_name_id_Nil by simp
  moreover have "strong_enough doc a" using c parts check_authn_context_Nil by (simp add: MINIMUM_LOA_def)
  moreover have "for_service doc a (dv_service_uuid ?dv)" using w parts check_service_uuid_Nil by simp
  moreover have "fresh_at env now (get_attribute doc a (lit ''IssueInstant''))"
    "\<exists>st. is_claim doc a (lit ''AuthnStatement'') st \<and> fresh_at env now (get_attribute doc st (lit ''AuthnInstant''))"
    using clean(5) check_freshness_Nil [OF assms(1)] find_claim_Some
    by (auto simp: check_assertion_instants_def split: option.splits) blast
  ultimately show "assertion_ok env now doc au rd a cs"
    using clean check_version_Nil check_issuer_Nil check_subject_confirmation_Nil [OF assms(1) clean(3)] check_conditions_Nil [OF assms(1) clean(4)]
    by (simp add: assertion_ok_def Let_def)
qed

subsection \<open>The chain\<close>

text \<open>The RD answered the request \<open>i\<close>: an ArtifactResponse to our own request, signed by the
  descriptor's keys while it is trusted, whose one Response names \<open>i\<close>.\<close>

definition rd_answered :: "saml_env \<Rightarrow> (nat \<Rightarrow> timestamp) \<Rightarrow> document \<Rightarrow> idp_metadata \<Rightarrow> message_id \<Rightarrow> message_id \<Rightarrow> node_id \<Rightarrow> bool" where
  "rd_answered env clock doc rd resolve_id i response = (\<not> is_expired_at rd (clock 2) \<and> (\<exists>art. unwrap_soap doc [] = Some art
     \<and> artifact_response_ok env (clock 3) doc rd resolve_id art response)
     \<and> get_attribute doc response (lit ''InResponseTo'') = Some i)"

lemma map_err_Ok [simp]: "map_err f r = Ok x \<longleftrightarrow> r = Ok x"
  by (cases r) (auto simp: map_err_def)

lemma map_err_Err: "map_err f r = Err e \<longleftrightarrow> (\<exists>x. r = Err x \<and> e = f x)"
  by (cases r) (auto simp: map_err_def)

lemma bind_res_Err: "bind_res r f = Err e \<longleftrightarrow> r = Err e \<or> (\<exists>x. r = Ok x \<and> f x = Err e)"
  by (cases r) (auto simp: bind_res_def)

lemma chain_claims_Ok:
  assumes "checked_add_ok env" "chain_claims env clock doc au rd resolve_id i = Ok cs"
  shows "\<exists>response assertion. rd_answered env clock doc rd resolve_id i response
    \<and> response_ok env (clock 4) doc (au_config au) rd response assertion
    \<and> assertion_ok env (clock 5) doc au rd assertion cs \<and> cm_in_response_to cs = claimed_in_response_to env doc assertion
    \<and> cm_in_response_to cs = Some i"
proof -
  obtain art response assertion where a: "unwrap_soap doc [] = Some art" "\<not> is_expired_at rd (clock 2)"
    and r: "response_node env (clock 3) doc rd art resolve_id = Ok response"
    and b: "check_answers_bound_request doc response i = Ok ()"
    and n: "assertion_node env (clock 4) doc (au_config au) rd response = Ok assertion"
    and c: "assertion_claims env (clock 5) doc au rd assertion = Ok cs" and m: "check_matching_in_response_to doc response cs = Ok ()"
    using assms(2) by (auto simp: chain_claims_def document_element_def bind_res_Ok split: if_splits option.splits)
  have i: "get_attribute doc response (lit ''InResponseTo'') = Some i" using b by (simp add: check_answers_bound_request_def split: if_splits)
  with m have "cm_in_response_to cs = Some i" by (simp add: check_matching_in_response_to_def split: if_splits)
  with i a response_node_Ok [OF assms(1) r] assertion_node_Ok [OF assms(1) n] assertion_claims_Ok [OF assms(1) c] show ?thesis
    unfolding rd_answered_def by blast
qed

lemma chain_claims_Answered:
  assumes "checked_add_ok env" "chain_claims env clock doc au rd resolve_id i = Err (Answered f)"
  shows "\<exists>response. rd_answered env clock doc rd resolve_id i response"
proof -
  obtain art where a: "unwrap_soap doc [] = Some art" "\<not> is_expired_at rd (clock 2)"
    using assms(2) by (auto simp: chain_claims_def document_element_def split: if_splits option.splits)
  have "map_err Unanswered x \<noteq> Err (Answered f)" for x :: "auth_failure + 'z" by (cases x) (auto simp: map_err_def)
  then obtain response where r: "response_node env (clock 3) doc rd art resolve_id = Ok response"
    and b: "check_answers_bound_request doc response i = Ok ()"
    using assms(2) a by (auto simp: chain_claims_def document_element_def bind_res_Err map_err_Err)
  then have "get_attribute doc response (lit ''InResponseTo'') = Some i" by (simp add: check_answers_bound_request_def split: if_splits)
  with a response_node_Ok [OF assms(1) r] show ?thesis unfolding rd_answered_def by blast
qed

text \<open>The identity handed on: of a validated assertion, in the one Response to the request
  \<open>i\<close> of this browser, under the signature of the identity provider.\<close>

definition login_ok :: "saml_env \<Rightarrow> (nat \<Rightarrow> timestamp) \<Rightarrow> auth_service \<Rightarrow> message_id \<Rightarrow> subject_id \<Rightarrow> name_id \<Rightarrow> bool" where
  "login_ok env clock au i subject name = (\<exists>rd doc resolve_id response assertion cs.
     rd_metadata (clock 0) (au_rd_metadata au) = Some rd
     \<and> rd_answered env clock doc rd resolve_id i response
     \<and> response_ok env (clock 4) doc (au_config au) rd response assertion
     \<and> assertion_ok env (clock 5) doc au rd assertion cs
     \<and> claimed_in_response_to env doc assertion = Some i
     \<and> cm_acting_subject_id cs = Some subject \<and> cm_name_id cs = name)"

lemma resolve_artifact_rd: "resolve_artifact wire fresh clock au params = Ok rv \<Longrightarrow> rd_metadata (clock 0) (au_rd_metadata au) = Some (rv_rd rv)"
  by (auto simp: resolve_artifact_def bind_res_Ok split: option.splits)

lemma acs_finish_Ok:
  assumes "checked_add_ok env" "acs_finish env wire fresh clock au params i = Ok (subject, name)"
  shows "login_ok env clock au i subject name"
proof -
  obtain rv doc cs where r: "resolve_artifact wire fresh clock au params = Ok rv"
    and c: "chain_claims env clock doc au (rv_rd rv) (rv_resolve_id rv) i = Ok cs"
    and s: "cm_acting_subject_id cs = Some subject" "cm_name_id cs = name"
    using assms(2) by (auto simp: acs_finish_def resolve_artifact_to_claims_def bind_res_Ok split: option.splits if_splits)
  from resolve_artifact_rd [OF r] chain_claims_Ok [OF assms(1) c] s show ?thesis unfolding login_ok_def by metis
qed

lemma acs_finish_Answered:
  assumes "checked_add_ok env" "acs_finish env wire fresh clock au params i = Err (Answered f)"
  shows "\<exists>rd doc resolve_id response. rd_metadata (clock 0) (au_rd_metadata au) = Some rd
    \<and> rd_answered env clock doc rd resolve_id i response"
proof -
  have no: "map_err Unanswered x \<noteq> Err (Answered f)" for x :: "auth_failure + 'z" by (cases x) (auto simp: map_err_def)
  have no': "map_err Unanswered x \<noteq> Err (Answered f)" for x :: "auth_failure + document" by (cases x) (auto simp: map_err_def)
  obtain rv doc where r: "resolve_artifact wire fresh clock au params = Ok rv"
    and c: "(\<exists>cs. chain_claims env clock doc au (rv_rd rv) (rv_resolve_id rv) i = Ok cs)
      \<or> chain_claims env clock doc au (rv_rd rv) (rv_resolve_id rv) i = Err (Answered f)"
    using assms(2) by (auto simp: acs_finish_def resolve_artifact_to_claims_def bind_res_Err bind_res_Ok map_err_Err)
  then have "\<exists>response. rd_answered env clock doc (rv_rd rv) (rv_resolve_id rv) i response"
    using chain_claims_Ok [OF assms(1)] chain_claims_Answered [OF assms(1)] by blast
  with resolve_artifact_rd [OF r] show ?thesis by blast
qed

subsection \<open>The answer to a logout\<close>

text \<open>A LogoutResponse counts only when the identity provider signed it, it is addressed to us and
  fresh, and it answers an outstanding request, which it consumes.\<close>

lemma validate_logout_response_Ok:
  assumes "checked_add_ok env" "validate_logout_response env now xml rd_entity sls_url = Ok f"
  shows "\<exists>doc. saml_parse env xml = Ok doc \<and> is_node doc [] NS_SAMLP (lit ''LogoutResponse'')
    \<and> fresh_at env now (get_attribute doc [] (lit ''IssueInstant'')) \<and> issuer_is doc [] rd_entity
    \<and> get_attribute doc [] (lit ''Destination'') = Some sls_url \<and> get_attribute doc [] (lit ''InResponseTo'') = Some (lf_in_response_to f)"
proof -
  obtain doc u i where d: "saml_parse env xml = Ok doc" "node_qname doc [] = Some \<lparr>qn_namespace = Some NS_SAMLP, qn_local_name = lit ''LogoutResponse''\<rparr>"
    and c: "check_logout_response env now doc [] rd_entity sls_url = Ok u" and i: "get_attribute doc [] (lit ''InResponseTo'') = Some i"
    and m: "message_id_parse env i = Ok (lf_in_response_to f)"
    using assms(2) by (auto simp: validate_logout_response_def document_element_def Let_def bind_res_Ok split: sum.splits option.splits if_splits)
  have "check_freshness env now (get_attribute doc [] (lit ''IssueInstant'')) (lit ''LogoutResponse @IssueInstant'') = []"
    "check_issuer doc [] (Some rd_entity) (lit ''LogoutResponse'') = []" "get_attribute doc [] (lit ''Destination'') = Some sls_url"
    using c by (auto simp: check_logout_response_def Let_def split: if_splits option.splits)
  with d i m check_freshness_Nil [OF assms(1)] check_issuer_Nil show ?thesis by (auto simp: is_node_qname message_id_parse_Ok)
qed

lemma process_logout_response_Some:
  assumes "checked_add_ok env" "process_logout_response env app clock au decoded params w = (w', Some success)"
  shows "\<exists>rd xml f. rd_metadata (clock 0) (au_rd_metadata au) = Some rd
    \<and> signed_by env xml (im_signing_keys rd) \<lparr>er_namespace = NS_SAMLP, er_local_name = lit ''LogoutResponse'', er_id = None\<rparr>
    \<and> validate_logout_response env (clock 1) xml (im_entity_id rd) (dv_slo_url (ac_dv (au_config au))) = Ok f
    \<and> ah_consume_if_pending app (lf_in_response_to f) w = (w', True) \<and> success = lf_status_is_success f"
proof -
  obtain xml f where v: "verified_logout_fields env clock au xml = Some f"
    and c: "ah_consume_if_pending app (lf_in_response_to f) w = (w', True)" "success = lf_status_is_success f"
    using assms(2) by (auto simp: process_logout_response_def split: option.splits prod.splits bool.splits)
  then obtain rd where "rd_metadata (clock 0) (au_rd_metadata au) = Some rd"
    "verify_xml_signature env xml (im_signing_keys rd) \<lparr>er_namespace = NS_SAMLP, er_local_name = lit ''LogoutResponse'', er_id = None\<rparr> = []"
    "validate_logout_response env (clock 1) xml (im_entity_id rd) (dv_slo_url (ac_dv (au_config au))) = Ok f"
    by (auto simp: verified_logout_fields_def res_ok_def split: option.splits if_splits sum.splits)
  with c verify_xml_signature_sound show ?thesis by blast
qed

end
