(* ===== verification/App_Auth.thy ===== *)
theory App_Auth
  imports Saml_Facts
begin

text \<open>
  The application's side of the login (\<open>app/auth.rs\<close>, \<open>auth/derive_id.rs\<close>,
  \<open>auth/session_extractor.rs\<close>): the hooks the SAML service calls, over the session store and
  the store of outstanding requests. The streams of events in which logins and logouts are
  recorded are a state \<open>'s\<close> with the operations of the record \<open>stream_ops\<close>.

  The locale \<open>auth_state\<close> is what the handlers rely on of these hooks, and what the callback
  then guarantees; it is interpreted on the application.
\<close>

subsection \<open>The session cookie\<close>

definition SESSION_COOKIE_NAME :: "bool \<Rightarrow> rstring" where
  "SESSION_COOKIE_NAME dev_features = (if dev_features then lit ''EKS_SESSION_ID'' else lit ''__Host-EKS_SESSION_ID'')"

datatype login_origin = SameSiteLogin | CrossSiteLogin
datatype same_site = Strict | Lax

fun origin_same_site :: "login_origin \<Rightarrow> same_site" where
  "origin_same_site SameSiteLogin = Strict"
| "origin_same_site CrossSiteLogin = Lax"

record session_cookie =
  ck_name :: rstring
  ck_value :: rstring
  ck_http_only :: bool
  ck_secure :: bool
  ck_same_site :: same_site
  ck_path :: rstring

definition build_cookie :: "bool \<Rightarrow> rstring \<Rightarrow> rstring \<Rightarrow> same_site \<Rightarrow> session_cookie" where
  "build_cookie dev_features name v same = \<lparr>ck_name = name, ck_value = v, ck_http_only = True,
     ck_secure = (\<not> dev_features), ck_same_site = same, ck_path = lit ''/''\<rparr>"

text \<open>It panics for a session without its raw token.\<close>

definition build_session_cookie :: "bool \<Rightarrow> session \<Rightarrow> login_origin \<Rightarrow> session_cookie option" where
  "build_session_cookie dev_features s origin = map_option (\<lambda>token.
     build_cookie dev_features (SESSION_COOKIE_NAME dev_features) token (origin_same_site origin)) (ss_raw_token s)"

definition build_strict_session_cookie :: "bool \<Rightarrow> rstring \<Rightarrow> session_cookie" where
  "build_strict_session_cookie dev_features token = build_cookie dev_features (SESSION_COOKIE_NAME dev_features) token Strict"

definition build_removal_cookie :: "bool \<Rightarrow> session_cookie" where
  "build_removal_cookie dev_features = build_cookie dev_features (SESSION_COOKIE_NAME dev_features) [] Strict"

subsection \<open>State and replies\<close>

record ('j, 's) app_state =
  app_sessions :: "'j session_store"
  app_pending :: pending_store
  app_streams :: 's

text \<open>Opening the store of a stream, bringing it up to date and recording on it.\<close>

record 's stream_ops =
  so_elections :: "stream_id \<Rightarrow> 's \<Rightarrow> 's \<times> election_config list result"
  so_store_for_stream :: "stream_id \<Rightarrow> election_config \<Rightarrow> 's \<Rightarrow> 's \<times> unit result"
  so_load :: "stream_id \<Rightarrow> election_config \<Rightarrow> 's \<Rightarrow> 's \<times> unit result"
  so_update_pg :: "stream_id \<Rightarrow> election_config \<Rightarrow> pg_event \<Rightarrow> 's \<Rightarrow> 's \<times> unit result"
  so_update_csb_main :: "election_config \<Rightarrow> csb_user \<Rightarrow> csb_main_action \<Rightarrow> 's \<Rightarrow> 's \<times> unit result"

record ('j, 's) app_env =
  ae_sessions :: "'j session_env"
  ae_db_time :: "timestamp \<Rightarrow> timestamp"
  ae_dev_features :: bool
  ae_default_election :: "election_config option"
  ae_hkdf_expand :: "byte list \<Rightarrow> byte list"
  ae_custom_uuid :: "byte list \<Rightarrow> uuid"
  ae_streams :: "'s stream_ops"

text \<open>What one request draws from outside: statements, clock readings and random tokens.\<close>

record app_call =
  cl_ios :: "nat \<Rightarrow> io"
  cl_clock :: "nat \<Rightarrow> timestamp"
  cl_raw_token :: rstring
  cl_csrf :: rstring

datatype app_reply =
    ErrorReply app_error
  | StorageError app_error jar rstring
  | LoggedIn jar session_cookie rstring
  | FailurePage jar auth_failure
  | LoginPanic

definition app_stmts :: "app_call \<Rightarrow> nat \<Rightarrow> io" where "app_stmts c n = cl_ios c (n + 2)"

definition session_token :: "('j, 's) app_env \<Rightarrow> jar \<Rightarrow> rstring option" where
  "session_token ae jar = hm_get jar (SESSION_COOKIE_NAME (ae_dev_features ae))"

definition without_session :: "('j, 's) app_env \<Rightarrow> jar \<Rightarrow> jar" where
  "without_session ae jar = hm_remove (ck_name (build_removal_cookie (ae_dev_features ae))) jar"

subsection \<open>Streams\<close>

definition STREAM_INFO_PREFIX :: rstring where "STREAM_INFO_PREFIX = lit ''stream-id:''"

definition derive_stream_id :: "('j, 's) app_env \<Rightarrow> rstring \<Rightarrow> stream_id" where
  "derive_stream_id ae code = StreamId (ae_custom_uuid ae (ae_hkdf_expand ae (str_bytes STREAM_INFO_PREFIX @ str_bytes code)))"

fun then_do :: "'s \<times> 'a result \<Rightarrow> ('s \<Rightarrow> 's \<times> 'b result) \<Rightarrow> 's \<times> 'b result" where
  "then_do (s, Inl e) f = (s, Err e)"
| "then_do (s, Inr _) f = f s"

definition login_election :: "('j, 's) app_env \<Rightarrow> stream_id \<Rightarrow> 's \<Rightarrow> 's \<times> election_config option result" where
  "login_election ae stream s = (let ops = ae_streams ae;
      record_login = (\<lambda>election s.
        then_do (then_do (then_do (so_store_for_stream ops stream election s) (so_load ops stream election))
          (so_update_pg ops stream election Login)) (\<lambda>s. (s, Ok (Some election))))
    in case ae_default_election ae of
      Some election \<Rightarrow> record_login election s
    | None \<Rightarrow> (case so_elections ops stream s of
        (s, Inr (election # _)) \<Rightarrow> record_login election s
      | (s, _) \<Rightarrow> (s, Ok None)))"

text \<open>A failure to record a logout is only logged.\<close>

definition record_logout :: "('j, 's) app_env \<Rightarrow> session \<Rightarrow> 's \<Rightarrow> 's" where
  "record_logout ae session s = (let ops = ae_streams ae in case ss_user session of
      CommitteeUser user election _ \<Rightarrow> fst (so_update_csb_main ops election user CsbLogout s)
    | PoliticalGroupUser stream _ (Some election) \<Rightarrow>
        fst (then_do (then_do (so_store_for_stream ops stream election s) (so_load ops stream election))
          (so_update_pg ops stream election Logout))
    | PoliticalGroupUser _ _ None \<Rightarrow> s)"

subsection \<open>The hooks\<close>

definition ACCEPTED_ID_TYPES :: "rstring list" where
  "ACCEPTED_ID_TYPES = [lit ''urn:nl-eid-gdi:1.0:id:legacy-BSN'', lit ''urn:nl-eid-gdi:1.0:id:BSN'']"

definition is_accepted_id_type :: "rstring \<Rightarrow> bool" where
  "is_accepted_id_type name_qualifier = (trim name_qualifier \<in> set ACCEPTED_ID_TYPES)"

definition clear_session_cookie :: "('j, 's) app_env \<Rightarrow> app_call \<Rightarrow> jar \<Rightarrow> 'j session_store \<Rightarrow> 'j session_store \<times> jar result" where
  "clear_session_cookie ae c jar st =
    (case remove_if_some (ae_sessions ae) (app_stmts c 0) (session_token ae jar) st of
      (st, Inl e) \<Rightarrow> (st, Err e)
    | (st, Inr _) \<Rightarrow> (st, Ok (without_session ae jar)))"

definition on_authentication_failed :: "('j, 's) app_env \<Rightarrow> app_call \<Rightarrow> auth_failure \<Rightarrow> jar \<Rightarrow> bool
    \<Rightarrow> ('j, 's) app_state \<Rightarrow> ('j, 's) app_state \<times> app_reply" where
  "on_authentication_failed ae c failure jar end_session w =
    (if end_session then (case clear_session_cookie ae c jar (app_sessions w) of
        (st, Inl e) \<Rightarrow> (w\<lparr>app_sessions := st\<rparr>, StorageError e jar (lit ''/logout''))
      | (st, Inr jar) \<Rightarrow> (w\<lparr>app_sessions := st\<rparr>, FailurePage jar failure))
     else (w, FailurePage jar failure))"

definition new_session :: "('j, 's) app_env \<Rightarrow> app_call \<Rightarrow> stream_id \<Rightarrow> name_id \<Rightarrow> election_config option \<Rightarrow> headers \<Rightarrow> session" where
  "new_session ae c stream name election hs = set_user_agent_hash (user_agent_hash (sv_sha256 (ae_sessions ae)) hs)
     (for_political_group (sv_sha256 (ae_sessions ae)) (cl_raw_token c) (cl_csrf c) (cl_clock c 2) stream name election Nl)"

definition on_authenticated :: "('j, 's) app_env \<Rightarrow> app_call \<Rightarrow> subject_id \<Rightarrow> name_id \<Rightarrow> jar \<Rightarrow> headers
    \<Rightarrow> ('j, 's) app_state \<Rightarrow> ('j, 's) app_state \<times> app_reply" where
  "on_authenticated ae c subject name jar hs w =
    (if \<not> is_accepted_id_type (sj_name_qualifier subject) then on_authentication_failed ae c AuthFailed jar True w
     else (let stream = derive_stream_id ae (sj_value subject) in
       case login_election ae stream (app_streams w) of
         (s, Inl e) \<Rightarrow> (w\<lparr>app_streams := s\<rparr>, ErrorReply e)
       | (s, Inr election) \<Rightarrow>
           (let w = w\<lparr>app_streams := s\<rparr>;
                redirect_to = (if election = None then SelectElectionPath else PgIndexPath);
                session = new_session ae c stream name election hs
            in case establish_session (ae_sessions ae) (app_stmts c) (cl_clock c 3) (session_token ae jar) session (app_sessions w) of
                 None \<Rightarrow> (w, LoginPanic)
               | Some (st, Inl e) \<Rightarrow> (w\<lparr>app_sessions := st\<rparr>, StorageError e jar (lit ''/login''))
               | Some (st, Inr token) \<Rightarrow> (w\<lparr>app_sessions := st\<rparr>,
                   let cookie = build_cookie (ae_dev_features ae) (SESSION_COOKIE_NAME (ae_dev_features ae)) token (origin_same_site CrossSiteLogin)
                   in LoggedIn (hm_insert (ck_name cookie) (ck_value cookie) jar) cookie redirect_to))))"

fun ended_session :: "session_user \<Rightarrow> logged_out_session" where
  "ended_session (PoliticalGroupUser _ saml_name_id _) = (case name_id_parse saml_name_id of
      Inr name_id \<Rightarrow> WithSamlSubject name_id | Inl _ \<Rightarrow> WithoutSamlSubject)"
| "ended_session (CommitteeUser _ _ _) = WithoutSamlSubject"

definition logout_session :: "('j, 's) app_env \<Rightarrow> app_call \<Rightarrow> jar \<Rightarrow> ('j, 's) app_state
    \<Rightarrow> ('j, 's) app_state \<times> (app_reply + jar \<times> logged_out_session)" where
  "logout_session ae c jar w = (case session_token ae jar of
      None \<Rightarrow> (w, Ok (without_session ae jar, NoSession))
    | Some token \<Rightarrow> (case store_remove (ae_sessions ae) (app_stmts c 0) token (app_sessions w) of
        (st, Inl e) \<Rightarrow> (w\<lparr>app_sessions := st\<rparr>, Err (StorageError e jar (lit ''/logout'')))
      | (st, Inr None) \<Rightarrow> (w\<lparr>app_sessions := st\<rparr>, Ok (without_session ae jar, NoSession))
      | (st, Inr (Some session)) \<Rightarrow>
          (w\<lparr>app_sessions := st, app_streams := record_logout ae session (app_streams w)\<rparr>,
           Ok (without_session ae jar, ended_session (ss_user session)))))"

definition app_register :: "('j, 's) app_env \<Rightarrow> app_call \<Rightarrow> message_id \<Rightarrow> ('j, 's) app_state \<Rightarrow> ('j, 's) app_state" where
  "app_register ae c i w = w\<lparr>app_pending := pending_register (ae_db_time ae) (cl_ios c) (cl_clock c) i (app_pending w)\<rparr>"

definition app_consume :: "app_call \<Rightarrow> message_id \<Rightarrow> ('j, 's) app_state \<Rightarrow> ('j, 's) app_state \<times> bool" where
  "app_consume c i w = (case pending_consume (cl_ios c 0) (cl_clock c 0) i (app_pending w) of
      (p, b) \<Rightarrow> (w\<lparr>app_pending := p\<rparr>, b))"

definition app_hooks :: "('j, 's) app_env \<Rightarrow> app_call \<Rightarrow> (('j, 's) app_state, app_reply) auth_hooks" where
  "app_hooks ae c = \<lparr>ah_on_authenticated = on_authenticated ae c, ah_on_authentication_failed = on_authentication_failed ae c,
     ah_logout_session = logout_session ae c, ah_register_pending = app_register ae c, ah_consume_if_pending = app_consume c\<rparr>"

end
