(* ===== verification/App_Facts.thy ===== *)
theory App_Facts
  imports App_Auth
begin

text \<open>
  What the SAML service relies on of the application's hooks, as the locale \<open>auth_state\<close>, what
  a callback then does to the sessions, and the interpretation of the locale on the
  application.
\<close>

subsection \<open>The contract\<close>

text \<open>The state the last hook of a callback runs on: after the request was consumed and, when it
  was, whatever other requests did during the exchange with the identity provider.\<close>

definition acs_met :: "saml_env \<Rightarrow> ('w, 'r) auth_hooks \<Rightarrow> auth_service \<Rightarrow> ('w \<Rightarrow> 'w) \<Rightarrow> jar \<Rightarrow> headers \<Rightarrow> 'w \<Rightarrow> 'w" where
  "acs_met env app au busy jar hs w = (case fst (take_bound_authn_id env jar (dv_acs_url (ac_dv (au_config au))) hs) of
      None \<Rightarrow> w
    | Some i \<Rightarrow> (case ah_consume_if_pending app i w of (w, consumed) \<Rightarrow> if consumed then busy w else w))"

definition rd_answer :: "saml_env \<Rightarrow> (nat \<Rightarrow> timestamp) \<Rightarrow> auth_service \<Rightarrow> message_id \<Rightarrow> bool" where
  "rd_answer env clock au i = (\<exists>rd doc resolve_id response. rd_metadata (clock 0) (au_rd_metadata au) = Some rd
     \<and> rd_answered env clock doc rd resolve_id i response)"

lemma login_ok_answer: "login_ok env clock au i subject name \<Longrightarrow> rd_answer env clock au i"
  unfolding login_ok_def rd_answer_def by blast

text \<open>The hooks touch sessions only as their names say: a consumption leaves them alone, a
  failure ends sessions at most, and only when told to, and a login adds none but the one it
  grants. A request that is consumed was outstanding and no longer is.\<close>

locale auth_state =
  fixes app :: "('w, 'r) auth_hooks"
    and view :: "'w \<Rightarrow> rstring \<Rightarrow> session option"
    and pending :: "'w \<Rightarrow> message_id \<Rightarrow> bool"
    and ok :: "'w \<Rightarrow> bool"
    and granted :: "subject_id \<Rightarrow> name_id \<Rightarrow> headers \<Rightarrow> session \<Rightarrow> bool"
  assumes consume_view: "view (fst (ah_consume_if_pending app i w)) = view w"
    and consume_pending: "ok w \<Longrightarrow> snd (ah_consume_if_pending app i w) \<Longrightarrow>
      pending w i \<and> \<not> pending (fst (ah_consume_if_pending app i w)) i"
    and authenticated_view: "ok w \<Longrightarrow> view (fst (ah_on_authenticated app subject name jar hs w)) h = Some x \<Longrightarrow>
      view w h = Some x \<or> granted subject name hs x"
    and failed_view: "ok w \<Longrightarrow> view (fst (ah_on_authentication_failed app f jar e w)) h = Some x \<Longrightarrow> view w h = Some x"
    and failed_keeps: "fst (ah_on_authentication_failed app f jar False w) = w"
begin

lemma acs_fail_state: "fst (acs_fail app (Unanswered f) jar w) = w"
    "fst (acs_fail app (Answered f) jar w) = fst (ah_on_authentication_failed app f jar True w)"
  using failed_keeps by (simp_all add: acs_fail_def)

lemma acs_fail_view:
  assumes "ok w" "w' = fst (acs_fail app rej jar w)" "view w' h \<noteq> view w h"
  shows "(\<exists>f. rej = Answered f) \<and> view w' h = None"
proof -
  obtain f where f: "rej = Answered f" using assms(2,3) by (cases rej) (auto simp: acs_fail_state)
  then have "view w' h = Some x \<Longrightarrow> view w h = Some x" for x
    using failed_view [OF assms(1), of f jar True h x] assms(2) by (simp add: acs_fail_state)
  with assms(3) f show ?thesis by (cases "view w' h") auto
qed

text \<open>What a callback does to a session: nothing, unless the identity provider answered the
  request this browser holds, which was outstanding and now is not; and then it ends the
  session, or the session is one granted to the confirmed subject.\<close>

lemma acs_outcome:
  fixes wire :: "'p wire_env"
  assumes "checked_add_ok env" "ok w" "ok (acs_met env app au busy jar hs w)"
    and "view (fst (handle_acs env wire app fresh clock au busy jar hs params w)) h \<noteq> view (acs_met env app au busy jar hs w) h"
  shows "\<exists>i. fst (take_bound_authn_id env jar (dv_acs_url (ac_dv (au_config au))) hs) = Some i
    \<and> pending w i \<and> \<not> pending (fst (ah_consume_if_pending app i w)) i \<and> rd_answer env clock au i
    \<and> (\<forall>x. view (fst (handle_acs env wire app fresh clock au busy jar hs params w)) h = Some x \<longrightarrow>
        (\<exists>subject name. login_ok env clock au i subject name \<and> granted subject name hs x))"
proof -
  obtain bound jar' where t: "take_bound_authn_id env jar (dv_acs_url (ac_dv (au_config au))) hs = (bound, jar')" by fastforce
  obtain i where i: "bound = Some i"
    using assms(4) t by (cases bound) (auto simp: handle_acs_def acs_met_def acs_fail_state)
  obtain w' b where c: "ah_consume_if_pending app i w = (w', b)" by fastforce
  have b: b using assms(4) t i c by (cases b) (auto simp: handle_acs_def acs_met_def acs_fail_state)
  have met: "acs_met env app au busy jar hs w = busy w'" using t i c b by (simp add: acs_met_def)
  have p: "pending w i \<and> \<not> pending w' i" using consume_pending [OF assms(2), of i] c b by simp
  let ?r = "acs_finish env wire fresh clock au params i"
  let ?w = "fst (handle_acs env wire app fresh clock au busy jar hs params w)"
  have "rd_answer env clock au i \<and> (\<forall>x. view ?w h = Some x \<longrightarrow> (\<exists>subject name. login_ok env clock au i subject name \<and> granted subject name hs x))"
  proof (cases ?r)
    case (Inl rej)
    then have w: "?w = fst (acs_fail app rej jar' (busy w') :: 'w \<times> ('r, 'p) reply)" using t i c b by (simp add: handle_acs_def)
    with acs_fail_view [OF _ w, of h] assms(3,4) met obtain f where "rej = Answered f" and n: "view ?w h = None" by auto
    with Inl acs_finish_Answered [OF assms(1), of wire fresh clock au params i f] show ?thesis by (auto simp: rd_answer_def)
  next
    case (Inr sn)
    obtain subject name where sn: "sn = (subject, name)" by (cases sn)
    then have w: "?w = fst (ah_on_authenticated app subject name jar' hs (busy w'))" using Inr t i c b by (simp add: handle_acs_def)
    have l: "login_ok env clock au i subject name" using acs_finish_Ok [OF assms(1)] Inr sn by blast
    have "granted subject name hs x" if "view ?w h = Some x" for x
      using authenticated_view [of "busy w'" subject name jar' hs h x] that assms(3,4) w met by auto
    with l login_ok_answer show ?thesis by blast
  qed
  with t i c p show ?thesis by simp
qed

end

subsection \<open>The application keeps it\<close>

text \<open>The session of a login: for the stream derived from the subject's BSN, with the name the
  identity provider used, bound to the browser that made the request.\<close>

definition session_granted :: "('j, 's) app_env \<Rightarrow> app_call \<Rightarrow> subject_id \<Rightarrow> name_id \<Rightarrow> headers \<Rightarrow> session \<Rightarrow> bool" where
  "session_granted ae c subject name hs x = (is_accepted_id_type (sj_name_qualifier subject)
     \<and> (\<exists>election. ss_user x = PoliticalGroupUser (derive_stream_id ae (sj_value subject)) name election)
     \<and> ss_user_agent_hash x = Some (user_agent_hash (sv_sha256 (ae_sessions ae)) hs)
     \<and> ss_token_hash x = hash_token (sv_sha256 (ae_sessions ae)) (cl_raw_token c) \<and> ss_csrf_token x = cl_csrf c)"

text \<open>A well-formed state in which the token drawn for a login is new.\<close>

definition app_ok :: "('j, 's) app_env \<Rightarrow> app_call \<Rightarrow> ('j, 's) app_state \<Rightarrow> bool" where
  "app_ok ae c w = (session_env_ok (ae_sessions ae) \<and> store_ok (ae_sessions ae) (app_sessions w) \<and> pending_ok_store (app_pending w)
     \<and> session_view (ae_sessions ae) (app_sessions w) (hash_token (sv_sha256 (ae_sessions ae)) (cl_raw_token c)) = None)"

lemma insert_new_view:
  assumes "session_env_ok env" "store_ok env st" "session_view env st (ss_token_hash s) = None"
    and "session_view env (store_insert env i s st) h = Some x"
  shows "session_view env st h = Some x \<or> ss_token_hash x = ss_token_hash s \<and> ss_user x = ss_user s
    \<and> ss_user_agent_hash x = ss_user_agent_hash s \<and> ss_csrf_token x = ss_csrf_token s"
proof (cases st)
  case (Database t)
  with assms(2,3) have "hm_get t (ss_token_hash s) = None"
    by (cases "hm_get t (ss_token_hash s)") (fastforce simp: session_from_row_None_iff)+
  with assms Database show ?thesis
    by (cases i) (auto simp: db_upsert_def session_row_of_def session_from_row_def session_env_ok_def json_okD split: if_splits)
qed (use assms in \<open>auto split: if_splits\<close>)

lemma establish_session_view:
  assumes "session_env_ok env" "store_ok env st" "session_view env st (ss_token_hash s) = None"
    and "establish_session env ios now old s st = Some (st', r)" "session_view env st' h = Some x"
  shows "session_view env st h = Some x \<or> ss_token_hash x = ss_token_hash s \<and> ss_user x = ss_user s
    \<and> ss_user_agent_hash x = ss_user_agent_hash s \<and> ss_csrf_token x = ss_csrf_token s"
proof -
  obtain st1 r1 where r1: "(case old of None \<Rightarrow> (st, Ok None) | Some token \<Rightarrow> store_remove env (ios 0) token st) = (st1, r1)" by fastforce
  have s1: "store_shrinks env st st1"
    using r1 assms(2) store_remove_shrinks [of env st "ios 0"] by (cases old) (auto, metis fst_conv)
  let ?st2 = "store_cleanup_expired env (ios 1) now st1"
  have s2: "store_shrinks env st ?st2" using s1 cleanup_shrinks [of env st1] by (simp add: store_shrinks_def)
  obtain st3 r3 where r3: "store_remove_other_sessions_of env (ios 2) s ?st2 = (st3, r3)" by fastforce
  have s3: "store_shrinks env st st3" using s2 remove_others_shrinks [of env ?st2 "ios 2" s] r3 by (auto simp: store_shrinks_def)
  consider "st' = st1" | "st' = st3" | "st' = store_insert env (ios 3) s st3"
    using assms(4) r1 r3 by (cases r1; cases r3) (auto simp: establish_session_def Let_def split: option.splits)
  then show ?thesis
  proof cases
    case 1
    with s1 assms(5) show ?thesis by (simp add: store_shrinks_def)
  next
    case 2
    with s3 assms(5) show ?thesis by (simp add: store_shrinks_def)
  next
    case 3
    with insert_new_view [OF assms(1) _ store_shrinks_None [OF s3 assms(3)], of "ios 3" h x] s3 assms(5) show ?thesis
      by (auto simp: store_shrinks_def)
  qed
qed

lemma new_session_simps: "ss_token_hash (new_session ae c stream name election hs) = hash_token (sv_sha256 (ae_sessions ae)) (cl_raw_token c)"
    "ss_raw_token (new_session ae c stream name election hs) = Some (cl_raw_token c)"
    "ss_user (new_session ae c stream name election hs) = PoliticalGroupUser stream name election"
    "ss_csrf_token (new_session ae c stream name election hs) = cl_csrf c"
    "ss_user_agent_hash (new_session ae c stream name election hs) = Some (user_agent_hash (sv_sha256 (ae_sessions ae)) hs)"
  by (simp_all add: new_session_def set_user_agent_hash_def for_political_group_def session_new_def)

lemma clear_session_cookie_shrinks: "store_ok (ae_sessions ae) st \<Longrightarrow> store_shrinks (ae_sessions ae) st (fst (clear_session_cookie ae c jar st))"
  using store_remove_shrinks [of "ae_sessions ae" st "app_stmts c 0"]
  by (cases "session_token ae jar") (auto simp: clear_session_cookie_def remove_if_some_def split: prod.splits sum.splits, (metis fst_conv)+)

lemma on_authentication_failed_view:
  assumes "app_ok ae c w" "session_view (ae_sessions ae) (app_sessions (fst (on_authentication_failed ae c f jar e w))) h = Some x"
  shows "session_view (ae_sessions ae) (app_sessions w) h = Some x"
  using assms clear_session_cookie_shrinks [of ae "app_sessions w" c jar]
  by (auto simp: on_authentication_failed_def app_ok_def store_shrinks_def split: if_splits prod.splits sum.splits)

lemma on_authenticated_view:
  assumes ok: "app_ok ae c w"
    and v: "session_view (ae_sessions ae) (app_sessions (fst (on_authenticated ae c subject name jar hs w))) h = Some x"
  shows "session_view (ae_sessions ae) (app_sessions w) h = Some x \<or> session_granted ae c subject name hs x"
proof (cases "is_accepted_id_type (sj_name_qualifier subject)")
  case False
  with v on_authentication_failed_view [OF ok] show ?thesis by (simp add: on_authenticated_def)
next
  case True
  let ?stream = "derive_stream_id ae (sj_value subject)"
  obtain s r where l: "login_election ae ?stream (app_streams w) = (s, r)" by fastforce
  show ?thesis
  proof (cases r)
    case (Inl e)
    with v True l show ?thesis by (simp add: on_authenticated_def Let_def)
  next
    case (Inr election)
    let ?s = "new_session ae c ?stream name election hs"
    let ?e = "establish_session (ae_sessions ae) (app_stmts c) (cl_clock c 3) (session_token ae jar) ?s (app_sessions w)"
    have fst_on: "app_sessions (fst (on_authenticated ae c subject name jar hs w)) = (case ?e of None \<Rightarrow> app_sessions w | Some (st, _) \<Rightarrow> st)"
      using True l Inr by (simp add: on_authenticated_def Let_def split: option.splits prod.splits sum.splits)
    show ?thesis
    proof (cases ?e)
      case None
      with v fst_on show ?thesis by simp
    next
      case (Some p)
      obtain st r' where p: "p = (st, r')" by (cases p)
      from ok have "session_env_ok (ae_sessions ae)" "store_ok (ae_sessions ae) (app_sessions w)"
        "session_view (ae_sessions ae) (app_sessions w) (ss_token_hash ?s) = None" by (simp_all add: app_ok_def new_session_simps)
      from establish_session_view [OF this Some [unfolded p]] v fst_on Some p True show ?thesis
        by (auto simp: session_granted_def new_session_simps)
    qed
  qed
qed

interpretation app: auth_state "app_hooks ae c" "\<lambda>w. session_view (ae_sessions ae) (app_sessions w)"
  "\<lambda>w. pending_known (app_pending w)" "app_ok ae c" "session_granted ae c"
proof (unfold_locales, goal_cases)
  case (1 i w)
  show ?case by (simp add: app_hooks_def app_consume_def split: prod.splits)
next
  case (2 w i)
  then show ?case using one_shot.consume_needs [of "app_pending w" "(cl_ios c 0, cl_clock c 0)" i]
    by (auto simp: app_hooks_def app_consume_def app_ok_def split: prod.splits)
next
  case (3 w subject name jar hs h x)
  then show ?case using on_authenticated_view by (simp add: app_hooks_def)
next
  case (4 w f jar e h x)
  then show ?case using on_authentication_failed_view by (simp add: app_hooks_def)
next
  case (5 f jar w)
  show ?case by (simp add: app_hooks_def on_authentication_failed_def)
qed

text \<open>A login always comes with the token its session was made with.\<close>

lemma on_authenticated_no_panic: "snd (on_authenticated ae c subject name jar hs w) \<noteq> LoginPanic"
proof -
  have e: "establish_session (ae_sessions ae) ios now old (new_session ae c stream name election hs) st = None \<longleftrightarrow> False" for ios now old stream election st
    by (auto simp: establish_session_def Let_def new_session_simps split: option.splits prod.splits sum.splits)
  show ?thesis
    by (simp add: on_authenticated_def on_authentication_failed_def Let_def e split: option.splits prod.splits sum.splits)
qed

end
