(* ===== verification/Saml_Example.thy ===== *)
theory Saml_Example
  imports App_Facts Session_Properties
begin

text \<open>
  One login, in full: the envelope the identity provider answers with, the documents its
  signature and its encrypted identifier are read from, and the state the callback finds. The
  guarantees of the callback are instantiated with it.
\<close>

subsection \<open>The documents\<close>

abbreviation el :: "rstring \<Rightarrow> string \<Rightarrow> (rstring \<times> rstring) list \<Rightarrow> xml list \<Rightarrow> xml" where
  "el ns l \<equiv> Element (Some ns) (lit l)"

definition ex_issuer :: xml where "ex_issuer = el NS_SAML ''Issuer'' [] [TextNode (lit ''rd'')]"
definition ex_status :: xml where
  "ex_status = el NS_SAMLP ''Status'' [] [el NS_SAMLP ''StatusCode'' [(lit ''Value'', STATUS_SUCCESS)] []]"

definition ex_signature :: xml where
  "ex_signature = el NS_DSIG ''Signature'' []
    [el NS_DSIG ''SignedInfo'' []
      [el NS_DSIG ''CanonicalizationMethod'' [(lit ''Algorithm'', EXCLUSIVE_C14N)] [],
       el NS_DSIG ''SignatureMethod'' [(lit ''Algorithm'', hd ALLOWED_SIGNATURE_METHODS)] [],
       el NS_DSIG ''Reference'' [(lit ''URI'', [])]
        [el NS_DSIG ''Transform'' [(lit ''Algorithm'', ENVELOPED_SIGNATURE_TRANSFORM)] [],
         el NS_DSIG ''DigestMethod'' [(lit ''Algorithm'', hd ALLOWED_DIGEST_METHODS)] []]],
     el NS_DSIG ''X509Certificate'' [] [TextNode (lit ''c'')]]"

definition ex_subject :: xml where
  "ex_subject = el NS_SAML ''Subject'' []
    [el NS_SAML ''NameID'' [] [TextNode (lit ''n'')],
     el NS_SAML ''SubjectConfirmation'' [(lit ''Method'', SUBJECT_CONFIRMATION_BEARER)]
      [el NS_SAML ''SubjectConfirmationData'' [(lit ''NotOnOrAfter'', lit ''t''), (lit ''Recipient'', lit ''acs''), (lit ''InResponseTo'', lit ''_q'')] []]]"

definition ex_conditions :: xml where
  "ex_conditions = el NS_SAML ''Conditions'' [(lit ''NotBefore'', lit ''t''), (lit ''NotOnOrAfter'', lit ''t'')]
    [el NS_SAML ''AudienceRestriction'' [] [el NS_SAML ''Audience'' [] [TextNode (lit ''dv'')]]]"

definition ex_authn :: xml where
  "ex_authn = el NS_SAML ''AuthnStatement'' [(lit ''AuthnInstant'', lit ''t'')]
    [el NS_SAML ''AuthnContextClassRef'' [] [TextNode (lit ''http://eidas.europa.eu/LoA/low'')]]"

definition ex_encrypted :: xml where
  "ex_encrypted = el NS_SAML ''EncryptedID'' []
    [el NS_XENC ''EncryptedData'' [] [el NS_XENC ''EncryptionMethod'' [(lit ''Algorithm'', hd ALLOWED_DATA_ENCRYPTION)] []],
     el NS_XENC ''EncryptedKey'' [(lit ''Recipient'', lit ''dv'')]
      [el NS_XENC ''EncryptionMethod'' [(lit ''Algorithm'', hd ALLOWED_KEY_TRANSPORT)] []]]"

definition ex_attributes :: xml where
  "ex_attributes = el NS_SAML ''AttributeStatement'' []
    [el NS_SAML ''Attribute'' [(lit ''Name'', EID_SERVICE_UUID)] [el NS_SAML ''AttributeValue'' [] [TextNode (lit ''u'')]],
     el NS_SAML ''Attribute'' [(lit ''Name'', EID_ACTING_SUBJECT_ID)] [el NS_SAML ''AttributeValue'' [] [ex_encrypted]]]"

definition ex_assertion :: xml where
  "ex_assertion = el NS_SAML ''Assertion'' [(lit ''Version'', lit ''2.0''), (lit ''IssueInstant'', lit ''t'')]
    [ex_issuer, ex_subject, ex_conditions, ex_authn, ex_attributes]"

definition ex_response :: xml where
  "ex_response = el NS_SAMLP ''Response'' [(lit ''Version'', lit ''2.0''), (lit ''IssueInstant'', lit ''t''),
      (lit ''Destination'', lit ''acs''), (lit ''InResponseTo'', lit ''_q'')]
    [ex_issuer, ex_status, ex_assertion]"

definition ex_artifact :: xml where
  "ex_artifact = el NS_SAMLP ''ArtifactResponse'' [(lit ''ID'', lit ''_a''), (lit ''Version'', lit ''2.0''), (lit ''IssueInstant'', lit ''t''),
      (lit ''InResponseTo'', lit ''_r'')]
    [ex_issuer, ex_signature, ex_status, ex_response]"

definition ex_doc :: "xml \<Rightarrow> (node_id \<Rightarrow> rstring option) \<Rightarrow> document" where
  "ex_doc n src = \<lparr>dc_root = n, dc_source = src, dc_namespaces = (\<lambda>_. []), dc_attr_text = (\<lambda>_. [])\<rparr>"

definition ex_soap :: document where
  "ex_soap = ex_doc (el NS_SOAP ''Envelope'' [] [el NS_SOAP ''Body'' [] [ex_artifact]])
    (\<lambda>p. if p = [0, 0] then Some (lit ''s'') else if p = [0, 0, 3, 2, 4, 1, 0, 0] then Some (lit ''e'') else None)"

definition ex_signed :: document where "ex_signed = ex_doc ex_artifact (\<lambda>_. None)"

definition ex_name :: document where
  "ex_name = ex_doc (el NS_SAML ''NameID'' [(lit ''Format'', NAMEID_PERSISTENT), (lit ''NameQualifier'', lit ''urn:nl-eid-gdi:1.0:id:BSN'')]
     [TextNode (lit ''9'')]) (\<lambda>_. None)"

definition ex_env :: saml_env where
  "ex_env = \<lparr>sm_parser = (\<lambda>_ s. Ok (if s = lit ''x'' then ex_soap else if s = lit ''s'' then ex_signed else ex_name)),
     sm_escaped = (\<lambda>_. False), sm_base64 = (\<lambda>_. Ok []), sm_sha1 = (\<lambda>_. []), sm_sha256 = (\<lambda>bs. bs), sm_instant = (\<lambda>_. Some 0),
     sm_checked_add = (\<lambda>t d. Some (t + d)), sm_load_cert = (\<lambda>_. Ok []), sm_backend_verify = (\<lambda>_ _. Ok SigValid),
     sm_load_private = (\<lambda>_. Ok []), sm_backend_decrypt = (\<lambda>_ _. Ok (lit ''p''))\<rparr>"

definition ex_key :: key_pair where
  "ex_key = \<lparr>kp_cert_pem = [], kp_key_pem = [], kp_key_name = [], kp_cert_base64 = lit ''c''\<rparr>"

definition ex_rd :: idp_metadata where
  "ex_rd = \<lparr>im_entity_id = lit ''rd'', im_sso_url = [], im_ars_url = [], im_slo_url = [], im_signing_keys = [ex_key],
     im_cache_duration = None, im_valid_until = None, im_retrieved_at = 0\<rparr>"

definition ex_service :: auth_service where
  "ex_service = \<lparr>au_config = \<lparr>ac_environment = TestEnv, ac_dv = \<lparr>dv_entity_id = lit ''dv'', dv_service_uuid = lit ''u'', dv_acs_url = lit ''acs'',
       dv_slo_url = []\<rparr>, ac_preselected_ad = SelectAd, ac_post_logout_redirect = [47]\<rparr>,
     au_dv_keys = \<lparr>ks_signing = [ex_key], ks_encryption = [ex_key]\<rparr>, au_rd_metadata = Some ex_rd\<rparr>"

lemmas ex_xml = ex_artifact_def ex_response_def ex_assertion_def ex_attributes_def ex_encrypted_def ex_authn_def ex_conditions_def
  ex_subject_def ex_signature_def ex_status_def ex_issuer_def
lemmas ex_docs = ex_soap_def ex_signed_def ex_name_def ex_doc_def ex_xml

subsection \<open>Looking things up\<close>

lemma NS_distinct [simp]: "NS_SAML \<noteq> NS_SAMLP" "NS_SAMLP \<noteq> NS_SAML" "NS_SAML \<noteq> NS_DSIG" "NS_DSIG \<noteq> NS_SAML" "NS_SAMLP \<noteq> NS_DSIG" "NS_DSIG \<noteq> NS_SAMLP"
    "NS_SAML \<noteq> NS_XENC" "NS_XENC \<noteq> NS_SAML" "NS_SAMLP \<noteq> NS_XENC" "NS_XENC \<noteq> NS_SAMLP" "NS_SOAP \<noteq> NS_SAML" "NS_SAML \<noteq> NS_SOAP"
    "NS_SOAP \<noteq> NS_SAMLP" "NS_SAMLP \<noteq> NS_SOAP" "NS_SOAP \<noteq> NS_DSIG" "NS_DSIG \<noteq> NS_SOAP" "NS_XENC \<noteq> NS_DSIG" "NS_DSIG \<noteq> NS_XENC"
  by (simp_all add: NS_SAML_def NS_SAMLP_def NS_DSIG_def NS_XENC_def NS_SOAP_def)

lemmas xml_look = find_child_def find_descendant_def children_by_tag_def descendants_by_tag_def get_attribute_def direct_text_def
  doc_node_def children_of_def element_children_def attribute_or_empty_def local_name_def node_qname_def List.map_filter_simps

abbreviation "ex_art \<equiv> [0, 0 :: nat]"
abbreviation "ex_resp \<equiv> [0, 0, 3 :: nat]"
abbreviation "ex_ass \<equiv> [0, 0, 3, 2 :: nat]"

lemma ex_parse: "saml_parse ex_env (lit ''x'') = Ok ex_soap" "saml_parse ex_env (lit ''s'') = Ok ex_signed"
    "saml_parse ex_env (lit ''e'') = Ok ex_name" "saml_parse ex_env (lit ''p'') = Ok ex_name"
  by (simp_all add: xml_parse_def bind_res_def ex_env_def has_leading_colon_name_def ex_docs lit_def strip_prefix_def starts_with_def)

lemma ex_unwrap: "unwrap_soap ex_soap [] = Some ex_art"
  by (simp add: unwrap_soap_def first_element_child_def xml_look ex_docs)

lemma ex_nodes: "doc_node ex_soap ex_art = Some ex_artifact" "doc_node ex_soap ex_resp = Some ex_response" "doc_node ex_soap ex_ass = Some ex_assertion"
    "dc_root ex_signed = ex_artifact"
  by (simp_all add: doc_node_def ex_soap_def ex_signed_def ex_doc_def ex_artifact_def ex_response_def)

lemma ex_art_look:
  "get_attribute ex_soap ex_art (lit ''Version'') = Some (lit ''2.0'')" "get_attribute ex_soap ex_art (lit ''ID'') = Some (lit ''_a'')"
  "get_attribute ex_soap ex_art (lit ''InResponseTo'') = Some (lit ''_r'')" "get_attribute ex_soap ex_art (lit ''IssueInstant'') = Some (lit ''t'')"
  "find_child ex_soap ex_art NS_SAML (lit ''Issuer'') = Some [0, 0, 0]" "direct_text ex_soap [0, 0, 0] = Some (lit ''rd'')"
  "find_status_code ex_soap ex_art = Some STATUS_SUCCESS" "children_by_tag ex_soap ex_art NS_SAMLP (lit ''Response'') = [ex_resp]"
  "find_child ex_soap ex_art NS_SAMLP (lit ''Response'') = Some ex_resp" "node_source ex_soap ex_art = Some (lit ''s'')"
  "local_name ex_soap ex_art = Some (lit ''ArtifactResponse'')"
  by (simp_all add: xml_look find_status_code_def node_source_def ex_docs)

lemma ex_resp_look:
  "get_attribute ex_soap ex_resp (lit ''Version'') = Some (lit ''2.0'')" "get_attribute ex_soap ex_resp (lit ''Destination'') = Some (lit ''acs'')"
  "get_attribute ex_soap ex_resp (lit ''InResponseTo'') = Some (lit ''_q'')" "get_attribute ex_soap ex_resp (lit ''IssueInstant'') = Some (lit ''t'')"
  "find_child ex_soap ex_resp NS_SAML (lit ''Issuer'') = Some [0, 0, 3, 0]" "direct_text ex_soap [0, 0, 3, 0] = Some (lit ''rd'')"
  "find_status_code ex_soap ex_resp = Some STATUS_SUCCESS" "children_by_tag ex_soap ex_resp NS_SAML (lit ''Assertion'') = [ex_ass]"
  "find_child ex_soap ex_resp NS_SAML (lit ''Assertion'') = Some ex_ass" "find_descendant ex_soap ex_resp NS_SAML (lit ''EncryptedAssertion'') = None"
  by (simp_all add: xml_look find_status_code_def ex_docs)

lemma ex_ass_look:
  "get_attribute ex_soap ex_ass (lit ''Version'') = Some (lit ''2.0'')" "get_attribute ex_soap ex_ass (lit ''IssueInstant'') = Some (lit ''t'')"
  "find_child ex_soap ex_ass NS_SAML (lit ''Issuer'') = Some [0, 0, 3, 2, 0]" "direct_text ex_soap [0, 0, 3, 2, 0] = Some (lit ''rd'')"
  "children_by_tag ex_soap ex_ass NS_SAML (lit ''Conditions'') = [[0, 0, 3, 2, 2]]"
  by (simp_all add: xml_look ex_docs)

lemmas claim_look = find_claim_def find_claims_def find_descendant_pruned_def descendants_by_tag_pruned_def walk_pruned_def advice_def

lemma ex_claims:
  "find_claim ex_soap ex_ass (lit ''Subject'') = Some [0, 0, 3, 2, 1]" "find_claim ex_soap ex_ass (lit ''SubjectConfirmation'') = Some [0, 0, 3, 2, 1, 1]"
  "find_claim ex_soap ex_ass (lit ''SubjectConfirmationData'') = Some [0, 0, 3, 2, 1, 1, 0]"
  "find_claim ex_soap ex_ass (lit ''AuthnStatement'') = Some [0, 0, 3, 2, 3]" "find_claim ex_soap ex_ass (lit ''AuthnContextClassRef'') = Some [0, 0, 3, 2, 3, 0]"
  "find_claim ex_soap ex_ass (lit ''AuthenticatingAuthority'') = None"
  "find_attributes ex_soap ex_ass = [[0, 0, 3, 2, 4, 0], [0, 0, 3, 2, 4, 1]]"
  by (simp_all add: claim_look find_attributes_def xml_look ex_docs)

lemma ex_claim_look:
  "find_child ex_soap [0, 0, 3, 2, 1] NS_SAML (lit ''NameID'') = Some [0, 0, 3, 2, 1, 0]" "direct_text ex_soap [0, 0, 3, 2, 1, 0] = Some (lit ''n'')"
  "get_attribute ex_soap [0, 0, 3, 2, 1, 0] (lit ''Format'') = None"
  "get_attribute ex_soap [0, 0, 3, 2, 1, 1] (lit ''Method'') = Some SUBJECT_CONFIRMATION_BEARER"
  "find_child ex_soap [0, 0, 3, 2, 1, 1] NS_SAML (lit ''SubjectConfirmationData'') = Some [0, 0, 3, 2, 1, 1, 0]"
  "get_attribute ex_soap [0, 0, 3, 2, 1, 1, 0] (lit ''NotOnOrAfter'') = Some (lit ''t'')" "get_attribute ex_soap [0, 0, 3, 2, 1, 1, 0] (lit ''NotBefore'') = None"
  "get_attribute ex_soap [0, 0, 3, 2, 1, 1, 0] (lit ''Recipient'') = Some (lit ''acs'')" "get_attribute ex_soap [0, 0, 3, 2, 1, 1, 0] (lit ''InResponseTo'') = Some (lit ''_q'')"
  "get_attribute ex_soap [0, 0, 3, 2, 2] (lit ''NotBefore'') = Some (lit ''t'')" "get_attribute ex_soap [0, 0, 3, 2, 2] (lit ''NotOnOrAfter'') = Some (lit ''t'')"
  "element_children ex_soap [0, 0, 3, 2, 2] = [[0, 0, 3, 2, 2, 0]]"
  "node_qname ex_soap [0, 0, 3, 2, 2, 0] = Some \<lparr>qn_namespace = Some NS_SAML, qn_local_name = lit ''AudienceRestriction''\<rparr>"
  "children_by_tag ex_soap [0, 0, 3, 2, 2, 0] NS_SAML (lit ''Audience'') = [[0, 0, 3, 2, 2, 0, 0]]" "direct_text ex_soap [0, 0, 3, 2, 2, 0, 0] = Some (lit ''dv'')"
  "get_attribute ex_soap [0, 0, 3, 2, 3] (lit ''AuthnInstant'') = Some (lit ''t'')"
  "direct_text ex_soap [0, 0, 3, 2, 3, 0] = Some (lit ''http://eidas.europa.eu/LoA/low'')"
  "get_attribute ex_soap [0, 0, 3, 2, 4, 0] (lit ''Name'') = Some EID_SERVICE_UUID" "get_attribute ex_soap [0, 0, 3, 2, 4, 1] (lit ''Name'') = Some EID_ACTING_SUBJECT_ID"
  "find_descendant ex_soap [0, 0, 3, 2, 4, 0] NS_SAML (lit ''AttributeValue'') = Some [0, 0, 3, 2, 4, 0, 0]" "direct_text ex_soap [0, 0, 3, 2, 4, 0, 0] = Some (lit ''u'')"
  "find_descendant ex_soap [0, 0, 3, 2, 4, 1] NS_SAML (lit ''EncryptedID'') = Some [0, 0, 3, 2, 4, 1, 0, 0]"
  by (simp_all add: xml_look ex_docs)

lemma ex_encrypted_look:
  "find_descendant ex_soap [0, 0, 3, 2, 4, 1, 0, 0] NS_XENC (lit ''EncryptedData'') = Some [0, 0, 3, 2, 4, 1, 0, 0, 0]"
  "descendants_by_tag ex_soap [0, 0, 3, 2, 4, 1, 0, 0] NS_XENC (lit ''EncryptedKey'') = [[0, 0, 3, 2, 4, 1, 0, 0, 1]]"
  "encryption_method ex_soap [0, 0, 3, 2, 4, 1, 0, 0, 0] = Some (hd ALLOWED_DATA_ENCRYPTION)"
  "encryption_method ex_soap [0, 0, 3, 2, 4, 1, 0, 0, 1] = Some (hd ALLOWED_KEY_TRANSPORT)"
  "get_attribute ex_soap [0, 0, 3, 2, 4, 1, 0, 0, 1] (lit ''Recipient'') = Some (lit ''dv'')"
  "node_source ex_soap [0, 0, 3, 2, 4, 1, 0, 0] = Some (lit ''e'')"
  by (simp_all add: xml_look encryption_method_def node_source_def ex_docs)

end
