(* ===== verification/Saml_Properties.thy ===== *)
theory Saml_Properties
  imports Saml_Example
begin

text \<open>
  The guarantees of the login over SAML: which callbacks grant a session and which end one,
  that a request is answered once, what a loaded descriptor of the identity provider can be,
  and that the flow cookie comes back as it was set. The example of \<open>Saml_Example\<close> runs
  through the whole callback.
\<close>

subsection \<open>The example runs through\<close>


lemma ex_short [simp]: "trim (lit ''rd'') = lit ''rd''" "trim (lit ''dv'') = lit ''dv''" "trim (lit ''u'') = lit ''u''" "trim (lit ''n'') = lit ''n''" "trim (lit ''9'') = lit ''9''"
  by (simp_all add: trim_def trim_start_def trim_end_def is_whitespace_def lit_def)

lemma ex_long [simp]: "trim (lit ''http://eidas.europa.eu/LoA/low'') = lit ''http://eidas.europa.eu/LoA/low''"
    "trim (lit ''urn:nl-eid-gdi:1.0:id:BSN'') = lit ''urn:nl-eid-gdi:1.0:id:BSN''"
  by (simp_all add: trim_def trim_start_def trim_end_def is_whitespace_def lit_def)

lemma ex_env_simps [simp]: "sm_instant ex_env s = Some 0" "sm_checked_add ex_env t d = Some (t + d)" "sm_sha256 ex_env = (\<lambda>bs. bs)"
    "sm_base64 ex_env b = Ok []" "sm_load_cert ex_env c = Ok []" "sm_backend_verify ex_env k x = Ok SigValid" "sm_load_private ex_env k = Ok []"
    "sm_backend_decrypt ex_env k x = Ok (lit ''p'')"
  by (simp_all add: ex_env_def)







definition ex_decrypted :: decrypted_name_id where
  "ex_decrypted = \<lparr>dn_value = lit ''9'', dn_format = NAMEID_PERSISTENT, dn_name_qualifier = lit ''urn:nl-eid-gdi:1.0:id:BSN'',
     dn_sp_name_qualifier = None, dn_sp_provided_id = None\<rparr>"


definition ex_subject_id :: subject_id where "ex_subject_id = \<lparr>sj_value = lit ''9'', sj_name_qualifier = lit ''urn:nl-eid-gdi:1.0:id:BSN''\<rparr>"


lemma ex_name_ok: "check_decrypted_name_id ex_env l ex_decrypted = []" "subject_of ex_decrypted = ex_subject_id"
    "name_id_parse (lit ''n'') = Ok (lit ''n'')" "message_id_parse ex_env (lit ''_q'') = Ok (lit ''_q'')"
     apply (simp add: check_decrypted_name_id_def ex_decrypted_def EID_ID_TYPES_def)
    apply (simp add: subject_of_def ex_decrypted_def ex_subject_id_def)
   apply (simp add: name_id_parse_Ok, simp add: lit_def str_len_def len_utf8_def MAX_IDENTIFIER_LEN_def is_control_def)
  apply (simp add: message_id_parse_Ok, simp add: lit_def str_len_def len_utf8_def MAX_IDENTIFIER_LEN_def is_ncname_start_def is_ncname_char_def char_class_defs)
  done


definition ex_wire :: "unit wire_env" where
  "ex_wire = \<lparr>we_authn_request = (\<lambda>_. Ok []), we_artifact_resolve = (\<lambda>_. Ok []), we_logout_request = (\<lambda>_. Ok []), we_soap_envelope = (\<lambda>_. Ok []),
     we_sign = (\<lambda>_ _. Ok []), we_instant_text = (\<lambda>_. []), we_send_soap = (\<lambda>_ _. Ok (lit ''x'')), we_post_form = (\<lambda>_ _ _. Ok ())\<rparr>"

abbreviation "ex_params \<equiv> [(lit ''SAMLart'', lit ''A'')]"
abbreviation "ex_clock \<equiv> (\<lambda>_. 0) :: nat \<Rightarrow> timestamp"

lemma ex_rd_trusted: "\<not> is_expired_at ex_rd 0" "au_rd_metadata ex_service = Some ex_rd" "primary_signing (au_dv_keys ex_service) = Ok ex_key"
  by (simp_all add: is_expired_at_def trust_deadline_def ex_rd_def clamp_nat_def duration_seconds_def MIN_CACHE_AGE_def MAX_CACHE_AGE_def DEFAULT_CACHE_AGE_def
      ex_service_def primary_signing_def)


definition ex_app :: "(session_user option, unit) app_env" where
  "ex_app = \<lparr>ae_sessions = example_session_env, ae_db_time = (\<lambda>t. t), ae_dev_features = True, ae_default_election = None,
     ae_hkdf_expand = (\<lambda>bs. bs), ae_custom_uuid = (\<lambda>_. 7), ae_streams = \<lparr>so_elections = (\<lambda>_ s. (s, Ok [])),
       so_store_for_stream = (\<lambda>_ _ s. (s, Ok ())), so_load = (\<lambda>_ _ s. (s, Ok ())), so_update_pg = (\<lambda>_ _ _ s. (s, Ok ())),
       so_update_csb_main = (\<lambda>_ _ _ s. (s, Ok ()))\<rparr>\<rparr>"

definition ex_call :: app_call where
  "ex_call = \<lparr>cl_ios = (\<lambda>_. Done), cl_clock = (\<lambda>_. 0), cl_raw_token = lit ''a'', cl_csrf = lit ''c''\<rparr>"

definition ex_state :: "(session_user option, unit) app_state" where
  "ex_state = \<lparr>app_sessions = InMemory [], app_pending = PendingMemory \<lparr>pe_map = [(lit ''_q'', 0)], pe_sweep_at = 0\<rparr>, app_streams = ()\<rparr>"

definition ex_jar :: jar where "ex_jar = [(FLOW_COOKIE_DEV, bound_value (\<lambda>bs. bs) (lit ''_q'') [])]"

subsection \<open>The flow cookie\<close>

lemma hex_digit_no_dot: "46 \<notin> set (byte_hex b)"
  by (auto simp: byte_hex_def digit_char_def)

lemma ua_hash_no_dot: "46 \<notin> set (ua_hash sha hs)"
  using hex_digit_no_dot by (auto simp: ua_hash_def Let_def)





abbreviation "ex_after \<equiv> fst (handle_acs ex_env ex_wire (app_hooks ex_app ex_call) (lit ''_r'') ex_clock ex_service (\<lambda>w. w) ex_jar [] ex_params ex_state)"




subsection \<open>Who gets in\<close>





subsection \<open>Once, and in time\<close>

text \<open>The store of outstanding requests under any sequence of operations: of every client, with
  any times and with statements failing anywhere.\<close>

datatype pending_op = PendingRegister "timestamp \<Rightarrow> timestamp" "nat \<Rightarrow> io" "nat \<Rightarrow> timestamp" rstring | PendingConsume io timestamp rstring

fun pending_step :: "pending_op \<Rightarrow> pending_store \<times> rstring list \<Rightarrow> pending_store \<times> rstring list" where
  "pending_step (PendingRegister db_time ios clock i) (st, consumed) = (pending_register db_time ios clock i st, consumed)"
| "pending_step (PendingConsume s now i) (st, consumed) = (case pending_consume s now i st of
      (st, True) \<Rightarrow> (st, i # consumed) | (st, False) \<Rightarrow> (st, consumed))"

fun registers :: "rstring \<Rightarrow> pending_op \<Rightarrow> bool" where
  "registers i (PendingRegister _ _ _ j) = (i = j)"
| "registers i (PendingConsume _ _ _) = False"

fun shared_op :: "pending_op \<Rightarrow> bool \<times> ((timestamp \<Rightarrow> timestamp) \<times> (nat \<Rightarrow> io) \<times> (nat \<Rightarrow> timestamp)) \<times> (io \<times> timestamp) \<times> rstring" where
  "shared_op (PendingRegister db_time ios clock i) = (True, (db_time, ios, clock), (Done, 0), i)"
| "shared_op (PendingConsume s now i) = (False, (\<lambda>t. t, \<lambda>_. s, \<lambda>_. now), (s, now), i)"

lemma pending_step_shared: "pending_step p sl = one_shot.step (shared_op p) sl"
  by (cases p; cases sl) (auto simp: one_shot.step_def split: prod.splits bool.splits)

lemma registered_shared: "one_shot.registered (map shared_op ps) i = length (filter (registers i) ps)"
proof (induction ps)
  case (Cons p ps)
  then show ?case by (cases p) (auto simp: one_shot.registered_def)
qed (simp add: one_shot.registered_def)

text \<open>C15: Starting from an empty store, in memory or in the database, whatever registrations and
  consumptions are interleaved, at any times and with statements failing anywhere, a request is
  consumed successfully at most as often as it was registered: a registered request answers one
  callback, and one that was never sent answers none.\<close>

theorem requests_answered_once:
  "count_list (snd (fold pending_step ps (pending_default, []))) i \<le> length (filter (registers i) ps)
   \<and> count_list (snd (fold pending_step ps (PendingDatabase [], []))) i \<le> length (filter (registers i) ps)"
proof -
  have "fold pending_step ps sl = fold one_shot.step (map shared_op ps) sl" for sl
    by (induction ps arbitrary: sl) (simp_all add: pending_step_shared)
  moreover have "pending_ok_store st \<and> (\<forall>i. \<not> pending_known st i)" if "st \<in> {pending_default, PendingDatabase []}" for st
    using that by (auto simp: pending_default_def hm_ok_def hm_contains_def)
  ultimately show ?thesis
    using one_shot.consumed_at_most_registered [of _ "map shared_op ps" i] by (simp add: registered_shared)
qed

text \<open>Within the fifteen minutes of a request, where the statements take effect.\<close>

definition within_window :: "('j, 's) app_env \<Rightarrow> app_call \<Rightarrow> app_call \<Rightarrow> pending_store \<Rightarrow> bool" where
  "within_window ae c c' st = (case st of
      PendingMemory _ \<Rightarrow> unix_ms (cl_clock c' 0) < unix_ms (cl_clock c 0) + PENDING_REQUEST_TTL_MS
    | PendingDatabase _ \<Rightarrow> cl_ios c 0 = Done \<and> cl_ios c 1 = Done \<and> cl_ios c' 0 = Done
        \<and> cl_clock c' 0 \<le> ae_db_time ae (cl_clock c 1) + duration_seconds (int PENDING_REQUEST_TTL_SECS))"

lemma app_pending_simps [simp]: "app_pending (app_register ae c i w) = pending_register (ae_db_time ae) (cl_ios c) (cl_clock c) i (app_pending w)"
    "app_pending (fst (app_consume c i w)) = fst (pending_consume (cl_ios c 0) (cl_clock c 0) i (app_pending w))"
    "snd (app_consume c i w) = snd (pending_consume (cl_ios c 0) (cl_clock c 0) i (app_pending w))"
  by (simp_all add: app_register_def app_consume_def split: prod.splits)

lemma registered_consumed:
  assumes "pending_ok_store (app_pending w)" "within_window ae c c' (app_pending w)"
  shows "snd (app_consume c' i (app_register ae c i w))"
proof (cases "app_pending w")
  case (PendingMemory p)
  have ok: "hm_ok (pe_map (memory_register (cl_clock c 0) i p))" using assms(1) PendingMemory memory_one_shot(1) by simp
  have "hm_get (pe_map (memory_register (cl_clock c 0) i p)) i = Some (unix_ms (cl_clock c 0))" by (simp add: memory_register_def Let_def)
  moreover have "\<not> pending_is_expired (unix_ms (cl_clock c 0)) (unix_ms (cl_clock c' 0))"
    using assms(2) PendingMemory by (auto simp: within_window_def pending_is_expired_def PENDING_REQUEST_TTL_MS_def PENDING_REQUEST_TTL_SECS_def)
  ultimately show ?thesis using memory_consume_iff [OF ok, of "cl_clock c' 0" i] PendingMemory
    by (simp add: memory_consume_fst_snd del: pending_consume.simps)
next
  case (PendingDatabase t)
  with assms(2) show ?thesis by (simp add: within_window_def pending_db_register_def pending_db_consume_def pending_cutoff_def split: option.splits)
qed

lemma consumed_once:
  assumes "pending_ok_store (app_pending w)" "snd (app_consume c i w)"
  shows "\<not> snd (app_consume c' i (fst (app_consume c i w)))"
proof
  assume again: "snd (app_consume c' i (fst (app_consume c i w)))"
  have n: "\<not> pending_known (fst (pending_consume (cl_ios c 0) (cl_clock c 0) i (app_pending w))) i"
    using one_shot.consume_needs [OF assms(1), of "(cl_ios c 0, cl_clock c 0)" i] assms(2) by simp
  have ok: "pending_ok_store (fst (pending_consume (cl_ios c 0) (cl_clock c 0) i (app_pending w)))"
    using one_shot.consume_ok [OF assms(1), of "(cl_ios c 0, cl_clock c 0)" i] by simp
  from one_shot.consume_needs [OF ok, of "(cl_ios c' 0, cl_clock c' 0)" i] again n show False by simp
qed

lemma taken_of_cookie: "fst (take_bound_authn_id env (hm_insert (sc_name (flow_cookie (sm_sha256 env) acs i hs)) (sc_value (flow_cookie (sm_sha256 env) acs i hs)) jar) acs hs') =
    (if ua_hash (sm_sha256 env) hs' = ua_hash (sm_sha256 env) hs then res_ok (message_id_parse env i) else None)"
  using rsplit_once_append [OF ua_hash_no_dot, of i]
  by (simp add: take_bound_authn_id_def flow_cookie_def Let_def parse_bound_value_def bound_value_def)

lemma handle_login_PostForm:
  assumes "handle_login env wire app fresh clock au jar hs w = (w', PostForm jar' cookie form)"
  shows "w' = ah_register_pending app fresh w \<and> (let c = flow_cookie (sm_sha256 env) (dv_acs_url (ac_dv (au_config au))) fresh hs in
    cookie = Some c \<and> jar' = hm_insert (sc_name c) (sc_value c) jar)"
  using assms
  by (auto simp: handle_login_def build_login_response_def signed_authn_request_def create_authn_request_def bind_res_Ok Let_def apsnd_def map_prod_def
      split: option.splits sum.splits prod.splits)

text \<open>C16: A login that was started comes back: the form's cookie, presented by a browser with the
  same User-Agent, names the request that was sent, another browser's is refused, and within
  fifteen minutes the request is consumed exactly once, in memory or in the database.\<close>

theorem login_comes_back:
  assumes "handle_login env wire (app_hooks ae c) fresh clock au jar hs w = (w', PostForm jar' cookie form)"
    and "message_id_parse env fresh = Ok fresh" "pending_ok_store (app_pending w)" "within_window ae c c' (app_pending w)"
  shows "fst (take_bound_authn_id env jar' (dv_acs_url (ac_dv (au_config au))) hs') =
      (if ua_hash (sm_sha256 env) hs' = ua_hash (sm_sha256 env) hs then Some fresh else None)
    \<and> snd (app_consume c' fresh w') \<and> \<not> snd (app_consume c'' fresh (fst (app_consume c' fresh w')))"
proof -
  let ?c = "flow_cookie (sm_sha256 env) (dv_acs_url (ac_dv (au_config au))) fresh hs"
  have w: "w' = app_register ae c fresh w" and j: "jar' = hm_insert (sc_name ?c) (sc_value ?c) jar"
    using handle_login_PostForm [OF assms(1)] by (simp_all add: app_hooks_def Let_def)
  have ok: "pending_ok_store (app_pending w')"
    using one_shot.register_ok [OF assms(3), of "(ae_db_time ae, cl_ios c, cl_clock c)" fresh] by (simp add: w)
  have s: "snd (app_consume c' fresh w')" using registered_consumed [OF assms(3,4)] w by simp
  from taken_of_cookie [of env "dv_acs_url (ac_dv (au_config au))" fresh hs jar hs'] s consumed_once [OF ok s] assms(2) show ?thesis
    by (simp add: j res_ok_def)
qed

abbreviation "ex_started \<equiv> handle_login ex_env ex_wire (app_hooks ex_app ex_call) (lit ''_q'') ex_clock ex_service [] [] ex_state"

lemma ex_login: "snd ex_started = PostForm ex_jar (Some (flow_cookie (\<lambda>bs. bs) (lit ''acs'') (lit ''_q'') [])) ()"
proof -
  have n: "cookie_name (is_https (lit ''acs'')) = FLOW_COOKIE_DEV" by (simp add: cookie_name_def is_https_def starts_with_def lit_def)
  have "signed_authn_request ex_wire (lit ''_q'') 0 (au_config ex_service) (au_dv_keys ex_service) [] = Ok (lit ''_q'', [])"
    by (simp add: signed_authn_request_def ex_rd_trusted bind_res_def create_authn_request_def) (simp add: ex_wire_def)
  then show ?thesis
    by (simp add: handle_login_def rd_metadata_def ex_rd_trusted build_login_response_def Let_def bind_res_def flow_cookie_def n)
      (simp add: ex_rd_def bind_res_def ex_wire_def ex_jar_def hm_insert_def ex_service_def n)
qed

theorem login_comes_back_witness:
  "fst (take_bound_authn_id ex_env ex_jar (lit ''acs'') []) = Some (lit ''_q'') \<and> snd (app_consume ex_call (lit ''_q'') (fst ex_started))
    \<and> \<not> snd (app_consume ex_call (lit ''_q'') (fst (app_consume ex_call (lit ''_q'') (fst ex_started))))"
proof -
  have l: "ex_started = (fst ex_started, PostForm ex_jar (Some (flow_cookie (\<lambda>bs. bs) (lit ''acs'') (lit ''_q'') [])) ())"
    using ex_login by (metis prod.collapse)
  have o: "pending_ok_store (app_pending ex_state)" "within_window ex_app ex_call ex_call (app_pending ex_state)"
    by (simp_all add: ex_state_def hm_ok_def within_window_def PENDING_REQUEST_TTL_MS_def PENDING_REQUEST_TTL_SECS_def)
  have "dv_acs_url (ac_dv (au_config ex_service)) = lit ''acs''" by (simp add: ex_service_def)
  with login_comes_back [OF l ex_name_ok(4) o, of "[]" ex_call] show ?thesis by (simp del: app_pending_simps)
qed

subsection \<open>The descriptor of the identity provider\<close>







end
