(* ===== verification/Key_Login.thy ===== *)
theory Key_Login
  imports App_Facts
begin

text \<open>
  The login of a committee member with a security key (WebAuthn): the configured users
  (\<open>core/csb_webauthn.rs\<close>, \<open>core/csb_username.rs\<close>), the checks on what the browser posts
  (\<open>auth/csb_webauthn/assertion.rs\<close>), the login (\<open>auth/csb_webauthn/mod.rs\<close>) and its pages
  (\<open>csb/login/pages\<close>, \<open>form/switch_election.rs\<close>).

  JSON, base64, URLs, DER and ES256 are packages: the record \<open>webauthn_env\<close>. An \<open>Origin\<close> is its
  serialisation.
\<close>

unbundle bit_operations_syntax

subsection \<open>What the browser posts\<close>

record assertion =
  an_credential_type :: rstring
  an_raw_id :: credential_id
  an_authenticator_data :: "byte list"
  an_client_data_json :: "byte list"
  an_signature :: "byte list"
  an_client_extension_results :: "rstring list"

record client_data =
  cd_ceremony :: rstring
  cd_challenge :: rstring
  cd_origin :: rstring
  cd_cross_origin :: bool
  cd_top_origin :: "rstring option"

record 'k webauthn_env =
  wa_assertion :: "rstring \<Rightarrow> rstring + assertion"
  wa_client_data :: "byte list \<Rightarrow> client_data option"
  wa_origin :: "rstring \<Rightarrow> rstring option"
  wa_url :: "rstring \<Rightarrow> rstring + rstring \<times> rstring option \<times> rstring"
  wa_base64 :: "rstring \<Rightarrow> byte list option"
  wa_public_key :: "byte list \<Rightarrow> 'k option"
  wa_verify :: "'k \<Rightarrow> byte list \<Rightarrow> byte list \<Rightarrow> bool"
  wa_sha256 :: hash_fn
  wa_escaped :: "nat \<Rightarrow> bool"

datatype assertion_error =
    NotPublicKeyCredential | ClientDataMalformed | WrongCeremony | ChallengeMismatch | OriginMismatch | CrossOrigin
  | AuthenticatorDataMalformed | RpIdMismatch | UserNotPresent | UserNotVerified | BackupFlagSet | UnrequestedOutputs
  | SignatureInvalid | SignCountNotAdvanced

fun assertion_error_display :: "assertion_error \<Rightarrow> rstring" where
  "assertion_error_display NotPublicKeyCredential = lit ''credential is not of type public-key''"
| "assertion_error_display ClientDataMalformed = lit ''client data is malformed''"
| "assertion_error_display WrongCeremony = lit ''client data is not from a webauthn.get ceremony''"
| "assertion_error_display ChallengeMismatch = lit ''challenge does not match the one issued''"
| "assertion_error_display OriginMismatch = lit ''origin does not match the configured origin''"
| "assertion_error_display CrossOrigin = lit ''client data reports a cross-origin (framed) ceremony''"
| "assertion_error_display AuthenticatorDataMalformed = lit ''authenticator data has the wrong length''"
| "assertion_error_display RpIdMismatch = lit ''relying-party id hash does not match''"
| "assertion_error_display UserNotPresent = lit ''user presence flag is not set''"
| "assertion_error_display UserNotVerified = lit ''user verification flag is not set''"
| "assertion_error_display BackupFlagSet = lit ''backup flags are set: not a hardware security key''"
| "assertion_error_display UnrequestedOutputs = lit ''assertion carries extension outputs or attested credential data that were not requested''"
| "assertion_error_display SignatureInvalid = lit ''signature does not verify under the registered key''"
| "assertion_error_display SignCountNotAdvanced = lit ''signature counter did not advance (cloned key?)''"

subsection \<open>The configured users\<close>

definition USERNAME_MAX_LEN :: nat where "USERNAME_MAX_LEN = 64"

definition username_parse :: "'k webauthn_env \<Rightarrow> rstring \<Rightarrow> rstring + rstring" where
  "username_parse env v =
    (if v = [] \<or> USERNAME_MAX_LEN < str_len v then Err (lit ''username must be 1 to '' @ nat_text USERNAME_MAX_LEN @ lit '' characters'')
     else if \<not> list_all (\<lambda>c. is_ascii_alphanumeric c \<or> c \<in> {46, 45, 95, 64}) v
     then Err (lit ''username '' @ debug_text (wa_escaped env) v @ lit '' may only contain ASCII letters, digits, '' @ [39] @ lit ''.'' @ [39] @ lit '', ''
       @ [39] @ lit ''-'' @ [39] @ lit '', '' @ [39] @ lit ''_'' @ [39] @ lit '' or '' @ [39] @ lit ''@'' @ [39])
     else Ok v)"

record 'k keyed_user = csb_webauthn_user +
  wu_public_key :: 'k

record 'k csb_webauthn_config =
  wc_origin :: rstring
  wc_rp_id :: rstring
  wc_users :: "'k keyed_user list"

definition parse_user :: "'k webauthn_env \<Rightarrow> rstring \<Rightarrow> rstring + 'k keyed_user" where
  "parse_user env entry = (case split_on 58 entry of
      [username, credential_id, public_key] \<Rightarrow>
        (case wa_base64 env credential_id of
          None \<Rightarrow> Err (lit ''credential id of '' @ username @ lit '' is not unpadded base64url'')
        | Some cid \<Rightarrow>
            if cid = [] then Err (lit ''credential id of '' @ username @ lit '' is empty'')
            else (case wa_base64 env public_key of
                None \<Rightarrow> Err (lit ''public key of '' @ username @ lit '' is not unpadded base64url'')
              | Some der \<Rightarrow> (case wa_public_key env der of
                  None \<Rightarrow> Err (lit ''public key of '' @ username @ lit '' is not a P-256 public key'')
                | Some key \<Rightarrow> bind_res (username_parse env username) (\<lambda>name.
                    Ok \<lparr>wu_username = name, wu_credential_id = cid, wu_public_key = key\<rparr>))))
    | _ \<Rightarrow> Err (lit ''entry '' @ debug_text (wa_escaped env) entry @ lit '' is not username:credential-id:public-key''))"

definition user_entries :: "rstring option \<Rightarrow> rstring list" where
  "user_entries users = filter (\<lambda>e. e \<noteq> []) (map trim (split_on 44 (case users of None \<Rightarrow> [] | Some u \<Rightarrow> u)))"

text \<open>The first user who shares a name or a key with an earlier one.\<close>

fun find_duplicate :: "'k keyed_user list \<Rightarrow> 'k keyed_user list \<Rightarrow> rstring option" where
  "find_duplicate earlier [] = None"
| "find_duplicate earlier (u # us) =
    (if list_ex (\<lambda>x. wu_username x = wu_username u) earlier
     then Some (lit ''CSB_WEBAUTHN_USERS: username '' @ wu_username u @ lit '' is listed twice'')
     else if list_ex (\<lambda>x. wu_credential_id x = wu_credential_id u) earlier
     then Some (lit ''CSB_WEBAUTHN_USERS: the security key of '' @ wu_username u @ lit '' is registered for another user too'')
     else find_duplicate (earlier @ [u]) us)"

definition webauthn_config_parse :: "'k webauthn_env \<Rightarrow> rstring \<Rightarrow> rstring option \<Rightarrow> rstring + 'k csb_webauthn_config" where
  "webauthn_config_parse env origin users = (case wa_url env (trim origin) of
      Err e \<Rightarrow> Err (lit ''CSB_WEBAUTHN_ORIGIN: '' @ e)
    | Ok (scheme, host, url_origin) \<Rightarrow>
        (case (if scheme \<in> {lit ''https'', lit ''http''} then host else None) of
          None \<Rightarrow> Err (lit ''CSB_WEBAUTHN_ORIGIN must be an http(s) origin with a host'')
        | Some rp_id \<Rightarrow>
            (case collect_res (parse_user env) (user_entries users) of
              Err e \<Rightarrow> Err (lit ''CSB_WEBAUTHN_USERS: '' @ e)
            | Ok us \<Rightarrow> (case find_duplicate [] us of
                Some e \<Rightarrow> Err e
              | None \<Rightarrow> Ok \<lparr>wc_origin = url_origin, wc_rp_id = rp_id, wc_users = us\<rparr>))))"

definition rp_id_hash :: "'k webauthn_env \<Rightarrow> 'k csb_webauthn_config \<Rightarrow> byte list" where
  "rp_id_hash env cfg = wa_sha256 env (str_bytes (wc_rp_id cfg))"

definition user_by_credential_id :: "'k csb_webauthn_config \<Rightarrow> credential_id \<Rightarrow> 'k keyed_user option" where
  "user_by_credential_id cfg cid = find (\<lambda>u. wu_credential_id u = cid) (wc_users cfg)"

subsection \<open>Verification of the assertion\<close>

definition AUTHENTICATOR_DATA_LEN :: nat where "AUTHENTICATOR_DATA_LEN = 37"
definition FLAG_USER_PRESENT :: byte where "FLAG_USER_PRESENT = 0x01"
definition FLAG_USER_VERIFIED :: byte where "FLAG_USER_VERIFIED = 0x04"
definition FLAG_BACKUP_ELIGIBLE :: byte where "FLAG_BACKUP_ELIGIBLE = 0x08"
definition FLAG_BACKUP_STATE :: byte where "FLAG_BACKUP_STATE = 0x10"
definition FLAG_ATTESTED_CREDENTIAL_DATA :: byte where "FLAG_ATTESTED_CREDENTIAL_DATA = 0x40"
definition FLAG_EXTENSION_DATA :: byte where "FLAG_EXTENSION_DATA = 0x80"

record 'k expected =
  ex_challenge :: rstring
  ex_origin :: rstring
  ex_rp_id_hash :: "byte list"
  ex_public_key :: 'k

definition an_client_data :: "'k webauthn_env \<Rightarrow> assertion \<Rightarrow> assertion_error + client_data" where
  "an_client_data env a = (let json = (if take 3 (an_client_data_json a) = [0xEF, 0xBB, 0xBF] then drop 3 (an_client_data_json a)
       else an_client_data_json a) in ok_or ClientDataMalformed (wa_client_data env json))"

definition an_challenge :: "'k webauthn_env \<Rightarrow> assertion \<Rightarrow> assertion_error + rstring" where
  "an_challenge env a = bind_res (an_client_data env a) (\<lambda>c. Ok (cd_challenge c))"

definition verify_client_data :: "'k webauthn_env \<Rightarrow> 'k expected \<Rightarrow> assertion \<Rightarrow> assertion_error + unit" where
  "verify_client_data env e a = bind_res (an_client_data env a) (\<lambda>c.
     if cd_ceremony c \<noteq> lit ''webauthn.get'' then Err WrongCeremony
     else if str_bytes (cd_challenge c) \<noteq> str_bytes (ex_challenge e) then Err ChallengeMismatch
     else (case wa_origin env (cd_origin c) of
         None \<Rightarrow> Err OriginMismatch
       | Some origin \<Rightarrow>
           if origin \<noteq> ex_origin e then Err OriginMismatch
           else if cd_cross_origin c \<or> cd_top_origin c \<noteq> None then Err CrossOrigin
           else Ok ()))"

definition u32_from_be_bytes :: "byte list \<Rightarrow> 32 word" where
  "u32_from_be_bytes bs = fold (\<lambda>b n. n * 256 + of_nat (unat b)) bs 0"

definition verify_authenticator_data :: "'k expected \<Rightarrow> assertion \<Rightarrow> assertion_error + 32 word" where
  "verify_authenticator_data e a = (let d = an_authenticator_data a in
     if length d < AUTHENTICATOR_DATA_LEN then Err AuthenticatorDataMalformed
     else if take 32 d \<noteq> ex_rp_id_hash e then Err RpIdMismatch
     else let flags = d ! 32 in
       if flags AND FLAG_USER_PRESENT = 0 then Err UserNotPresent
       else if flags AND FLAG_USER_VERIFIED = 0 then Err UserNotVerified
       else if flags AND (FLAG_BACKUP_ELIGIBLE OR FLAG_BACKUP_STATE) \<noteq> 0 then Err BackupFlagSet
       else if flags AND (FLAG_ATTESTED_CREDENTIAL_DATA OR FLAG_EXTENSION_DATA) \<noteq> 0 \<or> an_client_extension_results a \<noteq> [] then Err UnrequestedOutputs
       else if length d \<noteq> AUTHENTICATOR_DATA_LEN then Err AuthenticatorDataMalformed
       else Ok (u32_from_be_bytes (take 4 (drop 33 d))))"

definition verify_assertion_signature :: "'k webauthn_env \<Rightarrow> 'k \<Rightarrow> assertion \<Rightarrow> assertion_error + unit" where
  "verify_assertion_signature env key a =
    (if wa_verify env key (an_authenticator_data a @ wa_sha256 env (an_client_data_json a)) (an_signature a) then Ok () else Err SignatureInvalid)"

definition verify_assertion :: "'k webauthn_env \<Rightarrow> 'k expected \<Rightarrow> assertion \<Rightarrow> assertion_error + 32 word" where
  "verify_assertion env e a =
    (if an_credential_type a \<noteq> lit ''public-key'' then Err NotPublicKeyCredential
     else bind_res (verify_client_data env e a) (\<lambda>_.
       bind_res (verify_authenticator_data e a) (\<lambda>sign_count.
       bind_res (verify_assertion_signature env (ex_public_key e) a) (\<lambda>_. Ok sign_count))))"

subsection \<open>The login\<close>

record verified_login =
  vl_username :: rstring
  vl_credential_id :: credential_id
  vl_sign_count :: "32 word"

datatype login_failure =
    AssertionMalformed rstring | LoginChallengeMalformed | LoginChallengeNotPending | UnknownKey | NoElection
  | LoginRejected rstring assertion_error

fun failure_username :: "login_failure \<Rightarrow> rstring option" where
  "failure_username (LoginRejected username _) = Some username"
| "failure_username _ = None"

fun login_failure_display :: "login_failure \<Rightarrow> rstring" where
  "login_failure_display (AssertionMalformed e) = lit ''assertion is malformed: '' @ e"
| "login_failure_display LoginChallengeMalformed = lit ''challenge is not 32 bytes base64url''"
| "login_failure_display LoginChallengeNotPending = lit ''challenge is unknown, expired, or replayed''"
| "login_failure_display UnknownKey = lit ''assertion is for an unknown security key''"
| "login_failure_display NoElection = lit ''no election was picked''"
| "login_failure_display (LoginRejected _ e) = lit ''assertion rejected: '' @ assertion_error_display e"

fun challenge_login_failure :: "challenge_failure \<Rightarrow> login_failure" where
  "challenge_login_failure ChallengeMalformed = LoginChallengeMalformed"
| "challenge_login_failure ChallengeNotPending = LoginChallengeNotPending"

definition expected_of :: "'k webauthn_env \<Rightarrow> 'k csb_webauthn_config \<Rightarrow> 'k keyed_user \<Rightarrow> rstring \<Rightarrow> 'k expected" where
  "expected_of env cfg user challenge = \<lparr>ex_challenge = challenge, ex_origin = wc_origin cfg, ex_rp_id_hash = rp_id_hash env cfg,
     ex_public_key = wu_public_key user\<rparr>"

definition verify_login :: "'k webauthn_env \<Rightarrow> 'k csb_webauthn_config \<Rightarrow> io \<Rightarrow> timestamp \<Rightarrow> rstring \<Rightarrow> (credential_id \<Rightarrow> 32 word)
    \<Rightarrow> pending_store \<Rightarrow> pending_store \<times> (login_failure + verified_login)" where
  "verify_login env cfg s now credential last_count st = (case wa_assertion env credential of
      Err e \<Rightarrow> (st, Err (AssertionMalformed e))
    | Ok a \<Rightarrow> (case user_by_credential_id cfg (an_raw_id a) of
        None \<Rightarrow> (st, Err UnknownKey)
      | Some user \<Rightarrow> (case an_challenge env a of
          Err e \<Rightarrow> (st, Err (LoginRejected (wu_username user) e))
        | Ok challenge \<Rightarrow> (case consume_challenge (wa_base64 env) s now challenge st of
            (st, Inl e) \<Rightarrow> (st, Err (challenge_login_failure e))
          | (st, Inr _) \<Rightarrow> (case verify_assertion env (expected_of env cfg user challenge) a of
              Err e \<Rightarrow> (st, Err (LoginRejected (wu_username user) e))
            | Ok sign_count \<Rightarrow>
                if \<not> sign_count_advanced (last_count (wu_credential_id user)) sign_count
                then (st, Err (LoginRejected (wu_username user) SignCountNotAdvanced))
                else (st, Ok \<lparr>vl_username = wu_username user, vl_credential_id = wu_credential_id user, vl_sign_count = sign_count\<rparr>))))))"

subsection \<open>The pages\<close>

record switch_election_form =
  sf_election :: rstring
  sf_domain_province :: "rstring option"
  sf_domain_water_council :: "rstring option"

definition into_election_config :: "domains \<Rightarrow> switch_election_form \<Rightarrow> election_config option" where
  "into_election_config g f = (case first_some (\<lambda>d. from_code_and_domain g (sf_election f) (Some d))
       (filter (\<lambda>s. s \<noteq> []) (List.map_filter (\<lambda>x. x) [sf_domain_province f, sf_domain_water_council f])) of
      Some e \<Rightarrow> Some e
    | None \<Rightarrow> from_code_and_domain g (sf_election f) None)"

text \<open>The main stream of an election: opening and loading its store, its snapshot, the append and
  what other requests do in between.\<close>

record 's main_stream =
  ms_open :: "election_config \<Rightarrow> 's \<Rightarrow> 's \<times> unit result"
  ms_load :: "election_config \<Rightarrow> 's \<Rightarrow> 's \<times> unit result"
  ms_snapshot :: "election_config \<Rightarrow> 's \<Rightarrow> csb_main_data"
  ms_append :: "election_config \<Rightarrow> nat \<Rightarrow> csb_main_event \<Rightarrow> nat option \<Rightarrow> 's \<Rightarrow> 's \<times> unit result"
  ms_other :: "nat \<Rightarrow> 's \<Rightarrow> 's"

datatype key_reply = KeyLoginFailed login_failure | KeyLoggedIn jar session_cookie rstring | KeyLoginPanic

definition committee_session :: "('j, 's) app_env \<Rightarrow> app_call \<Rightarrow> rstring \<Rightarrow> election_config \<Rightarrow> headers \<Rightarrow> session" where
  "committee_session ae c username election hs = set_user_agent_hash (user_agent_hash (sv_sha256 (ae_sessions ae)) hs)
     (for_committee (sv_sha256 (ae_sessions ae)) (cl_raw_token c) (cl_csrf c) (cl_clock c 2) (SecurityKey username) election Nl)"

definition establish_committee_session :: "('j, 's) app_env \<Rightarrow> 's main_stream \<Rightarrow> app_call \<Rightarrow> election_config \<Rightarrow> verified_login \<Rightarrow> jar \<Rightarrow> headers
    \<Rightarrow> ('j, 's) app_state \<Rightarrow> ('j, 's) app_state \<times> key_reply result" where
  "establish_committee_session ae ms c election login jar hs w =
    (let session = committee_session ae c (vl_username login) election hs in
     case record_security_key_login (ms_snapshot ms election) (ms_append ms election) (ms_other ms) (SecurityKey (vl_username login))
        (vl_credential_id login) (vl_sign_count login) (app_streams w) of
       (s, Inl e) \<Rightarrow> (w\<lparr>app_streams := s\<rparr>, Err e)
     | (s, Inr False) \<Rightarrow> (w\<lparr>app_streams := s\<rparr>, Ok (KeyLoginFailed (LoginRejected (vl_username login) SignCountNotAdvanced)))
     | (s, Inr True) \<Rightarrow>
         (let w = w\<lparr>app_streams := s\<rparr> in
          case establish_session (ae_sessions ae) (app_stmts c) (cl_clock c 3) (session_token ae jar) session (app_sessions w) of
            None \<Rightarrow> (w, Ok KeyLoginPanic)
          | Some (st, Inl e) \<Rightarrow> (w\<lparr>app_sessions := st\<rparr>, Err e)
          | Some (st, Inr token) \<Rightarrow> (w\<lparr>app_sessions := st\<rparr>,
              let cookie = build_cookie (ae_dev_features ae) (SESSION_COOKIE_NAME (ae_dev_features ae)) token (origin_same_site SameSiteLogin)
              in Ok (KeyLoggedIn (hm_insert (ck_name cookie) (ck_value cookie) jar) cookie CsbIndexPath))))"

definition login_finish :: "'k webauthn_env \<Rightarrow> 'k csb_webauthn_config option \<Rightarrow> domains \<Rightarrow> ('j, 's) app_env \<Rightarrow> 's main_stream \<Rightarrow> app_call
    \<Rightarrow> jar \<Rightarrow> headers \<Rightarrow> rstring \<Rightarrow> switch_election_form option \<Rightarrow> ('j, 's) app_state \<Rightarrow> ('j, 's) app_state \<times> key_reply result" where
  "login_finish env config g ae ms c jar hs credential form w = (case config of
      None \<Rightarrow> (w, Err GenericNotFound)
    | Some cfg \<Rightarrow>
        (case (case ae_default_election ae of Some e \<Rightarrow> Some e | None \<Rightarrow> Option.bind form (into_election_config g)) of
          None \<Rightarrow> (w, Ok (KeyLoginFailed NoElection))
        | Some election \<Rightarrow>
            (case then_do (ms_open ms election (app_streams w)) (ms_load ms election) of
              (s, Inl e) \<Rightarrow> (w\<lparr>app_streams := s\<rparr>, Err e)
            | (s, Inr _) \<Rightarrow>
                (case verify_login env cfg (cl_ios c 0) (cl_clock c 0) credential (last_sign_count (ms_snapshot ms election s)) (app_pending w) of
                  (p, Inl failure) \<Rightarrow> (w\<lparr>app_streams := s, app_pending := p\<rparr>, Ok (KeyLoginFailed failure))
                | (p, Inr login) \<Rightarrow>
                    establish_committee_session ae ms c election login jar hs (w\<lparr>app_streams := s, app_pending := p\<rparr>)))))"

text \<open>The page that starts a login: a registered challenge, and the options for every
  configured key.\<close>

definition CEREMONY_TIMEOUT_MS :: nat where "CEREMONY_TIMEOUT_MS = 300000"

record request_options =
  ro_challenge :: rstring
  ro_rp_id :: rstring
  ro_timeout :: nat
  ro_user_verification :: rstring
  ro_allow_credentials :: "(rstring \<times> credential_id \<times> rstring) list"

definition request_options_of :: "'k csb_webauthn_config \<Rightarrow> rstring \<Rightarrow> request_options" where
  "request_options_of cfg challenge = \<lparr>ro_challenge = challenge, ro_rp_id = wc_rp_id cfg, ro_timeout = CEREMONY_TIMEOUT_MS,
     ro_user_verification = lit ''required'',
     ro_allow_credentials = map (\<lambda>u. (lit ''public-key'', wu_credential_id u, lit ''usb'')) (wc_users cfg)\<rparr>"

definition login_page :: "'k csb_webauthn_config option \<Rightarrow> (byte list \<Rightarrow> rstring) \<Rightarrow> byte list \<Rightarrow> ('j, 's) app_env \<Rightarrow> app_call
    \<Rightarrow> ('j, 's) app_state \<Rightarrow> ('j, 's) app_state \<times> request_options result" where
  "login_page config enc random ae c w = (case config of
      None \<Rightarrow> (w, Err GenericNotFound)
    | Some cfg \<Rightarrow> (case challenge_issue enc random (ae_db_time ae) (cl_ios c) (cl_clock c) (app_pending w) of
        (p, challenge) \<Rightarrow> (w\<lparr>app_pending := p\<rparr>, Ok (request_options_of cfg challenge))))"

end
