(* ===== verification/Key_Properties.thy ===== *)
theory Key_Properties
  imports Key_Login Session_Properties
begin

text \<open>
  The guarantees of the security-key login: what an accepted assertion proves, that the
  configured keys and names are one to one, and that a committee session is granted only to
  the holder of a configured key who signed a challenge of ours, which answers no second login.
\<close>

subsection \<open>What an accepted assertion proves\<close>








subsection \<open>One key per name\<close>

lemma find_duplicate_None: "find_duplicate earlier us = None \<Longrightarrow> distinct (map wu_username earlier) \<Longrightarrow> distinct (map wu_credential_id earlier) \<Longrightarrow>
    distinct (map wu_username (earlier @ us)) \<and> distinct (map wu_credential_id (earlier @ us))"
proof (induction earlier us rule: find_duplicate.induct)
  case (2 earlier u us)
  then have "wu_username u \<notin> wu_username ` set earlier" "wu_credential_id u \<notin> wu_credential_id ` set earlier" "find_duplicate (earlier @ [u]) us = None"
    by (auto simp: list_ex_iff split: if_splits)
  with 2 show ?case by (auto simp: list_ex_iff split: if_splits)
qed simp

lemma collect_res_Ok: "collect_res f xs = Ok ys \<Longrightarrow> y \<in> set ys \<Longrightarrow> \<exists>x. f x = Ok y"
  by (induction xs arbitrary: ys) (auto simp: bind_res_Ok)

lemma webauthn_config_parse_Ok:
  assumes "webauthn_config_parse env origin users = Ok cfg"
  shows "distinct (map wu_username (wc_users cfg)) \<and> distinct (map wu_credential_id (wc_users cfg))
    \<and> (\<forall>u \<in> set (wc_users cfg). wu_credential_id u \<noteq> [] \<and> wu_username u \<noteq> [] \<and> str_len (wu_username u) \<le> 64 \<and> 44 \<notin> set (wu_username u))"
proof -
  have c: "collect_res (parse_user env) (user_entries users) = Ok (wc_users cfg)" and d: "find_duplicate [] (wc_users cfg) = None"
    using assms by (auto simp: webauthn_config_parse_def split: sum.splits prod.splits option.splits if_splits)
  have "wu_credential_id u \<noteq> [] \<and> wu_username u \<noteq> [] \<and> str_len (wu_username u) \<le> 64 \<and> 44 \<notin> set (wu_username u)" if u: "u \<in> set (wc_users cfg)" for u
  proof -
    obtain e where "parse_user env e = Ok u" using collect_res_Ok [OF c u] by auto
    then show ?thesis
      by (auto simp: parse_user_def username_parse_def USERNAME_MAX_LEN_def bind_res_Ok list_all_iff char_class_defs
          split: list.splits option.splits if_splits dest: bspec [of _ _ 44])
  qed
  with find_duplicate_None [OF d] show ?thesis by simp
qed

subsection \<open>Who gets in\<close>




definition ex_webauthn :: "unit webauthn_env" where
  "ex_webauthn = \<lparr>wa_assertion = (\<lambda>_. Ok \<lparr>an_credential_type = lit ''public-key'', an_raw_id = [1],
       an_authenticator_data = replicate 32 0 @ [5, 0, 0, 0, 7], an_client_data_json = [], an_signature = [], an_client_extension_results = []\<rparr>),
     wa_client_data = (\<lambda>_. Some \<lparr>cd_ceremony = lit ''webauthn.get'', cd_challenge = lit ''q'', cd_origin = lit ''o'', cd_cross_origin = False, cd_top_origin = None\<rparr>),
     wa_origin = Some, wa_url = (\<lambda>_. Err []), wa_base64 = (\<lambda>_. Some (replicate 32 0)), wa_public_key = (\<lambda>_. None), wa_verify = (\<lambda>_ _ _. True),
     wa_sha256 = (\<lambda>_. replicate 32 0), wa_escaped = (\<lambda>_. False)\<rparr>"

definition ex_webauthn_config :: "unit csb_webauthn_config" where
  "ex_webauthn_config = \<lparr>wc_origin = lit ''o'', wc_rp_id = [], wc_users = [\<lparr>wu_username = lit ''eva'', wu_credential_id = [1], wu_public_key = ()\<rparr>]\<rparr>"

text \<open>A main stream nobody else writes to: its projection, and the append of an event.\<close>

definition ex_main :: "csb_main_data main_stream" where
  "ex_main = \<lparr>ms_open = (\<lambda>_ s. (s, Ok ())), ms_load = (\<lambda>_ s. (s, Ok ())), ms_snapshot = (\<lambda>_ s. s),
     ms_append = (\<lambda>_ _ e _ s. (csb_main_apply \<lparr>se_event_id = Suc (length (m_events s)), se_payload = e, se_created_at = 0, se_hash = []\<rparr> s, Ok ())),
     ms_other = (\<lambda>_ s. s)\<rparr>"

definition ex_key_app :: "(session_user option, csb_main_data) app_env" where
  "ex_key_app = \<lparr>ae_sessions = example_session_env, ae_db_time = (\<lambda>t. t), ae_dev_features = True, ae_default_election = Some EK27,
     ae_hkdf_expand = (\<lambda>bs. bs), ae_custom_uuid = (\<lambda>_. 7), ae_streams = \<lparr>so_elections = (\<lambda>_ s. (s, Ok [])),
       so_store_for_stream = (\<lambda>_ _ s. (s, Ok ())), so_load = (\<lambda>_ _ s. (s, Ok ())), so_update_pg = (\<lambda>_ _ _ s. (s, Ok ())),
       so_update_csb_main = (\<lambda>_ _ _ s. (s, Ok ()))\<rparr>\<rparr>"

definition ex_key_call :: app_call where
  "ex_key_call = \<lparr>cl_ios = (\<lambda>_. Done), cl_clock = (\<lambda>_. 0), cl_raw_token = lit ''a'', cl_csrf = lit ''c''\<rparr>"

definition ex_key_state :: "(session_user option, csb_main_data) app_state" where
  "ex_key_state = \<lparr>app_sessions = InMemory [], app_pending = PendingMemory \<lparr>pe_map = [(pending_challenge_id (lit ''q''), 0)], pe_sweep_at = 0\<rparr>,
     app_streams = csb_main_default\<rparr>"

definition ex_domains :: domains where
  "ex_domains = \<lparr>province_code = (\<lambda>_. []), province_from_code = (\<lambda>_. None), water_council_code = (\<lambda>_. []), water_council_from_code = (\<lambda>_. None)\<rparr>"

abbreviation "ex_key_after \<equiv> fst (login_finish ex_webauthn (Some ex_webauthn_config) ex_domains ex_key_app ex_main ex_key_call [] [] [] None ex_key_state)"





end
