(* ===== verification/Spec2Isabelle.thy ===== *)
theory Spec2Isabelle
  imports Pg_Properties Csb_Properties Committee_Properties Session_Properties Value_Properties Sweep_Properties Archive_Properties Page_Properties Saml_Properties Key_Properties
begin

text \<open>
  Verification development of e-KS, the application in which political groups prepare their
  candidate lists and the central electoral committee (CSB) examines, recovers and numbers
  them. The Rust crate is under \<open>src/src\<close>; all paths below are relative to it.

  \<^bold>\<open>How the program is put together.\<close> Everything the application knows is an append-only stream
  of events per political group, per group as imported by the committee, and one main stream
  per election for the committee. A stream's rows are encrypted and chained by hash; a
  \<^emph>\<open>projection\<close> is the fold of a stream's events. A store handle holds a projection, brings it
  up to date from the database and appends events, under a row lock, with an optional check
  that the stream did not move since the decision was taken. The committee's streams embed
  the projection of a political group: once as imported, once as corrected on paper, and a
  third derived by applying the committee's own corrections. Omissions found by the committee,
  and the decisions on them, determine what is scrapped; what remains is numbered.

  \<^bold>\<open>Theories and sources.\<close>
  \<^item> \<open>Prelude\<close>: the Rust data types the components share (strings as code points with UTF-8
    lengths, hash maps, ordered sets), the application's error type
    (\<open>error/app_error.rs\<close>) and generic lemmas. The locale \<open>hash_map\<close> is the
    contract of a hash map, interpreted on the association-list operations.
  \<^item> \<open>Domain\<close>: identifiers, names, addresses, persons, lists, authorisations, submitters,
    designations and the political group (\<open>structs/...\<close>), as records and datatypes.
  \<^item> \<open>Crypto\<close>: event and stream-key encryption, associated data and the chain hash
    (\<open>store/crypto.rs\<close>, \<open>store/encoding.rs\<close>, \<open>store/event.rs\<close>).
  \<^item> \<open>Event_Store\<close>: the trait \<open>StoreData\<close> (record \<open>store_data_ops\<close>, laws in the locale
    \<open>store_data\<close>), replay, the store handle and the database backend for one stream
    (\<open>store/mod.rs\<close>, \<open>store/store_handle.rs\<close>, \<open>store/database.rs\<close>, \<open>core/scope.rs\<close>).
  \<^item> \<open>Event_Log\<close>: what the rows of a stream mean; replay and append over well-formed logs.
  \<^item> \<open>Store_Cluster\<close>: several handles on one stream as an inductive step relation.
  \<^item> \<open>Memory_Backend\<close>, \<open>Conditional_Update\<close>: \<open>store/memory.rs\<close> and \<open>Store::update_when\<close> of
    \<open>store/persistence.rs\<close>; the locale \<open>conditional_append\<close> is what the retry loop needs of a
    backend, interpreted for both.
  \<^item> \<open>Hash_Prefix\<close>: \<open>store/event_hash_prefix.rs\<close>. \<open>Election\<close>: \<open>core/election\<close>.
  \<^item> \<open>Pg_Projection\<close>, \<open>Pg_Invariants\<close>, \<open>Pg_Store\<close>: the group's stream (\<open>projection/pg_data\<close>,
    \<open>projection/pg_store.rs\<close>, \<open>core/rate_limit.rs\<close>, \<open>core/constants.rs\<close>).
  \<^item> \<open>Omission\<close>, \<open>Correction\<close>, \<open>Scrapped\<close>, \<open>Brp\<close>: what a committee stream records
    (\<open>structs/csb/...\<close>, \<open>projection/csb_data/scrapped.rs\<close>, \<open>structs/brp/...\<close>).
  \<^item> \<open>Csb_Projection\<close>, \<open>Csb_Invariants\<close>, \<open>Csb_Decisions\<close>, \<open>Csb_Getters\<close>: the committee's
    stream of one group (\<open>projection/csb_data\<close>).
  \<^item> \<open>Csb_Main\<close>, \<open>Numbering\<close>: the committee's main stream (\<open>projection/csb_main\<close>,
    \<open>auth/csb_webauthn/mod.rs\<close>) and the numbering of the lists
    (\<open>csb/finalise/numbering.rs\<close>, \<open>csb/examination/extractors/political_groups.rs\<close>).
  \<^item> \<open>Text\<close>, \<open>Name_Tables\<close>, \<open>Values\<close>: strings as the standard library reads them, the tables of
    name prefixes, countries and place names, and the \<open>FromStr\<close> of every validated form value
    (\<open>form/string_validators.rs\<close>, \<open>structs/common/...\<close>, \<open>utils/locality_aliases.rs\<close>,
    \<open>utils/bag.rs\<close>).
  \<^item> \<open>Session\<close>, \<open>Session_Store\<close>, \<open>Session_Facts\<close>, \<open>Request_Gate\<close>: sessions, their store over
    memory and over the database, and the middleware between a request and its handler
    (\<open>auth/session*.rs\<close>, \<open>auth/csrf_guard.rs\<close>, \<open>app/middleware/session.rs\<close>). The locales
    \<open>session_backend\<close> and \<open>session_switch\<close> are the contracts of the operations on a session,
    interpreted on the store over both backends.
  \<^item> \<open>Brp_Client\<close>, \<open>Brp_Sweep\<close>: the comparison of a candidate with the person register, the
    requests of a batch (\<open>structs/brp/client.rs\<close>, \<open>structs/brp/person.rs\<close>), and the check of a
    stream or one candidate through the write handle of a member
    (\<open>csb/import/pages/import.rs\<close>, \<open>csb/examination/pages/candidate.rs\<close>,
    \<open>projection/csb_store.rs\<close>). The locale \<open>settled_stream\<close> is a stream nobody else writes to,
    interpreted on the in-memory store.
  \<^item> \<open>Problems\<close>, \<open>Problem_Facts\<close>: the problem report of a submission
    (\<open>structs/common/problematic.rs\<close>, \<open>structs/problems\<close>, \<open>projection/pg_data/problems.rs\<close> and
    the \<open>Problematic\<close> implementations). The locale \<open>severity_report\<close> is the trait
    \<open>HasSeverity\<close>, interpreted on every report that has a highest severity.
  \<^item> \<open>Slug\<close>, \<open>Election_Texts\<close>, \<open>Hash_Prefix\<close>, \<open>Model_Inputs\<close>, \<open>Nomination\<close>, \<open>Documents\<close>: the download of
    a submission: file names, titles and districts of an election, printed hashes, the data of
    the printed models, the EML nomination, the archive and the requests
    (\<open>tools/utils/src/slugify_teletex.rs\<close> beside the crate, \<open>core/election\<close>,
    \<open>utils/format_hash.rs\<close>, \<open>models/inputs.rs\<close>, \<open>models/eml\<close>, \<open>models/documents.rs\<close>,
    \<open>pg/finalise/pages/documents.rs\<close>, \<open>pg/audit_log/pages/detail.rs\<close>).
  \<^item> \<open>Forms\<close>, \<open>Form_Facts\<close>, \<open>Entry_Forms\<close>: what the derived validation of a form does
    (\<open>validate/src/lib.rs\<close> beside the crate) and every form of a group and of the committee
    (\<open>pg/*/forms\<close>, \<open>csb/*/forms\<close>), with the check for duplicate persons.
  \<^item> \<open>Csv\<close>, \<open>Csv_Facts\<close>, \<open>Candidate_Import\<close>, \<open>Import_Facts\<close>: uploaded tables (\<open>core/csv.rs\<close>) and
    the import and export of a list (\<open>pg/candidate_lists/importer.rs\<close>,
    \<open>pg/candidate_lists/candidate_record.rs\<close>, \<open>form/file_form.rs\<close>).
  \<^item> \<open>Redirects\<close>: \<open>utils/query_param_state.rs\<close>, \<open>utils/redirect.rs\<close>.
  \<^item> \<open>Actions\<close>, \<open>Pages\<close>, \<open>Page_Requests\<close>: the operations on a group's data through its store
    handle (\<open>pg/*/actions.rs\<close>), every page handler that changes data with its extractors
    (\<open>pg/*/pages\<close>, \<open>pg/*/extractors\<close>), the routes, and the two handles: the group's own
    stream, interrupted by others, and the committee's corrections on paper.
  \<^item> \<open>Page_Logic\<close>, \<open>Page_Handlers\<close>: an invariant of a group's data and a weakest
    precondition calculus for the handlers; the locale \<open>pg_writer\<close> is what a handler needs of a
    handle, interpreted on both.
  \<^item> \<open>Xml_Tree\<close>, \<open>Saml_Types\<close>, \<open>Saml_Signature\<close>, \<open>Saml_Decryption\<close>, \<open>Saml_Validation\<close>,
    \<open>Saml_Metadata\<close>, \<open>Saml_Pending\<close>, \<open>Saml_Flow\<close>: the SAML service provider beside the crate
    (\<open>auth-service/src\<close>): lookups in XML documents, identifiers and keys, signatures, encrypted
    identifiers, the validators of every message, the descriptor of the identity provider with
    its trust and refresh, outstanding requests in memory and in the database
    (\<open>auth/pending_request_*.rs\<close>), and the handlers of login, callback and logout. The locale
    \<open>one_shot_store\<close> is the contract of one-time identifiers, interpreted on both backends.
  \<^item> \<open>App_Auth\<close>, \<open>App_Facts\<close>: the application's hooks of the login (\<open>app/auth.rs\<close>,
    \<open>auth/derive_id.rs\<close>, \<open>auth/session_extractor.rs\<close>). The locale \<open>auth_state\<close> is what the
    handlers rely on of them and what a callback then guarantees, interpreted on the
    application; \<open>Saml_Facts\<close> is what the validators promise, \<open>Saml_Example\<close> one login in full.
  \<^item> \<open>Key_Login\<close>: the login of a committee member with a security key (\<open>core/csb_webauthn.rs\<close>,
    \<open>core/csb_username.rs\<close>, \<open>auth/csb_webauthn\<close>, \<open>csb/login/pages\<close>,
    \<open>form/switch_election.rs\<close>).
  \<^item> \<open>Store_Properties\<close>, \<open>Pg_Properties\<close>, \<open>Csb_Properties\<close>, \<open>Committee_Properties\<close>,
    \<open>Session_Properties\<close>, \<open>Value_Properties\<close>, \<open>Brp_Properties\<close>, \<open>Sweep_Properties\<close>,
    \<open>Problem_Facts\<close>, \<open>Document_Properties\<close>, \<open>Archive_Properties\<close>,
    \<open>Page_Properties\<close>, \<open>Saml_Properties\<close>, \<open>Key_Properties\<close>: the guarantees, each with a
    concrete instance of its hypotheses.

  \<^bold>\<open>State and operations.\<close> A struct is a record, an enum a datatype, \<open>HashMap\<close> an association
  list with distinct keys whose order stands for the unspecified iteration order, \<open>BTreeSet\<close> a
  strictly ascending list, \<open>Result\<close> a sum with the error left. A method that mutates through
  \<open>&mut self\<close> returns the changed value, beside the result where it can fail. The handlers of
  the source that end in \<open>unreachable!\<close> return an option, and the dispatcher is proved never
  to reach \<open>None\<close>. Votes and seats are 64- and 32-bit words. Awaits between the
  decision and the append of a conditional update are explicit: an arbitrary function of the
  attempt stands for what other requests do, assumed only to extend the shared log.

  \<^bold>\<open>What the lemmas show.\<close>
  \<^item> Store: loading a well-formed log gives the fold of its events; in every reachable state
    of any number of handles each projection is a prefix of one shared history; a committed
    event extends that history at the expected place; equal last hashes mean equal logs.
  \<^item> Group stream: limits hold under concurrency; no event makes a list inconsistent;
    deleting a person removes it everywhere; a snapshot is the state at that event.
  \<^item> Committee stream: the derived parts are always what they are derived from; a decision on
    a part changes that part and no other, however omissions are split and merged; a
    correction changes one field; findings of the register are about current values; what is
    scrapped is exactly what unresolved omissions cover; recovery numbers are contiguous.
  \<^item> Committee main stream: counters of security keys only advance; the numbering is a
    complete, contiguous numbering that respects votes and lots; a recorded order is stable.
  \<^item> Sessions: a session that is gone stays gone, its identity never changes and it dies at its
    cap; of two context switches on one view at most one succeeds; the database store refines
    the in-memory one; a request reaches a handler exactly when the gate's conditions hold.
  \<^item> Values: the eleven test is exact and catches single slips; accepted values have the
    documented form and are accepted again unchanged.
  \<^item> Register: a comparison is clean exactly when everything agrees; a clean candidate was
    compared; every request is on record; a sweep records what the register said, and its
    status is true; a result is recorded only on the values it is about.
  \<^item> Documents: a submission can be downloaded exactly when it is complete; then its documents
    can be made, no two files of the archive share a path, and an archive is sent only after
    the download was recorded; a printed hash reads back.
  \<^item> Pages: over every sequence of requests, with others' events landing in the middle, lists
    stay consistent and within their bound, and no natural person is held twice unless a
    blank prefix was typed; the same for the paper version the committee examines; the check
    of an upload ends and is exact; a redirect stays on this host.
  \<^item> Login: a callback grants a session only to the subject of a fully validated chain that
    answers the one outstanding request of this browser, and changes no session unless the
    identity provider answered that request; a request is answered once, and within fifteen
    minutes it can be; the descriptor trusted is signed, pinned and at most seven days old.

  \<^bold>\<open>Bounds.\<close> All loops are structural recursions except the conditional update, which makes
  at most three attempts (\<open>UPDATE_WHEN_ATTEMPTS\<close>), as the source does, giving up being a value,
  the loop that fills up name authorisations, which has a measure, and the scan of an uploaded
  file, a partial function proved to return on every file.

  \<^bold>\<open>Parameters.\<close> AES-256-GCM, CBOR, SHA-256, version-5 UUIDs, the case mapping of strings,
  the range of representable times, the address register, the answers of the person register,
  calendar arithmetic, the EML package, the XML parser, the signature and decryption backend,
  certificate chains, HKDF, the back-channel, the rendering of PDF documents, failures of database statements and the enums generated from the election data are not in
  the repository. They are arguments, with the documented laws as hypotheses, and the
  instances in the property theories show that those can hold.

  \<^bold>\<open>Not modelled.\<close> Handlers that only show data, templates, the layout of documents, translations, SQL
  text and migrations, HTTP clients and cookies (I/O and presentation). Not yet: the store
  registry, the handlers of the committee's pages and the import of a group by the committee.
\<close>

end
